(* ===== verification/Database.thy ===== *)
theory Database
  imports JsPrelude
begin

text \<open>
  The persistent state of the runtime: the D1 tables that the modelled code reads and writes
  (\<open>migrations/*.sql\<close>, the row interfaces of \<open>src/repositories/*.ts\<close> and the status types of
  \<open>src/types.ts\<close>) and the R2 bucket. A table is the list of its rows in insertion order; a
  nullable column is an option; a JSON column holds the parsed document. A row and the record the
  repository maps it to carry the same data (\<open>null\<close> and \<open>undefined\<close> are both \<^const>\<open>None\<close>), so one
  HOL record stands for both where the mapping only renames the fields.
\<close>

section \<open>Status types of \<open>src/types.ts\<close>\<close>

datatype task_status = TaskQueued | TaskRunning | TaskDone | TaskNeedsReview | TaskFailed

datatype draft_status =
  DraftDraft | DraftApproved | DraftQueued | DraftSent | DraftCancelled | DraftFailed

datatype message_status =
  MsgReceived | MsgNormalized | MsgTasked | MsgReplied | MsgIgnored | MsgFailed

datatype outbound_job_status = JobQueued | JobSending | JobSent | JobRetry | JobFailed

datatype delivery_event_type = EvDelivery | EvBounce | EvComplaint | EvReject | EvUnknown

datatype billing_status = BillTrial | BillActive | BillDelinquent | BillSuspended

datatype pricing_tier = TierFree | TierPaidReview | TierPaidActive | TierEnterprise

datatype ledger_entry_type = EtTopup | EtDebitSend | EtDebitReply | EtRefund | EtAdjustment

datatype outbound_status = InternalOnly | ExternalReview | ExternalEnabled | OutboundSuspended

datatype message_provider = ProvCloudflare | ProvInternal | ProvSes | ProvResend

datatype direction = Inbound | Outbound

datatype mailbox_role = RolePrimary | RoleShared | RoleSendOnly | RoleReceiveOnly

datatype idempotency_status = IdemPending | IdemCompleted

datatype receipt_type = RcptTopup | RcptUpgrade | RcptRefund | RcptAdjustment

datatype receipt_status = RcptPending | RcptVerified | RcptSettled | RcptFailed | RcptRefunded

text \<open>The text of a status in the runtime's error messages.\<close>

primrec show_draft_status :: "draft_status \<Rightarrow> string" where
  "show_draft_status DraftDraft = ''draft''"
| "show_draft_status DraftApproved = ''approved''"
| "show_draft_status DraftQueued = ''queued''"
| "show_draft_status DraftSent = ''sent''"
| "show_draft_status DraftCancelled = ''cancelled''"
| "show_draft_status DraftFailed = ''failed''"

section \<open>Rows\<close>

record mailbox_row =
  mb_id :: string
  mb_tenant_id :: string
  mb_address :: string
  mb_status :: string
  mb_created_at :: timestamp

record agent_row =
  ag_id :: string
  ag_tenant_id :: string
  ag_slug :: "string option"
  ag_name :: string
  ag_description :: "string option"
  ag_status :: string
  ag_mode :: string
  ag_config_r2_key :: "string option"
  ag_default_version_id :: "string option"
  ag_created_at :: timestamp
  ag_updated_at :: timestamp

record agent_version_row =
  av_id :: string
  av_agent_id :: string
  av_version :: string
  av_model :: "string option"
  av_config_r2_key :: "string option"
  av_manifest_r2_key :: "string option"
  av_status :: string
  av_created_at :: timestamp

record capability_row =
  cap_id :: string
  cap_agent_version_id :: string
  cap_capability :: string
  cap_config :: "json option"

record tool_binding_row =
  tb_id :: string
  tb_agent_version_id :: string
  tb_tool_name :: string
  tb_enabled :: int
  tb_config :: "json option"
  tb_created_at :: timestamp

record agent_run_row =
  ar_id :: string
  ar_task_id :: string
  ar_agent_id :: string
  ar_model :: "string option"
  ar_status :: string
  ar_trace_r2_key :: "string option"
  ar_started_at :: timestamp
  ar_completed_at :: "timestamp option"

record agent_mailbox_row =
  am_id :: string
  am_tenant_id :: string
  am_agent_id :: string
  am_mailbox_id :: string
  am_role :: mailbox_role
  am_status :: string
  am_created_at :: timestamp

record agent_deployment_row =
  dp_id :: string
  dp_tenant_id :: string
  dp_agent_id :: string
  dp_agent_version_id :: string
  dp_target_type :: string
  dp_target_id :: string
  dp_status :: string
  dp_created_at :: timestamp
  dp_updated_at :: timestamp

record agent_policy_row =
  apr_agent_id :: string
  apr_auto_reply_enabled :: int
  apr_human_review_required :: int
  apr_confidence_threshold :: rat
  apr_max_auto_replies_per_thread :: int
  apr_allowed_recipient_domains_json :: "json option"
  apr_blocked_sender_domains_json :: "json option"
  apr_allowed_tools_json :: "json option"
  apr_updated_at :: timestamp

record thread_row =
  th_id :: string
  th_tenant_id :: string
  th_mailbox_id :: string
  th_thread_key :: string
  th_subject_norm :: "string option"
  th_last_message_at :: "timestamp option"
  th_status :: string

record message_row =
  msg_id :: string
  msg_tenant_id :: string
  msg_mailbox_id :: string
  msg_thread_id :: "string option"
  msg_direction :: direction
  msg_provider :: message_provider
  msg_internet_message_id :: "string option"
  msg_provider_message_id :: "string option"
  msg_from_addr :: string
  msg_to_addr :: string
  msg_subject :: "string option"
  msg_snippet :: "string option"
  msg_status :: message_status
  msg_raw_r2_key :: "string option"
  msg_normalized_r2_key :: "string option"
  msg_received_at :: "timestamp option"
  msg_sent_at :: "timestamp option"
  msg_created_at :: timestamp

record attachment_row =
  att_id :: string
  att_message_id :: string
  att_filename :: "string option"
  att_content_type :: "string option"
  att_size_bytes :: int
  att_sha256 :: "string option"
  att_r2_key :: string
  att_created_at :: timestamp

record task_row =
  tsk_id :: string
  tsk_tenant_id :: string
  tsk_mailbox_id :: string
  tsk_source_message_id :: string
  tsk_task_type :: string
  tsk_priority :: int
  tsk_status :: task_status
  tsk_assigned_agent :: "string option"
  tsk_result_r2_key :: "string option"
  tsk_created_at :: timestamp
  tsk_updated_at :: timestamp

record draft_row =
  dr_id :: string
  dr_tenant_id :: string
  dr_agent_id :: string
  dr_mailbox_id :: string
  dr_thread_id :: "string option"
  dr_source_message_id :: "string option"
  dr_created_via :: "string option"
  dr_status :: draft_status
  dr_draft_r2_key :: string
  dr_created_at :: timestamp
  dr_updated_at :: timestamp

record outbound_job_row =
  oj_id :: string
  oj_message_id :: string
  oj_task_id :: "string option"
  oj_status :: outbound_job_status
  oj_ses_region :: string
  oj_retry_count :: int
  oj_next_retry_at :: "timestamp option"
  oj_last_error :: "string option"
  oj_draft_r2_key :: string
  oj_created_at :: timestamp
  oj_updated_at :: timestamp

record delivery_event_row =
  ev_id :: string
  ev_message_id :: "string option"
  ev_provider :: string
  ev_provider_message_id :: "string option"
  ev_event_type :: delivery_event_type
  ev_payload_r2_key :: string
  ev_created_at :: timestamp

record suppression_row =
  sup_email :: string
  sup_reason :: string
  sup_source :: string
  sup_created_at :: timestamp

record idempotency_row =
  idem_operation :: string
  idem_tenant_id :: string
  idem_key :: string
  idem_fingerprint :: string
  idem_status :: idempotency_status
  idem_resource_id :: "string option"
  idem_response :: "json option"
  idem_created_at :: timestamp
  idem_updated_at :: timestamp

record billing_account =
  ba_tenant_id :: string
  ba_status :: billing_status
  ba_pricing_tier :: pricing_tier
  ba_default_network :: "string option"
  ba_default_asset :: "string option"
  ba_available_credits :: int
  ba_reserved_credits :: int
  ba_updated_at :: timestamp

record ledger_row =
  cl_id :: string
  cl_tenant_id :: string
  cl_entry_type :: ledger_entry_type
  cl_credits_delta :: int
  cl_reason :: string
  cl_payment_receipt_id :: "string option"
  cl_reference_id :: "string option"
  cl_metadata :: "json option"
  cl_created_at :: timestamp

record send_policy_row =
  sp_tenant_id :: string
  sp_pricing_tier :: pricing_tier
  sp_outbound_status :: outbound_status
  sp_internal_domain_allowlist_json :: "json option"
  sp_external_send_enabled :: int
  sp_review_required :: int
  sp_updated_at :: timestamp

record receipt_row =
  pr_id :: string
  pr_tenant_id :: string
  pr_receipt_type :: receipt_type
  pr_payment_scheme :: string
  pr_network :: "string option"
  pr_asset :: "string option"
  pr_amount_atomic :: string
  pr_amount_display :: "string option"
  pr_payment_reference :: "string option"
  pr_settlement_reference :: "string option"
  pr_proof_fingerprint :: "string option"
  pr_status :: receipt_status
  pr_metadata :: "json option"
  pr_created_at :: timestamp
  pr_updated_at :: timestamp

record did_binding_row =
  did_tenant_id :: string
  did_did :: string
  did_method :: string
  did_document_url :: "string option"
  did_status :: string
  did_verification_method_id :: "string option"
  did_service :: "json option"
  did_verified_at :: "timestamp option"
  did_created_at :: timestamp
  did_updated_at :: timestamp

record token_reissue_row =
  tr_id :: string
  tr_mailbox_address :: string
  tr_requester_ip_hash :: "string option"
  tr_requested_at :: timestamp

section \<open>The store\<close>

text \<open>
  An R2 object is a JSON object (the draft payloads) or raw bytes; reading raw bytes as JSON is a
  parse error of \<open>object.json()\<close>.
\<close>

datatype r2_object = R2Json json_object | R2Raw string

record store =
  mailboxes :: "mailbox_row list"
  agents :: "agent_row list"
  agent_versions :: "agent_version_row list"
  agent_capabilities :: "capability_row list"
  agent_tool_bindings :: "tool_binding_row list"
  agent_runs :: "agent_run_row list"
  agent_mailboxes :: "agent_mailbox_row list"
  agent_deployments :: "agent_deployment_row list"
  agent_policies :: "agent_policy_row list"
  threads :: "thread_row list"
  messages :: "message_row list"
  attachments :: "attachment_row list"
  tasks :: "task_row list"
  drafts :: "draft_row list"
  outbound_jobs :: "outbound_job_row list"
  delivery_events :: "delivery_event_row list"
  suppressions :: "suppression_row list"
  idempotency_keys :: "idempotency_row list"
  billing_accounts :: "billing_account list"
  credit_ledger :: "ledger_row list"
  send_policies :: "send_policy_row list"
  payment_receipts :: "receipt_row list"
  did_bindings :: "did_binding_row list"
  token_reissues :: "token_reissue_row list"
  r2 :: "string \<Rightarrow> r2_object option"

definition empty_store :: store where
  "empty_store = \<lparr>mailboxes = [], agents = [], agent_versions = [],
     agent_capabilities = [], agent_tool_bindings = [], agent_runs = [], agent_mailboxes = [],
     agent_deployments = [], agent_policies = [], threads = [], messages = [], attachments = [],
     tasks = [], drafts = [], outbound_jobs = [], delivery_events = [], suppressions = [],
     idempotency_keys = [], billing_accounts = [], credit_ledger = [], send_policies = [],
     payment_receipts = [], did_bindings = [], token_reissues = [],
     r2 = (\<lambda>_. None)\<rparr>"

section \<open>Tables\<close>

text \<open>
  What the statements do to a table: \<open>SELECT ... WHERE\<close> is \<^const>\<open>filter\<close>; \<open>UPDATE\<close> and \<open>DELETE\<close>
  also give \<open>meta.changes\<close>, the number of rows they touched.
\<close>

definition tbl_update :: "('r \<Rightarrow> bool) \<Rightarrow> ('r \<Rightarrow> 'r) \<Rightarrow> 'r list \<Rightarrow> 'r list" where
  "tbl_update P f t = map (\<lambda>r. if P r then f r else r) t"

definition tbl_delete :: "('r \<Rightarrow> bool) \<Rightarrow> 'r list \<Rightarrow> 'r list" where
  "tbl_delete P t = filter (\<lambda>r. \<not> P r) t"

definition tbl_count :: "('r \<Rightarrow> bool) \<Rightarrow> 'r list \<Rightarrow> nat" where
  "tbl_count P t = length (filter P t)"

text \<open>
  \<open>ORDER BY k DESC\<close> and \<open>ORDER BY k ASC\<close>; SQLite leaves the order of equal keys open, here it is
  the table's order.
\<close>

definition order_desc :: "('r \<Rightarrow> int) \<Rightarrow> 'r list \<Rightarrow> 'r list" where
  "order_desc k t = sort_key (\<lambda>r. - k r) t"

definition order_asc :: "('r \<Rightarrow> int) \<Rightarrow> 'r list \<Rightarrow> 'r list" where
  "order_asc k t = sort_key k t"

text \<open>\<open>result.results?.[0] ?? null\<close> of \<open>firstRow\<close>.\<close>

definition first_row :: "'r list \<Rightarrow> 'r option" where
  "first_row t = (case t of [] \<Rightarrow> None | r # _ \<Rightarrow> Some r)"

lemma first_row_simps [simp]: "first_row [] = None" "first_row (r # t) = Some r"
  by (simp_all add: first_row_def)

lemma first_row_Some: "first_row t = Some r \<Longrightarrow> r \<in> set t"
  by (cases t) auto

lemma first_row_None [simp]: "first_row t = None \<longleftrightarrow> t = []"
  by (cases t) auto

lemma first_row_filter_Some: "first_row (filter P t) = Some r \<Longrightarrow> r \<in> set t \<and> P r"
  using first_row_Some [of "filter P t" r] by simp

lemma first_row_filter_None: "first_row (filter P t) = None \<longleftrightarrow> (\<forall>r \<in> set t. \<not> P r)"
  by (simp add: filter_empty_conv)

lemma set_order_desc [simp]: "set (order_desc k t) = set t"
  by (simp add: order_desc_def)

lemma length_order_desc [simp]: "length (order_desc k t) = length t"
  by (simp add: order_desc_def)

lemma order_desc_Nil [simp]: "order_desc k t = [] \<longleftrightarrow> t = []" "order_desc k [] = []"
  by (metis length_0_conv length_order_desc) (simp add: order_desc_def)

lemma order_desc_single [simp]: "order_desc k [r] = [r]"
  by (simp add: order_desc_def)

lemma tbl_update_Nil [simp]: "tbl_update P f [] = []"
  by (simp add: tbl_update_def)

lemma length_tbl_update [simp]: "length (tbl_update P f t) = length t"
  by (simp add: tbl_update_def)

lemma map_tbl_update: "(\<And>r. P r \<Longrightarrow> k (f r) = k r) \<Longrightarrow> map k (tbl_update P f t) = map k t"
  by (auto simp: tbl_update_def)

lemma tbl_update_none: "tbl_count P t = 0 \<Longrightarrow> tbl_update P f t = t"
  unfolding tbl_count_def tbl_update_def
  by (rule map_idI) (auto simp: filter_empty_conv)

lemma set_tbl_update: "set (tbl_update P f t) = (\<lambda>r. if P r then f r else r) ` set t"
  by (simp add: tbl_update_def)

lemma filter_tbl_update:
  "(\<And>r. P r \<Longrightarrow> Q (f r) = Q r) \<Longrightarrow> filter Q (tbl_update P f t) = tbl_update P f (filter Q t)"
  by (induction t) (auto simp: tbl_update_def)

lemma sum_tbl_update:
  fixes g :: "'r \<Rightarrow> int"
  shows "(\<And>r. P r \<Longrightarrow> g (f r) = g r) \<Longrightarrow> sum_list (map g (tbl_update P f t)) = sum_list (map g t)"
  by (induction t) (auto simp: tbl_update_def)

lemma tbl_update_single [simp]: "tbl_update P f [r] = [if P r then f r else r]"
  by (simp add: tbl_update_def)

lemma tbl_count_0 [simp]: "tbl_count P t = 0 \<longleftrightarrow> (\<forall>r \<in> set t. \<not> P r)"
  by (simp add: tbl_count_def filter_empty_conv)

lemma set_tbl_delete: "set (tbl_delete P t) = {r \<in> set t. \<not> P r}"
  by (simp add: tbl_delete_def)

lemma filter_replaced:
  assumes "\<And>x. Q x \<Longrightarrow> k x = v"
  shows "filter Q (tbl_update (\<lambda>r. k r = k row) (\<lambda>_. row) t) =
    (if v = k row then if Q row then replicate (tbl_count (\<lambda>r. k r = k row) t) row else []
     else filter Q t)"
  using assms by (induction t) (auto simp: tbl_update_def tbl_count_def)

lemma first_row_replicate: "first_row (replicate n r) = (if n = 0 then None else Some r)"
  by (cases n) simp_all

lemma first_row_append:
  "first_row (t @ u) = (case first_row t of None \<Rightarrow> first_row u | Some r \<Rightarrow> Some r)"
  by (cases t) simp_all

text \<open>A column with pairwise different values: a primary key or a unique index.\<close>

definition unique_by :: "('r \<Rightarrow> 'k) \<Rightarrow> 'r list \<Rightarrow> bool" where
  "unique_by k t \<longleftrightarrow> distinct (map k t)"

lemma unique_by_update:
  "(\<And>r. P r \<Longrightarrow> k (f r) = k r) \<Longrightarrow> unique_by k (tbl_update P f t) = unique_by k t"
  by (simp add: unique_by_def map_tbl_update)

lemma unique_by_append: "unique_by k (t @ [r]) \<longleftrightarrow> unique_by k t \<and> (\<forall>x \<in> set t. k x \<noteq> k r)"
  by (auto simp: unique_by_def image_iff)

lemma unique_by_delete: "unique_by k t \<Longrightarrow> unique_by k (tbl_delete P t)"
  by (simp add: unique_by_def tbl_delete_def distinct_map_filter)

lemma unique_by_filter_key:
  assumes "unique_by k t" "r \<in> set t"
  shows "filter (\<lambda>x. k x = k r) t = [r]"
  using assms
proof (induction t)
  case Nil
  then show ?case by simp
next
  case (Cons x t)
  then have x: "\<forall>y \<in> set t. k y \<noteq> k x" and u: "unique_by k t"
    by (auto simp: unique_by_def image_iff)
  show ?case
  proof (cases "r = x")
    case True
    with x have "filter (\<lambda>y. k y = k r) t = []" by (simp add: filter_empty_conv)
    with True show ?thesis by simp
  next
    case False
    with Cons.prems have r: "r \<in> set t" by simp
    with x have "k x \<noteq> k r" by metis
    with Cons.IH [OF u r] show ?thesis by simp
  qed
qed

text \<open>SQLite's \<open>LIKE\<close>: \<open>%\<close> and \<open>_\<close> are wildcards, ASCII letters match in either case.\<close>

definition ascii_lower :: "char \<Rightarrow> char" where
  "ascii_lower c = (if (of_char c :: nat) < 128 then lower_char c else c)"

fun sql_like :: "string \<Rightarrow> string \<Rightarrow> bool" where
  "sql_like [] [] \<longleftrightarrow> True"
| "sql_like [] (c # cs) \<longleftrightarrow> False"
| "sql_like (p # ps) [] \<longleftrightarrow> p = CHR ''%'' \<and> sql_like ps []"
| "sql_like (p # ps) (c # cs) \<longleftrightarrow>
     (if p = CHR ''%'' then sql_like ps (c # cs) \<or> sql_like (p # ps) cs
      else (p = CHR ''_'' \<or> ascii_lower p = ascii_lower c) \<and> sql_like ps cs)"

section \<open>Statements over one table\<close>

text \<open>
  A table of the store is a pair of its selector and its record update. An \<open>UPDATE\<close>, a \<open>DELETE\<close>
  or an \<open>INSERT\<close> is written over the pair; the first component is \<open>meta.changes\<close>.
\<close>

definition update_rows ::
  "(store \<Rightarrow> 'r list) \<Rightarrow> (('r list \<Rightarrow> 'r list) \<Rightarrow> store \<Rightarrow> store) \<Rightarrow> ('r \<Rightarrow> bool) \<Rightarrow> ('r \<Rightarrow> 'r)
     \<Rightarrow> store \<Rightarrow> nat \<times> store" where
  "update_rows get put P f s = (tbl_count P (get s), put (tbl_update P f) s)"

definition delete_rows ::
  "(store \<Rightarrow> 'r list) \<Rightarrow> (('r list \<Rightarrow> 'r list) \<Rightarrow> store \<Rightarrow> store) \<Rightarrow> ('r \<Rightarrow> bool)
     \<Rightarrow> store \<Rightarrow> nat \<times> store" where
  "delete_rows get put P s = (tbl_count P (get s), put (tbl_delete P) s)"

text \<open>
  \<open>INSERT OR IGNORE\<close> and \<open>INSERT ... SELECT ... WHERE NOT EXISTS\<close> skip the row when \<open>clash\<close>
  holds; a plain \<open>INSERT\<close> fails with a constraint violation then.
\<close>

definition insert_unless ::
  "(('r list \<Rightarrow> 'r list) \<Rightarrow> store \<Rightarrow> store) \<Rightarrow> bool \<Rightarrow> 'r \<Rightarrow> store \<Rightarrow> nat \<times> store" where
  "insert_unless put clash r s = (if clash then (0, s) else (1, put (\<lambda>t. t @ [r]) s))"

definition insert_checked ::
  "(('r list \<Rightarrow> 'r list) \<Rightarrow> store \<Rightarrow> store) \<Rightarrow> bool \<Rightarrow> 'r \<Rightarrow> store \<Rightarrow> (nat \<times> store) option" where
  "insert_checked put clash r s = (if clash then None else Some (1, put (\<lambda>t. t @ [r]) s))"

text \<open>
  \<open>INSERT ... SELECT ... WHERE NOT EXISTS (...)\<close>: nothing is inserted when the dedupe query finds a
  row; otherwise the insertion may still violate a key.
\<close>

definition insert_select ::
  "(('r list \<Rightarrow> 'r list) \<Rightarrow> store \<Rightarrow> store) \<Rightarrow> bool \<Rightarrow> bool \<Rightarrow> 'r \<Rightarrow> store \<Rightarrow> (nat \<times> store) option" where
  "insert_select put dedupe clash r s =
     (if dedupe then Some (0, s) else insert_checked put clash r s)"

text \<open>\<open>INSERT ... ON CONFLICT(k) DO UPDATE SET\<close> every other column.\<close>

definition upsert_row ::
  "(store \<Rightarrow> 'r list) \<Rightarrow> (('r list \<Rightarrow> 'r list) \<Rightarrow> store \<Rightarrow> store) \<Rightarrow> ('r \<Rightarrow> 'k) \<Rightarrow> 'r
     \<Rightarrow> store \<Rightarrow> nat \<times> store" where
  "upsert_row get put k row s =
     (if \<exists>r \<in> set (get s). k r = k row
      then update_rows get put (\<lambda>r. k r = k row) (\<lambda>_. row) s
      else insert_unless put False row s)"

text \<open>An \<open>UPDATE\<close> of an indexed column fails as a whole when it violates the index.\<close>

definition update_checked ::
  "(store \<Rightarrow> 'r list) \<Rightarrow> (('r list \<Rightarrow> 'r list) \<Rightarrow> store \<Rightarrow> store) \<Rightarrow> bool \<Rightarrow> ('r \<Rightarrow> bool)
     \<Rightarrow> ('r \<Rightarrow> 'r) \<Rightarrow> store \<Rightarrow> (nat \<times> store) option" where
  "update_checked get put clash P f s = (if clash then None else Some (update_rows get put P f s))"

lemma insert_hit: "fst (insert_unless put clash r s) \<noteq> 0 \<longleftrightarrow> \<not> clash"
  by (simp add: insert_unless_def)

lemma insert_miss: "fst (insert_unless put clash r s) = 0 \<Longrightarrow> snd (insert_unless put clash r s) = s"
  by (cases clash) (simp_all add: insert_unless_def)

text \<open>What the clients use of a table: reading after writing, and that a miss changes nothing.\<close>

locale table =
  fixes get :: "store \<Rightarrow> 'r list"
    and put :: "('r list \<Rightarrow> 'r list) \<Rightarrow> store \<Rightarrow> store"
  assumes get_put: "get (put f s) = f (get s)"
    and put_same: "f (get s) = get s \<Longrightarrow> put f s = s"
begin

lemma update_miss: "fst (update_rows get put P f s) = 0 \<Longrightarrow> snd (update_rows get put P f s) = s"
  unfolding update_rows_def by (simp add: put_same tbl_update_none)

lemma update_get: "get (snd (update_rows get put P f s)) = tbl_update P f (get s)"
  by (simp add: update_rows_def get_put)

lemma update_hit: "fst (update_rows get put P f s) \<noteq> 0 \<longleftrightarrow> (\<exists>r \<in> set (get s). P r)"
  by (simp add: update_rows_def)

lemma update_exhausts:
  assumes "\<And>r. \<not> Q (f r)" "\<And>r. Q r \<Longrightarrow> P r"
  shows "\<not> (\<exists>r \<in> set (get (snd (update_rows get put P f s))). Q r)"
  using assms by (auto simp: update_get set_tbl_update)

lemma delete_get: "get (snd (delete_rows get put P s)) = tbl_delete P (get s)"
  by (simp add: delete_rows_def get_put)

lemma delete_all_gone: "r \<in> set (get (snd (delete_rows get put P s))) \<Longrightarrow> \<not> P r"
  by (simp add: delete_get set_tbl_delete)

lemma insert_get:
  "get (snd (insert_unless put clash r s)) = (if clash then get s else get s @ [r])"
  by (simp add: insert_unless_def get_put)

lemma insert_found:
  assumes "Q r"
  shows "\<exists>x \<in> set (get (snd (insert_unless put (\<exists>x \<in> set (get s). Q x) r s))). Q x"
  using assms by (auto simp: insert_get)

lemma upsert_get:
  "get (snd (upsert_row get put k row s)) = (if \<exists>r \<in> set (get s). k r = k row
     then tbl_update (\<lambda>r. k r = k row) (\<lambda>_. row) (get s) else get s @ [row])"
  by (simp add: upsert_row_def update_get insert_get)

lemma upsert_first:
  assumes "\<And>x. Q x \<Longrightarrow> k x = v"
  shows "first_row (filter Q (get (snd (upsert_row get put k row s)))) =
    (if v = k row then if Q row then Some row else None else first_row (filter Q (get s)))"
proof (cases "\<exists>r \<in> set (get s). k r = k row")
  case True
  then have "tbl_count (\<lambda>r. k r = k row) (get s) \<noteq> 0" by simp
  with True show ?thesis
    by (simp add: upsert_get filter_replaced [where Q = Q and k = k and v = v, OF assms]
        first_row_replicate del: tbl_count_0)
next
  case False
  then have "v = k row \<Longrightarrow> filter Q (get s) = []" using assms by (auto simp: filter_empty_conv)
  with False assms show ?thesis by (auto simp: upsert_get first_row_append split: option.splits)
qed

lemma update_unique:
  "(\<And>r. P r \<Longrightarrow> k (f r) = k r) \<Longrightarrow>
     unique_by k (get (snd (update_rows get put P f s))) = unique_by k (get s)"
  by (simp add: update_get unique_by_update)

lemma insert_unique:
  assumes "unique_by k (get s)" "\<not> clash \<Longrightarrow> \<forall>x \<in> set (get s). k x \<noteq> k r"
  shows "unique_by k (get (snd (insert_unless put clash r s)))"
  using assms by (simp add: insert_get unique_by_append)

end

interpretation messages_tbl: table messages messages_update
  by unfold_locales simp_all

interpretation drafts_tbl: table drafts drafts_update
  by unfold_locales simp_all

interpretation jobs_tbl: table outbound_jobs outbound_jobs_update
  by unfold_locales simp_all

interpretation tasks_tbl: table tasks tasks_update
  by unfold_locales simp_all

interpretation threads_tbl: table threads threads_update
  by unfold_locales simp_all

interpretation accounts_tbl: table billing_accounts billing_accounts_update
  by unfold_locales simp_all

interpretation ledger_tbl: table credit_ledger credit_ledger_update
  by unfold_locales simp_all

interpretation policies_tbl: table send_policies send_policies_update
  by unfold_locales simp_all

interpretation agent_policies_tbl: table agent_policies agent_policies_update
  by unfold_locales simp_all

interpretation idempotency_tbl: table idempotency_keys idempotency_keys_update
  by unfold_locales simp_all

interpretation receipts_tbl: table payment_receipts payment_receipts_update
  by unfold_locales simp_all

interpretation did_tbl: table did_bindings did_bindings_update
  by unfold_locales simp_all

interpretation events_tbl: table delivery_events delivery_events_update
  by unfold_locales simp_all

section \<open>Visibility\<close>

text \<open>
  The referential guards that almost every statement carries. A message is visible when its
  mailbox exists under its tenant; a job when its message is visible; a draft when its agent and
  its mailbox exist under its tenant; a thread when its mailbox does.
\<close>

definition mailbox_of_tenant :: "store \<Rightarrow> string \<Rightarrow> string \<Rightarrow> bool" where
  "mailbox_of_tenant s mailboxId tenantId \<longleftrightarrow>
     (\<exists>m \<in> set (mailboxes s). mb_id m = mailboxId \<and> mb_tenant_id m = tenantId)"

definition agent_of_tenant :: "store \<Rightarrow> string \<Rightarrow> string \<Rightarrow> bool" where
  "agent_of_tenant s agentId tenantId \<longleftrightarrow>
     (\<exists>a \<in> set (agents s). ag_id a = agentId \<and> ag_tenant_id a = tenantId)"

definition message_visible :: "store \<Rightarrow> message_row \<Rightarrow> bool" where
  "message_visible s m \<longleftrightarrow> mailbox_of_tenant s (msg_mailbox_id m) (msg_tenant_id m)"

definition message_id_visible :: "store \<Rightarrow> string \<Rightarrow> bool" where
  "message_id_visible s i \<longleftrightarrow> (\<exists>m \<in> set (messages s). msg_id m = i \<and> message_visible s m)"

definition job_visible :: "store \<Rightarrow> outbound_job_row \<Rightarrow> bool" where
  "job_visible s j \<longleftrightarrow> message_id_visible s (oj_message_id j)"

definition draft_owned :: "store \<Rightarrow> draft_row \<Rightarrow> bool" where
  "draft_owned s d \<longleftrightarrow> agent_of_tenant s (dr_agent_id d) (dr_tenant_id d)
     \<and> mailbox_of_tenant s (dr_mailbox_id d) (dr_tenant_id d)"

definition thread_visible :: "store \<Rightarrow> thread_row \<Rightarrow> bool" where
  "thread_visible s t \<longleftrightarrow> mailbox_of_tenant s (th_mailbox_id t) (th_tenant_id t)"

text \<open>
  A thread reference of a row of mailbox \<open>mailboxId\<close> and tenant \<open>tenantId\<close> is valid when the thread
  exists in that mailbox and tenant and its mailbox is the tenant's.
\<close>

definition thread_ref_valid :: "store \<Rightarrow> string \<Rightarrow> string \<Rightarrow> string \<Rightarrow> bool" where
  "thread_ref_valid s threadId mailboxId tenantId \<longleftrightarrow>
     (\<exists>t \<in> set (threads s). th_id t = threadId \<and> th_mailbox_id t = mailboxId
        \<and> th_tenant_id t = tenantId \<and> thread_visible s t)"

definition source_ref_valid :: "store \<Rightarrow> string \<Rightarrow> string \<Rightarrow> string \<Rightarrow> bool" where
  "source_ref_valid s messageId mailboxId tenantId \<longleftrightarrow>
     (\<exists>m \<in> set (messages s). msg_id m = messageId \<and> msg_mailbox_id m = mailboxId
        \<and> msg_tenant_id m = tenantId \<and> message_visible s m)"

definition draft_visible :: "store \<Rightarrow> draft_row \<Rightarrow> bool" where
  "draft_visible s d \<longleftrightarrow> draft_owned s d
     \<and> (case dr_thread_id d of None \<Rightarrow> True
        | Some t \<Rightarrow> thread_ref_valid s t (dr_mailbox_id d) (dr_tenant_id d))
     \<and> (case dr_source_message_id d of None \<Rightarrow> True
        | Some m \<Rightarrow> source_ref_valid s m (dr_mailbox_id d) (dr_tenant_id d))"

definition task_visible :: "store \<Rightarrow> task_row \<Rightarrow> bool" where
  "task_visible s t \<longleftrightarrow> mailbox_of_tenant s (tsk_mailbox_id t) (tsk_tenant_id t)
     \<and> (\<exists>m \<in> set (messages s). msg_id m = tsk_source_message_id t
          \<and> msg_tenant_id m = tsk_tenant_id t \<and> msg_mailbox_id m = tsk_mailbox_id t)
     \<and> (case tsk_assigned_agent t of None \<Rightarrow> True
        | Some a \<Rightarrow> agent_of_tenant s a (tsk_tenant_id t))"

end
