(* ===== verification/Effects.thy ===== *)
theory Effects
  imports Database
begin

text \<open>
  The effects of the Worker. An \<open>async\<close> function is a computation \<open>'a io\<close>: it takes the world and
  either throws (\<^const>\<open>Inl\<close>) or returns (\<^const>\<open>Inr\<close>), with the world it leaves. \<open>await m f\<close> is
  \<open>const x = await m; ...\<close>, \<open>try_catch\<close> is \<open>try { ... } catch (error) { ... }\<close> and
  \<open>catch_undefined\<close> is \<open>.catch(() => undefined)\<close>.

  The world holds the store, everything the Worker has sent out, and the environment. Every call
  of a binding (D1, R2, a queue, the mail provider) is one tick. Before the call takes effect the
  other Workers may have changed the store (\<open>others\<close>); the call itself is answered, or refused
  before it has any effect, or applied while its answer is lost (\<open>fault\<close>). The clock, the random
  ids and the provider's replies are read at the tick. A theorem that holds for every world thus
  covers every clock, every interleaving with other Workers at the granularity of one statement,
  and every pattern of failing calls.
\<close>

named_theorems keeps_intros "rules that show that a computation keeps an invariant"
named_theorems run_simps "symbolic execution of computations"
named_theorems returns_intros "rules that show that a computation throws nothing"

section \<open>Errors\<close>

text \<open>\<open>CommittedError e\<close> is \<open>e\<close> with the property \<open>sideEffectCommitted\<close> set.\<close>

datatype js_error =
    PlainError string
  | DraftSendValidationError string nat
  | OutboundPolicyError string
  | ProviderAcceptedPersistenceError string
  | BillingUniquenessError string
  | DidBindingConflictError string
  | OutboundSendValidationError string nat
  | RouteRequestError string nat
  | AgentRegistryConflictError string
  | DeploymentConflictError string
  | MailboxConflictError string
  | InvalidJsonBodyError string
  | SignupError string nat
  | McpToolError string string "json option"
  | CommittedError js_error

primrec error_message :: "js_error \<Rightarrow> string" where
  "error_message (PlainError m) = m"
| "error_message (DraftSendValidationError m st) = m"
| "error_message (OutboundPolicyError m) = m"
| "error_message (ProviderAcceptedPersistenceError m) = m"
| "error_message (BillingUniquenessError m) = m"
| "error_message (DidBindingConflictError m) = m"
| "error_message (OutboundSendValidationError m st) = m"
| "error_message (RouteRequestError m st) = m"
| "error_message (AgentRegistryConflictError m) = m"
| "error_message (DeploymentConflictError m) = m"
| "error_message (MailboxConflictError m) = m"
| "error_message (InvalidJsonBodyError m) = m"
| "error_message (SignupError m st) = m"
| "error_message (McpToolError code m data) = m"
| "error_message (CommittedError e) = error_message e"

text \<open>\<open>/unique constraint/i.test(error.message)\<close> and \<open>/created_via/i.test(error.message)\<close>.\<close>

definition isUniqueConstraintError :: "js_error \<Rightarrow> bool" where
  "isUniqueConstraintError e \<longleftrightarrow> js_includes (js_lower (error_message e)) ''unique constraint''"

definition isMissingCreatedViaColumn :: "js_error \<Rightarrow> bool" where
  "isMissingCreatedViaColumn e \<longleftrightarrow> js_includes (js_lower (error_message e)) ''created_via''"

definition unique_violation :: js_error where
  "unique_violation = PlainError ''D1_ERROR: UNIQUE constraint failed''"

section \<open>The world\<close>

datatype fault = Answered | Refused string | ReplyLost string

text \<open>
  What leaves the Worker: queue messages, calls of the mail provider and of the payment
  facilitator, and the verdicts on a queue message or an inbound mail.
\<close>

datatype outgoing =
    ToOutboundQueue string
  | ToIngestQueue string
  | ToAgentQueue string
  | ToDeadLetter string string string
  | ProviderCall "string list" "string list" "string list"
  | FacilitatorCall string string json_object
  | RoutingCall string string "json_object option"
  | Acked string
  | Retried string
  | MailRejected string

text \<open>
  An HTTP reply: its status and what \<open>JSON.parse\<close> makes of its text (nothing but white space, a
  JSON document, or text that is none).
\<close>

datatype http_body = EmptyBody | JsonBody json | TextBody string

record http_reply =
  reply_status :: int
  reply_body :: http_body

record world =
  store_of :: store
  outbox :: "outgoing list"
  ticks :: nat
  clock :: "nat \<Rightarrow> timestamp"
  uuid :: "nat \<Rightarrow> string"
  fault :: "nat \<Rightarrow> fault"
  others :: "nat \<Rightarrow> store \<Rightarrow> store"
  provider :: "nat \<Rightarrow> string + string"
  facilitator :: "nat \<Rightarrow> http_reply"
  cloudflare :: "nat \<Rightarrow> http_reply"

type_synonym 'a io = "world \<Rightarrow> (js_error + 'a) \<times> world"

definition ret :: "'a \<Rightarrow> 'a io" where
  "ret x = (\<lambda>w. (Inr x, w))"

definition throw :: "js_error \<Rightarrow> 'a io" where
  "throw e = (\<lambda>w. (Inl e, w))"

definition await :: "'a io \<Rightarrow> ('a \<Rightarrow> 'b io) \<Rightarrow> 'b io" where
  "await m f = (\<lambda>w. case m w of (Inl e, w') \<Rightarrow> (Inl e, w') | (Inr x, w') \<Rightarrow> f x w')"

definition try_catch :: "'a io \<Rightarrow> (js_error \<Rightarrow> 'a io) \<Rightarrow> 'a io" where
  "try_catch m h = (\<lambda>w. case m w of (Inl e, w') \<Rightarrow> h e w' | (Inr x, w') \<Rightarrow> (Inr x, w'))"

text \<open>\<open>m; k\<close>, and \<open>await m.catch(() => undefined)\<close> for a result that is not used.\<close>

definition seq :: "'a io \<Rightarrow> 'b io \<Rightarrow> 'b io" where
  "seq m k = await m (\<lambda>_. k)"

definition catch_undefined :: "'a io \<Rightarrow> unit io" where
  "catch_undefined m = try_catch (seq m (ret ())) (\<lambda>_. ret ())"

text \<open>\<open>if (c) { m }\<close>, and \<open>for (const x of xs) { ... }\<close>.\<close>

definition when_io :: "bool \<Rightarrow> unit io \<Rightarrow> unit io" where
  "when_io c m = (if c then m else ret ())"

primrec for_each :: "'a list \<Rightarrow> ('a \<Rightarrow> unit io) \<Rightarrow> unit io" where
  "for_each [] f = ret ()"
| "for_each (x # xs) f = seq (f x) (for_each xs f)"

primrec map_io :: "('a \<Rightarrow> 'b io) \<Rightarrow> 'a list \<Rightarrow> 'b list io" where
  "map_io f [] = ret []"
| "map_io f (x # xs) = await (f x) (\<lambda>y. await (map_io f xs) (\<lambda>ys. ret (y # ys)))"

section \<open>The bindings\<close>

text \<open>The clock and \<open>createId\<close>.\<close>

definition nowIso :: "timestamp io" where
  "nowIso = (\<lambda>w. (Inr (clock w (ticks w)), w))"

definition createId :: "string \<Rightarrow> string io" where
  "createId prefix =
     (\<lambda>w. (Inr (prefix @ ''_'' @ uuid w (ticks w)), w\<lparr>ticks := Suc (ticks w)\<rparr>))"

text \<open>\<open>crypto.randomUUID()\<close> without its hyphens.\<close>

definition random_id :: "string io" where
  "random_id = (\<lambda>w. (Inr (uuid w (ticks w)), w\<lparr>ticks := Suc (ticks w)\<rparr>))"

text \<open>One call of D1 or R2: a statement is a function of the store.\<close>

definition call_store :: "(store \<Rightarrow> (js_error + 'a) \<times> store) \<Rightarrow> 'a io" where
  "call_store stmt = (\<lambda>w.
     let n = ticks w; s = others w n (store_of w)
     in case fault w n of
          Answered \<Rightarrow> (fst (stmt s), w\<lparr>store_of := snd (stmt s), ticks := Suc n\<rparr>)
        | Refused m \<Rightarrow> (Inl (PlainError m), w\<lparr>store_of := s, ticks := Suc n\<rparr>)
        | ReplyLost m \<Rightarrow> (Inl (PlainError m), w\<lparr>store_of := snd (stmt s), ticks := Suc n\<rparr>))"

definition query :: "(store \<Rightarrow> 'a) \<Rightarrow> 'a io" where
  "query f = call_store (\<lambda>s. (Inr (f s), s))"

text \<open>\<open>execute\<close> gives \<open>meta.changes\<close>; \<open>execute_checked\<close> may violate a constraint.\<close>

definition execute :: "(store \<Rightarrow> nat \<times> store) \<Rightarrow> nat io" where
  "execute stmt = call_store (\<lambda>s. (Inr (fst (stmt s)), snd (stmt s)))"

definition execute_checked :: "(store \<Rightarrow> (nat \<times> store) option) \<Rightarrow> nat io" where
  "execute_checked stmt = call_store (\<lambda>s. case stmt s of
     None \<Rightarrow> (Inl unique_violation, s) | Some (n, s') \<Rightarrow> (Inr n, s'))"

definition requireRow :: "'a option \<Rightarrow> string \<Rightarrow> 'a io" where
  "requireRow row message = (case row of None \<Rightarrow> throw (PlainError message) | Some r \<Rightarrow> ret r)"

text \<open>R2: \<open>get\<close>, \<open>put\<close> and \<open>delete\<close> of an object; \<open>object.json()\<close> of raw bytes fails.\<close>

definition r2_get :: "string \<Rightarrow> r2_object option io" where
  "r2_get key = query (\<lambda>s. r2 s key)"

definition r2_put :: "string \<Rightarrow> r2_object \<Rightarrow> unit io" where
  "r2_put key obj = call_store (\<lambda>s. (Inr (), s\<lparr>r2 := (r2 s)(key := Some obj)\<rparr>))"

definition r2_delete :: "string \<Rightarrow> unit io" where
  "r2_delete key = call_store (\<lambda>s. (Inr (), s\<lparr>r2 := (r2 s)(key := None)\<rparr>))"

definition r2_json :: "r2_object \<Rightarrow> json_object io" where
  "r2_json obj = (case obj of R2Json j \<Rightarrow> ret j
     | R2Raw b \<Rightarrow> throw (PlainError ''Unexpected token in JSON''))"

text \<open>A queue's \<open>send\<close>, with the same three outcomes.\<close>

definition send_out :: "outgoing \<Rightarrow> unit io" where
  "send_out m = (\<lambda>w.
     let n = ticks w; w' = w\<lparr>store_of := others w n (store_of w), ticks := Suc n\<rparr>
     in case fault w n of
          Answered \<Rightarrow> (Inr (), w'\<lparr>outbox := outbox w @ [m]\<rparr>)
        | Refused e \<Rightarrow> (Inl (PlainError e), w')
        | ReplyLost e \<Rightarrow> (Inl (PlainError e), w'\<lparr>outbox := outbox w @ [m]\<rparr>))"

text \<open>\<open>message.ack()\<close> and \<open>message.retry()\<close> only set a flag of the batch: they cannot fail.\<close>

definition note_out :: "outgoing \<Rightarrow> unit io" where
  "note_out m = (\<lambda>w. (Inr (), w\<lparr>outbox := outbox w @ [m]\<rparr>))"

section \<open>Laws of the monad\<close>

lemma await_ret [simp]: "await (ret x) f = f x"
  by (simp add: await_def ret_def)

lemma await_throw [simp]: "await (throw e) f = throw e"
  by (simp add: await_def throw_def)

lemma seq_ret [simp]: "seq (ret x) k = k"
  by (simp add: seq_def)

lemma seq_throw [simp]: "seq (throw e) k = throw e"
  by (simp add: seq_def)

lemma try_catch_ret [simp]: "try_catch (ret x) h = ret x"
  by (simp add: try_catch_def ret_def)

lemma try_catch_throw [simp]: "try_catch (throw e) h = h e"
  by (simp add: try_catch_def throw_def)

lemma await_assoc: "await (await m f) g = await m (\<lambda>x. await (f x) g)"
  by (auto simp: await_def fun_eq_iff split: prod.splits sum.splits)

lemma await_run:
  "m w = (Inr x, w') \<Longrightarrow> await m f w = f x w'"
  "m w = (Inl e, w') \<Longrightarrow> await m f w = (Inl e, w')"
  by (simp_all add: await_def)

lemma try_catch_run:
  "m w = (Inr x, w') \<Longrightarrow> try_catch m h w = (Inr x, w')"
  "m w = (Inl e, w') \<Longrightarrow> try_catch m h w = h e w'"
  by (simp_all add: try_catch_def)

lemma await_InrE:
  assumes "await m f w = (Inr y, w')"
  obtains x w1 where "m w = (Inr x, w1)" "f x w1 = (Inr y, w')"
  using assms by (auto simp: await_def split: prod.splits sum.splits)

lemma seq_InrE:
  assumes "seq m k w = (Inr y, w')"
  obtains x w1 where "m w = (Inr x, w1)" "k w1 = (Inr y, w')"
  using assms unfolding seq_def by (rule await_InrE)

section \<open>Invariants\<close>

text \<open>
  \<open>keeps I m\<close>: whatever the outcome of \<open>m\<close>, a world with \<open>I\<close> stays one. The rules follow the
  structure of the program, so that an invariant of a whole handler reduces to its statements.
\<close>

definition keeps :: "(world \<Rightarrow> bool) \<Rightarrow> 'a io \<Rightarrow> bool" where
  "keeps I m \<longleftrightarrow> (\<forall>w. I w \<longrightarrow> I (snd (m w)))"

lemma keepsI: "(\<And>w. I w \<Longrightarrow> I (snd (m w))) \<Longrightarrow> keeps I m"
  by (simp add: keeps_def)

lemma keepsD: "keeps I m \<Longrightarrow> I w \<Longrightarrow> I (snd (m w))"
  by (simp add: keeps_def)

lemma keeps_result: "keeps I m \<Longrightarrow> I w \<Longrightarrow> m w = (r, w') \<Longrightarrow> I w'"
  by (metis keepsD snd_conv)

lemma keeps_ret [keeps_intros]: "keeps I (ret x)"
  by (simp add: keeps_def ret_def)

lemma keeps_throw [keeps_intros]: "keeps I (throw e)"
  by (simp add: keeps_def throw_def)

lemma keeps_await [keeps_intros]:
  "keeps I m \<Longrightarrow> (\<And>x. keeps I (f x)) \<Longrightarrow> keeps I (await m f)"
  unfolding keeps_def await_def by (fastforce split: prod.splits sum.splits)

lemma keeps_seq [keeps_intros]: "keeps I m \<Longrightarrow> keeps I k \<Longrightarrow> keeps I (seq m k)"
  unfolding seq_def by (rule keeps_await)

lemma keeps_try_catch [keeps_intros]:
  "keeps I m \<Longrightarrow> (\<And>e. keeps I (h e)) \<Longrightarrow> keeps I (try_catch m h)"
  unfolding keeps_def try_catch_def by (fastforce split: prod.splits sum.splits)

lemma keeps_catch_undefined [keeps_intros]: "keeps I m \<Longrightarrow> keeps I (catch_undefined m)"
  unfolding catch_undefined_def by (intro keeps_intros)

lemma keeps_if [keeps_intros]:
  "(c \<Longrightarrow> keeps I m) \<Longrightarrow> (\<not> c \<Longrightarrow> keeps I k) \<Longrightarrow> keeps I (if c then m else k)"
  by simp

lemma keeps_when [keeps_intros]: "(c \<Longrightarrow> keeps I m) \<Longrightarrow> keeps I (when_io c m)"
  by (simp add: when_io_def keeps_ret)

lemma keeps_let [keeps_intros]: "(\<And>x. keeps I (f x)) \<Longrightarrow> keeps I (let x = e in f x)"
  by simp

lemma keeps_option [keeps_intros]:
  "(x = None \<Longrightarrow> keeps I m) \<Longrightarrow> (\<And>y. x = Some y \<Longrightarrow> keeps I (f y))
     \<Longrightarrow> keeps I (case x of None \<Rightarrow> m | Some y \<Rightarrow> f y)"
  by (simp split: option.split)

lemma keeps_sum [keeps_intros]:
  "(\<And>a. x = Inl a \<Longrightarrow> keeps I (f a)) \<Longrightarrow> (\<And>b. x = Inr b \<Longrightarrow> keeps I (g b))
     \<Longrightarrow> keeps I (case x of Inl a \<Rightarrow> f a | Inr b \<Rightarrow> g b)"
  by (simp split: sum.split)

lemma keeps_list [keeps_intros]:
  "(xs = [] \<Longrightarrow> keeps I m) \<Longrightarrow> (\<And>y ys. xs = y # ys \<Longrightarrow> keeps I (f y ys))
     \<Longrightarrow> keeps I (case xs of [] \<Rightarrow> m | y # ys \<Rightarrow> f y ys)"
  by (simp split: list.split)

lemma keeps_prod [keeps_intros]:
  "(\<And>a b. p = (a, b) \<Longrightarrow> keeps I (f a b)) \<Longrightarrow> keeps I (case p of (a, b) \<Rightarrow> f a b)"
  by (simp split: prod.split)

lemma keeps_for_each [keeps_intros]: "(\<And>x. keeps I (f x)) \<Longrightarrow> keeps I (for_each xs f)"
  by (induction xs) (auto intro: keeps_intros)

lemma keeps_map_io [keeps_intros]: "(\<And>x. keeps I (f x)) \<Longrightarrow> keeps I (map_io f xs)"
  by (induction xs) (auto intro!: keeps_intros)

lemma keeps_requireRow [keeps_intros]: "keeps I (requireRow row message)"
  unfolding requireRow_def by (intro keeps_intros)

lemma keeps_nowIso [keeps_intros]: "keeps I nowIso"
  by (simp add: keeps_def nowIso_def)

lemma keeps_r2_json [keeps_intros]: "keeps I (r2_json obj)"
  by (simp add: r2_json_def keeps_ret keeps_throw split: r2_object.split)

text \<open>
  \<open>yields m Q\<close>: whatever the world, a value that \<open>m\<close> returns has \<open>Q\<close>. With it an invariant may
  rest on a value that an earlier statement has computed.
\<close>

definition yields :: "'a io \<Rightarrow> ('a \<Rightarrow> bool) \<Rightarrow> bool" where
  "yields m Q \<longleftrightarrow> (\<forall>w x w'. m w = (Inr x, w') \<longrightarrow> Q x)"

lemma yieldsD: "yields m Q \<Longrightarrow> m w = (Inr x, w') \<Longrightarrow> Q x"
  unfolding yields_def by blast

lemma yields_ret: "Q x \<Longrightarrow> yields (ret x) Q"
  by (simp add: yields_def ret_def)

lemma yields_throw: "yields (throw e) Q"
  by (simp add: yields_def throw_def)

lemma yields_await: "yields m P \<Longrightarrow> (\<And>x. P x \<Longrightarrow> yields (f x) Q) \<Longrightarrow> yields (await m f) Q"
  unfolding yields_def by (blast elim: await_InrE)

lemma yields_any: "yields m (\<lambda>_. True)"
  by (simp add: yields_def)

lemma yields_last: "(\<And>x. yields (f x) Q) \<Longrightarrow> yields (await m f) Q"
  by (rule yields_await [OF yields_any])

lemma yields_rethrow: "yields m Q \<Longrightarrow> yields (try_catch m (\<lambda>e. seq k (throw (g e)))) Q"
  unfolding yields_def try_catch_def seq_def await_def throw_def
  by (fastforce split: prod.splits sum.splits)

lemma keeps_await_yields:
  "keeps I m \<Longrightarrow> yields m Q \<Longrightarrow> (\<And>x. Q x \<Longrightarrow> keeps I (f x)) \<Longrightarrow> keeps I (await m f)"
  unfolding keeps_def yields_def await_def by (fastforce split: prod.splits sum.splits)

text \<open>A precondition that leads to a postcondition.\<close>

definition leads :: "(world \<Rightarrow> bool) \<Rightarrow> (world \<Rightarrow> bool) \<Rightarrow> 'a io \<Rightarrow> bool" where
  "leads I J m \<longleftrightarrow> (\<forall>w. I w \<longrightarrow> J (snd (m w)))"

lemma leads_keeps: "keeps J m \<Longrightarrow> (\<And>w. I w \<Longrightarrow> J w) \<Longrightarrow> leads I J m"
  by (simp add: leads_def keeps_def)

lemma leads_await:
  assumes m: "keeps I m" and Q: "\<And>w x w'. I w \<Longrightarrow> m w = (Inr x, w') \<Longrightarrow> Q x"
    and f: "\<And>x. Q x \<Longrightarrow> leads I J (f x)" and J: "\<And>w. I w \<Longrightarrow> J w"
  shows "leads I J (await m f)"
  unfolding leads_def
proof (intro allI impI)
  fix w assume w: "I w"
  obtain r w' where run: "m w = (r, w')" by force
  with m w have w': "I w'" by (metis keeps_result)
  show "J (snd (await m f w))"
  proof (cases r)
    case (Inl e)
    with run J w' show ?thesis by (simp add: await_run)
  next
    case (Inr x)
    with run w w' Q f show ?thesis by (auto simp: await_run leads_def)
  qed
qed

text \<open>A \<open>try\<close> whose handler only has to establish the postcondition.\<close>

lemma leads_guarded:
  assumes m: "keeps I m" and Q: "\<And>w x w'. I w \<Longrightarrow> m w = (Inr x, w') \<Longrightarrow> Q x"
    and f: "\<And>x. Q x \<Longrightarrow> leads I J (f x)" and J: "\<And>w. I w \<Longrightarrow> J w" and h: "\<And>e. keeps J (h e)"
  shows "leads I J (await (try_catch (await m (\<lambda>x. ret (Some x))) (\<lambda>e. seq (h e) (ret None)))
                   (\<lambda>r. case r of None \<Rightarrow> ret () | Some x \<Rightarrow> f x))"
  unfolding leads_def
proof (intro allI impI)
  fix w assume w: "I w"
  let ?p = "await (try_catch (await m (\<lambda>x. ret (Some x))) (\<lambda>e. seq (h e) (ret None)))
      (\<lambda>r. case r of None \<Rightarrow> ret () | Some x \<Rightarrow> f x)"
  obtain r w' where run: "m w = (r, w')" by force
  with m w have w': "I w'" by (metis keeps_result)
  show "J (snd (?p w))"
  proof (cases r)
    case (Inr x)
    with run have "?p w = f x w'" by (simp add: await_def try_catch_def ret_def)
    with run Inr w w' Q f show ?thesis by (auto simp: leads_def)
  next
    case (Inl e)
    with run have "?p w = await (seq (h e) (ret None)) (\<lambda>r. case r of None \<Rightarrow> ret () | Some x \<Rightarrow> f x) w'"
      by (simp add: await_def try_catch_def)
    also have "\<dots> = seq (h e) (ret ()) w'"
      by (auto simp: seq_def await_def ret_def split: prod.splits sum.splits)
    also have "J (snd \<dots>)"
      using h J w' by (intro keepsD [of J] keeps_intros)
    finally show ?thesis .
  qed
qed

lemma keeps_await_known:
  assumes "keeps I m" "\<And>w x w'. I w \<Longrightarrow> m w = (Inr x, w') \<Longrightarrow> Q x" "\<And>x. Q x \<Longrightarrow> keeps I (f x)"
  shows "keeps I (await m f)"
proof -
  have "leads I I (await m f)"
    by (rule leads_await [where Q = Q]) (use assms in \<open>auto simp: leads_def keeps_def\<close>)
  then show ?thesis by (simp add: leads_def keeps_def)
qed

text \<open>
  What is observed from outside: the verdict on a queue message and a request to the provider.
  Everything else that is sent is internal traffic.
\<close>

datatype kind = Verdict | Call | Charge | Traffic

primrec kind_of :: "outgoing \<Rightarrow> kind" where
  "kind_of (ToOutboundQueue i) = Traffic"
| "kind_of (ToIngestQueue i) = Traffic"
| "kind_of (ToAgentQueue i) = Traffic"
| "kind_of (ToDeadLetter a b c) = Traffic"
| "kind_of (ProviderCall t c b) = Call"
| "kind_of (FacilitatorCall u i b) = Charge"
| "kind_of (RoutingCall m p b) = Traffic"
| "kind_of (Acked i) = Verdict"
| "kind_of (Retried i) = Verdict"
| "kind_of (MailRejected r) = Verdict"

definition seen :: "kind set \<Rightarrow> world \<Rightarrow> outgoing list" where
  "seen K w = filter (\<lambda>x. kind_of x \<in> K - {Traffic}) (outbox w)"

text \<open>
  The invariants of the development: \<open>J\<close> holds of the store and is kept by the other Workers, and
  nothing of the kinds \<open>K\<close> leaves the Worker (\<open>es\<close> is what has left before). For empty \<open>K\<close> this is
  an invariant of the store alone.
\<close>

definition stored :: "kind set \<Rightarrow> outgoing list \<Rightarrow> (store \<Rightarrow> bool) \<Rightarrow> world \<Rightarrow> bool" where
  "stored K es J w \<longleftrightarrow> J (store_of w) \<and> (\<forall>n s. J s \<longrightarrow> J (others w n s)) \<and> seen K w = es"

abbreviation shared :: "(store \<Rightarrow> bool) \<Rightarrow> world \<Rightarrow> bool" where
  "shared J \<equiv> stored {} [] J"

lemma keeps_stored_call:
  "(\<And>s. J s \<Longrightarrow> J (snd (stmt s))) \<Longrightarrow> keeps (stored K es J) (call_store stmt)"
  unfolding keeps_def stored_def seen_def call_store_def Let_def
  by (auto split: fault.splits)

lemma keeps_stored_query [keeps_intros]: "keeps (stored K es J) (query f)"
  unfolding query_def by (rule keeps_stored_call) simp

lemma keeps_stored_execute:
  "(\<And>s. J s \<Longrightarrow> J (snd (stmt s))) \<Longrightarrow> keeps (stored K es J) (execute stmt)"
  unfolding execute_def by (rule keeps_stored_call) simp

lemma keeps_stored_checked:
  "(\<And>s n s'. J s \<Longrightarrow> stmt s = Some (n, s') \<Longrightarrow> J s') \<Longrightarrow> keeps (stored K es J) (execute_checked stmt)"
  unfolding execute_checked_def
  by (rule keeps_stored_call) (auto split: option.splits)

lemma keeps_stored_r2_get [keeps_intros]: "keeps (stored K es J) (r2_get key)"
  unfolding r2_get_def by (rule keeps_stored_query)

lemma keeps_stored_send:
  "kind_of m = Traffic \<or> kind_of m \<notin> K \<Longrightarrow> keeps (stored K es J) (send_out m)"
  unfolding keeps_def stored_def seen_def send_out_def Let_def by (auto split: fault.splits)

lemma keeps_stored_traffic [keeps_intros]:
  "keeps (stored K es J) (send_out (ToOutboundQueue i))"
  "keeps (stored K es J) (send_out (ToIngestQueue i))"
  "keeps (stored K es J) (send_out (ToAgentQueue i))"
  "keeps (stored K es J) (send_out (ToDeadLetter a b c))"
  by (simp_all add: keeps_stored_send)

lemma keeps_stored_note [keeps_intros]:
  "Verdict \<notin> K \<Longrightarrow> keeps (stored K es J) (note_out (Acked i))"
  "Verdict \<notin> K \<Longrightarrow> keeps (stored K es J) (note_out (Retried i))"
  "Verdict \<notin> K \<Longrightarrow> keeps (stored K es J) (note_out (MailRejected i))"
  unfolding keeps_def stored_def seen_def note_out_def by auto

lemma keeps_stored_createId [keeps_intros]: "keeps (stored K es J) (createId p)"
  unfolding keeps_def stored_def seen_def createId_def by auto

lemma keeps_stored_random_id [keeps_intros]: "keeps (stored K es J) random_id"
  unfolding keeps_def stored_def seen_def random_id_def by auto

lemma keeps_stored_r2_put:
  "(\<And>s f. J s \<Longrightarrow> J (s\<lparr>r2 := f\<rparr>)) \<Longrightarrow> keeps (stored K es J) (r2_put key obj)"
  unfolding r2_put_def by (rule keeps_stored_call) simp

lemma keeps_stored_r2_delete:
  "(\<And>s f. J s \<Longrightarrow> J (s\<lparr>r2 := f\<rparr>)) \<Longrightarrow> keeps (stored K es J) (r2_delete key)"
  unfolding r2_delete_def by (rule keeps_stored_call) simp

section \<open>Undisturbed runs\<close>

text \<open>
  In a quiet world every call is answered and no other Worker touches the store. There the
  computations evaluate step by step; \<open>quiet\<close> itself is an invariant.
\<close>

definition quiet :: "world \<Rightarrow> bool" where
  "quiet w \<longleftrightarrow> (\<forall>n. fault w n = Answered) \<and> (\<forall>n s. others w n s = s)"

lemma quiet_stored: "quiet w \<Longrightarrow> J (store_of w) \<Longrightarrow> seen K w = es \<Longrightarrow> stored K es J w"
  by (simp add: quiet_def stored_def)

definition tick :: "world \<Rightarrow> world" where
  "tick w = w\<lparr>ticks := Suc (ticks w)\<rparr>"

definition with_store :: "world \<Rightarrow> store \<Rightarrow> world" where
  "with_store w s = w\<lparr>store_of := s\<rparr>"

lemma quiet_tick [simp]: "quiet (tick w) = quiet w"
  by (simp add: quiet_def tick_def)

lemma quiet_with_store [simp]: "quiet (with_store w s) = quiet w"
  by (simp add: quiet_def with_store_def)

lemma store_of_tick [simp]: "store_of (tick w) = store_of w"
  by (simp add: tick_def)

lemma store_of_with_store [simp]: "store_of (with_store w s) = s"
  by (simp add: with_store_def)

lemma outbox_tick [simp]: "outbox (tick w) = outbox w" "outbox (with_store w s) = outbox w"
  by (simp_all add: tick_def with_store_def)

lemma with_store_collapse [simp]:
  "with_store (with_store w s) s' = with_store w s'" "with_store w (store_of w) = w"
  "tick (with_store w s) = with_store (tick w) s"
  by (simp_all add: with_store_def tick_def)

lemma quiet_call_store [run_simps]:
  "quiet w \<Longrightarrow> call_store stmt w =
     (fst (stmt (store_of w)), with_store (tick w) (snd (stmt (store_of w))))"
  by (simp add: call_store_def quiet_def with_store_def tick_def Let_def)

lemma quiet_query [run_simps]: "quiet w \<Longrightarrow> query f w = (Inr (f (store_of w)), tick w)"
  by (simp add: query_def quiet_call_store)
     (metis with_store_collapse(2) store_of_tick)

lemma quiet_execute [run_simps]:
  "quiet w \<Longrightarrow> execute stmt w =
     (Inr (fst (stmt (store_of w))), with_store (tick w) (snd (stmt (store_of w))))"
  by (simp add: execute_def quiet_call_store)

lemma quiet_checked_Some:
  "quiet w \<Longrightarrow> stmt (store_of w) = Some (n, s') \<Longrightarrow>
     execute_checked stmt w = (Inr n, with_store (tick w) s')"
  by (simp add: execute_checked_def quiet_call_store)

lemma quiet_checked_None:
  "quiet w \<Longrightarrow> stmt (store_of w) = None \<Longrightarrow>
     execute_checked stmt w = (Inl unique_violation, tick w)"
  by (simp add: execute_checked_def quiet_call_store)
     (metis with_store_collapse(2) store_of_tick)

lemma nowIso_run [run_simps]: "nowIso w = (Inr (clock w (ticks w)), w)"
  by (simp add: nowIso_def)

lemma createId_run [run_simps]: "createId p w = (Inr (p @ ''_'' @ uuid w (ticks w)), tick w)"
  by (simp add: createId_def tick_def)

lemma random_id_run [run_simps]: "random_id w = (Inr (uuid w (ticks w)), tick w)"
  by (simp add: random_id_def tick_def)

lemma ret_run [run_simps]: "ret x w = (Inr x, w)"
  by (simp add: ret_def)

lemma throw_run [run_simps]: "throw e w = (Inl e, w)"
  by (simp add: throw_def)

lemma requireRow_run [run_simps]:
  "requireRow (Some r) m w = (Inr r, w)" "requireRow None m w = (Inl (PlainError m), w)"
  by (simp_all add: requireRow_def run_simps)

lemma clock_tick [simp]:
  "clock (tick w) = clock w" "clock (with_store w s) = clock w"
  "ticks (tick w) = Suc (ticks w)" "ticks (with_store w s) = ticks w"
  by (simp_all add: tick_def with_store_def)

lemma await_app [run_simps]:
  "await m f w = (case m w of (Inl e, w') \<Rightarrow> (Inl e, w') | (Inr x, w') \<Rightarrow> f x w')"
  by (simp add: await_def)

lemma seq_app [run_simps]:
  "seq m k w = (case m w of (Inl e, w') \<Rightarrow> (Inl e, w') | (Inr x, w') \<Rightarrow> k w')"
  by (simp add: seq_def await_def)

lemma try_catch_app [run_simps]:
  "try_catch m h w = (case m w of (Inl e, w') \<Rightarrow> h e w' | (Inr x, w') \<Rightarrow> (Inr x, w'))"
  by (simp add: try_catch_def)

primrec ticked :: "nat \<Rightarrow> world \<Rightarrow> world" where
  "ticked 0 w = w"
| "ticked (Suc n) w = ticked n (tick w)"

lemma ticked_simps [simp]:
  "quiet (ticked n w) = quiet w" "store_of (ticked n w) = store_of w"
  "outbox (ticked n w) = outbox w"
  by (induction n arbitrary: w) simp_all

text \<open>An undisturbed world with a property of its store and of what has left it.\<close>

definition calm :: "(store \<Rightarrow> bool) \<Rightarrow> (outgoing list \<Rightarrow> bool) \<Rightarrow> world \<Rightarrow> bool" where
  "calm J out w \<longleftrightarrow> quiet w \<and> J (store_of w) \<and> out (outbox w)"

lemma keeps_calm_execute:
  "(\<And>s. J s \<Longrightarrow> J (snd (stmt s))) \<Longrightarrow> keeps (calm J out) (execute stmt)"
  by (simp add: keeps_def calm_def quiet_execute)

lemma keeps_calm_checked:
  "(\<And>s n s'. J s \<Longrightarrow> stmt s = Some (n, s') \<Longrightarrow> J s') \<Longrightarrow> keeps (calm J out) (execute_checked stmt)"
  by (auto simp: keeps_def calm_def execute_checked_def quiet_call_store split: option.splits)

lemma keeps_calm_query [keeps_intros]: "keeps (calm J out) (query f)"
  by (simp add: keeps_def calm_def quiet_query)

lemma keeps_calm_createId [keeps_intros]: "keeps (calm J out) (createId p)"
  by (simp add: keeps_def calm_def createId_run)

lemma keeps_calm_r2_get [keeps_intros]: "keeps (calm J out) (r2_get k)"
  unfolding r2_get_def by (rule keeps_calm_query)

lemma keeps_calm_r2_delete:
  "(\<And>s f. J s \<Longrightarrow> J (s\<lparr>r2 := f\<rparr>)) \<Longrightarrow> keeps (calm J out) (r2_delete k)"
  by (simp add: keeps_def calm_def r2_delete_def quiet_call_store)

lemma keeps_calm_send: "(\<And>o'. out o' \<Longrightarrow> out (o' @ [m])) \<Longrightarrow> keeps (calm J out) (send_out m)"
  by (simp add: keeps_def calm_def send_out_def quiet_def Let_def)

text \<open>A Hoare triple over the result and the world.\<close>

definition ends :: "(world \<Rightarrow> bool) \<Rightarrow> 'a io \<Rightarrow> (js_error + 'a \<Rightarrow> world \<Rightarrow> bool) \<Rightarrow> bool" where
  "ends I m Q \<longleftrightarrow> (\<forall>w. I w \<longrightarrow> Q (fst (m w)) (snd (m w)))"

lemma endsD: "ends I m Q \<Longrightarrow> I w \<Longrightarrow> m w = (r, w') \<Longrightarrow> Q r w'"
  unfolding ends_def by (metis fst_conv snd_conv)

lemma ends_keeps: "keeps I m \<Longrightarrow> (\<And>r w. I w \<Longrightarrow> Q r w) \<Longrightarrow> ends I m Q"
  by (simp add: ends_def keeps_def)

lemma ends_conseq: "ends I m P \<Longrightarrow> (\<And>r w. P r w \<Longrightarrow> Q r w) \<Longrightarrow> ends I m Q"
  by (simp add: ends_def)

lemma ends_await:
  assumes "ends I m P" "\<And>x. ends (P (Inr x)) (f x) Q" "\<And>e w. P (Inl e) w \<Longrightarrow> Q (Inl e) w"
  shows "ends I (await m f) Q"
  using assms unfolding ends_def await_def by (fastforce split: prod.splits sum.splits)

lemma ends_try_catch:
  assumes "ends I m P" "\<And>e. ends (P (Inl e)) (h e) Q" "\<And>x w. P (Inr x) w \<Longrightarrow> Q (Inr x) w"
  shows "ends I (try_catch m h) Q"
  using assms unfolding ends_def try_catch_def by (fastforce split: prod.splits sum.splits)

lemma ends_ret: "(\<And>w. I w \<Longrightarrow> Q (Inr x) w) \<Longrightarrow> ends I (ret x) Q"
  by (simp add: ends_def ret_def)

lemma ends_throw: "(\<And>w. I w \<Longrightarrow> Q (Inl e) w) \<Longrightarrow> ends I (throw e) Q"
  by (simp add: ends_def throw_def)

lemma catch_undefined_returns: "fst (catch_undefined m w) = Inr ()"
  by (simp add: catch_undefined_def try_catch_app ret_run split: sum.split prod.split)

lemma quiet_send_out [run_simps]:
  "quiet w \<Longrightarrow> send_out m w = (Inr (), (tick w)\<lparr>outbox := outbox w @ [m]\<rparr>)"
  by (simp add: send_out_def quiet_def tick_def Let_def)

lemma note_out_run [run_simps]: "note_out m w = (Inr (), w\<lparr>outbox := outbox w @ [m]\<rparr>)"
  by (simp add: note_out_def)

section \<open>Computations that never throw\<close>

definition returns :: "'a io \<Rightarrow> bool" where
  "returns m \<longleftrightarrow> (\<forall>w. \<exists>x. fst (m w) = Inr x)"

lemma returns_rules [returns_intros]:
  "returns (ret x)" "returns (catch_undefined k)"
  "(\<And>e. returns (h e)) \<Longrightarrow> returns (try_catch m h)"
  by (auto simp: returns_def ret_run catch_undefined_returns try_catch_app split: sum.split prod.split)

lemma returns_await [returns_intros]:
  assumes "returns m" "\<And>x. returns (f x)"
  shows "returns (await m f)"
  unfolding returns_def
proof
  fix w
  obtain x w1 where "m w = (Inr x, w1)" using assms(1) by (metis returns_def prod.collapse)
  then show "\<exists>y. fst (await m f w) = Inr y" using assms(2) by (simp add: await_app returns_def)
qed

lemma returns_more [returns_intros]:
  "returns m \<Longrightarrow> returns k' \<Longrightarrow> returns (seq m k')" "returns m \<Longrightarrow> returns (when_io c m)"
  unfolding seq_def when_io_def by (auto intro: returns_intros)

end
