(* ===== verification/StoreInvariant.thy ===== *)
theory StoreInvariant
  imports Effects
begin

text \<open>
  The invariant of the store: the primary keys and unique indexes of \<open>migrations/*.sql\<close>, and that
  no account has negative reserved credits. The rules of this theory reduce the invariant of an
  operation to a side condition on each of its statements, under interference by other Workers
  that keep the invariant too.
\<close>

section \<open>The invariant\<close>

text \<open>A partial unique index \<open>ON t(k) WHERE k IS NOT NULL\<close>.\<close>

definition unique_opt :: "('r \<Rightarrow> 'k option) \<Rightarrow> 'r list \<Rightarrow> bool" where
  "unique_opt k t \<longleftrightarrow> unique_by k (filter (\<lambda>r. k r \<noteq> None) t)"

lemma unique_opt_Nil [simp]: "unique_opt k []"
  by (simp add: unique_opt_def unique_by_def)

lemma unique_by_Nil [simp]: "unique_by k []"
  by (simp add: unique_by_def)

lemma unique_opt_append:
  "unique_opt k (t @ [r]) \<longleftrightarrow>
     unique_opt k t \<and> (k r \<noteq> None \<longrightarrow> (\<forall>x \<in> set t. k x \<noteq> k r))"
  by (auto simp: unique_opt_def unique_by_def image_iff)

lemma unique_by_filter: "unique_by k t \<Longrightarrow> unique_by k (filter Q t)"
  by (simp add: unique_by_def distinct_map_filter)

lemma unique_opt_delete:
  assumes "unique_opt k t"
  shows "unique_opt k (tbl_delete P t)"
proof -
  have "filter (\<lambda>r. k r \<noteq> None) (tbl_delete P t)
      = filter (\<lambda>r. \<not> P r) (filter (\<lambda>r. k r \<noteq> None) t)"
    unfolding tbl_delete_def filter_filter by (rule filter_cong) auto
  with assms show ?thesis by (simp only: unique_opt_def unique_by_filter)
qed

lemma unique_opt_filter:
  assumes "unique_opt k t"
  shows "length (filter (\<lambda>r. k r = Some v \<and> Q r) t) \<le> 1"
proof -
  define u where "u = filter (\<lambda>r. k r \<noteq> None) t"
  have u: "unique_by k u" using assms by (simp only: unique_opt_def u_def)
  have eq: "filter (\<lambda>r. k r = Some v \<and> Q r) t = filter Q (filter (\<lambda>r. k r = Some v) u)"
    unfolding u_def filter_filter by (rule filter_cong) auto
  have "length (filter (\<lambda>r. k r = Some v) u) \<le> 1"
  proof (cases "filter (\<lambda>r. k r = Some v) u")
    case Nil
    then show ?thesis by (simp only: list.size)
  next
    case (Cons x xs)
    then have "x \<in> set (filter (\<lambda>r. k r = Some v) u)" by (simp only: list.set_intros)
    then have "x \<in> set u" and v: "k x = Some v" by (simp_all only: set_filter mem_Collect_eq)
    from unique_by_filter_key [OF u this(1)] v
    have "filter (\<lambda>r. k r = Some v) u = [x]" by (simp only: v)
    then show ?thesis by (simp only: list.size)
  qed
  then show ?thesis unfolding eq by (metis le_trans length_filter_le)
qed

lemma unique_opt_single_update:
  assumes "unique_by i t" "unique_opt k t" "\<And>r. P r \<Longrightarrow> i r = v" "\<And>r. P r \<Longrightarrow> i (f r) = i r"
    and "\<And>r x. r \<in> set t \<Longrightarrow> P r \<Longrightarrow> x \<in> set t \<Longrightarrow> i x \<noteq> i r \<Longrightarrow> k (f r) \<noteq> None \<Longrightarrow> k x \<noteq> k (f r)"
  shows "unique_opt k (tbl_update P f t)"
  using assms(1,2,5)
proof (induction t)
  case Nil
  then show ?case by simp
next
  case (Cons y t)
  have u: "unique_by i t" "unique_opt k t" and y: "\<forall>x \<in> set t. i x \<noteq> i y"
    using Cons.prems(1,2) by (auto simp: unique_by_def unique_opt_def image_iff split: if_splits)
  have IH: "unique_opt k (tbl_update P f t)"
    by (rule Cons.IH [OF u]) (use Cons.prems(3) in auto)
  show ?case
  proof (cases "P y")
    case True
    then have "tbl_update P f t = t"
      using y assms(3) [of y] assms(3) by (intro tbl_update_none) force
    moreover have "k (f y) \<noteq> None \<Longrightarrow> \<forall>x \<in> set t. k x \<noteq> k (f y)"
      using Cons.prems(3) [of y] True y by auto
    ultimately show ?thesis
      using True u(2) by (auto simp: tbl_update_def unique_opt_def unique_by_def image_iff)
  next
    case False
    have "k y \<noteq> None \<Longrightarrow> x \<in> set t \<Longrightarrow> k x \<noteq> k y" for x
      using Cons.prems(2) by (auto simp: unique_opt_def unique_by_def image_iff)
    moreover have "k y \<noteq> None \<Longrightarrow> x \<in> set t \<Longrightarrow> P x \<Longrightarrow> k (f x) \<noteq> k y" for x
      using Cons.prems(3) [of x y] y by (auto; metis)
    ultimately show ?thesis
      using IH False
      by (auto simp: tbl_update_def unique_opt_def unique_by_def image_iff split: if_splits; metis)
  qed
qed

text \<open>A new ledger row violates a key of \<open>tenant_credit_ledger\<close>.\<close>

definition ledger_clash :: "store \<Rightarrow> ledger_row \<Rightarrow> bool" where
  "ledger_clash s r \<longleftrightarrow> (\<exists>x \<in> set (credit_ledger s). cl_id x = cl_id r
     \<or> (cl_payment_receipt_id r \<noteq> None \<and> cl_payment_receipt_id x = cl_payment_receipt_id r)
     \<or> (cl_reference_id r \<noteq> None \<and> cl_reference_id x = cl_reference_id r))"

text \<open>A new payment receipt violates a key of \<open>tenant_payment_receipts\<close>.\<close>

definition same_receipt_key :: "receipt_row \<Rightarrow> receipt_row \<Rightarrow> bool" where
  "same_receipt_key x r \<longleftrightarrow> pr_id x = pr_id r
     \<or> (pr_payment_reference r \<noteq> None \<and> pr_payment_reference x = pr_payment_reference r)
     \<or> (pr_settlement_reference r \<noteq> None \<and> pr_settlement_reference x = pr_settlement_reference r)
     \<or> (pr_proof_fingerprint r \<noteq> None \<and> pr_proof_fingerprint x = pr_proof_fingerprint r)"

definition receipt_clash :: "store \<Rightarrow> receipt_row \<Rightarrow> bool" where
  "receipt_clash s r \<longleftrightarrow> (\<exists>x \<in> set (payment_receipts s). same_receipt_key x r)"

text \<open>The update \<open>f\<close> of a receipt would give it a key of another receipt.\<close>

definition receipt_update_clash ::
  "store \<Rightarrow> (receipt_row \<Rightarrow> bool) \<Rightarrow> (receipt_row \<Rightarrow> receipt_row) \<Rightarrow> bool" where
  "receipt_update_clash s P f \<longleftrightarrow>
     (\<exists>r \<in> set (payment_receipts s). P r
        \<and> (\<exists>x \<in> set (payment_receipts s). pr_id x \<noteq> pr_id r \<and> same_receipt_key x (f r)))"

definition idem_pk :: "idempotency_row \<Rightarrow> string \<times> string \<times> string" where
  "idem_pk r = (idem_operation r, idem_tenant_id r, idem_key r)"

text \<open>
  The partial keys of the agent registry: the slug of an agent within its tenant, and the target of
  an active deployment.
\<close>

definition slug_key :: "agent_row \<Rightarrow> (string \<times> string) option" where
  "slug_key a = map_option (Pair (ag_tenant_id a)) (ag_slug a)"

definition active_target :: "agent_deployment_row \<Rightarrow> (string \<times> string) option" where
  "active_target d = (if dp_status d = ''active'' then Some (dp_target_type d, dp_target_id d) else None)"

definition version_key :: "agent_version_row \<Rightarrow> string \<times> string" where
  "version_key v = (av_agent_id v, av_version v)"

definition tool_key :: "tool_binding_row \<Rightarrow> string \<times> string" where
  "tool_key t = (tb_agent_version_id t, tb_tool_name t)"

definition binding_key :: "agent_mailbox_row \<Rightarrow> string \<times> string" where
  "binding_key b = (am_agent_id b, am_mailbox_id b)"

definition db_ok :: "store \<Rightarrow> bool" where
  "db_ok s \<longleftrightarrow> unique_by mb_id (mailboxes s) \<and> unique_by mb_address (mailboxes s)
     \<and> unique_by ag_id (agents s)
     \<and> unique_by th_id (threads s) \<and> unique_by msg_id (messages s)
     \<and> unique_by tsk_id (tasks s) \<and> unique_by dr_id (drafts s)
     \<and> unique_by oj_id (outbound_jobs s) \<and> unique_by ev_id (delivery_events s)
     \<and> unique_by idem_pk (idempotency_keys s)
     \<and> unique_by ba_tenant_id (billing_accounts s)
     \<and> (\<forall>a \<in> set (billing_accounts s). 0 \<le> ba_reserved_credits a)
     \<and> unique_by cl_id (credit_ledger s)
     \<and> unique_opt cl_payment_receipt_id (credit_ledger s)
     \<and> unique_opt cl_reference_id (credit_ledger s)
     \<and> unique_by sp_tenant_id (send_policies s)
     \<and> unique_by pr_id (payment_receipts s)
     \<and> unique_opt pr_payment_reference (payment_receipts s)
     \<and> unique_opt pr_settlement_reference (payment_receipts s)
     \<and> unique_opt pr_proof_fingerprint (payment_receipts s)
     \<and> unique_by did_tenant_id (did_bindings s) \<and> unique_by did_did (did_bindings s)
     \<and> unique_by tr_id (token_reissues s)
     \<and> unique_opt slug_key (agents s)
     \<and> unique_by av_id (agent_versions s) \<and> unique_by version_key (agent_versions s)
     \<and> unique_by cap_id (agent_capabilities s)
     \<and> unique_by tb_id (agent_tool_bindings s) \<and> unique_by tool_key (agent_tool_bindings s)
     \<and> unique_by am_id (agent_mailboxes s) \<and> unique_by binding_key (agent_mailboxes s)
     \<and> unique_by dp_id (agent_deployments s) \<and> unique_opt active_target (agent_deployments s)"

lemma db_ok_empty: "db_ok empty_store"
  by (simp add: db_ok_def empty_store_def)

lemma db_ok_r2 [simp]: "db_ok (r2_update f s) = db_ok s"
  by (simp add: db_ok_def)

lemma db_ok_agent_runs [simp]: "db_ok (agent_runs_update f s) = db_ok s"
  by (simp add: db_ok_def)

lemma db_ok_attachments [simp]: "db_ok (attachments_update f s) = db_ok s"
  by (simp add: db_ok_def)

lemma db_ok_suppressions [simp]: "db_ok (suppressions_update f s) = db_ok s"
  by (simp add: db_ok_def)

lemma seen_none [simp]: "seen {} w = []"
  by (simp add: seen_def)

section \<open>Rules for the statements\<close>

lemma keeps_db_r2 [keeps_intros]:
  "keeps (stored K es db_ok) (r2_put key obj)" "keeps (stored K es db_ok) (r2_delete key)"
  by (simp_all add: keeps_stored_r2_put keeps_stored_r2_delete)

text \<open>
  A table with a primary key: the invariant gives the key, and a change of the table that keeps
  the key unique keeps the invariant. Under this contract updates of other columns, deletions, and
  insertions that test the key all keep the invariant.
\<close>

locale keyed_table = table get put
  for get :: "store \<Rightarrow> 'r list" and put :: "('r list \<Rightarrow> 'r list) \<Rightarrow> store \<Rightarrow> store" +
  fixes key :: "'r \<Rightarrow> 'k"
  assumes key_unique: "db_ok s \<Longrightarrow> unique_by key (get s)"
    and key_suffices: "db_ok s \<Longrightarrow> unique_by key (f (get s)) \<Longrightarrow> db_ok (put f s)"
begin

lemma keeps_update [keeps_intros]:
  "(\<And>s r. P s r \<Longrightarrow> key (f s r) = key r) \<Longrightarrow>
     keeps (stored K es db_ok) (execute (\<lambda>s. update_rows get put (P s) (f s) s))"
  by (rule keeps_stored_execute)
     (simp add: update_rows_def key_suffices key_unique unique_by_update)

lemma keeps_delete [keeps_intros]:
  "keeps (stored K es db_ok) (execute (\<lambda>s. delete_rows get put (P s) s))"
  by (rule keeps_stored_execute)
     (simp add: delete_rows_def key_suffices key_unique unique_by_delete)

lemma keeps_insert [keeps_intros]:
  "(\<And>s x. x \<in> set (get s) \<Longrightarrow> key x = key r \<Longrightarrow> C s) \<Longrightarrow>
     keeps (stored K es db_ok) (execute (\<lambda>s. insert_unless put (C s) r s))"
  by (rule keeps_stored_execute)
     (auto simp: insert_unless_def unique_by_append intro!: key_suffices key_unique)

lemma keeps_insert_checked [keeps_intros]:
  "(\<And>s x. x \<in> set (get s) \<Longrightarrow> key x = key r \<Longrightarrow> C s) \<Longrightarrow>
     keeps (stored K es db_ok) (execute_checked (\<lambda>s. insert_checked put (C s) r s))"
  by (rule keeps_stored_checked)
     (auto simp: insert_checked_def unique_by_append split: if_splits
       intro!: key_suffices key_unique)

lemma keeps_insert_select [keeps_intros]:
  "(\<And>s x. x \<in> set (get s) \<Longrightarrow> key x = key r \<Longrightarrow> C s) \<Longrightarrow>
     keeps (stored K es db_ok) (execute_checked (\<lambda>s. insert_select put (D s) (C s) r s))"
  by (rule keeps_stored_checked)
     (auto simp: insert_select_def insert_checked_def unique_by_append split: if_splits
       intro!: key_suffices key_unique)

lemma keeps_upsert [keeps_intros]:
  "keeps (stored K es db_ok) (execute (upsert_row get put key row))"
  by (rule keeps_stored_execute)
     (auto simp: upsert_row_def update_rows_def insert_unless_def unique_by_append
       intro!: key_suffices key_unique unique_by_update [THEN iffD2])

lemma get_by_key:
  "db_ok s \<Longrightarrow> r \<in> set (get s) \<Longrightarrow> filter (\<lambda>x. key x = key r) (get s) = [r]"
  by (intro unique_by_filter_key key_unique)

end

interpretation messages_key: keyed_table messages messages_update msg_id
  by unfold_locales (simp_all add: db_ok_def)

interpretation drafts_key: keyed_table drafts drafts_update dr_id
  by unfold_locales (simp_all add: db_ok_def)

interpretation jobs_key: keyed_table outbound_jobs outbound_jobs_update oj_id
  by unfold_locales (simp_all add: db_ok_def)

interpretation tasks_key: keyed_table tasks tasks_update tsk_id
  by unfold_locales (simp_all add: db_ok_def)

interpretation threads_key: keyed_table threads threads_update th_id
  by unfold_locales (simp_all add: db_ok_def)

interpretation events_key: keyed_table delivery_events delivery_events_update ev_id
  by unfold_locales (simp_all add: db_ok_def)

interpretation idempotency_key: keyed_table idempotency_keys idempotency_keys_update idem_pk
  by unfold_locales (simp_all add: db_ok_def)

interpretation policies_key: keyed_table send_policies send_policies_update sp_tenant_id
  by unfold_locales (simp_all add: db_ok_def)

text \<open>Accounts and ledger rows carry more than a key.\<close>

lemma keeps_update_accounts:
  "(\<And>s r. P s r \<Longrightarrow> ba_tenant_id (f s r) = ba_tenant_id r) \<Longrightarrow>
   (\<And>s r. P s r \<Longrightarrow> 0 \<le> ba_reserved_credits r \<Longrightarrow> 0 \<le> ba_reserved_credits (f s r)) \<Longrightarrow>
     keeps (stored K es db_ok)
       (execute (\<lambda>s. update_rows billing_accounts billing_accounts_update (P s) (f s) s))"
  by (rule keeps_stored_execute)
     (auto simp: db_ok_def update_rows_def unique_by_update set_tbl_update)

lemma keeps_insert_account [keeps_intros]:
  "(\<And>s x. x \<in> set (billing_accounts s) \<Longrightarrow> ba_tenant_id x = ba_tenant_id r \<Longrightarrow> C s) \<Longrightarrow>
   0 \<le> ba_reserved_credits r \<Longrightarrow>
     keeps (stored K es db_ok) (execute (\<lambda>s. insert_unless billing_accounts_update (C s) r s))"
  by (rule keeps_stored_execute) (auto simp: db_ok_def insert_unless_def unique_by_append)

lemma keeps_delete_ledger [keeps_intros]:
  "keeps (stored K es db_ok) (execute (\<lambda>s. delete_rows credit_ledger credit_ledger_update (P s) s))"
  by (rule keeps_stored_execute)
     (simp add: db_ok_def delete_rows_def unique_by_delete unique_opt_delete)

lemma keeps_insert_ledger [keeps_intros]:
  "keeps (stored K es db_ok)
     (execute (\<lambda>s. insert_unless credit_ledger_update (ledger_clash s r) r s))"
  by (rule keeps_stored_execute)
     (auto simp: db_ok_def insert_unless_def unique_by_append unique_opt_append ledger_clash_def)

lemma keeps_insert_ledger_checked [keeps_intros]:
  "keeps (stored K es db_ok)
     (execute_checked (\<lambda>s. insert_checked credit_ledger_update (ledger_clash s r) r s))"
  by (rule keeps_stored_checked)
     (auto simp: db_ok_def insert_checked_def unique_by_append unique_opt_append ledger_clash_def
       split: if_splits)

text \<open>Payment receipts and DID bindings have several keys.\<close>

lemma keeps_insert_receipt [keeps_intros]:
  "keeps (stored K es db_ok)
     (execute_checked (\<lambda>s. insert_checked payment_receipts_update (receipt_clash s r) r s))"
  by (rule keeps_stored_checked)
     (auto simp: db_ok_def insert_checked_def unique_by_append unique_opt_append receipt_clash_def
       same_receipt_key_def split: if_splits)

lemma keeps_delete_receipts [keeps_intros]:
  "keeps (stored K es db_ok)
     (execute (\<lambda>s. delete_rows payment_receipts payment_receipts_update (P s) s))"
  by (rule keeps_stored_execute)
     (simp add: db_ok_def delete_rows_def unique_by_delete unique_opt_delete)

lemma db_ok_update_receipts:
  assumes "db_ok s" "\<not> receipt_update_clash s P f" "\<And>r. P r \<Longrightarrow> pr_id r = i"
    "\<And>r. P r \<Longrightarrow> pr_id (f r) = pr_id r"
  shows "db_ok (snd (update_rows payment_receipts payment_receipts_update P f s))"
proof -
  have u: "unique_by pr_id (payment_receipts s)" using assms(1) by (simp add: db_ok_def)
  note upd = unique_opt_single_update [of pr_id, OF u _ assms(3,4)]
  have no: "(pr_payment_reference (f r) \<noteq> None \<longrightarrow> pr_payment_reference x \<noteq> pr_payment_reference (f r))
      \<and> (pr_settlement_reference (f r) \<noteq> None \<longrightarrow> pr_settlement_reference x \<noteq> pr_settlement_reference (f r))
      \<and> (pr_proof_fingerprint (f r) \<noteq> None \<longrightarrow> pr_proof_fingerprint x \<noteq> pr_proof_fingerprint (f r))"
    if "r \<in> set (payment_receipts s)" "P r" "x \<in> set (payment_receipts s)" "pr_id x \<noteq> pr_id r" for r x
    using that assms(2) unfolding receipt_update_clash_def same_receipt_key_def by blast
  have "unique_opt pr_payment_reference (tbl_update P f (payment_receipts s))"
    by (rule upd) (use no assms(1) in \<open>simp_all add: db_ok_def\<close>)
  moreover have "unique_opt pr_settlement_reference (tbl_update P f (payment_receipts s))"
    by (rule upd) (use no assms(1) in \<open>simp_all add: db_ok_def\<close>)
  moreover have "unique_opt pr_proof_fingerprint (tbl_update P f (payment_receipts s))"
    by (rule upd) (use no assms(1) in \<open>simp_all add: db_ok_def\<close>)
  ultimately show ?thesis
    using assms by (simp add: db_ok_def update_rows_def unique_by_update)
qed

lemma keeps_update_receipts [keeps_intros]:
  "(\<And>r. P r \<Longrightarrow> pr_id r = i) \<Longrightarrow> (\<And>r. P r \<Longrightarrow> pr_id (f r) = pr_id r) \<Longrightarrow>
     keeps (stored K es db_ok) (execute_checked (\<lambda>s. update_checked payment_receipts
       payment_receipts_update (receipt_update_clash s P f) P f s))"
proof (rule keeps_stored_checked)
  fix s n s'
  assume f: "\<And>r. P r \<Longrightarrow> pr_id r = i" "\<And>r. P r \<Longrightarrow> pr_id (f r) = pr_id r" and s: "db_ok s"
    and "update_checked payment_receipts payment_receipts_update (receipt_update_clash s P f) P f s
      = Some (n, s')"
  then have "\<not> receipt_update_clash s P f"
    and "s' = snd (update_rows payment_receipts payment_receipts_update P f s)"
    by (simp_all add: update_checked_def split: if_splits)
  with db_ok_update_receipts [OF s _ f] show "db_ok s'" by simp
qed

lemma keeps_insert_reissue [keeps_intros]:
  "keeps (stored K es db_ok) (execute_checked (\<lambda>s. insert_checked token_reissues_update
     (\<exists>x \<in> set (token_reissues s). tr_id x = tr_id r) r s))"
  by (rule keeps_stored_checked)
     (auto simp: db_ok_def insert_checked_def unique_by_append split: if_splits)

text \<open>
  The agent registry. A row is inserted when it has none of the keys of the rows that are there; an
  update of an indexed column fails when another row has the new key.
\<close>

definition agent_clash :: "store \<Rightarrow> agent_row \<Rightarrow> bool" where
  "agent_clash s r \<longleftrightarrow> (\<exists>x \<in> set (agents s). ag_id x = ag_id r
     \<or> (slug_key r \<noteq> None \<and> slug_key x = slug_key r))"

definition version_clash :: "store \<Rightarrow> agent_version_row \<Rightarrow> bool" where
  "version_clash s r \<longleftrightarrow> (\<exists>x \<in> set (agent_versions s). av_id x = av_id r \<or> version_key x = version_key r)"

definition capability_clash :: "store \<Rightarrow> capability_row \<Rightarrow> bool" where
  "capability_clash s r \<longleftrightarrow> (\<exists>x \<in> set (agent_capabilities s). cap_id x = cap_id r)"

definition tool_clash :: "store \<Rightarrow> tool_binding_row \<Rightarrow> bool" where
  "tool_clash s r \<longleftrightarrow> (\<exists>x \<in> set (agent_tool_bindings s). tb_id x = tb_id r \<or> tool_key x = tool_key r)"

definition binding_clash :: "store \<Rightarrow> agent_mailbox_row \<Rightarrow> bool" where
  "binding_clash s r \<longleftrightarrow> (\<exists>x \<in> set (agent_mailboxes s). am_id x = am_id r \<or> binding_key x = binding_key r)"

definition deployment_clash :: "store \<Rightarrow> agent_deployment_row \<Rightarrow> bool" where
  "deployment_clash s r \<longleftrightarrow> (\<exists>x \<in> set (agent_deployments s). dp_id x = dp_id r
     \<or> (active_target r \<noteq> None \<and> active_target x = active_target r))"

definition mailbox_clash :: "store \<Rightarrow> mailbox_row \<Rightarrow> bool" where
  "mailbox_clash s r \<longleftrightarrow> (\<exists>x \<in> set (mailboxes s). mb_id x = mb_id r \<or> mb_address x = mb_address r)"

definition did_clash :: "store \<Rightarrow> did_binding_row \<Rightarrow> bool" where
  "did_clash s r \<longleftrightarrow> (\<exists>x \<in> set (did_bindings s). did_tenant_id x \<noteq> did_tenant_id r \<and> did_did x = did_did r)"

definition update_clash ::
  "('r \<Rightarrow> 'i) \<Rightarrow> ('r \<Rightarrow> 'k option) \<Rightarrow> 'r list \<Rightarrow> ('r \<Rightarrow> bool) \<Rightarrow> ('r \<Rightarrow> 'r) \<Rightarrow> bool" where
  "update_clash i k t P f \<longleftrightarrow> (\<exists>r \<in> set t. P r \<and> k (f r) \<noteq> None
     \<and> (\<exists>x \<in> set t. i x \<noteq> i r \<and> k x = k (f r)))"

lemmas registry_clash_defs = agent_clash_def version_clash_def capability_clash_def tool_clash_def
  binding_clash_def deployment_clash_def mailbox_clash_def

lemma keeps_registry_inserts [keeps_intros]:
  "keeps (stored K es db_ok) (execute_checked (\<lambda>s. insert_checked agents_update (agent_clash s a) a s))"
  "keeps (stored K es db_ok) (execute_checked (\<lambda>s. insert_checked agent_versions_update (version_clash s v) v s))"
  "keeps (stored K es db_ok) (execute_checked (\<lambda>s. insert_checked agent_capabilities_update (capability_clash s c) c s))"
  "keeps (stored K es db_ok) (execute_checked (\<lambda>s. insert_checked agent_tool_bindings_update (tool_clash s t) t s))"
  "keeps (stored K es db_ok) (execute_checked (\<lambda>s. insert_checked agent_mailboxes_update (binding_clash s b) b s))"
  "keeps (stored K es db_ok) (execute_checked (\<lambda>s. insert_checked agent_deployments_update (deployment_clash s d) d s))"
  "keeps (stored K es db_ok) (execute_checked (\<lambda>s. insert_checked mailboxes_update (mailbox_clash s m) m s))"
  by (rule keeps_stored_checked;
      auto simp: db_ok_def insert_checked_def unique_by_append unique_opt_append registry_clash_defs
        split: if_splits)+

lemma keeps_registry_deletes [keeps_intros]:
  "keeps (stored K es db_ok) (execute (\<lambda>s. delete_rows agent_versions agent_versions_update (P1 s) s))"
  "keeps (stored K es db_ok) (execute (\<lambda>s. delete_rows agent_capabilities agent_capabilities_update (P2 s) s))"
  "keeps (stored K es db_ok) (execute (\<lambda>s. delete_rows agent_tool_bindings agent_tool_bindings_update (P3 s) s))"
  "keeps (stored K es db_ok) (execute (\<lambda>s. delete_rows agent_mailboxes agent_mailboxes_update (P4 s) s))"
  "keeps (stored K es db_ok) (execute (\<lambda>s. delete_rows agent_deployments agent_deployments_update (P5 s) s))"
  "keeps (stored K es db_ok) (execute (\<lambda>s. delete_rows mailboxes mailboxes_update (P6 s) s))"
  by (rule keeps_stored_execute;
      simp add: db_ok_def delete_rows_def unique_by_delete unique_opt_delete)+

lemma unique_opt_checked_update:
  assumes "unique_by i t" "unique_opt k t" "\<And>r. P r \<Longrightarrow> i r = v" "\<And>r. P r \<Longrightarrow> i (f r) = i r"
    "\<not> update_clash i k t P f"
  shows "unique_opt k (tbl_update P f t)"
  using assms(5) by (intro unique_opt_single_update [of i, OF assms(1-4)]) (auto simp: update_clash_def)

lemma keeps_update_agent [keeps_intros]:
  "(\<And>r. P r \<Longrightarrow> ag_id r = v) \<Longrightarrow> (\<And>r. P r \<Longrightarrow> ag_id (f r) = ag_id r) \<Longrightarrow>
     keeps (stored K es db_ok) (execute_checked (\<lambda>s. update_checked agents agents_update
       (update_clash ag_id slug_key (agents s) P f) P f s))"
  by (rule keeps_stored_checked)
     (auto simp: db_ok_def update_checked_def update_rows_def unique_by_update split: if_splits
       intro!: unique_opt_checked_update [where i = ag_id])

lemma keeps_update_deployment [keeps_intros]:
  "(\<And>s r. P s r \<Longrightarrow> dp_id r = v) \<Longrightarrow> (\<And>s r. P s r \<Longrightarrow> dp_id (f r) = dp_id r) \<Longrightarrow>
     keeps (stored K es db_ok) (execute_checked (\<lambda>s. update_checked agent_deployments agent_deployments_update
       (update_clash dp_id active_target (agent_deployments s) (P s) f) (P s) f s))"
  by (rule keeps_stored_checked)
     (auto simp: db_ok_def update_checked_def update_rows_def unique_by_update split: if_splits
       intro!: unique_opt_checked_update [where i = dp_id])

lemma keeps_update_mailbox_status [keeps_intros]:
  "keeps (stored K es db_ok) (execute (\<lambda>s. update_rows mailboxes mailboxes_update P (\<lambda>m. m\<lparr>mb_status := v\<rparr>) s))"
  by (rule keeps_stored_execute) (simp add: db_ok_def update_rows_def unique_by_update)

text \<open>\<open>ON CONFLICT(tenant_id) DO UPDATE\<close> of a DID binding, which may violate the key of the DID.\<close>

definition upsert_did :: "did_binding_row \<Rightarrow> store \<Rightarrow> (nat \<times> store) option" where
  "upsert_did row s = (if did_clash s row then None else
     Some (if \<exists>x \<in> set (did_bindings s). did_tenant_id x = did_tenant_id row
           then update_rows did_bindings did_bindings_update (\<lambda>x. did_tenant_id x = did_tenant_id row)
                  (\<lambda>x. row\<lparr>did_created_at := did_created_at x\<rparr>) s
           else insert_unless did_bindings_update False row s))"

lemma unique_did_update:
  assumes "unique_by did_tenant_id t" "unique_by did_did t"
    "\<forall>x \<in> set t. did_tenant_id x \<noteq> did_tenant_id row \<longrightarrow> did_did x \<noteq> did_did row"
  shows "unique_by did_did (tbl_update (\<lambda>x. did_tenant_id x = did_tenant_id row)
    (\<lambda>x. row\<lparr>did_created_at := did_created_at x\<rparr>) t)"
  using assms
proof (induction t)
  case Nil
  then show ?case by (simp add: tbl_update_def)
next
  case (Cons y t)
  have IH: "unique_by did_did (tbl_update (\<lambda>x. did_tenant_id x = did_tenant_id row)
      (\<lambda>x. row\<lparr>did_created_at := did_created_at x\<rparr>) t)"
    using Cons by (simp add: unique_by_def)
  show ?case
  proof (cases "did_tenant_id y = did_tenant_id row")
    case True
    then have "tbl_update (\<lambda>x. did_tenant_id x = did_tenant_id row)
        (\<lambda>x. row\<lparr>did_created_at := did_created_at x\<rparr>) t = t"
      using Cons.prems(1) by (intro tbl_update_none) (auto simp: unique_by_def image_iff)
    moreover have "did_did x \<noteq> did_did row" if "x \<in> set t" for x
    proof -
      have "did_tenant_id x \<noteq> did_tenant_id y"
        using that Cons.prems(1) by (auto simp: unique_by_def image_iff)
      with that True Cons.prems(3) show ?thesis by simp
    qed
    ultimately show ?thesis using True Cons.prems(2)
      by (auto simp: tbl_update_def unique_by_def image_iff) metis
  next
    case False
    then show ?thesis using IH Cons.prems
      by (auto simp: tbl_update_def unique_by_def split: if_splits)
  qed
qed

lemma keeps_upsert_did [keeps_intros]: "keeps (stored K es db_ok) (execute_checked (upsert_did row))"
proof (rule keeps_stored_checked)
  fix s n s'
  assume s: "db_ok s" and up: "upsert_did row s = Some (n, s')"
  then have no: "\<not> did_clash s row" by (auto simp: upsert_did_def split: if_splits)
  with s up show "db_ok s'"
    by (auto simp: upsert_did_def db_ok_def did_clash_def update_rows_def insert_unless_def
        unique_by_append unique_by_update intro!: unique_did_update split: if_splits)
qed

end
