(* ===== verification/Scenario.thy ===== *)
theory Scenario
  imports StoreInvariant
begin

text \<open>
  A small concrete deployment, on which the properties are applied: one tenant with a mailbox, an
  agent that is bound to it, one outbound mail with its draft and its job, and an account. The
  worlds differ in what the calls of the bindings answer.
\<close>

definition quiet_world :: "store \<Rightarrow> world" where
  "quiet_world s = \<lparr>store_of = s, outbox = [], ticks = 0, clock = (\<lambda>n. 1772323200000),
     uuid = (\<lambda>n. replicate n CHR ''x''), fault = (\<lambda>n. Answered), others = (\<lambda>n s. s),
     provider = (\<lambda>n. Inr ''provider-1''),
     facilitator = (\<lambda>n. \<lparr>reply_status = 200, reply_body = EmptyBody\<rparr>),
     cloudflare = (\<lambda>n. \<lparr>reply_status = 200, reply_body = EmptyBody\<rparr>)\<rparr>"

definition failing_at :: "nat \<Rightarrow> world \<Rightarrow> world" where
  "failing_at k w = w\<lparr>fault := (\<lambda>n. if n = k then Refused ''timeout'' else Answered)\<rparr>"

lemma quiet_quiet_world [simp]: "quiet (quiet_world s)"
  by (simp add: quiet_def quiet_world_def)

lemma store_of_quiet_world [simp]:
  "store_of (quiet_world s) = s" "outbox (quiet_world s) = []" "seen K (quiet_world s) = []"
  by (simp_all add: quiet_world_def seen_def)

lemma stored_quiet_world [simp]: "stored K [] J (quiet_world s) \<longleftrightarrow> J s"
  by (simp add: stored_def quiet_world_def seen_def)

lemma stored_failing_at [simp]: "stored K es J (failing_at k w) \<longleftrightarrow> stored K es J w"
  by (simp add: stored_def failing_at_def seen_def)

definition demo_mailbox :: mailbox_row where
  "demo_mailbox = \<lparr>mb_id = ''mbx1'', mb_tenant_id = ''t1'', mb_address = ''bot@mail.io'',
     mb_status = ''active'', mb_created_at = 1\<rparr>"

definition demo_agent :: agent_row where
  "demo_agent = \<lparr>ag_id = ''agt1'', ag_tenant_id = ''t1'', ag_slug = None, ag_name = ''Bot'',
     ag_description = None, ag_status = ''active'', ag_mode = ''assistant'',
     ag_config_r2_key = None, ag_default_version_id = None, ag_created_at = 1, ag_updated_at = 1\<rparr>"

definition demo_binding :: agent_mailbox_row where
  "demo_binding = \<lparr>am_id = ''amb1'', am_tenant_id = ''t1'', am_agent_id = ''agt1'',
     am_mailbox_id = ''mbx1'', am_role = RolePrimary, am_status = ''active'', am_created_at = 1\<rparr>"

definition demo_message :: message_row where
  "demo_message = \<lparr>msg_id = ''msg1'', msg_tenant_id = ''t1'', msg_mailbox_id = ''mbx1'',
     msg_thread_id = None, msg_direction = Outbound, msg_provider = ProvSes,
     msg_internet_message_id = None, msg_provider_message_id = None,
     msg_from_addr = ''bot@mail.io'', msg_to_addr = ''ann@ext.org'', msg_subject = Some ''Hi'',
     msg_snippet = None, msg_status = MsgTasked, msg_raw_r2_key = None,
     msg_normalized_r2_key = None, msg_received_at = None, msg_sent_at = None,
     msg_created_at = 1\<rparr>"

definition demo_draft :: "draft_status \<Rightarrow> draft_row" where
  "demo_draft st = \<lparr>dr_id = ''drf1'', dr_tenant_id = ''t1'', dr_agent_id = ''agt1'',
     dr_mailbox_id = ''mbx1'', dr_thread_id = None, dr_source_message_id = None,
     dr_created_via = Some ''api'', dr_status = st, dr_draft_r2_key = ''drafts/drf1.json'',
     dr_created_at = 1, dr_updated_at = 1\<rparr>"

definition demo_job :: "outbound_job_status \<Rightarrow> outbound_job_row" where
  "demo_job st = \<lparr>oj_id = ''obj1'', oj_message_id = ''msg1'', oj_task_id = None, oj_status = st,
     oj_ses_region = ''us-east-1'', oj_retry_count = 0, oj_next_retry_at = None,
     oj_last_error = None, oj_draft_r2_key = ''drafts/drf1.json'', oj_created_at = 1,
     oj_updated_at = 1\<rparr>"

definition demo_task :: task_row where
  "demo_task = \<lparr>tsk_id = ''tsk1'', tsk_tenant_id = ''t1'', tsk_mailbox_id = ''mbx1'',
     tsk_source_message_id = ''msg1'', tsk_task_type = ''reply'', tsk_priority = 50,
     tsk_status = TaskQueued, tsk_assigned_agent = Some ''agt1'', tsk_result_r2_key = None,
     tsk_created_at = 1, tsk_updated_at = 1\<rparr>"

definition demo_account :: "int \<Rightarrow> int \<Rightarrow> billing_account" where
  "demo_account a r = \<lparr>ba_tenant_id = ''t1'', ba_status = BillActive,
     ba_pricing_tier = TierPaidActive, ba_default_network = None, ba_default_asset = None,
     ba_available_credits = a, ba_reserved_credits = r, ba_updated_at = 1\<rparr>"

definition demo_payload :: json_object where
  "demo_payload = [(''from'', JStr ''bot@mail.io''), (''to'', JArr [JStr ''ann@ext.org'']),
     (''subject'', JStr ''Hi''), (''text'', JStr ''Hello'')]"

definition demo_store :: "draft_status \<Rightarrow> outbound_job_status \<Rightarrow> int \<Rightarrow> int \<Rightarrow> store" where
  "demo_store ds js a r = empty_store\<lparr>mailboxes := [demo_mailbox], agents := [demo_agent],
     agent_mailboxes := [demo_binding], messages := [demo_message], drafts := [demo_draft ds],
     outbound_jobs := [demo_job js], billing_accounts := [demo_account a r],
     r2 := [''drafts/drf1.json'' \<mapsto> R2Json demo_payload]\<rparr>"

lemmas demo_defs = demo_store_def demo_mailbox_def demo_agent_def demo_binding_def
  demo_message_def demo_draft_def demo_job_def demo_account_def demo_payload_def empty_store_def

lemmas visibility_defs = mailbox_of_tenant_def agent_of_tenant_def message_visible_def
  message_id_visible_def job_visible_def draft_owned_def thread_visible_def task_visible_def

lemma seen_failing_at [simp]: "seen K (failing_at k w) = seen K w"
  by (simp add: failing_at_def seen_def)

lemma db_ok_demo [simp]: "0 \<le> r \<Longrightarrow> db_ok (demo_store ds js a r)"
  by (simp add: db_ok_def demo_defs unique_by_def unique_opt_def)

end
