(* ===== verification/AgentRegistry.thy ===== *)
theory AgentRegistry
  imports Scenario
begin

text \<open>
  \<open>src/repositories/agents.ts\<close>, the part that the mail pipeline relies on: mailboxes and agents by
  id, the policy of an agent, and the two checks that a mailbox is really served by an agent (an
  active binding, an active deployment). Every lookup repeats the referential guards of its
  statement: the rows it joins must exist under the same tenant.
\<close>

section \<open>Mailboxes and agents\<close>

definition getMailboxByAddress :: "string \<Rightarrow> mailbox_row option io" where
  "getMailboxByAddress address =
     query (\<lambda>s. first_row (filter (\<lambda>m. mb_address m = js_lower address) (mailboxes s)))"

definition getMailboxById :: "string \<Rightarrow> mailbox_row option io" where
  "getMailboxById mailboxId =
     query (\<lambda>s. first_row (filter (\<lambda>m. mb_id m = mailboxId) (mailboxes s)))"

text \<open>
  The default version of an agent is shown only while the version exists and is the agent's own.
\<close>

definition agent_view :: "store \<Rightarrow> agent_row \<Rightarrow> agent_row" where
  "agent_view s a = a\<lparr>ag_default_version_id := (case ag_default_version_id a of
       None \<Rightarrow> None
     | Some v \<Rightarrow> if (\<exists>x \<in> set (agent_versions s). av_id x = v \<and> av_agent_id x = ag_id a)
                 then Some v else None)\<rparr>"

definition getAgent :: "string \<Rightarrow> agent_row option io" where
  "getAgent agentId =
     query (\<lambda>s. map_option (agent_view s) (first_row (filter (\<lambda>a. ag_id a = agentId) (agents s))))"

definition listAgents :: "string option \<Rightarrow> agent_row list io" where
  "listAgents tenantId =
     query (\<lambda>s. map (agent_view s) (order_desc ag_created_at
       (filter (\<lambda>a. \<not> truthy tenantId \<or> tenantId = Some (ag_tenant_id a)) (agents s))))"

section \<open>Versions\<close>

record agent_version =
  ver_row :: agent_version_row
  ver_capabilities :: "capability_row list"
  ver_tools :: "tool_binding_row list"

definition listVersionCapabilities :: "string \<Rightarrow> capability_row list io" where
  "listVersionCapabilities agentVersionId =
     query (\<lambda>s. sort_key cap_capability
       (filter (\<lambda>c. cap_agent_version_id c = agentVersionId) (agent_capabilities s)))"

definition listVersionTools :: "string \<Rightarrow> tool_binding_row list io" where
  "listVersionTools agentVersionId =
     query (\<lambda>s. sort_key tb_tool_name
       (filter (\<lambda>t. tb_agent_version_id t = agentVersionId) (agent_tool_bindings s)))"

definition mapAgentVersion :: "agent_version_row \<Rightarrow> agent_version io" where
  "mapAgentVersion row =
     await (listVersionCapabilities (av_id row)) (\<lambda>capabilities.
     await (listVersionTools (av_id row)) (\<lambda>tools.
     ret \<lparr>ver_row = row, ver_capabilities = capabilities, ver_tools = tools\<rparr>))"

definition getAgentVersion :: "string \<Rightarrow> string \<Rightarrow> agent_version option io" where
  "getAgentVersion agentId versionId =
     await (query (\<lambda>s. first_row (filter (\<lambda>v. av_id v = versionId \<and> av_agent_id v = agentId
              \<and> (\<exists>a \<in> set (agents s). ag_id a = av_agent_id v)) (agent_versions s)))) (\<lambda>row.
     case row of None \<Rightarrow> ret None
     | Some r \<Rightarrow> await (mapAgentVersion r) (\<lambda>v. ret (Some v)))"

definition listAgentVersions :: "string \<Rightarrow> agent_version list io" where
  "listAgentVersions agentId =
     await (query (\<lambda>s. order_desc av_created_at (filter (\<lambda>v. av_agent_id v = agentId
              \<and> (\<exists>a \<in> set (agents s). ag_id a = av_agent_id v)) (agent_versions s))))
       (map_io mapAgentVersion)"

section \<open>Policies\<close>

record agent_policy =
  ap_agent_id :: string
  ap_auto_reply_enabled :: bool
  ap_human_review_required :: bool
  ap_confidence_threshold :: rat
  ap_max_auto_replies_per_thread :: int
  ap_allowed_recipient_domains :: "string list"
  ap_blocked_sender_domains :: "string list"
  ap_allowed_tools :: "string list"
  ap_updated_at :: timestamp

text \<open>The string items of a JSON array; any other document, or none, is the empty list.\<close>

definition parseJsonArray :: "json option \<Rightarrow> string list" where
  "parseJsonArray v = (case v of Some (JArr js) \<Rightarrow> json_strings js | _ \<Rightarrow> [])"

definition mapPolicyRow :: "agent_policy_row \<Rightarrow> agent_policy" where
  "mapPolicyRow row =
     \<lparr>ap_agent_id = apr_agent_id row,
      ap_auto_reply_enabled = (apr_auto_reply_enabled row \<noteq> 0),
      ap_human_review_required = (apr_human_review_required row \<noteq> 0),
      ap_confidence_threshold = apr_confidence_threshold row,
      ap_max_auto_replies_per_thread = apr_max_auto_replies_per_thread row,
      ap_allowed_recipient_domains = parseJsonArray (apr_allowed_recipient_domains_json row),
      ap_blocked_sender_domains = parseJsonArray (apr_blocked_sender_domains_json row),
      ap_allowed_tools = parseJsonArray (apr_allowed_tools_json row),
      ap_updated_at = apr_updated_at row\<rparr>"

definition getAgentPolicy :: "string \<Rightarrow> agent_policy option io" where
  "getAgentPolicy agentId =
     query (\<lambda>s. map_option mapPolicyRow (first_row (filter (\<lambda>p. apr_agent_id p = agentId
       \<and> (\<exists>a \<in> set (agents s). ag_id a = apr_agent_id p)) (agent_policies s))))"

definition policy_row_of :: "agent_policy \<Rightarrow> timestamp \<Rightarrow> agent_policy_row" where
  "policy_row_of input updatedAt =
     \<lparr>apr_agent_id = ap_agent_id input,
      apr_auto_reply_enabled = (if ap_auto_reply_enabled input then 1 else 0),
      apr_human_review_required = (if ap_human_review_required input then 1 else 0),
      apr_confidence_threshold = ap_confidence_threshold input,
      apr_max_auto_replies_per_thread = ap_max_auto_replies_per_thread input,
      apr_allowed_recipient_domains_json =
        Some (JArr (map JStr (ap_allowed_recipient_domains input))),
      apr_blocked_sender_domains_json = Some (JArr (map JStr (ap_blocked_sender_domains input))),
      apr_allowed_tools_json = Some (JArr (map JStr (ap_allowed_tools input))),
      apr_updated_at = updatedAt\<rparr>"

definition upsertAgentPolicy :: "agent_policy \<Rightarrow> agent_policy io" where
  "upsertAgentPolicy input =
     await nowIso (\<lambda>updatedAt.
     await (execute (upsert_row agent_policies agent_policies_update apr_agent_id
              (policy_row_of input updatedAt))) (\<lambda>_.
     await (getAgent (ap_agent_id input)) (\<lambda>agent.
     if agent = None
     then seq (catch_undefined (execute (\<lambda>s. delete_rows agent_policies agent_policies_update
                 (\<lambda>p. apr_agent_id p = ap_agent_id input) s)))
            (throw (PlainError (''Agent '' @ ap_agent_id input @ '' no longer exists'')))
     else await (getAgentPolicy (ap_agent_id input)) (\<lambda>row.
          requireRow row ''Failed to load agent policy''))))"

section \<open>Bindings and deployments\<close>

definition binding_active :: "store \<Rightarrow> string \<Rightarrow> string \<Rightarrow> mailbox_role list \<Rightarrow> bool" where
  "binding_active s agentId mailboxId roles \<longleftrightarrow>
     (\<exists>b \<in> set (agent_mailboxes s). am_mailbox_id b = mailboxId \<and> am_agent_id b = agentId
        \<and> am_status b = ''active'' \<and> (roles = [] \<or> am_role b \<in> set roles)
        \<and> mailbox_of_tenant s (am_mailbox_id b) (am_tenant_id b)
        \<and> agent_of_tenant s (am_agent_id b) (am_tenant_id b))"

definition hasActiveMailboxBinding :: "string \<Rightarrow> string \<Rightarrow> mailbox_role list \<Rightarrow> bool io" where
  "hasActiveMailboxBinding agentId mailboxId roles =
     query (\<lambda>s. binding_active s agentId mailboxId roles)"

definition deployment_active :: "store \<Rightarrow> string \<Rightarrow> string \<Rightarrow> bool" where
  "deployment_active s agentId mailboxId \<longleftrightarrow>
     (\<exists>d \<in> set (agent_deployments s). dp_target_type d = ''mailbox'' \<and> dp_target_id d = mailboxId
        \<and> dp_status d = ''active'' \<and> dp_agent_id d = agentId
        \<and> agent_of_tenant s (dp_agent_id d) (dp_tenant_id d)
        \<and> (\<exists>v \<in> set (agent_versions s). av_id v = dp_agent_version_id d
             \<and> av_agent_id v = dp_agent_id d)
        \<and> mailbox_of_tenant s (dp_target_id d) (dp_tenant_id d))"

definition hasActiveMailboxDeployment :: "string \<Rightarrow> string \<Rightarrow> bool io" where
  "hasActiveMailboxDeployment agentId mailboxId =
     query (\<lambda>s. deployment_active s agentId mailboxId)"

section \<open>Invariants and round trips\<close>

lemma db_ok_agent_policies [simp]: "db_ok (agent_policies_update f s) = db_ok s"
  by (simp add: db_ok_def)

lemma keeps_registry_reads [keeps_intros]:
  "keeps (stored K es J) (getMailboxByAddress a)" "keeps (stored K es J) (getMailboxById i)"
  "keeps (stored K es J) (getAgent g)" "keeps (stored K es J) (listAgents t)"
  "keeps (stored K es J) (getAgentPolicy g)" "keeps (stored K es J) (hasActiveMailboxBinding g i rs)"
  "keeps (stored K es J) (hasActiveMailboxDeployment g i)"
  unfolding getMailboxByAddress_def getMailboxById_def getAgent_def listAgents_def
    getAgentPolicy_def hasActiveMailboxBinding_def hasActiveMailboxDeployment_def
  by (rule keeps_stored_query)+

lemma keeps_version_reads [keeps_intros]:
  "keeps (stored K es J) (getAgentVersion g v)" "keeps (stored K es J) (listAgentVersions g)"
  unfolding getAgentVersion_def listAgentVersions_def mapAgentVersion_def
    listVersionCapabilities_def listVersionTools_def
  by (intro keeps_intros)+

lemma keeps_upsertAgentPolicy [keeps_intros]: "keeps (stored K es db_ok) (upsertAgentPolicy p)"
  unfolding upsertAgentPolicy_def
  by (intro keeps_intros)
     (rule keeps_stored_execute,
      simp add: upsert_row_def update_rows_def insert_unless_def delete_rows_def)+

text \<open>A policy survives being written and read back, but for its time stamp.\<close>

lemma parseJsonArray_written [simp]: "parseJsonArray (Some (JArr (map JStr xs))) = xs"
  by (simp add: parseJsonArray_def)

lemma mapPolicyRow_written: "mapPolicyRow (policy_row_of p t) = p\<lparr>ap_updated_at := t\<rparr>"
  by (cases p) (simp add: mapPolicyRow_def policy_row_of_def)

section \<open>Policies in an undisturbed world\<close>

text \<open>The policy that an agent has in a store.\<close>

definition agent_policy_of :: "store \<Rightarrow> string \<Rightarrow> agent_policy option" where
  "agent_policy_of s g = map_option mapPolicyRow (first_row (filter (\<lambda>p. apr_agent_id p = g
     \<and> (\<exists>a \<in> set (agents s). ag_id a = apr_agent_id p)) (agent_policies s)))"

lemma agent_policy_run:
  "quiet w \<Longrightarrow> getAgentPolicy g w = (Inr (agent_policy_of (store_of w) g), tick w)"
  by (simp add: getAgentPolicy_def agent_policy_of_def run_simps)

lemma agent_policy_of_upsert:
  "agent_policy_of (snd (upsert_row agent_policies agent_policies_update apr_agent_id row s)) g =
    (if g = apr_agent_id row
     then if \<exists>a \<in> set (agents s). ag_id a = g then Some (mapPolicyRow row) else None
     else agent_policy_of s g)"
proof -
  have "agents (snd (upsert_row agent_policies agent_policies_update apr_agent_id row s)) = agents s"
    by (simp add: upsert_row_def update_rows_def insert_unless_def)
  moreover note agent_policies_tbl.upsert_first [where k = apr_agent_id and v = g and row = row and s = s
      and Q = "\<lambda>p. apr_agent_id p = g \<and> (\<exists>a \<in> set (agents s). ag_id a = apr_agent_id p)"]
  ultimately show ?thesis by (simp add: agent_policy_of_def)
qed

lemma upsert_agent_policy_run:
  assumes "quiet w" "\<exists>a \<in> set (agents (store_of w)). ag_id a = ap_agent_id p"
  shows "\<exists>t w'. upsertAgentPolicy p w = (Inr (p\<lparr>ap_updated_at := t\<rparr>), w') \<and> quiet w'
    \<and> agents (store_of w') = agents (store_of w)
    \<and> (\<forall>g. agent_policy_of (store_of w') g =
        (if g = ap_agent_id p then Some (p\<lparr>ap_updated_at := t\<rparr>)
         else agent_policy_of (store_of w) g))"
proof -
  define now where "now = clock w (ticks w)"
  define s where "s = snd (upsert_row agent_policies agent_policies_update apr_agent_id
    (policy_row_of p now) (store_of w))"
  have id: "apr_agent_id (policy_row_of p now) = ap_agent_id p" by (simp add: policy_row_of_def)
  have ags: "agents s = agents (store_of w)"
    by (simp add: s_def upsert_row_def update_rows_def insert_unless_def)
  have pol: "agent_policy_of s g = (if g = ap_agent_id p then Some (p\<lparr>ap_updated_at := now\<rparr>)
      else agent_policy_of (store_of w) g)" for g
    using assms(2) by (simp add: s_def agent_policy_of_upsert id mapPolicyRow_written)
  have "first_row (filter (\<lambda>a. ag_id a = ap_agent_id p) (agents s)) \<noteq> None"
    using assms(2) by (auto simp: ags filter_empty_conv)
  then show ?thesis
    using assms(1) pol ags
    by (auto simp: upsertAgentPolicy_def getAgent_def run_simps agent_policy_run
        now_def [symmetric] s_def [symmetric])
qed

end
