(* ===== verification/Routing.thy ===== *)
theory Routing
  imports AgentRegistry
begin

text \<open>
  \<open>src/lib/local-recipient-routing.ts\<close>: the split of the recipients of a mail into mailboxes of
  this installation (internal, delivered without the provider) and the rest (external).
  \<open>route_split\<close> is the pure part of \<open>routeOutboundRecipients\<close>, once the mailboxes are looked up.
\<close>

section \<open>Addresses\<close>

definition normalizeRecipientAddress :: "string \<Rightarrow> string" where
  "normalizeRecipientAddress v = js_lower (js_trim v)"

definition normalizeRecipientList :: "string list \<Rightarrow> string list" where
  "normalizeRecipientList values = filter (\<lambda>a. a \<noteq> []) (map normalizeRecipientAddress values)"

definition recipientDomain :: "string \<Rightarrow> string option" where
  "recipientDomain address = (case last_index_of CHR ''@'' address of
     None \<Rightarrow> None
   | Some i \<Rightarrow> if i = length address - 1 then None else Some (drop (i + 1) address))"

definition uniqueDomains :: "string list \<Rightarrow> string list" where
  "uniqueDomains addresses = js_unique (List.map_filter recipientDomain addresses)"

section \<open>The split\<close>

record local_recipient =
  lr_address :: string
  lr_mailbox_id :: string
  lr_tenant_id :: string

record routed_recipients =
  toInternal :: "local_recipient list"
  ccInternal :: "local_recipient list"
  bccInternal :: "local_recipient list"
  toExternal :: "string list"
  ccExternal :: "string list"
  bccExternal :: "string list"
  internalRecipientCount :: nat
  externalRecipientCount :: nat
  externalToRecipientCount :: nat
  recipientDomains :: "string list"
  internalDomains :: "string list"
  externalDomains :: "string list"

type_synonym local_mailboxes = "string \<Rightarrow> local_recipient option"

definition split_internal :: "local_mailboxes \<Rightarrow> string list \<Rightarrow> local_recipient list" where
  "split_internal localMailboxes addresses = List.map_filter localMailboxes addresses"

definition split_external :: "local_mailboxes \<Rightarrow> string list \<Rightarrow> string list" where
  "split_external localMailboxes addresses = filter (\<lambda>a. localMailboxes a = None) addresses"

definition route_split ::
  "local_mailboxes \<Rightarrow> string list \<Rightarrow> string list \<Rightarrow> string list \<Rightarrow> routed_recipients" where
  "route_split localMailboxes to cc bcc =
     (let toI = split_internal localMailboxes to; ccI = split_internal localMailboxes cc;
          bccI = split_internal localMailboxes bcc;
          toE = split_external localMailboxes to; ccE = split_external localMailboxes cc;
          bccE = split_external localMailboxes bcc;
          internalAddresses = map lr_address (toI @ ccI @ bccI);
          externalAddresses = toE @ ccE @ bccE
      in \<lparr>toInternal = toI, ccInternal = ccI, bccInternal = bccI,
          toExternal = toE, ccExternal = ccE, bccExternal = bccE,
          internalRecipientCount = length internalAddresses,
          externalRecipientCount = length externalAddresses,
          externalToRecipientCount = length toE,
          recipientDomains = uniqueDomains (internalAddresses @ externalAddresses),
          internalDomains = uniqueDomains internalAddresses,
          externalDomains = uniqueDomains externalAddresses\<rparr>)"

text \<open>The look-up of one address: only an active mailbox is internal.\<close>

definition mailbox_entry :: "string \<Rightarrow> mailbox_row option \<Rightarrow> local_recipient option" where
  "mailbox_entry address mailbox = (case mailbox of None \<Rightarrow> None
     | Some m \<Rightarrow> if mb_status m = ''active''
                 then Some \<lparr>lr_address = address, lr_mailbox_id = mb_id m,
                            lr_tenant_id = mb_tenant_id m\<rparr>
                 else None)"

definition lookup_entry :: "string \<Rightarrow> (string \<times> local_recipient option) io" where
  "lookup_entry address =
     await (getMailboxByAddress address) (\<lambda>mailbox. ret (address, mailbox_entry address mailbox))"

definition entries_map :: "(string \<times> local_recipient option) list \<Rightarrow> local_mailboxes" where
  "entries_map entries a = (case map_of entries a of Some (Some r) \<Rightarrow> Some r | _ \<Rightarrow> None)"

definition routeOutboundRecipients ::
  "string list \<Rightarrow> string list \<Rightarrow> string list \<Rightarrow> routed_recipients io" where
  "routeOutboundRecipients to cc bcc =
     (let to' = normalizeRecipientList to; cc' = normalizeRecipientList cc;
          bcc' = normalizeRecipientList bcc;
          uniqueAddresses = js_unique (to' @ cc' @ bcc')
      in await (map_io lookup_entry uniqueAddresses) (\<lambda>entries.
         ret (route_split (entries_map entries) to' cc' bcc')))"

definition getOutboundRecipientRoutingValidationError :: "nat \<Rightarrow> nat \<Rightarrow> string option" where
  "getOutboundRecipientRoutingValidationError externalCount externalToCount =
     (if externalCount > 0 \<and> externalToCount = 0
      then Some ''External delivery requires at least one external To recipient after internal routing''
      else None)"

section \<open>Laws of the split\<close>

lemma normalizeRecipientAddress_idem [simp]:
  "normalizeRecipientAddress (normalizeRecipientAddress v) = normalizeRecipientAddress v"
  by (simp add: normalizeRecipientAddress_def js_trim_lower)

lemma normalizeRecipientList_idem [simp]:
  "normalizeRecipientList (normalizeRecipientList vs) = normalizeRecipientList vs"
  by (induction vs) (simp_all add: normalizeRecipientList_def)

lemma normalizeRecipientList_Nil [simp]: "normalizeRecipientList [] = []"
  by (simp add: normalizeRecipientList_def)

lemma split_lengths:
  "length (split_internal m xs) + length (split_external m xs) = length xs"
  unfolding split_internal_def split_external_def
  by (induction xs) (auto simp: List.map_filter_simps split: option.splits)

lemma set_split_internal: "set (split_internal m xs) = {r. \<exists>a \<in> set xs. m a = Some r}"
  unfolding split_internal_def
  by (induction xs) (auto simp: List.map_filter_simps split: option.splits)

lemma set_split_external: "set (split_external m xs) = {a \<in> set xs. m a = None}"
  by (auto simp: split_external_def)

definition addresses_true :: "local_mailboxes \<Rightarrow> bool" where
  "addresses_true m \<longleftrightarrow> (\<forall>a r. m a = Some r \<longrightarrow> lr_address r = a)"

lemma route_split_simps [simp]:
  "toInternal (route_split m t c b) = split_internal m t"
  "ccInternal (route_split m t c b) = split_internal m c"
  "bccInternal (route_split m t c b) = split_internal m b"
  "toExternal (route_split m t c b) = split_external m t"
  "ccExternal (route_split m t c b) = split_external m c"
  "bccExternal (route_split m t c b) = split_external m b"
  "externalToRecipientCount (route_split m t c b) = length (split_external m t)"
  "internalRecipientCount (route_split m t c b) = length (split_internal m t)
     + length (split_internal m c) + length (split_internal m b)"
  "externalRecipientCount (route_split m t c b) = length (split_external m t)
     + length (split_external m c) + length (split_external m b)"
  "externalDomains (route_split m t c b) =
     uniqueDomains (split_external m t @ split_external m c @ split_external m b)"
  by (simp_all add: route_split_def Let_def)

lemma set_uniqueDomains: "set (uniqueDomains as) = {d. \<exists>a \<in> set as. recipientDomain a = Some d}"
  unfolding uniqueDomains_def set_js_unique
  by (induction as) (auto simp: List.map_filter_simps split: option.splits)

lemma distinct_uniqueDomains [simp]: "distinct (uniqueDomains as)"
  by (simp add: uniqueDomains_def)

lemma recipientDomains_split:
  "set (recipientDomains (route_split m t c b)) =
     set (internalDomains (route_split m t c b)) \<union> set (externalDomains (route_split m t c b))"
  by (auto simp: route_split_def Let_def set_uniqueDomains)

lemma keeps_route [keeps_intros]: "keeps (stored K es J) (routeOutboundRecipients t c b)"
  unfolding routeOutboundRecipients_def lookup_entry_def by (intro keeps_intros)

section \<open>Routing in an undisturbed world\<close>

text \<open>The mailboxes that the look-ups find in a store.\<close>

definition local_mailboxes_of :: "store \<Rightarrow> local_mailboxes" where
  "local_mailboxes_of s a = mailbox_entry a
     (first_row (filter (\<lambda>m. mb_address m = js_lower a) (mailboxes s)))"

lemma lookup_entry_run:
  "quiet w \<Longrightarrow> lookup_entry a w = (Inr (a, local_mailboxes_of (store_of w) a), tick w)"
  by (simp add: lookup_entry_def getMailboxByAddress_def await_def quiet_query ret_def
      local_mailboxes_of_def)

lemma map_lookup_run:
  "quiet w \<Longrightarrow> map_io lookup_entry as w =
     (Inr (map (\<lambda>a. (a, local_mailboxes_of (store_of w) a)) as), ticked (length as) w)"
  by (induction as arbitrary: w) (simp_all add: ret_def await_def lookup_entry_run)

lemma entries_map_pairs:
  "entries_map (map (\<lambda>a. (a, f a)) as) a = (if a \<in> set as then f a else None)"
  by (auto simp: entries_map_def map_of_map_restrict restrict_map_def split: option.split)

lemma split_cong:
  assumes "\<And>a. a \<in> set xs \<Longrightarrow> m a = m' a"
  shows "split_internal m xs = split_internal m' xs" "split_external m xs = split_external m' xs"
  unfolding split_internal_def split_external_def using assms
  by (induction xs) (auto simp: List.map_filter_simps split: option.splits)

definition routed :: "store \<Rightarrow> string list \<Rightarrow> string list \<Rightarrow> string list \<Rightarrow> routed_recipients" where
  "routed s to cc bcc = route_split (local_mailboxes_of s) (normalizeRecipientList to)
     (normalizeRecipientList cc) (normalizeRecipientList bcc)"

lemma route_run:
  assumes "quiet w"
  shows "\<exists>n. routeOutboundRecipients to cc bcc w = (Inr (routed (store_of w) to cc bcc), ticked n w)"
proof -
  let ?t = "normalizeRecipientList to" and ?c = "normalizeRecipientList cc"
  let ?b = "normalizeRecipientList bcc" and ?f = "local_mailboxes_of (store_of w)"
  let ?as = "js_unique (?t @ ?c @ ?b)"
  define m where "m = entries_map (map (\<lambda>a. (a, ?f a)) ?as)"
  have m: "m a = ?f a" if "a \<in> set ?t \<union> set ?c \<union> set ?b" for a
    using that by (simp add: m_def entries_map_pairs)
  have "route_split m ?t ?c ?b = route_split ?f ?t ?c ?b"
    by (simp add: route_split_def split_cong [of ?t m ?f] split_cong [of ?c m ?f]
        split_cong [of ?b m ?f] m)
  with assms show ?thesis
    by (auto simp: routeOutboundRecipients_def Let_def await_def map_lookup_run ret_def routed_def m_def)
qed

section \<open>Properties\<close>

definition active_at :: "store \<Rightarrow> string \<Rightarrow> local_recipient \<Rightarrow> bool" where
  "active_at s address r \<longleftrightarrow> (\<exists>m \<in> set (mailboxes s). mb_address m = address
     \<and> mb_status m = ''active'' \<and> r = \<lparr>lr_address = address, lr_mailbox_id = mb_id m,
       lr_tenant_id = mb_tenant_id m\<rparr>)"

lemma normalized_lower: "a \<in> set (normalizeRecipientList xs) \<Longrightarrow> js_lower a = a"
  by (auto simp: normalizeRecipientList_def normalizeRecipientAddress_def)

lemma local_active:
  assumes "local_mailboxes_of s a = Some r" "js_lower a = a"
  shows "active_at s a r"
  using assms unfolding local_mailboxes_of_def mailbox_entry_def active_at_def
  by (force split: option.splits if_splits dest: first_row_filter_Some)

lemma local_none:
  assumes "unique_by mb_address (mailboxes s)" "local_mailboxes_of s a = None" "js_lower a = a"
  shows "\<not> active_at s a r"
proof
  assume "active_at s a r"
  then obtain m where m: "m \<in> set (mailboxes s)" "mb_address m = a" "mb_status m = ''active''"
    by (auto simp: active_at_def)
  from unique_by_filter_key [OF assms(1) m(1)] m(2,3) assms(2,3)
  show False by (simp add: local_mailboxes_of_def mailbox_entry_def)
qed

lemma active_same:
  assumes "unique_by mb_address (mailboxes s)" "active_at s a r" "active_at s a r'"
  shows "r = r'"
  using assms unfolding active_at_def unique_by_def by (auto simp: distinct_map inj_on_def)

definition partitioned ::
  "store \<Rightarrow> string list \<Rightarrow> local_recipient list \<Rightarrow> string list \<Rightarrow> bool" where
  "partitioned s addresses internal external \<longleftrightarrow>
     length internal + length external = length (normalizeRecipientList addresses)
     \<and> set internal = {x. lr_address x \<in> set (normalizeRecipientList addresses)
          \<and> active_at s (lr_address x) x}
     \<and> set external = {a \<in> set (normalizeRecipientList addresses). \<forall>x. \<not> active_at s a x}"

lemma local_iff_active:
  assumes "unique_by mb_address (mailboxes s)" "js_lower a = a"
  shows "local_mailboxes_of s a = Some r \<longleftrightarrow> active_at s a r"
  using local_active [OF _ assms(2)] local_none [OF assms(1) _ assms(2)] assms
  by (cases "local_mailboxes_of s a") (auto dest: active_same [OF assms(1)])

lemma split_partitioned:
  assumes "unique_by mb_address (mailboxes s)"
  shows "partitioned s xs (split_internal (local_mailboxes_of s) (normalizeRecipientList xs))
    (split_external (local_mailboxes_of s) (normalizeRecipientList xs))"
proof -
  let ?n = "normalizeRecipientList xs" and ?m = "local_mailboxes_of s"
  have some: "?m a = Some r \<longleftrightarrow> active_at s a r" if "a \<in> set ?n" for a r
    using local_iff_active [OF assms normalized_lower [OF that]] .
  have addr: "active_at s a r \<Longrightarrow> lr_address r = a" for a r
    by (auto simp: active_at_def)
  have "(\<exists>a \<in> set ?n. ?m a = Some r) \<longleftrightarrow> lr_address r \<in> set ?n \<and> active_at s (lr_address r) r" for r
    using some addr by metis
  moreover have "?m a = None \<longleftrightarrow> (\<forall>x. \<not> active_at s a x)" if "a \<in> set ?n" for a
    using some [OF that] by (cases "?m a") auto
  ultimately show ?thesis
    by (auto simp: partitioned_def set_split_internal set_split_external split_lengths)
qed

text \<open>
  C29. Routing is a partition. Every recipient of every list, once normalized, is either internal or
  external, none is dropped and none appears on both sides; the internal ones are exactly those
  whose address is that of an active mailbox, each with that mailbox and its tenant; and the domains
  of the mail are those of its internal and its external recipients.
\<close>

theorem routing_partitions_recipients:
  assumes "quiet w" "db_ok (store_of w)"
  shows "\<exists>r w'. routeOutboundRecipients to cc bcc w = (Inr r, w') \<and> store_of w' = store_of w
    \<and> partitioned (store_of w) to (toInternal r) (toExternal r)
    \<and> partitioned (store_of w) cc (ccInternal r) (ccExternal r)
    \<and> partitioned (store_of w) bcc (bccInternal r) (bccExternal r)
    \<and> set (recipientDomains r) = set (internalDomains r) \<union> set (externalDomains r)"
proof -
  have u: "unique_by mb_address (mailboxes (store_of w))" using assms(2) by (simp add: db_ok_def)
  obtain n where "routeOutboundRecipients to cc bcc w = (Inr (routed (store_of w) to cc bcc), ticked n w)"
    using route_run [OF assms(1)] by blast
  then show ?thesis
    by (simp add: routed_def recipientDomains_split split_partitioned [OF u])
qed

theorem routing_partitions_recipients_witness:
  "\<exists>r w'. routeOutboundRecipients [''ann@ext.org'', '' BOT@mail.io''] [] []
     (quiet_world (demo_store DraftQueued JobQueued 5 1)) = (Inr r, w')
   \<and> set (toExternal r) = {''ann@ext.org''}"
proof -
  let ?s = "demo_store DraftQueued JobQueued 5 1"
  have "normalizeRecipientList [''ann@ext.org'', '' BOT@mail.io''] = [''ann@ext.org'', ''bot@mail.io'']"
    by code_simp
  moreover have "active_at ?s a x \<longleftrightarrow> a = ''bot@mail.io'' \<and> x = \<lparr>lr_address = ''bot@mail.io'',
      lr_mailbox_id = ''mbx1'', lr_tenant_id = ''t1''\<rparr>" for a x
    by (auto simp: active_at_def demo_defs)
  ultimately show ?thesis
    using routing_partitions_recipients [of "quiet_world ?s" "[''ann@ext.org'', '' BOT@mail.io'']"
        "[]" "[]"]
    by (force simp: partitioned_def)
qed

end
