(* ===== verification/SendPolicy.thy ===== *)
theory SendPolicy
  imports AgentRegistry
begin

text \<open>
  The two policies that decide about external mail: the send policy of a tenant
  (\<open>src/repositories/tenant-policies.ts\<close>, with the limits of \<open>src/lib/send-limits.ts\<close>) and the
  default policy of self-serve agents (\<open>src/lib/self-serve-agent-policy.ts\<close>), which is recognised
  by its contents and relaxed or moved along with the tenant's internal domains.
\<close>

section \<open>Send limits\<close>

record effective_send_limits =
  dailySendLimit :: "nat option"
  hourlySendLimit :: "nat option"
  rollingWindow :: bool

definition getEffectiveSendLimits :: "pricing_tier \<Rightarrow> effective_send_limits" where
  "getEffectiveSendLimits pricingTier =
     (if pricingTier = TierFree
      then \<lparr>dailySendLimit = Some 10, hourlySendLimit = Some 1, rollingWindow = True\<rparr>
      else \<lparr>dailySendLimit = None, hourlySendLimit = None, rollingWindow = False\<rparr>)"

section \<open>The send policy of a tenant\<close>

record send_policy =
  spr_tenant_id :: string
  spr_pricing_tier :: pricing_tier
  spr_outbound_status :: outbound_status
  spr_internal_domain_allowlist :: "string list"
  spr_external_send_enabled :: bool
  spr_review_required :: bool
  spr_effective_daily :: "nat option"
  spr_effective_hourly :: "nat option"
  spr_rolling :: bool
  spr_updated_at :: timestamp

definition normalize_items :: "string list \<Rightarrow> string list" where
  "normalize_items items = filter (\<lambda>i. i \<noteq> []) (map (\<lambda>i. js_lower (js_trim i)) items)"

text \<open>\<open>parseJsonArray\<close> of \<open>tenant-policies.ts\<close> also normalizes the items.\<close>

definition parseDomainArray :: "json option \<Rightarrow> string list" where
  "parseDomainArray v = (case v of Some (JArr js) \<Rightarrow> normalize_items (json_strings js) | _ \<Rightarrow> [])"

definition mapTenantSendPolicyRow :: "send_policy_row \<Rightarrow> send_policy" where
  "mapTenantSendPolicyRow row =
     (let limits = getEffectiveSendLimits (sp_pricing_tier row)
      in \<lparr>spr_tenant_id = sp_tenant_id row, spr_pricing_tier = sp_pricing_tier row,
          spr_outbound_status = sp_outbound_status row,
          spr_internal_domain_allowlist = parseDomainArray (sp_internal_domain_allowlist_json row),
          spr_external_send_enabled = (sp_external_send_enabled row \<noteq> 0),
          spr_review_required = (sp_review_required row \<noteq> 0),
          spr_effective_daily = dailySendLimit limits,
          spr_effective_hourly = hourlySendLimit limits,
          spr_rolling = rollingWindow limits,
          spr_updated_at = sp_updated_at row\<rparr>)"

definition getTenantSendPolicy :: "string \<Rightarrow> send_policy option io" where
  "getTenantSendPolicy tenantId =
     query (\<lambda>s. map_option mapTenantSendPolicyRow
       (first_row (filter (\<lambda>p. sp_tenant_id p = tenantId) (send_policies s))))"

definition default_send_policy_row :: "string \<Rightarrow> timestamp \<Rightarrow> send_policy_row" where
  "default_send_policy_row tenantId updatedAt =
     \<lparr>sp_tenant_id = tenantId, sp_pricing_tier = TierFree, sp_outbound_status = InternalOnly,
      sp_internal_domain_allowlist_json = Some (JArr [JStr ''mailagents.net'']),
      sp_external_send_enabled = 0, sp_review_required = 1, sp_updated_at = updatedAt\<rparr>"

definition ensureTenantSendPolicy :: "string \<Rightarrow> send_policy io" where
  "ensureTenantSendPolicy tenantId =
     await (getTenantSendPolicy tenantId) (\<lambda>existing. case existing of
       Some p \<Rightarrow> ret p
     | None \<Rightarrow>
         await nowIso (\<lambda>updatedAt.
         await (execute (\<lambda>s. insert_unless send_policies_update
                  (\<exists>p \<in> set (send_policies s). sp_tenant_id p = tenantId)
                  (default_send_policy_row tenantId updatedAt) s)) (\<lambda>_.
         await (getTenantSendPolicy tenantId) (\<lambda>created.
         requireRow created ''Failed to create tenant send policy''))))"

definition upsertTenantSendPolicy ::
  "string \<Rightarrow> pricing_tier \<Rightarrow> outbound_status \<Rightarrow> string list \<Rightarrow> bool \<Rightarrow> bool \<Rightarrow> send_policy io" where
  "upsertTenantSendPolicy tenantId tier status allowlist externalEnabled reviewRequired =
     await nowIso (\<lambda>updatedAt.
     await (execute (upsert_row send_policies send_policies_update sp_tenant_id
              \<lparr>sp_tenant_id = tenantId, sp_pricing_tier = tier, sp_outbound_status = status,
               sp_internal_domain_allowlist_json =
                 Some (JArr (map JStr (normalize_items allowlist))),
               sp_external_send_enabled = (if externalEnabled then 1 else 0),
               sp_review_required = (if reviewRequired then 1 else 0),
               sp_updated_at = updatedAt\<rparr>)) (\<lambda>_.
     await (getTenantSendPolicy tenantId) (\<lambda>row.
     requireRow row ''Failed to load tenant send policy'')))"

section \<open>The default policy of self-serve agents\<close>

definition default_allowed_tools :: "string list" where
  "default_allowed_tools = [''reply_email'', ''mark_task_done'']"

definition default_confidence_threshold :: rat where
  "default_confidence_threshold = 85 / 100"

definition default_max_auto_replies :: int where
  "default_max_auto_replies = 1"

definition normalizeDomainList :: "string list \<Rightarrow> string list" where
  "normalizeDomainList items = sort (js_unique (normalize_items items))"

definition normalizeStringList :: "string list \<Rightarrow> string list" where
  "normalizeStringList items = sort (js_unique (filter (\<lambda>i. i \<noteq> []) (map js_trim items)))"

definition buildDefaultSelfServeAgentPolicy :: "string \<Rightarrow> string list \<Rightarrow> agent_policy" where
  "buildDefaultSelfServeAgentPolicy agentId internalDomainAllowlist =
     \<lparr>ap_agent_id = agentId, ap_auto_reply_enabled = False, ap_human_review_required = True,
      ap_confidence_threshold = default_confidence_threshold,
      ap_max_auto_replies_per_thread = default_max_auto_replies,
      ap_allowed_recipient_domains = normalizeDomainList internalDomainAllowlist,
      ap_blocked_sender_domains = [], ap_allowed_tools = default_allowed_tools,
      ap_updated_at = 0\<rparr>"

definition isDefaultSelfServeInternalOnlyAgentPolicy :: "agent_policy \<Rightarrow> string list \<Rightarrow> bool" where
  "isDefaultSelfServeInternalOnlyAgentPolicy policy internalDomainAllowlist \<longleftrightarrow>
     \<not> ap_auto_reply_enabled policy \<and> ap_human_review_required policy
     \<and> ap_confidence_threshold policy = default_confidence_threshold
     \<and> ap_max_auto_replies_per_thread policy = default_max_auto_replies
     \<and> normalizeDomainList (ap_allowed_recipient_domains policy)
         = normalizeDomainList internalDomainAllowlist
     \<and> normalizeStringList (ap_blocked_sender_domains policy) = []
     \<and> normalizeStringList (ap_allowed_tools policy) = normalizeStringList default_allowed_tools"

text \<open>The loop over the agents: a policy that is not the default one is left alone.\<close>

primrec sync_default_policies ::
  "string list \<Rightarrow> string list \<Rightarrow> agent_row list \<Rightarrow> string list io" where
  "sync_default_policies previous next_domains [] = ret []"
| "sync_default_policies previous next_domains (agent # rest) =
     await (getAgentPolicy (ag_id agent)) (\<lambda>policy. case policy of
       None \<Rightarrow> sync_default_policies previous next_domains rest
     | Some p \<Rightarrow>
         if \<not> isDefaultSelfServeInternalOnlyAgentPolicy p previous
         then sync_default_policies previous next_domains rest
         else await (upsertAgentPolicy (p\<lparr>ap_allowed_recipient_domains := next_domains\<rparr>)) (\<lambda>_.
              await (sync_default_policies previous next_domains rest) (\<lambda>ids.
              ret (ag_id agent # ids))))"

definition relaxTenantDefaultAgentRecipientPoliciesForExternalSend ::
  "string \<Rightarrow> string list \<Rightarrow> string list io" where
  "relaxTenantDefaultAgentRecipientPoliciesForExternalSend tenantId internalDomainAllowlist =
     await (listAgents (Some tenantId)) (sync_default_policies internalDomainAllowlist [])"

definition syncTenantDefaultAgentRecipientPoliciesForInternalDomainChange ::
  "string \<Rightarrow> string list \<Rightarrow> string list \<Rightarrow> string list io" where
  "syncTenantDefaultAgentRecipientPoliciesForInternalDomainChange tenantId previous next_domains =
     await (listAgents (Some tenantId))
       (sync_default_policies previous (normalizeDomainList next_domains))"

section \<open>Laws\<close>

lemma keeps_send_policy_reads [keeps_intros]: "keeps (stored K es J) (getTenantSendPolicy t)"
  unfolding getTenantSendPolicy_def by (rule keeps_stored_query)

lemma keeps_ensureTenantSendPolicy [keeps_intros]:
  "keeps (stored K es db_ok) (ensureTenantSendPolicy t)"
  unfolding ensureTenantSendPolicy_def
  by (intro keeps_intros) (auto simp: default_send_policy_row_def)

lemma keeps_upsertTenantSendPolicy [keeps_intros]:
  "keeps (stored K es db_ok) (upsertTenantSendPolicy t tier st al e r)"
  unfolding upsertTenantSendPolicy_def by (intro keeps_intros)

lemma keeps_sync [keeps_intros]: "keeps (stored K es db_ok) (sync_default_policies p n as)"
  by (induction as) (auto intro!: keeps_intros)

lemma keeps_relax [keeps_intros]:
  "keeps (stored K es db_ok) (relaxTenantDefaultAgentRecipientPoliciesForExternalSend t ds)"
  "keeps (stored K es db_ok) (syncTenantDefaultAgentRecipientPoliciesForInternalDomainChange t ps ns)"
  unfolding relaxTenantDefaultAgentRecipientPoliciesForExternalSend_def
    syncTenantDefaultAgentRecipientPoliciesForInternalDomainChange_def
  by (intro keeps_intros)+

lemma normalize_items_idem [simp]: "normalize_items (normalize_items xs) = normalize_items xs"
  by (induction xs) (simp_all add: normalize_items_def js_trim_lower)

lemma normalize_items_set: "x \<in> set (normalize_items xs) \<Longrightarrow> js_lower (js_trim x) = x \<and> x \<noteq> []"
  by (auto simp: normalize_items_def js_trim_lower)

lemma normalize_items_fixed:
  "(\<And>x. x \<in> set xs \<Longrightarrow> js_lower (js_trim x) = x \<and> x \<noteq> []) \<Longrightarrow> normalize_items xs = xs"
  unfolding normalize_items_def by (induction xs) auto

lemma normalizeDomainList_idem [simp]:
  "normalizeDomainList (normalizeDomainList xs) = normalizeDomainList xs"
proof -
  let ?ys = "normalizeDomainList xs"
  have "normalize_items ?ys = ?ys"
    by (rule normalize_items_fixed) (auto simp: normalizeDomainList_def dest: normalize_items_set)
  moreover have "distinct ?ys" by (simp add: normalizeDomainList_def)
  ultimately show ?thesis
    by (simp add: normalizeDomainList_def js_unique_distinct sorted_sort_id)
qed

lemma default_policy_recognised:
  "isDefaultSelfServeInternalOnlyAgentPolicy (buildDefaultSelfServeAgentPolicy a ds) ds"
  by (simp add: isDefaultSelfServeInternalOnlyAgentPolicy_def buildDefaultSelfServeAgentPolicy_def
      normalizeStringList_def)

section \<open>The send policy in an undisturbed world\<close>

definition send_policy_of :: "store \<Rightarrow> string \<Rightarrow> send_policy option" where
  "send_policy_of s t = map_option mapTenantSendPolicyRow
     (first_row (filter (\<lambda>p. sp_tenant_id p = t) (send_policies s)))"

lemma parseDomainArray_written [simp]:
  "parseDomainArray (Some (JArr (map JStr (normalize_items xs)))) = normalize_items xs"
  by (simp add: parseDomainArray_def)

lemma send_policy_of_upsert:
  "send_policy_of (snd (upsert_row send_policies send_policies_update sp_tenant_id row s)) t =
    (if t = sp_tenant_id row then Some (mapTenantSendPolicyRow row) else send_policy_of s t)"
  using policies_tbl.upsert_first [where k = sp_tenant_id and v = t and row = row and s = s
      and Q = "\<lambda>p. sp_tenant_id p = t"]
  by (simp add: send_policy_of_def)

lemma default_policy_moves:
  "isDefaultSelfServeInternalOnlyAgentPolicy p ds \<Longrightarrow>
     isDefaultSelfServeInternalOnlyAgentPolicy
       (p\<lparr>ap_allowed_recipient_domains := normalizeDomainList es, ap_updated_at := t\<rparr>) es"
  by (simp add: isDefaultSelfServeInternalOnlyAgentPolicy_def)

definition default_policy_at :: "string list \<Rightarrow> store \<Rightarrow> string \<Rightarrow> bool" where
  "default_policy_at ds s g \<longleftrightarrow> (case agent_policy_of s g of None \<Rightarrow> False
     | Some p \<Rightarrow> isDefaultSelfServeInternalOnlyAgentPolicy p ds)"

text \<open>The policies of the agents \<open>gs\<close> get the domains \<open>es\<close>, the others are what they were.\<close>

definition domains_moved :: "string list \<Rightarrow> string set \<Rightarrow> store \<Rightarrow> store \<Rightarrow> bool" where
  "domains_moved es gs s s' \<longleftrightarrow> (\<forall>g. if g \<in> gs
     then \<exists>p t. agent_policy_of s g = Some p \<and> agent_policy_of s' g =
       Some (p\<lparr>ap_allowed_recipient_domains := es, ap_updated_at := t\<rparr>)
     else agent_policy_of s' g = agent_policy_of s g)"

lemma domains_moved_trans:
  assumes "domains_moved es {x} s s1" "domains_moved es gs s1 s2" "x \<notin> gs"
  shows "domains_moved es (insert x gs) s s2"
  unfolding domains_moved_def
proof
  fix g
  show "if g \<in> insert x gs then \<exists>p t. agent_policy_of s g = Some p \<and> agent_policy_of s2 g =
       Some (p\<lparr>ap_allowed_recipient_domains := es, ap_updated_at := t\<rparr>)
     else agent_policy_of s2 g = agent_policy_of s g"
    using assms(1,2) [unfolded domains_moved_def, THEN spec, of g] assms(3)
    by (auto split: if_splits)
qed

lemma policy_keyed: "agent_policy_of s g = Some p \<Longrightarrow> ap_agent_id p = g"
  unfolding agent_policy_of_def
  by (auto dest!: first_row_filter_Some simp: mapPolicyRow_def)

lemma sync_run:
  assumes "quiet w" "distinct (map ag_id as)"
    and "\<forall>x \<in> set as. \<exists>a \<in> set (agents (store_of w)). ag_id a = ag_id x"
  shows "\<exists>w'. sync_default_policies ds es as w
      = (Inr (filter (default_policy_at ds (store_of w)) (map ag_id as)), w')
    \<and> domains_moved es {g \<in> ag_id ` set as. default_policy_at ds (store_of w) g}
        (store_of w) (store_of w')"
  using assms
proof (induction as arbitrary: w)
  case Nil
  then show ?case by (simp add: ret_run domains_moved_def)
next
  case (Cons x as)
  let ?s = "store_of w" and ?w = "tick w"
  let ?gs = "{g \<in> ag_id ` set as. default_policy_at ds ?s g}"
  show ?case
  proof (cases "default_policy_at ds ?s (ag_id x)")
    case False
    then have run: "sync_default_policies ds es (x # as) w = sync_default_policies ds es as ?w"
      using Cons.prems(1)
      by (auto simp: await_app agent_policy_run default_policy_at_def split: option.split)
    have "{g \<in> ag_id ` set (x # as). default_policy_at ds ?s g} = ?gs" using False by auto
    with False run Cons.IH [of ?w] Cons.prems show ?thesis by simp
  next
    case True
    then obtain p where p: "agent_policy_of ?s (ag_id x) = Some p"
        "isDefaultSelfServeInternalOnlyAgentPolicy p ds"
      by (auto simp: default_policy_at_def split: option.splits)
    let ?q = "p\<lparr>ap_allowed_recipient_domains := es\<rparr>"
    have id: "ap_agent_id ?q = ag_id x" using policy_keyed [OF p(1)] by simp
    have "\<exists>a \<in> set (agents (store_of ?w)). ag_id a = ap_agent_id ?q"
      using Cons.prems(3) by (simp add: id)
    from upsert_agent_policy_run [OF _ this] Cons.prems(1)
    obtain t w1 where run: "upsertAgentPolicy ?q ?w = (Inr (?q\<lparr>ap_updated_at := t\<rparr>), w1)"
      and q: "quiet w1" and ags: "agents (store_of w1) = agents ?s"
      and pol: "\<And>g. agent_policy_of (store_of w1) g = (if g = ag_id x
        then Some (?q\<lparr>ap_updated_at := t\<rparr>) else agent_policy_of ?s g)"
      unfolding id by fastforce
    have moved: "domains_moved es {ag_id x} ?s (store_of w1)"
      unfolding domains_moved_def using p(1) pol by auto
    have same: "default_policy_at ds (store_of w1) g = default_policy_at ds ?s g"
      if "g \<in> ag_id ` set as" for g
    proof -
      have "ag_id x \<notin> ag_id ` set as" using Cons.prems(2) by simp
      with that have "g \<noteq> ag_id x" by blast
      then show ?thesis by (simp add: default_policy_at_def pol)
    qed
    have gs: "{g \<in> ag_id ` set as. default_policy_at ds (store_of w1) g} = ?gs" using same by auto
    have ids: "filter (default_policy_at ds (store_of w1)) (map ag_id as)
        = filter (default_policy_at ds ?s) (map ag_id as)"
      using same by (intro filter_cong) auto
    obtain w' where rest: "sync_default_policies ds es as w1
        = (Inr (filter (default_policy_at ds ?s) (map ag_id as)), w')"
      and tail: "domains_moved es ?gs (store_of w1) (store_of w')"
      using Cons.IH [OF q] Cons.prems(2,3) unfolding ags gs ids by auto
    have "sync_default_policies ds es (x # as) w
        = (Inr (ag_id x # filter (default_policy_at ds ?s) (map ag_id as)), w')"
      using Cons.prems(1) p run rest by (simp add: await_app agent_policy_run ret_run)
    moreover have "domains_moved es (insert (ag_id x) ?gs) ?s (store_of w')"
      by (rule domains_moved_trans [OF moved tail]) (use Cons.prems(2) in auto)
    moreover have "{g \<in> ag_id ` set (x # as). default_policy_at ds ?s g} = insert (ag_id x) ?gs"
      using True by auto
    ultimately show ?thesis using True by simp
  qed
qed

section \<open>Properties\<close>

text \<open>
  A tenant's send policy is read back as it was given. After an upsert, whether it inserts or
  replaces, the tenant has the given tier, status and flags, the allow-list in its normal form and
  the send limits of its tier, and every other tenant has the policy it had.
\<close>

theorem send_policy_round_trip:
  assumes "quiet w"
  shows "\<exists>p w'. upsertTenantSendPolicy t tier st al ext rv w = (Inr p, w')
    \<and> send_policy_of (store_of w') t = Some p
    \<and> spr_tenant_id p = t \<and> spr_pricing_tier p = tier \<and> spr_outbound_status p = st
    \<and> spr_internal_domain_allowlist p = normalize_items al
    \<and> spr_external_send_enabled p = ext \<and> spr_review_required p = rv
    \<and> (spr_effective_daily p, spr_effective_hourly p)
        = (if tier = TierFree then (Some 10, Some 1) else (None, None))
    \<and> (\<forall>t'. t' \<noteq> t \<longrightarrow>
        send_policy_of (store_of w') t' = send_policy_of (store_of w) t')"
  using assms
  by (simp add: upsertTenantSendPolicy_def getTenantSendPolicy_def run_simps
      send_policy_of_upsert mapTenantSendPolicyRow_def Let_def getEffectiveSendLimits_def
      send_policy_of_def [symmetric])

theorem send_policy_round_trip_witness:
  "\<exists>p w'. upsertTenantSendPolicy ''t1'' TierFree ExternalEnabled ['' Mail.IO ''] True False
      (quiet_world (demo_store DraftQueued JobQueued 5 1)) = (Inr p, w')
    \<and> spr_internal_domain_allowlist p = [''mail.io''] \<and> spr_effective_daily p = Some 10"
proof -
  have "normalize_items ['' Mail.IO ''] = [''mail.io'']" by code_simp
  with send_policy_round_trip [of "quiet_world (demo_store DraftQueued JobQueued 5 1)" "''t1''"
      TierFree ExternalEnabled "['' Mail.IO '']" True False]
  show ?thesis by auto
qed

lemma distinct_map_order_desc [simp]:
  "distinct (map f (order_desc k t)) = distinct (map f t)"
  by (metis card_distinct distinct_card length_map length_order_desc set_map set_order_desc)

text \<open>
  C30. When a tenant changes its internal domains, the default policies of its agents follow. The
  call returns exactly the agents whose policy was the default one for the old domains, in the order
  of the list; each of these now has the default policy for the new domains, with every other field
  as it was, and no other policy has changed, a customized one in particular.
\<close>

theorem default_policies_follow_the_domains:
  assumes "quiet w" "db_ok (store_of w)"
  shows "\<exists>ids w'. syncTenantDefaultAgentRecipientPoliciesForInternalDomainChange t old new w
      = (Inr ids, w')
    \<and> set ids = {g. default_policy_at old (store_of w) g
        \<and> (\<exists>a \<in> set (agents (store_of w)). ag_id a = g \<and> (t = [] \<or> ag_tenant_id a = t))}
    \<and> domains_moved (normalizeDomainList new) (set ids) (store_of w) (store_of w')
    \<and> (\<forall>g \<in> set ids. default_policy_at new (store_of w') g)"
proof -
  let ?s = "store_of w" and ?es = "normalizeDomainList new"
  let ?as = "map (agent_view ?s) (order_desc ag_created_at
    (filter (\<lambda>a. \<not> truthy (Some t) \<or> t = ag_tenant_id a) (agents ?s)))"
  have view: "ag_id (agent_view ?s a) = ag_id a" for a by (simp add: agent_view_def)
  have list: "listAgents (Some t) w = (Inr ?as, tick w)"
    using assms(1) by (simp add: listAgents_def run_simps)
  have ids: "set (map ag_id ?as)
      = {g. \<exists>a \<in> set (agents ?s). ag_id a = g \<and> (t = [] \<or> ag_tenant_id a = t)}"
    by (auto simp: view truthy_def image_iff)
  have "distinct (map ag_id (agents ?s))" using assms(2) by (simp add: db_ok_def unique_by_def)
  then have d: "distinct (map ag_id ?as)"
    by (simp add: view comp_def distinct_map_filter)
  have ex: "\<forall>x \<in> set ?as. \<exists>a \<in> set (agents (store_of (tick w))). ag_id a = ag_id x"
    by (auto simp: view)
  from sync_run [OF _ d ex, of old ?es] assms(1) obtain w' where
    run: "sync_default_policies old ?es ?as (tick w)
      = (Inr (filter (default_policy_at old ?s) (map ag_id ?as)), w')"
    and moved: "domains_moved ?es {g \<in> ag_id ` set ?as. default_policy_at old ?s g} ?s (store_of w')"
    by auto
  let ?ids = "filter (default_policy_at old ?s) (map ag_id ?as)"
  have set_ids: "set ?ids = {g \<in> ag_id ` set ?as. default_policy_at old ?s g}" by auto
  have "default_policy_at new (store_of w') g" if "g \<in> set ?ids" for g
    using moved [unfolded domains_moved_def, THEN spec, of g] set_ids that
    by (auto simp: default_policy_at_def default_policy_moves split: option.splits)
  moreover have "set ?ids = {g. default_policy_at old ?s g
        \<and> (\<exists>a \<in> set (agents ?s). ag_id a = g \<and> (t = [] \<or> ag_tenant_id a = t))}"
    using ids by (simp only: set_filter Collect_conj_eq) blast
  moreover have "syncTenantDefaultAgentRecipientPoliciesForInternalDomainChange t old new w
      = (Inr ?ids, w')"
    unfolding syncTenantDefaultAgentRecipientPoliciesForInternalDomainChange_def await_app list
    by (simp only: split sum.case run)
  ultimately show ?thesis using moved unfolding set_ids [symmetric] by blast
qed

lemma demo_default_policy:
  "default_policy_at [''mail.io''] ((demo_store DraftQueued JobQueued 5 1)
     \<lparr>agent_policies := [policy_row_of (buildDefaultSelfServeAgentPolicy ''agt1'' [''mail.io'']) 1]\<rparr>)
     ''agt1''"
proof -
  have "apr_agent_id (policy_row_of (buildDefaultSelfServeAgentPolicy ''agt1'' [''mail.io'']) 1)
      = ''agt1''"
    by (simp add: policy_row_of_def buildDefaultSelfServeAgentPolicy_def)
  moreover have "isDefaultSelfServeInternalOnlyAgentPolicy
      ((buildDefaultSelfServeAgentPolicy ''agt1'' [''mail.io''])\<lparr>ap_updated_at := 1\<rparr>) [''mail.io'']"
    using default_policy_recognised [of "''agt1''" "[''mail.io'']"]
    by (simp add: isDefaultSelfServeInternalOnlyAgentPolicy_def)
  ultimately show ?thesis
    by (simp add: default_policy_at_def agent_policy_of_def mapPolicyRow_written demo_defs)
qed

theorem default_policies_follow_the_domains_witness:
  "\<exists>ids w'. syncTenantDefaultAgentRecipientPoliciesForInternalDomainChange ''t1'' [''mail.io'']
      [''New.io''] (quiet_world ((demo_store DraftQueued JobQueued 5 1) \<lparr>agent_policies :=
         [policy_row_of (buildDefaultSelfServeAgentPolicy ''agt1'' [''mail.io'']) 1]\<rparr>))
      = (Inr ids, w')
    \<and> default_policy_at [''New.io''] (store_of w') ''agt1''"
proof -
  let ?s = "(demo_store DraftQueued JobQueued 5 1) \<lparr>agent_policies :=
     [policy_row_of (buildDefaultSelfServeAgentPolicy ''agt1'' [''mail.io'']) 1]\<rparr>"
  have "db_ok ?s" using db_ok_demo [of 1 DraftQueued JobQueued 5] by (simp add: db_ok_def)
  moreover have "\<exists>a \<in> set (agents ?s). ag_id a = ''agt1'' \<and> ag_tenant_id a = ''t1''"
    by (simp add: demo_defs)
  ultimately show ?thesis
    using default_policies_follow_the_domains [of "quiet_world ?s" "''t1''" "[''mail.io'']"
        "[''New.io'']"] demo_default_policy by auto
qed

end
