(* ===== verification/LedgerMetadata.thy ===== *)
theory LedgerMetadata
  imports Effects
begin

text \<open>
  \<open>src/lib/payments/ledger-metadata.ts\<close>: the typed view of the credit ledger. A ledger row
  carries an untyped JSON document; \<open>parseTypedCreditLedgerEntry\<close> accepts exactly three shapes and
  rejects every other row. \<open>ledger_metadata_json\<close> is the document that \<open>JSON.stringify\<close> writes for
  a typed value (an \<open>undefined\<close> field is left out), so that writing and parsing can be compared.
\<close>

datatype confirmation_mode = ManualAdmin | Facilitator

datatype usage_type = UsageSend | UsageReply

record topup_settlement =
  ts_confirmation_mode :: confirmation_mode
  ts_credits_requested :: int
  ts_facilitator_verify :: "json option"
  ts_facilitator_settle :: "json option"

record outbound_usage =
  ou_entry_type :: ledger_entry_type
  ou_usage_type :: usage_type
  ou_credits_charged :: int
  ou_message_id :: string
  ou_outbound_job_id :: string
  ou_draft_id :: "string option"
  ou_draft_created_via :: "string option"
  ou_recipient_domains :: "string list"
  ou_external_domains :: "string list"

record upgrade_grant =
  ug_confirmation_mode :: confirmation_mode
  ug_credits_granted :: int
  ug_facilitator_verify :: "json option"
  ug_facilitator_settle :: "json option"

datatype ledger_metadata =
    TopupSettlement topup_settlement
  | UpgradeCreditGrant upgrade_grant
  | OutboundUsage outbound_usage

record typed_ledger_entry =
  te_row :: ledger_row
  te_metadata :: ledger_metadata

definition isTopupSettlementLedgerEntry :: "typed_ledger_entry option \<Rightarrow> bool" where
  "isTopupSettlementLedgerEntry entry \<longleftrightarrow> (case entry of
     None \<Rightarrow> False
   | Some e \<Rightarrow> cl_entry_type (te_row e) = EtTopup
       \<and> (case te_metadata e of TopupSettlement m \<Rightarrow> True | _ \<Rightarrow> False))"

definition isUpgradeCreditGrantLedgerEntry :: "typed_ledger_entry option \<Rightarrow> bool" where
  "isUpgradeCreditGrantLedgerEntry entry \<longleftrightarrow> (case entry of
     None \<Rightarrow> False
   | Some e \<Rightarrow> cl_entry_type (te_row e) = EtAdjustment
       \<and> (case te_metadata e of UpgradeCreditGrant m \<Rightarrow> True | _ \<Rightarrow> False))"

definition buildOutboundUsageLedgerMetadata ::
  "ledger_entry_type \<Rightarrow> int \<Rightarrow> string \<Rightarrow> string \<Rightarrow> string option \<Rightarrow> string option
     \<Rightarrow> string list \<Rightarrow> string list \<Rightarrow> outbound_usage" where
  "buildOutboundUsageLedgerMetadata entryType creditsCharged messageId outboundJobId draftId
      draftCreatedVia recipientDomains externalDomains =
     \<lparr>ou_entry_type = entryType,
      ou_usage_type = (if entryType = EtDebitReply then UsageReply else UsageSend),
      ou_credits_charged = creditsCharged,
      ou_message_id = messageId,
      ou_outbound_job_id = outboundJobId,
      ou_draft_id = draftId,
      ou_draft_created_via = draftCreatedVia,
      ou_recipient_domains = recipientDomains,
      ou_external_domains = externalDomains\<rparr>"

definition buildTopupSettlementLedgerMetadata ::
  "int \<Rightarrow> confirmation_mode \<Rightarrow> json option \<Rightarrow> json option \<Rightarrow> topup_settlement" where
  "buildTopupSettlementLedgerMetadata creditsRequested mode verify settle =
     \<lparr>ts_confirmation_mode = mode, ts_credits_requested = creditsRequested,
      ts_facilitator_verify = verify, ts_facilitator_settle = settle\<rparr>"

definition buildUpgradeCreditGrantLedgerMetadata ::
  "int \<Rightarrow> confirmation_mode \<Rightarrow> json option \<Rightarrow> json option \<Rightarrow> upgrade_grant" where
  "buildUpgradeCreditGrantLedgerMetadata includedCredits mode verify settle =
     \<lparr>ug_confirmation_mode = mode, ug_credits_granted = includedCredits,
      ug_facilitator_verify = verify, ug_facilitator_settle = settle\<rparr>"

section \<open>The stored document\<close>

primrec show_entry_type :: "ledger_entry_type \<Rightarrow> string" where
  "show_entry_type EtTopup = ''topup''"
| "show_entry_type EtDebitSend = ''debit_send''"
| "show_entry_type EtDebitReply = ''debit_reply''"
| "show_entry_type EtRefund = ''refund''"
| "show_entry_type EtAdjustment = ''adjustment''"

primrec show_confirmation :: "confirmation_mode \<Rightarrow> string" where
  "show_confirmation ManualAdmin = ''manual_admin''"
| "show_confirmation Facilitator = ''facilitator''"

primrec show_usage :: "usage_type \<Rightarrow> string" where
  "show_usage UsageSend = ''send''"
| "show_usage UsageReply = ''reply''"

definition opt_field :: "string \<Rightarrow> json option \<Rightarrow> json_object" where
  "opt_field k v = (case v of None \<Rightarrow> [] | Some j \<Rightarrow> [(k, j)])"

fun ledger_metadata_json :: "ledger_metadata \<Rightarrow> json_object" where
  "ledger_metadata_json (TopupSettlement m) =
     [(''entryType'', JStr ''topup''), (''receiptType'', JStr ''topup''),
      (''confirmationMode'', JStr (show_confirmation (ts_confirmation_mode m))),
      (''creditsRequested'', JNum (ts_credits_requested m))]
     @ opt_field ''facilitatorVerify'' (ts_facilitator_verify m)
     @ opt_field ''facilitatorSettle'' (ts_facilitator_settle m)"
| "ledger_metadata_json (UpgradeCreditGrant m) =
     [(''entryType'', JStr ''adjustment''), (''receiptType'', JStr ''upgrade''),
      (''confirmationMode'', JStr (show_confirmation (ug_confirmation_mode m))),
      (''creditsGranted'', JNum (ug_credits_granted m)),
      (''targetPricingTier'', JStr ''paid_review'')]
     @ opt_field ''facilitatorVerify'' (ug_facilitator_verify m)
     @ opt_field ''facilitatorSettle'' (ug_facilitator_settle m)"
| "ledger_metadata_json (OutboundUsage m) =
     [(''entryType'', JStr (show_entry_type (ou_entry_type m))),
      (''usageType'', JStr (show_usage (ou_usage_type m))),
      (''chargeStage'', JStr ''post_send''),
      (''creditsCharged'', JNum (ou_credits_charged m)),
      (''messageId'', JStr (ou_message_id m)),
      (''outboundJobId'', JStr (ou_outbound_job_id m))]
     @ opt_field ''draftId'' (map_option JStr (ou_draft_id m))
     @ opt_field ''draftCreatedVia'' (map_option JStr (ou_draft_created_via m))
     @ [(''recipientDomains'', JArr (map JStr (ou_recipient_domains m))),
        (''externalDomains'', JArr (map JStr (ou_external_domains m)))]"

section \<open>Parsing\<close>

text \<open>\<open>parseJsonObject\<close> of \<open>billing.ts\<close> and \<open>asRecord\<close>: only a JSON object is accepted.\<close>

definition asRecord :: "json option \<Rightarrow> json_object option" where
  "asRecord v = (case v of Some (JObj kvs) \<Rightarrow> Some kvs | _ \<Rightarrow> None)"

definition parse_confirmation :: "json option \<Rightarrow> confirmation_mode option" where
  "parse_confirmation v =
     (if v = Some (JStr ''manual_admin'') then Some ManualAdmin
      else if v = Some (JStr ''facilitator'') then Some Facilitator else None)"

definition parse_usage :: "json option \<Rightarrow> usage_type option" where
  "parse_usage v =
     (if v = Some (JStr ''send'') then Some UsageSend
      else if v = Some (JStr ''reply'') then Some UsageReply else None)"

definition parse_topup :: "ledger_row \<Rightarrow> json_object \<Rightarrow> typed_ledger_entry option" where
  "parse_topup entry m =
     (if cl_entry_type entry = EtTopup
         \<and> js_prop m ''entryType'' = Some (JStr ''topup'')
         \<and> js_prop m ''receiptType'' = Some (JStr ''topup'')
      then (case (parse_confirmation (js_prop m ''confirmationMode''), js_prop m ''creditsRequested'') of
              (Some mode, Some (JNum n)) \<Rightarrow>
                Some \<lparr>te_row = entry, te_metadata = TopupSettlement
                   \<lparr>ts_confirmation_mode = mode, ts_credits_requested = n,
                    ts_facilitator_verify = js_prop m ''facilitatorVerify'',
                    ts_facilitator_settle = js_prop m ''facilitatorSettle''\<rparr>\<rparr>
            | _ \<Rightarrow> None)
      else None)"

definition parse_upgrade :: "ledger_row \<Rightarrow> json_object \<Rightarrow> typed_ledger_entry option" where
  "parse_upgrade entry m =
     (if cl_entry_type entry = EtAdjustment
         \<and> js_prop m ''entryType'' = Some (JStr ''adjustment'')
         \<and> js_prop m ''receiptType'' = Some (JStr ''upgrade'')
         \<and> js_prop m ''targetPricingTier'' = Some (JStr ''paid_review'')
      then (case (parse_confirmation (js_prop m ''confirmationMode''), js_prop m ''creditsGranted'') of
              (Some mode, Some (JNum n)) \<Rightarrow>
                Some \<lparr>te_row = entry, te_metadata = UpgradeCreditGrant
                   \<lparr>ug_confirmation_mode = mode, ug_credits_granted = n,
                    ug_facilitator_verify = js_prop m ''facilitatorVerify'',
                    ug_facilitator_settle = js_prop m ''facilitatorSettle''\<rparr>\<rparr>
            | _ \<Rightarrow> None)
      else None)"

definition parse_outbound_usage :: "ledger_row \<Rightarrow> json_object \<Rightarrow> typed_ledger_entry option" where
  "parse_outbound_usage entry m =
     (if (cl_entry_type entry = EtDebitSend \<or> cl_entry_type entry = EtDebitReply)
         \<and> js_prop m ''entryType'' = Some (JStr (show_entry_type (cl_entry_type entry)))
         \<and> js_prop m ''chargeStage'' = Some (JStr ''post_send'')
      then (case (parse_usage (js_prop m ''usageType''), js_prop m ''creditsCharged'',
                  js_prop m ''messageId'', js_prop m ''outboundJobId'',
                  js_prop m ''recipientDomains'', js_prop m ''externalDomains'') of
              (Some usage, Some (JNum n), Some (JStr messageId), Some (JStr jobId),
               Some (JArr rds), Some (JArr eds)) \<Rightarrow>
                Some \<lparr>te_row = entry, te_metadata = OutboundUsage
                   \<lparr>ou_entry_type = cl_entry_type entry, ou_usage_type = usage,
                    ou_credits_charged = n, ou_message_id = messageId,
                    ou_outbound_job_id = jobId,
                    ou_draft_id = str_opt (js_prop m ''draftId''),
                    ou_draft_created_via = str_opt (js_prop m ''draftCreatedVia''),
                    ou_recipient_domains = json_strings rds,
                    ou_external_domains = json_strings eds\<rparr>\<rparr>
            | _ \<Rightarrow> None)
      else None)"

definition parseTypedCreditLedgerEntry :: "ledger_row \<Rightarrow> typed_ledger_entry option" where
  "parseTypedCreditLedgerEntry entry = (case asRecord (cl_metadata entry) of
     None \<Rightarrow> None
   | Some m \<Rightarrow> (case parse_topup entry m of Some e \<Rightarrow> Some e
       | None \<Rightarrow> (case parse_upgrade entry m of Some e \<Rightarrow> Some e
           | None \<Rightarrow> parse_outbound_usage entry m)))"

section \<open>What the parser accepts\<close>

lemma parse_confirmation_show [simp]:
  "parse_confirmation (Some (JStr (show_confirmation c))) = Some c"
  by (cases c) (simp_all add: parse_confirmation_def)

lemma parse_usage_show [simp]: "parse_usage (Some (JStr (show_usage u))) = Some u"
  by (cases u) (simp_all add: parse_usage_def)

lemma opt_field_lookup [simp]:
  "map_of (opt_field k v @ kvs) k' =
     (if k' = k \<and> v \<noteq> None then v else map_of kvs k')"
  by (cases v) (auto simp: opt_field_def)

lemma opt_field_last [simp]: "map_of (opt_field k v) k' = (if k' = k then v else None)"
  by (cases v) (auto simp: opt_field_def)

lemma str_opt_map_JStr [simp]: "str_opt (map_option JStr x) = x" "str_opt (Some (JStr s)) = Some s"
  "str_opt None = None"
  by (cases x) (simp_all add: str_opt_def)

text \<open>The type that the ledger column must have for the metadata.\<close>

fun metadata_entry_type :: "ledger_metadata \<Rightarrow> ledger_entry_type" where
  "metadata_entry_type (TopupSettlement m) = EtTopup"
| "metadata_entry_type (UpgradeCreditGrant m) = EtAdjustment"
| "metadata_entry_type (OutboundUsage m) = ou_entry_type m"

definition metadata_well_typed :: "ledger_metadata \<Rightarrow> bool" where
  "metadata_well_typed md \<longleftrightarrow> (case md of
     OutboundUsage m \<Rightarrow> ou_entry_type m \<in> {EtDebitSend, EtDebitReply} | _ \<Rightarrow> True)"

lemma parse_written_entry:
  assumes "metadata_well_typed md" "cl_entry_type entry = metadata_entry_type md"
    "cl_metadata entry = Some (JObj (ledger_metadata_json md))"
  shows "parseTypedCreditLedgerEntry entry = Some \<lparr>te_row = entry, te_metadata = md\<rparr>"
proof (cases md)
  case (TopupSettlement m)
  with assms show ?thesis
    by (simp add: parseTypedCreditLedgerEntry_def asRecord_def parse_topup_def js_prop_def
        del: map_of_append)
next
  case (UpgradeCreditGrant m)
  with assms show ?thesis
    by (simp add: parseTypedCreditLedgerEntry_def asRecord_def parse_topup_def parse_upgrade_def
        js_prop_def del: map_of_append)
next
  case (OutboundUsage m)
  with assms have "ou_entry_type m = EtDebitSend \<or> ou_entry_type m = EtDebitReply"
    by (simp add: metadata_well_typed_def)
  with assms OutboundUsage show ?thesis
    by (auto simp add: parseTypedCreditLedgerEntry_def asRecord_def parse_topup_def
        parse_upgrade_def parse_outbound_usage_def js_prop_def
        simp del: map_of_append)
qed

lemma parse_keeps_row:
  "parseTypedCreditLedgerEntry entry = Some e \<Longrightarrow> te_row e = entry"
  by (auto simp: parseTypedCreditLedgerEntry_def parse_topup_def parse_upgrade_def
      parse_outbound_usage_def split: option.splits if_splits json.splits prod.splits)

text \<open>The parsed metadata always agrees with the entry type of its row.\<close>

lemma parse_entry_type:
  "parseTypedCreditLedgerEntry entry = Some e
     \<Longrightarrow> cl_entry_type entry = metadata_entry_type (te_metadata e) \<and> metadata_well_typed (te_metadata e)"
  by (auto simp: parseTypedCreditLedgerEntry_def parse_topup_def parse_upgrade_def
      parse_outbound_usage_def metadata_well_typed_def
      split: option.splits if_splits json.splits prod.splits)

section \<open>Properties\<close>

text \<open>
  The metadata of a ledger row survives its document: what is written for a settled top-up, an
  upgrade grant or an outbound usage is parsed back as the same metadata, for a row of the entry
  type that the metadata asks for; and for a row of another type the parser refuses it.
\<close>

theorem ledger_metadata_round_trip:
  assumes "metadata_well_typed md" "cl_metadata entry = Some (JObj (ledger_metadata_json md))"
  shows "parseTypedCreditLedgerEntry entry =
    (if cl_entry_type entry = metadata_entry_type md
     then Some \<lparr>te_row = entry, te_metadata = md\<rparr> else None)"
proof (cases "cl_entry_type entry = metadata_entry_type md")
  case True
  with parse_written_entry [OF assms(1) True assms(2)] show ?thesis by simp
next
  case False
  have "parseTypedCreditLedgerEntry entry = None"
  proof (cases md)
    case (TopupSettlement m)
    with False assms show ?thesis
      by (auto simp: parseTypedCreditLedgerEntry_def asRecord_def parse_topup_def parse_upgrade_def
          parse_outbound_usage_def js_prop_def simp del: map_of_append)
  next
    case (UpgradeCreditGrant m)
    with False assms show ?thesis
      by (auto simp: parseTypedCreditLedgerEntry_def asRecord_def parse_topup_def parse_upgrade_def
          parse_outbound_usage_def js_prop_def simp del: map_of_append)
  next
    case (OutboundUsage m)
    with False assms show ?thesis
      by (auto simp: parseTypedCreditLedgerEntry_def asRecord_def parse_topup_def parse_upgrade_def
          parse_outbound_usage_def js_prop_def metadata_well_typed_def simp del: map_of_append)
  qed
  with False show ?thesis by simp
qed

theorem ledger_metadata_round_trip_witness:
  "parseTypedCreditLedgerEntry \<lparr>cl_id = ''led1'', cl_tenant_id = ''t1'', cl_entry_type = EtDebitReply,
      cl_credits_delta = -1, cl_reason = ''outbound_send_settlement'', cl_payment_receipt_id = None,
      cl_reference_id = Some ''obj1'', cl_metadata = Some (JObj (ledger_metadata_json (OutboundUsage
        (buildOutboundUsageLedgerMetadata EtDebitReply 1 ''msg1'' ''obj1'' None (Some ''api'')
           [''ext.org''] [''ext.org''])))), cl_created_at = 1\<rparr> \<noteq> None"
  using ledger_metadata_round_trip [of "OutboundUsage (buildOutboundUsageLedgerMetadata EtDebitReply 1
      ''msg1'' ''obj1'' None (Some ''api'') [''ext.org''] [''ext.org''])"
    "\<lparr>cl_id = ''led1'', cl_tenant_id = ''t1'', cl_entry_type = EtDebitReply,
      cl_credits_delta = -1, cl_reason = ''outbound_send_settlement'', cl_payment_receipt_id = None,
      cl_reference_id = Some ''obj1'', cl_metadata = Some (JObj (ledger_metadata_json (OutboundUsage
        (buildOutboundUsageLedgerMetadata EtDebitReply 1 ''msg1'' ''obj1'' None (Some ''api'')
           [''ext.org''] [''ext.org''])))), cl_created_at = 1\<rparr>"]
  by (simp add: metadata_well_typed_def buildOutboundUsageLedgerMetadata_def)

end
