(* ===== verification/Billing.thy ===== *)
theory Billing
  imports LedgerMetadata Scenario
begin

text \<open>
  \<open>src/repositories/billing.ts\<close>: the billing account of a tenant and the credit ledger. An account
  splits the tenant's credits into available and reserved ones; the ledger is the durable record
  of every change of their sum. Every mutation of an account is one guarded \<open>UPDATE\<close>; the rows of
  the ledger are inserted under unique reference and receipt ids.
\<close>

section \<open>Accounts\<close>

definition getTenantBillingAccount :: "string \<Rightarrow> billing_account option io" where
  "getTenantBillingAccount tenantId =
     query (\<lambda>s. first_row (filter (\<lambda>a. ba_tenant_id a = tenantId) (billing_accounts s)))"

definition new_billing_account :: "string \<Rightarrow> timestamp \<Rightarrow> billing_account" where
  "new_billing_account tenantId updatedAt =
     \<lparr>ba_tenant_id = tenantId, ba_status = BillTrial, ba_pricing_tier = TierFree,
      ba_default_network = None, ba_default_asset = None, ba_available_credits = 0,
      ba_reserved_credits = 0, ba_updated_at = updatedAt\<rparr>"

definition ensureTenantBillingAccount :: "string \<Rightarrow> billing_account io" where
  "ensureTenantBillingAccount tenantId =
     await (getTenantBillingAccount tenantId) (\<lambda>existing. case existing of
       Some a \<Rightarrow> ret a
     | None \<Rightarrow>
         await nowIso (\<lambda>updatedAt.
         await (execute (\<lambda>s. insert_unless billing_accounts_update
                  (\<exists>a \<in> set (billing_accounts s). ba_tenant_id a = tenantId)
                  (new_billing_account tenantId updatedAt) s)) (\<lambda>_.
         await (getTenantBillingAccount tenantId) (\<lambda>created.
         requireRow created ''Failed to create tenant billing account''))))"

definition updateTenantBillingAccountProfile ::
  "string \<Rightarrow> billing_status option \<Rightarrow> pricing_tier option \<Rightarrow> string option \<Rightarrow> string option
     \<Rightarrow> billing_account io" where
  "updateTenantBillingAccountProfile tenantId status pricingTier defaultNetwork defaultAsset =
     await (ensureTenantBillingAccount tenantId) (\<lambda>_.
     await nowIso (\<lambda>updatedAt.
     await (execute (\<lambda>s. update_rows billing_accounts billing_accounts_update
              (\<lambda>a. ba_tenant_id a = tenantId)
              (\<lambda>a. a\<lparr>ba_status := (case status of Some v \<Rightarrow> v | None \<Rightarrow> ba_status a),
                     ba_pricing_tier := (case pricingTier of Some v \<Rightarrow> v | None \<Rightarrow> ba_pricing_tier a),
                     ba_default_network := (case defaultNetwork of Some v \<Rightarrow> Some v
                                            | None \<Rightarrow> ba_default_network a),
                     ba_default_asset := (case defaultAsset of Some v \<Rightarrow> Some v
                                          | None \<Rightarrow> ba_default_asset a),
                     ba_updated_at := updatedAt\<rparr>) s)) (\<lambda>changes.
     if changes = 0
     then throw (PlainError (''Tenant billing account '' @ tenantId @ '' no longer exists''))
     else await (getTenantBillingAccount tenantId) (\<lambda>row.
          requireRow row (''Failed to load tenant billing account '' @ tenantId)))))"

text \<open>
  The three guarded moves of credits and the decrement share their shape in the source: one
  \<open>UPDATE\<close> with a guard on the balance it lowers, \<open>null\<close> when no row matched, and the row read
  back otherwise.
\<close>

definition move_credits ::
  "string \<Rightarrow> (billing_account \<Rightarrow> bool) \<Rightarrow> (billing_account \<Rightarrow> billing_account)
     \<Rightarrow> billing_account option io" where
  "move_credits tenantId guard move =
     await nowIso (\<lambda>updatedAt.
     await (execute (\<lambda>s. update_rows billing_accounts billing_accounts_update
              (\<lambda>a. ba_tenant_id a = tenantId \<and> guard a)
              (\<lambda>a. (move a)\<lparr>ba_updated_at := updatedAt\<rparr>) s)) (\<lambda>changes.
     if changes = 0 then ret None
     else await (getTenantBillingAccount tenantId) (\<lambda>row.
          await (requireRow row (''Failed to load tenant billing account '' @ tenantId))
            (\<lambda>a. ret (Some a)))))"

definition reserve_move :: "int \<Rightarrow> billing_account \<Rightarrow> billing_account" where
  "reserve_move d a = a\<lparr>ba_available_credits := ba_available_credits a - d,
     ba_reserved_credits := ba_reserved_credits a + d\<rparr>"

definition release_move :: "int \<Rightarrow> billing_account \<Rightarrow> billing_account" where
  "release_move d a = a\<lparr>ba_available_credits := ba_available_credits a + d,
     ba_reserved_credits := ba_reserved_credits a - d\<rparr>"

definition capture_move :: "int \<Rightarrow> billing_account \<Rightarrow> billing_account" where
  "capture_move d a = a\<lparr>ba_reserved_credits := ba_reserved_credits a - d\<rparr>"

definition decrement_move :: "int \<Rightarrow> billing_account \<Rightarrow> billing_account" where
  "decrement_move d a = a\<lparr>ba_available_credits := ba_available_credits a - d\<rparr>"

definition reserveTenantAvailableCredits :: "string \<Rightarrow> int \<Rightarrow> billing_account option io" where
  "reserveTenantAvailableCredits tenantId creditsDelta =
     move_credits tenantId (\<lambda>a. ba_available_credits a \<ge> creditsDelta) (reserve_move creditsDelta)"

definition releaseTenantReservedCredits :: "string \<Rightarrow> int \<Rightarrow> billing_account option io" where
  "releaseTenantReservedCredits tenantId creditsDelta =
     move_credits tenantId (\<lambda>a. ba_reserved_credits a \<ge> creditsDelta) (release_move creditsDelta)"

definition captureTenantReservedCredits :: "string \<Rightarrow> int \<Rightarrow> billing_account option io" where
  "captureTenantReservedCredits tenantId creditsDelta =
     move_credits tenantId (\<lambda>a. ba_reserved_credits a \<ge> creditsDelta) (capture_move creditsDelta)"

definition decrementTenantAvailableCredits :: "string \<Rightarrow> int \<Rightarrow> billing_account option io" where
  "decrementTenantAvailableCredits tenantId creditsDelta =
     move_credits tenantId (\<lambda>a. ba_available_credits a \<ge> creditsDelta) (decrement_move creditsDelta)"

text \<open>\<open>SELECT COALESCE(SUM(credits_delta), 0)\<close>.\<close>

definition ledger_total :: "store \<Rightarrow> string \<Rightarrow> int" where
  "ledger_total s tenantId =
     sum_list (map cl_credits_delta (filter (\<lambda>r. cl_tenant_id r = tenantId) (credit_ledger s)))"

definition reconcileTenantAvailableCredits :: "string \<Rightarrow> billing_account io" where
  "reconcileTenantAvailableCredits tenantId =
     await (ensureTenantBillingAccount tenantId) (\<lambda>_.
     await (query (\<lambda>s. ledger_total s tenantId)) (\<lambda>totalCredits.
     await nowIso (\<lambda>updatedAt.
     await (execute (\<lambda>s. update_rows billing_accounts billing_accounts_update
              (\<lambda>a. ba_tenant_id a = tenantId)
              (\<lambda>a. a\<lparr>ba_available_credits := totalCredits - ba_reserved_credits a,
                     ba_updated_at := updatedAt\<rparr>) s)) (\<lambda>changes.
     if changes = 0
     then throw (PlainError (''Tenant billing account '' @ tenantId @ '' no longer exists''))
     else await (getTenantBillingAccount tenantId) (\<lambda>row.
          requireRow row (''Failed to load tenant billing account '' @ tenantId))))))"

section \<open>The ledger\<close>

text \<open>\<open>metadata\<close> of a record is the parsed column when it is an object, and \<open>undefined\<close> otherwise.\<close>

definition mapCreditLedgerRow :: "ledger_row \<Rightarrow> ledger_row" where
  "mapCreditLedgerRow row = row\<lparr>cl_metadata := map_option JObj (asRecord (cl_metadata row))\<rparr>"

definition listTenantCreditLedger :: "string \<Rightarrow> nat \<Rightarrow> ledger_row list io" where
  "listTenantCreditLedger tenantId limit =
     query (\<lambda>s. map mapCreditLedgerRow (take limit (order_desc cl_created_at
       (filter (\<lambda>r. cl_tenant_id r = tenantId) (credit_ledger s)))))"

definition listTypedTenantCreditLedger :: "string \<Rightarrow> nat \<Rightarrow> typed_ledger_entry list io" where
  "listTypedTenantCreditLedger tenantId limit =
     await (listTenantCreditLedger tenantId limit)
       (\<lambda>entries. ret (List.map_filter parseTypedCreditLedgerEntry entries))"

text \<open>Two rows for one key are reported, never chosen from.\<close>

definition unambiguous_row :: "(store \<Rightarrow> ledger_row list) \<Rightarrow> string \<Rightarrow> ledger_row option io" where
  "unambiguous_row rows message =
     await (query (\<lambda>s. take 2 (order_desc cl_created_at (rows s)))) (\<lambda>found.
     if length found > 1 then throw (BillingUniquenessError message)
     else ret (map_option mapCreditLedgerRow (first_row found)))"

definition getCreditLedgerEntryByPaymentReceiptId ::
  "string \<Rightarrow> string \<Rightarrow> ledger_row option io" where
  "getCreditLedgerEntryByPaymentReceiptId tenantId paymentReceiptId =
     unambiguous_row
       (\<lambda>s. filter (\<lambda>r. cl_payment_receipt_id r = Some paymentReceiptId \<and> cl_tenant_id r = tenantId)
              (credit_ledger s))
       (''Ledger entries for payment receipt '' @ paymentReceiptId
          @ '' are ambiguous; manual reconciliation is required'')"

definition getCreditLedgerEntryByReferenceId :: "string \<Rightarrow> string \<Rightarrow> ledger_row option io" where
  "getCreditLedgerEntryByReferenceId tenantId referenceId =
     unambiguous_row
       (\<lambda>s. filter (\<lambda>r. cl_reference_id r = Some referenceId \<and> cl_tenant_id r = tenantId)
              (credit_ledger s))
       (''Ledger entries for reference '' @ referenceId
          @ '' are ambiguous; manual reconciliation is required'')"

definition typed_or_null :: "ledger_row option \<Rightarrow> typed_ledger_entry option" where
  "typed_or_null entry = (case entry of None \<Rightarrow> None | Some r \<Rightarrow> parseTypedCreditLedgerEntry r)"

definition getTypedCreditLedgerEntryByPaymentReceiptId ::
  "string \<Rightarrow> string \<Rightarrow> typed_ledger_entry option io" where
  "getTypedCreditLedgerEntryByPaymentReceiptId tenantId paymentReceiptId =
     await (getCreditLedgerEntryByPaymentReceiptId tenantId paymentReceiptId)
       (\<lambda>entry. ret (typed_or_null entry))"

definition getTypedCreditLedgerEntryByReferenceId ::
  "string \<Rightarrow> string \<Rightarrow> typed_ledger_entry option io" where
  "getTypedCreditLedgerEntryByReferenceId tenantId referenceId =
     await (getCreditLedgerEntryByReferenceId tenantId referenceId)
       (\<lambda>entry. ret (typed_or_null entry))"

definition appendTenantCreditLedgerEntry ::
  "string \<Rightarrow> ledger_entry_type \<Rightarrow> int \<Rightarrow> string \<Rightarrow> string option \<Rightarrow> string option
     \<Rightarrow> json option \<Rightarrow> ledger_row io" where
  "appendTenantCreditLedgerEntry tenantId entryType creditsDelta reason receiptId referenceId metadata =
     await (createId ''led'') (\<lambda>i.
     await nowIso (\<lambda>createdAt.
     let row = \<lparr>cl_id = i, cl_tenant_id = tenantId, cl_entry_type = entryType,
                cl_credits_delta = creditsDelta, cl_reason = reason,
                cl_payment_receipt_id = receiptId, cl_reference_id = referenceId,
                cl_metadata = metadata, cl_created_at = createdAt\<rparr> in
     await (execute_checked
              (\<lambda>s. insert_checked credit_ledger_update (ledger_clash s row) row s)) (\<lambda>_.
     await (query (\<lambda>s. first_row (filter (\<lambda>r. cl_id r = i) (credit_ledger s)))) (\<lambda>found.
     await (requireRow found ''Failed to load credit ledger entry'')
       (\<lambda>r. ret (mapCreditLedgerRow r))))))"

text \<open>
  The idempotent appends: \<open>INSERT OR IGNORE\<close>, then the row of the receipt or reference is read
  back, whoever inserted it. When it is not a typed row of the expected kind the operation fails,
  and removes the row that it inserted itself.
\<close>

definition insert_ledger_row :: "ledger_row \<Rightarrow> nat io" where
  "insert_ledger_row row =
     execute (\<lambda>s. insert_unless credit_ledger_update (ledger_clash s row) row s)"

definition remove_own_row :: "nat \<Rightarrow> string \<Rightarrow> string \<Rightarrow> unit io" where
  "remove_own_row changes tenantId i =
     when_io (changes > 0) (catch_undefined (execute (\<lambda>s. delete_rows credit_ledger
       credit_ledger_update (\<lambda>r. cl_tenant_id r = tenantId \<and> cl_id r = i) s)))"

definition settlement_key :: "string option \<Rightarrow> string option \<Rightarrow> string" where
  "settlement_key receiptId referenceId = (case receiptId of Some r \<Rightarrow> r
     | None \<Rightarrow> (case referenceId of Some r \<Rightarrow> r | None \<Rightarrow> ''unknown''))"

definition read_back_entry ::
  "string \<Rightarrow> string option \<Rightarrow> string option \<Rightarrow> typed_ledger_entry option io" where
  "read_back_entry tenantId receiptId referenceId =
     (if truthy receiptId
      then getTypedCreditLedgerEntryByPaymentReceiptId tenantId (the receiptId)
      else getTypedCreditLedgerEntryByReferenceId tenantId
             (case referenceId of Some r \<Rightarrow> r | None \<Rightarrow> ''''))"

definition appendTopupSettlementLedgerEntry ::
  "string \<Rightarrow> int \<Rightarrow> string \<Rightarrow> string option \<Rightarrow> string option \<Rightarrow> topup_settlement
     \<Rightarrow> typed_ledger_entry io" where
  "appendTopupSettlementLedgerEntry tenantId creditsDelta reason receiptId referenceId metadata =
     await (createId ''led'') (\<lambda>i.
     await nowIso (\<lambda>createdAt.
     await (insert_ledger_row
              \<lparr>cl_id = i, cl_tenant_id = tenantId, cl_entry_type = EtTopup,
               cl_credits_delta = creditsDelta, cl_reason = reason,
               cl_payment_receipt_id = receiptId, cl_reference_id = referenceId,
               cl_metadata = Some (JObj (ledger_metadata_json (TopupSettlement metadata))),
               cl_created_at = createdAt\<rparr>) (\<lambda>changes.
     await (read_back_entry tenantId receiptId referenceId) (\<lambda>entry.
     case entry of
       None \<Rightarrow> seq (remove_own_row changes tenantId i)
                 (throw (PlainError ''Failed to append typed topup settlement ledger entry''))
     | Some e \<Rightarrow>
         if \<not> isTopupSettlementLedgerEntry (Some e)
         then seq (remove_own_row changes tenantId i)
                (throw (BillingUniquenessError (''Settlement ledger for payment receipt ''
                   @ settlement_key receiptId referenceId
                   @ '' has an unexpected type; manual reconciliation is required'')))
         else ret e))))"

definition appendUpgradeCreditGrantLedgerEntry ::
  "string \<Rightarrow> int \<Rightarrow> string \<Rightarrow> string option \<Rightarrow> string option \<Rightarrow> upgrade_grant
     \<Rightarrow> typed_ledger_entry io" where
  "appendUpgradeCreditGrantLedgerEntry tenantId creditsDelta reason receiptId referenceId metadata =
     await (createId ''led'') (\<lambda>i.
     await nowIso (\<lambda>createdAt.
     await (insert_ledger_row
              \<lparr>cl_id = i, cl_tenant_id = tenantId, cl_entry_type = EtAdjustment,
               cl_credits_delta = creditsDelta, cl_reason = reason,
               cl_payment_receipt_id = receiptId, cl_reference_id = referenceId,
               cl_metadata = Some (JObj (ledger_metadata_json (UpgradeCreditGrant metadata))),
               cl_created_at = createdAt\<rparr>) (\<lambda>changes.
     await (read_back_entry tenantId receiptId referenceId) (\<lambda>entry.
     case entry of
       None \<Rightarrow> seq (remove_own_row changes tenantId i)
                 (throw (PlainError ''Failed to append typed upgrade credit grant ledger entry''))
     | Some e \<Rightarrow>
         if \<not> isUpgradeCreditGrantLedgerEntry (Some e)
         then seq (remove_own_row changes tenantId i)
                (throw (BillingUniquenessError (''Credit grant ledger for payment receipt ''
                   @ settlement_key receiptId referenceId
                   @ '' has an unexpected type; manual reconciliation is required'')))
         else ret e))))"

definition usage_ledger_row ::
  "string \<Rightarrow> string \<Rightarrow> ledger_entry_type \<Rightarrow> int \<Rightarrow> string \<Rightarrow> string \<Rightarrow> outbound_usage \<Rightarrow> timestamp
     \<Rightarrow> ledger_row" where
  "usage_ledger_row i tenantId entryType creditsDelta reason referenceId metadata createdAt =
     \<lparr>cl_id = i, cl_tenant_id = tenantId, cl_entry_type = entryType,
      cl_credits_delta = creditsDelta, cl_reason = reason,
      cl_payment_receipt_id = None, cl_reference_id = Some referenceId,
      cl_metadata = Some (JObj (ledger_metadata_json (OutboundUsage metadata))),
      cl_created_at = createdAt\<rparr>"

definition appendOutboundUsageLedgerEntry ::
  "string \<Rightarrow> ledger_entry_type \<Rightarrow> int \<Rightarrow> string \<Rightarrow> string \<Rightarrow> outbound_usage
     \<Rightarrow> typed_ledger_entry io" where
  "appendOutboundUsageLedgerEntry tenantId entryType creditsDelta reason referenceId metadata =
     await (createId ''led'') (\<lambda>i.
     await nowIso (\<lambda>createdAt.
     await (insert_ledger_row (usage_ledger_row i tenantId entryType creditsDelta reason
              referenceId metadata createdAt)) (\<lambda>changes.
     await (getTypedCreditLedgerEntryByReferenceId tenantId referenceId) (\<lambda>entry.
     case entry of
       None \<Rightarrow> seq (remove_own_row changes tenantId i)
                 (throw (PlainError ''Failed to append typed outbound usage ledger entry''))
     | Some e \<Rightarrow> ret e))))"

section \<open>The store invariant\<close>

lemma keeps_getTenantBillingAccount [keeps_intros]:
  "keeps (stored K es J) (getTenantBillingAccount t)"
  unfolding getTenantBillingAccount_def by (intro keeps_intros)

lemma keeps_ensureTenantBillingAccount [keeps_intros]:
  "keeps (stored K es db_ok) (ensureTenantBillingAccount t)"
  unfolding ensureTenantBillingAccount_def
  by (intro keeps_intros) (auto simp: new_billing_account_def)

lemma keeps_updateProfile [keeps_intros]:
  "keeps (stored K es db_ok) (updateTenantBillingAccountProfile t st tier net asset)"
  unfolding updateTenantBillingAccountProfile_def
  by (intro keeps_intros keeps_update_accounts) auto

lemma keeps_move_credits:
  "(\<And>a. ba_tenant_id (move a) = ba_tenant_id a) \<Longrightarrow>
   (\<And>a. guard a \<Longrightarrow> 0 \<le> ba_reserved_credits a \<Longrightarrow> 0 \<le> ba_reserved_credits (move a)) \<Longrightarrow>
     keeps (stored K es db_ok) (move_credits t guard move)"
  unfolding move_credits_def by (intro keeps_intros keeps_update_accounts) auto

lemma keeps_reserve [keeps_intros]:
  "0 \<le> d \<Longrightarrow> keeps (stored K es db_ok) (reserveTenantAvailableCredits t d)"
  unfolding reserveTenantAvailableCredits_def
  by (rule keeps_move_credits) (auto simp: reserve_move_def)

lemma keeps_release [keeps_intros]: "keeps (stored K es db_ok) (releaseTenantReservedCredits t d)"
  unfolding releaseTenantReservedCredits_def
  by (rule keeps_move_credits) (auto simp: release_move_def)

lemma keeps_capture [keeps_intros]: "keeps (stored K es db_ok) (captureTenantReservedCredits t d)"
  unfolding captureTenantReservedCredits_def
  by (rule keeps_move_credits) (auto simp: capture_move_def)

lemma keeps_decrement [keeps_intros]: "keeps (stored K es db_ok) (decrementTenantAvailableCredits t d)"
  unfolding decrementTenantAvailableCredits_def
  by (rule keeps_move_credits) (auto simp: decrement_move_def)

lemma keeps_reconcile [keeps_intros]: "keeps (stored K es db_ok) (reconcileTenantAvailableCredits t)"
  unfolding reconcileTenantAvailableCredits_def
  by (intro keeps_intros keeps_update_accounts) auto

lemma keeps_unambiguous_row [keeps_intros]: "keeps (stored K es J) (unambiguous_row rows m)"
  unfolding unambiguous_row_def by (intro keeps_intros)

lemma keeps_ledger_reads [keeps_intros]:
  "keeps (stored K es J) (listTenantCreditLedger t n)"
  "keeps (stored K es J) (getCreditLedgerEntryByPaymentReceiptId t r)"
  "keeps (stored K es J) (getCreditLedgerEntryByReferenceId t r)"
  unfolding listTenantCreditLedger_def getCreditLedgerEntryByPaymentReceiptId_def
    getCreditLedgerEntryByReferenceId_def
  by (intro keeps_intros)+

lemma keeps_typed_reads [keeps_intros]:
  "keeps (stored K es J) (listTypedTenantCreditLedger t n)"
  "keeps (stored K es J) (getTypedCreditLedgerEntryByPaymentReceiptId t r)"
  "keeps (stored K es J) (getTypedCreditLedgerEntryByReferenceId t r)"
  unfolding listTypedTenantCreditLedger_def getTypedCreditLedgerEntryByPaymentReceiptId_def
    getTypedCreditLedgerEntryByReferenceId_def
  by (intro keeps_intros)+

lemma keeps_ledger_writes [keeps_intros]:
  "keeps (stored K es db_ok) (insert_ledger_row row)"
  "keeps (stored K es db_ok) (remove_own_row n t i)"
  "keeps (stored K es J) (read_back_entry t rc rf)"
  unfolding insert_ledger_row_def remove_own_row_def read_back_entry_def
  by (intro keeps_intros)+

lemma keeps_append_entries [keeps_intros]:
  "keeps (stored K es db_ok) (appendTenantCreditLedgerEntry t et d why rc rf md)"
  "keeps (stored K es db_ok) (appendTopupSettlementLedgerEntry t d why rc rf topup)"
  "keeps (stored K es db_ok) (appendUpgradeCreditGrantLedgerEntry t d why rc rf grant)"
  "keeps (stored K es db_ok) (appendOutboundUsageLedgerEntry t et d why ref usage)"
  unfolding appendTenantCreditLedgerEntry_def appendTopupSettlementLedgerEntry_def
    appendUpgradeCreditGrantLedgerEntry_def appendOutboundUsageLedgerEntry_def
  by (intro keeps_intros)+

section \<open>Undisturbed runs\<close>

definition account_of :: "store \<Rightarrow> string \<Rightarrow> billing_account option" where
  "account_of s tenantId = first_row (filter (\<lambda>a. ba_tenant_id a = tenantId) (billing_accounts s))"

lemma account_of_unique:
  assumes "db_ok s" "account_of s t = Some a"
  shows "filter (\<lambda>x. ba_tenant_id x = t) (billing_accounts s) = [a]"
proof -
  from assms(2) have a: "a \<in> set (billing_accounts s)" "ba_tenant_id a = t"
    using first_row_filter_Some [of "\<lambda>a. ba_tenant_id a = t"] by (auto simp: account_of_def)
  moreover have "unique_by ba_tenant_id (billing_accounts s)"
    using assms(1) by (simp add: db_ok_def)
  ultimately show ?thesis using unique_by_filter_key by metis
qed

lemma account_of_update:
  assumes "db_ok s" "account_of s t = Some a"
    and "\<And>x. P x \<Longrightarrow> ba_tenant_id (f x) = ba_tenant_id x"
  shows "account_of (billing_accounts_update (tbl_update P f) s) t = Some (if P a then f a else a)"
proof -
  have "filter (\<lambda>x. ba_tenant_id x = t) (tbl_update P f (billing_accounts s))
      = tbl_update P f [a]"
    using assms account_of_unique by (subst filter_tbl_update) auto
  then show ?thesis by (simp add: account_of_def)
qed

lemma account_hit:
  assumes "db_ok s" "account_of s t = Some a"
  shows "tbl_count (\<lambda>x. ba_tenant_id x = t \<and> g x) (billing_accounts s) = (if g a then 1 else 0)"
proof -
  have "filter (\<lambda>x. ba_tenant_id x = t \<and> g x) (billing_accounts s)
      = filter g (filter (\<lambda>x. ba_tenant_id x = t) (billing_accounts s))"
    by (simp add: conj_commute)
  then show ?thesis by (simp add: tbl_count_def account_of_unique [OF assms])
qed

lemma run_getTenantBillingAccount [run_simps]:
  "quiet w \<Longrightarrow> getTenantBillingAccount t w = (Inr (account_of (store_of w) t), tick w)"
  by (simp add: getTenantBillingAccount_def account_of_def run_simps)

text \<open>What a guarded move does to the account of its tenant, whatever the other accounts hold.\<close>

definition moved ::
  "string \<Rightarrow> (billing_account \<Rightarrow> bool) \<Rightarrow> (billing_account \<Rightarrow> billing_account) \<Rightarrow> timestamp
     \<Rightarrow> store \<Rightarrow> store" where
  "moved t guard move now s = billing_accounts_update
     (tbl_update (\<lambda>a. ba_tenant_id a = t \<and> guard a) (\<lambda>a. (move a)\<lparr>ba_updated_at := now\<rparr>)) s"

lemma moved_miss:
  "db_ok s \<Longrightarrow> account_of s t = Some a \<Longrightarrow> \<not> guard a \<Longrightarrow> moved t guard move now s = s"
  unfolding moved_def
  by (rule accounts_tbl.put_same, rule tbl_update_none) (simp only: account_hit if_False)

lemma run_move_credits:
  assumes w: "quiet w" "db_ok (store_of w)" "account_of (store_of w) t = Some a"
    and move: "\<And>x. ba_tenant_id (move x) = ba_tenant_id x"
  shows "move_credits t guard move w =
    (if guard a
     then (Inr (Some ((move a)\<lparr>ba_updated_at := clock w (ticks w)\<rparr>)),
           with_store (tick (tick w)) (moved t guard move (clock w (ticks w)) (store_of w)))
     else (Inr None, tick w))"
proof -
  let ?now = "clock w (ticks w)"
  let ?s = "moved t guard move ?now (store_of w)"
  have a: "ba_tenant_id a = t"
    using first_row_filter_Some w(3) unfolding account_of_def by fastforce
  have stmt: "execute (\<lambda>s. update_rows billing_accounts billing_accounts_update
        (\<lambda>a. ba_tenant_id a = t \<and> guard a) (\<lambda>a. (move a)\<lparr>ba_updated_at := ?now\<rparr>) s) w
      = (Inr (if guard a then 1 else 0), with_store (tick w) ?s)"
    by (simp only: quiet_execute [OF w(1)] update_rows_def fst_conv snd_conv moved_def
        account_hit [OF w(2,3)])
  show ?thesis
  proof (cases "guard a")
    case True
    have "account_of ?s t = Some ((move a)\<lparr>ba_updated_at := ?now\<rparr>)"
      unfolding moved_def using True a by (subst account_of_update [OF w(2,3)]) (auto simp: move)
    then show ?thesis
      using stmt w(1) True unfolding move_credits_def
      by (simp add: await_def nowIso_def run_simps)
  next
    case False
    then show ?thesis
      using stmt moved_miss [where guard = guard, OF w(2,3) False] unfolding move_credits_def
      by (simp add: await_def nowIso_def ret_def) (metis store_of_tick with_store_collapse(2))
  qed
qed

section \<open>Properties\<close>

text \<open>The two moves of a reservation, on the account of their tenant.\<close>

lemma reserve_run:
  assumes "quiet w" "db_ok (store_of w)" "account_of (store_of w) t = Some a"
  shows "reserveTenantAvailableCredits t d w =
    (if d \<le> ba_available_credits a
     then (Inr (Some ((reserve_move d a)\<lparr>ba_updated_at := clock w (ticks w)\<rparr>)),
           with_store (tick (tick w)) (moved t (\<lambda>a. ba_available_credits a \<ge> d) (reserve_move d)
             (clock w (ticks w)) (store_of w)))
     else (Inr None, tick w))"
  unfolding reserveTenantAvailableCredits_def
  by (rule run_move_credits [OF assms]) (simp add: reserve_move_def)

lemma release_run:
  assumes "quiet w" "db_ok (store_of w)" "account_of (store_of w) t = Some a"
  shows "releaseTenantReservedCredits t d w =
    (if d \<le> ba_reserved_credits a
     then (Inr (Some ((release_move d a)\<lparr>ba_updated_at := clock w (ticks w)\<rparr>)),
           with_store (tick (tick w)) (moved t (\<lambda>a. ba_reserved_credits a \<ge> d) (release_move d)
             (clock w (ticks w)) (store_of w)))
     else (Inr None, tick w))"
  unfolding releaseTenantReservedCredits_def
  by (rule run_move_credits [OF assms]) (simp add: release_move_def)

lemma account_of_moved:
  assumes "db_ok s" "account_of s t = Some a" "guard a"
    and "\<And>x. ba_tenant_id (move x) = ba_tenant_id x"
  shows "account_of (moved t guard move now s) t = Some ((move a)\<lparr>ba_updated_at := now\<rparr>)"
proof -
  have "ba_tenant_id a = t"
    using assms(2) first_row_filter_Some unfolding account_of_def by fastforce
  with assms show ?thesis unfolding moved_def by (subst account_of_update) auto
qed

lemma moved_others:
  assumes "\<And>x. ba_tenant_id (move x) = ba_tenant_id x"
  shows "filter (\<lambda>x. ba_tenant_id x \<noteq> t) (billing_accounts (moved t guard move now s))
    = filter (\<lambda>x. ba_tenant_id x \<noteq> t) (billing_accounts s)"
  unfolding moved_def by (simp add: filter_tbl_update assms) (auto simp: tbl_update_def intro!: map_idI)

text \<open>All credits of a tenant, spendable and reserved.\<close>

definition credits_of :: "store \<Rightarrow> string \<Rightarrow> int" where
  "credits_of s tenantId = sum_list (map (\<lambda>a. ba_available_credits a + ba_reserved_credits a)
     (filter (\<lambda>a. ba_tenant_id a = tenantId) (billing_accounts s)))"

lemma keeps_credits_move:
  assumes "\<And>a. ba_tenant_id (move a) = ba_tenant_id a"
    and "\<And>a. ba_available_credits (move a) + ba_reserved_credits (move a)
      = ba_available_credits a + ba_reserved_credits a"
  shows "keeps (stored K es (\<lambda>s. credits_of s t = c)) (move_credits t' guard move)"
  unfolding move_credits_def
proof (intro keeps_intros keeps_stored_execute)
  show "credits_of (snd (update_rows billing_accounts billing_accounts_update
      (\<lambda>a. ba_tenant_id a = t' \<and> guard a) (\<lambda>a. (move a)\<lparr>ba_updated_at := now\<rparr>) s)) t = c"
    if "credits_of s t = c" for s now
    using that by (simp add: credits_of_def update_rows_def filter_tbl_update assms sum_tbl_update)
qed

text \<open>
  C9. Reserving credits for an external mail either moves exactly the requested amount from the
  available to the reserved credits of the tenant's account, which then still has no negative
  available credits, or, when fewer are available, answers \<open>null\<close> and changes nothing.
\<close>

theorem reserve_never_overdraws:
  assumes "quiet w" "db_ok (store_of w)" "account_of (store_of w) t = Some a"
    and "reserveTenantAvailableCredits t d w = (r, w')"
  shows "if d \<le> ba_available_credits a
    then \<exists>b. r = Inr (Some b) \<and> account_of (store_of w') t = Some b
      \<and> ba_available_credits b = ba_available_credits a - d \<and> 0 \<le> ba_available_credits b
      \<and> ba_reserved_credits b = ba_reserved_credits a + d
    else r = Inr None \<and> store_of w' = store_of w"
  using assms(4) unfolding reserve_run [OF assms(1-3)]
  by (auto simp: account_of_moved [OF assms(2,3)] reserve_move_def split: if_splits)

lemma demo_account_found [simp]:
  "account_of (demo_store ds js x y) ''t1'' = Some (demo_account x y)"
  by (simp add: account_of_def demo_store_def empty_store_def) (simp add: demo_account_def)

theorem reserve_never_overdraws_witness:
  "\<exists>b. fst (reserveTenantAvailableCredits ''t1'' 2 (quiet_world (demo_store DraftQueued JobQueued 5 1)))
     = Inr (Some b) \<and> ba_available_credits b = 3 \<and> ba_reserved_credits b = 3"
proof -
  let ?w = "quiet_world (demo_store DraftQueued JobQueued 5 1)"
  obtain r w' where run: "reserveTenantAvailableCredits ''t1'' 2 ?w = (r, w')" by force
  from reserve_never_overdraws [OF _ _ _ run, of "demo_account 5 1"] run show ?thesis by (auto simp: demo_account_def)
qed

text \<open>
  Releasing what was reserved restores the account: the available and the reserved credits of
  the tenant are what they were before the reservation, and no other account has changed.
\<close>

theorem release_undoes_reserve:
  assumes "quiet w" "db_ok (store_of w)" "account_of (store_of w) t = Some a"
    and "0 \<le> d" "d \<le> ba_available_credits a"
  shows "\<exists>b c w1 w2. reserveTenantAvailableCredits t d w = (Inr (Some b), w1)
    \<and> releaseTenantReservedCredits t d w1 = (Inr (Some c), w2)
    \<and> account_of (store_of w2) t = Some c
    \<and> ba_available_credits c = ba_available_credits a
    \<and> ba_reserved_credits c = ba_reserved_credits a
    \<and> filter (\<lambda>x. ba_tenant_id x \<noteq> t) (billing_accounts (store_of w2))
        = filter (\<lambda>x. ba_tenant_id x \<noteq> t) (billing_accounts (store_of w))"
proof -
  let ?now = "clock w (ticks w)" and ?s = "store_of w"
  let ?b = "(reserve_move d a)\<lparr>ba_updated_at := ?now\<rparr>"
  define s1 where "s1 = moved t (\<lambda>a. ba_available_credits a \<ge> d) (reserve_move d) ?now ?s"
  define w1 where "w1 = with_store (tick (tick w)) s1"
  have r1: "reserveTenantAvailableCredits t d w = (Inr (Some ?b), w1)"
    using assms(5) by (simp add: reserve_run [OF assms(1-3)] w1_def s1_def)
  have "shared db_ok w1"
    by (rule keeps_result [OF keeps_reserve [OF assms(4)] quiet_stored r1]) (use assms in auto)
  then have ok: "db_ok s1" by (simp add: stored_def w1_def)
  have acc: "account_of s1 t = Some ?b"
    unfolding s1_def using assms(3,5) by (intro account_of_moved assms(2)) (auto simp: reserve_move_def)
  have "0 \<le> ba_reserved_credits a"
    using assms(2,3) first_row_filter_Some unfolding account_of_def db_ok_def by fastforce
  then have d: "d \<le> ba_reserved_credits ?b" by (simp add: reserve_move_def)
  let ?now1 = "clock w1 (ticks w1)"
  let ?c = "(release_move d ?b)\<lparr>ba_updated_at := ?now1\<rparr>"
  let ?s2 = "moved t (\<lambda>a. ba_reserved_credits a \<ge> d) (release_move d) ?now1 s1"
  have r2: "releaseTenantReservedCredits t d w1 = (Inr (Some ?c), with_store (tick (tick w1)) ?s2)"
    using release_run [of w1 t ?b d] assms(1) ok acc d by (simp add: w1_def)
  have "account_of ?s2 t = Some ?c"
    using d by (intro account_of_moved ok acc) (auto simp: release_move_def)
  moreover have "filter (\<lambda>x. ba_tenant_id x \<noteq> t) (billing_accounts ?s2)
      = filter (\<lambda>x. ba_tenant_id x \<noteq> t) (billing_accounts ?s)"
    unfolding s1_def by (simp add: moved_others release_move_def reserve_move_def)
  moreover have "ba_available_credits ?c = ba_available_credits a"
    "ba_reserved_credits ?c = ba_reserved_credits a"
    by (simp_all add: release_move_def reserve_move_def)
  ultimately show ?thesis
    using r1 r2 by (metis store_of_with_store)
qed

theorem release_undoes_reserve_witness:
  "\<exists>c w1 w2. fst (releaseTenantReservedCredits ''t1'' 2 w1) = Inr (Some c)
     \<and> reserveTenantAvailableCredits ''t1'' 2 (quiet_world (demo_store DraftQueued JobQueued 5 1))
        = (Inr (Some w2), w1)
     \<and> ba_available_credits c = 5 \<and> ba_reserved_credits c = 1"
proof -
  let ?w = "quiet_world (demo_store DraftQueued JobQueued 5 1)"
  from release_undoes_reserve [of ?w "''t1''" "demo_account 5 1" 2] demo_account_found
  show ?thesis by (fastforce simp: demo_account_def)
qed

text \<open>
  C26. Whatever calls fail, whatever replies are lost and whatever the other Workers do, as long as
  they leave the tenant's credits alone: a reservation and a release never change the sum of a
  tenant's available and reserved credits.
\<close>

theorem reservations_conserve_credits:
  "keeps (shared (\<lambda>s. credits_of s t = c)) (reserveTenantAvailableCredits t' d)
   \<and> keeps (shared (\<lambda>s. credits_of s t = c)) (releaseTenantReservedCredits t' d)"
  unfolding reserveTenantAvailableCredits_def releaseTenantReservedCredits_def
  by (intro conjI keeps_credits_move) (simp_all add: reserve_move_def release_move_def)

text \<open>
  The steps of a settlement, each with what the next one needs: the account, and that the ledger
  and the mailboxes are untouched.
\<close>

lemma reconcile_run:
  assumes "quiet w" "db_ok (store_of w)" "account_of (store_of w) t = Some a"
  shows "\<exists>b w'. reconcileTenantAvailableCredits t w = (Inr b, w') \<and> quiet w'
    \<and> account_of (store_of w') t = Some b
    \<and> credit_ledger (store_of w') = credit_ledger (store_of w)
    \<and> mailboxes (store_of w') = mailboxes (store_of w)
    \<and> ba_available_credits b = ledger_total (store_of w) t - ba_reserved_credits a
    \<and> ba_reserved_credits b = ba_reserved_credits a"
proof -
  let ?now = "clock w (Suc (Suc (ticks w)))" and ?s = "store_of w"
  let ?f = "\<lambda>a. a\<lparr>ba_available_credits := ledger_total ?s t - ba_reserved_credits a,
      ba_updated_at := ?now\<rparr>"
  let ?s' = "billing_accounts_update (tbl_update (\<lambda>a. ba_tenant_id a = t) ?f) ?s"
  have "ba_tenant_id a = t"
    using assms(3) first_row_filter_Some unfolding account_of_def by fastforce
  then have acc: "account_of ?s' t = Some (?f a)"
    by (subst account_of_update [OF assms(2,3)]) auto
  have "tbl_count (\<lambda>a. ba_tenant_id a = t) (billing_accounts ?s) = 1"
    using account_hit [OF assms(2,3), of "\<lambda>_. True"] by simp
  then have "reconcileTenantAvailableCredits t w
      = (Inr (?f a), with_store (tick (tick (tick (tick w)))) ?s')"
    using assms(1,3) acc
    unfolding reconcileTenantAvailableCredits_def ensureTenantBillingAccount_def
    by (simp add: run_simps update_rows_def del: tbl_count_0)
  then show ?thesis using acc assms(1) by auto
qed

lemma capture_run:
  assumes "quiet w" "db_ok (store_of w)" "account_of (store_of w) t = Some a"
    and "d \<le> ba_reserved_credits a"
  shows "\<exists>b w'. captureTenantReservedCredits t d w = (Inr (Some b), w') \<and> quiet w'
    \<and> account_of (store_of w') t = Some b
    \<and> credit_ledger (store_of w') = credit_ledger (store_of w)
    \<and> mailboxes (store_of w') = mailboxes (store_of w)
    \<and> ba_reserved_credits b = ba_reserved_credits a - d"
  using assms run_move_credits [OF assms(1-3), where move = "capture_move d"]
    account_of_moved [OF assms(2,3), where move = "capture_move d"
      and guard = "\<lambda>a. ba_reserved_credits a \<ge> d"]
  by (simp add: captureTenantReservedCredits_def capture_move_def moved_def)

definition reference_rows :: "store \<Rightarrow> string \<Rightarrow> ledger_row list" where
  "reference_rows s ref = filter (\<lambda>r. cl_reference_id r = Some ref) (credit_ledger s)"

lemma reference_lookup_run:
  assumes "quiet w"
  shows "reference_rows (store_of w) ref = [] \<Longrightarrow>
      getTypedCreditLedgerEntryByReferenceId t ref w = (Inr None, tick w)"
    "reference_rows (store_of w) ref = [r] \<Longrightarrow> cl_tenant_id r = t \<Longrightarrow>
      getTypedCreditLedgerEntryByReferenceId t ref w
        = (Inr (parseTypedCreditLedgerEntry (mapCreditLedgerRow r)), tick w)"
proof -
  let ?rows = "filter (\<lambda>r. cl_reference_id r = Some ref \<and> cl_tenant_id r = t)
    (credit_ledger (store_of w))"
  have rows: "?rows = filter (\<lambda>r. cl_tenant_id r = t) (reference_rows (store_of w) ref)"
    by (simp add: reference_rows_def conj_commute)
  show "reference_rows (store_of w) ref = [] \<Longrightarrow>
      getTypedCreditLedgerEntryByReferenceId t ref w = (Inr None, tick w)"
    using rows assms by (simp add: getTypedCreditLedgerEntryByReferenceId_def
        getCreditLedgerEntryByReferenceId_def unambiguous_row_def run_simps typed_or_null_def)
  show "getTypedCreditLedgerEntryByReferenceId t ref w
        = (Inr (parseTypedCreditLedgerEntry (mapCreditLedgerRow r)), tick w)"
    if "reference_rows (store_of w) ref = [r]" "cl_tenant_id r = t"
    using rows assms that by (simp add: getTypedCreditLedgerEntryByReferenceId_def
        getCreditLedgerEntryByReferenceId_def unambiguous_row_def run_simps typed_or_null_def)
qed

lemma usage_ledger_row_sel [simp]:
  "cl_id (usage_ledger_row i t et d why ref u now) = i"
  "cl_tenant_id (usage_ledger_row i t et d why ref u now) = t"
  "cl_credits_delta (usage_ledger_row i t et d why ref u now) = d"
  "cl_reference_id (usage_ledger_row i t et d why ref u now) = Some ref"
  "cl_payment_receipt_id (usage_ledger_row i t et d why ref u now) = None"
  by (simp_all add: usage_ledger_row_def)

lemma usage_row_parsed:
  assumes "ou_entry_type u = et" "et \<in> {EtDebitSend, EtDebitReply}"
  shows "parseTypedCreditLedgerEntry (mapCreditLedgerRow (usage_ledger_row i t et d why ref u now))
    = Some \<lparr>te_row = usage_ledger_row i t et d why ref u now, te_metadata = OutboundUsage u\<rparr>"
proof -
  have "mapCreditLedgerRow (usage_ledger_row i t et d why ref u now)
      = usage_ledger_row i t et d why ref u now"
    by (simp add: mapCreditLedgerRow_def usage_ledger_row_def asRecord_def)
  with assms show ?thesis
    by (simp add: parse_written_entry usage_ledger_row_def metadata_well_typed_def)
qed

lemma append_usage_run:
  assumes "quiet w" "reference_rows (store_of w) ref = []"
    and fresh: "\<forall>r \<in> set (credit_ledger (store_of w)). cl_id r \<noteq> ''led_'' @ uuid w (ticks w)"
    and u: "ou_entry_type u = et" "et \<in> {EtDebitSend, EtDebitReply}"
  shows "\<exists>row w'. appendOutboundUsageLedgerEntry t et d why ref u w
      = (Inr \<lparr>te_row = row, te_metadata = OutboundUsage u\<rparr>, w') \<and> quiet w'
    \<and> store_of w' = credit_ledger_update (\<lambda>rows. rows @ [row]) (store_of w)
    \<and> cl_tenant_id row = t \<and> cl_reference_id row = Some ref \<and> cl_credits_delta row = d
    \<and> parseTypedCreditLedgerEntry (mapCreditLedgerRow row) \<noteq> None"
proof -
  let ?now = "clock w (ticks (tick w))"
  let ?row = "usage_ledger_row (''led_'' @ uuid w (ticks w)) t et d why ref u ?now"
  let ?s = "credit_ledger_update (\<lambda>rows. rows @ [?row]) (store_of w)"
  have "\<not> ledger_clash (store_of w) ?row"
    using assms(2) fresh by (auto simp: ledger_clash_def reference_rows_def filter_empty_conv)
  then have ins: "insert_ledger_row ?row (tick w) = (Inr 1, with_store (tick (tick w)) ?s)"
    using assms(1) by (simp add: insert_ledger_row_def run_simps insert_unless_def)
  have "reference_rows (store_of (with_store (tick (tick w)) ?s)) ref = [?row]"
    using assms(2) by (simp add: reference_rows_def)
  from reference_lookup_run(2) [OF _ this, of t] assms(1)
  have "getTypedCreditLedgerEntryByReferenceId t ref (with_store (tick (tick w)) ?s)
      = (Inr (Some \<lparr>te_row = ?row, te_metadata = OutboundUsage u\<rparr>), tick (with_store (tick (tick w)) ?s))"
    by (simp add: usage_row_parsed [OF u])
  with ins assms(1) show ?thesis
    by (intro exI [of _ ?row]) (simp add: appendOutboundUsageLedgerEntry_def run_simps
        usage_row_parsed [OF u])
qed

text \<open>
  After a reconciliation the tenant's credits are what the ledger says: the available and the
  reserved credits of the account add up to the sum of the tenant's ledger entries, and the
  reserved ones are untouched.
\<close>

theorem reconcile_agrees_with_the_ledger:
  assumes "quiet w" "db_ok (store_of w)" "account_of (store_of w) t = Some a"
  shows "\<exists>b w'. reconcileTenantAvailableCredits t w = (Inr b, w')
    \<and> account_of (store_of w') t = Some b
    \<and> ba_available_credits b + ba_reserved_credits b = ledger_total (store_of w') t
    \<and> ba_reserved_credits b = ba_reserved_credits a"
  using reconcile_run [OF assms] by (auto simp: ledger_total_def)

theorem reconcile_agrees_with_the_ledger_witness:
  "\<exists>b. fst (reconcileTenantAvailableCredits ''t1'' (quiet_world (demo_store DraftQueued JobQueued 5 1)))
     = Inr b \<and> ba_reserved_credits b = 1"
proof -
  let ?w = "quiet_world (demo_store DraftQueued JobQueued 5 1)"
  from reconcile_agrees_with_the_ledger [of ?w "''t1''" "demo_account 5 1"] demo_account_found
  show ?thesis by (fastforce simp: demo_account_def)
qed

end
