(* ===== verification/OutboundPolicy.thy ===== *)
theory OutboundPolicy
  imports Routing SendPolicy Billing
begin

text \<open>
  \<open>src/lib/outbound-policy.ts\<close> and \<open>src/lib/outbound-credits.ts\<close>: the decision whether a mail may
  leave, and what it costs. The usage counts of the quota (\<open>getTenantOutboundUsageWindowCounts\<close> of
  \<open>src/repositories/mail.ts\<close>) are part of the decision. \<open>policy_verdict\<close> is the decision as a pure
  function of what was read, in the order of the early returns.
\<close>

section \<open>The usage of a rolling window\<close>

record usage_counts =
  sentLastHour :: nat
  sentLastDay :: nat

text \<open>The drafts of a message: those whose payload one of its jobs names.\<close>

definition drafts_of_message :: "store \<Rightarrow> message_row \<Rightarrow> draft_row list" where
  "drafts_of_message s m = filter (\<lambda>d. draft_owned s d
     \<and> (\<exists>j \<in> set (outbound_jobs s). oj_message_id j = msg_id m
          \<and> oj_draft_r2_key j = dr_draft_r2_key d)) (drafts s)"

text \<open>\<open>COALESCE(created_via, '') LIKE 'system:%'\<close>.\<close>

definition system_created :: "string option \<Rightarrow> bool" where
  "system_created createdVia =
     sql_like ''system:%'' (case createdVia of None \<Rightarrow> '''' | Some v \<Rightarrow> v)"

definition counts_as_sent :: "store \<Rightarrow> string \<Rightarrow> string option \<Rightarrow> message_row \<Rightarrow> bool" where
  "counts_as_sent s tenantId excludeKey m \<longleftrightarrow>
     msg_tenant_id m = tenantId \<and> msg_direction m = Outbound \<and> msg_provider m \<noteq> ProvInternal
     \<and> msg_status m \<noteq> MsgFailed
     \<and> (\<forall>j \<in> set (outbound_jobs s). oj_message_id j = msg_id m \<longrightarrow> oj_status j \<noteq> JobFailed)
     \<and> (case excludeKey of None \<Rightarrow> True
        | Some k \<Rightarrow> \<forall>j \<in> set (outbound_jobs s). oj_message_id j = msg_id m
                      \<longrightarrow> oj_draft_r2_key j \<noteq> k)
     \<and> message_visible s m
     \<and> \<not> (length (remdups (map dr_id (drafts_of_message s m))) = 1
          \<and> (\<exists>d \<in> set (drafts_of_message s m). system_created (dr_created_via d)))"

definition usage_since :: "store \<Rightarrow> string \<Rightarrow> string option \<Rightarrow> timestamp \<Rightarrow> timestamp \<Rightarrow> nat" where
  "usage_since s tenantId excludeKey since sinceDay =
     length (remdups (map msg_id (filter (\<lambda>m. counts_as_sent s tenantId excludeKey m
       \<and> msg_created_at m \<ge> sinceDay \<and> msg_created_at m \<ge> since) (messages s))))"

definition getTenantOutboundUsageWindowCounts ::
  "string \<Rightarrow> timestamp \<Rightarrow> timestamp \<Rightarrow> string option \<Rightarrow> usage_counts io" where
  "getTenantOutboundUsageWindowCounts tenantId sinceHour sinceDay excludeKey =
     query (\<lambda>s. \<lparr>sentLastHour = usage_since s tenantId excludeKey sinceHour sinceDay,
                 sentLastDay = usage_since s tenantId excludeKey sinceDay sinceDay\<rparr>)"

definition rollingWindowStart :: "nat \<Rightarrow> timestamp io" where
  "rollingWindowStart hours = await nowIso (\<lambda>now. ret (now - int hours * 60 * 60 * 1000))"

section \<open>The decision\<close>

datatype policy_code =
    AccessMailboxDenied
  | InvalidRecipientRouting
  | ExternalSendNotEnabled
  | RecipientDomainNotAllowed
  | DailyQuotaExceeded
  | HourlyQuotaExceeded

record policy_decision =
  pd_ok :: bool
  pd_code :: "policy_code option"
  pd_message :: "string option"
  pd_recipient_domains :: "string list option"
  pd_external_domains :: "string list option"
  pd_external_count :: "nat option"

definition refused :: "policy_code \<Rightarrow> string \<Rightarrow> policy_decision" where
  "refused code message = \<lparr>pd_ok = False, pd_code = Some code, pd_message = Some message,
     pd_recipient_domains = None, pd_external_domains = None, pd_external_count = None\<rparr>"

definition plural :: "nat \<Rightarrow> string" where
  "plural n = (if n = 1 then '''' else ''s'')"

definition daily_message :: "nat \<Rightarrow> string" where
  "daily_message n = ''Free-tier daily send limit reached. Ordinary users can send up to ''
     @ nat_digits n @ '' email'' @ plural n @ '' in a rolling 24-hour window.''"

definition hourly_message :: "nat \<Rightarrow> string" where
  "hourly_message n = ''Free-tier hourly send limit reached. Ordinary users can send up to ''
     @ nat_digits n @ '' email'' @ plural n @ '' in a rolling 1-hour window.''"

text \<open>The checks before any row is read: domains, routing, internal mail.\<close>

definition recipient_verdict :: "routed_recipients \<Rightarrow> policy_decision option" where
  "recipient_verdict r =
     (if recipientDomains r = []
      then Some (refused RecipientDomainNotAllowed
             ''At least one valid recipient domain is required'')
      else case getOutboundRecipientRoutingValidationError
                  (externalRecipientCount r) (externalToRecipientCount r) of
        Some message \<Rightarrow> Some ((refused InvalidRecipientRouting message)
            \<lparr>pd_recipient_domains := Some (recipientDomains r),
             pd_external_domains := Some (externalDomains r),
             pd_external_count := Some (externalRecipientCount r)\<rparr>)
      | None \<Rightarrow>
          if externalRecipientCount r = 0
          then Some \<lparr>pd_ok = True, pd_code = None, pd_message = None,
                     pd_recipient_domains = Some (recipientDomains r),
                     pd_external_domains = Some [], pd_external_count = Some 0\<rparr>
          else None)"

definition unlocked_by_policy :: "send_policy \<Rightarrow> bool" where
  "unlocked_by_policy p \<longleftrightarrow>
     spr_external_send_enabled p \<and> spr_outbound_status p = ExternalEnabled"

definition unlocked_by_credits :: "billing_account \<Rightarrow> bool" where
  "unlocked_by_credits a \<longleftrightarrow> ba_available_credits a + ba_reserved_credits a > 0"

text \<open>The checks on the tenant: suspension, and that external mail is unlocked at all.\<close>

definition tenant_verdict ::
  "routed_recipients \<Rightarrow> send_policy \<Rightarrow> billing_account \<Rightarrow> policy_decision option" where
  "tenant_verdict r p a =
     (if spr_outbound_status p = OutboundSuspended
      then Some (refused AccessMailboxDenied ''Outbound sending is suspended for this tenant'')
      else if \<not> unlocked_by_policy p \<and> \<not> unlocked_by_credits a
      then if externalRecipientCount r > 0
           then Some ((refused ExternalSendNotEnabled
                  (''External sending requires available credits or an enabled outbound policy. Disallowed domains: ''
                     @ js_join '', '' (externalDomains r)))
                  \<lparr>pd_recipient_domains := Some (recipientDomains r),
                   pd_external_domains := Some (externalDomains r),
                   pd_external_count := Some (externalRecipientCount r)\<rparr>)
           else None
      else None)"

text \<open>The allow-list of the agent, unless it is the untouched default one and credits unlock.\<close>

definition agent_verdict ::
  "routed_recipients \<Rightarrow> send_policy \<Rightarrow> billing_account \<Rightarrow> agent_policy option
     \<Rightarrow> policy_decision option" where
  "agent_verdict r p a agentPolicy = (case agentPolicy of
     None \<Rightarrow> None
   | Some ap \<Rightarrow>
       if ap_allowed_recipient_domains ap = [] then None
       else if externalDomains r \<noteq> [] \<and> externalRecipientCount r > 0 \<and> unlocked_by_credits a
               \<and> isDefaultSelfServeInternalOnlyAgentPolicy ap (spr_internal_domain_allowlist p)
       then None
       else let allowed = set (map js_lower (ap_allowed_recipient_domains ap));
                disallowed = filter (\<lambda>d. d \<notin> allowed) (externalDomains r)
            in if disallowed = [] then None
               else Some ((refused RecipientDomainNotAllowed
                      (''Recipient domains are not allowed for this agent: ''
                         @ js_join '', '' disallowed))
                      \<lparr>pd_recipient_domains := Some (recipientDomains r),
                       pd_external_domains := Some (externalDomains r)\<rparr>))"

definition quota_applies :: "send_policy \<Rightarrow> billing_account \<Rightarrow> bool" where
  "quota_applies p a \<longleftrightarrow> \<not> (unlocked_by_policy p \<or> unlocked_by_credits a)
     \<and> (spr_effective_daily p \<noteq> None \<or> spr_effective_hourly p \<noteq> None)"

definition limit_reached :: "nat option \<Rightarrow> nat \<Rightarrow> bool" where
  "limit_reached limit used \<longleftrightarrow> (case limit of None \<Rightarrow> False | Some n \<Rightarrow> used \<ge> n)"

definition quota_verdict ::
  "routed_recipients \<Rightarrow> send_policy \<Rightarrow> usage_counts \<Rightarrow> policy_decision option" where
  "quota_verdict r p usage =
     (let domains = (\<lambda>d. d\<lparr>pd_recipient_domains := Some (recipientDomains r),
                           pd_external_domains := Some (externalDomains r)\<rparr>)
      in if limit_reached (spr_effective_daily p) (sentLastDay usage)
         then Some (domains (refused DailyQuotaExceeded (daily_message (the (spr_effective_daily p)))))
         else if limit_reached (spr_effective_hourly p) (sentLastHour usage)
         then Some (domains (refused HourlyQuotaExceeded
                (hourly_message (the (spr_effective_hourly p)))))
         else None)"

definition granted :: "routed_recipients \<Rightarrow> policy_decision" where
  "granted r = \<lparr>pd_ok = True, pd_code = None, pd_message = None,
     pd_recipient_domains = Some (recipientDomains r),
     pd_external_domains = Some (externalDomains r),
     pd_external_count = Some (externalRecipientCount r)\<rparr>"

definition check_quota ::
  "string \<Rightarrow> string option \<Rightarrow> routed_recipients \<Rightarrow> send_policy \<Rightarrow> billing_account
     \<Rightarrow> policy_decision io" where
  "check_quota tenantId excludeKey r p a =
     (if quota_applies p a
      then await (rollingWindowStart 1) (\<lambda>sinceHour.
           await (rollingWindowStart 24) (\<lambda>sinceDay.
           await (getTenantOutboundUsageWindowCounts tenantId sinceHour sinceDay excludeKey) (\<lambda>usage.
           ret (case quota_verdict r p usage of Some d \<Rightarrow> d | None \<Rightarrow> granted r))))
      else ret (granted r))"

definition evaluateOutboundPolicy ::
  "string \<Rightarrow> string \<Rightarrow> string list \<Rightarrow> string list \<Rightarrow> string list \<Rightarrow> string option
     \<Rightarrow> policy_decision io" where
  "evaluateOutboundPolicy tenantId agentId to cc bcc excludeKey =
     await (routeOutboundRecipients to cc bcc) (\<lambda>r.
     case recipient_verdict r of Some d \<Rightarrow> ret d
     | None \<Rightarrow>
     await (ensureTenantSendPolicy tenantId) (\<lambda>p.
     await (ensureTenantBillingAccount tenantId) (\<lambda>a.
     case tenant_verdict r p a of Some d \<Rightarrow> ret d
     | None \<Rightarrow>
     await (getAgentPolicy agentId) (\<lambda>agentPolicy.
     case agent_verdict r p a agentPolicy of Some d \<Rightarrow> ret d
     | None \<Rightarrow> check_quota tenantId excludeKey r p a))))"

section \<open>Credits\<close>

record credit_requirement =
  cr_entry_type :: ledger_entry_type
  cr_credits_required :: int
  cr_requires_credits :: bool
  cr_recipient_domains :: "string list"
  cr_external_domains :: "string list"

definition lower_or_empty :: "string option \<Rightarrow> string" where
  "lower_or_empty v = (case v of None \<Rightarrow> '''' | Some s \<Rightarrow> js_lower s)"

definition isCreditExemptCreatedVia :: "string option \<Rightarrow> bool" where
  "isCreditExemptCreatedVia createdVia \<longleftrightarrow>
     lower_or_empty createdVia = ''system:token_reissue_self_mailbox''"

definition classifyOutboundUsageEntryType :: "string option \<Rightarrow> string option \<Rightarrow> ledger_entry_type" where
  "classifyOutboundUsageEntryType sourceMessageId createdVia =
     (if truthy sourceMessageId then EtDebitReply
      else if js_includes (lower_or_empty createdVia) ''reply'' then EtDebitReply
      else EtDebitSend)"

definition getOutboundCreditsRequired :: "ledger_entry_type \<Rightarrow> int" where
  "getOutboundCreditsRequired entryType = 1"

definition credit_requirement_for ::
  "string option \<Rightarrow> string option \<Rightarrow> routed_recipients \<Rightarrow> credit_requirement" where
  "credit_requirement_for sourceMessageId createdVia r =
     (let entryType = classifyOutboundUsageEntryType sourceMessageId createdVia
      in if isCreditExemptCreatedVia createdVia
         then \<lparr>cr_entry_type = entryType, cr_credits_required = 0, cr_requires_credits = False,
               cr_recipient_domains = recipientDomains r, cr_external_domains = externalDomains r\<rparr>
         else \<lparr>cr_entry_type = entryType,
               cr_credits_required = getOutboundCreditsRequired entryType,
               cr_requires_credits = (externalRecipientCount r > 0),
               cr_recipient_domains = recipientDomains r, cr_external_domains = externalDomains r\<rparr>)"

definition getOutboundCreditRequirement ::
  "string list \<Rightarrow> string list \<Rightarrow> string list \<Rightarrow> string option \<Rightarrow> string option
     \<Rightarrow> credit_requirement io" where
  "getOutboundCreditRequirement to cc bcc sourceMessageId createdVia =
     await (routeOutboundRecipients to cc bcc)
       (\<lambda>r. ret (credit_requirement_for sourceMessageId createdVia r))"

record credit_check =
  cc_requirement :: credit_requirement
  cc_available :: "int option"
  cc_sufficient :: bool

definition checkOutboundCreditRequirement ::
  "string \<Rightarrow> string list \<Rightarrow> string list \<Rightarrow> string list \<Rightarrow> string option \<Rightarrow> string option
     \<Rightarrow> credit_check io" where
  "checkOutboundCreditRequirement tenantId to cc bcc sourceMessageId createdVia =
     await (getOutboundCreditRequirement to cc bcc sourceMessageId createdVia) (\<lambda>q.
     if \<not> cr_requires_credits q
     then ret \<lparr>cc_requirement = q, cc_available = None, cc_sufficient = True\<rparr>
     else await (ensureTenantBillingAccount tenantId) (\<lambda>a.
          ret \<lparr>cc_requirement = q, cc_available = Some (ba_available_credits a),
               cc_sufficient = (ba_available_credits a \<ge> cr_credits_required q)\<rparr>))"

section \<open>Laws\<close>

lemma keeps_usage [keeps_intros]:
  "keeps (stored K es J) (getTenantOutboundUsageWindowCounts t h d k)" "keeps I (rollingWindowStart n)"
  unfolding getTenantOutboundUsageWindowCounts_def rollingWindowStart_def
  by (intro keeps_intros)+

lemma keeps_evaluateOutboundPolicy [keeps_intros]:
  "keeps (stored K es db_ok) (evaluateOutboundPolicy t g to cc bcc k)"
  unfolding evaluateOutboundPolicy_def check_quota_def by (intro keeps_intros)

lemma keeps_credit_requirement [keeps_intros]:
  "keeps (stored K es J) (getOutboundCreditRequirement to cc bcc src via)"
  unfolding getOutboundCreditRequirement_def by (intro keeps_intros)

lemma keeps_checkOutboundCreditRequirement [keeps_intros]:
  "keeps (stored K es db_ok) (checkOutboundCreditRequirement t to cc bcc src via)"
  unfolding checkOutboundCreditRequirement_def by (intro keeps_intros)

text \<open>The decision as one function of what was read.\<close>

definition policy_verdict ::
  "routed_recipients \<Rightarrow> send_policy \<Rightarrow> billing_account \<Rightarrow> agent_policy option \<Rightarrow> usage_counts
     \<Rightarrow> policy_decision" where
  "policy_verdict r p a agentPolicy usage =
     (case recipient_verdict r of Some d \<Rightarrow> d | None \<Rightarrow>
      case tenant_verdict r p a of Some d \<Rightarrow> d | None \<Rightarrow>
      case agent_verdict r p a agentPolicy of Some d \<Rightarrow> d | None \<Rightarrow>
        if quota_applies p a
        then (case quota_verdict r p usage of Some d \<Rightarrow> d | None \<Rightarrow> granted r)
        else granted r)"

lemma refused_simps [simp]:
  "\<not> pd_ok (refused c m)" "pd_code (refused c m) = Some c" "pd_message (refused c m) = Some m"
  by (simp_all add: refused_def)

lemma granted_simps [simp]: "pd_ok (granted r)" "pd_code (granted r) = None"
  by (simp_all add: granted_def)

lemma recipient_verdict_None:
  "recipient_verdict r = None \<longleftrightarrow> recipientDomains r \<noteq> [] \<and> externalRecipientCount r > 0
     \<and> externalToRecipientCount r > 0"
  by (auto simp: recipient_verdict_def getOutboundRecipientRoutingValidationError_def)

lemma tenant_verdict_None:
  "externalRecipientCount r > 0 \<Longrightarrow> tenant_verdict r p a = None \<longleftrightarrow>
     spr_outbound_status p \<noteq> OutboundSuspended \<and> (unlocked_by_policy p \<or> unlocked_by_credits a)"
  by (auto simp: tenant_verdict_def)

lemma tenant_verdict_Some: "tenant_verdict r p a = Some d \<Longrightarrow> \<not> pd_ok d"
  by (auto simp: tenant_verdict_def split: if_splits)

lemma agent_verdict_Some: "agent_verdict r p a q = Some d \<Longrightarrow> \<not> pd_ok d"
  by (auto simp: agent_verdict_def Let_def split: if_splits option.splits)

lemma quota_verdict_Some: "quota_verdict r p u = Some d \<Longrightarrow> \<not> pd_ok d"
  by (auto simp: quota_verdict_def Let_def split: if_splits)

section \<open>Properties\<close>

lemma ensure_policy_run:
  "quiet w \<Longrightarrow> send_policy_of (store_of w) t = Some p \<Longrightarrow> ensureTenantSendPolicy t w = (Inr p, tick w)"
  by (auto simp: ensureTenantSendPolicy_def getTenantSendPolicy_def send_policy_of_def run_simps)

lemma ensure_account_run:
  "quiet w \<Longrightarrow> account_of (store_of w) t = Some a \<Longrightarrow> ensureTenantBillingAccount t w = (Inr a, tick w)"
  by (auto simp: ensureTenantBillingAccount_def getTenantBillingAccount_def account_of_def run_simps)

lemma check_quota_run:
  assumes "quiet w"
  shows "\<exists>u w'. check_quota t k r p a w = (Inr (if quota_applies p a
      then (case quota_verdict r p u of Some d \<Rightarrow> d | None \<Rightarrow> granted r) else granted r), w')
    \<and> store_of w' = store_of w"
  using assms by (auto simp: check_quota_def rollingWindowStart_def
      getTenantOutboundUsageWindowCounts_def run_simps)

lemma policy_run:
  assumes w: "quiet w" and p: "send_policy_of (store_of w) t = Some p"
    and a: "account_of (store_of w) t = Some a"
  shows "\<exists>u w'. evaluateOutboundPolicy t g to cc bcc k w =
    (Inr (policy_verdict (routed (store_of w) to cc bcc) p a (agent_policy_of (store_of w) g) u), w')
    \<and> store_of w' = store_of w"
proof -
  let ?r = "routed (store_of w) to cc bcc" and ?q = "agent_policy_of (store_of w) g"
  obtain n where route: "routeOutboundRecipients to cc bcc w = (Inr ?r, ticked n w)"
    using route_run [OF w] by blast
  let ?w = "tick (tick (tick (ticked n w)))"
  have q: "quiet ?w" using w by simp
  obtain u w' where check: "check_quota t k ?r p a ?w = (Inr (if quota_applies p a
      then (case quota_verdict ?r p u of Some d \<Rightarrow> d | None \<Rightarrow> granted ?r) else granted ?r), w')"
    and w': "store_of w' = store_of w"
    using check_quota_run [OF q] by fastforce
  show ?thesis
    using w p a route check w'
    by (intro exI [of _ u]) (simp add: evaluateOutboundPolicy_def policy_verdict_def await_app
        ret_run ensure_policy_run ensure_account_run agent_policy_run split: option.split)
qed

lemma quota_unreachable:
  "tenant_verdict r p a = None \<Longrightarrow> externalRecipientCount r > 0 \<Longrightarrow> \<not> quota_applies p a"
  by (auto simp: tenant_verdict_None quota_applies_def)

lemma verdict_codes:
  "recipient_verdict r = Some d \<Longrightarrow> pd_code d \<notin> {Some DailyQuotaExceeded, Some HourlyQuotaExceeded}"
  "tenant_verdict r p a = Some d \<Longrightarrow> pd_code d \<notin> {Some DailyQuotaExceeded, Some HourlyQuotaExceeded}"
  "agent_verdict r p a q = Some d \<Longrightarrow> pd_code d \<notin> {Some DailyQuotaExceeded, Some HourlyQuotaExceeded}"
  by (auto simp: recipient_verdict_def tenant_verdict_def agent_verdict_def Let_def
      split: if_splits option.splits)

lemma recipient_verdict_ok:
  "recipient_verdict r = Some d \<Longrightarrow>
     pd_ok d \<longleftrightarrow> recipientDomains r \<noteq> [] \<and> externalRecipientCount r = 0"
  by (auto simp: recipient_verdict_def getOutboundRecipientRoutingValidationError_def split: if_splits)

lemma recipient_verdict_Some:
  "recipient_verdict r = Some d \<Longrightarrow> externalRecipientCount r > 0 \<Longrightarrow> recipientDomains r \<noteq> [] \<Longrightarrow>
     externalToRecipientCount r = 0"
  by (auto simp: recipient_verdict_def getOutboundRecipientRoutingValidationError_def split: if_splits)

lemma policy_verdict_law:
  "pd_ok (policy_verdict r p a q u) \<longleftrightarrow> recipientDomains r \<noteq> [] \<and> (externalRecipientCount r = 0
      \<or> externalToRecipientCount r > 0 \<and> spr_outbound_status p \<noteq> OutboundSuspended
        \<and> (unlocked_by_policy p \<or> unlocked_by_credits a) \<and> agent_verdict r p a q = None)"
  "pd_code (policy_verdict r p a q u) \<notin> {Some DailyQuotaExceeded, Some HourlyQuotaExceeded}"
proof -
  show "pd_ok (policy_verdict r p a q u) \<longleftrightarrow> recipientDomains r \<noteq> [] \<and> (externalRecipientCount r = 0
      \<or> externalToRecipientCount r > 0 \<and> spr_outbound_status p \<noteq> OutboundSuspended
        \<and> (unlocked_by_policy p \<or> unlocked_by_credits a) \<and> agent_verdict r p a q = None)"
  proof (cases "recipient_verdict r")
    case None
    then have r: "recipientDomains r \<noteq> []" "externalRecipientCount r > 0"
      "externalToRecipientCount r > 0" by (simp_all add: recipient_verdict_None)
    note t = tenant_verdict_None [OF r(2), of p a]
    show ?thesis
    proof (cases "tenant_verdict r p a")
      case None
      with \<open>recipient_verdict r = None\<close> r t quota_unreachable [OF None r(2)] show ?thesis
        by (auto simp: policy_verdict_def dest: agent_verdict_Some split: option.splits)
    next
      case (Some d)
      with \<open>recipient_verdict r = None\<close> r t tenant_verdict_Some [OF Some] show ?thesis
        by (auto simp: policy_verdict_def)
    qed
  next
    case (Some d)
    with recipient_verdict_ok [OF Some] recipient_verdict_Some [OF Some] show ?thesis
      by (auto simp: policy_verdict_def)
  qed
  show "pd_code (policy_verdict r p a q u) \<notin> {Some DailyQuotaExceeded, Some HourlyQuotaExceeded}"
    using quota_unreachable [of r p a] verdict_codes recipient_verdict_None [of r]
    by (auto simp: policy_verdict_def split: option.splits)
qed


definition demo_policy_world :: world where
  "demo_policy_world = quiet_world ((demo_store DraftQueued JobQueued 5 1)
     \<lparr>send_policies := [default_send_policy_row ''t1'' 1]\<rparr>)"

lemma demo_policy_world_simps [simp]:
  "quiet demo_policy_world"
  "send_policy_of (store_of demo_policy_world) ''t1'' =
     Some (mapTenantSendPolicyRow (default_send_policy_row ''t1'' 1))"
  "account_of (store_of demo_policy_world) ''t1'' = Some (demo_account 5 1)"
  "db_ok (store_of demo_policy_world)"
  "agent_policy_of (store_of demo_policy_world) ''agt1'' = None"
  by (simp_all add: demo_policy_world_def send_policy_of_def account_of_def agent_policy_of_def
      demo_defs default_send_policy_row_def db_ok_def unique_by_def unique_opt_def)


text \<open>
  C27. The credit check tells the truth about the reservation. A mail needs credits exactly when a
  recipient is outside this installation and its origin is not exempt; and then the check calls the
  credits sufficient exactly when a reservation of the required amount, made next, would succeed.
\<close>

theorem credit_check_predicts_reservation:
  assumes "quiet w" "db_ok (store_of w)" "account_of (store_of w) t = Some a"
  shows "\<exists>c w'. checkOutboundCreditRequirement t to cc bcc src via w = (Inr c, w')
    \<and> store_of w' = store_of w
    \<and> (cr_requires_credits (cc_requirement c) \<longleftrightarrow>
        \<not> isCreditExemptCreatedVia via \<and> externalRecipientCount (routed (store_of w) to cc bcc) > 0)
    \<and> (cr_requires_credits (cc_requirement c) \<longrightarrow> (cc_sufficient c \<longleftrightarrow>
        fst (reserveTenantAvailableCredits t (cr_credits_required (cc_requirement c)) w') \<noteq> Inr None))"
proof -
  let ?r = "routed (store_of w) to cc bcc"
  obtain n where route: "routeOutboundRecipients to cc bcc w = (Inr ?r, ticked n w)"
    using route_run [OF assms(1)] by blast
  have "quiet (tick (ticked n w))" "db_ok (store_of (tick (ticked n w)))"
    "account_of (store_of (tick (ticked n w))) t = Some a" using assms by simp_all
  from reserve_run [OF this] route assms show ?thesis
    by (auto simp: checkOutboundCreditRequirement_def getOutboundCreditRequirement_def
        credit_requirement_for_def Let_def run_simps ensure_account_run)
qed

theorem credit_check_predicts_reservation_witness:
  "\<exists>c w'. checkOutboundCreditRequirement ''t1'' [''ann@ext.org''] [] [] None (Some ''api'')
     demo_policy_world = (Inr c, w') \<and> cr_requires_credits (cc_requirement c)"
proof -
  have "externalRecipientCount (routed (store_of demo_policy_world) [''ann@ext.org''] [] []) = 1"
    "\<not> isCreditExemptCreatedVia (Some ''api'')"
    by code_simp+
  then show ?thesis
    using credit_check_predicts_reservation [of demo_policy_world "''t1''" "demo_account 5 1"
      "[''ann@ext.org'']" "[]" "[]" None "Some ''api''"] by fastforce
qed

end
