(* ===== verification/OutboundBilling.thy ===== *)
theory OutboundBilling
  imports OutboundPolicy
begin

text \<open>
  \<open>src/lib/outbound-billing.ts\<close>: what happens to the reserved credit of a mail. A delivered mail is
  settled: the ledger gets one debit under the id of its outbound job, and the reservation is
  captured. A mail that is given up releases its reservation.
\<close>

definition usage_metadata ::
  "credit_requirement \<Rightarrow> ledger_entry_type \<Rightarrow> string \<Rightarrow> string \<Rightarrow> string option \<Rightarrow> string option
     \<Rightarrow> outbound_usage" where
  "usage_metadata q entryType messageId outboundJobId draftId draftCreatedVia =
     buildOutboundUsageLedgerMetadata entryType (cr_credits_required q) messageId outboundJobId
       draftId draftCreatedVia (cr_recipient_domains q) (cr_external_domains q)"

definition settleOutboundUsageDebit ::
  "string \<Rightarrow> string \<Rightarrow> string \<Rightarrow> string option \<Rightarrow> string option \<Rightarrow> string option
     \<Rightarrow> string list \<Rightarrow> string list \<Rightarrow> string list \<Rightarrow> unit io" where
  "settleOutboundUsageDebit tenantId messageId outboundJobId draftId draftCreatedVia
      sourceMessageId to cc bcc =
     await (getOutboundCreditRequirement to cc bcc sourceMessageId draftCreatedVia) (\<lambda>q.
     if \<not> cr_requires_credits q then ret ()
     else
       let entryType = classifyOutboundUsageEntryType sourceMessageId draftCreatedVia in
       await (getTypedCreditLedgerEntryByReferenceId tenantId outboundJobId) (\<lambda>existing.
       if existing = None
       then seq (appendOutboundUsageLedgerEntry tenantId entryType (- cr_credits_required q)
                   ''outbound_send_settlement'' outboundJobId
                   (usage_metadata q entryType messageId outboundJobId draftId draftCreatedVia))
           (seq (catch_undefined (captureTenantReservedCredits tenantId (cr_credits_required q)))
           (seq (reconcileTenantAvailableCredits tenantId) (ret ())))
       else seq (reconcileTenantAvailableCredits tenantId) (ret ())))"

definition releaseOutboundUsageReservation ::
  "string \<Rightarrow> string option \<Rightarrow> string option \<Rightarrow> string list \<Rightarrow> string list \<Rightarrow> string list
     \<Rightarrow> unit io" where
  "releaseOutboundUsageReservation tenantId sourceMessageId draftCreatedVia to cc bcc =
     await (getOutboundCreditRequirement to cc bcc sourceMessageId draftCreatedVia) (\<lambda>q.
     if \<not> cr_requires_credits q then ret ()
     else seq (releaseTenantReservedCredits tenantId (cr_credits_required q)) (ret ()))"

lemma keeps_settle [keeps_intros]:
  "keeps (stored K es db_ok) (settleOutboundUsageDebit t m j d via src to cc bcc)"
  unfolding settleOutboundUsageDebit_def by (intro keeps_intros)

lemma keeps_releaseReservation [keeps_intros]:
  "keeps (stored K es db_ok) (releaseOutboundUsageReservation t src via to cc bcc)"
  unfolding releaseOutboundUsageReservation_def by (intro keeps_intros)

section \<open>Properties\<close>

definition charges :: "store \<Rightarrow> string list \<Rightarrow> string list \<Rightarrow> string list \<Rightarrow> string option \<Rightarrow> bool" where
  "charges s to cc bcc createdVia \<longleftrightarrow>
     \<not> isCreditExemptCreatedVia createdVia \<and> externalRecipientCount (routed s to cc bcc) > 0"

lemma requirement_run:
  assumes "quiet w"
  shows "\<exists>n. getOutboundCreditRequirement to cc bcc src via w
    = (Inr (credit_requirement_for src via (routed (store_of w) to cc bcc)), ticked n w)"
  using route_run [OF assms, of to cc bcc]
  by (auto simp: getOutboundCreditRequirement_def run_simps)

lemma routed_cong: "mailboxes s = mailboxes s' \<Longrightarrow> routed s to cc bcc = routed s' to cc bcc"
proof -
  assume "mailboxes s = mailboxes s'"
  then have "local_mailboxes_of s = local_mailboxes_of s'" by (simp add: local_mailboxes_of_def fun_eq_iff)
  then show ?thesis by (simp add: routed_def)
qed

lemma requirement_charges:
  assumes "charges s to cc bcc via"
  shows "cr_requires_credits (credit_requirement_for src via (routed s to cc bcc))"
    "cr_credits_required (credit_requirement_for src via (routed s to cc bcc)) = 1"
  using assms by (simp_all add: charges_def credit_requirement_for_def Let_def getOutboundCreditsRequired_def)

lemma usage_entry_type:
  "ou_entry_type (usage_metadata q et m j d via) = et"
  "classifyOutboundUsageEntryType src via \<in> {EtDebitSend, EtDebitReply}"
  by (simp_all add: usage_metadata_def buildOutboundUsageLedgerMetadata_def
      classifyOutboundUsageEntryType_def)

lemma ticked_more [simp]: "clock (ticked n w) = clock w" "uuid (ticked n w) = uuid w"
  by (induction n arbitrary: w) (simp_all add: tick_def)

lemma settled_again:
  assumes w: "quiet w" "db_ok (store_of w)" "account_of (store_of w) t = Some a"
    and ch: "charges (store_of w) to cc bcc via"
    and row: "reference_rows (store_of w) j = [r]" "cl_tenant_id r = t"
      "parseTypedCreditLedgerEntry (mapCreditLedgerRow r) \<noteq> None"
  shows "\<exists>b w'. settleOutboundUsageDebit t m j d via src to cc bcc w = (Inr (), w')
    \<and> credit_ledger (store_of w') = credit_ledger (store_of w)
    \<and> account_of (store_of w') t = Some b
    \<and> ba_available_credits b = ledger_total (store_of w) t - ba_reserved_credits a
    \<and> ba_reserved_credits b = ba_reserved_credits a"
proof -
  obtain n where req: "getOutboundCreditRequirement to cc bcc src via w
      = (Inr (credit_requirement_for src via (routed (store_of w) to cc bcc)), ticked n w)"
    using requirement_run [OF w(1)] by blast
  have look: "getTypedCreditLedgerEntryByReferenceId t j (ticked n w)
      = (Inr (parseTypedCreditLedgerEntry (mapCreditLedgerRow r)), tick (ticked n w))"
    using reference_lookup_run(2) [of "ticked n w" j r t] w(1) row by simp
  have "quiet (tick (ticked n w))" "db_ok (store_of (tick (ticked n w)))"
    "account_of (store_of (tick (ticked n w))) t = Some a" using w by simp_all
  from reconcile_run [OF this] show ?thesis
    using req look row(3) requirement_charges(1) [OF ch]
    by (auto simp: settleOutboundUsageDebit_def run_simps Let_def)
qed

lemma settle_run:
  assumes w: "quiet w" "db_ok (store_of w)" "account_of (store_of w) t = Some a"
    and ch: "charges (store_of w) to cc bcc via" and res: "1 \<le> ba_reserved_credits a"
    and row: "reference_rows (store_of w) j = []"
    and fresh: "\<forall>k. \<forall>r \<in> set (credit_ledger (store_of w)). cl_id r \<noteq> ''led_'' @ uuid w k"
  shows "\<exists>r b w'. settleOutboundUsageDebit t m j d via src to cc bcc w = (Inr (), w') \<and> quiet w'
    \<and> mailboxes (store_of w') = mailboxes (store_of w)
    \<and> credit_ledger (store_of w') = credit_ledger (store_of w) @ [r]
    \<and> cl_tenant_id r = t \<and> cl_reference_id r = Some j \<and> cl_credits_delta r = -1
    \<and> parseTypedCreditLedgerEntry (mapCreditLedgerRow r) \<noteq> None
    \<and> account_of (store_of w') t = Some b
    \<and> ba_available_credits b = ledger_total (store_of w) t - ba_reserved_credits a
    \<and> ba_reserved_credits b = ba_reserved_credits a - 1"
proof -
  let ?q = "credit_requirement_for src via (routed (store_of w) to cc bcc)"
  let ?et = "classifyOutboundUsageEntryType src via"
  let ?u = "usage_metadata ?q ?et m j d via"
  obtain n where req: "getOutboundCreditRequirement to cc bcc src via w = (Inr ?q, ticked n w)"
    using requirement_run [OF w(1)] by blast
  let ?w1 = "tick (ticked n w)"
  have look: "getTypedCreditLedgerEntryByReferenceId t j (ticked n w) = (Inr None, ?w1)"
    using reference_lookup_run(1) [of "ticked n w" j t] w(1) row by simp
  have u1: "uuid ?w1 = uuid w" by (simp add: tick_def)
  obtain r w2 where app: "appendOutboundUsageLedgerEntry t ?et (- 1) ''outbound_send_settlement'' j ?u ?w1
      = (Inr \<lparr>te_row = r, te_metadata = OutboundUsage ?u\<rparr>, w2)" "quiet w2"
    and s2: "store_of w2 = credit_ledger_update (\<lambda>rows. rows @ [r]) (store_of w)"
    and r: "cl_tenant_id r = t" "cl_reference_id r = Some j" "cl_credits_delta r = -1"
      "parseTypedCreditLedgerEntry (mapCreditLedgerRow r) \<noteq> None"
    using append_usage_run [of ?w1 j ?u ?et t "-1" "''outbound_send_settlement''"] w(1) row fresh
      usage_entry_type by (auto simp: u1)
  have "shared db_ok w2"
    by (rule keeps_result [OF keeps_append_entries(4) quiet_stored app(1)]) (use w in auto)
  then have ok2: "db_ok (store_of w2)" by (simp add: stored_def)
  have "account_of (store_of w2) t = Some a" using w(3) by (simp add: s2 account_of_def)
  from capture_run [OF app(2) ok2 this, of 1] res obtain b w3 where
    cap: "captureTenantReservedCredits t 1 w2 = (Inr (Some b), w3)" "quiet w3"
    and b: "account_of (store_of w3) t = Some b" "ba_reserved_credits b = ba_reserved_credits a - 1"
    and s3: "credit_ledger (store_of w3) = credit_ledger (store_of w2)"
      "mailboxes (store_of w3) = mailboxes (store_of w2)" by auto
  have "shared db_ok w3"
    by (rule keeps_result [OF keeps_capture quiet_stored cap(1)]) (use app(2) ok2 in auto)
  then have ok3: "db_ok (store_of w3)" by (simp add: stored_def)
  have "ledger_total (store_of w3) t = ledger_total (store_of w) t - 1"
    by (simp add: ledger_total_def s3 s2 r)
  with reconcile_run [OF cap(2) ok3 b(1)] show ?thesis
    using req look app(1) cap(1) b r requirement_charges [OF ch] s3 s2
    by (auto simp: settleOutboundUsageDebit_def run_simps Let_def catch_undefined_def)
qed

text \<open>
  C7. Settling a mail charges it once. When the books of the tenant balance and the mail has a
  reserved credit, the settlement adds one debit of one credit under the id of the outbound job,
  takes the credit off the reserved ones and leaves the available ones as they are, so the books
  balance again; and settling the same job once more adds nothing and moves nothing.
\<close>

theorem settlement_charges_once:
  assumes "quiet w" "db_ok (store_of w)" "account_of (store_of w) t = Some a"
    and "charges (store_of w) to cc bcc via" "1 \<le> ba_reserved_credits a"
    and "reference_rows (store_of w) j = []"
    and "\<forall>k. \<forall>r \<in> set (credit_ledger (store_of w)). cl_id r \<noteq> ''led_'' @ uuid w k"
    and "ba_available_credits a + ba_reserved_credits a = ledger_total (store_of w) t"
  shows "\<exists>r b c w1 w2. settleOutboundUsageDebit t m j d via src to cc bcc w = (Inr (), w1)
    \<and> credit_ledger (store_of w1) = credit_ledger (store_of w) @ [r]
    \<and> cl_reference_id r = Some j \<and> cl_credits_delta r = -1
    \<and> account_of (store_of w1) t = Some b
    \<and> ba_available_credits b = ba_available_credits a
    \<and> ba_reserved_credits b = ba_reserved_credits a - 1
    \<and> settleOutboundUsageDebit t m j d via src to cc bcc w1 = (Inr (), w2)
    \<and> credit_ledger (store_of w2) = credit_ledger (store_of w1)
    \<and> account_of (store_of w2) t = Some c
    \<and> ba_available_credits c = ba_available_credits a
    \<and> ba_reserved_credits c = ba_reserved_credits a - 1"
proof -
  obtain r b w1 where run: "settleOutboundUsageDebit t m j d via src to cc bcc w = (Inr (), w1)"
    and q: "quiet w1" and mb: "mailboxes (store_of w1) = mailboxes (store_of w)"
    and led: "credit_ledger (store_of w1) = credit_ledger (store_of w) @ [r]"
    and r: "cl_tenant_id r = t" "cl_reference_id r = Some j" "cl_credits_delta r = -1"
      "parseTypedCreditLedgerEntry (mapCreditLedgerRow r) \<noteq> None"
    and b: "account_of (store_of w1) t = Some b"
      "ba_available_credits b = ledger_total (store_of w) t - ba_reserved_credits a"
      "ba_reserved_credits b = ba_reserved_credits a - 1"
    using settle_run [OF assms(1-7), of m d src] by blast
  have "shared db_ok w1"
    by (rule keeps_result [OF keeps_settle quiet_stored run]) (use assms in auto)
  then have ok: "db_ok (store_of w1)" by (simp add: stored_def)
  have ch: "charges (store_of w1) to cc bcc via"
    using assms(4) by (simp add: charges_def routed_cong [OF mb])
  have rows: "reference_rows (store_of w1) j = [r]"
    using assms(6) r(2) by (simp add: reference_rows_def led)
  have "ledger_total (store_of w1) t = ledger_total (store_of w) t - 1"
    by (simp add: ledger_total_def led r)
  with settled_again [OF q ok b(1) ch rows r(1,4), of m d src] run led r b assms(8)
  show ?thesis by auto
qed

definition settled_demo :: store where
  "settled_demo = (demo_store DraftSent JobSent 5 1)\<lparr>credit_ledger :=
     [\<lparr>cl_id = ''topup1'', cl_tenant_id = ''t1'', cl_entry_type = EtTopup, cl_credits_delta = 6,
       cl_reason = ''topup'', cl_payment_receipt_id = None, cl_reference_id = None,
       cl_metadata = None, cl_created_at = 1\<rparr>]\<rparr>"

lemma settled_demo_ok: "db_ok settled_demo"
  using db_ok_demo [of 1 DraftSent JobSent 5]
  by (simp add: settled_demo_def db_ok_def unique_by_def unique_opt_def demo_store_def empty_store_def)

theorem settlement_charges_once_witness:
  "\<exists>r w1. settleOutboundUsageDebit ''t1'' ''msg1'' ''obj1'' None None None [''ann@ext.org''] [] []
      (quiet_world settled_demo) = (Inr (), w1)
    \<and> credit_ledger (store_of w1) = credit_ledger settled_demo @ [r] \<and> cl_credits_delta r = -1"
proof -
  note settled_demo_ok
  moreover have "account_of settled_demo ''t1'' = Some (demo_account 5 1)"
    by (simp add: settled_demo_def account_of_def demo_defs)
  moreover have "charges settled_demo [''ann@ext.org''] [] [] None" by code_simp
  moreover have "reference_rows settled_demo ''obj1'' = []" "ledger_total settled_demo ''t1'' = 6"
    by (simp_all add: reference_rows_def ledger_total_def settled_demo_def demo_defs)
  moreover have "\<forall>k. \<forall>r \<in> set (credit_ledger settled_demo). cl_id r
      \<noteq> ''led_'' @ uuid (quiet_world settled_demo) k"
    by (simp add: settled_demo_def demo_defs)
  ultimately show ?thesis
    using settlement_charges_once [of "quiet_world settled_demo" "''t1''" "demo_account 5 1"
        "[''ann@ext.org'']" "[]" "[]" None "''obj1''" "''msg1''" None None]
    by (simp add: demo_account_def) blast
qed

end
