(* ===== verification/Claims.thy ===== *)
theory Claims
  imports StoreInvariant
begin

text \<open>
  The contract of a guarded claim: one statement that takes something only while it is free, and
  whose count of changed rows tells whether it did. Several Workers that run the same claim, in any
  order and with any statements between them that do not free the thing again, have at most one
  winner. The jobs, the drafts, the tasks and the idempotency keys are claimed this way.
\<close>

section \<open>Races\<close>

text \<open>A schedule: the statements that reach the database, claims or others, in their order.\<close>

datatype event = Claim timestamp | Other "store \<Rightarrow> store"

fun winners :: "(timestamp \<Rightarrow> store \<Rightarrow> nat \<times> store) \<Rightarrow> event list \<Rightarrow> store \<Rightarrow> nat" where
  "winners claim [] s = 0"
| "winners claim (Claim t # es) s =
     (if fst (claim t s) \<noteq> 0 then 1 else 0) + winners claim es (snd (claim t s))"
| "winners claim (Other f # es) s = winners claim es (f s)"

definition never_frees :: "(store \<Rightarrow> bool) \<Rightarrow> event list \<Rightarrow> bool" where
  "never_frees free es \<longleftrightarrow> (\<forall>f s. Other f \<in> set es \<longrightarrow> free (f s) \<longrightarrow> free s)"

section \<open>The contract\<close>

locale guarded_claim =
  fixes claim :: "timestamp \<Rightarrow> store \<Rightarrow> nat \<times> store"
    and free :: "store \<Rightarrow> bool"
  assumes hit_iff_free: "fst (claim t s) \<noteq> 0 \<longleftrightarrow> free s"
    and taken_after: "\<not> free (snd (claim t s))"
    and miss_unchanged: "fst (claim t s) = 0 \<Longrightarrow> snd (claim t s) = s"
begin

lemma hit_count: "(if fst (claim t s) \<noteq> 0 then 1 else 0) = (if free s then 1 else (0::nat))"
  using hit_iff_free [of t s] by simp

lemma never_frees_tail:
  "never_frees free (e # es) \<Longrightarrow> never_frees free es"
  "never_frees free (Other f # es) \<Longrightarrow> free (f s) \<Longrightarrow> free s"
  by (auto simp: never_frees_def)

lemma no_winner_when_taken:
  "\<not> free s \<Longrightarrow> never_frees free es \<Longrightarrow> winners claim es s = 0"
proof (induction es arbitrary: s)
  case (Cons e es)
  note tail = never_frees_tail(1) [OF Cons.prems(2)]
  show ?case
  proof (cases e)
    case (Claim t)
    with Cons.IH [OF taken_after tail(1)] Cons.prems(1) show ?thesis
      by (simp only: winners.simps hit_count) simp
  next
    case (Other f)
    with Cons.prems never_frees_tail(2) have "\<not> free (f s)" by blast
    with Other Cons.IH tail(1) show ?thesis by simp
  qed
qed simp

lemma at_most_one_winner: "never_frees free es \<Longrightarrow> winners claim es s \<le> 1"
proof (induction es arbitrary: s)
  case (Cons e es)
  note tail = never_frees_tail(1) [OF Cons.prems]
  show ?case
  proof (cases e)
    case (Claim t)
    with no_winner_when_taken [OF taken_after tail] show ?thesis by simp
  next
    case (Other f)
    with Cons.IH tail show ?thesis by simp
  qed
qed simp

lemma first_claim_wins:
  assumes "free s" "never_frees free es"
  shows "winners claim (Claim t # es) s = 1"
  using assms no_winner_when_taken [OF taken_after assms(2)]
  by (simp only: winners.simps hit_count) simp

text \<open>A claim on something taken reports a miss, in every world in which nobody frees it.\<close>

lemma miss_when_taken: "\<not> free s \<Longrightarrow> claim t s = (0, s)"
  using hit_iff_free [of t s] miss_unchanged [of t s] by (cases "claim t s") auto

lemma claim_taken_misses:
  assumes w: "stored K es J w" and J: "\<And>s. J s \<Longrightarrow> \<not> free s"
    and run: "execute (claim t) w = (Inr n, w')"
  shows "n = 0"
proof -
  let ?s = "others w (ticks w) (store_of w)"
  have "J ?s" using w by (simp add: stored_def)
  then have "claim t ?s = (0, ?s)" by (intro miss_when_taken J)
  with run show ?thesis
    by (auto simp: execute_def call_store_def Let_def split: fault.splits)
qed

lemma keeps_claim_taken:
  "(\<And>s. J s \<Longrightarrow> \<not> free s) \<Longrightarrow> keeps (stored K es J) (execute (claim t))"
  by (rule keeps_stored_execute) (metis miss_when_taken snd_conv)

end

end
