(* ===== verification/MailMessages.thy ===== *)
theory MailMessages
  imports Claims Scenario
begin

text \<open>
  \<open>src/repositories/mail.ts\<close>, messages: look-ups (which only show a message whose mailbox still
  belongs to its tenant), the deduplicated insertion of inbound mail, and the state updates of the
  outbound path.
\<close>

section \<open>Shared pieces\<close>

definition normalizeInternetMessageId :: "string option \<Rightarrow> string option" where
  "normalizeInternetMessageId v = (case v of None \<Rightarrow> None
     | Some x \<Rightarrow> let n = js_lower (js_trim x) in if n = [] then None else Some n)"

definition normalizeListLimit :: "int option \<Rightarrow> nat" where
  "normalizeListLimit limit = (case limit of None \<Rightarrow> 50 | Some n \<Rightarrow> nat (max 1 (min n 200)))"

definition requireStateUpdateApplied :: "nat \<Rightarrow> string \<Rightarrow> unit io" where
  "requireStateUpdateApplied changes target =
     (if changes = 0 then throw (PlainError (target @ '' no longer exists'')) else ret ())"

definition delete_message :: "string \<Rightarrow> nat io" where
  "delete_message i = execute (\<lambda>s. delete_rows messages messages_update (\<lambda>m. msg_id m = i) s)"

section \<open>Look-ups\<close>

definition getMessage :: "string \<Rightarrow> message_row option io" where
  "getMessage messageId = query (\<lambda>s. first_row
     (filter (\<lambda>m. msg_id m = messageId \<and> message_visible s m) (messages s)))"

definition listVisibleMessagesByProviderMessageId :: "string \<Rightarrow> nat \<Rightarrow> message_row list io" where
  "listVisibleMessagesByProviderMessageId providerMessageId limit =
     query (\<lambda>s. take limit (order_desc msg_created_at
       (filter (\<lambda>m. msg_provider_message_id m = Some providerMessageId \<and> message_visible s m)
          (messages s))))"

definition getVisibleProviderMessageIdConflict :: "string \<Rightarrow> string \<Rightarrow> string option io" where
  "getVisibleProviderMessageIdConflict providerMessageId messageId =
     query (\<lambda>s. map_option msg_id (first_row
       (filter (\<lambda>m. msg_provider_message_id m = Some providerMessageId \<and> msg_id m \<noteq> messageId
                 \<and> message_visible s m) (messages s))))"

definition the_only :: "'a list \<Rightarrow> 'a option" where
  "the_only rows = (if length rows \<noteq> 1 then None else Some (hd rows))"

definition getMessageByProviderMessageId :: "string \<Rightarrow> message_row option io" where
  "getMessageByProviderMessageId providerMessageId =
     await (listVisibleMessagesByProviderMessageId providerMessageId 2) (\<lambda>rows. ret (the_only rows))"

definition getInboundMessageByInternetMessageId :: "string \<Rightarrow> string \<Rightarrow> message_row option io" where
  "getInboundMessageByInternetMessageId mailboxId internetMessageId =
     (case normalizeInternetMessageId (Some internetMessageId) of
        None \<Rightarrow> ret None
      | Some normalizedMessageId \<Rightarrow>
          await (query (\<lambda>s. take 2 (order_asc msg_created_at
            (filter (\<lambda>m. msg_mailbox_id m = mailboxId \<and> msg_direction m = Inbound
                      \<and> msg_internet_message_id m = Some normalizedMessageId
                      \<and> message_visible s m) (messages s)))))
          (\<lambda>rows. ret (the_only rows)))"

definition listMessages ::
  "string option \<Rightarrow> int option \<Rightarrow> string option \<Rightarrow> direction option \<Rightarrow> message_status option
     \<Rightarrow> message_row list io" where
  "listMessages mailboxId limit search dir status =
     query (\<lambda>s. take (normalizeListLimit limit) (order_desc msg_created_at
       (filter (\<lambda>m. (truthy mailboxId \<longrightarrow> mailboxId = Some (msg_mailbox_id m))
                 \<and> (dir = None \<or> dir = Some (msg_direction m))
                 \<and> (status = None \<or> status = Some (msg_status m))
                 \<and> message_visible s m
                 \<and> (truthy search \<longrightarrow>
                      (let p = ''%'' @ the search @ ''%'';
                           hit = (\<lambda>c. case c of None \<Rightarrow> False | Some t \<Rightarrow> sql_like p t)
                       in hit (msg_subject m) \<or> hit (msg_snippet m)
                          \<or> sql_like p (msg_from_addr m) \<or> sql_like p (msg_to_addr m))))
          (messages s))))"

record attachment_owner =
  ao_message_id :: string
  ao_tenant_id :: string
  ao_mailbox_id :: string

definition attachment_owners :: "store \<Rightarrow> string \<Rightarrow> attachment_owner list" where
  "attachment_owners s r2Key = js_unique (map
     (\<lambda>m. \<lparr>ao_message_id = msg_id m, ao_tenant_id = msg_tenant_id m, ao_mailbox_id = msg_mailbox_id m\<rparr>)
     (concat (map (\<lambda>a. filter (\<lambda>m. msg_id m = att_message_id a \<and> message_visible s m) (messages s))
        (filter (\<lambda>a. att_r2_key a = r2Key) (attachments s)))))"

definition getAttachmentOwnerByR2Key :: "string \<Rightarrow> attachment_owner option io" where
  "getAttachmentOwnerByR2Key r2Key =
     await (query (\<lambda>s. take 2 (attachment_owners s r2Key))) (\<lambda>rows. ret (the_only rows))"

section \<open>Inbound mail\<close>

definition invalid_inbound :: "store \<Rightarrow> string \<Rightarrow> string \<Rightarrow> string \<Rightarrow> message_row \<Rightarrow> bool" where
  "invalid_inbound s tenantId mailboxId internetMessageId m \<longleftrightarrow>
     msg_mailbox_id m = mailboxId \<and> msg_direction m = Inbound
     \<and> msg_internet_message_id m = Some internetMessageId
     \<and> \<not> (msg_tenant_id m = tenantId \<and> message_visible s m)"

definition deleteInvalidInboundMessageDuplicates :: "string \<Rightarrow> string \<Rightarrow> string \<Rightarrow> nat io" where
  "deleteInvalidInboundMessageDuplicates tenantId mailboxId internetMessageId =
     await (query (\<lambda>s. map msg_id
              (filter (invalid_inbound s tenantId mailboxId internetMessageId) (messages s)))) (\<lambda>ids.
     seq (for_each ids (\<lambda>i. catch_undefined (delete_message i)))
     (ret (length ids)))"

record inbound_input =
  in_id :: string
  in_tenant_id :: string
  in_mailbox_id :: string
  in_provider :: message_provider
  in_internet_message_id :: "string option"
  in_from_addr :: string
  in_to_addr :: string
  in_status :: message_status
  in_raw_r2_key :: string
  in_received_at :: timestamp
  in_created_at :: timestamp

definition inbound_row :: "inbound_input \<Rightarrow> string option \<Rightarrow> message_row" where
  "inbound_row input internetMessageId =
     \<lparr>msg_id = in_id input, msg_tenant_id = in_tenant_id input,
      msg_mailbox_id = in_mailbox_id input, msg_thread_id = None, msg_direction = Inbound,
      msg_provider = in_provider input, msg_internet_message_id = internetMessageId,
      msg_provider_message_id = None, msg_from_addr = in_from_addr input,
      msg_to_addr = in_to_addr input, msg_subject = None, msg_snippet = None,
      msg_status = in_status input, msg_raw_r2_key = Some (in_raw_r2_key input),
      msg_normalized_r2_key = None, msg_received_at = Some (in_received_at input),
      msg_sent_at = None, msg_created_at = in_created_at input\<rparr>"

definition message_id_taken :: "store \<Rightarrow> string \<Rightarrow> bool" where
  "message_id_taken s i \<longleftrightarrow> (\<exists>m \<in> set (messages s). msg_id m = i)"

text \<open>The visible inbound message that the dedupe clause of the insertion looks for.\<close>

definition inbound_duplicate :: "store \<Rightarrow> string \<Rightarrow> string \<Rightarrow> string \<Rightarrow> bool" where
  "inbound_duplicate s tenantId mailboxId internetMessageId \<longleftrightarrow>
     (\<exists>m \<in> set (messages s). msg_mailbox_id m = mailboxId \<and> msg_direction m = Inbound
        \<and> msg_internet_message_id m = Some internetMessageId \<and> msg_tenant_id m = tenantId
        \<and> message_visible s m)"

definition finalizeCreatedInboundMessage :: "inbound_input \<Rightarrow> unit io" where
  "finalizeCreatedInboundMessage input =
     await (query (\<lambda>s. mailbox_of_tenant s (in_mailbox_id input) (in_tenant_id input)))
       (\<lambda>mailboxExists.
     if \<not> mailboxExists
     then seq (catch_undefined (delete_message (in_id input)))
            (throw (PlainError (''Inbound message '' @ in_id input
               @ '' could not be finalized because mailbox '' @ in_mailbox_id input
               @ '' no longer exists'')))
     else await (getMessage (in_id input)) (\<lambda>found.
       if found = None
       then seq (catch_undefined (delete_message (in_id input)))
              (throw (PlainError (''Failed to load inbound message '' @ in_id input)))
       else ret ()))"

definition insertInboundMessage :: "inbound_input \<Rightarrow> string \<Rightarrow> nat io" where
  "insertInboundMessage input internetMessageId =
     execute_checked (\<lambda>s. insert_select messages_update
       (inbound_duplicate s (in_tenant_id input) (in_mailbox_id input) internetMessageId)
       (message_id_taken s (in_id input)) (inbound_row input (Some internetMessageId)) s)"

definition dedupe_failed :: "inbound_input \<Rightarrow> string \<Rightarrow> 'a io" where
  "dedupe_failed input internetMessageId =
     throw (PlainError (''Inbound message '' @ in_id input
       @ '' could not be created because dedupe skipped insertion without any visible existing message for ''
       @ internetMessageId))"

text \<open>The result says whether the message is new (\<open>false\<close>: it was already there).\<close>

definition createInboundMessage :: "inbound_input \<Rightarrow> bool io" where
  "createInboundMessage input =
     (case normalizeInternetMessageId (in_internet_message_id input) of
        None \<Rightarrow>
          seq (execute_checked (\<lambda>s. insert_checked messages_update
                 (message_id_taken s (in_id input)) (inbound_row input None) s))
          (seq (finalizeCreatedInboundMessage input) (ret True))
      | Some nid \<Rightarrow>
          await (insertInboundMessage input nid) (\<lambda>changes.
          if changes > 0 then seq (finalizeCreatedInboundMessage input) (ret True)
          else
            await (getInboundMessageByInternetMessageId (in_mailbox_id input) nid) (\<lambda>existing.
            if existing \<noteq> None then ret False
            else
              await (deleteInvalidInboundMessageDuplicates (in_tenant_id input)
                       (in_mailbox_id input) nid) (\<lambda>deleted.
              if deleted > 0
              then await (insertInboundMessage input nid) (\<lambda>retried.
                   if retried > 0 then seq (finalizeCreatedInboundMessage input) (ret True)
                   else await (getInboundMessageByInternetMessageId (in_mailbox_id input) nid)
                     (\<lambda>concurrent. if concurrent \<noteq> None then ret False
                                   else dedupe_failed input nid))
              else dedupe_failed input nid))))"

definition updateInboundMessageNormalized ::
  "string \<Rightarrow> string \<Rightarrow> string \<Rightarrow> string option \<Rightarrow> string option \<Rightarrow> string option \<Rightarrow> string option
     \<Rightarrow> message_status \<Rightarrow> unit io" where
  "updateInboundMessageNormalized messageId threadId normalizedR2Key subject snippet
      internetMessageId fromAddr status =
     await (execute (\<lambda>s. update_rows messages messages_update
       (\<lambda>m. msg_id m = messageId
          \<and> thread_ref_valid s threadId (msg_mailbox_id m) (msg_tenant_id m))
       (\<lambda>m. m\<lparr>msg_thread_id := Some threadId, msg_normalized_r2_key := Some normalizedR2Key,
              msg_subject := subject, msg_snippet := snippet,
              msg_internet_message_id := (case internetMessageId of Some v \<Rightarrow> Some v
                                          | None \<Rightarrow> msg_internet_message_id m),
              msg_from_addr := (case fromAddr of Some v \<Rightarrow> v | None \<Rightarrow> msg_from_addr m),
              msg_status := status\<rparr>) s))
     (\<lambda>changes. requireStateUpdateApplied changes (''Inbound message '' @ messageId))"

section \<open>Attachments\<close>

record attachment_input =
  ai_id :: string
  ai_filename :: "string option"
  ai_content_type :: "string option"
  ai_size_bytes :: int
  ai_r2_key :: string
  ai_sha256 :: "string option"

definition attachment_row_of :: "string \<Rightarrow> attachment_input \<Rightarrow> timestamp \<Rightarrow> attachment_row" where
  "attachment_row_of messageId a createdAt =
     \<lparr>att_id = ai_id a, att_message_id = messageId, att_filename = ai_filename a,
      att_content_type = ai_content_type a, att_size_bytes = ai_size_bytes a,
      att_sha256 = ai_sha256 a, att_r2_key = ai_r2_key a, att_created_at = createdAt\<rparr>"

definition delete_attachments :: "string \<Rightarrow> nat io" where
  "delete_attachments messageId = execute (\<lambda>s. delete_rows attachments attachments_update
     (\<lambda>a. att_message_id a = messageId) s)"

definition insert_attachment :: "attachment_row \<Rightarrow> unit io" where
  "insert_attachment r = seq (execute_checked (\<lambda>s. insert_checked attachments_update
     (\<exists>x \<in> set (attachments s). att_id x = att_id r) r s)) (ret ())"

text \<open>
  The attachments of a message are replaced as a whole: on failure the old rows are put back. The
  result is the list of the R2 keys that no row names any more.
\<close>

definition insertAttachments :: "string \<Rightarrow> attachment_input list \<Rightarrow> string list io" where
  "insertAttachments messageId new =
     await (getMessage messageId) (\<lambda>found.
     if found = None then throw (PlainError (''Message '' @ messageId @ '' no longer exists''))
     else
       await (query (\<lambda>s. order_asc att_created_at
                (filter (\<lambda>a. att_message_id a = messageId) (attachments s)))) (\<lambda>existingRows.
       seq (delete_attachments messageId)
       (seq (try_catch
          (for_each new (\<lambda>a. await nowIso (\<lambda>now. insert_attachment (attachment_row_of messageId a now))))
          (\<lambda>e. seq (delete_attachments messageId)
                (seq (for_each existingRows insert_attachment) (throw e))))
       (await (getMessage messageId) (\<lambda>still.
        if still = None
        then seq (catch_undefined (delete_attachments messageId))
               (throw (PlainError (''Message '' @ messageId @ '' no longer exists'')))
        else ret (filter (\<lambda>k. k \<notin> set (map ai_r2_key new)) (map att_r2_key existingRows)))))))"

section \<open>State of outbound messages\<close>

definition set_message_status :: "string \<Rightarrow> message_status \<Rightarrow> nat io" where
  "set_message_status messageId status = execute (\<lambda>s. update_rows messages messages_update
     (\<lambda>m. msg_id m = messageId \<and> message_visible s m) (\<lambda>m. m\<lparr>msg_status := status\<rparr>) s)"

definition updateMessageStatus :: "string \<Rightarrow> message_status \<Rightarrow> unit io" where
  "updateMessageStatus messageId status =
     await (set_message_status messageId status)
       (\<lambda>changes. requireStateUpdateApplied changes (''Message '' @ messageId))"

definition updateMessageStatusByProviderMessageId :: "string \<Rightarrow> message_status \<Rightarrow> unit io" where
  "updateMessageStatusByProviderMessageId providerMessageId status =
     await (listVisibleMessagesByProviderMessageId providerMessageId 2) (\<lambda>rows.
     case the_only rows of None \<Rightarrow> ret ()
     | Some m \<Rightarrow> seq (set_message_status (msg_id m) status) (ret ()))"

definition provider_id_free :: "store \<Rightarrow> string \<Rightarrow> message_row \<Rightarrow> bool" where
  "provider_id_free s providerMessageId m \<longleftrightarrow>
     \<not> (\<exists>c \<in> set (messages s). msg_provider_message_id c = Some providerMessageId
          \<and> msg_id c \<noteq> msg_id m \<and> message_visible s c)"

definition report_provider_conflict :: "string \<Rightarrow> string \<Rightarrow> unit io" where
  "report_provider_conflict messageId providerMessageId =
     await (getVisibleProviderMessageIdConflict providerMessageId messageId) (\<lambda>conflict.
     case conflict of
       Some c \<Rightarrow> throw (PlainError (''Provider message id '' @ providerMessageId
                   @ '' is already associated with visible message '' @ c))
     | None \<Rightarrow> requireStateUpdateApplied 0 (''Message '' @ messageId))"

definition backfillMessageProviderAcceptance :: "string \<Rightarrow> string \<Rightarrow> unit io" where
  "backfillMessageProviderAcceptance messageId providerMessageId =
     await nowIso (\<lambda>timestamp.
     await (execute (\<lambda>s. update_rows messages messages_update
       (\<lambda>m. msg_id m = messageId \<and> message_visible s m \<and> provider_id_free s providerMessageId m)
       (\<lambda>m. m\<lparr>msg_provider_message_id := (case msg_provider_message_id m of
                 Some v \<Rightarrow> Some v | None \<Rightarrow> Some providerMessageId),
              msg_sent_at := (case msg_sent_at m of Some v \<Rightarrow> Some v | None \<Rightarrow> Some timestamp)\<rparr>) s))
     (\<lambda>changes. if changes = 0 then report_provider_conflict messageId providerMessageId
                else ret ()))"

definition markMessageSent :: "string \<Rightarrow> string \<Rightarrow> message_status \<Rightarrow> unit io" where
  "markMessageSent messageId providerMessageId status =
     await nowIso (\<lambda>timestamp.
     await (execute (\<lambda>s. update_rows messages messages_update
       (\<lambda>m. msg_id m = messageId \<and> message_visible s m \<and> provider_id_free s providerMessageId m)
       (\<lambda>m. m\<lparr>msg_provider_message_id := Some providerMessageId, msg_status := status,
              msg_sent_at := Some timestamp\<rparr>) s))
     (\<lambda>changes. if changes = 0 then report_provider_conflict messageId providerMessageId
                else ret ()))"

section \<open>The store invariant\<close>

lemma keeps_message_reads [keeps_intros]:
  "keeps (stored K es J) (getMessage i)"
  "keeps (stored K es J) (listVisibleMessagesByProviderMessageId p n)"
  "keeps (stored K es J) (getVisibleProviderMessageIdConflict p i)"
  "keeps (stored K es J) (listMessages mb l se d st)"
  unfolding getMessage_def listVisibleMessagesByProviderMessageId_def
    getVisibleProviderMessageIdConflict_def listMessages_def
  by (intro keeps_intros)+

lemma keeps_message_reads2 [keeps_intros]:
  "keeps (stored K es J) (getMessageByProviderMessageId p)"
  "keeps (stored K es J) (getInboundMessageByInternetMessageId mb i)"
  "keeps (stored K es J) (getAttachmentOwnerByR2Key k)"
  unfolding getMessageByProviderMessageId_def getInboundMessageByInternetMessageId_def
    getAttachmentOwnerByR2Key_def
  by (intro keeps_intros)+

lemma keeps_requireState [keeps_intros]: "keeps I (requireStateUpdateApplied n t)"
  unfolding requireStateUpdateApplied_def by (intro keeps_intros)

lemma keeps_delete_message [keeps_intros]: "keeps (stored K es db_ok) (delete_message i)"
  unfolding delete_message_def by (rule messages_key.keeps_delete)

lemma keeps_deleteInvalidInbound [keeps_intros]:
  "keeps (stored K es db_ok) (deleteInvalidInboundMessageDuplicates t mb i)"
  unfolding deleteInvalidInboundMessageDuplicates_def by (intro keeps_intros)

lemma keeps_finalizeInbound [keeps_intros]:
  "keeps (stored K es db_ok) (finalizeCreatedInboundMessage input)"
  unfolding finalizeCreatedInboundMessage_def by (intro keeps_intros)

lemma keeps_insertInbound [keeps_intros]:
  "keeps (stored K es db_ok) (insertInboundMessage input i)"
  unfolding insertInboundMessage_def
  by (intro keeps_intros) (auto simp: message_id_taken_def inbound_row_def)

lemma keeps_createInboundMessage [keeps_intros]:
  "keeps (stored K es db_ok) (createInboundMessage input)"
  unfolding createInboundMessage_def dedupe_failed_def
  by (intro keeps_intros) (auto simp: message_id_taken_def inbound_row_def)

lemma keeps_attachment_writes [keeps_intros]:
  "keeps (stored K es db_ok) (delete_attachments i)" "keeps (stored K es db_ok) (insert_attachment r)"
  unfolding delete_attachments_def insert_attachment_def
  by (intro keeps_intros keeps_stored_execute keeps_stored_checked;
      auto simp: delete_rows_def insert_checked_def split: if_splits)+

lemma keeps_insertAttachments [keeps_intros]: "keeps (stored K es db_ok) (insertAttachments i as)"
  unfolding insertAttachments_def by (intro keeps_intros)

lemma keeps_set_message_status [keeps_intros]: "keeps (stored K es db_ok) (set_message_status i st)"
  unfolding set_message_status_def by (intro keeps_intros) auto

lemma keeps_report_conflict [keeps_intros]: "keeps (stored K es J) (report_provider_conflict i p)"
  unfolding report_provider_conflict_def by (intro keeps_intros)

lemma keeps_message_updates [keeps_intros]:
  "keeps (stored K es db_ok) (updateMessageStatus i st)"
  "keeps (stored K es db_ok) (updateMessageStatusByProviderMessageId p st)"
  unfolding updateMessageStatus_def updateMessageStatusByProviderMessageId_def
  by (intro keeps_intros)+

lemma keeps_message_acceptance [keeps_intros]:
  "keeps (stored K es db_ok) (backfillMessageProviderAcceptance i p)"
  "keeps (stored K es db_ok) (markMessageSent i p st)"
  "keeps (stored K es db_ok) (updateInboundMessageNormalized i t k su sn im fa st)"
  unfolding backfillMessageProviderAcceptance_def markMessageSent_def
    updateInboundMessageNormalized_def
  by (intro keeps_intros; simp)+

end
