(* ===== verification/MailJobs.thy ===== *)
theory MailJobs
  imports MailMessages
begin

text \<open>
  \<open>src/repositories/mail.ts\<close>, outbound jobs: look-ups of visible jobs (those whose message is
  visible), the guarded claim that hands a job to one consumer, and its state changes.
\<close>

definition delete_job :: "string \<Rightarrow> nat io" where
  "delete_job i = execute (\<lambda>s. delete_rows outbound_jobs outbound_jobs_update (\<lambda>j. oj_id j = i) s)"

definition getOutboundJob :: "string \<Rightarrow> outbound_job_row option io" where
  "getOutboundJob outboundJobId = query (\<lambda>s. first_row
     (filter (\<lambda>j. oj_id j = outboundJobId \<and> job_visible s j) (outbound_jobs s)))"

definition listOutboundJobs ::
  "int option \<Rightarrow> outbound_job_status option \<Rightarrow> outbound_job_row list io" where
  "listOutboundJobs limit status =
     query (\<lambda>s. take (normalizeListLimit limit) (order_desc oj_created_at
       (filter (\<lambda>j. (status = None \<or> status = Some (oj_status j)) \<and> job_visible s j)
          (outbound_jobs s))))"

definition listVisibleOutboundJobsByMessageId :: "string \<Rightarrow> nat \<Rightarrow> outbound_job_row list io" where
  "listVisibleOutboundJobsByMessageId messageId limit =
     query (\<lambda>s. take limit (order_desc oj_created_at
       (filter (\<lambda>j. oj_message_id j = messageId \<and> job_visible s j) (outbound_jobs s))))"

definition listVisibleOutboundJobsByDraftR2Key :: "string \<Rightarrow> nat \<Rightarrow> outbound_job_row list io" where
  "listVisibleOutboundJobsByDraftR2Key draftR2Key limit =
     query (\<lambda>s. take limit (order_desc oj_created_at
       (filter (\<lambda>j. oj_draft_r2_key j = draftR2Key \<and> job_visible s j) (outbound_jobs s))))"

definition getOutboundJobByMessageId :: "string \<Rightarrow> outbound_job_row option io" where
  "getOutboundJobByMessageId messageId =
     await (listVisibleOutboundJobsByMessageId messageId 2) (\<lambda>rows. ret (the_only rows))"

definition getOutboundJobByDraftR2Key :: "string \<Rightarrow> outbound_job_row option io" where
  "getOutboundJobByDraftR2Key draftR2Key =
     await (listVisibleOutboundJobsByDraftR2Key draftR2Key 2) (\<lambda>rows. ret (the_only rows))"

definition deleteInvalidOutboundJobsForDraftR2Key :: "string \<Rightarrow> nat io" where
  "deleteInvalidOutboundJobsForDraftR2Key draftR2Key =
     await (query (\<lambda>s. map oj_id (filter (\<lambda>j. oj_draft_r2_key j = draftR2Key \<and> \<not> job_visible s j)
              (outbound_jobs s)))) (\<lambda>ids.
     seq (for_each ids (\<lambda>i. catch_undefined (delete_job i)))
     (ret (length ids)))"

text \<open>
  \<open>COALESCE(?, retry_count)\<close>: an absent retry count keeps the old one; the retry time and the
  error are always overwritten.
\<close>

definition updateOutboundJobStatus ::
  "string \<Rightarrow> outbound_job_status \<Rightarrow> int option \<Rightarrow> timestamp option \<Rightarrow> string option \<Rightarrow> unit io" where
  "updateOutboundJobStatus outboundJobId status retryCount nextRetryAt lastError =
     await nowIso (\<lambda>updatedAt.
     await (execute (\<lambda>s. update_rows outbound_jobs outbound_jobs_update
       (\<lambda>j. oj_id j = outboundJobId \<and> job_visible s j)
       (\<lambda>j. j\<lparr>oj_status := status,
              oj_retry_count := (case retryCount of Some n \<Rightarrow> n | None \<Rightarrow> oj_retry_count j),
              oj_next_retry_at := nextRetryAt, oj_last_error := lastError,
              oj_updated_at := updatedAt\<rparr>) s))
     (\<lambda>changes. requireStateUpdateApplied changes (''Outbound job '' @ outboundJobId)))"

text \<open>The claim itself: one statement, guarded by the status.\<close>

definition claim_job_stmt :: "string \<Rightarrow> timestamp \<Rightarrow> store \<Rightarrow> nat \<times> store" where
  "claim_job_stmt outboundJobId updatedAt s = update_rows outbound_jobs outbound_jobs_update
     (\<lambda>j. oj_id j = outboundJobId \<and> (oj_status j = JobQueued \<or> oj_status j = JobRetry)
        \<and> job_visible s j)
     (\<lambda>j. j\<lparr>oj_status := JobSending, oj_last_error := None, oj_updated_at := updatedAt\<rparr>) s"

definition claimOutboundJobForSend :: "string \<Rightarrow> bool io" where
  "claimOutboundJobForSend outboundJobId =
     await nowIso (\<lambda>updatedAt.
     await (execute (claim_job_stmt outboundJobId updatedAt)) (\<lambda>changes.
     if changes = 0 then ret False
     else await (getOutboundJob outboundJobId) (\<lambda>job.
          if job = None
          then seq (catch_undefined (delete_job outboundJobId)) (ret False)
          else ret True)))"

text \<open>A job that is queued or waits for a retry is free to be claimed.\<close>

definition job_free :: "string \<Rightarrow> store \<Rightarrow> bool" where
  "job_free outboundJobId s \<longleftrightarrow> (\<exists>j \<in> set (outbound_jobs s). oj_id j = outboundJobId
     \<and> (oj_status j = JobQueued \<or> oj_status j = JobRetry) \<and> job_visible s j)"

lemma job_visible_after:
  "job_visible (snd (update_rows outbound_jobs outbound_jobs_update P f s)) = job_visible s"
  by (simp add: update_rows_def fun_eq_iff job_visible_def message_id_visible_def message_visible_def
      mailbox_of_tenant_def)

interpretation job_claim: guarded_claim "claim_job_stmt i" "job_free i"
proof
  fix t s
  show "fst (claim_job_stmt i t s) \<noteq> 0 \<longleftrightarrow> job_free i s"
    unfolding claim_job_stmt_def job_free_def by (rule jobs_tbl.update_hit)
  show "\<not> job_free i (snd (claim_job_stmt i t s))"
    unfolding claim_job_stmt_def job_free_def job_visible_after
    by (rule jobs_tbl.update_exhausts) auto
  show "fst (claim_job_stmt i t s) = 0 \<Longrightarrow> snd (claim_job_stmt i t s) = s"
    unfolding claim_job_stmt_def by (rule jobs_tbl.update_miss)
qed

section \<open>The store invariant\<close>

lemma keeps_job_reads [keeps_intros]:
  "keeps (stored K es J) (getOutboundJob i)" "keeps (stored K es J) (listOutboundJobs l st)"
  "keeps (stored K es J) (listVisibleOutboundJobsByMessageId m n)"
  "keeps (stored K es J) (listVisibleOutboundJobsByDraftR2Key k n)"
  unfolding getOutboundJob_def listOutboundJobs_def listVisibleOutboundJobsByMessageId_def
    listVisibleOutboundJobsByDraftR2Key_def
  by (rule keeps_stored_query)+

lemma keeps_job_reads2 [keeps_intros]:
  "keeps (stored K es J) (getOutboundJobByMessageId m)" "keeps (stored K es J) (getOutboundJobByDraftR2Key k)"
  unfolding getOutboundJobByMessageId_def getOutboundJobByDraftR2Key_def
  by (intro keeps_intros)+

lemma keeps_delete_job [keeps_intros]: "keeps (stored K es db_ok) (delete_job i)"
  unfolding delete_job_def by (rule jobs_key.keeps_delete)

lemma keeps_deleteInvalidJobs [keeps_intros]:
  "keeps (stored K es db_ok) (deleteInvalidOutboundJobsForDraftR2Key k)"
  unfolding deleteInvalidOutboundJobsForDraftR2Key_def by (intro keeps_intros)

lemma keeps_updateOutboundJobStatus [keeps_intros]:
  "keeps (stored K es db_ok) (updateOutboundJobStatus i st n t e)"
  unfolding updateOutboundJobStatus_def by (intro keeps_intros; simp)

lemma keeps_claimOutboundJob [keeps_intros]: "keeps (stored K es db_ok) (claimOutboundJobForSend i)"
  unfolding claimOutboundJobForSend_def claim_job_stmt_def by (intro keeps_intros; simp)

section \<open>Properties\<close>

text \<open>
  C25. An outbound job is sent by one Worker at a time. Of all the Workers that claim the same job,
  in whatever order their statements reach the database, at most one wins until somebody puts the
  job back; the first claim on a queued job, or on one that waits for a retry, is the winner.
\<close>

theorem one_worker_claims_a_job:
  assumes "never_frees (job_free i) es"
  shows "winners (claim_job_stmt i) es s \<le> 1
    \<and> (job_free i s \<longrightarrow> winners (claim_job_stmt i) (Claim now # es) s = 1)"
  using job_claim.at_most_one_winner [OF assms] job_claim.first_claim_wins [OF _ assms] by blast

theorem one_worker_claims_a_job_witness:
  "winners (claim_job_stmt ''obj1'') [Claim 1, Claim 2, Claim 3]
     (demo_store DraftQueued JobRetry 5 1) = 1"
  using one_worker_claims_a_job [of "''obj1''" "[Claim 2, Claim 3]"
      "demo_store DraftQueued JobRetry 5 1" 1]
  by (simp add: never_frees_def job_free_def demo_defs visibility_defs)

end
