(* ===== verification/MailDrafts.thy ===== *)
theory MailDrafts
  imports MailJobs
begin

text \<open>
  \<open>src/repositories/mail.ts\<close>, drafts: creation with the clean-up of an orphaned payload, the
  visible look-ups, deletion of a draft that was never queued, and the guarded claim by which one
  request moves a draft to \<open>queued\<close>.
\<close>

definition delete_draft :: "string \<Rightarrow> nat io" where
  "delete_draft i = execute (\<lambda>s. delete_rows drafts drafts_update (\<lambda>d. dr_id d = i) s)"

section \<open>Look-ups\<close>

text \<open>
  A database without the column \<open>created_via\<close> answers the first query with an error that names the
  column; the second query leaves it out.
\<close>

definition without_created_via :: "draft_row \<Rightarrow> draft_row" where
  "without_created_via d = d\<lparr>dr_created_via := None\<rparr>"

definition with_created_via_fallback :: "(store \<Rightarrow> draft_row list) \<Rightarrow> draft_row list io" where
  "with_created_via_fallback rows =
     try_catch (query rows) (\<lambda>e.
       if \<not> isMissingCreatedViaColumn e then throw e
       else query (\<lambda>s. map without_created_via (rows s)))"

definition getDraft :: "string \<Rightarrow> draft_row option io" where
  "getDraft draftId =
     await (with_created_via_fallback
              (\<lambda>s. filter (\<lambda>d. dr_id d = draftId \<and> draft_visible s d) (drafts s)))
       (\<lambda>rows. ret (first_row rows))"

definition listDrafts ::
  "string option \<Rightarrow> draft_status option \<Rightarrow> int option \<Rightarrow> draft_row list io" where
  "listDrafts mailboxId status limit =
     with_created_via_fallback (\<lambda>s. take (normalizeListLimit limit) (order_desc dr_created_at
       (filter (\<lambda>d. (truthy mailboxId \<longrightarrow> mailboxId = Some (dr_mailbox_id d))
                 \<and> (status = None \<or> status = Some (dr_status d)) \<and> draft_visible s d) (drafts s))))"

text \<open>
  For the outbound lifecycle a draft stays visible when its thread or its source message is gone.
\<close>

definition listVisibleDraftRowsByR2Key :: "string \<Rightarrow> bool \<Rightarrow> nat \<Rightarrow> draft_row list io" where
  "listVisibleDraftRowsByR2Key draftR2Key forOutboundLifecycle limit =
     with_created_via_fallback (\<lambda>s. take limit (order_desc dr_created_at
       (filter (\<lambda>d. dr_draft_r2_key d = draftR2Key
                 \<and> (if forOutboundLifecycle then draft_owned s d else draft_visible s d))
          (drafts s))))"

definition getDraftByR2Key :: "string \<Rightarrow> draft_row option io" where
  "getDraftByR2Key draftR2Key =
     await (listVisibleDraftRowsByR2Key draftR2Key False 2) (\<lambda>rows. ret (the_only rows))"

definition getDraftByR2KeyForOutboundLifecycle :: "string \<Rightarrow> draft_row option io" where
  "getDraftByR2KeyForOutboundLifecycle draftR2Key =
     await (listVisibleDraftRowsByR2Key draftR2Key True 2) (\<lambda>rows. ret (the_only rows))"

definition getDraftForCleanup :: "string \<Rightarrow> draft_row option io" where
  "getDraftForCleanup draftId =
     query (\<lambda>s. first_row (filter (\<lambda>d. dr_id d = draftId) (drafts s)))"

section \<open>Creation\<close>

record draft_input =
  di_tenant_id :: string
  di_agent_id :: string
  di_mailbox_id :: string
  di_thread_id :: "string option"
  di_source_message_id :: "string option"
  di_created_via :: "string option"
  di_payload :: json_object

definition new_draft_row :: "draft_input \<Rightarrow> string \<Rightarrow> timestamp \<Rightarrow> draft_row" where
  "new_draft_row input i timestamp =
     \<lparr>dr_id = i, dr_tenant_id = di_tenant_id input, dr_agent_id = di_agent_id input,
      dr_mailbox_id = di_mailbox_id input, dr_thread_id = di_thread_id input,
      dr_source_message_id = di_source_message_id input, dr_created_via = di_created_via input,
      dr_status = DraftDraft, dr_draft_r2_key = ''drafts/'' @ i @ ''.json'',
      dr_created_at = timestamp, dr_updated_at = timestamp\<rparr>"

definition insert_draft :: "draft_row \<Rightarrow> nat io" where
  "insert_draft d = execute_checked (\<lambda>s. insert_checked drafts_update
     (\<exists>x \<in> set (drafts s). dr_id x = dr_id d) d s)"

text \<open>The row goes in; on failure the payload that was stored before is removed again.\<close>

definition store_draft :: "draft_row \<Rightarrow> json_object \<Rightarrow> unit io" where
  "store_draft d payload =
     seq (r2_put (dr_draft_r2_key d) (R2Json payload))
     (try_catch
        (seq (try_catch (insert_draft d) (\<lambda>e.
                if \<not> isMissingCreatedViaColumn e then throw e
                else insert_draft (without_created_via d)))
           (ret ()))
        (\<lambda>e. seq (catch_undefined (r2_delete (dr_draft_r2_key d))) (throw e)))"

text \<open>The parents of a draft, each read by a statement of its own.\<close>

definition draft_parents_exist :: "draft_input \<Rightarrow> bool io" where
  "draft_parents_exist input =
     await (query (\<lambda>s. agent_of_tenant s (di_agent_id input) (di_tenant_id input))) (\<lambda>agentExists.
     await (query (\<lambda>s. mailbox_of_tenant s (di_mailbox_id input) (di_tenant_id input)))
       (\<lambda>mailboxExists.
     await (if truthy (di_thread_id input)
            then query (\<lambda>s. \<exists>t \<in> set (threads s). Some (th_id t) = di_thread_id input
                   \<and> th_tenant_id t = di_tenant_id input \<and> th_mailbox_id t = di_mailbox_id input)
            else ret True) (\<lambda>threadExists.
     await (if truthy (di_source_message_id input)
            then query (\<lambda>s. \<exists>m \<in> set (messages s). Some (msg_id m) = di_source_message_id input
                   \<and> msg_tenant_id m = di_tenant_id input
                   \<and> msg_mailbox_id m = di_mailbox_id input)
            else ret True) (\<lambda>sourceMessageExists.
     ret (agentExists \<and> mailboxExists \<and> threadExists \<and> sourceMessageExists)))))"

definition discard_draft :: "draft_row \<Rightarrow> unit io" where
  "discard_draft d = seq (catch_undefined (delete_draft (dr_id d)))
     (catch_undefined (r2_delete (dr_draft_r2_key d)))"

definition createDraft :: "draft_input \<Rightarrow> draft_row io" where
  "createDraft input =
     await (createId ''drf'') (\<lambda>i.
     await nowIso (\<lambda>timestamp.
     let d = new_draft_row input i timestamp in
     seq (store_draft d (di_payload input))
     (await (draft_parents_exist input) (\<lambda>ok.
      if \<not> ok
      then seq (discard_draft d) (throw (PlainError (''Draft '' @ i
             @ '' could not be finalized because the agent, mailbox, or referenced message/thread no longer exists'')))
      else await (getDraft i) (\<lambda>created. case created of
             None \<Rightarrow> seq (discard_draft d) (throw (PlainError ''Failed to load created draft''))
           | Some r \<Rightarrow> ret r)))))"

section \<open>Deletion\<close>

text \<open>Only a draft that no visible outbound job names may be deleted.\<close>

definition delete_unqueued_stmt :: "string \<Rightarrow> store \<Rightarrow> nat \<times> store" where
  "delete_unqueued_stmt draftId s = delete_rows drafts drafts_update
     (\<lambda>d. dr_id d = draftId \<and> (dr_status d = DraftDraft \<or> dr_status d = DraftApproved)
        \<and> \<not> (\<exists>j \<in> set (outbound_jobs s). oj_draft_r2_key j = dr_draft_r2_key d \<and> job_visible s j)) s"

definition retry_delete_unqueued :: "string \<Rightarrow> string \<Rightarrow> nat \<Rightarrow> nat io" where
  "retry_delete_unqueued draftId r2Key changes =
     (if changes \<noteq> 0 then ret changes
      else await (getOutboundJobByDraftR2Key r2Key) (\<lambda>job.
           if job \<noteq> None then ret 0
           else await (deleteInvalidOutboundJobsForDraftR2Key r2Key) (\<lambda>deleted.
                if deleted > 0 then execute (delete_unqueued_stmt draftId) else ret 0)))"

definition deleteDraftIfUnqueued :: "string \<Rightarrow> bool io" where
  "deleteDraftIfUnqueued draftId =
     await (getDraft draftId) (\<lambda>visibleDraft.
     await (if visibleDraft \<noteq> None then ret None else getDraftForCleanup draftId) (\<lambda>fallbackDraft.
     case (if visibleDraft \<noteq> None then visibleDraft else fallbackDraft) of
       None \<Rightarrow> ret False
     | Some d \<Rightarrow>
         seq (catch_undefined (deleteInvalidOutboundJobsForDraftR2Key (dr_draft_r2_key d)))
         (await (execute (delete_unqueued_stmt draftId)) (\<lambda>first.
          await (retry_delete_unqueued draftId (dr_draft_r2_key d) first) (\<lambda>changes.
          if changes = 0 then ret False
          else seq (catch_undefined (r2_delete (dr_draft_r2_key d))) (ret True))))))"

section \<open>State of a draft\<close>

definition claim_draft_stmt :: "string \<Rightarrow> timestamp \<Rightarrow> store \<Rightarrow> nat \<times> store" where
  "claim_draft_stmt draftId updatedAt s = update_rows drafts drafts_update
     (\<lambda>d. dr_id d = draftId \<and> (dr_status d = DraftDraft \<or> dr_status d = DraftApproved)
        \<and> draft_owned s d)
     (\<lambda>d. d\<lparr>dr_status := DraftQueued, dr_updated_at := updatedAt\<rparr>) s"

definition claimDraftForSend :: "string \<Rightarrow> timestamp \<Rightarrow> bool io" where
  "claimDraftForSend draftId updatedAt =
     await (execute (claim_draft_stmt draftId updatedAt)) (\<lambda>changes. ret (changes > 0))"

definition restoreDraftSendState :: "string \<Rightarrow> draft_status \<Rightarrow> string option \<Rightarrow> unit io" where
  "restoreDraftSendState draftId status threadId =
     await nowIso (\<lambda>updatedAt.
     await (execute (\<lambda>s. update_rows drafts drafts_update
       (\<lambda>d. dr_id d = draftId \<and> draft_owned s d
          \<and> (case threadId of None \<Rightarrow> True
             | Some t \<Rightarrow> thread_ref_valid s t (dr_mailbox_id d) (dr_tenant_id d)))
       (\<lambda>d. d\<lparr>dr_status := status, dr_thread_id := threadId, dr_updated_at := updatedAt\<rparr>) s))
     (\<lambda>changes. requireStateUpdateApplied changes (''Draft '' @ draftId)))"

definition assignDraftThreadId :: "string \<Rightarrow> string \<Rightarrow> unit io" where
  "assignDraftThreadId draftId threadId =
     await nowIso (\<lambda>updatedAt.
     await (execute (\<lambda>s. update_rows drafts drafts_update
       (\<lambda>d. dr_id d = draftId \<and> thread_ref_valid s threadId (dr_mailbox_id d) (dr_tenant_id d))
       (\<lambda>d. d\<lparr>dr_thread_id := Some threadId, dr_updated_at := updatedAt\<rparr>) s))
     (\<lambda>changes. requireStateUpdateApplied changes (''Draft '' @ draftId)))"

definition markDraftStatus :: "string \<Rightarrow> draft_status \<Rightarrow> unit io" where
  "markDraftStatus draftId status =
     await nowIso (\<lambda>updatedAt.
     await (execute (\<lambda>s. update_rows drafts drafts_update
       (\<lambda>d. dr_id d = draftId \<and> draft_owned s d)
       (\<lambda>d. d\<lparr>dr_status := status, dr_updated_at := updatedAt\<rparr>) s))
     (\<lambda>changes. requireStateUpdateApplied changes (''Draft '' @ draftId)))"

text \<open>A draft that is not yet queued is free to be claimed.\<close>

definition draft_free :: "string \<Rightarrow> store \<Rightarrow> bool" where
  "draft_free draftId s \<longleftrightarrow> (\<exists>d \<in> set (drafts s). dr_id d = draftId
     \<and> (dr_status d = DraftDraft \<or> dr_status d = DraftApproved) \<and> draft_owned s d)"

lemma draft_owned_after:
  "draft_owned (snd (update_rows drafts drafts_update P f s)) = draft_owned s"
  by (simp add: update_rows_def fun_eq_iff draft_owned_def agent_of_tenant_def mailbox_of_tenant_def)

interpretation draft_claim: guarded_claim "claim_draft_stmt i" "draft_free i"
proof
  fix t s
  show "fst (claim_draft_stmt i t s) \<noteq> 0 \<longleftrightarrow> draft_free i s"
    unfolding claim_draft_stmt_def draft_free_def by (rule drafts_tbl.update_hit)
  show "\<not> draft_free i (snd (claim_draft_stmt i t s))"
    unfolding claim_draft_stmt_def draft_free_def draft_owned_after
    by (rule drafts_tbl.update_exhausts) auto
  show "fst (claim_draft_stmt i t s) = 0 \<Longrightarrow> snd (claim_draft_stmt i t s) = s"
    unfolding claim_draft_stmt_def by (rule drafts_tbl.update_miss)
qed

section \<open>The store invariant\<close>

lemma keeps_fallback [keeps_intros]: "keeps (stored K es J) (with_created_via_fallback rows)"
  unfolding with_created_via_fallback_def by (intro keeps_intros)

lemma keeps_draft_reads [keeps_intros]:
  "keeps (stored K es J) (getDraft i)" "keeps (stored K es J) (listDrafts mb st l)"
  "keeps (stored K es J) (listVisibleDraftRowsByR2Key k b n)" "keeps (stored K es J) (getDraftForCleanup i)"
  unfolding getDraft_def listDrafts_def listVisibleDraftRowsByR2Key_def getDraftForCleanup_def
  by (intro keeps_intros)+

lemma keeps_draft_reads2 [keeps_intros]:
  "keeps (stored K es J) (getDraftByR2Key k)"
  "keeps (stored K es J) (getDraftByR2KeyForOutboundLifecycle k)"
  "keeps (stored K es J) (draft_parents_exist input)"
  unfolding getDraftByR2Key_def getDraftByR2KeyForOutboundLifecycle_def draft_parents_exist_def
  by (intro keeps_intros)+

lemma keeps_draft_writes [keeps_intros]:
  "keeps (stored K es db_ok) (delete_draft i)" "keeps (stored K es db_ok) (insert_draft d)"
  unfolding delete_draft_def insert_draft_def by (intro keeps_intros; auto)+

lemma keeps_createDraft [keeps_intros]: "keeps (stored K es db_ok) (createDraft input)"
  unfolding createDraft_def store_draft_def discard_draft_def by (intro keeps_intros)

lemma keeps_delete_unqueued [keeps_intros]:
  "keeps (stored K es db_ok) (execute (delete_unqueued_stmt i))"
  unfolding delete_unqueued_stmt_def by (rule drafts_key.keeps_delete)

lemma keeps_deleteDraftIfUnqueued [keeps_intros]:
  "keeps (stored K es db_ok) (deleteDraftIfUnqueued i)"
  unfolding deleteDraftIfUnqueued_def retry_delete_unqueued_def by (intro keeps_intros)

lemma keeps_draft_state [keeps_intros]:
  "keeps (stored K es db_ok) (claimDraftForSend i t)"
  "keeps (stored K es db_ok) (restoreDraftSendState i st th)"
  "keeps (stored K es db_ok) (assignDraftThreadId i th')"
  "keeps (stored K es db_ok) (markDraftStatus i st)"
  unfolding claimDraftForSend_def claim_draft_stmt_def restoreDraftSendState_def
    assignDraftThreadId_def markDraftStatus_def
  by (intro keeps_intros; simp)+

section \<open>Properties\<close>

text \<open>
  A draft is sent once: of several requests that claim the same draft for sending, at most one
  wins until the draft is put back, and on a draft that may be claimed the first one does.
\<close>

theorem one_request_claims_a_draft:
  assumes "never_frees (draft_free i) es"
  shows "winners (claim_draft_stmt i) es s \<le> 1
    \<and> (draft_free i s \<longrightarrow> winners (claim_draft_stmt i) (Claim now # es) s = 1)"
  using draft_claim.at_most_one_winner [OF assms] draft_claim.first_claim_wins [OF _ assms] by blast

theorem one_request_claims_a_draft_witness:
  "winners (claim_draft_stmt ''drf1'') [Claim 1, Claim 2] (demo_store DraftApproved JobSent 5 1) = 1"
  using one_request_claims_a_draft [of "''drf1''" "[Claim 2]"
      "demo_store DraftApproved JobSent 5 1" 1]
  by (simp add: never_frees_def draft_free_def demo_defs visibility_defs)

end
