(* ===== verification/EmailParser.thy ===== *)
theory EmailParser
  imports JsPrelude
begin

text \<open>
  \<open>src/lib/email-parser.ts\<close>, the normal form of a subject by which a reply finds its thread:
  reply and forward prefixes are removed, then the rest is trimmed and lower-cased.
\<close>

section \<open>A parsed mail\<close>

record parsed_attachment =
  pa_filename :: "string option"
  pa_content_type :: "string option"
  pa_content :: string
  pa_transfer_encoding :: "string option"

record parsed_email =
  pe_headers :: json_object
  pe_subject :: "string option"
  pe_message_id :: "string option"
  pe_in_reply_to :: "string option"
  pe_from :: "string option"
  pe_reply_to :: "string option"
  pe_references :: "string list"
  pe_text :: "string option"
  pe_html :: "string option"
  pe_attachments :: "parsed_attachment list"
  pe_snippet :: "string option"
  pe_thread_key :: string

section \<open>Subjects\<close>

text \<open>One match of \<open>(re|fwd|fw):\s*\<close> at the start; the flag \<open>i\<close> ignores the case.\<close>

definition reply_prefix :: "string \<Rightarrow> nat option" where
  "reply_prefix s =
     (if js_starts_with (js_lower s) ''re:'' then Some 3
      else if js_starts_with (js_lower s) ''fwd:'' then Some 4
      else if js_starts_with (js_lower s) ''fw:'' then Some 3 else None)"

lemma js_starts_with_length: "js_starts_with s p \<Longrightarrow> length p \<le> length s"
  unfolding js_starts_with_def by (metis length_take min.cobounded1)

lemma reply_prefix_length: "reply_prefix s = Some n \<Longrightarrow> 0 < n \<and> n \<le> length s"
  by (auto simp: reply_prefix_def js_lower_def split: if_splits dest!: js_starts_with_length)

function strip_reply_prefixes :: "string \<Rightarrow> string" where
  "strip_reply_prefixes s = (case reply_prefix s of None \<Rightarrow> s
     | Some n \<Rightarrow> strip_reply_prefixes (dropWhile is_js_space (drop n s)))"
  by pat_completeness auto

termination
proof (relation "measure length", simp)
  fix s n
  assume "reply_prefix s = Some n"
  then have "length (drop n s) < length s" using reply_prefix_length by fastforce
  then show "(dropWhile is_js_space (drop n s), s) \<in> measure length"
    using length_dropWhile_le [of is_js_space "drop n s"] by simp
qed

declare strip_reply_prefixes.simps [simp del]

definition normalizeSubject :: "string option \<Rightarrow> string" where
  "normalizeSubject subject =
     js_lower (js_trim (strip_reply_prefixes (case subject of None \<Rightarrow> '''' | Some s \<Rightarrow> s)))"

lemma strip_none: "reply_prefix s = None \<Longrightarrow> strip_reply_prefixes s = s"
  by (subst strip_reply_prefixes.simps) simp

lemma strip_some:
  "reply_prefix s = Some n \<Longrightarrow>
     strip_reply_prefixes s = strip_reply_prefixes (dropWhile is_js_space (drop n s))"
  by (subst strip_reply_prefixes.simps) simp

lemma strip_result: "reply_prefix (strip_reply_prefixes s) = None"
proof (induction s rule: strip_reply_prefixes.induct)
  case (1 s)
  then show ?case by (cases "reply_prefix s") (simp_all add: strip_none strip_some)
qed

lemma reply_prefix_lower [simp]: "reply_prefix (js_lower s) = reply_prefix s"
  by (simp add: reply_prefix_def)

lemma normalizeSubject_normal:
  "js_trim (normalizeSubject s) = normalizeSubject s" "js_lower (normalizeSubject s) = normalizeSubject s"
  by (simp_all add: normalizeSubject_def js_trim_lower)

text \<open>Prefixes and the case of the subject do not matter.\<close>

lemma normalizeSubject_reply:
  "normalizeSubject (Some (''Re: '' @ s)) = normalizeSubject (Some (dropWhile is_js_space s))"
proof -
  have "lower_char CHR ''R'' = CHR ''r''" "lower_char CHR ''e'' = CHR ''e''"
    "lower_char CHR '':'' = CHR '':''" by code_simp+
  then have "reply_prefix (''Re: '' @ s) = Some 3"
    by (simp add: reply_prefix_def js_starts_with_def js_lower_def)
  then have "strip_reply_prefixes (''Re: '' @ s) = strip_reply_prefixes (dropWhile is_js_space ('' '' @ s))"
    by (simp add: strip_some)
  then show ?thesis by (simp add: normalizeSubject_def is_js_space_def)
qed

lemma reply_prefix_append:
  assumes "js_lower q \<in> {''re:'', ''fwd:'', ''fw:''}"
  shows "reply_prefix (q @ s) = Some (length q)"
proof -
  have "js_lower (q @ s) = js_lower q @ js_lower s" by (simp add: js_lower_def)
  moreover have "length q = length (js_lower q)" by (simp add: js_lower_def)
  ultimately show ?thesis using assms by (auto simp: reply_prefix_def js_starts_with_def)
qed

lemma strip_append:
  assumes "js_lower q \<in> {''re:'', ''fwd:'', ''fw:''}"
  shows "strip_reply_prefixes (q @ s) = strip_reply_prefixes (dropWhile is_js_space s)"
  by (simp add: strip_some [OF reply_prefix_append [OF assms]])

definition no_leading_space :: "string \<Rightarrow> bool" where
  "no_leading_space s \<longleftrightarrow> dropWhile is_js_space s = s"

lemma strip_no_leading_space: "no_leading_space s \<Longrightarrow> no_leading_space (strip_reply_prefixes s)"
proof (induction s rule: strip_reply_prefixes.induct)
  case (1 s)
  then show ?case
    by (cases "reply_prefix s") (simp_all add: strip_none strip_some no_leading_space_def dropWhile_idem)
qed

lemma rtrim_prefix: "\<exists>n. rev (dropWhile P (rev s)) = take n s"
  by (metis dropWhile_eq_drop rev_drop rev_rev_ident)

lemma reply_prefix_take:
  assumes "reply_prefix s = None"
  shows "reply_prefix (take n s) = None"
proof -
  have "js_starts_with (js_lower s) p" if "js_starts_with (js_lower (take n s)) p" for p
    using that by (auto simp: js_starts_with_def js_lower_def take_map [symmetric] min_def split: if_splits)
  with assms show ?thesis by (auto simp: reply_prefix_def split: if_splits)
qed

lemma normalizeSubject_stable:
  assumes "no_leading_space s"
  shows "normalizeSubject (Some (normalizeSubject (Some s))) = normalizeSubject (Some s)"
proof -
  let ?t = "strip_reply_prefixes s"
  have "js_trim ?t = rev (dropWhile is_js_space (rev ?t))"
    using strip_no_leading_space [OF assms] by (simp add: js_trim_def no_leading_space_def)
  then obtain n where "js_trim ?t = take n ?t" using rtrim_prefix by metis
  then have "reply_prefix (normalizeSubject (Some s)) = None"
    by (simp add: normalizeSubject_def reply_prefix_take strip_result)
  then have "strip_reply_prefixes (normalizeSubject (Some s)) = normalizeSubject (Some s)"
    by (rule strip_none)
  then show ?thesis
    using normalizeSubject_normal [of "Some s"] by (simp add: normalizeSubject_def [of "Some (normalizeSubject x)" for x])
qed

section \<open>Properties\<close>

text \<open>
  A reply is filed with its thread by its subject: a reply or forward prefix in any case, with
  any blanks after it, does not change the normal form; and the normal form of a subject without
  leading blanks is its own normal form.
\<close>

theorem replies_share_their_subject:
  assumes "js_lower q \<in> {''re:'', ''fwd:'', ''fw:''}" "no_leading_space s" "\<forall>c \<in> set b. is_js_space c"
  shows "normalizeSubject (Some (q @ b @ s)) = normalizeSubject (Some s)
    \<and> normalizeSubject (Some (normalizeSubject (Some s))) = normalizeSubject (Some s)"
proof -
  have "dropWhile is_js_space (b @ s) = s"
    using assms(2,3) by (induction b) (simp_all add: no_leading_space_def)
  with strip_append [OF assms(1), of "b @ s"] normalizeSubject_stable [OF assms(2)]
  show ?thesis by (simp add: normalizeSubject_def)
qed

theorem replies_share_their_subject_witness:
  "normalizeSubject (Some ''FWD:  Hello'') = normalizeSubject (Some ''Hello'')"
proof -
  have "js_lower ''FWD:'' = ''fwd:''" "no_leading_space ''Hello''" "\<forall>c \<in> set ''  ''. is_js_space c"
    by code_simp+
  with replies_share_their_subject [of "''FWD:''" "''Hello''" "''  ''"] show ?thesis by simp
qed

text \<open>With leading blanks the prefix is only trimmed bare, so a second pass removes it.\<close>

lemma normalizeSubject_not_idempotent:
  "normalizeSubject (Some ''  Re: x'') = ''re: x'' \<and> normalizeSubject (Some ''re: x'') = ''x''"
proof -
  have "reply_prefix ''  Re: x'' = None" "js_lower (js_trim ''  Re: x'') = ''re: x''"
    "reply_prefix ''re: x'' = Some 3" "dropWhile is_js_space (drop 3 ''re: x'') = ''x''"
    "reply_prefix ''x'' = None" "js_lower (js_trim ''x'') = ''x''"
    by code_simp+
  then show ?thesis by (simp add: normalizeSubject_def strip_none strip_some)
qed

end
