(* ===== verification/MailThreads.thy ===== *)
theory MailThreads
  imports MailDrafts EmailParser
begin

text \<open>
  \<open>src/repositories/mail.ts\<close>, threads: the thread of a mailbox and a key is found or created once
  (\<open>threads\<close> has a unique index on both), and an inbound mail is put into a thread either by the
  message ids it references or, failing that, by its subject and sender.
\<close>

definition delete_thread :: "string \<Rightarrow> nat io" where
  "delete_thread i = execute (\<lambda>s. delete_rows threads threads_update (\<lambda>t. th_id t = i) s)"

section \<open>Reading\<close>

record thread_view =
  tv_thread :: thread_row
  tv_messages :: "message_row list"

definition getThread :: "string \<Rightarrow> thread_view option io" where
  "getThread threadId =
     await (query (\<lambda>s. first_row (filter (\<lambda>t. th_id t = threadId \<and> thread_visible s t) (threads s))))
       (\<lambda>thread. case thread of
         None \<Rightarrow> ret None
       | Some t \<Rightarrow>
           await (query (\<lambda>s. order_asc msg_created_at (filter (\<lambda>m. msg_thread_id m = Some threadId
                    \<and> msg_mailbox_id m = th_mailbox_id t \<and> msg_tenant_id m = th_tenant_id t
                    \<and> message_visible s m) (messages s))))
             (\<lambda>rows. ret (Some \<lparr>tv_thread = t, tv_messages = rows\<rparr>)))"

definition loadVisibleThread :: "string \<Rightarrow> string \<Rightarrow> string \<Rightarrow> thread_row option io" where
  "loadVisibleThread tenantId mailboxId threadKey =
     query (\<lambda>s. first_row (filter (\<lambda>t. th_mailbox_id t = mailboxId \<and> th_thread_key t = threadKey
       \<and> th_tenant_id t = tenantId \<and> thread_visible s t) (threads s)))"

section \<open>Creation\<close>

definition deleteInvalidThreadsForMailboxThreadKey :: "string \<Rightarrow> string \<Rightarrow> string \<Rightarrow> nat io" where
  "deleteInvalidThreadsForMailboxThreadKey tenantId mailboxId threadKey =
     await (query (\<lambda>s. map th_id (filter (\<lambda>t. th_mailbox_id t = mailboxId
              \<and> th_thread_key t = threadKey \<and> \<not> (th_tenant_id t = tenantId \<and> thread_visible s t))
              (threads s)))) (\<lambda>ids.
     seq (for_each ids (\<lambda>i. catch_undefined (delete_thread i)))
     (ret (length ids)))"

definition thread_clash :: "store \<Rightarrow> thread_row \<Rightarrow> bool" where
  "thread_clash s r \<longleftrightarrow> (\<exists>t \<in> set (threads s). th_id t = th_id r
     \<or> (th_mailbox_id t = th_mailbox_id r \<and> th_thread_key t = th_thread_key r))"

definition insertThread :: "string \<Rightarrow> string \<Rightarrow> string \<Rightarrow> string \<Rightarrow> string option \<Rightarrow> nat io" where
  "insertThread i tenantId mailboxId threadKey subjectNorm =
     await nowIso (\<lambda>now.
     let r = \<lparr>th_id = i, th_tenant_id = tenantId, th_mailbox_id = mailboxId,
              th_thread_key = threadKey, th_subject_norm = subjectNorm,
              th_last_message_at = Some now, th_status = ''open''\<rparr>
     in execute_checked (\<lambda>s. insert_checked threads_update (thread_clash s r) r s))"

text \<open>
  The insertion with its recovery: \<open>Some t\<close> when a concurrent request has created the thread,
  \<^const>\<open>None\<close> when the row is this request's own.
\<close>

definition insert_or_concurrent ::
  "string \<Rightarrow> string \<Rightarrow> string \<Rightarrow> string \<Rightarrow> string option \<Rightarrow> thread_row option io" where
  "insert_or_concurrent i tenantId mailboxId threadKey subjectNorm =
     try_catch (seq (insertThread i tenantId mailboxId threadKey subjectNorm) (ret None)) (\<lambda>e.
       if \<not> isUniqueConstraintError e then throw e
       else await (loadVisibleThread tenantId mailboxId threadKey) (\<lambda>concurrent.
       case concurrent of Some t \<Rightarrow> ret (Some t)
       | None \<Rightarrow>
         await (deleteInvalidThreadsForMailboxThreadKey tenantId mailboxId threadKey) (\<lambda>deleted.
         if deleted = 0 then throw e
         else try_catch (seq (insertThread i tenantId mailboxId threadKey subjectNorm) (ret None))
           (\<lambda>retryError.
             if \<not> isUniqueConstraintError retryError then throw retryError
             else await (loadVisibleThread tenantId mailboxId threadKey) (\<lambda>retried.
                  case retried of Some t \<Rightarrow> ret (Some t) | None \<Rightarrow> throw retryError)))))"

definition finalize_thread :: "string \<Rightarrow> string \<Rightarrow> string \<Rightarrow> thread_row io" where
  "finalize_thread i tenantId mailboxId =
     await (query (\<lambda>s. mailbox_of_tenant s mailboxId tenantId)) (\<lambda>mailbox.
     if \<not> mailbox
     then seq (catch_undefined (delete_thread i))
            (throw (PlainError (''Thread '' @ i @ '' could not be finalized because mailbox ''
               @ mailboxId @ '' no longer exists'')))
     else await (query (\<lambda>s. first_row (filter (\<lambda>t. th_id t = i \<and> th_tenant_id t = tenantId
                   \<and> th_mailbox_id t = mailboxId) (threads s)))) (\<lambda>created.
          case created of
            None \<Rightarrow> seq (catch_undefined (delete_thread i))
                      (throw (PlainError (''Failed to load thread '' @ i)))
          | Some t \<Rightarrow> ret t))"

definition getOrCreateThread ::
  "string \<Rightarrow> string \<Rightarrow> string \<Rightarrow> string option \<Rightarrow> thread_row io" where
  "getOrCreateThread tenantId mailboxId threadKey subjectNorm =
     await (loadVisibleThread tenantId mailboxId threadKey) (\<lambda>existing. case existing of
       Some t \<Rightarrow> ret t
     | None \<Rightarrow>
         await (createId ''thr'') (\<lambda>i.
         await (insert_or_concurrent i tenantId mailboxId threadKey subjectNorm) (\<lambda>concurrent.
         case concurrent of Some t \<Rightarrow> ret t | None \<Rightarrow> finalize_thread i tenantId mailboxId)))"

section \<open>State\<close>

text \<open>A thread goes only when no visible message and no owned draft refers to it.\<close>

definition deleteThreadIfUnreferenced :: "string \<Rightarrow> unit io" where
  "deleteThreadIfUnreferenced threadId =
     seq (execute (\<lambda>s. delete_rows threads threads_update (\<lambda>t. th_id t = threadId
       \<and> \<not> (\<exists>m \<in> set (messages s). msg_thread_id m = Some threadId \<and> message_visible s m)
       \<and> \<not> (\<exists>d \<in> set (drafts s). dr_thread_id d = Some threadId \<and> draft_owned s d)) s))
     (ret ())"

definition assignMessageThreadId :: "string \<Rightarrow> string \<Rightarrow> unit io" where
  "assignMessageThreadId messageId threadId =
     await (execute (\<lambda>s. update_rows messages messages_update
       (\<lambda>m. msg_id m = messageId
          \<and> thread_ref_valid s threadId (msg_mailbox_id m) (msg_tenant_id m))
       (\<lambda>m. m\<lparr>msg_thread_id := Some threadId\<rparr>) s))
     (\<lambda>changes. requireStateUpdateApplied changes (''Message '' @ messageId))"

definition updateThreadTimestamp :: "string \<Rightarrow> unit io" where
  "updateThreadTimestamp threadId =
     await nowIso (\<lambda>now.
     await (execute (\<lambda>s. update_rows threads threads_update
       (\<lambda>t. th_id t = threadId \<and> thread_visible s t) (\<lambda>t. t\<lparr>th_last_message_at := Some now\<rparr>) s))
     (\<lambda>changes. requireStateUpdateApplied changes (''Thread '' @ threadId)))"

section \<open>The thread of a reply\<close>

definition thread_of_message :: "store \<Rightarrow> message_row \<Rightarrow> thread_row list" where
  "thread_of_message s m = filter (\<lambda>t. Some (th_id t) = msg_thread_id m
     \<and> th_mailbox_id t = msg_mailbox_id m \<and> th_tenant_id t = msg_tenant_id m
     \<and> thread_visible s t) (threads s)"

definition threads_by_message_id ::
  "store \<Rightarrow> string \<Rightarrow> string \<Rightarrow> string \<Rightarrow> thread_row list" where
  "threads_by_message_id s tenantId mailboxId internetMessageId =
     take 2 (concat (map (thread_of_message s) (order_desc msg_created_at
       (filter (\<lambda>m. msg_mailbox_id m = mailboxId \<and> msg_tenant_id m = tenantId
                 \<and> map_option (map ascii_lower) (msg_internet_message_id m) = Some internetMessageId)
          (messages s)))))"

primrec find_by_candidates :: "string \<Rightarrow> string \<Rightarrow> string list \<Rightarrow> thread_row option io" where
  "find_by_candidates tenantId mailboxId [] = ret None"
| "find_by_candidates tenantId mailboxId (c # cs) =
     await (query (\<lambda>s. threads_by_message_id s tenantId mailboxId c)) (\<lambda>rows.
     if rows = [] then find_by_candidates tenantId mailboxId cs
     else if length (js_unique (map th_id rows)) \<noteq> 1 then ret None
     else ret (Some (hd rows)))"

definition message_id_candidates :: "string list \<Rightarrow> string list" where
  "message_id_candidates ids = js_unique (List.map_filter (\<lambda>v. normalizeInternetMessageId (Some v)) ids)"

definition findThreadByInternetMessageIds ::
  "string \<Rightarrow> string \<Rightarrow> string list \<Rightarrow> thread_row option io" where
  "findThreadByInternetMessageIds tenantId mailboxId internetMessageIds =
     find_by_candidates tenantId mailboxId (message_id_candidates internetMessageIds)"

definition normalizeEmailAddress :: "string option \<Rightarrow> string option" where
  "normalizeEmailAddress v = (case v of None \<Rightarrow> None
     | Some x \<Rightarrow> let n = js_lower (js_trim x) in if n = [] then None else Some n)"

definition parseStoredRecipientList :: "string \<Rightarrow> string list" where
  "parseStoredRecipientList v =
     List.map_filter (\<lambda>i. normalizeEmailAddress (Some i)) (js_split CHR '','' v)"

record reply_candidate =
  rc_message :: message_row
  rc_draft_r2_key :: "string option"
  rc_thread :: "thread_row option"

definition visible_jobs_of :: "store \<Rightarrow> string \<Rightarrow> outbound_job_row list" where
  "visible_jobs_of s messageId =
     filter (\<lambda>j. oj_message_id j = messageId \<and> job_visible s j) (outbound_jobs s)"

definition reply_rows :: "store \<Rightarrow> string \<Rightarrow> string \<Rightarrow> reply_candidate list" where
  "reply_rows s tenantId mailboxId = take 50 (concat (map (\<lambda>m.
       let jobs = visible_jobs_of s (msg_id m);
           key = (if length jobs = 1 then Some (oj_draft_r2_key (hd jobs)) else None);
           ts = thread_of_message s m
       in map (\<lambda>t. \<lparr>rc_message = m, rc_draft_r2_key = key, rc_thread = t\<rparr>)
            (if ts = [] then [None] else map Some ts))
     (order_desc msg_created_at (filter (\<lambda>m. msg_mailbox_id m = mailboxId
        \<and> msg_tenant_id m = tenantId \<and> msg_direction m = Outbound \<and> message_visible s m
        \<and> length (visible_jobs_of s (msg_id m)) \<le> 1) (messages s)))))"

definition payload_recipients :: "json_object \<Rightarrow> string list" where
  "payload_recipients payload = concat (map (\<lambda>field. case js_prop payload field of
       Some (JArr vs) \<Rightarrow> List.map_filter (\<lambda>v. normalizeEmailAddress (str_opt (Some v))) vs
     | _ \<Rightarrow> []) [''to'', ''cc'', ''bcc''])"

definition loadReplyFallbackRecipients :: "reply_candidate \<Rightarrow> string list io" where
  "loadReplyFallbackRecipients row =
     (let stored = js_unique (parseStoredRecipientList (msg_to_addr (rc_message row)));
          key = (case rc_draft_r2_key row of None \<Rightarrow> '''' | Some k \<Rightarrow> js_trim k)
      in if key = [] then ret stored
         else await (getDraftByR2KeyForOutboundLifecycle key) (\<lambda>draft. case draft of
             None \<Rightarrow> ret stored
           | Some d \<Rightarrow>
               if dr_tenant_id d \<noteq> msg_tenant_id (rc_message row)
                  \<or> dr_mailbox_id d \<noteq> msg_mailbox_id (rc_message row)
               then ret stored
               else await (r2_get key) (\<lambda>object. case object of
                   None \<Rightarrow> ret stored
                 | Some ob \<Rightarrow> await (r2_json ob)
                     (\<lambda>payload. ret (js_unique (stored @ payload_recipients payload))))))"

primrec filter_candidates ::
  "string \<Rightarrow> string \<Rightarrow> reply_candidate list \<Rightarrow> reply_candidate list io" where
  "filter_candidates participant subjectNorm [] = ret []"
| "filter_candidates participant subjectNorm (row # rows) =
     await (loadReplyFallbackRecipients row) (\<lambda>recipients.
     await (filter_candidates participant subjectNorm rows) (\<lambda>rest.
     ret (if participant \<in> set recipients
             \<and> normalizeSubject (msg_subject (rc_message row)) = subjectNorm
          then row # rest else rest)))"

definition candidate_key :: "reply_candidate \<Rightarrow> string" where
  "candidate_key row = (case msg_thread_id (rc_message row) of Some t \<Rightarrow> t
     | None \<Rightarrow> msg_id (rc_message row))"

text \<open>Candidates whose own ids are referenced win; more than one thread left means no thread.\<close>

definition select_candidate :: "string list \<Rightarrow> reply_candidate list \<Rightarrow> reply_candidate option" where
  "select_candidate referenced candidates =
     (let known = (\<lambda>v. case normalizeEmailAddress v of None \<Rightarrow> False | Some i \<Rightarrow> i \<in> set referenced);
          exactKeys = map candidate_key (filter (\<lambda>row.
            known (msg_provider_message_id (rc_message row))
            \<or> known (msg_internet_message_id (rc_message row))) candidates);
          effective = (if exactKeys \<noteq> [] then filter (\<lambda>row. candidate_key row \<in> set exactKeys) candidates
                       else candidates)
      in if length (js_unique (map candidate_key effective)) \<noteq> 1 then None
         else Some (hd effective))"

definition thread_of_candidate ::
  "string \<Rightarrow> string \<Rightarrow> reply_candidate \<Rightarrow> thread_row io" where
  "thread_of_candidate tenantId subjectNorm c =
     (case (truthy (msg_thread_id (rc_message c)), rc_thread c) of
        (True, Some t) \<Rightarrow> ret (t\<lparr>th_subject_norm := (case th_subject_norm t of
            Some n \<Rightarrow> Some n | None \<Rightarrow> Some subjectNorm)\<rparr>)
      | _ \<Rightarrow>
          let m = rc_message c in
          await (getOrCreateThread (msg_tenant_id m) (msg_mailbox_id m)
                   (case msg_internet_message_id m of Some i \<Rightarrow> i
                    | None \<Rightarrow> (case msg_provider_message_id m of Some i \<Rightarrow> i
                               | None \<Rightarrow> ''outbound:'' @ msg_id m)) (Some subjectNorm)) (\<lambda>thread.
          seq (try_catch (assignMessageThreadId (msg_id m) (th_id thread)) (\<lambda>e.
                 seq (catch_undefined (deleteThreadIfUnreferenced (th_id thread))) (throw e)))
          (ret thread)))"

definition findThreadByReplyContext ::
  "string \<Rightarrow> string \<Rightarrow> string list \<Rightarrow> string option \<Rightarrow> string option \<Rightarrow> thread_row option io" where
  "findThreadByReplyContext tenantId mailboxId internetMessageIds subject participantAddress =
     await (findThreadByInternetMessageIds tenantId mailboxId internetMessageIds) (\<lambda>exactThread.
     if exactThread \<noteq> None then ret exactThread
     else
       let subjectNorm = normalizeSubject subject in
       (case (subjectNorm, normalizeEmailAddress participantAddress) of
          ([], _) \<Rightarrow> ret None
        | (_, None) \<Rightarrow> ret None
        | (_, Some participant) \<Rightarrow>
            await (query (\<lambda>s. reply_rows s tenantId mailboxId)) (\<lambda>rows.
            await (filter_candidates participant subjectNorm rows) (\<lambda>candidates.
            case select_candidate (message_id_candidates internetMessageIds) candidates of
              None \<Rightarrow> ret None
            | Some c \<Rightarrow> await (thread_of_candidate tenantId subjectNorm c) (\<lambda>t. ret (Some t))))))"

section \<open>The store invariant\<close>

lemma keeps_thread_reads [keeps_intros]:
  "keeps (stored K es J) (getThread i)" "keeps (stored K es J) (loadVisibleThread t mb k)"
  unfolding getThread_def loadVisibleThread_def by (intro keeps_intros)+

lemma keeps_delete_thread [keeps_intros]: "keeps (stored K es db_ok) (delete_thread i)"
  unfolding delete_thread_def by (rule threads_key.keeps_delete)

lemma keeps_insertThread [keeps_intros]: "keeps (stored K es db_ok) (insertThread i t mb k su)"
  unfolding insertThread_def Let_def by (intro keeps_intros) (auto simp: thread_clash_def)

lemma keeps_thread_creation [keeps_intros]:
  "keeps (stored K es db_ok) (deleteInvalidThreadsForMailboxThreadKey t mb k)"
  "keeps (stored K es db_ok) (finalize_thread i t mb)"
  unfolding deleteInvalidThreadsForMailboxThreadKey_def finalize_thread_def
  by (intro keeps_intros)+

lemma keeps_getOrCreateThread [keeps_intros]:
  "keeps (stored K es db_ok) (getOrCreateThread t mb k su)"
  unfolding getOrCreateThread_def insert_or_concurrent_def by (intro keeps_intros)

lemma keeps_thread_state [keeps_intros]:
  "keeps (stored K es db_ok) (deleteThreadIfUnreferenced i)"
  "keeps (stored K es db_ok) (assignMessageThreadId m i)"
  "keeps (stored K es db_ok) (updateThreadTimestamp i)"
  unfolding deleteThreadIfUnreferenced_def assignMessageThreadId_def updateThreadTimestamp_def
  by (intro keeps_intros; simp)+

lemma keeps_find_by_ids [keeps_intros]:
  "keeps (stored K es J) (findThreadByInternetMessageIds t mb ids)"
proof -
  have "keeps (stored K es J) (find_by_candidates t mb cs)" for cs
    by (induction cs) (auto intro!: keeps_intros)
  then show ?thesis by (simp add: findThreadByInternetMessageIds_def)
qed

lemma keeps_filter_candidates [keeps_intros]: "keeps (stored K es J) (filter_candidates p su rows)"
  by (induction rows) (auto simp: loadReplyFallbackRecipients_def Let_def intro!: keeps_intros)

lemma keeps_thread_of_candidate [keeps_intros]:
  "keeps (stored K es db_ok) (thread_of_candidate t su c)"
  unfolding thread_of_candidate_def Let_def
  by (cases "truthy (msg_thread_id (rc_message c))"; cases "rc_thread c"; simp?; intro keeps_intros)

lemma keeps_findThreadByReplyContext [keeps_intros]:
  "keeps (stored K es db_ok) (findThreadByReplyContext t mb ids su pa)"
  unfolding findThreadByReplyContext_def Let_def
  by (intro keeps_intros)

end
