(* ===== verification/DraftGuards.thy ===== *)
theory DraftGuards
  imports OutboundBilling MailThreads
begin

text \<open>
  \<open>src/lib/draft-send-guards.ts\<close>: everything that must hold before a draft may be sent. The mailbox
  and the agent are the tenant's and active, the agent is bound to the mailbox in a sending role
  (or deployed on it without any binding), the thread and the source message are of this mailbox,
  the stored payload is well formed, its sender is the mailbox, its attachments belong to it, and
  the outbound policy allows its recipients.
\<close>

section \<open>The stored payload\<close>

definition lift_result :: "js_error + 'a \<Rightarrow> 'a io" where
  "lift_result r = (case r of Inl e \<Rightarrow> throw e | Inr x \<Rightarrow> ret x)"

definition recipients_message :: string where
  "recipients_message =
     ''Draft recipients must include a non-empty to array and optional cc/bcc string arrays''"

text \<open>
  \<open>parseDraftRecipientList\<close>; the same code stands in \<open>enqueueDraftSend\<close> with another error, so the
  error is an argument. \<open>required\<close> is \<open>field === "to"\<close>.
\<close>

definition recipient_items :: "json list \<Rightarrow> string list" where
  "recipient_items vs = map (\<lambda>v. case v of JStr s \<Rightarrow> js_trim s | _ \<Rightarrow> '''') vs"

definition parseDraftRecipientList ::
  "js_error \<Rightarrow> bool \<Rightarrow> json option \<Rightarrow> js_error + string list" where
  "parseDraftRecipientList err required v =
     (if v = None \<or> v = Some JNull then (if required then Inl err else Inr [])
      else case v of
        Some (JArr vs) \<Rightarrow>
          let items = recipient_items vs
          in if [] \<in> set items then Inl err
             else if required \<and> items = [] then Inl err
             else Inr items
      | _ \<Rightarrow> Inl err)"

record draft_recipients =
  rcp_to :: "string list"
  rcp_cc :: "string list"
  rcp_bcc :: "string list"

definition parse_recipients :: "js_error \<Rightarrow> json_object \<Rightarrow> js_error + draft_recipients" where
  "parse_recipients err payload =
     (case parseDraftRecipientList err True (js_prop payload ''to'') of
        Inl e \<Rightarrow> Inl e
      | Inr to' \<Rightarrow> (case parseDraftRecipientList err False (js_prop payload ''cc'') of
          Inl e \<Rightarrow> Inl e
        | Inr cc \<Rightarrow> (case parseDraftRecipientList err False (js_prop payload ''bcc'') of
            Inl e \<Rightarrow> Inl e
          | Inr bcc \<Rightarrow> Inr \<lparr>rcp_to = to', rcp_cc = cc, rcp_bcc = bcc\<rparr>)))"

definition invalid :: "string \<Rightarrow> nat \<Rightarrow> js_error" where
  "invalid message status = DraftSendValidationError message status"

definition parseDraftRecipients :: "json_object \<Rightarrow> js_error + draft_recipients" where
  "parseDraftRecipients payload = parse_recipients (invalid recipients_message 400) payload"

record draft_attachment =
  da_filename :: string
  da_content_type :: string
  da_r2_key :: string

definition parse_attachment :: "json \<Rightarrow> draft_attachment option" where
  "parse_attachment v = (case v of
     JObj kvs \<Rightarrow> (case (js_prop kvs ''filename'', js_prop kvs ''contentType'', js_prop kvs ''r2Key'') of
         (Some (JStr f), Some (JStr c), Some (JStr k)) \<Rightarrow>
           Some \<lparr>da_filename = f, da_content_type = c, da_r2_key = k\<rparr>
       | _ \<Rightarrow> None)
   | _ \<Rightarrow> None)"

definition parse_attachments ::
  "js_error \<Rightarrow> js_error \<Rightarrow> json_object \<Rightarrow> js_error + draft_attachment list" where
  "parse_attachments not_array not_valid payload = (case js_prop payload ''attachments'' of
     None \<Rightarrow> Inr []
   | Some JNull \<Rightarrow> Inr []
   | Some (JArr vs) \<Rightarrow>
       if \<exists>v \<in> set vs. parse_attachment v = None then Inl not_valid
       else Inr (map (\<lambda>v. the (parse_attachment v)) vs)
   | Some _ \<Rightarrow> Inl not_array)"

definition parseDraftAttachments :: "json_object \<Rightarrow> js_error + draft_attachment list" where
  "parseDraftAttachments payload = parse_attachments
     (invalid ''Draft attachments must be an array when provided'' 400)
     (invalid ''Draft attachments must include filename, contentType, and r2Key'' 400) payload"

definition readDraftPayload :: "string \<Rightarrow> json_object io" where
  "readDraftPayload draftR2Key = await (r2_get draftR2Key) (\<lambda>object. case object of
     None \<Rightarrow> throw (invalid ''Draft payload not found'' 404)
   | Some ob \<Rightarrow> r2_json ob)"

definition readDraftRecipients :: "string \<Rightarrow> draft_recipients io" where
  "readDraftRecipients draftR2Key =
     await (readDraftPayload draftR2Key) (\<lambda>payload. lift_result (parseDraftRecipients payload))"

text \<open>\<open>typeof payload.from === "string" ? payload.from.trim().toLowerCase() : ""\<close>.\<close>

definition payload_from :: "json_object \<Rightarrow> string" where
  "payload_from payload = (case js_prop payload ''from'' of
     Some (JStr s) \<Rightarrow> js_lower (js_trim s) | _ \<Rightarrow> '''')"

definition check_attachment :: "string \<Rightarrow> string \<Rightarrow> draft_attachment \<Rightarrow> unit io" where
  "check_attachment tenantId mailboxId attachment =
     (let r2Key = js_trim (da_r2_key attachment) in
      if r2Key = [] then throw (invalid ''Attachment r2Key is required'' 400)
      else await (getAttachmentOwnerByR2Key r2Key) (\<lambda>owner. case owner of
          None \<Rightarrow> throw (invalid ''Attachment not found'' 404)
        | Some ow \<Rightarrow>
            if ao_tenant_id ow \<noteq> tenantId
            then throw (invalid ''Attachment does not belong to tenant'' 409)
            else if ao_mailbox_id ow \<noteq> mailboxId
            then throw (invalid ''Attachment does not belong to mailbox'' 409)
            else ret ()))"

definition validateStoredDraftPayload ::
  "string \<Rightarrow> string \<Rightarrow> string \<Rightarrow> string \<Rightarrow> draft_recipients io" where
  "validateStoredDraftPayload tenantId mailboxId mailboxAddress draftR2Key =
     await (readDraftPayload draftR2Key) (\<lambda>payload.
     let from' = payload_from payload; expectedFrom = js_lower (js_trim mailboxAddress) in
     if from' = [] \<or> from' \<noteq> expectedFrom
     then throw (invalid ''from must match the mailbox address'' 400)
     else await (lift_result (parseDraftAttachments payload)) (\<lambda>attachments.
          seq (for_each attachments (check_attachment tenantId mailboxId))
            (lift_result (parseDraftRecipients payload))))"

section \<open>The guards\<close>

definition send_capable_roles :: "mailbox_role list" where
  "send_capable_roles = [RolePrimary, RoleShared, RoleSendOnly]"

record guard_input =
  gi_tenant_id :: string
  gi_agent_id :: string
  gi_mailbox_id :: string
  gi_draft_r2_key :: string
  gi_thread_id :: "string option"
  gi_source_message_id :: "string option"

definition check_mailbox :: "guard_input \<Rightarrow> mailbox_row io" where
  "check_mailbox input = await (getMailboxById (gi_mailbox_id input)) (\<lambda>mailbox. case mailbox of
     None \<Rightarrow> throw (invalid ''Mailbox not found'' 404)
   | Some m \<Rightarrow>
       if mb_tenant_id m \<noteq> gi_tenant_id input
       then throw (invalid ''Mailbox does not belong to tenant'' 409)
       else if mb_status m \<noteq> ''active'' then throw (invalid ''Mailbox is not active'' 409)
       else ret m)"

definition check_agent :: "guard_input \<Rightarrow> unit io" where
  "check_agent input =
     await (getAgent (gi_agent_id input)) (\<lambda>agent. case agent of
       None \<Rightarrow> throw (invalid ''Agent not found'' 404)
     | Some a \<Rightarrow>
         if ag_tenant_id a \<noteq> gi_tenant_id input
         then throw (invalid ''Agent does not belong to tenant'' 409)
         else
           await (hasActiveMailboxBinding (gi_agent_id input) (gi_mailbox_id input)
                    send_capable_roles) (\<lambda>hasBinding.
           await (hasActiveMailboxBinding (gi_agent_id input) (gi_mailbox_id input) [])
             (\<lambda>hasAnyBinding.
           await (hasActiveMailboxDeployment (gi_agent_id input) (gi_mailbox_id input))
             (\<lambda>hasDeployment.
           if \<not> hasBinding \<and> (\<not> hasDeployment \<or> hasAnyBinding)
           then throw (invalid ''Agent is not allowed to send for mailbox'' 403)
           else ret ()))))"

definition check_thread :: "guard_input \<Rightarrow> unit io" where
  "check_thread input =
     (if \<not> truthy (gi_thread_id input) then ret ()
      else await (getThread (the (gi_thread_id input))) (\<lambda>thread. case thread of
          None \<Rightarrow> throw (invalid ''Thread not found'' 404)
        | Some t \<Rightarrow>
            if th_tenant_id (tv_thread t) \<noteq> gi_tenant_id input
            then throw (invalid ''Thread does not belong to tenant'' 409)
            else if th_mailbox_id (tv_thread t) \<noteq> gi_mailbox_id input
            then throw (invalid ''Thread does not belong to mailbox'' 409)
            else ret ()))"

definition check_source_message :: "guard_input \<Rightarrow> unit io" where
  "check_source_message input =
     (if \<not> truthy (gi_source_message_id input) then ret ()
      else await (getMessage (the (gi_source_message_id input))) (\<lambda>message. case message of
          None \<Rightarrow> throw (invalid ''Source message not found'' 404)
        | Some m \<Rightarrow>
            if msg_tenant_id m \<noteq> gi_tenant_id input
            then throw (invalid ''Source message does not belong to tenant'' 409)
            else if msg_mailbox_id m \<noteq> gi_mailbox_id input
            then throw (invalid ''Source message does not belong to mailbox'' 409)
            else if truthy (gi_thread_id input) \<and> msg_thread_id m \<noteq> gi_thread_id input
            then throw (invalid ''Source message does not belong to thread'' 409)
            else ret ()))"

definition decision_status :: "policy_code option \<Rightarrow> nat" where
  "decision_status code =
     (if code = Some InvalidRecipientRouting then 400
      else if code = Some DailyQuotaExceeded \<or> code = Some HourlyQuotaExceeded then 429
      else 403)"

definition ensureDraftSendAllowed :: "guard_input \<Rightarrow> unit io" where
  "ensureDraftSendAllowed input =
     await (check_mailbox input) (\<lambda>mailbox.
     seq (check_agent input)
     (seq (check_thread input)
     (seq (check_source_message input)
     (await (validateStoredDraftPayload (gi_tenant_id input) (gi_mailbox_id input)
               (mb_address mailbox) (gi_draft_r2_key input)) (\<lambda>recipients.
      await (evaluateOutboundPolicy (gi_tenant_id input) (gi_agent_id input)
               (rcp_to recipients) (rcp_cc recipients) (rcp_bcc recipients)
               (Some (gi_draft_r2_key input))) (\<lambda>decision.
      if \<not> pd_ok decision
      then throw (invalid (case pd_message decision of Some m \<Rightarrow> m
               | None \<Rightarrow> ''Outbound policy denied this send request'')
             (decision_status (pd_code decision)))
      else ret ()))))))"

definition reserveDraftSendCredits ::
  "string \<Rightarrow> string \<Rightarrow> string option \<Rightarrow> string option \<Rightarrow> unit io" where
  "reserveDraftSendCredits tenantId draftR2Key sourceMessageId createdVia =
     await (readDraftRecipients draftR2Key) (\<lambda>r.
     await (checkOutboundCreditRequirement tenantId (rcp_to r) (rcp_cc r) (rcp_bcc r)
              sourceMessageId createdVia) (\<lambda>check.
     let q = cc_requirement check; required = show_int (cr_credits_required q) in
     if \<not> cc_sufficient check
     then throw (invalid (''Insufficient credits for external sending. Required: '' @ required
            @ '', available: '' @ show_int (case cc_available check of None \<Rightarrow> 0 | Some n \<Rightarrow> n)) 402)
     else if \<not> cr_requires_credits q then ret ()
     else await (reserveTenantAvailableCredits tenantId (cr_credits_required q)) (\<lambda>reserved.
          if reserved = None
          then throw (invalid (''Insufficient credits for external sending. Required: '' @ required)
                 402)
          else ret ())))"

section \<open>The store invariant\<close>

lemma keeps_lift_result [keeps_intros]: "keeps I (lift_result r)"
  unfolding lift_result_def by (intro keeps_intros)

lemma keeps_payload_reads [keeps_intros]:
  "keeps (stored K es J) (readDraftPayload k)" "keeps (stored K es J) (readDraftRecipients k)"
  unfolding readDraftRecipients_def readDraftPayload_def by (intro keeps_intros)+

lemma keeps_validate [keeps_intros]: "keeps (stored K es J) (validateStoredDraftPayload t mb a k)"
  unfolding validateStoredDraftPayload_def check_attachment_def Let_def by (intro keeps_intros)

lemma keeps_guards [keeps_intros]:
  "keeps (stored K es J) (check_mailbox input)" "keeps (stored K es J) (check_agent input)"
  "keeps (stored K es J) (check_thread input)" "keeps (stored K es J) (check_source_message input)"
  unfolding check_mailbox_def check_agent_def check_thread_def check_source_message_def
  by (intro keeps_intros)+

lemma keeps_ensureDraftSendAllowed [keeps_intros]:
  "keeps (stored K es db_ok) (ensureDraftSendAllowed input)"
  unfolding ensureDraftSendAllowed_def by (intro keeps_intros)

lemma credits_required_nonneg: "0 \<le> cr_credits_required (credit_requirement_for src via r)"
  by (simp add: credit_requirement_for_def getOutboundCreditsRequired_def Let_def)

end
