(* ===== verification/JsonText.thy ===== *)
theory JsonText
  imports JsPrelude "HOL-Library.Multiset"
begin

text \<open>
  The text of a JSON document and the encodings the runtime applies to it: \<open>JSON.stringify\<close>,
  UTF-8 (\<open>TextEncoder\<close>), hexadecimal and Base64 (\<open>btoa\<close>, \<open>atob\<close>). A byte string is a
  \<^typ>\<open>string\<close>. JavaScript enumerates keys that look like array indices before all others; objects
  with such keys are outside the model.
\<close>

section \<open>\<open>JSON.stringify\<close>\<close>

definition hex_digit :: "nat \<Rightarrow> char" where
  "hex_digit n = char_of (if n < 10 then 48 + n else 87 + n)"

definition hex_byte :: "nat \<Rightarrow> string" where
  "hex_byte n = [hex_digit (n div 16), hex_digit (n mod 16)]"

definition json_char :: "char \<Rightarrow> string" where
  "json_char c = (let n = (of_char c :: nat) in
     if n = 34 then [CHR 0x5C, c] else if n = 92 then [c, c]
     else if n = 8 then [CHR 0x5C, CHR ''b''] else if n = 9 then [CHR 0x5C, CHR ''t'']
     else if n = 10 then [CHR 0x5C, CHR ''n''] else if n = 12 then [CHR 0x5C, CHR ''f'']
     else if n = 13 then [CHR 0x5C, CHR ''r'']
     else if n < 32 then [CHR 0x5C, CHR ''u'', CHR ''0'', CHR ''0''] @ hex_byte n
     else [c])"

definition json_string :: "string \<Rightarrow> string" where
  "json_string s = [CHR 0x22] @ concat (map json_char s) @ [CHR 0x22]"

fun json_text :: "json \<Rightarrow> string" where
  "json_text JNull = ''null''"
| "json_text (JBool b) = (if b then ''true'' else ''false'')"
| "json_text (JNum n) = show_int n"
| "json_text (JStr s) = json_string s"
| "json_text (JArr js) = ''['' @ js_join '','' (map json_text js) @ '']''"
| "json_text (JObj kvs) = ''{'' @ js_join '','' (map (\<lambda>(k, v). json_string k @ '':'' @ json_text v) kvs) @ ''}''"

text \<open>\<open>JSON.stringify\<close> leaves out the properties that are \<open>undefined\<close>.\<close>

definition defined_fields :: "(string \<times> json option) list \<Rightarrow> json_object" where
  "defined_fields fs = List.map_filter (\<lambda>(k, v). map_option (Pair k) v) fs"

text \<open>
  \<open>{ ...obj, ...fields }\<close>: a property of \<open>fields\<close> replaces the one of \<open>obj\<close> in its place, also
  when it is \<open>undefined\<close>; new properties come last.
\<close>

definition js_spread :: "json_object \<Rightarrow> (string \<times> json option) list \<Rightarrow> (string \<times> json option) list" where
  "js_spread obj fields =
     map (\<lambda>(k, v). (k, case map_of fields k of Some v' \<Rightarrow> v' | None \<Rightarrow> Some v)) obj
     @ filter (\<lambda>(k, v). map_of obj k = None) fields"

lemma map_of_defined_fields:
  "distinct (map fst fs) \<Longrightarrow> map_of (defined_fields fs) k = (case map_of fs k of None \<Rightarrow> None | Some v \<Rightarrow> v)"
proof (induction fs)
  case Nil
  then show ?case by (simp add: defined_fields_def map_filter_simps)
next
  case (Cons f fs)
  obtain k' v where f: "f = (k', v)" by force
  have "k' = k \<Longrightarrow> map_of fs k = None" using Cons.prems f by (auto simp: map_of_eq_None_iff)
  with Cons f show ?case by (cases v) (auto simp: defined_fields_def map_filter_simps)
qed

lemma distinct_js_spread:
  assumes "distinct (map fst obj)" "distinct (map fst fs)"
  shows "distinct (map fst (js_spread obj fs))"
proof -
  have "map fst (js_spread obj fs) = map fst obj @ map fst (filter (\<lambda>(k, v). map_of obj k = None) fs)"
    by (simp add: js_spread_def comp_def case_prod_beta)
  moreover have "set (map fst obj) \<inter> set (map fst (filter (\<lambda>(k, v). map_of obj k = None) fs)) = {}"
    by (force simp: map_of_eq_None_iff)
  ultimately show ?thesis using assms by (simp add: distinct_map_filter)
qed

lemma map_of_js_spread:
  "map_of (js_spread obj fs) k =
     (case map_of fs k of Some v \<Rightarrow> Some v | None \<Rightarrow> map_option Some (map_of obj k))"
proof -
  have old: "map_of (map (\<lambda>(k, v). (k, case map_of fs k of Some v' \<Rightarrow> v' | None \<Rightarrow> Some v)) obj) k =
      map_option (\<lambda>v. case map_of fs k of Some v' \<Rightarrow> v' | None \<Rightarrow> Some v) (map_of obj k)"
    by (induction obj) (auto split: option.split)
  have new: "map_of obj k = None \<Longrightarrow>
      map_of (filter (\<lambda>(k, v). map_of obj k = None) fs) k = map_of fs k"
    by (induction fs) auto
  show ?thesis
    using new by (cases "map_of obj k") (auto simp: js_spread_def map_add_def old split: option.splits)
qed

section \<open>Bytes\<close>

text \<open>UTF-8 of the code units below 256, and two hexadecimal digits per byte.\<close>

definition utf8_char :: "char \<Rightarrow> string" where
  "utf8_char c = (let n = (of_char c :: nat) in
     if n < 128 then [c] else [char_of (192 + n div 64), char_of (128 + n mod 64)])"

definition utf8 :: "string \<Rightarrow> string" where
  "utf8 s = concat (map utf8_char s)"

text \<open>\<open>TextDecoder\<close> on the UTF-8 of code units below 256; other bytes are outside the model.\<close>

fun utf8_decode :: "string \<Rightarrow> string option" where
  "utf8_decode [] = Some []"
| "utf8_decode (c # s) = (let n = (of_char c :: nat) in
     if n < 128 then map_option (Cons c) (utf8_decode s)
     else case s of [] \<Rightarrow> None
       | d # s' \<Rightarrow> (let k = (of_char d :: nat) in
           if (n = 194 \<or> n = 195) \<and> 128 \<le> k \<and> k < 192
           then map_option (Cons (char_of ((n - 192) * 64 + (k - 128)))) (utf8_decode s')
           else None))"

lemma utf8_decode_char:
  "utf8_decode (utf8_char c @ s) = map_option (Cons c) (utf8_decode s)"
proof -
  define n where "n = (of_char c :: nat)"
  have n: "n < 256" by (simp add: n_def of_char_of)
  show ?thesis
  proof (cases "n < 128")
    case True
    then show ?thesis by (simp add: utf8_char_def n_def Let_def)
  next
    case False
    have "2 \<le> n div 64" "n div 64 < 4" using False n by (simp_all add: less_eq_div_iff_mult_less_eq div_less_iff_less_mult)
    then have lead: "n div 64 = 2 \<or> n div 64 = 3" by linarith
    have split: "n div 64 * 64 + n mod 64 = n" by simp
    have back_char: "char_of n = c" by (simp add: n_def)
    show ?thesis using lead
    proof
      assume d: "n div 64 = 2"
      then have "128 + n mod 64 = n" using split by linarith
      moreover from this have "n < 192" using mod_less_divisor [of 64 n] by linarith
      ultimately show ?thesis using False d back_char
        by (simp add: utf8_char_def n_def [symmetric] Let_def of_char_of)
    next
      assume d: "n div 64 = 3"
      then have "192 + n mod 64 = n" using split by linarith
      then show ?thesis using False d back_char
        by (simp add: utf8_char_def n_def [symmetric] Let_def of_char_of)
    qed
  qed
qed

lemma utf8_decode_utf8 [simp]: "utf8_decode (utf8 s) = Some s"
  by (induction s) (simp_all add: utf8_def utf8_decode_char)

definition toHex :: "nat list \<Rightarrow> string" where
  "toHex bytes = concat (map hex_byte bytes)"

end
