(* ===== verification/Base64.thy ===== *)
theory Base64
  imports JsonText
begin

text \<open>
  \<open>btoa\<close> and \<open>atob\<close> (the forgiving decoder of the Web platform), and the URL-safe variant
  \<open>toBase64Url\<close> and \<open>fromBase64Url\<close> of \<open>src/lib/auth.ts\<close>. A byte is a number below 256, a sextet
  one below 64.
\<close>

section \<open>Sextets\<close>

fun to_sextets :: "nat list \<Rightarrow> nat list" where
  "to_sextets [] = []"
| "to_sextets [a] = [a div 4, a mod 4 * 16]"
| "to_sextets [a, b] = [a div 4, a mod 4 * 16 + b div 16, b mod 16 * 4]"
| "to_sextets (a # b # c # bs) =
     a div 4 # (a mod 4 * 16 + b div 16) # (b mod 16 * 4 + c div 64) # c mod 64 # to_sextets bs"

text \<open>The bits that are left over at the end are dropped; a single sextet is an error.\<close>

fun from_sextets :: "nat list \<Rightarrow> nat list option" where
  "from_sextets [] = Some []"
| "from_sextets [x] = None"
| "from_sextets [x, y] = Some [x * 4 + y div 16]"
| "from_sextets [x, y, z] = Some [x * 4 + y div 16, y mod 16 * 16 + z div 4]"
| "from_sextets (x # y # z # u # xs) = map_option
     (\<lambda>bs. (x * 4 + y div 16) # (y mod 16 * 16 + z div 4) # (z mod 4 * 64 + u) # bs) (from_sextets xs)"

lemma byte_bounds:
  fixes n :: nat
  assumes "n < 256"
  shows "n div 4 < 64" "n div 16 < 16" "n div 64 < 4"
  using assms by auto

lemma from_to_sextets: "\<forall>b \<in> set bs. b < 256 \<Longrightarrow> from_sextets (to_sextets bs) = Some bs"
proof (induction bs rule: to_sextets.induct)
  case (3 a b)
  with byte_bounds [of b] show ?case by (simp add: div_less mod_less)
next
  case (4 a b c bs)
  with byte_bounds [of b] byte_bounds [of c] show ?case by (simp add: div_less mod_less)
qed simp_all

lemma sextet_sums:
  "(q::nat) < 16 \<Longrightarrow> m mod 4 * 16 + q < 64" "q < 4 \<Longrightarrow> m mod 16 * 4 + q < 64"
  using mod_less_divisor [of 4 m] mod_less_divisor [of 16 m] by linarith+

lemma to_sextets_bound: "\<forall>b \<in> set bs. b < 256 \<Longrightarrow> x \<in> set (to_sextets bs) \<Longrightarrow> x < 64"
proof (induction bs rule: to_sextets.induct)
  case (2 a)
  with byte_bounds [of a] sextet_sums(1) [of 0 a] show ?case by auto
next
  case (3 a b)
  with byte_bounds [of a] byte_bounds [of b] sextet_sums(1) [of "b div 16" a] sextet_sums(2) [of 0 b]
  show ?case by auto
next
  case (4 a b c bs)
  with byte_bounds [of a] byte_bounds [of b] byte_bounds [of c]
    sextet_sums(1) [of "b div 16" a] sextet_sums(2) [of "c div 64" b]
  show ?case by auto
qed simp

lemma length_to_sextets: "length (to_sextets bs) = (4 * length bs + 2) div 3"
  by (induction bs rule: to_sextets.induct) simp_all

section \<open>The alphabet\<close>

definition sextet_char :: "nat \<Rightarrow> char" where
  "sextet_char n = char_of (if n < 26 then 65 + n else if n < 52 then 71 + n
     else if n < 62 then n - 4 else if n = 62 then 43 else 47)"

definition sextet_of :: "char \<Rightarrow> nat option" where
  "sextet_of c = (let n = (of_char c :: nat) in
     if 65 \<le> n \<and> n \<le> 90 then Some (n - 65) else if 97 \<le> n \<and> n \<le> 122 then Some (n - 71)
     else if 48 \<le> n \<and> n \<le> 57 then Some (n + 4) else if n = 43 then Some 62
     else if n = 47 then Some 63 else None)"

definition is_ascii_space :: "char \<Rightarrow> bool" where
  "is_ascii_space c \<longleftrightarrow> (of_char c :: nat) \<in> {9, 10, 12, 13, 32}"

lemma sextet_code:
  assumes "n < 64"
  shows "(of_char (sextet_char n) :: nat) = (if n < 26 then 65 + n else if n < 52 then 71 + n
     else if n < 62 then n - 4 else if n = 62 then 43 else 47)"
  using assms unfolding sextet_char_def of_char_of by (subst mod_less, simp, arith, simp)

lemma sextet_of_char [simp]: "n < 64 \<Longrightarrow> sextet_of (sextet_char n) = Some n"
  unfolding sextet_of_def Let_def by (simp only: sextet_code, simp, arith)

definition all_some :: "'a option list \<Rightarrow> 'a list option" where
  "all_some xs = (if None \<in> set xs then None else Some (map the xs))"

lemma all_some_map: "(\<And>x. x \<in> set xs \<Longrightarrow> f x = Some (g x)) \<Longrightarrow> all_some (map f xs) = Some (map g xs)"
  by (force simp: all_some_def)

lemma all_some_sextets:
  "\<forall>b \<in> set bs. b < 256 \<Longrightarrow>
     all_some (map sextet_of (map sextet_char (to_sextets bs))) = Some (to_sextets bs)"
  using all_some_map [of "to_sextets bs" "sextet_of \<circ> sextet_char" "\<lambda>x. x"] to_sextets_bound [of bs]
  by simp

section \<open>\<open>btoa\<close> and \<open>atob\<close>\<close>

definition codes :: "string \<Rightarrow> nat list" where
  "codes s = map of_char s"

definition of_codes :: "nat list \<Rightarrow> string" where
  "of_codes ns = map char_of ns"

lemma of_codes_codes [simp]: "of_codes (codes s) = s"
  by (simp add: codes_def of_codes_def comp_def)

lemma codes_bound: "b \<in> set (codes s) \<Longrightarrow> b < 256"
  by (auto simp: codes_def of_char_of)

lemma length_codes [simp]: "length (codes s) = length s"
  by (simp add: codes_def)

definition b64_body :: "string \<Rightarrow> string" where
  "b64_body s = map sextet_char (to_sextets (codes s))"

definition btoa :: "string \<Rightarrow> string" where
  "btoa s = (let body = b64_body s in body @ replicate ((4 - length body mod 4) mod 4) CHR ''='')"

text \<open>Padding is only removed from a text whose length is a multiple of four.\<close>

definition strip_padding :: "string \<Rightarrow> string" where
  "strip_padding s = (if length s mod 4 = 0 then
       if js_ends_with s ''=='' then take (length s - 2) s
       else if js_ends_with s ''='' then take (length s - 1) s else s
     else s)"

definition atob :: "string \<Rightarrow> string option" where
  "atob s = Option.bind (all_some (map sextet_of (strip_padding (filter (\<lambda>c. \<not> is_ascii_space c) s))))
     (\<lambda>xs. map_option of_codes (from_sextets xs))"

lemma sextet_char_plain:
  assumes "n < 64"
  shows "\<not> is_ascii_space (sextet_char n)" "sextet_char n \<noteq> CHR ''=''"
    "sextet_char n \<noteq> CHR ''-''" "sextet_char n \<noteq> CHR ''_''"
proof -
  have "sextet_of (sextet_char n) = Some n" using assms by simp
  moreover have "sextet_of CHR ''='' = None" "sextet_of CHR ''-'' = None" "sextet_of CHR ''_'' = None"
    by (simp_all add: sextet_of_def)
  ultimately show "sextet_char n \<noteq> CHR ''=''" "sextet_char n \<noteq> CHR ''-''" "sextet_char n \<noteq> CHR ''_''"
    by auto
  show "\<not> is_ascii_space (sextet_char n)"
    unfolding is_ascii_space_def sextet_code [OF assms] by (simp, arith)
qed

lemma b64_body_chars: "c \<in> set (b64_body s) \<Longrightarrow> \<exists>n < 64. c = sextet_char n"
  using to_sextets_bound [of "codes s"] codes_bound by (auto simp: b64_body_def)

lemma b64_body_length: "length (b64_body s) mod 4 \<noteq> 1"
proof -
  have "(4 * n + 2) div 3 mod 4 \<noteq> 1" for n :: nat by presburger
  then show ?thesis by (simp add: b64_body_def length_to_sextets)
qed

lemma b64_body_last: "b64_body s \<noteq> [] \<Longrightarrow> last (b64_body s) \<noteq> CHR ''=''"
  using b64_body_chars [of "last (b64_body s)" s] sextet_char_plain(2) by (metis last_in_set)

lemma strip_padding_btoa: "strip_padding (btoa s) = b64_body s"
proof -
  define b where "b = b64_body s"
  have no: "b \<noteq> [] \<Longrightarrow> last b \<noteq> CHR ''=''" and len: "length b mod 4 \<noteq> 1"
    using b64_body_last b64_body_length by (auto simp: b_def)
  have ends: "js_ends_with (b @ p) q \<longleftrightarrow> drop (length b + length p - length q) (b @ p) = q"
    if "length q \<le> length b + length p" for p q
    using that by (simp add: js_ends_with_def)
  consider "length b mod 4 = 0" | "length b mod 4 = 2" | "length b mod 4 = 3"
    using len mod_less_divisor [of 4 "length b"] by linarith
  then show ?thesis
  proof cases
    case 1
    have "\<not> js_ends_with b ''=''" using no
      by (cases b rule: rev_cases) (auto simp: js_ends_with_def)
    moreover have "\<not> js_ends_with b ''==''"
    proof
      assume e: "js_ends_with b ''==''"
      then have "2 \<le> length b" "drop (length b - 2) b = ''==''"
        by (simp_all add: js_ends_with_def numeral_2_eq_2)
      then have "last b = CHR ''=''" "b \<noteq> []"
        by (metis append_take_drop_id last_appendR last_ConsL last_ConsR list.distinct(1), auto)
      then show False using no by simp
    qed
    ultimately show ?thesis using 1 by (simp add: btoa_def b_def [symmetric] strip_padding_def)
  next
    case 2
    then have "btoa s = b @ ''==''" by (simp add: btoa_def b_def [symmetric] numeral_2_eq_2)
    moreover have "(length b + 2) mod 4 = 0" using 2 by presburger
    ultimately show ?thesis by (simp add: strip_padding_def js_ends_with_def b_def)
  next
    case 3
    then have "btoa s = b @ ''=''" by (simp add: btoa_def b_def [symmetric])
    moreover have "(length b + 1) mod 4 = 0" using 3 by presburger
    moreover have "\<not> js_ends_with (b @ ''='') ''==''"
    proof
      assume "js_ends_with (b @ ''='') ''==''"
      then have "drop (length b - 1) b @ ''='' = ''==''" "1 \<le> length b" by (auto simp: js_ends_with_def)
      then have "b \<noteq> []" "drop (length b - 1) b = ''=''" by auto
      then have "last b = CHR ''=''" by (metis One_nat_def last_drop last.simps diff_less length_greater_0_conv zero_less_Suc)
      with no \<open>b \<noteq> []\<close> show False by simp
    qed
    ultimately show ?thesis by (auto simp: strip_padding_def js_ends_with_def b_def)
  qed
qed

lemma btoa_no_space: "filter (\<lambda>c. \<not> is_ascii_space c) (btoa s) = btoa s"
proof -
  have "\<not> is_ascii_space c" if "c \<in> set (btoa s)" for c
    using that b64_body_chars [of c s] sextet_char_plain(1)
    by (auto simp: btoa_def Let_def is_ascii_space_def)
  then show ?thesis by (simp add: filter_id_conv)
qed

lemma decode_body:
  "Option.bind (all_some (map sextet_of (b64_body s))) (\<lambda>xs. map_option of_codes (from_sextets xs)) = Some s"
proof -
  have "all_some (map sextet_of (b64_body s)) = Some (to_sextets (codes s))"
    using all_some_sextets [of "codes s"] codes_bound by (auto simp: b64_body_def)
  then show ?thesis using from_to_sextets [of "codes s"] codes_bound by auto
qed

lemma atob_btoa: "atob (btoa s) = Some s"
  by (simp add: atob_def btoa_no_space strip_padding_btoa decode_body)

section \<open>The URL-safe variant\<close>

definition replace_char :: "char \<Rightarrow> char \<Rightarrow> string \<Rightarrow> string" where
  "replace_char a b s = map (\<lambda>c. if c = a then b else c) s"

definition strip_trailing :: "char \<Rightarrow> string \<Rightarrow> string" where
  "strip_trailing a s = rev (dropWhile (\<lambda>c. c = a) (rev s))"

definition toBase64Url :: "string \<Rightarrow> string" where
  "toBase64Url input =
     strip_trailing CHR ''='' (replace_char CHR ''/'' CHR ''_'' (replace_char CHR ''+'' CHR ''-'' (btoa input)))"

text \<open>\<open>padEnd(Math.ceil(n / 4) * 4, "=")\<close>.\<close>

definition fromBase64Url :: "string \<Rightarrow> string option" where
  "fromBase64Url input =
     atob (replace_char CHR ''_'' CHR ''/'' (replace_char CHR ''-'' CHR ''+'' input)
           @ replicate ((length input + 3) div 4 * 4 - length input) CHR ''='')"

lemma strip_trailing_replicate:
  "s = [] \<or> last s \<noteq> a \<Longrightarrow> strip_trailing a (s @ replicate n a) = s"
  by (cases s rule: rev_cases) (auto simp: strip_trailing_def dropWhile_append1 dropWhile_append)

lemma toBase64Url_body:
  "toBase64Url s = replace_char CHR ''/'' CHR ''_'' (replace_char CHR ''+'' CHR ''-'' (b64_body s))"
proof -
  let ?r = "\<lambda>t. replace_char CHR ''/'' CHR ''_'' (replace_char CHR ''+'' CHR ''-'' t)"
  have "b64_body s \<noteq> [] \<Longrightarrow> last (?r (b64_body s)) \<noteq> CHR ''=''"
    using b64_body_last by (auto simp: replace_char_def last_map)
  then have "?r (b64_body s) = [] \<or> last (?r (b64_body s)) \<noteq> CHR ''=''"
    by (auto simp: replace_char_def)
  then show ?thesis
    by (simp add: toBase64Url_def btoa_def Let_def strip_trailing_replicate replace_char_def)
qed

lemma pad_length: "((n :: nat) + 3) div 4 * 4 - n = (4 - n mod 4) mod 4"
proof -
  define q r where "q = n div 4" and "r = n mod 4"
  then have n: "n = 4 * q + r" and m: "n mod 4 = r" and "r < 4" by simp_all
  then consider "r = 0" | "r = 1" | "r = 2" | "r = 3" by linarith
  then show ?thesis unfolding m by cases (simp_all add: n)
qed

text \<open>The tokens of the runtime are decoded to what was encoded.\<close>

lemma base64url_inverse: "fromBase64Url (toBase64Url s) = Some s"
proof -
  have plain: "c \<noteq> CHR ''-'' \<and> c \<noteq> CHR ''_''" if "c \<in> set (b64_body s)" for c
    using b64_body_chars [OF that] sextet_char_plain(3,4) by metis
  have undo: "replace_char CHR ''_'' CHR ''/'' (replace_char CHR ''-'' CHR ''+'' (toBase64Url s)) = b64_body s"
    unfolding toBase64Url_body replace_char_def map_map
  proof (rule map_idI, goal_cases)
    case (1 c)
    from plain [OF this] show ?case unfolding comp_apply by (cases "c = CHR ''+''") auto
  qed
  have len: "length (toBase64Url s) = length (b64_body s)"
    by (simp add: toBase64Url_body replace_char_def)
  have "(length (b64_body s) + 3) div 4 * 4 - length (b64_body s) = (4 - length (b64_body s) mod 4) mod 4"
    by (rule pad_length)
  then have "fromBase64Url (toBase64Url s) = atob (btoa s)"
    by (simp add: fromBase64Url_def undo len btoa_def Let_def)
  then show ?thesis by (simp add: atob_btoa)
qed

end
