(* ===== verification/MimeText.thy ===== *)
theory MimeText
  imports Base64
begin

text \<open>
  The text functions of \<open>src/lib/email-parser.ts\<close>. Each regular expression of the source is a
  function that tries one match at the start of a text; \<open>first_match\<close> is a search for the leftmost
  match and \<open>replace_all\<close> the replacement of all of them. Where a comment says that a choice is
  forced, the characters after it exclude every other way to match.
\<close>

section \<open>Searching and replacing\<close>

fun first_match :: "(string \<Rightarrow> 'a option) \<Rightarrow> string \<Rightarrow> 'a option" where
  "first_match m [] = m []"
| "first_match m (c # s) = (case m (c # s) of Some x \<Rightarrow> Some x | None \<Rightarrow> first_match m s)"

text \<open>\<open>s.search(re)\<close>: the index of the first match.\<close>

fun search_index :: "(string \<Rightarrow> bool) \<Rightarrow> string \<Rightarrow> nat option" where
  "search_index m [] = (if m [] then Some 0 else None)"
| "search_index m (c # s) = (if m (c # s) then Some 0 else map_option Suc (search_index m s))"

text \<open>\<open>s.replace(re, f)\<close> with the flag \<open>g\<close>: a match gives its replacement and what follows it.\<close>

function replace_all :: "(string \<Rightarrow> (string \<times> string) option) \<Rightarrow> string \<Rightarrow> string" where
  "replace_all m [] = []"
| "replace_all m (c # s) = (case m (c # s) of
     None \<Rightarrow> c # replace_all m s
   | Some (out, rest) \<Rightarrow> out @ replace_all m (if length rest \<le> length s then rest else s))"
  by pat_completeness auto

termination
  by (relation "measure (length \<circ> snd)") auto

text \<open>\<open>s.split(re)\<close>, for a separator that is matched by at least one character.\<close>

function split_at :: "(string \<Rightarrow> string option) \<Rightarrow> string \<Rightarrow> string list" where
  "split_at m [] = [[]]"
| "split_at m (c # s) = (case m (c # s) of
     Some rest \<Rightarrow> [] # split_at m (if length rest \<le> length s then rest else s)
   | None \<Rightarrow> (case split_at m s of [] \<Rightarrow> [[c]] | p # ps \<Rightarrow> (c # p) # ps))"
  by pat_completeness auto

termination
  by (relation "measure (length \<circ> snd)") auto

section \<open>Matches\<close>

text \<open>\<open>\r?\n\<close>.\<close>

fun line_end :: "string \<Rightarrow> string option" where
  "line_end [] = None"
| "line_end (c # s) = (if c = CHR 0x0A then Some s
     else if c = CHR 0x0D then (case s of [] \<Rightarrow> None | d # s' \<Rightarrow> if d = CHR 0x0A then Some s' else None)
     else None)"

text \<open>\<open>\r?\n[ \t]+\<close>, replaced by a blank.\<close>

definition folding :: "string \<Rightarrow> (string \<times> string) option" where
  "folding s = (case line_end s of None \<Rightarrow> None
     | Some rest \<Rightarrow> let blank = (\<lambda>c. c = CHR '' '' \<or> c = CHR 0x09) in
         if takeWhile blank rest = [] then None else Some ('' '', dropWhile blank rest))"

text \<open>\<open>\r?\n\r?\n\<close>.\<close>

definition blank_line :: "string \<Rightarrow> bool" where
  "blank_line s \<longleftrightarrow> (case line_end s of None \<Rightarrow> False | Some rest \<Rightarrow> line_end rest \<noteq> None)"

text \<open>\<open>\s+\<close>, replaced by a blank or by nothing.\<close>

definition spaces :: "string \<Rightarrow> string \<Rightarrow> (string \<times> string) option" where
  "spaces out s = (if takeWhile is_js_space s = [] then None else Some (out, dropWhile is_js_space s))"

text \<open>\<open><[^>]+>\<close>, replaced by a blank: the run before the next \<open>>\<close> is forced.\<close>

definition html_tag :: "string \<Rightarrow> (string \<times> string) option" where
  "html_tag s = (case s of c # s' \<Rightarrow>
       let body = takeWhile (\<lambda>d. d \<noteq> CHR ''>'') s'; rest = dropWhile (\<lambda>d. d \<noteq> CHR ''>'') s' in
       if c = CHR ''<'' \<and> body \<noteq> [] \<and> rest \<noteq> [] then Some ('' '', tl rest) else None
   | [] \<Rightarrow> None)"

section \<open>Quoted-printable\<close>

definition hex_value :: "char \<Rightarrow> nat option" where
  "hex_value c = (let n = (of_char c :: nat) in
     if 48 \<le> n \<and> n \<le> 57 then Some (n - 48) else if 65 \<le> n \<and> n \<le> 70 then Some (n - 55)
     else if 97 \<le> n \<and> n \<le> 102 then Some (n - 87) else None)"

definition hex_pair :: "string \<Rightarrow> nat option" where
  "hex_pair s = (case s of [a, b] \<Rightarrow> (case (hex_value a, hex_value b) of
     (Some x, Some y) \<Rightarrow> Some (x * 16 + y) | _ \<Rightarrow> None) | _ \<Rightarrow> None)"

fun decodeQuotedPrintableBytes :: "string \<Rightarrow> string" where
  "decodeQuotedPrintableBytes [] = []"
| "decodeQuotedPrintableBytes (c # s) =
     (if c = CHR ''='' \<and> take 2 s = [CHR 0x0D, CHR 0x0A] then decodeQuotedPrintableBytes (drop 2 s)
      else if c = CHR ''='' \<and> take 1 s = [CHR 0x0A] then decodeQuotedPrintableBytes (drop 1 s)
      else case (if c = CHR ''='' then hex_pair (take 2 s) else None) of
        Some n \<Rightarrow> char_of n # decodeQuotedPrintableBytes (drop 2 s)
      | None \<Rightarrow> c # decodeQuotedPrintableBytes s)"

section \<open>Charsets and encoded words\<close>

text \<open>
  \<open>TextDecoder\<close> of the platform: the decoder of a label, \<^const>\<open>None\<close> when the label is not
  supported, and the decoder for UTF-8. A decoder never fails: malformed bytes are replaced.
\<close>

record decoders =
  decoder_of :: "string \<Rightarrow> (string \<Rightarrow> string) option"
  decode_utf8 :: "string \<Rightarrow> string"

text \<open>\<open>=\?([^?]+)\?([BbQq])\?([^?]*)\?=\<close>: every run is forced by the question mark after it.\<close>

definition upto_mark :: "string \<Rightarrow> (string \<times> string) option" where
  "upto_mark s = (case dropWhile (\<lambda>c. c \<noteq> CHR ''?'') s of
     [] \<Rightarrow> None | q # rest \<Rightarrow> Some (takeWhile (\<lambda>c. c \<noteq> CHR ''?'') s, rest))"

definition encoded_word :: "string \<Rightarrow> (string \<times> char \<times> string \<times> string) option" where
  "encoded_word s = (if \<not> js_starts_with s ''=?'' then None
     else case upto_mark (drop 2 s) of None \<Rightarrow> None
     | Some (charset, s1) \<Rightarrow> if charset = [] then None else (case upto_mark s1 of None \<Rightarrow> None
       | Some (encoding, s2) \<Rightarrow> (case encoding of
           [c] \<Rightarrow> if lower_char c \<notin> {CHR ''b'', CHR ''q''} then None else (case upto_mark s2 of None \<Rightarrow> None
             | Some (text, s3) \<Rightarrow> if js_starts_with s3 ''='' then Some (charset, c, text, drop 1 s3) else None)
         | _ \<Rightarrow> None)))"

definition word_text :: "string \<times> char \<times> string \<times> string \<Rightarrow> string" where
  "word_text m = (case m of (charset, c, text, rest) \<Rightarrow> ''=?'' @ charset @ ''?'' @ [c] @ ''?'' @ text @ ''?='')"

text \<open>White space between two encoded words is dropped.\<close>

definition adjacent_words :: "string \<Rightarrow> (string \<times> string) option" where
  "adjacent_words s = (case encoded_word s of None \<Rightarrow> None
     | Some m \<Rightarrow> let rest = snd (snd (snd m)) in
         if takeWhile is_js_space rest \<noteq> [] \<and> encoded_word (dropWhile is_js_space rest) \<noteq> None
         then Some (word_text m, dropWhile is_js_space rest) else None)"

text \<open>A word whose charset or content cannot be decoded is left as it is.\<close>

definition decode_word :: "decoders \<Rightarrow> string \<Rightarrow> (string \<times> string) option" where
  "decode_word ds s = (case encoded_word s of None \<Rightarrow> None
     | Some (charset, c, text, rest) \<Rightarrow>
         let label = js_lower (js_trim charset);
             decoder = decoder_of ds (if label = ''utf8'' then ''utf-8'' else label);
             bytes = (if lower_char c = CHR ''b'' then atob (filter (\<lambda>d. \<not> is_js_space d) text)
                else Some (decodeQuotedPrintableBytes (map (\<lambda>d. if d = CHR ''_'' then CHR '' '' else d) text)))
         in Some (case (decoder, bytes) of (Some f, Some b) \<Rightarrow> f b
                  | _ \<Rightarrow> word_text (charset, c, text, rest), rest))"

definition decodeHeaderEncodedWord :: "decoders \<Rightarrow> string \<Rightarrow> string" where
  "decodeHeaderEncodedWord ds input = replace_all (decode_word ds) (replace_all adjacent_words input)"

section \<open>Parameters of a header\<close>

text \<open>\<open>key="?([^";]+)"?\<close> with the flag \<open>i\<close>: a quote is taken when it is there.\<close>

definition param_at :: "string \<Rightarrow> string \<Rightarrow> string option" where
  "param_at key s =
     (if js_lower (take (length key + 1) s) \<noteq> key @ ''='' then None
      else let s1 = drop (length key + 1) s;
               s2 = (if js_starts_with s1 [CHR 0x22] then drop 1 s1 else s1);
               v = takeWhile (\<lambda>c. c \<noteq> CHR 0x22 \<and> c \<noteq> CHR '';'') s2
           in if v = [] then None else Some v)"

definition extractBoundary :: "string \<Rightarrow> string option" where
  "extractBoundary contentType = first_match (param_at ''boundary'') contentType"

definition extractFilename :: "string option \<Rightarrow> string option \<Rightarrow> string option" where
  "extractFilename contentDisposition contentType =
     (case Option.bind contentDisposition (first_match (param_at ''filename'')) of
        Some v \<Rightarrow> Some v
      | None \<Rightarrow> Option.bind contentType (first_match (param_at ''name'')))"

text \<open>\<open>charset\s*=\s*("?)([^";\s]+)\1\<close>: an opening quote needs its closing one.\<close>

definition charset_at :: "string \<Rightarrow> string option" where
  "charset_at s =
     (if js_lower (take 7 s) \<noteq> ''charset'' then None
      else case dropWhile is_js_space (drop 7 s) of [] \<Rightarrow> None
      | e # s1 \<Rightarrow> if e \<noteq> CHR ''='' then None
          else let s2 = dropWhile is_js_space s1; quoted = js_starts_with s2 [CHR 0x22];
                   s3 = (if quoted then drop 1 s2 else s2);
                   tok = (\<lambda>c. c \<noteq> CHR 0x22 \<and> c \<noteq> CHR '';'' \<and> \<not> is_js_space c);
                   v = takeWhile tok s3
               in if v = [] \<or> (quoted \<and> \<not> js_starts_with (dropWhile tok s3) [CHR 0x22]) then None
                  else Some v)"

definition extractCharset :: "string \<Rightarrow> string option" where
  "extractCharset contentType = first_match charset_at contentType"

definition normalizeCharsetLabel :: "string option \<Rightarrow> string option" where
  "normalizeCharsetLabel charset = (case charset of None \<Rightarrow> None
     | Some c \<Rightarrow> let n = js_lower (js_trim c) in
         if n = [] then None
         else if n \<in> {''utf8'', ''us-ascii'', ''unknown-8bit''} then Some ''utf-8'' else Some n)"

section \<open>Addresses\<close>

text \<open>\<open><([^<>@\s]+@[^<>@\s]+)>\<close>.\<close>

definition angle_address :: "string \<Rightarrow> string option" where
  "angle_address s =
     (let tok = (\<lambda>c. c \<notin> {CHR ''<'', CHR ''>'', CHR ''@''} \<and> \<not> is_js_space c) in
      if \<not> js_starts_with s ''<'' then None
      else let a = takeWhile tok (drop 1 s); s1 = dropWhile tok (drop 1 s);
               b = takeWhile tok (drop 1 s1); s2 = dropWhile tok (drop 1 s1)
           in if a \<noteq> [] \<and> js_starts_with s1 ''@'' \<and> b \<noteq> [] \<and> js_starts_with s2 ''>''
              then Some (a @ ''@'' @ b) else None)"

definition is_word_char :: "char \<Rightarrow> bool" where
  "is_word_char c \<longleftrightarrow> (let n = (of_char c :: nat) in
     (48 \<le> n \<and> n \<le> 57) \<or> (65 \<le> n \<and> n \<le> 90) \<or> (97 \<le> n \<and> n \<le> 122) \<or> n = 95)"

text \<open>\<open>\b\<close> between the character before, if any, and the rest of the text.\<close>

definition word_boundary :: "char option \<Rightarrow> string \<Rightarrow> bool" where
  "word_boundary before s \<longleftrightarrow>
     (case before of None \<Rightarrow> False | Some c \<Rightarrow> is_word_char c)
     \<noteq> (case s of [] \<Rightarrow> False | c # _ \<Rightarrow> is_word_char c)"

text \<open>The longest non-empty prefix of the run \<open>run @ rest\<close>, cut inside the run, that ends at a boundary.\<close>

fun backtrack :: "string \<Rightarrow> string \<Rightarrow> string option" where
  "backtrack [] rest = None"
| "backtrack (c # r) rest = (case backtrack r rest of
     Some p \<Rightarrow> Some (c # p)
   | None \<Rightarrow> if word_boundary (Some c) (r @ rest) then Some [c] else None)"

text \<open>\<open>\b([^\s<>"(),;:@]+@[^\s<>"(),;:]+)\b\<close>.\<close>

definition bare_address :: "char option \<Rightarrow> string \<Rightarrow> string option" where
  "bare_address before s =
     (let tok = (\<lambda>c. c \<notin> {CHR ''<'', CHR ''>'', CHR 0x22, CHR ''('', CHR '')'', CHR '','', CHR '';'', CHR '':''}
                   \<and> \<not> is_js_space c);
          loc = (\<lambda>c. tok c \<and> c \<noteq> CHR ''@'');
          a = takeWhile loc s; s1 = dropWhile loc s;
          b = takeWhile tok (drop 1 s1); s2 = dropWhile tok (drop 1 s1)
      in if \<not> word_boundary before s \<or> a = [] \<or> \<not> js_starts_with s1 ''@'' then None
         else map_option (\<lambda>p. a @ ''@'' @ p) (backtrack b s2))"

fun first_bare_address :: "char option \<Rightarrow> string \<Rightarrow> string option" where
  "first_bare_address before [] = None"
| "first_bare_address before (c # s) = (case bare_address before (c # s) of
     Some a \<Rightarrow> Some a | None \<Rightarrow> first_bare_address (Some c) s)"

definition extractPrimaryAddress :: "string option \<Rightarrow> string option" where
  "extractPrimaryAddress headerValue = (if \<not> truthy headerValue then None
     else case first_match angle_address (the headerValue) of
       Some a \<Rightarrow> Some (js_lower (js_trim a))
     | None \<Rightarrow> map_option (\<lambda>a. js_lower (js_trim a)) (first_bare_address None (the headerValue)))"

definition createSnippet :: "string option \<Rightarrow> string option \<Rightarrow> string option" where
  "createSnippet text html =
     (let source = (case text of Some t \<Rightarrow> Some t | None \<Rightarrow> map_option (replace_all html_tag) html)
      in case source of None \<Rightarrow> None
         | Some t \<Rightarrow> let snippet = js_trim (replace_all (spaces '' '') t) in
             if snippet = [] then None else Some (take 160 snippet))"

section \<open>The text functions on examples\<close>

lemma mime_text_examples:
  "decodeQuotedPrintableBytes ''a=3Db=G='' = ''a=b=G=''"
  "extractBoundary ''multipart/mixed; Boundary=abc; x=y'' = Some ''abc''"
  "extractCharset ''text/plain; charset = utf-8'' = Some ''utf-8''"
  "extractPrimaryAddress (Some ''Ann <Ann@Ext.org>'') = Some ''ann@ext.org''"
  "extractPrimaryAddress (Some ''to: bob@ext.org.'') = Some ''bob@ext.org''"
  "createSnippet None (Some ''<p>Hi   all</p>'') = Some ''Hi all''"
  by code_simp+

end
