(* ===== verification/MimeParser.thy ===== *)
theory MimeParser
  imports MimeText EmailParser Effects
begin

text \<open>
  \<open>parseRawEmail\<close> of \<open>src/lib/email-parser.ts\<close>: the headers of a mail, the tree of its MIME parts,
  the text, HTML and attachments found in it, and what threads and replies are matched by. The
  recursion over nested multiparts is bounded by a stack depth; the theory shows that a third of
  the length of the mail is deep enough for every mail.
\<close>

section \<open>Headers\<close>

type_synonym mail_headers = "(string \<times> string) list"

text \<open>\<open>headers[key] = value\<close>; an assignment of a string to \<open>__proto__\<close> has no effect.\<close>

definition put_header :: "string \<Rightarrow> string \<Rightarrow> mail_headers \<Rightarrow> mail_headers" where
  "put_header key value hs = (if key = ''__proto__'' then hs
     else if key \<in> fst ` set hs then map (\<lambda>(k, v). (k, if k = key then value else v)) hs
     else hs @ [(key, value)])"

definition header_line :: "mail_headers \<Rightarrow> string \<Rightarrow> mail_headers" where
  "header_line hs line = (case search_index (\<lambda>s. js_starts_with s '':'') line of None \<Rightarrow> hs
     | Some i \<Rightarrow> put_header (js_lower (js_trim (take i line))) (js_trim (drop (i + 1) line)) hs)"

definition parseHeadersBlock :: "string \<Rightarrow> mail_headers" where
  "parseHeadersBlock rawHeaders = foldl header_line [] (split_at line_end (replace_all folding rawHeaders))"

text \<open>
  The header ends at the first blank line. The body starts after the first \<open>\n\n\<close> of the whole mail
  when there is one, and else four characters after the blank line.
\<close>

definition splitHeaderAndBody :: "string \<Rightarrow> mail_headers \<times> string" where
  "splitHeaderAndBody raw = (case search_index blank_line raw of
     None \<Rightarrow> (parseHeadersBlock raw, [])
   | Some marker \<Rightarrow> (parseHeadersBlock (take marker raw),
       drop (case search_index (\<lambda>s. js_starts_with s [CHR 0x0A, CHR 0x0A]) raw of
               Some k \<Rightarrow> k + 2 | None \<Rightarrow> marker + 4) raw))"

section \<open>Parts\<close>

definition drop_line_end :: "string \<Rightarrow> string" where
  "drop_line_end s = (case line_end s of Some rest \<Rightarrow> rest | None \<Rightarrow> s)"

definition drop_final_line_end :: "string \<Rightarrow> string" where
  "drop_final_line_end s = (if js_ends_with s [CHR 0x0D, CHR 0x0A] then take (length s - 2) s
     else if js_ends_with s [CHR 0x0A] then take (length s - 1) s else s)"

definition delimited :: "string \<Rightarrow> string \<Rightarrow> string option" where
  "delimited delimiter s = (if js_starts_with s delimiter then Some (drop (length delimiter) s) else None)"

definition parseMultipart :: "string \<Rightarrow> string \<Rightarrow> (mail_headers \<times> string) list" where
  "parseMultipart body boundary =
     map (\<lambda>part. splitHeaderAndBody (drop_final_line_end part))
       (filter (\<lambda>part. part \<noteq> [] \<and> \<not> js_starts_with part ''--'')
         (map drop_line_end (tl (split_at (delimited (''--'' @ boundary)) body))))"

text \<open>\<open>atob\<close> throws on a body that is not Base64.\<close>

definition decodeBody :: "string \<Rightarrow> string option \<Rightarrow> js_error + string" where
  "decodeBody content encoding =
     (let normalized = map_option js_lower encoding in
      if normalized = Some ''base64''
      then (case atob (filter (\<lambda>c. \<not> is_js_space c) content) of
              None \<Rightarrow> Inl (PlainError ''InvalidCharacterError'') | Some b \<Rightarrow> Inr b)
      else if normalized = Some ''quoted-printable'' then Inr (decodeQuotedPrintableBytes content)
      else Inr (utf8 content))"

definition decodeText :: "decoders \<Rightarrow> string \<Rightarrow> string \<Rightarrow> string" where
  "decodeText ds bytes contentType =
     (case Option.bind (normalizeCharsetLabel (extractCharset contentType)) (decoder_of ds) of
        Some f \<Rightarrow> f bytes | None \<Rightarrow> decode_utf8 ds bytes)"

record mail_content =
  mc_text :: "string option"
  mc_html :: "string option"
  mc_attachments :: "parsed_attachment list"

text \<open>A part that is not a multipart: an attachment, the HTML or the text of the mail.\<close>

definition collect_leaf ::
  "decoders \<Rightarrow> mail_headers \<Rightarrow> string \<Rightarrow> string \<Rightarrow> mail_content \<Rightarrow> js_error + mail_content" where
  "collect_leaf ds headers contentType body output =
     (let transferEncoding = map_of headers ''content-transfer-encoding'';
          contentDisposition = map_of headers ''content-disposition''
      in case decodeBody body transferEncoding of Inl e \<Rightarrow> Inl e
      | Inr decoded \<Rightarrow>
          let decodedText = decodeText ds decoded contentType;
              filename = extractFilename contentDisposition (Some contentType);
              isAttachment = js_includes (js_lower (opt_or contentDisposition '''')) ''attachment'' \<or> truthy filename
          in Inr (if isAttachment
                  then output\<lparr>mc_attachments := mc_attachments output @
                         [\<lparr>pa_filename = filename, pa_content_type = Some contentType, pa_content = decoded,
                           pa_transfer_encoding = transferEncoding\<rparr>]\<rparr>
                  else if js_includes (js_lower contentType) ''text/html''
                  then output\<lparr>mc_html := Some decodedText\<rparr> else output\<lparr>mc_text := Some decodedText\<rparr>))"

text \<open>
  \<open>for (const part of parts) collectContent(...)\<close>; \<^const>\<open>None\<close> when the stack is exhausted, which
  \<open>Inl\<close> is for an exception.
\<close>

primrec collect_parts ::
  "(mail_headers \<Rightarrow> string \<Rightarrow> mail_content \<Rightarrow> (js_error + mail_content) option)
     \<Rightarrow> (mail_headers \<times> string) list \<Rightarrow> mail_content \<Rightarrow> (js_error + mail_content) option" where
  "collect_parts collect [] output = Some (Inr output)"
| "collect_parts collect (p # ps) output = (case collect (fst p) (snd p) output of
     None \<Rightarrow> None | Some (Inl e) \<Rightarrow> Some (Inl e) | Some (Inr output') \<Rightarrow> collect_parts collect ps output')"

primrec collectContent ::
  "decoders \<Rightarrow> nat \<Rightarrow> mail_headers \<Rightarrow> string \<Rightarrow> mail_content \<Rightarrow> (js_error + mail_content) option" where
  "collectContent ds 0 headers body output = None"
| "collectContent ds (Suc depth) headers body output =
     (let contentType = opt_or (map_of headers ''content-type'') ''text/plain'' in
      if js_starts_with (js_lower contentType) ''multipart/''
      then (case extractBoundary contentType of None \<Rightarrow> Some (Inr output)
        | Some boundary \<Rightarrow> collect_parts (collectContent ds depth) (parseMultipart body boundary) output)
      else Some (collect_leaf ds headers contentType body output))"

section \<open>A mail\<close>

definition stack_depth :: "string \<Rightarrow> nat" where
  "stack_depth body = length body div 3 + 1"

definition whitespace_run :: "string \<Rightarrow> string option" where
  "whitespace_run s = map_option snd (spaces [] s)"

definition thread_key :: "string option \<Rightarrow> string list \<Rightarrow> string option \<Rightarrow> string option \<Rightarrow> string \<Rightarrow> string" where
  "thread_key inReplyTo references subject messageId fresh = (case inReplyTo of Some i \<Rightarrow> i
     | None \<Rightarrow> if references \<noteq> [] then last references
         else if normalizeSubject subject \<noteq> [] then normalizeSubject subject
         else if truthy messageId then the messageId else fresh)"

definition parseRawEmail :: "decoders \<Rightarrow> string \<Rightarrow> string \<Rightarrow> js_error + parsed_email" where
  "parseRawEmail ds fresh raw =
     (let hb = splitHeaderAndBody raw;
          headers = (if truthy (map_of (fst hb) ''subject'')
            then put_header ''subject'' (decodeHeaderEncodedWord ds (the (map_of (fst hb) ''subject''))) (fst hb)
            else fst hb)
      in case collectContent ds (stack_depth (snd hb)) headers (snd hb)
                \<lparr>mc_text = None, mc_html = None, mc_attachments = []\<rparr> of
           None \<Rightarrow> Inl (PlainError ''Maximum call stack size exceeded'')
         | Some (Inl e) \<Rightarrow> Inl e
         | Some (Inr output) \<Rightarrow>
             let references = filter (\<lambda>v. v \<noteq> []) (map js_trim (split_at whitespace_run
                   (opt_or (map_of headers ''references'') '''')));
                 subject = map_of headers ''subject'';
                 messageId = map_of headers ''message-id'';
                 inReplyTo = map_of headers ''in-reply-to''
             in Inr \<lparr>pe_headers = map (\<lambda>(k, v). (k, JStr v)) headers, pe_subject = subject,
                  pe_message_id = messageId, pe_in_reply_to = inReplyTo,
                  pe_from = extractPrimaryAddress (map_of headers ''from''),
                  pe_reply_to = extractPrimaryAddress (map_of headers ''reply-to''),
                  pe_references = references, pe_text = mc_text output, pe_html = mc_html output,
                  pe_attachments = mc_attachments output,
                  pe_snippet = createSnippet (mc_text output) (mc_html output),
                  pe_thread_key = thread_key inReplyTo references subject messageId fresh\<rparr>)"

section \<open>The recursion ends\<close>

lemma split_at_lengths:
  assumes "\<And>s rest. m s = Some rest \<Longrightarrow> length rest + Suc n \<le> length s"
  shows "(\<forall>p \<in> set (split_at m s). length p \<le> length s)
    \<and> (\<forall>p \<in> set (tl (split_at m s)). length p + Suc n \<le> length s)"
  using assms
proof (induction m s rule: split_at.induct)
  case (1 m)
  then show ?case by simp
next
  case (2 m c s)
  show ?case
  proof (cases "m (c # s)")
    case None
    note IH = 2(1) [OF None 2(3)]
    show ?thesis
    proof (cases "split_at m s")
      case Nil
      with None show ?thesis by simp
    next
      case (Cons p ps)
      with None IH show ?thesis by fastforce
    qed
  next
    case (Some rest)
    have len: "length rest + n \<le> length s" using 2(3) [OF Some] by simp
    have ih: "\<forall>p \<in> set (split_at m rest). length p \<le> length rest"
      using 2(2) [OF Some 2(3)] len by simp
    have "length p + Suc n \<le> length (c # s)" if "p \<in> set (split_at m rest)" for p
      using ih that len by fastforce
    then show ?thesis using Some len by fastforce
  qed
qed

lemma drop_line_end_length: "length (drop_line_end s) \<le> length s"
  unfolding drop_line_end_def by (induction s rule: line_end.induct) (auto split: list.split)

lemma drop_final_line_end_length: "length (drop_final_line_end s) \<le> length s"
  by (simp add: drop_final_line_end_def)

lemma body_length: "length (snd (splitHeaderAndBody raw)) \<le> length raw"
  by (simp add: splitHeaderAndBody_def split: option.split)

text \<open>The body of a part is shorter than the multipart by the delimiter.\<close>

lemma part_length:
  assumes "p \<in> set (parseMultipart body boundary)"
  shows "length (snd p) + length boundary + 2 \<le> length body"
proof -
  obtain q where q: "q \<in> set (tl (split_at (delimited (''--'' @ boundary)) body))"
    and p: "p = splitHeaderAndBody (drop_final_line_end (drop_line_end q))"
    using assms by (auto simp: parseMultipart_def)
  have "length rest + Suc (length boundary + 1) \<le> length s" if "delimited (''--'' @ boundary) s = Some rest" for s rest
  proof -
    from that have t: "take (length (''--'' @ boundary)) s = ''--'' @ boundary" "rest = drop (length (''--'' @ boundary)) s"
      by (simp_all add: delimited_def js_starts_with_def split: if_splits)
    from arg_cong [OF t(1), of length] t(2) show ?thesis by simp
  qed
  from split_at_lengths [OF this] q have "length q + Suc (length boundary + 1) \<le> length body" by blast
  moreover have "length (snd p) \<le> length q"
    unfolding p using body_length drop_final_line_end_length drop_line_end_length by (meson order_trans)
  ultimately show ?thesis by simp
qed

lemma boundary_not_empty: "extractBoundary contentType = Some b \<Longrightarrow> b \<noteq> []"
  unfolding extractBoundary_def
  by (induction "param_at ''boundary''" contentType rule: first_match.induct)
     (auto simp: param_at_def Let_def split: if_splits option.splits)

lemma collect_parts_total:
  "(\<And>p out. p \<in> set ps \<Longrightarrow> f (fst p) (snd p) out = g (fst p) (snd p) out \<and> g (fst p) (snd p) out \<noteq> None)
     \<Longrightarrow> collect_parts f ps acc = collect_parts g ps acc \<and> collect_parts g ps acc \<noteq> None"
proof (induction ps arbitrary: acc)
  case (Cons p ps)
  have f: "f (fst p) (snd p) acc = g (fst p) (snd p) acc \<and> g (fst p) (snd p) acc \<noteq> None"
    by (rule Cons.prems) simp
  have "collect_parts f ps o' = collect_parts g ps o' \<and> collect_parts g ps o' \<noteq> None" for o'
    by (rule Cons.IH) (rule Cons.prems, simp)
  with f show ?case by (auto split: option.split sum.split)
qed simp

lemma collect_with_enough_depth:
  assumes "length b < 3 * Suc n" "n \<le> k"
  shows "collectContent ds (Suc k) hs b out = collectContent ds (Suc n) hs b out \<and> collectContent ds (Suc n) hs b out \<noteq> None"
  using assms
proof (induction n arbitrary: k hs b out)
  case 0
  have "parseMultipart b bd = []" if "bd \<noteq> []" for bd
  proof (rule ccontr)
    assume "parseMultipart b bd \<noteq> []"
    then obtain p where "p \<in> set (parseMultipart b bd)" by (meson list.set_sel(1))
    from part_length [OF this] that 0 show False by (cases bd) simp_all
  qed
  then show ?case using boundary_not_empty by (auto simp: Let_def split: option.split)
next
  case (Suc n)
  then obtain k' where k: "k = Suc k'" "n \<le> k'" by (cases k) auto
  have "collect_parts (collectContent ds (Suc k')) (parseMultipart b bd) out
        = collect_parts (collectContent ds (Suc n)) (parseMultipart b bd) out
      \<and> collect_parts (collectContent ds (Suc n)) (parseMultipart b bd) out \<noteq> None" if "bd \<noteq> []" for bd
  proof (rule collect_parts_total)
    fix p out
    assume "p \<in> set (parseMultipart b bd)"
    from part_length [OF this] that Suc.prems have "length (snd p) < 3 * Suc n" by (cases bd) simp_all
    from Suc.IH [OF this k(2)]
    show "collectContent ds (Suc k') (fst p) (snd p) out = collectContent ds (Suc n) (fst p) (snd p) out
      \<and> collectContent ds (Suc n) (fst p) (snd p) out \<noteq> None" .
  qed
  then show ?case
    using boundary_not_empty
    by (auto simp: k(1) collectContent.simps(2) [of ds "Suc k'"] collectContent.simps(2) [of ds "Suc n"] Let_def
        simp del: collectContent.simps split: option.split)
qed

text \<open>
  C39. Parsing ends with a bounded stack: on every body, whatever the headers say, a depth of a third
  of its length is enough, and a greater depth gives the same result.
\<close>

theorem recursion_is_bounded:
  "collectContent ds (stack_depth body + k) headers body acc = collectContent ds (stack_depth body) headers body acc
    \<and> collectContent ds (stack_depth body) headers body acc \<noteq> None"
  using collect_with_enough_depth [of body "length body div 3" "length body div 3 + k" ds headers acc]
  by (simp add: stack_depth_def)

text \<open>
  A mail whose lines end with CR LF but that has two bare line feeds in its body loses the body
  up to them: the search for \<open>\n\n\<close> does not stop at the header.
\<close>

lemma bare_line_feeds_cut_the_body:
  "splitHeaderAndBody (''Subject: a'' @ [CHR 0x0D, CHR 0x0A, CHR 0x0D, CHR 0x0A] @ ''one''
     @ [CHR 0x0A, CHR 0x0A] @ ''two'') = ([(''subject'', ''a'')], ''two'')"
  by code_simp

end
