(* ===== verification/MimeBuilder.thy ===== *)
theory MimeBuilder
  imports MimeParser
begin

text \<open>
  \<open>src/lib/mime.ts\<close>: the raw text of a mail. A boundary carries a random id without hyphens; the
  ids of the two boundaries are arguments.
\<close>

section \<open>Encodings\<close>

abbreviation crlf :: string where
  "crlf \<equiv> [CHR 0x0D, CHR 0x0A]"

definition quoted :: "string \<Rightarrow> string" where
  "quoted s = [CHR 0x22] @ s @ [CHR 0x22]"

definition randomBoundary :: "string \<Rightarrow> string \<Rightarrow> string" where
  "randomBoundary label i = ''mailagents-'' @ label @ ''-'' @ i"

definition line_break :: "string \<Rightarrow> (string \<times> string) option" where
  "line_break s = map_option (Pair '' '') (line_end s)"

definition normalizeHeaderValue :: "string \<Rightarrow> string" where
  "normalizeHeaderValue value = js_trim (replace_all line_break value)"

text \<open>\<open>.{1,76}\<close>: as many characters as there are up to 76, none of them a line terminator.\<close>

definition encoded_line :: "string \<Rightarrow> (string \<times> string) option" where
  "encoded_line s = (let run = takeWhile (\<lambda>c. c \<noteq> CHR 0x0A \<and> c \<noteq> CHR 0x0D) (take 76 s) in
     if run = [] then None else Some (run @ crlf, drop (length run) s))"

definition foldBase64 :: "string \<Rightarrow> string" where
  "foldBase64 input = rev (dropWhile is_js_space (rev (replace_all encoded_line input)))"

definition toBase64 :: "string \<Rightarrow> string" where
  "toBase64 bytes = btoa bytes"

definition textToBase64 :: "string \<Rightarrow> string" where
  "textToBase64 value = toBase64 (utf8 value)"

section \<open>A mail\<close>

record mime_attachment =
  ma_filename :: string
  ma_content_type :: string
  ma_content :: string

record mime_input =
  mime_from :: string
  mime_to :: "string list"
  mime_cc :: "string list"
  mime_bcc :: "string list"
  mime_reply_to :: "string list"
  mime_subject :: string
  mime_text :: "string option"
  mime_html :: "string option"
  mime_date :: "string option"
  mime_message_id :: "string option"
  mime_in_reply_to :: "string option"
  mime_references :: "string list"
  mime_attachments :: "mime_attachment list"

definition header_text :: "string \<times> string \<Rightarrow> string" where
  "header_text h = fst h @ '': '' @ snd h"

definition header_if :: "string \<Rightarrow> string option \<Rightarrow> (string \<times> string) list" where
  "header_if name value = (if truthy value then [(name, normalizeHeaderValue (the value))] else [])"

definition header_list :: "string \<Rightarrow> string \<Rightarrow> string list \<Rightarrow> (string \<times> string) list" where
  "header_list name separator values =
     (if values = [] then [] else [(name, js_join separator (map normalizeHeaderValue values))])"

definition mime_headers :: "mime_input \<Rightarrow> (string \<times> string) list" where
  "mime_headers input =
     [(''From'', normalizeHeaderValue (mime_from input)),
      (''To'', js_join '', '' (map normalizeHeaderValue (mime_to input))),
      (''Subject'', normalizeHeaderValue (mime_subject input)), (''MIME-Version'', ''1.0'')]
     @ header_if ''Date'' (mime_date input) @ header_if ''Message-ID'' (mime_message_id input)
     @ header_list ''Cc'' '', '' (mime_cc input) @ header_list ''Bcc'' '', '' (mime_bcc input)
     @ header_list ''Reply-To'' '', '' (mime_reply_to input)
     @ header_if ''In-Reply-To'' (mime_in_reply_to input)
     @ header_list ''References'' '' '' (mime_references input)"

text \<open>The headers of a part, the empty line, and its body in Base64.\<close>

definition encoded_part :: "(string \<times> string) list \<Rightarrow> string \<Rightarrow> string list" where
  "encoded_part headers body =
     map header_text (headers @ [(''Content-Transfer-Encoding'', ''base64'')]) @ [[], foldBase64 body]"

definition body_part :: "string \<Rightarrow> string \<Rightarrow> string list" where
  "body_part subtype content =
     encoded_part [(''Content-Type'', ''text/'' @ subtype @ ''; charset='' @ quoted ''UTF-8'')] (textToBase64 content)"

definition multipart_header :: "string \<Rightarrow> string \<Rightarrow> string" where
  "multipart_header subtype boundary =
     header_text (''Content-Type'', ''multipart/'' @ subtype @ ''; boundary='' @ quoted boundary)"

definition optional_part :: "string \<Rightarrow> string \<Rightarrow> string option \<Rightarrow> string list" where
  "optional_part boundary subtype content =
     (if truthy content then (''--'' @ boundary) # body_part subtype (the content) else [])"

definition attachment_part :: "string \<Rightarrow> mime_attachment \<Rightarrow> string list" where
  "attachment_part boundary a = (''--'' @ boundary) # encoded_part
     [(''Content-Type'', normalizeHeaderValue (ma_content_type a) @ ''; name=''
          @ quoted (normalizeHeaderValue (ma_filename a))),
      (''Content-Disposition'', ''attachment; filename='' @ quoted (normalizeHeaderValue (ma_filename a)))]
     (toBase64 (ma_content a))"

definition alternative_parts :: "string \<Rightarrow> mime_input \<Rightarrow> string list" where
  "alternative_parts boundary input = optional_part boundary ''plain'' (mime_text input)
     @ optional_part boundary ''html'' (mime_html input) @ [''--'' @ boundary @ ''--'']"

definition mime_lines :: "string \<Rightarrow> string \<Rightarrow> mime_input \<Rightarrow> string list" where
  "mime_lines mixedId altId input =
     (let mixedBoundary = randomBoundary ''mixed'' mixedId; altBoundary = randomBoundary ''alt'' altId;
          hasText = truthy (mime_text input); hasHtml = truthy (mime_html input)
      in map header_text (mime_headers input) @
       (if mime_attachments input = [] then
          if hasHtml \<and> \<not> hasText then body_part ''html'' (the (mime_html input))
          else if hasText \<and> \<not> hasHtml then body_part ''plain'' (the (mime_text input))
          else [multipart_header ''alternative'' altBoundary, []] @ alternative_parts altBoundary input
        else [multipart_header ''mixed'' mixedBoundary, [], ''--'' @ mixedBoundary,
              multipart_header ''alternative'' altBoundary, []] @ alternative_parts altBoundary input
          @ concat (map (attachment_part mixedBoundary) (mime_attachments input))
          @ [''--'' @ mixedBoundary @ ''--'']))"

definition buildRawMimeMessage :: "string \<Rightarrow> string \<Rightarrow> mime_input \<Rightarrow> string" where
  "buildRawMimeMessage mixedId altId input = utf8 (js_join crlf (mime_lines mixedId altId input))"

end
