(* ===== verification/JsNumber.thy ===== *)
theory JsNumber
  imports JsPrelude
begin

text \<open>
  The numbers of JavaScript that the runtime computes with: the parsers \<open>parseInt\<close> and
  \<open>parseFloat\<close>, the arithmetic of doubles, and the calendar of \<open>toISOString\<close>. A finite double is
  the rational number it denotes, and an operation rounds the exact result to a double.
\<close>

section \<open>Integers\<close>

text \<open>
  \<open>Number.parseInt(raw, 10)\<close>: leading white space, a sign, then as many digits as there are;
  \<^const>\<open>None\<close> is \<open>NaN\<close>.
\<close>

definition is_digit :: "char \<Rightarrow> bool" where
  "is_digit c \<longleftrightarrow> (let n = (of_char c :: nat) in 48 \<le> n \<and> n \<le> 57)"

definition digits_value :: "string \<Rightarrow> int" where
  "digits_value ds = foldl (\<lambda>acc c. acc * 10 + (of_char c - 48)) 0 ds"

definition js_parse_int :: "string \<Rightarrow> int option" where
  "js_parse_int raw =
     (let s = dropWhile is_js_space raw;
          neg = (case s of c # _ \<Rightarrow> c = CHR ''-'' | [] \<Rightarrow> False);
          signed = (case s of c # _ \<Rightarrow> c = CHR ''-'' \<or> c = CHR ''+'' | [] \<Rightarrow> False);
          ds = takeWhile is_digit (if signed then tl s else s)
      in if ds = [] then None else Some (if neg then - digits_value ds else digits_value ds))"

section \<open>Doubles\<close>

text \<open>The exponent \<open>e\<close> with \<open>2 ^ e \<le> x < 2 ^ (e + 1)\<close> of a positive rational.\<close>

definition pow2 :: "int \<Rightarrow> rat" where
  "pow2 e = (if 0 \<le> e then of_int (2 ^ nat e) else 1 / of_int (2 ^ nat (- e)))"

function int_log2 :: "int \<Rightarrow> int" where
  "int_log2 n = (if n < 2 then 0 else 1 + int_log2 (n div 2))"
  by pat_completeness auto

termination int_log2
  by (relation "measure nat") auto

declare int_log2.simps [simp del]

definition rat_exponent :: "rat \<Rightarrow> int" where
  "rat_exponent x = (let (a, b) = quotient_of x; e = int_log2 a - int_log2 b
     in if pow2 e \<le> x then e else e - 1)"

text \<open>Round to the nearest integer, a tie to the even one.\<close>

definition round_even :: "rat \<Rightarrow> int" where
  "round_even x = (let f = \<lfloor>x\<rfloor>; d = x - of_int f
     in if d < 1 / 2 \<or> (d = 1 / 2 \<and> even f) then f else f + 1)"

text \<open>
  The nearest double of a rational that is not negative, with 53 bits and the exponents of
  subnormal numbers; \<^const>\<open>None\<close> is \<open>Infinity\<close>, for a result of \<open>2 ^ 1024\<close> or more.
\<close>

definition to_double :: "rat \<Rightarrow> rat option" where
  "to_double x = (if x \<le> 0 then Some 0
     else let e = max (rat_exponent x - 52) (-1074); m = round_even (x / pow2 e)
          in if 971 < e \<or> (e = 971 \<and> m = 9007199254740992) then None
             else Some (of_int m * pow2 e))"

text \<open>
  \<open>Number.parseFloat\<close> of a text whose value is positive: leading white space, digits with an
  optional fraction, an optional exponent; anything may follow. \<^const>\<open>None\<close> stands for the results
  that the runtime rejects: \<open>NaN\<close>, \<open>Infinity\<close> and the negative numbers.
\<close>

definition starts_with_one_of :: "string \<Rightarrow> string \<Rightarrow> bool" where
  "starts_with_one_of s cs \<longleftrightarrow> (case s of [] \<Rightarrow> False | c # r \<Rightarrow> c \<in> set cs)"

definition parse_exponent :: "string \<Rightarrow> int" where
  "parse_exponent s = (if \<not> starts_with_one_of s ''eE'' then 0
     else let r = tl s; neg = starts_with_one_of r ''-'';
              ds = takeWhile is_digit (if starts_with_one_of r ''+-'' then tl r else r)
          in if neg then - digits_value ds else digits_value ds)"

definition js_parse_float :: "string \<Rightarrow> rat option" where
  "js_parse_float raw =
     (let s = dropWhile is_js_space raw; u = (if starts_with_one_of s ''+'' then tl s else s);
          ip = takeWhile is_digit u; r = dropWhile is_digit u;
          fp = (if starts_with_one_of r ''.'' then takeWhile is_digit (tl r) else []);
          r' = (if starts_with_one_of r ''.'' then dropWhile is_digit (tl r) else r);
          e = parse_exponent r' - int (length fp)
      in if ip = [] \<and> fp = [] then None
         else to_double (of_int (digits_value (ip @ fp)) * (if 0 \<le> e then 10 ^ nat e else 1 / 10 ^ nat (- e))))"

definition pad_number :: "nat \<Rightarrow> int \<Rightarrow> string" where
  "pad_number n i = (let d = show_int i in replicate (n - length d) CHR ''0'' @ d)"

text \<open>\<open>toFixed(k)\<close> of a double that is not negative (below \<open>10 ^ 21\<close>).\<close>

definition to_fixed :: "nat \<Rightarrow> rat \<Rightarrow> string" where
  "to_fixed k x = (let n = \<lfloor>x * 10 ^ k + 1 / 2\<rfloor>
     in show_int (n div 10 ^ k) @ ''.'' @ pad_number k (n mod 10 ^ k))"

section \<open>Dates\<close>

text \<open>
  The year, the month and the day of \<open>toISOString()\<close>, from the days since 1970-01-01 in the
  Gregorian calendar (years counted from March, in eras of 400).
\<close>

definition civil_date :: "timestamp \<Rightarrow> int \<times> int \<times> int" where
  "civil_date ms =
     (let z = ms div 86400000 + 719468; era = z div 146097; doe = z mod 146097;
          yoe = (doe - doe div 1460 + doe div 36524 - doe div 146096) div 365;
          doy = doe - (365 * yoe + yoe div 4 - yoe div 100);
          mp = (5 * doy + 2) div 153;
          m = (if mp < 10 then mp + 3 else mp - 9)
      in (yoe + era * 400 + (if m \<le> 2 then 1 else 0), m, doy - (153 * mp + 2) div 5 + 1))"

definition iso_year :: "timestamp \<Rightarrow> string" where
  "iso_year ms = pad_number 4 (fst (civil_date ms))"

definition iso_month :: "timestamp \<Rightarrow> string" where
  "iso_month ms = pad_number 2 (fst (snd (civil_date ms)))"

definition iso_text :: "timestamp \<Rightarrow> string" where
  "iso_text ms = (let t = ms mod 86400000 in
     iso_year ms @ ''-'' @ iso_month ms @ ''-'' @ pad_number 2 (snd (snd (civil_date ms))) @ ''T''
     @ pad_number 2 (t div 3600000) @ '':'' @ pad_number 2 (t div 60000 mod 60) @ '':''
     @ pad_number 2 (t div 1000 mod 60) @ ''.'' @ pad_number 3 (t mod 1000) @ ''Z'')"

text \<open>\<open>toUTCString()\<close>.\<close>

definition utc_text :: "timestamp \<Rightarrow> string" where
  "utc_text ms = (let t = ms mod 86400000; d = civil_date ms in
     [''Thu'', ''Fri'', ''Sat'', ''Sun'', ''Mon'', ''Tue'', ''Wed''] ! nat (ms div 86400000 mod 7)
     @ '', '' @ pad_number 2 (snd (snd d)) @ '' ''
     @ [''Jan'', ''Feb'', ''Mar'', ''Apr'', ''May'', ''Jun'', ''Jul'', ''Aug'', ''Sep'', ''Oct'', ''Nov'', ''Dec'']
         ! nat (fst (snd d) - 1)
     @ '' '' @ pad_number 4 (fst d) @ '' '' @ pad_number 2 (t div 3600000) @ '':''
     @ pad_number 2 (t div 60000 mod 60) @ '':'' @ pad_number 2 (t div 1000 mod 60) @ '' GMT'')"

text \<open>Spot checks: 1970-01-01, 2000-02-29, 2026-03-01 and the last millisecond of 2025.\<close>

lemma civil_examples:
  "civil_date 0 = (1970, 1, 1)" "civil_date 951782400000 = (2000, 2, 29)"
  "civil_date 1772323200000 = (2026, 3, 1)"
  "iso_text 1767225599999 = ''2025-12-31T23:59:59.999Z''"
  "utc_text 1767225599999 = ''Wed, 31 Dec 2025 23:59:59 GMT''"
  by code_simp+

text \<open>Ties go to the even neighbour, trailing text is ignored.\<close>

lemma rounding_examples:
  "round_even (5 / 2) = 2" "round_even (7 / 2) = 4" "to_fixed 2 (1 / 4) = ''0.25''"
  "parse_exponent ''e-1x'' = -1" "to_double (3 / 10) = Some (5404319552844595 / 18014398509481984)"
  by code_simp+

end
