(* ===== verification/WorkerEnv.thy ===== *)
theory WorkerEnv
  imports Effects MimeBuilder JsNumber
begin

text \<open>
  The bindings of the Worker that are plain values (\<open>Env\<close> of \<open>src/types.ts\<close>), and the text
  decoders of the platform.
\<close>

record worker_env =
  OUTBOUND_SEND_MAX_RETRIES :: "string option"
  OUTBOUND_SEND_IN_DOUBT_GRACE_SECONDS :: "string option"
  OUTBOUND_PROVIDER :: "string option"
  SES_MOCK_SEND :: "string option"
  SES_REGION :: string
  RESEND_API_KEY :: "string option"
  text_decoders :: decoders

definition parse_setting :: "string option \<Rightarrow> int option" where
  "parse_setting raw = (if truthy raw then js_parse_int (the raw) else None)"

definition getOutboundSendMaxRetries :: "worker_env \<Rightarrow> int" where
  "getOutboundSendMaxRetries env = (case parse_setting (OUTBOUND_SEND_MAX_RETRIES env) of
     Some n \<Rightarrow> if n \<ge> 0 then n else 3 | None \<Rightarrow> 3)"

definition getOutboundSendInDoubtGraceMs :: "worker_env \<Rightarrow> int" where
  "getOutboundSendInDoubtGraceMs env =
     (case parse_setting (OUTBOUND_SEND_IN_DOUBT_GRACE_SECONDS env) of
        Some n \<Rightarrow> if n > 0 then n else 120 | None \<Rightarrow> 120) * 1000"

definition getOutboundProvider :: "worker_env \<Rightarrow> message_provider" where
  "getOutboundProvider env =
     (let raw = js_lower (js_trim (case OUTBOUND_PROVIDER env of None \<Rightarrow> ''ses'' | Some v \<Rightarrow> v))
      in if raw = ''resend'' then ProvResend else ProvSes)"

definition isEnabled :: "string option \<Rightarrow> bool" where
  "isEnabled v \<longleftrightarrow> (case v of None \<Rightarrow> False
     | Some s \<Rightarrow> js_lower s \<in> {''1'', ''true'', ''yes'', ''on''})"

text \<open>A concrete environment for the witnesses, on a platform that decodes the UTF-8 of code units below 256.\<close>

definition demo_decoders :: decoders where
  "demo_decoders = \<lparr>decoder_of = (\<lambda>l. if l = ''utf-8'' then Some (\<lambda>b. opt_or (utf8_decode b) b) else None),
     decode_utf8 = (\<lambda>b. opt_or (utf8_decode b) b)\<rparr>"

definition demo_env :: worker_env where
  "demo_env = \<lparr>OUTBOUND_SEND_MAX_RETRIES = None, OUTBOUND_SEND_IN_DOUBT_GRACE_SECONDS = None,
     OUTBOUND_PROVIDER = None, SES_MOCK_SEND = None, SES_REGION = ''us-east-1'',
     RESEND_API_KEY = None, text_decoders = demo_decoders\<rparr>"

text \<open>The settings are never negative, whatever the variables hold.\<close>

lemma max_retries_nonneg: "0 \<le> getOutboundSendMaxRetries env"
  by (simp add: getOutboundSendMaxRetries_def split: option.split)

lemma grace_positive: "0 < getOutboundSendInDoubtGraceMs env"
  by (simp add: getOutboundSendInDoubtGraceMs_def split: option.split)

end
