(* ===== verification/EnqueueSend.thy ===== *)
theory EnqueueSend
  imports DraftGuards WorkerEnv
begin

text \<open>
  \<open>enqueueDraftSend\<close> of \<open>src/repositories/mail.ts\<close>: a draft becomes an outbound message with its
  job on the queue. The draft is claimed first; then, inside the \<open>try\<close> block, the payload is
  validated, a thread is assigned, the credits are reserved, the message and the job are inserted
  and the job is queued. When any of these fails, the \<open>catch\<close> block undoes what was done so far.

  The \<open>catch\<close> block reads the two variables that the body has set by then (the thread it created
  and the credits it reserved). \<open>guarded ct amount m\<close> is the part \<open>m\<close> of the body that runs
  while they hold \<open>ct\<close> and \<open>amount\<close>; since the block rethrows, the parts compose to the body.
\<close>

section \<open>The undo\<close>

record enqueue_state =
  es_draft :: draft_row
  es_job_id :: string
  es_message_id :: string
  es_timestamp :: timestamp

definition undo_enqueue :: "enqueue_state \<Rightarrow> string option \<Rightarrow> int \<Rightarrow> unit io" where
  "undo_enqueue es createdThreadId creditReservationAmount =
     (let d = es_draft es in
      seq (catch_undefined (delete_job (es_job_id es)))
      (seq (catch_undefined (delete_message (es_message_id es)))
      (seq (catch_undefined (restoreDraftSendState (dr_id d) (dr_status d) (dr_thread_id d)))
      (seq (when_io (truthy createdThreadId \<and> createdThreadId \<noteq> dr_thread_id d)
              (catch_undefined (deleteThreadIfUnreferenced (the createdThreadId))))
      (when_io (creditReservationAmount > 0)
         (catch_undefined (releaseTenantReservedCredits (dr_tenant_id d) creditReservationAmount)))))))"

definition guarded :: "enqueue_state \<Rightarrow> string option \<Rightarrow> int \<Rightarrow> 'a io \<Rightarrow> 'a io" where
  "guarded es createdThreadId amount m =
     try_catch m (\<lambda>e. seq (undo_enqueue es createdThreadId amount) (throw e))"

section \<open>The parts of the body\<close>

record enqueue_plan =
  ep_recipients :: draft_recipients
  ep_raw_to :: "string list"
  ep_subject :: string
  ep_requirement :: credit_requirement
  ep_routed :: routed_recipients
  ep_attachments :: "draft_attachment list"
  ep_from :: string

definition payload_subject :: "json_object \<Rightarrow> string" where
  "payload_subject payload = str_or '''' (js_prop payload ''subject'')"

definition raw_recipients :: "json_object \<Rightarrow> string list" where
  "raw_recipients payload = (case js_prop payload ''to'' of
     Some (JArr vs) \<Rightarrow> json_strings vs | _ \<Rightarrow> [])"

definition check_sender :: "json_object \<Rightarrow> mailbox_row option \<Rightarrow> string io" where
  "check_sender payload mailbox =
     (let fromAddress = payload_from payload;
          mailboxAddress = (case mailbox of None \<Rightarrow> '''' | Some m \<Rightarrow> js_lower (js_trim (mb_address m)))
      in if mailboxAddress = [] then throw (PlainError ''Mailbox not found'')
         else if map_option mb_status mailbox \<noteq> Some ''active''
         then throw (PlainError ''Mailbox is not active'')
         else if fromAddress = [] then throw (PlainError ''Draft from address is required'')
         else if fromAddress \<noteq> mailboxAddress
         then throw (PlainError ''Draft from address must match the mailbox address'')
         else ret fromAddress)"

definition plan_enqueue :: "draft_row \<Rightarrow> enqueue_plan io" where
  "plan_enqueue d =
     await (r2_get (dr_draft_r2_key d)) (\<lambda>object.
     await (case object of None \<Rightarrow> ret [] | Some ob \<Rightarrow> r2_json ob) (\<lambda>payload.
     await (lift_result (parse_recipients (PlainError recipients_message) payload)) (\<lambda>r.
     await (getOutboundCreditRequirement (rcp_to r) (rcp_cc r) (rcp_bcc r)
              (dr_source_message_id d) (dr_created_via d)) (\<lambda>requirement.
     await (routeOutboundRecipients (rcp_to r) (rcp_cc r) (rcp_bcc r)) (\<lambda>routedRecipients.
     await (lift_result (parse_attachments
              (PlainError ''Draft attachments must be an array when provided'')
              (PlainError ''Draft attachments must be an array of objects with filename, contentType, and r2Key'')
              payload)) (\<lambda>attachments.
     await (getMailboxById (dr_mailbox_id d)) (\<lambda>mailbox.
     await (check_sender payload mailbox) (\<lambda>fromAddress.
     ret \<lparr>ep_recipients = r, ep_raw_to = raw_recipients payload,
          ep_subject = payload_subject payload, ep_requirement = requirement,
          ep_routed = routedRecipients, ep_attachments = attachments,
          ep_from = fromAddress\<rparr>))))))))"

text \<open>The thread of the mail: the draft's, or a new one for its subject, or none.\<close>

definition needs_thread :: "enqueue_plan \<Rightarrow> draft_row \<Rightarrow> bool" where
  "needs_thread p d \<longleftrightarrow> \<not> truthy (dr_thread_id d) \<and> normalizeSubject (Some (ep_subject p)) \<noteq> []"

definition assign_new_thread :: "enqueue_state \<Rightarrow> enqueue_plan \<Rightarrow> string io" where
  "assign_new_thread es p =
     await (guarded es None 0 (getOrCreateThread (dr_tenant_id (es_draft es))
              (dr_mailbox_id (es_draft es)) (''outbound:'' @ es_message_id es)
              (Some (normalizeSubject (Some (ep_subject p)))))) (\<lambda>thread.
     seq (guarded es (Some (th_id thread)) 0 (assignDraftThreadId (dr_id (es_draft es)) (th_id thread)))
     (ret (th_id thread)))"

definition check_enqueued_attachment :: "draft_row \<Rightarrow> draft_attachment \<Rightarrow> unit io" where
  "check_enqueued_attachment d ref =
     (let r2Key = js_trim (da_r2_key ref) in
      if r2Key = [] then throw (PlainError ''Attachment r2Key is required'')
      else await (getAttachmentOwnerByR2Key r2Key) (\<lambda>owner. case owner of
          None \<Rightarrow> throw (PlainError (''Attachment not found: '' @ r2Key))
        | Some ow \<Rightarrow>
            if ao_tenant_id ow \<noteq> dr_tenant_id d
            then throw (PlainError ''Attachment does not belong to tenant'')
            else if ao_mailbox_id ow \<noteq> dr_mailbox_id d
            then throw (PlainError ''Attachment does not belong to mailbox'')
            else ret ()))"

text \<open>The reservation; the result is \<open>creditReservationAmount\<close>.\<close>

definition reserve_for_send :: "draft_row \<Rightarrow> credit_requirement \<Rightarrow> int io" where
  "reserve_for_send d q =
     (if \<not> cr_requires_credits q then ret 0
      else await (reserveTenantAvailableCredits (dr_tenant_id d) (cr_credits_required q)) (\<lambda>reserved.
           if reserved = None
           then throw (PlainError (''Insufficient credits for external sending. Required: ''
                  @ show_int (cr_credits_required q)))
           else ret (cr_credits_required q)))"

definition outbound_message_row ::
  "worker_env \<Rightarrow> enqueue_state \<Rightarrow> enqueue_plan \<Rightarrow> string option \<Rightarrow> message_row" where
  "outbound_message_row env es p outboundThreadId =
     \<lparr>msg_id = es_message_id es, msg_tenant_id = dr_tenant_id (es_draft es),
      msg_mailbox_id = dr_mailbox_id (es_draft es), msg_thread_id = outboundThreadId,
      msg_direction = Outbound,
      msg_provider = (if externalRecipientCount (ep_routed p) > 0 then getOutboundProvider env
                      else ProvInternal),
      msg_internet_message_id = None, msg_provider_message_id = None,
      msg_from_addr = ep_from p, msg_to_addr = js_join '','' (ep_raw_to p),
      msg_subject = Some (ep_subject p), msg_snippet = None, msg_status = MsgTasked,
      msg_raw_r2_key = None, msg_normalized_r2_key = None, msg_received_at = None,
      msg_sent_at = None, msg_created_at = es_timestamp es\<rparr>"

definition outbound_job_row_of :: "worker_env \<Rightarrow> enqueue_state \<Rightarrow> outbound_job_row" where
  "outbound_job_row_of env es =
     \<lparr>oj_id = es_job_id es, oj_message_id = es_message_id es, oj_task_id = None,
      oj_status = JobQueued, oj_ses_region = SES_REGION env, oj_retry_count = 0,
      oj_next_retry_at = None, oj_last_error = None,
      oj_draft_r2_key = dr_draft_r2_key (es_draft es),
      oj_created_at = es_timestamp es, oj_updated_at = es_timestamp es\<rparr>"

definition visible_job_for_key :: "store \<Rightarrow> string \<Rightarrow> bool" where
  "visible_job_for_key s draftR2Key \<longleftrightarrow>
     (\<exists>j \<in> set (outbound_jobs s). oj_draft_r2_key j = draftR2Key \<and> job_visible s j)"

definition insertOutboundJob :: "worker_env \<Rightarrow> enqueue_state \<Rightarrow> nat io" where
  "insertOutboundJob env es = execute_checked (\<lambda>s. insert_select outbound_jobs_update
     (visible_job_for_key s (dr_draft_r2_key (es_draft es)))
     (\<exists>j \<in> set (outbound_jobs s). oj_id j = es_job_id es) (outbound_job_row_of env es) s)"

definition refuse_existing_jobs :: "draft_row \<Rightarrow> outbound_job_row list \<Rightarrow> unit io" where
  "refuse_existing_jobs d jobs =
     (if length jobs = 1
      then throw (PlainError (''Draft '' @ dr_id d @ '' already has visible outbound job ''
             @ oj_id (hd jobs)))
      else if length jobs > 1
      then throw (PlainError (''Draft '' @ dr_id d @ '' has multiple visible outbound jobs''))
      else ret ())"

definition insert_job_once :: "worker_env \<Rightarrow> enqueue_state \<Rightarrow> unit io" where
  "insert_job_once env es =
     (let d = es_draft es; key = dr_draft_r2_key d in
      await (insertOutboundJob env es) (\<lambda>inserted.
      if inserted \<noteq> 0 then ret ()
      else
        await (listVisibleOutboundJobsByDraftR2Key key 2) (\<lambda>existingJobs.
        seq (refuse_existing_jobs d existingJobs)
        (await (deleteInvalidOutboundJobsForDraftR2Key key) (\<lambda>deleted.
        await (if deleted > 0 then insertOutboundJob env es else ret inserted) (\<lambda>retried.
        if retried \<noteq> 0 then ret ()
        else await (listVisibleOutboundJobsByDraftR2Key key 2) (\<lambda>again.
             seq (refuse_existing_jobs d again)
             (throw (PlainError (''Outbound job '' @ es_job_id es
                @ '' could not be created because dedupe skipped insertion without any visible existing outbound job for ''
                @ key))))))))))"

definition insert_and_queue ::
  "worker_env \<Rightarrow> enqueue_state \<Rightarrow> enqueue_plan \<Rightarrow> string option \<Rightarrow> unit io" where
  "insert_and_queue env es p outboundThreadId =
     seq (execute_checked (\<lambda>s. insert_checked messages_update
            (message_id_taken s (es_message_id es)) (outbound_message_row env es p outboundThreadId) s))
     (seq (insert_job_once env es)
     (await (getMessage (es_message_id es)) (\<lambda>m.
      seq (requireRow m (''Failed to load outbound message '' @ es_message_id es))
      (await (getOutboundJob (es_job_id es)) (\<lambda>j.
       seq (requireRow j (''Failed to load outbound job '' @ es_job_id es))
       (send_out (ToOutboundQueue (es_job_id es))))))))"

section \<open>The operation\<close>

definition cannot_enqueue :: "draft_status option \<Rightarrow> js_error" where
  "cannot_enqueue st = PlainError (''Draft status ''
     @ (case st of None \<Rightarrow> ''unknown'' | Some x \<Rightarrow> show_draft_status x)
     @ '' cannot be enqueued for send'')"

definition draft_vanished :: "draft_row \<Rightarrow> 'a io" where
  "draft_vanished d =
     seq (try_catch (restoreDraftSendState (dr_id d) (dr_status d) (dr_thread_id d))
            (\<lambda>_. seq (catch_undefined (delete_draft (dr_id d)))
                   (catch_undefined (r2_delete (dr_draft_r2_key d)))))
       (throw (PlainError (''Draft '' @ dr_id d @ '' no longer exists'')))"

definition enqueue_body :: "worker_env \<Rightarrow> enqueue_state \<Rightarrow> string io" where
  "enqueue_body env es =
     (let d = es_draft es in
      await (guarded es None 0 (plan_enqueue d)) (\<lambda>p.
      await (if needs_thread p d then await (assign_new_thread es p) (\<lambda>t. ret (Some t))
             else ret None) (\<lambda>createdThreadId.
      let outboundThreadId = (if needs_thread p d then createdThreadId else dr_thread_id d) in
      seq (guarded es createdThreadId 0
             (for_each (ep_attachments p) (check_enqueued_attachment d)))
      (await (guarded es createdThreadId 0 (reserve_for_send d (ep_requirement p))) (\<lambda>amount.
       seq (guarded es createdThreadId amount (insert_and_queue env es p outboundThreadId))
       (ret (es_job_id es)))))))"

definition enqueueDraftSend :: "worker_env \<Rightarrow> string \<Rightarrow> string io" where
  "enqueueDraftSend env draftId =
     await (getDraft draftId) (\<lambda>found.
     await (requireRow found ''Draft not found'') (\<lambda>d.
     if dr_status d \<noteq> DraftDraft \<and> dr_status d \<noteq> DraftApproved
     then throw (cannot_enqueue (Some (dr_status d)))
     else
       await (createId ''obj'') (\<lambda>outboundJobId.
       await nowIso (\<lambda>timestamp.
       await (claimDraftForSend draftId timestamp) (\<lambda>claimed.
       if \<not> claimed
       then await (getDraft draftId) (\<lambda>latest. throw (cannot_enqueue (map_option dr_status latest)))
       else await (getDraft draftId) (\<lambda>still.
            if still = None then draft_vanished d
            else await (createId ''msg'') (\<lambda>outboundMessageId.
                 enqueue_body env \<lparr>es_draft = d, es_job_id = outboundJobId,
                   es_message_id = outboundMessageId, es_timestamp = timestamp\<rparr>)))))))"

section \<open>The store invariant\<close>

lemma keeps_undo [keeps_intros]: "keeps (stored K out db_ok) (undo_enqueue es ct n)"
  unfolding undo_enqueue_def Let_def by (intro keeps_intros)

lemma keeps_guarded [keeps_intros]:
  "keeps (stored K out db_ok) m \<Longrightarrow> keeps (stored K out db_ok) (guarded es ct n m)"
  unfolding guarded_def by (intro keeps_intros)

lemma keeps_plan [keeps_intros]: "keeps (stored K out db_ok) (plan_enqueue d)"
  unfolding plan_enqueue_def check_sender_def Let_def by (intro keeps_intros)

lemma keeps_assign_new_thread [keeps_intros]: "keeps (stored K out db_ok) (assign_new_thread es p)"
  unfolding assign_new_thread_def by (intro keeps_intros)

lemma keeps_insertOutboundJob [keeps_intros]: "keeps (stored K out db_ok) (insertOutboundJob env es)"
  unfolding insertOutboundJob_def
  by (intro keeps_intros) (auto simp: outbound_job_row_of_def)

lemma keeps_insert_and_queue [keeps_intros]:
  "keeps (stored K out db_ok) (insert_and_queue env es p t)"
  unfolding insert_and_queue_def insert_job_once_def refuse_existing_jobs_def
  by (intro keeps_intros) (auto simp: message_id_taken_def outbound_message_row_def)

lemma keeps_check_enqueued [keeps_intros]: "keeps (stored K out J) (check_enqueued_attachment d a)"
  unfolding check_enqueued_attachment_def Let_def by (intro keeps_intros)

lemma keeps_reserve_for_send [keeps_intros]:
  "0 \<le> cr_credits_required q \<Longrightarrow> keeps (stored K out db_ok) (reserve_for_send d q)"
  unfolding reserve_for_send_def by (intro keeps_intros)

lemma plan_credits: "yields (plan_enqueue d) (\<lambda>p. 0 \<le> cr_credits_required (ep_requirement p))"
proof -
  have "yields (getOutboundCreditRequirement t c b src via) (\<lambda>q. 0 \<le> cr_credits_required q)" for t c b src via
    unfolding getOutboundCreditRequirement_def
    by (intro yields_last yields_ret credits_required_nonneg)
  then show ?thesis
    unfolding plan_enqueue_def
    by (intro yields_last yields_await [of "getOutboundCreditRequirement _ _ _ _ _"] yields_ret) auto
qed

lemma keeps_enqueue_body [keeps_intros]: "keeps (stored K out db_ok) (enqueue_body env es)"
  unfolding enqueue_body_def Let_def
  by (rule keeps_await_yields [where Q = "\<lambda>p. 0 \<le> cr_credits_required (ep_requirement p)"],
      intro keeps_intros, unfold guarded_def, rule yields_rethrow, rule plan_credits)
     (fold guarded_def, intro keeps_intros)

lemma keeps_enqueueDraftSend [keeps_intros]: "keeps (stored K out db_ok) (enqueueDraftSend env i)"
  unfolding enqueueDraftSend_def draft_vanished_def by (intro keeps_intros)

end
