(* ===== verification/SendCredits.thy ===== *)
theory SendCredits
  imports EnqueueSend
begin

text \<open>
  What \<open>enqueueDraftSend\<close> does to the credits in an undisturbed world: it reserves what the mail
  requires when it succeeds, and when it fails, at whatever point, every account is what it was.
\<close>

section \<open>Balances\<close>

definition balances :: "store \<Rightarrow> string \<Rightarrow> (int \<times> int) option" where
  "balances s t = map_option (\<lambda>a. (ba_available_credits a, ba_reserved_credits a)) (account_of s t)"

definition same_balances :: "(string \<Rightarrow> (int \<times> int) option) \<Rightarrow> store \<Rightarrow> bool" where
  "same_balances B s \<longleftrightarrow> balances s = B"

lemma same_balances_other [simp]:
  "same_balances B (messages_update f1 s) = same_balances B s"
  "same_balances B (drafts_update f2 s) = same_balances B s"
  "same_balances B (threads_update f3 s) = same_balances B s"
  "same_balances B (outbound_jobs_update f4 s) = same_balances B s"
  "same_balances B (r2_update f5 s) = same_balances B s"
  by (simp_all add: same_balances_def balances_def account_of_def fun_eq_iff)

lemma same_balances_stmts [simp]:
  "same_balances B (snd (update_rows drafts drafts_update P fd s)) = same_balances B s"
  "same_balances B (snd (delete_rows drafts drafts_update Pd s)) = same_balances B s"
  "same_balances B (snd (delete_rows messages messages_update Pm s)) = same_balances B s"
  "same_balances B (snd (delete_rows threads threads_update Pt s)) = same_balances B s"
  "same_balances B (snd (delete_rows outbound_jobs outbound_jobs_update Pj s)) = same_balances B s"
  by (simp_all add: update_rows_def delete_rows_def)

lemma same_balances_inserts:
  "insert_checked messages_update c m s = Some (n, s') \<Longrightarrow> same_balances B s' = same_balances B s"
  "insert_checked threads_update c t s = Some (n, s') \<Longrightarrow> same_balances B s' = same_balances B s"
  "insert_select outbound_jobs_update c c' j s = Some (n, s') \<Longrightarrow> same_balances B s' = same_balances B s"
  by (auto simp: insert_checked_def insert_select_def split: if_splits)

abbreviation balanced :: "(string \<Rightarrow> (int \<times> int) option) \<Rightarrow> world \<Rightarrow> bool" where
  "balanced B \<equiv> calm (same_balances B) (\<lambda>_. True)"

lemmas balanced_rules = keeps_intros keeps_calm_execute keeps_calm_checked keeps_calm_r2_delete
  keeps_calm_send

lemma balanced_plan: "keeps (balanced B) (plan_enqueue d)"
  unfolding plan_enqueue_def check_sender_def lift_result_def getOutboundCreditRequirement_def
    routeOutboundRecipients_def lookup_entry_def getMailboxByAddress_def getMailboxById_def Let_def
  by (intro balanced_rules)

lemma balanced_threads:
  "keeps (balanced B) (getOrCreateThread t m k sn)"
  "keeps (balanced B) (assignDraftThreadId i th)"
  "keeps (balanced B) (deleteThreadIfUnreferenced th')"
  unfolding getOrCreateThread_def insert_or_concurrent_def finalize_thread_def loadVisibleThread_def
    deleteInvalidThreadsForMailboxThreadKey_def insertThread_def delete_thread_def
    assignDraftThreadId_def deleteThreadIfUnreferenced_def requireStateUpdateApplied_def
  by (intro balanced_rules; auto dest: same_balances_inserts)+

lemma balanced_attachment: "keeps (balanced B) (check_enqueued_attachment d a)"
  unfolding check_enqueued_attachment_def getAttachmentOwnerByR2Key_def Let_def
  by (intro balanced_rules)

lemma balanced_insert: "keeps (balanced B) (insert_and_queue env es p t)"
  unfolding insert_and_queue_def insert_job_once_def insertOutboundJob_def refuse_existing_jobs_def
    listVisibleOutboundJobsByDraftR2Key_def deleteInvalidOutboundJobsForDraftR2Key_def
    getMessage_def getOutboundJob_def delete_job_def Let_def
  by (intro balanced_rules; auto dest: same_balances_inserts)

lemma balanced_draft:
  "keeps (balanced B) (getDraft i)" "keeps (balanced B) (claimDraftForSend i now)"
  "keeps (balanced B) (restoreDraftSendState i st th)" "keeps (balanced B) (delete_draft i)"
  "keeps (balanced B) (delete_job i)" "keeps (balanced B) (delete_message i)"
  unfolding getDraft_def with_created_via_fallback_def claimDraftForSend_def claim_draft_stmt_def restoreDraftSendState_def
    delete_draft_def delete_job_def delete_message_def requireStateUpdateApplied_def
  by (intro balanced_rules; simp)+

section \<open>Moves\<close>

definition level :: "(string \<Rightarrow> (int \<times> int) option) \<Rightarrow> world \<Rightarrow> bool" where
  "level B = calm (\<lambda>s. db_ok s \<and> same_balances B s) (\<lambda>_. True)"

lemma level_simp: "level B w \<longleftrightarrow> quiet w \<and> db_ok (store_of w) \<and> balances (store_of w) = B"
  by (simp add: level_def calm_def same_balances_def)

lemma keeps_level:
  assumes "keeps (balanced B) m" "keeps (stored {} [] db_ok) m"
  shows "keeps (level B) m"
  unfolding keeps_def
proof (intro allI impI)
  fix w assume w: "level B w"
  then have "balanced B w" "shared db_ok w"
    by (simp_all add: level_def calm_def quiet_stored)
  from keepsD [OF assms(1) this(1)] keepsD [OF assms(2) this(2)] show "level B (snd (m w))"
    by (simp add: level_def calm_def stored_def)
qed

definition reserved_from ::
  "(string \<Rightarrow> (int \<times> int) option) \<Rightarrow> string \<Rightarrow> int \<Rightarrow> string \<Rightarrow> (int \<times> int) option" where
  "reserved_from B t n = B(t := map_option (\<lambda>(a, r). (a - n, r + n)) (B t))"

lemma reserved_from_0 [simp]: "reserved_from B t 0 = B"
  by (cases "B t") (auto simp: reserved_from_def)

lemma move_credits_no_account:
  assumes "quiet w" "account_of (store_of w) t = None"
  shows "move_credits t guard move w = (Inr None, tick w)"
proof -
  have "tbl_count (\<lambda>a. ba_tenant_id a = t \<and> guard a) (billing_accounts (store_of w)) = 0"
    using assms(2) by (auto simp: account_of_def filter_empty_conv)
  then have "update_rows billing_accounts billing_accounts_update
      (\<lambda>a. ba_tenant_id a = t \<and> guard a) f (store_of w) = (0, store_of w)" for f
    by (simp add: update_rows_def tbl_update_none accounts_tbl.put_same)
  then show ?thesis
    using assms(1) by (simp add: move_credits_def run_simps)
      (metis store_of_tick with_store_collapse(2))
qed

lemma balances_moved:
  assumes "db_ok s" "account_of s t = Some a" "guard a"
    and "\<And>x. ba_tenant_id (move x) = ba_tenant_id x"
  shows "balances (moved t guard move now s) =
    (balances s)(t := Some (ba_available_credits (move a), ba_reserved_credits (move a)))"
proof
  fix t'
  show "balances (moved t guard move now s) t' =
    ((balances s)(t := Some (ba_available_credits (move a), ba_reserved_credits (move a)))) t'"
  proof (cases "t' = t")
    case True
    with account_of_moved [where guard = guard and move = move, OF assms] show ?thesis
      by (simp add: balances_def)
  next
    case False
    have "filter (\<lambda>x. ba_tenant_id x = t') xs
        = filter (\<lambda>x. ba_tenant_id x = t') (filter (\<lambda>x. ba_tenant_id x \<noteq> t) xs)" for xs
      using False by (simp add: conj_commute) (metis (mono_tags, lifting) filter_cong)
    then have "account_of (moved t guard move now s) t' = account_of s t'"
      unfolding account_of_def using moved_others [OF assms(4)] by metis
    with False show ?thesis by (simp add: balances_def)
  qed
qed

definition covers :: "(string \<Rightarrow> (int \<times> int) option) \<Rightarrow> string \<Rightarrow> int \<Rightarrow> bool" where
  "covers B t n \<longleftrightarrow> (\<exists>x y. B t = Some (x, y) \<and> n \<le> x \<and> 0 \<le> y)"

lemma account_reserved_nonneg: "db_ok s \<Longrightarrow> account_of s t = Some a \<Longrightarrow> 0 \<le> ba_reserved_credits a"
  unfolding account_of_def db_ok_def using first_row_filter_Some by fastforce

lemma reserve_level:
  assumes "0 \<le> n"
  shows "ends (level B) (reserveTenantAvailableCredits t n)
    (\<lambda>r w. case r of Inr (Some b) \<Rightarrow> level (reserved_from B t n) w \<and> covers B t n | _ \<Rightarrow> level B w)"
  unfolding ends_def
proof (intro allI impI)
  fix w assume w: "level B w"
  then have q: "quiet w" and ok: "db_ok (store_of w)" and B: "balances (store_of w) = B"
    by (simp_all add: level_simp)
  have "shared db_ok w" using q ok by (simp add: quiet_stored)
  from keepsD [OF keeps_reserve [OF assms] this]
  have ok': "db_ok (store_of (snd (reserveTenantAvailableCredits t n w)))"
    by (simp add: stored_def)
  show "case fst (reserveTenantAvailableCredits t n w) of
      Inr (Some b) \<Rightarrow> level (reserved_from B t n) (snd (reserveTenantAvailableCredits t n w))
        \<and> covers B t n
    | _ \<Rightarrow> level B (snd (reserveTenantAvailableCredits t n w))"
  proof (cases "account_of (store_of w) t")
    case None
    then show ?thesis
      using w q move_credits_no_account [OF q None]
      by (simp add: reserveTenantAvailableCredits_def level_simp)
  next
    case (Some a)
    have "B t = Some (ba_available_credits a, ba_reserved_credits a)"
      using Some by (simp add: B [symmetric] balances_def)
    with reserve_run [OF q ok Some, of n] ok' w q account_reserved_nonneg [OF ok Some]
      balances_moved [OF ok Some, where move = "reserve_move n"
        and guard = "\<lambda>a. ba_available_credits a \<ge> n"]
    show ?thesis
      by (auto simp: level_simp reserve_move_def B reserved_from_def covers_def split: if_splits)
  qed
qed

lemma release_level:
  assumes "covers B t n"
  shows "ends (level (reserved_from B t n)) (releaseTenantReservedCredits t n) (\<lambda>_. level B)"
  unfolding ends_def
proof (intro allI impI)
  fix w assume w: "level (reserved_from B t n) w"
  then have q: "quiet w" and ok: "db_ok (store_of w)"
    and B: "balances (store_of w) = reserved_from B t n"
    by (simp_all add: level_simp)
  obtain x y where xy: "B t = Some (x, y)" "0 \<le> y" using assms by (auto simp: covers_def)
  then have "balances (store_of w) t = Some (x - n, y + n)" by (simp add: B reserved_from_def xy)
  then obtain a where a: "account_of (store_of w) t = Some a"
    "ba_available_credits a = x - n" "ba_reserved_credits a = y + n"
    by (auto simp: balances_def)
  have "shared db_ok w" using q ok by (simp add: quiet_stored)
  from keepsD [OF keeps_release this, of t n]
  have ok': "db_ok (store_of (snd (releaseTenantReservedCredits t n w)))" by (simp add: stored_def)
  show "level B (snd (releaseTenantReservedCredits t n w))"
    using release_run [OF q ok a(1), of n] ok' q a xy
      balances_moved [OF ok a(1), where move = "release_move n"
        and guard = "\<lambda>a. ba_reserved_credits a \<ge> n"]
    by (auto simp: level_simp release_move_def B reserved_from_def fun_eq_iff)
qed

section \<open>The undo and the body\<close>

lemma ends_level_catch:
  "ends (level B) m (\<lambda>_. level B') \<Longrightarrow> ends (level B) (catch_undefined m) (\<lambda>_. level B')"
  unfolding ends_def catch_undefined_def seq_app try_catch_app ret_run
  by (fastforce split: prod.splits sum.splits)

lemma ends_seq_safe:
  assumes "keeps I m" "\<And>w. fst (m w) = Inr ()" "ends I k Q"
  shows "ends I (seq m k) Q"
  unfolding ends_def
proof (intro allI impI)
  fix w assume "I w"
  then have "I (snd (m w))" using assms(1) by (simp add: keeps_def)
  then show "Q (fst (seq m k w)) (snd (seq m k w))"
    using assms(2) [of w] assms(3) by (simp add: ends_def seq_app split: prod.split sum.split) auto
qed

lemma level_draft_ops:
  "keeps (level B) (delete_job i)" "keeps (level B) (delete_message i)" "keeps (level B) (delete_draft i)"
  "keeps (level B) (restoreDraftSendState i st th)" "keeps (level B) (deleteThreadIfUnreferenced th')"
  "keeps (level B) (getDraft i)" "keeps (level B) (claimDraftForSend i now)"
  "keeps (level B) (plan_enqueue d)" "keeps (level B) (getOrCreateThread t m k sn)"
  "keeps (level B) (assignDraftThreadId i th')" "keeps (level B) (check_enqueued_attachment d a)"
  "keeps (level B) (insert_and_queue env es p t')" "keeps (level B) (createId pre)"
  "keeps (level B) (r2_delete key)"
  by (intro keeps_level balanced_draft balanced_plan balanced_threads balanced_attachment
      balanced_insert keeps_intros keeps_calm_r2_delete; simp)+

lemma undo_level:
  assumes "n = 0 \<or> 0 < n \<and> covers B (dr_tenant_id (es_draft es)) n"
  shows "ends (level (reserved_from B (dr_tenant_id (es_draft es)) n)) (undo_enqueue es ct n)
    (\<lambda>_. level B)"
proof -
  let ?t = "dr_tenant_id (es_draft es)"
  let ?L = "level (reserved_from B ?t n)"
  have last: "ends ?L (when_io (n > 0) (catch_undefined (releaseTenantReservedCredits ?t n)))
      (\<lambda>_. level B)"
    using assms ends_level_catch [OF release_level, of B ?t n]
    by (auto simp: when_io_def intro!: ends_ret)
  show ?thesis
    unfolding undo_enqueue_def Let_def
    by (intro ends_seq_safe last keeps_intros level_draft_ops)
      (simp_all add: catch_undefined_returns when_io_def ret_run)
qed

lemma guarded_level:
  assumes "n = 0 \<or> 0 < n \<and> covers B (dr_tenant_id (es_draft es)) n"
    and "keeps (level (reserved_from B (dr_tenant_id (es_draft es)) n)) m"
  shows "ends (level (reserved_from B (dr_tenant_id (es_draft es)) n)) (guarded es ct n m)
    (\<lambda>r. case r of Inl e \<Rightarrow> level B | Inr x \<Rightarrow> level (reserved_from B (dr_tenant_id (es_draft es)) n))"
  unfolding guarded_def seq_def
  by (rule ends_try_catch, rule ends_keeps [OF assms(2)], assumption,
      rule ends_await, rule undo_level [OF assms(1)], rule ends_throw) simp_all

text \<open>The amount that a plan may reserve.\<close>

lemma plan_requires_one: "yields (plan_enqueue d)
    (\<lambda>p. cr_requires_credits (ep_requirement p) \<longrightarrow> cr_credits_required (ep_requirement p) = 1)"
proof -
  have "yields (getOutboundCreditRequirement t c b src via)
      (\<lambda>q. cr_requires_credits q \<longrightarrow> cr_credits_required q = 1)" for t c b src via
    unfolding getOutboundCreditRequirement_def
    by (intro yields_last yields_ret)
      (simp add: credit_requirement_for_def Let_def getOutboundCreditsRequired_def)
  then show ?thesis
    unfolding plan_enqueue_def
    by (intro yields_last yields_await [of "getOutboundCreditRequirement _ _ _ _ _"] yields_ret) auto
qed

lemma guarded_keeps_level:
  "keeps (level B) m \<Longrightarrow> keeps (level B) (guarded es ct 0 m)"
proof -
  assume m: "keeps (level B) m"
  have "keeps (level B) (undo_enqueue es ct 0)"
    using undo_level [of 0 B es ct] by (simp add: ends_def keeps_def)
  with m show ?thesis unfolding guarded_def by (intro keeps_intros)
qed

lemma ends_keeps_yields:
  "keeps I m \<Longrightarrow> yields m Q \<Longrightarrow> (\<And>x. Q x \<Longrightarrow> ends I (f x) R) \<Longrightarrow> (\<And>e w. I w \<Longrightarrow> R (Inl e) w) \<Longrightarrow>
     ends I (await m f) R"
  unfolding ends_def keeps_def yields_def await_def by (fastforce split: prod.splits sum.splits)

lemma ends_keeps_seq:
  "keeps I m \<Longrightarrow> ends I k R \<Longrightarrow> (\<And>e w. I w \<Longrightarrow> R (Inl e) w) \<Longrightarrow> ends I (seq m k) R"
  unfolding seq_def by (rule ends_keeps_yields [OF _ yields_any])

lemma ends_pure: "(C \<Longrightarrow> ends I m Q) \<Longrightarrow> ends (\<lambda>w. I w \<and> C) m Q"
  by (auto simp: ends_def)

text \<open>The outcome of a send: all accounts as before, or one credit of the tenant reserved.\<close>

definition outcome ::
  "(string \<Rightarrow> (int \<times> int) option) \<Rightarrow> string \<Rightarrow> js_error + 'a \<Rightarrow> world \<Rightarrow> bool" where
  "outcome B t r w \<longleftrightarrow> (case r of Inl e \<Rightarrow> level B w
     | Inr x \<Rightarrow> level B w \<or> level (reserved_from B t 1) w \<and> covers B t 1)"

lemma outcome_error: "level B w \<Longrightarrow> outcome B t r w"
  by (simp add: outcome_def split: sum.split)

lemma reserve_outcome:
  assumes "cr_requires_credits q \<Longrightarrow> cr_credits_required q = 1"
  shows "ends (level B) (guarded es ct 0 (reserve_for_send (es_draft es) q))
    (\<lambda>r w. case r of Inl e \<Rightarrow> level B w
       | Inr n \<Rightarrow> level (reserved_from B (dr_tenant_id (es_draft es)) n) w
           \<and> (n = 0 \<or> n = 1 \<and> covers B (dr_tenant_id (es_draft es)) n))"
    (is "ends _ _ ?Q")
proof -
  have res: "ends (level B) (reserve_for_send (es_draft es) q) ?Q"
  proof (cases "cr_requires_credits q")
    case False
    then show ?thesis by (auto simp: reserve_for_send_def intro!: ends_ret)
  next
    case True
    with assms have one: "cr_credits_required q = 1" by simp
    show ?thesis
      unfolding reserve_for_send_def one
      by (simp add: True, rule ends_await, rule reserve_level)
        (auto intro!: ends_ret ends_throw split: option.splits)
  qed
  have "ends (level B) (seq (undo_enqueue es ct 0) (throw e)) ?Q" for e
    using undo_level [of 0 B es ct] unfolding seq_def
    by (intro ends_await [where P = "\<lambda>_. level B"] ends_throw) simp_all
  then show ?thesis
    unfolding guarded_def by (intro ends_try_catch [OF res]) simp_all
qed

lemma body_outcome: "ends (level B) (enqueue_body env es) (outcome B (dr_tenant_id (es_draft es)))"
proof -
  let ?d = "es_draft es" and ?t = "dr_tenant_id (es_draft es)"
  have plan: "yields (guarded es None 0 (plan_enqueue ?d))
      (\<lambda>p. cr_requires_credits (ep_requirement p) \<longrightarrow> cr_credits_required (ep_requirement p) = 1)"
    unfolding guarded_def by (rule yields_rethrow [OF plan_requires_one, where g = "\<lambda>e. e"])
  have fin: "ends (level (reserved_from B ?t n)) (seq (guarded es ct n (insert_and_queue env es p th))
      (ret (es_job_id es))) (outcome B ?t)" if "n = 0 \<or> n = 1 \<and> covers B ?t n" for n ct p th
    unfolding seq_def
    by (rule ends_await [OF guarded_level])
      (use that level_draft_ops(12) in \<open>auto simp: outcome_def intro!: ends_ret\<close>)
  show ?thesis
    unfolding enqueue_body_def Let_def
  proof (rule ends_keeps_yields [OF guarded_keeps_level plan])
    fix p :: enqueue_plan
    assume p: "cr_requires_credits (ep_requirement p) \<longrightarrow> cr_credits_required (ep_requirement p) = 1"
    have thr: "keeps (level B) (if needs_thread p ?d
        then await (assign_new_thread es p) (\<lambda>t. ret (Some t)) else ret None)"
      unfolding assign_new_thread_def
      by (intro keeps_intros guarded_keeps_level level_draft_ops)
    show "ends (level B) (await (if needs_thread p ?d
        then await (assign_new_thread es p) (\<lambda>t. ret (Some t)) else ret None) (\<lambda>createdThreadId.
        seq (guarded es createdThreadId 0 (for_each (ep_attachments p) (check_enqueued_attachment ?d)))
        (await (guarded es createdThreadId 0 (reserve_for_send ?d (ep_requirement p))) (\<lambda>amount.
         seq (guarded es createdThreadId amount (insert_and_queue env es p
           (if needs_thread p ?d then createdThreadId else dr_thread_id ?d)))
         (ret (es_job_id es)))))) (outcome B ?t)"
    proof (rule ends_keeps_yields [OF thr yields_any])
      fix ct
      show "ends (level B)
        (seq (guarded es ct 0 (for_each (ep_attachments p) (check_enqueued_attachment ?d)))
        (await (guarded es ct 0 (reserve_for_send ?d (ep_requirement p))) (\<lambda>amount.
         seq (guarded es ct amount (insert_and_queue env es p
           (if needs_thread p ?d then ct else dr_thread_id ?d)))
         (ret (es_job_id es))))) (outcome B ?t)"
        by (intro ends_keeps_seq guarded_keeps_level keeps_intros level_draft_ops,
            rule ends_await [OF reserve_outcome])
          (use p in \<open>simp_all add: outcome_error, blast intro: ends_pure fin\<close>)
    qed (simp add: outcome_error)
  qed (simp_all add: outcome_error level_draft_ops)
qed

lemma send_outcome:
  "ends (level B) (enqueueDraftSend env i) (\<lambda>r w. \<exists>t. outcome B t r w)"
proof -
  have err: "\<exists>t. outcome B t (r :: js_error + string) w" if "level B w" for r w
    using outcome_error that by blast
  have body: "ends (level B) (enqueue_body env es) (\<lambda>r w. \<exists>t. outcome B t r w)" for es
    by (rule ends_conseq [OF body_outcome]) blast
  have vanished: "ends (level B) (draft_vanished d) (\<lambda>r w. \<exists>t. outcome B t (r :: js_error + string) w)" for d
    unfolding draft_vanished_def
    by (rule ends_keeps) (intro keeps_intros level_draft_ops, rule err)
  show ?thesis
    unfolding enqueueDraftSend_def
    by (intro ends_keeps_yields [where Q = "\<lambda>_. True"] level_draft_ops keeps_intros yields_any;
        (rule err; assumption)?)
      (auto intro!: body vanished ends_throw err
        ends_keeps_yields [where Q = "\<lambda>_. True"] level_draft_ops keeps_intros yields_any)
qed

section \<open>Properties\<close>

text \<open>
  C6. A send that fails costs nothing. In an undisturbed world, when \<open>enqueueDraftSend\<close> throws, from
  whatever point (an invalid draft, a missing attachment, a job that exists already, ...), every
  account has the available and the reserved credits it had; and when it returns the job, either the
  mail was free and no account has changed, or exactly one credit of one tenant, who had it, went
  from the available to the reserved ones.
\<close>

theorem failed_send_costs_nothing:
  assumes "quiet w" "db_ok (store_of w)" "enqueueDraftSend env i w = (r, w')"
  shows "case r of Inl e \<Rightarrow> balances (store_of w') = balances (store_of w)
    | Inr j \<Rightarrow> balances (store_of w') = balances (store_of w)
        \<or> (\<exists>t a b. balances (store_of w) t = Some (a, b) \<and> 1 \<le> a
            \<and> balances (store_of w') = (balances (store_of w))(t := Some (a - 1, b + 1)))"
proof -
  have "level (balances (store_of w)) w" using assms(1,2) by (simp add: level_simp)
  from endsD [OF send_outcome this assms(3)] show ?thesis
    by (auto simp: outcome_def level_simp reserved_from_def covers_def split: sum.splits, blast)
qed

theorem failed_send_costs_nothing_witness:
  "\<exists>e w'. enqueueDraftSend demo_env ''drf1'' (quiet_world (demo_store DraftApproved JobSent 5 1)) = (Inl e, w')
    \<and> balances (store_of w') ''t1'' = Some (5, 1)"
proof -
  let ?w = "quiet_world (demo_store DraftApproved JobSent 5 1)"
  have "isl (fst (enqueueDraftSend demo_env ''drf1'' ?w))" by code_simp
  then obtain e w' where run: "enqueueDraftSend demo_env ''drf1'' ?w = (Inl e, w')"
    by (cases "enqueueDraftSend demo_env ''drf1'' ?w") (auto simp: isl_def)
  have "balances (store_of ?w) ''t1'' = Some (5, 1)"
    by (simp add: balances_def) (simp add: demo_account_def)
  with failed_send_costs_nothing [OF _ _ run] run show ?thesis by auto
qed

end
