(* ===== verification/ExecutionTarget.thy ===== *)
theory ExecutionTarget
  imports AgentRegistry
begin

text \<open>
  \<open>resolveAgentExecutionTarget\<close> of \<open>src/repositories/agents.ts\<close>: which agent, in which version and
  deployment, works on the mail of a mailbox. With roles, a deployment counts when its agent is
  bound to the mailbox in one of them; an agent without any binding is only the last resort. The
  tenant of an agent is looked up once per call (\<open>tenantMatchCache\<close>).
\<close>

record execution_target =
  xt_agent_id :: string
  xt_agent_version_id :: "string option"
  xt_deployment_id :: "string option"

type_synonym tenant_cache = "(string \<times> bool) list"

definition isMissingTableError :: "js_error \<Rightarrow> bool" where
  "isMissingTableError e \<longleftrightarrow> js_includes (js_lower (error_message e)) ''no such table''"

definition agentMatchesMailboxTenant ::
  "string \<Rightarrow> tenant_cache \<Rightarrow> string \<Rightarrow> (bool \<times> tenant_cache) io" where
  "agentMatchesMailboxTenant mailboxTenantId cache agentId =
     (case map_of cache agentId of
        Some cached \<Rightarrow> ret (cached, cache)
      | None \<Rightarrow> await (getAgent agentId) (\<lambda>agent.
          let matches = (case agent of None \<Rightarrow> False | Some a \<Rightarrow> ag_tenant_id a = mailboxTenantId)
          in ret (matches, (agentId, matches) # cache)))"

definition deployment_rows ::
  "store \<Rightarrow> string \<Rightarrow> string \<Rightarrow> string option \<Rightarrow> agent_deployment_row list" where
  "deployment_rows s mailboxId tenantId requestedAgentId =
     order_desc dp_created_at (filter (\<lambda>d. dp_target_type d = ''mailbox'' \<and> dp_target_id d = mailboxId
       \<and> dp_status d = ''active'' \<and> dp_tenant_id d = tenantId
       \<and> (truthy requestedAgentId \<longrightarrow> requestedAgentId = Some (dp_agent_id d))
       \<and> (\<exists>v \<in> set (agent_versions s). av_id v = dp_agent_version_id d
            \<and> av_agent_id v = dp_agent_id d)
       \<and> agent_of_tenant s (dp_agent_id d) (dp_tenant_id d)) (agent_deployments s))"

definition deployment_target :: "agent_deployment_row \<Rightarrow> execution_target" where
  "deployment_target d = \<lparr>xt_agent_id = dp_agent_id d,
     xt_agent_version_id = Some (dp_agent_version_id d), xt_deployment_id = Some (dp_id d)\<rparr>"

definition agent_only :: "string \<Rightarrow> execution_target" where
  "agent_only a = \<lparr>xt_agent_id = a, xt_agent_version_id = None, xt_deployment_id = None\<rparr>"

text \<open>The loop over the deployments: the first bound one, and the first without any binding.\<close>

record scan_state =
  sc_found :: "execution_target option"
  sc_fallback :: "agent_deployment_row option"
  sc_cache :: tenant_cache

primrec scan_deployments ::
  "string \<Rightarrow> string \<Rightarrow> mailbox_role list \<Rightarrow> agent_deployment_row option \<Rightarrow> tenant_cache
     \<Rightarrow> agent_deployment_row list \<Rightarrow> scan_state io" where
  "scan_deployments tenantId mailboxId roles fallback cache [] =
     ret \<lparr>sc_found = None, sc_fallback = fallback, sc_cache = cache\<rparr>"
| "scan_deployments tenantId mailboxId roles fallback cache (d # ds) =
     await (agentMatchesMailboxTenant tenantId cache (dp_agent_id d)) (\<lambda>mc.
     if \<not> fst mc then scan_deployments tenantId mailboxId roles fallback (snd mc) ds
     else
       await (hasActiveMailboxBinding (dp_agent_id d) mailboxId roles) (\<lambda>hasMatchingBinding.
       if hasMatchingBinding
       then ret \<lparr>sc_found = Some (deployment_target d), sc_fallback = fallback, sc_cache = snd mc\<rparr>
       else
         await (hasActiveMailboxBinding (dp_agent_id d) mailboxId []) (\<lambda>hasAnyBinding.
         scan_deployments tenantId mailboxId roles
           (if \<not> hasAnyBinding \<and> fallback = None then Some d else fallback) (snd mc) ds)))"

primrec first_matching_agent ::
  "string \<Rightarrow> tenant_cache \<Rightarrow> string list \<Rightarrow> (execution_target option \<times> tenant_cache) io" where
  "first_matching_agent tenantId cache [] = ret (None, cache)"
| "first_matching_agent tenantId cache (a # as) =
     await (agentMatchesMailboxTenant tenantId cache a) (\<lambda>mc.
     if fst mc then ret (Some (agent_only a), snd mc)
     else first_matching_agent tenantId (snd mc) as)"

definition bound_agents :: "store \<Rightarrow> string \<Rightarrow> mailbox_role list \<Rightarrow> string list" where
  "bound_agents s mailboxId roles = map am_agent_id (order_asc am_created_at
     (filter (\<lambda>b. am_mailbox_id b = mailboxId \<and> am_status b = ''active''
        \<and> (roles = [] \<or> am_role b \<in> set roles)
        \<and> mailbox_of_tenant s (am_mailbox_id b) (am_tenant_id b)
        \<and> agent_of_tenant s (am_agent_id b) (am_tenant_id b)) (agent_mailboxes s)))"

text \<open>The body of the \<open>try\<close> block; \<^const>\<open>None\<close> means that it falls through.\<close>

definition target_with_roles ::
  "string \<Rightarrow> string \<Rightarrow> string option \<Rightarrow> mailbox_role list \<Rightarrow> tenant_cache
     \<Rightarrow> (execution_target option \<times> tenant_cache) io" where
  "target_with_roles tenantId mailboxId requestedAgentId roles cache =
     await (query (\<lambda>s. deployment_rows s mailboxId tenantId requestedAgentId)) (\<lambda>rows.
     await (scan_deployments tenantId mailboxId roles None cache rows) (\<lambda>sc.
     case sc_found sc of Some t \<Rightarrow> ret (Some t, sc_cache sc)
     | None \<Rightarrow>
         await (if truthy requestedAgentId then ret (None, sc_cache sc)
                else await (query (\<lambda>s. bound_agents s mailboxId roles))
                       (first_matching_agent tenantId (sc_cache sc))) (\<lambda>tc.
         case fst tc of Some t \<Rightarrow> ret (Some t, snd tc)
         | None \<Rightarrow> ret (map_option deployment_target (sc_fallback sc), snd tc))))"

definition target_without_roles ::
  "string \<Rightarrow> string \<Rightarrow> string option \<Rightarrow> tenant_cache
     \<Rightarrow> (execution_target option \<times> tenant_cache) io" where
  "target_without_roles tenantId mailboxId requestedAgentId cache =
     await (query (\<lambda>s. first_row (deployment_rows s mailboxId tenantId requestedAgentId))) (\<lambda>row.
     case row of None \<Rightarrow> ret (None, cache)
     | Some d \<Rightarrow> await (agentMatchesMailboxTenant tenantId cache (dp_agent_id d)) (\<lambda>mc.
         ret (if fst mc then Some (deployment_target d) else None, snd mc)))"

text \<open>After the \<open>try\<close> block: the requested agent itself, or any bound agent of the tenant.\<close>

definition target_fallback ::
  "string \<Rightarrow> string \<Rightarrow> string option \<Rightarrow> mailbox_role list \<Rightarrow> bool \<Rightarrow> tenant_cache
     \<Rightarrow> execution_target option io" where
  "target_fallback tenantId mailboxId requestedAgentId roles hasRoleBinding cache =
     (if truthy requestedAgentId
      then if roles \<noteq> [] \<and> \<not> hasRoleBinding then ret None
           else await (getAgent (the requestedAgentId)) (\<lambda>agent.
                ret (map_option (\<lambda>a. (agent_only (the requestedAgentId))
                       \<lparr>xt_agent_version_id := ag_default_version_id a\<rparr>) agent))
      else await (query (\<lambda>s. bound_agents s mailboxId roles)) (\<lambda>as.
           await (first_matching_agent tenantId cache as) (\<lambda>tc. ret (fst tc))))"

text \<open>
  Before the \<open>try\<close> block: \<open>Inl ()\<close> is the early \<open>return null\<close>, otherwise whether the requested
  agent has a binding in one of the roles.
\<close>

definition requested_binding ::
  "string \<Rightarrow> string \<Rightarrow> string option \<Rightarrow> mailbox_role list
     \<Rightarrow> (unit + (bool \<times> tenant_cache)) io" where
  "requested_binding tenantId mailboxId requestedAgentId roles =
     (if \<not> truthy requestedAgentId then ret (Inr (False, []))
      else await (agentMatchesMailboxTenant tenantId [] (the requestedAgentId)) (\<lambda>mc.
        if \<not> fst mc then ret (Inl ())
        else if roles = [] then ret (Inr (False, snd mc))
        else await (hasActiveMailboxBinding (the requestedAgentId) mailboxId roles) (\<lambda>hasRole.
          if hasRole then ret (Inr (True, snd mc))
          else await (hasActiveMailboxBinding (the requestedAgentId) mailboxId []) (\<lambda>hasAny.
               ret (if hasAny then Inl () else Inr (False, snd mc))))))"

definition resolveAgentExecutionTarget ::
  "string \<Rightarrow> string option \<Rightarrow> mailbox_role list \<Rightarrow> execution_target option io" where
  "resolveAgentExecutionTarget mailboxId requestedAgentId roles =
     await (getMailboxById mailboxId) (\<lambda>mailbox. case mailbox of
       None \<Rightarrow> ret None
     | Some m \<Rightarrow>
         let tenantId = mb_tenant_id m in
         await (requested_binding tenantId mailboxId requestedAgentId roles) (\<lambda>rb. case rb of
           Inl _ \<Rightarrow> ret None
         | Inr hc \<Rightarrow>
             await (try_catch
                 (if roles \<noteq> [] then target_with_roles tenantId mailboxId requestedAgentId roles (snd hc)
                  else target_without_roles tenantId mailboxId requestedAgentId (snd hc))
                 (\<lambda>e. if \<not> isMissingTableError e then throw e else ret (None, snd hc))) (\<lambda>tc.
             case fst tc of Some t \<Rightarrow> ret (Some t)
             | None \<Rightarrow> target_fallback tenantId mailboxId requestedAgentId roles (fst hc) (snd tc))))"

section \<open>The store invariant\<close>

lemma keeps_agentMatches [keeps_intros]: "keeps (stored K es J) (agentMatchesMailboxTenant t c a)"
  unfolding agentMatchesMailboxTenant_def Let_def by (intro keeps_intros)

lemma keeps_scan_deployments [keeps_intros]: "keeps (stored K es J) (scan_deployments t mb rs f c ds)"
  by (induction ds arbitrary: f c) (auto intro!: keeps_intros)

lemma keeps_first_matching [keeps_intros]: "keeps (stored K es J) (first_matching_agent t c as)"
  by (induction as arbitrary: c) (auto intro!: keeps_intros)

lemma keeps_resolveTarget [keeps_intros]:
  "keeps (stored K es J) (resolveAgentExecutionTarget mb g rs)"
  unfolding resolveAgentExecutionTarget_def requested_binding_def target_with_roles_def
    target_without_roles_def target_fallback_def
  by (intro keeps_intros)

end
