(* ===== verification/MailTasks.thy ===== *)
theory MailTasks
  imports MailMessages
begin

text \<open>
  \<open>src/repositories/mail.ts\<close>, tasks: one task per source message and type, deduplicated by the
  insertion itself; a failed task is reset instead of being created again; the claim hands a
  queued task to one executor.
\<close>

definition deleteTask :: "string \<Rightarrow> unit io" where
  "deleteTask taskId =
     seq (execute (\<lambda>s. delete_rows tasks tasks_update (\<lambda>t. tsk_id t = taskId) s)) (ret ())"

section \<open>Look-ups\<close>

definition listTasks :: "string \<Rightarrow> task_status option \<Rightarrow> string list \<Rightarrow> task_row list io" where
  "listTasks agentId status mailboxIds =
     await (query (\<lambda>s. order_desc tsk_priority (order_desc tsk_created_at
       (filter (\<lambda>t. tsk_assigned_agent t = Some agentId
                 \<and> (status = None \<or> status = Some (tsk_status t)) \<and> task_visible s t) (tasks s)))))
     (\<lambda>rows. ret (filter (\<lambda>t. mailboxIds = [] \<or> tsk_mailbox_id t \<in> set mailboxIds) rows))"

definition getTask :: "string \<Rightarrow> task_row option io" where
  "getTask taskId =
     query (\<lambda>s. first_row (filter (\<lambda>t. tsk_id t = taskId \<and> task_visible s t) (tasks s)))"

definition getTaskBySourceMessageId :: "string \<Rightarrow> string \<Rightarrow> task_row option io" where
  "getTaskBySourceMessageId sourceMessageId taskType =
     await (query (\<lambda>s. take 2 (order_desc tsk_created_at
       (filter (\<lambda>t. tsk_source_message_id t = sourceMessageId \<and> tsk_task_type t = taskType
                 \<and> task_visible s t) (tasks s)))))
     (\<lambda>rows. ret (the_only rows))"

definition binding_visible :: "store \<Rightarrow> agent_mailbox_row \<Rightarrow> bool" where
  "binding_visible s b \<longleftrightarrow> mailbox_of_tenant s (am_mailbox_id b) (am_tenant_id b)
     \<and> agent_of_tenant s (am_agent_id b) (am_tenant_id b)"

text \<open>A mailbox with exactly one active agent assigns its tasks to it.\<close>

definition resolveAssignedAgent :: "string \<Rightarrow> string option io" where
  "resolveAssignedAgent mailboxId =
     await (query (\<lambda>s. take 2 (js_unique (map am_agent_id (order_asc am_created_at
       (filter (\<lambda>b. am_mailbox_id b = mailboxId \<and> am_status b = ''active'' \<and> binding_visible s b)
          (agent_mailboxes s)))))))
     (\<lambda>rows. ret (the_only rows))"

section \<open>Creation\<close>

record task_input =
  ti_tenant_id :: string
  ti_mailbox_id :: string
  ti_source_message_id :: string
  ti_task_type :: string
  ti_priority :: int
  ti_status :: task_status
  ti_assigned_agent :: "string option"

definition new_task_row :: "task_input \<Rightarrow> string \<Rightarrow> timestamp \<Rightarrow> task_row" where
  "new_task_row input i timestamp =
     \<lparr>tsk_id = i, tsk_tenant_id = ti_tenant_id input, tsk_mailbox_id = ti_mailbox_id input,
      tsk_source_message_id = ti_source_message_id input, tsk_task_type = ti_task_type input,
      tsk_priority = ti_priority input, tsk_status = ti_status input,
      tsk_assigned_agent = ti_assigned_agent input, tsk_result_r2_key = None,
      tsk_created_at = timestamp, tsk_updated_at = timestamp\<rparr>"

definition task_id_taken :: "store \<Rightarrow> string \<Rightarrow> bool" where
  "task_id_taken s i \<longleftrightarrow> (\<exists>t \<in> set (tasks s). tsk_id t = i)"

definition cleanupTaskIfParentsMissing :: "string \<Rightarrow> task_input \<Rightarrow> unit io" where
  "cleanupTaskIfParentsMissing taskId input =
     await (query (\<lambda>s. mailbox_of_tenant s (ti_mailbox_id input) (ti_tenant_id input)))
       (\<lambda>mailboxExists.
     await (query (\<lambda>s. \<exists>m \<in> set (messages s). msg_id m = ti_source_message_id input
              \<and> msg_tenant_id m = ti_tenant_id input \<and> msg_mailbox_id m = ti_mailbox_id input))
       (\<lambda>sourceMessageExists.
     await (if truthy (ti_assigned_agent input)
            then query (\<lambda>s. agent_of_tenant s (the (ti_assigned_agent input)) (ti_tenant_id input))
            else ret True) (\<lambda>assignedAgentExists.
     if \<not> mailboxExists \<or> \<not> sourceMessageExists \<or> \<not> assignedAgentExists
     then seq (catch_undefined (deleteTask taskId))
            (throw (PlainError (''Task '' @ taskId
               @ '' could not be finalized because the mailbox, source message, or assigned agent no longer exists'')))
     else ret ())))"

definition load_or_discard_task :: "string \<Rightarrow> task_row io" where
  "load_or_discard_task i =
     await (getTask i) (\<lambda>created. case created of
       None \<Rightarrow> seq (catch_undefined (deleteTask i))
                 (throw (PlainError (''Failed to load task '' @ i)))
     | Some t \<Rightarrow> ret t)"

definition createTask :: "task_input \<Rightarrow> task_row io" where
  "createTask input =
     await (createId ''tsk'') (\<lambda>i.
     await nowIso (\<lambda>timestamp.
     seq (execute_checked (\<lambda>s. insert_checked tasks_update (task_id_taken s i)
            (new_task_row input i timestamp) s))
     (seq (cleanupTaskIfParentsMissing i input)
     (load_or_discard_task i))))"

text \<open>The dedupe clause: a visible task of the same message, type, tenant and mailbox.\<close>

definition task_duplicate :: "store \<Rightarrow> task_input \<Rightarrow> bool" where
  "task_duplicate s input \<longleftrightarrow>
     (\<exists>t \<in> set (tasks s). tsk_source_message_id t = ti_source_message_id input
        \<and> tsk_task_type t = ti_task_type input \<and> tsk_tenant_id t = ti_tenant_id input
        \<and> tsk_mailbox_id t = ti_mailbox_id input \<and> task_visible s t)"

definition insertTask :: "task_input \<Rightarrow> string \<Rightarrow> timestamp \<Rightarrow> nat io" where
  "insertTask input i timestamp =
     execute_checked (\<lambda>s. insert_select tasks_update (task_duplicate s input) (task_id_taken s i)
       (new_task_row input i timestamp) s)"

definition deleteInvalidTasksForSourceMessage :: "task_input \<Rightarrow> nat io" where
  "deleteInvalidTasksForSourceMessage input =
     await (query (\<lambda>s. map tsk_id (filter (\<lambda>t. tsk_source_message_id t = ti_source_message_id input
              \<and> tsk_task_type t = ti_task_type input
              \<and> \<not> (tsk_tenant_id t = ti_tenant_id input \<and> tsk_mailbox_id t = ti_mailbox_id input
                   \<and> task_visible s t)) (tasks s)))) (\<lambda>ids.
     seq (for_each ids (\<lambda>i. catch_undefined (deleteTask i)))
     (ret (length ids)))"

text \<open>\<open>Inl t\<close>: created just now; \<open>Inr e\<close>: the existing task, if one could be found.\<close>

definition retry_insert_task ::
  "task_input \<Rightarrow> string \<Rightarrow> timestamp \<Rightarrow> (task_row + task_row option) io" where
  "retry_insert_task input i timestamp =
     await (deleteInvalidTasksForSourceMessage input) (\<lambda>deleted.
     if deleted = 0 then ret (Inr None)
     else await (insertTask input i timestamp) (\<lambda>changes.
          if changes > 0
          then seq (cleanupTaskIfParentsMissing i input)
                 (await (load_or_discard_task i) (\<lambda>t. ret (Inl t)))
          else await (getTaskBySourceMessageId (ti_source_message_id input) (ti_task_type input))
                 (\<lambda>existing. ret (Inr existing))))"

definition resetFailedTask :: "task_input \<Rightarrow> timestamp \<Rightarrow> task_row \<Rightarrow> task_row io" where
  "resetFailedTask input timestamp existingTask =
     await (execute (\<lambda>s. update_rows tasks tasks_update
       (\<lambda>t. tsk_id t = tsk_id existingTask \<and> task_visible s t)
       (\<lambda>t. t\<lparr>tsk_priority := ti_priority input, tsk_status := ti_status input,
              tsk_assigned_agent := ti_assigned_agent input, tsk_result_r2_key := None,
              tsk_updated_at := timestamp\<rparr>) s)) (\<lambda>changes.
     seq (requireStateUpdateApplied changes (''Task '' @ tsk_id existingTask))
     (await (getTask (tsk_id existingTask)) (\<lambda>row.
      requireRow row (''Failed to load task '' @ tsk_id existingTask))))"

definition reuse_task :: "task_input \<Rightarrow> timestamp \<Rightarrow> task_row option \<Rightarrow> task_row io" where
  "reuse_task input timestamp existing =
     await (requireRow existing ''Task lookup failed after duplicate source-message insert'') (\<lambda>t.
     if tsk_status t \<noteq> TaskFailed then ret t else resetFailedTask input timestamp t)"

definition getOrCreateTaskForSourceMessage :: "task_input \<Rightarrow> task_row io" where
  "getOrCreateTaskForSourceMessage input =
     await (createId ''tsk'') (\<lambda>i.
     await nowIso (\<lambda>timestamp.
     await (insertTask input i timestamp) (\<lambda>changes.
     if changes > 0
     then seq (cleanupTaskIfParentsMissing i input)
            (await (getTask i) (\<lambda>row. requireRow row (''Failed to load task '' @ i)))
     else
       await (getTaskBySourceMessageId (ti_source_message_id input) (ti_task_type input)) (\<lambda>existing.
       if existing \<noteq> None then reuse_task input timestamp existing
       else await (retry_insert_task input i timestamp) (\<lambda>retried. case retried of
              Inl t \<Rightarrow> ret t
            | Inr found \<Rightarrow> reuse_task input timestamp found)))))"

section \<open>State\<close>

definition claim_task_stmt :: "string \<Rightarrow> timestamp \<Rightarrow> store \<Rightarrow> nat \<times> store" where
  "claim_task_stmt taskId updatedAt s = update_rows tasks tasks_update
     (\<lambda>t. tsk_id t = taskId \<and> tsk_status t = TaskQueued \<and> task_visible s t)
     (\<lambda>t. t\<lparr>tsk_status := TaskRunning, tsk_updated_at := updatedAt\<rparr>) s"

definition claimTaskForExecution :: "string \<Rightarrow> bool io" where
  "claimTaskForExecution taskId =
     await nowIso (\<lambda>updatedAt.
     await (execute (claim_task_stmt taskId updatedAt)) (\<lambda>changes.
     if changes = 0 then ret False
     else await (getTask taskId) (\<lambda>t.
          if t = None then seq (catch_undefined (deleteTask taskId)) (ret False) else ret True)))"

definition updateTaskAssignment :: "string \<Rightarrow> string option \<Rightarrow> unit io" where
  "updateTaskAssignment taskId assignedAgent =
     await nowIso (\<lambda>updatedAt.
     await (execute (\<lambda>s. update_rows tasks tasks_update
       (\<lambda>t. tsk_id t = taskId \<and> task_visible s t)
       (\<lambda>t. t\<lparr>tsk_assigned_agent := assignedAgent, tsk_updated_at := updatedAt\<rparr>) s))
     (\<lambda>changes. requireStateUpdateApplied changes (''Task '' @ taskId)))"

text \<open>An absent result key keeps the old one; an explicit \<open>null\<close> (\<open>Some None\<close>) clears it.\<close>

definition updateTaskStatus :: "string \<Rightarrow> task_status \<Rightarrow> string option option \<Rightarrow> unit io" where
  "updateTaskStatus taskId status resultR2Key =
     await nowIso (\<lambda>updatedAt.
     await (execute (\<lambda>s. update_rows tasks tasks_update
       (\<lambda>t. tsk_id t = taskId \<and> task_visible s t)
       (\<lambda>t. t\<lparr>tsk_status := status,
              tsk_result_r2_key := (case resultR2Key of Some k \<Rightarrow> k | None \<Rightarrow> tsk_result_r2_key t),
              tsk_updated_at := updatedAt\<rparr>) s))
     (\<lambda>changes. requireStateUpdateApplied changes (''Task '' @ taskId)))"

text \<open>A queued task is free to be claimed.\<close>

definition task_free :: "string \<Rightarrow> store \<Rightarrow> bool" where
  "task_free taskId s \<longleftrightarrow>
     (\<exists>t \<in> set (tasks s). tsk_id t = taskId \<and> tsk_status t = TaskQueued \<and> task_visible s t)"

lemma task_visible_after:
  "task_visible (snd (update_rows tasks tasks_update P f s)) = task_visible s"
  by (rule ext) (simp add: update_rows_def task_visible_def agent_of_tenant_def
      mailbox_of_tenant_def cong: option.case_cong)

interpretation task_claim: guarded_claim "claim_task_stmt i" "task_free i"
proof
  fix t s
  show "fst (claim_task_stmt i t s) \<noteq> 0 \<longleftrightarrow> task_free i s"
    unfolding claim_task_stmt_def task_free_def by (rule tasks_tbl.update_hit)
  show "\<not> task_free i (snd (claim_task_stmt i t s))"
    unfolding claim_task_stmt_def task_free_def task_visible_after
    by (rule tasks_tbl.update_exhausts) auto
  show "fst (claim_task_stmt i t s) = 0 \<Longrightarrow> snd (claim_task_stmt i t s) = s"
    unfolding claim_task_stmt_def by (rule tasks_tbl.update_miss)
qed

section \<open>The store invariant\<close>

lemma keeps_task_reads [keeps_intros]:
  "keeps (stored K es J) (listTasks g st mbs)" "keeps (stored K es J) (getTask i)"
  "keeps (stored K es J) (getTaskBySourceMessageId m ty)" "keeps (stored K es J) (resolveAssignedAgent mb)"
  unfolding listTasks_def getTask_def getTaskBySourceMessageId_def resolveAssignedAgent_def
  by (intro keeps_intros)+

lemma keeps_deleteTask [keeps_intros]: "keeps (stored K es db_ok) (deleteTask i)"
  unfolding deleteTask_def by (intro keeps_intros)

lemma keeps_task_steps [keeps_intros]:
  "keeps (stored K es db_ok) (cleanupTaskIfParentsMissing i input)"
  "keeps (stored K es db_ok) (load_or_discard_task i)"
  "keeps (stored K es db_ok) (deleteInvalidTasksForSourceMessage input)"
  unfolding cleanupTaskIfParentsMissing_def load_or_discard_task_def
    deleteInvalidTasksForSourceMessage_def
  by (intro keeps_intros)+

lemma keeps_insertTask [keeps_intros]: "keeps (stored K es db_ok) (insertTask input i t)"
  unfolding insertTask_def by (intro keeps_intros) (auto simp: task_id_taken_def new_task_row_def)

lemma keeps_reuse_task [keeps_intros]: "keeps (stored K es db_ok) (reuse_task input t e)"
  unfolding reuse_task_def resetFailedTask_def by (intro keeps_intros; simp)

lemma keeps_createTask [keeps_intros]: "keeps (stored K es db_ok) (createTask input)"
  unfolding createTask_def
  by (intro keeps_intros) (auto simp: task_id_taken_def new_task_row_def)

lemma keeps_getOrCreateTask [keeps_intros]:
  "keeps (stored K es db_ok) (getOrCreateTaskForSourceMessage input)"
  unfolding getOrCreateTaskForSourceMessage_def retry_insert_task_def by (intro keeps_intros)

lemma keeps_task_state [keeps_intros]:
  "keeps (stored K es db_ok) (claimTaskForExecution i)"
  "keeps (stored K es db_ok) (updateTaskAssignment i a)"
  "keeps (stored K es db_ok) (updateTaskStatus i st k)"
  unfolding claimTaskForExecution_def claim_task_stmt_def updateTaskAssignment_def
    updateTaskStatus_def
  by (intro keeps_intros; simp)+

section \<open>Properties\<close>

text \<open>
  A task is executed by one agent run at a time: of several consumers that claim the same task,
  at most one wins until the task is put back, and on a queued task the first one does.
\<close>

theorem one_run_claims_a_task:
  assumes "never_frees (task_free i) es"
  shows "winners (claim_task_stmt i) es s \<le> 1
    \<and> (task_free i s \<longrightarrow> winners (claim_task_stmt i) (Claim now # es) s = 1)"
  using task_claim.at_most_one_winner [OF assms] task_claim.first_claim_wins [OF _ assms] by blast

theorem one_run_claims_a_task_witness:
  "winners (claim_task_stmt ''tsk1'') [Claim 1, Claim 2]
     (demo_store DraftApproved JobSent 5 1\<lparr>tasks := [demo_task]\<rparr>) = 1"
  using one_run_claims_a_task [of "''tsk1''" "[Claim 2]"
      "demo_store DraftApproved JobSent 5 1\<lparr>tasks := [demo_task]\<rparr>" 1]
  by (simp add: never_frees_def task_free_def demo_task_def demo_defs visibility_defs)

end
