(* ===== verification/EmailIngest.thy ===== *)
theory EmailIngest
  imports WorkerEnv ExecutionTarget MailThreads MailTasks
begin

text \<open>
  \<open>src/lib/email-ingest.ts\<close>: one inbound mail is parsed, put into a thread, stored in normalized
  form, its attachments are recorded, a task is created for the agent of the mailbox, and the
  agent is woken up. \<open>recordTaskNeedsReview\<close> parks a task for a human with a trace of the reason.
\<close>

definition deleteR2Objects :: "string list \<Rightarrow> unit io" where
  "deleteR2Objects r2Keys =
     for_each (js_unique (filter (\<lambda>k. k \<noteq> []) (map js_trim r2Keys)))
       (\<lambda>k. catch_undefined (r2_delete k))"

definition enqueueDeadLetter :: "string \<Rightarrow> string \<Rightarrow> string \<Rightarrow> unit io" where
  "enqueueDeadLetter source refId reason = send_out (ToDeadLetter source refId reason)"

section \<open>Parking a task\<close>

record review_input =
  rv_task_id :: string
  rv_source_message_id :: string
  rv_mailbox_id :: string
  rv_agent_id :: "string option"
  rv_agent_version_id :: "string option"
  rv_deployment_id :: "string option"
  rv_queued_agent_id :: "string option"
  rv_queued_agent_version_id :: "string option"
  rv_queued_deployment_id :: "string option"
  rv_review_reason :: string
  rv_source_message_status :: "json"

definition or_null :: "string option \<Rightarrow> json" where
  "or_null v = (case v of None \<Rightarrow> JNull | Some s \<Rightarrow> JStr s)"

definition first_some :: "'a option \<Rightarrow> 'a option \<Rightarrow> 'a option" where
  "first_some a b = (case a of Some x \<Rightarrow> Some x | None \<Rightarrow> b)"

definition review_trace ::
  "review_input \<Rightarrow> string \<Rightarrow> string option \<Rightarrow> string \<Rightarrow> timestamp \<Rightarrow> json_object" where
  "review_trace input runId effectiveAgentId model timestamp =
     [(''runId'', JStr runId), (''taskId'', JStr (rv_task_id input)),
      (''sourceMessageId'', JStr (rv_source_message_id input)),
      (''mailboxId'', JStr (rv_mailbox_id input)),
      (''queuedAgentId'', or_null (rv_queued_agent_id input)),
      (''queuedAgentVersionId'', or_null (rv_queued_agent_version_id input)),
      (''queuedDeploymentId'', or_null (rv_queued_deployment_id input)),
      (''agentId'', or_null effectiveAgentId),
      (''agentVersionId'', or_null (rv_agent_version_id input)),
      (''deploymentId'', or_null (rv_deployment_id input)),
      (''model'', JStr model), (''status'', JStr ''needs_review''),
      (''reviewReason'', JStr (rv_review_reason input)),
      (''sourceMessageStatus'', rv_source_message_status input),
      (''startedAt'', JNum timestamp), (''completedAt'', JNum timestamp)]"

text \<open>\<open>INSERT OR REPLACE INTO agent_runs\<close>; the column \<open>agent_id\<close> is \<open>NOT NULL\<close>.\<close>

definition replace_agent_run :: "agent_run_row \<Rightarrow> store \<Rightarrow> store" where
  "replace_agent_run r s =
     agent_runs_update (\<lambda>t. tbl_delete (\<lambda>x. ar_id x = ar_id r) t @ [r]) s"

definition insert_agent_run ::
  "string \<Rightarrow> string \<Rightarrow> string option \<Rightarrow> string \<Rightarrow> string \<Rightarrow> timestamp \<Rightarrow> unit io" where
  "insert_agent_run runId taskId agentId model traceR2Key timestamp =
     call_store (\<lambda>s. case agentId of
       None \<Rightarrow> (Inl (PlainError ''NOT NULL constraint failed: agent_runs.agent_id''), s)
     | Some a \<Rightarrow> (Inr (), replace_agent_run
         \<lparr>ar_id = runId, ar_task_id = taskId, ar_agent_id = a, ar_model = Some model,
          ar_status = ''needs_review'', ar_trace_r2_key = Some traceR2Key,
          ar_started_at = timestamp, ar_completed_at = Some timestamp\<rparr> s))"

definition delete_agent_run :: "string \<Rightarrow> nat io" where
  "delete_agent_run runId =
     execute (\<lambda>s. delete_rows agent_runs agent_runs_update (\<lambda>r. ar_id r = runId) s)"

definition recordTaskNeedsReview :: "review_input \<Rightarrow> string io" where
  "recordTaskNeedsReview input =
     (let runId = ''run_'' @ rv_task_id input;
          effectiveAgentId = first_some (rv_agent_id input) (rv_queued_agent_id input);
          traceR2Key = ''traces/'' @ runId @ ''.json''
      in await nowIso (\<lambda>timestamp.
         await (if truthy effectiveAgentId \<and> truthy (rv_agent_version_id input)
                then getAgentVersion (the effectiveAgentId) (the (rv_agent_version_id input))
                else ret None) (\<lambda>version.
         let model = (case version of None \<Rightarrow> ''gpt-5''
                      | Some v \<Rightarrow> (case av_model (ver_row v) of None \<Rightarrow> ''gpt-5'' | Some m \<Rightarrow> m)) in
         seq (r2_put traceR2Key (R2Json (review_trace input runId effectiveAgentId model timestamp)))
         (seq (try_catch
                (seq (insert_agent_run runId (rv_task_id input) effectiveAgentId model traceR2Key
                        timestamp)
                     (updateTaskStatus (rv_task_id input) TaskNeedsReview (Some (Some traceR2Key))))
                (\<lambda>e. seq (catch_undefined (delete_agent_run runId))
                      (seq (deleteR2Objects [traceR2Key]) (throw e))))
         (ret traceR2Key)))))"

section \<open>One inbound mail\<close>

record ingest_job =
  ij_message_id :: string
  ij_tenant_id :: string
  ij_mailbox_id :: string
  ij_raw_r2_key :: string

definition receive_capable_roles :: "mailbox_role list" where
  "receive_capable_roles = [RolePrimary, RoleShared, RoleReceiveOnly]"

text \<open>The bytes of a stored object.\<close>

definition object_text :: "r2_object \<Rightarrow> string" where
  "object_text obj = (case obj of R2Raw s \<Rightarrow> s | R2Json j \<Rightarrow> '''')"

definition parse_mail :: "worker_env \<Rightarrow> string \<Rightarrow> parsed_email io" where
  "parse_mail env raw = await (createId ''thread'') (\<lambda>fresh.
     case parseRawEmail (text_decoders env) fresh raw of Inl e \<Rightarrow> throw e | Inr p \<Rightarrow> ret p)"

definition referenced_ids :: "parsed_email \<Rightarrow> string list" where
  "referenced_ids p = filter (\<lambda>v. js_trim v \<noteq> [])
     ((case pe_in_reply_to p of None \<Rightarrow> [] | Some i \<Rightarrow> [i]) @ rev (pe_references p))"

definition locate_thread :: "ingest_job \<Rightarrow> parsed_email \<Rightarrow> thread_row io" where
  "locate_thread job p =
     await (findThreadByReplyContext (ij_tenant_id job) (ij_mailbox_id job) (referenced_ids p)
              (pe_subject p) (first_some (pe_reply_to p) (pe_from p))) (\<lambda>found. case found of
       Some t \<Rightarrow> ret t
     | None \<Rightarrow> getOrCreateThread (ij_tenant_id job) (ij_mailbox_id job) (pe_thread_key p)
                 (Some (normalizeSubject (pe_subject p))))"

definition opt_json :: "string \<Rightarrow> string option \<Rightarrow> json_object" where
  "opt_json k v = (case v of None \<Rightarrow> [] | Some s \<Rightarrow> [(k, JStr s)])"

definition normalized_document :: "parsed_email \<Rightarrow> json_object" where
  "normalized_document p =
     [(''text'', JStr (case pe_text p of None \<Rightarrow> '''' | Some t \<Rightarrow> t)),
      (''html'', JStr (case pe_html p of None \<Rightarrow> '''' | Some t \<Rightarrow> t)),
      (''headers'', JObj (pe_headers p))]
     @ opt_json ''from'' (pe_from p) @ opt_json ''replyTo'' (pe_reply_to p)
     @ opt_json ''messageId'' (pe_message_id p) @ opt_json ''inReplyTo'' (pe_in_reply_to p)
     @ [(''references'', JArr (map JStr (pe_references p)))]"

definition store_normalized :: "ingest_job \<Rightarrow> parsed_email \<Rightarrow> thread_row \<Rightarrow> unit io" where
  "store_normalized job p thread =
     (let normalizedR2Key = ''normalized/'' @ ij_message_id job @ ''.json'' in
      seq (r2_put normalizedR2Key (R2Json (normalized_document p)))
      (seq (try_catch
             (updateInboundMessageNormalized (ij_message_id job) (th_id thread) normalizedR2Key
                (pe_subject p) (pe_snippet p) (pe_message_id p)
                (first_some (pe_reply_to p) (pe_from p)) MsgNormalized)
             (\<lambda>e. seq (deleteR2Objects [normalizedR2Key])
                   (seq (catch_undefined (deleteThreadIfUnreferenced (th_id thread))) (throw e))))
      (updateThreadTimestamp (th_id thread))))"

definition attachment_of :: "ingest_job \<Rightarrow> nat \<Rightarrow> parsed_attachment \<Rightarrow> attachment_input" where
  "attachment_of job index a =
     (let i = ''att_'' @ ij_message_id job @ ''_'' @ nat_digits (index + 1) in
      \<lparr>ai_id = i, ai_filename = pa_filename a, ai_content_type = pa_content_type a,
       ai_size_bytes = int (length (pa_content a)),
       ai_r2_key = ''attachments/'' @ ij_message_id job @ ''/'' @ i, ai_sha256 = None\<rparr>)"

definition record_attachments :: "ingest_job \<Rightarrow> parsed_email \<Rightarrow> unit io" where
  "record_attachments job p =
     (let rows = map (\<lambda>(i, a). (attachment_of job i a, a)) (enumerate 0 (pe_attachments p)) in
      seq (for_each rows (\<lambda>r. r2_put (ai_r2_key (fst r)) (R2Raw (pa_content (snd r)))))
      (await (try_catch (insertAttachments (ij_message_id job) (map fst rows))
                (\<lambda>e. seq (deleteR2Objects (map (\<lambda>r. ai_r2_key (fst r)) rows)) (throw e)))
         deleteR2Objects))"

definition ingest_task :: "ingest_job \<Rightarrow> execution_target option \<Rightarrow> task_row option io" where
  "ingest_task job target = (case target of
     Some t \<Rightarrow> await (getOrCreateTaskForSourceMessage
         \<lparr>ti_tenant_id = ij_tenant_id job, ti_mailbox_id = ij_mailbox_id job,
          ti_source_message_id = ij_message_id job, ti_task_type = ''reply'', ti_priority = 50,
          ti_status = TaskQueued, ti_assigned_agent = Some (xt_agent_id t)\<rparr>)
         (\<lambda>task. ret (Some task))
   | None \<Rightarrow> getTaskBySourceMessageId (ij_message_id job) ''reply'')"

definition advance_message_status ::
  "ingest_job \<Rightarrow> message_row option \<Rightarrow> task_row option \<Rightarrow> unit io" where
  "advance_message_status job existingMessage task =
     (if (case task of None \<Rightarrow> False
          | Some t \<Rightarrow> tsk_status t \<in> {TaskQueued, TaskRunning, TaskNeedsReview})
      then updateMessageStatus (ij_message_id job) MsgTasked
      else case existingMessage of
        None \<Rightarrow> ret ()
      | Some m \<Rightarrow> if msg_status m \<noteq> MsgReceived \<and> msg_status m \<noteq> MsgNormalized
                  then updateMessageStatus (ij_message_id job) (msg_status m) else ret ())"

primrec show_message_status :: "message_status \<Rightarrow> string" where
  "show_message_status MsgReceived = ''received''"
| "show_message_status MsgNormalized = ''normalized''"
| "show_message_status MsgTasked = ''tasked''"
| "show_message_status MsgReplied = ''replied''"
| "show_message_status MsgIgnored = ''ignored''"
| "show_message_status MsgFailed = ''failed''"

definition dispatch_review :: "task_row \<Rightarrow> execution_target \<Rightarrow> message_row option \<Rightarrow> review_input" where
  "dispatch_review task target existingMessage =
     \<lparr>rv_task_id = tsk_id task, rv_source_message_id = tsk_source_message_id task,
      rv_mailbox_id = tsk_mailbox_id task, rv_agent_id = Some (xt_agent_id target),
      rv_agent_version_id = xt_agent_version_id target, rv_deployment_id = xt_deployment_id target,
      rv_queued_agent_id = Some (xt_agent_id target),
      rv_queued_agent_version_id = xt_agent_version_id target,
      rv_queued_deployment_id = xt_deployment_id target,
      rv_review_reason = ''agent_execute_queue_unavailable'',
      rv_source_message_status = JStr (case existingMessage of None \<Rightarrow> ''normalized''
        | Some m \<Rightarrow> show_message_status (msg_status m))\<rparr>"

definition wake_agent ::
  "execution_target option \<Rightarrow> task_row option \<Rightarrow> message_row option \<Rightarrow> unit io" where
  "wake_agent target task existingMessage = (case (target, task) of
     (Some x, Some t) \<Rightarrow>
       if tsk_status t \<noteq> TaskQueued then ret ()
       else try_catch (send_out (ToAgentQueue (tsk_id t))) (\<lambda>e.
         seq (recordTaskNeedsReview (dispatch_review t x existingMessage))
           (catch_undefined (enqueueDeadLetter ''agent-execute-dispatch'' (tsk_id t)
              (error_message e))))
   | _ \<Rightarrow> ret ())"

definition processEmailIngestJob :: "worker_env \<Rightarrow> ingest_job \<Rightarrow> unit io" where
  "processEmailIngestJob env job =
     await (getMessage (ij_message_id job)) (\<lambda>existingMessage.
     await (r2_get (ij_raw_r2_key job)) (\<lambda>rawObject.
     await (requireRow rawObject ''Raw email object not found'') (\<lambda>raw.
     await (parse_mail env (decode_utf8 (text_decoders env) (object_text raw))) (\<lambda>parsed.
     await (locate_thread job parsed) (\<lambda>thread.
     seq (store_normalized job parsed thread)
     (seq (record_attachments job parsed)
     (await (resolveAgentExecutionTarget (ij_mailbox_id job) None receive_capable_roles) (\<lambda>target.
      await (ingest_task job target) (\<lambda>task.
      seq (advance_message_status job existingMessage task)
      (wake_agent target task existingMessage))))))))))"

text \<open>Queue first, in place only when the queue refuses the job.\<close>

definition dispatchEmailIngestWithFallback :: "worker_env \<Rightarrow> ingest_job \<Rightarrow> unit io" where
  "dispatchEmailIngestWithFallback env job =
     try_catch (send_out (ToIngestQueue (ij_message_id job))) (\<lambda>_. processEmailIngestJob env job)"

section \<open>The store invariant\<close>

lemma keeps_deleteR2Objects [keeps_intros]: "keeps (stored K es db_ok) (deleteR2Objects ks)"
  unfolding deleteR2Objects_def by (intro keeps_intros)

lemma keeps_enqueueDeadLetter [keeps_intros]: "keeps (stored K es J) (enqueueDeadLetter a b c)"
  unfolding enqueueDeadLetter_def by (rule keeps_stored_traffic)

lemma keeps_agent_runs [keeps_intros]:
  "keeps (stored K es db_ok) (insert_agent_run i t a m k ts)" "keeps (stored K es db_ok) (delete_agent_run i)"
  unfolding insert_agent_run_def delete_agent_run_def
   apply (rule keeps_stored_call, simp add: replace_agent_run_def split: option.split)
  by (rule keeps_stored_execute, simp add: delete_rows_def)

lemma keeps_recordTaskNeedsReview [keeps_intros]:
  "keeps (stored K es db_ok) (recordTaskNeedsReview input)"
  unfolding recordTaskNeedsReview_def by (intro keeps_intros)

lemma keeps_ingest_phases [keeps_intros]:
  "keeps (stored K es J) (parse_mail env raw)"
  "keeps (stored K es db_ok) (locate_thread job p)"
  "keeps (stored K es db_ok) (store_normalized job p th)"
  "keeps (stored K es db_ok) (record_attachments job p)"
  "keeps (stored K es db_ok) (ingest_task job target)"
  "keeps (stored K es db_ok) (advance_message_status job m task)"
  unfolding parse_mail_def locate_thread_def store_normalized_def record_attachments_def
    ingest_task_def advance_message_status_def
  by (intro keeps_intros)+

lemma keeps_wake_agent [keeps_intros]: "keeps (stored K es db_ok) (wake_agent x t m)"
  unfolding wake_agent_def by (intro keeps_intros)

lemma keeps_processEmailIngestJob [keeps_intros]:
  "keeps (stored K es db_ok) (processEmailIngestJob env job)"
  unfolding processEmailIngestJob_def by (intro keeps_intros)

lemma keeps_dispatchEmailIngest [keeps_intros]:
  "keeps (stored K es db_ok) (dispatchEmailIngestWithFallback env job)"
  unfolding dispatchEmailIngestWithFallback_def by (intro keeps_intros)

end
