(* ===== verification/OutboundProvider.thy ===== *)
theory OutboundProvider
  imports EmailIngest DraftGuards
begin

text \<open>
  \<open>src/lib/outbound-provider.ts\<close> and \<open>src/lib/internal-delivery.ts\<close>: the two ways a mail leaves. An
  external recipient is reached through the provider, in one call; an internal one gets an inbound
  message of its own in the store, deduplicated by a message id that depends only on the outbound
  job. What the provider answers is the environment's choice.
\<close>

section \<open>Attachments of a draft\<close>

record attachment_ref =
  rf_filename :: "string option"
  rf_content_type :: "string option"
  rf_r2_key :: "string option"

text \<open>
  The objects of \<open>payload.attachments\<close>. (\<open>typeof item === "object"\<close> also holds for arrays, whose
  fields are undefined.)
\<close>

definition attachment_ref_of :: "json \<Rightarrow> attachment_ref option" where
  "attachment_ref_of v = (case v of
     JObj kvs \<Rightarrow> Some \<lparr>rf_filename = str_opt (js_prop kvs ''filename''),
                       rf_content_type = str_opt (js_prop kvs ''contentType''),
                       rf_r2_key = str_opt (js_prop kvs ''r2Key'')\<rparr>
   | JArr vs \<Rightarrow> Some \<lparr>rf_filename = None, rf_content_type = None, rf_r2_key = None\<rparr>
   | _ \<Rightarrow> None)"

definition payload_attachment_refs :: "json_object \<Rightarrow> attachment_ref list" where
  "payload_attachment_refs payload = (case js_prop payload ''attachments'' of
     Some (JArr vs) \<Rightarrow> List.map_filter attachment_ref_of vs | _ \<Rightarrow> [])"

definition last_segment :: "string \<Rightarrow> string" where
  "last_segment k = last (js_split CHR ''/'' k)"

text \<open>
  A reference without a key is skipped; one whose object is gone fails. The stored content type of
  the object is not modelled: it stands for \<open>application/octet-stream\<close>.
\<close>

primrec loadAttachments :: "attachment_ref list \<Rightarrow> (string \<times> string \<times> string) list io" where
  "loadAttachments [] = ret []"
| "loadAttachments (ref # refs) =
     (let r2Key = (case rf_r2_key ref of None \<Rightarrow> '''' | Some k \<Rightarrow> js_trim k) in
      if r2Key = [] then loadAttachments refs
      else await (r2_get r2Key) (\<lambda>object. case object of
          None \<Rightarrow> throw (PlainError (''Attachment not found in R2: '' @ r2Key))
        | Some ob \<Rightarrow> await (loadAttachments refs) (\<lambda>rest.
            ret ((case rf_filename ref of Some f \<Rightarrow> f | None \<Rightarrow> last_segment r2Key,
                  case rf_content_type ref of Some c \<Rightarrow> c | None \<Rightarrow> ''application/octet-stream'',
                  object_text ob) # rest))))"

section \<open>The provider\<close>

record outbound_mail =
  om_from :: string
  om_to :: "string list"
  om_cc :: "string list"
  om_bcc :: "string list"
  om_subject :: string
  om_text :: "string option"
  om_html :: "string option"
  om_in_reply_to :: "string option"
  om_references :: "string list"
  om_attachment_refs :: "attachment_ref list"
  om_reply_to :: "string list"

text \<open>
  One HTTP request to the provider. It is refused, or it is applied and answered, or it is applied
  and the answer is lost; a received answer is a message id or an error.
\<close>

definition provider_request :: "string list \<Rightarrow> string list \<Rightarrow> string list \<Rightarrow> string io" where
  "provider_request to cc bcc = (\<lambda>w.
     let n = ticks w; w' = w\<lparr>store_of := others w n (store_of w), ticks := Suc n\<rparr>;
         sent = w'\<lparr>outbox := outbox w @ [ProviderCall to cc bcc]\<rparr>
     in case fault w n of
          Refused e \<Rightarrow> (Inl (PlainError e), w')
        | ReplyLost e \<Rightarrow> (Inl (PlainError e), sent)
        | Answered \<Rightarrow> (case provider w n of
            Inl e \<Rightarrow> (Inl (PlainError e), sent)
          | Inr messageId \<Rightarrow> (Inr messageId, sent)))"

definition maybeSendMock :: "worker_env \<Rightarrow> string option io" where
  "maybeSendMock env =
     (if \<not> isEnabled (SES_MOCK_SEND env) then ret None
      else await (createId ''mock-outbound'') (\<lambda>i. ret (Some i)))"

definition sendWithResend :: "worker_env \<Rightarrow> outbound_mail \<Rightarrow> string io" where
  "sendWithResend env mail =
     (if \<not> truthy (RESEND_API_KEY env) then throw (PlainError ''Resend API key is not configured'')
      else await (loadAttachments (om_attachment_refs mail)) (\<lambda>attachments.
           await (provider_request (om_to mail) (om_cc mail) (om_bcc mail)) (\<lambda>i.
           if i = [] then throw (PlainError ''Resend send succeeded without id'') else ret i)))"

definition has_raw_features :: "outbound_mail \<Rightarrow> bool" where
  "has_raw_features mail \<longleftrightarrow> om_attachment_refs mail \<noteq> [] \<or> truthy (om_in_reply_to mail)
     \<or> om_references mail \<noteq> []"

definition sendWithSes :: "worker_env \<Rightarrow> outbound_mail \<Rightarrow> string io" where
  "sendWithSes env mail =
     (if \<not> has_raw_features mail then provider_request (om_to mail) (om_cc mail) (om_bcc mail)
      else await (loadAttachments (om_attachment_refs mail)) (\<lambda>attachments.
           provider_request (om_to mail) (om_cc mail) (om_bcc mail)))"

definition sendOutboundDraft :: "worker_env \<Rightarrow> outbound_mail \<Rightarrow> string io" where
  "sendOutboundDraft env mail =
     await (maybeSendMock env) (\<lambda>mock. case mock of
       Some i \<Rightarrow> ret i
     | None \<Rightarrow> if getOutboundProvider env = ProvResend then sendWithResend env mail
               else sendWithSes env mail)"

section \<open>Internal delivery\<close>

definition messageIdDomain :: "string \<Rightarrow> string" where
  "messageIdDomain from' = (case recipientDomain (js_lower (js_trim from')) of
     None \<Rightarrow> ''internal.mailagents'' | Some d \<Rightarrow> d)"

definition buildDeterministicMessageId :: "string \<Rightarrow> string \<Rightarrow> string" where
  "buildDeterministicMessageId outboundJobId from' =
     ''<'' @ outboundJobId @ ''@'' @ messageIdDomain from' @ ''>''"

definition raw_key :: "timestamp \<Rightarrow> string \<Rightarrow> string" where
  "raw_key timestamp messageId =
     ''raw/'' @ iso_year timestamp @ ''/'' @ iso_month timestamp @ ''/'' @ messageId @ ''.eml''"

definition ingest_of :: "message_row \<Rightarrow> string \<Rightarrow> ingest_job" where
  "ingest_of m raw = \<lparr>ij_message_id = msg_id m, ij_tenant_id = msg_tenant_id m,
     ij_mailbox_id = msg_mailbox_id m, ij_raw_r2_key = raw\<rparr>"

text \<open>A duplicate: the first delivery's message is ingested again when it got stuck.\<close>

definition redeliver_existing :: "worker_env \<Rightarrow> string \<Rightarrow> string \<Rightarrow> unit io" where
  "redeliver_existing env mailboxId internetMessageId =
     await (getInboundMessageByInternetMessageId mailboxId internetMessageId) (\<lambda>existing.
     case existing of None \<Rightarrow> ret ()
     | Some m \<Rightarrow>
         if (msg_status m = MsgReceived \<or> msg_status m = MsgFailed) \<and> truthy (msg_raw_r2_key m)
         then dispatchEmailIngestWithFallback env (ingest_of m (the (msg_raw_r2_key m)))
         else ret ())"

definition deliver_one ::
  "worker_env \<Rightarrow> string \<Rightarrow> string \<Rightarrow> string \<Rightarrow> local_recipient \<Rightarrow> unit io" where
  "deliver_one env internetMessageId from' rawBytes recipient =
     await nowIso (\<lambda>timestamp.
     await (createId ''msg'') (\<lambda>inboundMessageId.
     let rawR2Key = raw_key timestamp inboundMessageId in
     seq (r2_put rawR2Key (R2Raw rawBytes))
     (await (try_catch (createInboundMessage
          \<lparr>in_id = inboundMessageId, in_tenant_id = lr_tenant_id recipient,
           in_mailbox_id = lr_mailbox_id recipient, in_provider = ProvInternal,
           in_internet_message_id = Some internetMessageId,
           in_from_addr = js_lower (js_trim from'), in_to_addr = lr_address recipient,
           in_status = MsgReceived, in_raw_r2_key = rawR2Key,
           in_received_at = timestamp, in_created_at = timestamp\<rparr>)
          (\<lambda>e. seq (catch_undefined (r2_delete rawR2Key)) (throw e))) (\<lambda>created.
      if created
      then dispatchEmailIngestWithFallback env
             \<lparr>ij_message_id = inboundMessageId, ij_tenant_id = lr_tenant_id recipient,
              ij_mailbox_id = lr_mailbox_id recipient, ij_raw_r2_key = rawR2Key\<rparr>
      else try_catch
        (seq (catch_undefined (r2_delete rawR2Key))
           (redeliver_existing env (lr_mailbox_id recipient) internetMessageId))
        (\<lambda>e. seq (catch_undefined (r2_delete rawR2Key)) (throw e))))))"

record local_mail =
  lm_outbound_job_id :: string
  lm_from :: string
  lm_to :: "string list"
  lm_cc :: "string list"
  lm_subject :: string
  lm_text :: "string option"
  lm_html :: "string option"
  lm_in_reply_to :: "string option"
  lm_references :: "string list"
  lm_attachment_refs :: "attachment_ref list"

definition local_mime ::
  "local_mail \<Rightarrow> string \<Rightarrow> timestamp \<Rightarrow> (string \<times> string \<times> string) list \<Rightarrow> mime_input" where
  "local_mime mail internetMessageId now files =
     \<lparr>mime_from = lm_from mail, mime_to = lm_to mail, mime_cc = lm_cc mail, mime_bcc = [],
      mime_reply_to = [], mime_subject = lm_subject mail, mime_text = lm_text mail,
      mime_html = lm_html mail, mime_date = Some (utc_text now), mime_message_id = Some internetMessageId,
      mime_in_reply_to = lm_in_reply_to mail, mime_references = lm_references mail,
      mime_attachments = map (\<lambda>(name, contentType, bytes).
        \<lparr>ma_filename = name, ma_content_type = contentType, ma_content = bytes\<rparr>) files\<rparr>"

definition deliverLocallyToMailboxes ::
  "worker_env \<Rightarrow> local_mail \<Rightarrow> local_recipient list \<Rightarrow> (nat \<times> string) io" where
  "deliverLocallyToMailboxes env mail recipients =
     (let internetMessageId = buildDeterministicMessageId (lm_outbound_job_id mail) (lm_from mail) in
      if recipients = [] then ret (0, internetMessageId)
      else await (loadAttachments (lm_attachment_refs mail)) (\<lambda>files.
           await nowIso (\<lambda>now.
           await random_id (\<lambda>mixedId.
           await random_id (\<lambda>altId.
           let rawBytes = buildRawMimeMessage mixedId altId (local_mime mail internetMessageId now files) in
           seq (for_each recipients (deliver_one env internetMessageId (lm_from mail) rawBytes))
             (ret (length recipients, internetMessageId)))))))"

section \<open>The store invariant\<close>

lemma keeps_loadAttachments [keeps_intros]: "keeps (stored K es J) (loadAttachments refs)"
  by (induction refs) (auto simp: Let_def intro!: keeps_intros)

lemma keeps_provider_request [keeps_intros]:
  "Call \<notin> K \<Longrightarrow> keeps (stored K es J) (provider_request t c b)"
  unfolding keeps_def stored_def seen_def provider_request_def Let_def
  by (auto split: fault.splits sum.splits)

lemma keeps_sendOutboundDraft [keeps_intros]:
  "Call \<notin> K \<Longrightarrow> keeps (stored K es J) (sendOutboundDraft env mail)"
  unfolding sendOutboundDraft_def maybeSendMock_def sendWithResend_def sendWithSes_def
  by (intro keeps_intros)

lemma keeps_deliverLocally [keeps_intros]:
  "keeps (stored K es db_ok) (deliverLocallyToMailboxes env mail rs)"
  unfolding deliverLocallyToMailboxes_def deliver_one_def redeliver_existing_def
  by (intro keeps_intros)

end
