(* ===== verification/DeliveryEvents.thy ===== *)
theory DeliveryEvents
  imports MailMessages
begin

text \<open>
  \<open>src/repositories/mail.ts\<close>, delivery events and suppressions: the provider's notifications are
  recorded once per stored payload, and an address that bounced or complained is suppressed.
\<close>

section \<open>Delivery events\<close>

definition event_visible :: "store \<Rightarrow> delivery_event_row \<Rightarrow> bool" where
  "event_visible s e \<longleftrightarrow> (case ev_message_id e of None \<Rightarrow> True | Some i \<Rightarrow> message_id_visible s i)"

definition event_recorded :: "store \<Rightarrow> string \<Rightarrow> bool" where
  "event_recorded s payloadR2Key \<longleftrightarrow>
     (\<exists>e \<in> set (delivery_events s). ev_payload_r2_key e = payloadR2Key \<and> event_visible s e)"

definition hasVisibleDeliveryEventForPayloadR2Key :: "string \<Rightarrow> bool io" where
  "hasVisibleDeliveryEventForPayloadR2Key payloadR2Key = query (\<lambda>s. event_recorded s payloadR2Key)"

definition delete_event :: "string \<Rightarrow> nat io" where
  "delete_event i =
     execute (\<lambda>s. delete_rows delivery_events delivery_events_update (\<lambda>e. ev_id e = i) s)"

definition deleteInvalidDeliveryEventsForPayloadR2Key :: "string \<Rightarrow> nat io" where
  "deleteInvalidDeliveryEventsForPayloadR2Key payloadR2Key =
     await (query (\<lambda>s. map ev_id (filter (\<lambda>e. ev_payload_r2_key e = payloadR2Key
              \<and> ev_message_id e \<noteq> None \<and> \<not> event_visible s e) (delivery_events s)))) (\<lambda>ids.
     seq (for_each ids (\<lambda>i. catch_undefined (delete_event i)))
     (ret (length ids)))"

record event_input =
  ei_message_id :: "string option"
  ei_provider_message_id :: "string option"
  ei_event_type :: delivery_event_type
  ei_payload_r2_key :: string

definition insertEvent :: "event_input \<Rightarrow> nat io" where
  "insertEvent input =
     await (createId ''evt'') (\<lambda>i.
     await nowIso (\<lambda>createdAt.
     execute_checked (\<lambda>s. insert_select delivery_events_update
       (event_recorded s (ei_payload_r2_key input))
       (\<exists>e \<in> set (delivery_events s). ev_id e = i)
       \<lparr>ev_id = i, ev_message_id = ei_message_id input, ev_provider = ''ses'',
        ev_provider_message_id = ei_provider_message_id input,
        ev_event_type = ei_event_type input, ev_payload_r2_key = ei_payload_r2_key input,
        ev_created_at = createdAt\<rparr> s)))"

definition event_dedupe_failed :: "event_input \<Rightarrow> 'a io" where
  "event_dedupe_failed input = throw (PlainError
     (''Delivery event could not be inserted because payload dedupe skipped insertion without any visible existing event for ''
        @ ei_payload_r2_key input))"

definition insertDeliveryEvent :: "event_input \<Rightarrow> bool io" where
  "insertDeliveryEvent input =
     await (insertEvent input) (\<lambda>changes.
     if changes \<noteq> 0 then ret True
     else await (hasVisibleDeliveryEventForPayloadR2Key (ei_payload_r2_key input)) (\<lambda>seen.
     if seen then ret False
     else await (deleteInvalidDeliveryEventsForPayloadR2Key (ei_payload_r2_key input)) (\<lambda>deleted.
     if deleted = 0 then event_dedupe_failed input
     else await (insertEvent input) (\<lambda>retried.
     if retried > 0 then ret True
     else await (hasVisibleDeliveryEventForPayloadR2Key (ei_payload_r2_key input)) (\<lambda>again.
     if again then ret False else event_dedupe_failed input)))))"

definition listDeliveryEventsByMessageId :: "string \<Rightarrow> delivery_event_row list io" where
  "listDeliveryEventsByMessageId messageId =
     query (\<lambda>s. order_desc ev_created_at (filter (\<lambda>e. ev_message_id e = Some messageId
       \<and> message_id_visible s messageId) (delivery_events s)))"

section \<open>Suppressions\<close>

text \<open>SQLite's \<open>lower\<close> maps ASCII letters only.\<close>

definition sql_lower :: "string \<Rightarrow> string" where
  "sql_lower s = map ascii_lower s"

definition getSuppression :: "string \<Rightarrow> suppression_row option io" where
  "getSuppression email =
     query (\<lambda>s. first_row (filter (\<lambda>r. sql_lower (sup_email r) = js_lower (js_trim email))
       (suppressions s)))"

definition updateExistingSuppression :: "string \<Rightarrow> string \<Rightarrow> string \<Rightarrow> timestamp \<Rightarrow> bool io" where
  "updateExistingSuppression normalizedEmail reason source timestamp =
     await (query (\<lambda>s. first_row (filter (\<lambda>r. sql_lower (sup_email r) = normalizedEmail)
              (suppressions s)))) (\<lambda>existing. case existing of
       None \<Rightarrow> ret False
     | Some e \<Rightarrow>
         await (execute (\<lambda>s. update_rows suppressions suppressions_update
                  (\<lambda>r. sup_email r = sup_email e)
                  (\<lambda>r. r\<lparr>sup_reason := reason, sup_source := source, sup_created_at := timestamp\<rparr>) s))
           (\<lambda>changes. ret (changes > 0)))"

definition addSuppression :: "string \<Rightarrow> string \<Rightarrow> string \<Rightarrow> unit io" where
  "addSuppression email reason source =
     (let normalizedEmail = js_lower (js_trim email) in
      await nowIso (\<lambda>timestamp.
      await (updateExistingSuppression normalizedEmail reason source timestamp) (\<lambda>updated.
      if updated then ret ()
      else try_catch
        (seq (execute_checked (\<lambda>s. insert_checked suppressions_update
                (\<exists>r \<in> set (suppressions s). sup_email r = normalizedEmail)
                \<lparr>sup_email = normalizedEmail, sup_reason = reason, sup_source = source,
                 sup_created_at = timestamp\<rparr> s)) (ret ()))
        (\<lambda>e. if \<not> isUniqueConstraintError e then throw e
             else await (updateExistingSuppression normalizedEmail reason source timestamp)
               (\<lambda>again. if again then ret () else throw e)))))"

section \<open>The store invariant\<close>

lemma keeps_event_reads [keeps_intros]:
  "keeps (stored K es J) (hasVisibleDeliveryEventForPayloadR2Key k)"
  "keeps (stored K es J) (listDeliveryEventsByMessageId m)" "keeps (stored K es J) (getSuppression a)"
  unfolding hasVisibleDeliveryEventForPayloadR2Key_def listDeliveryEventsByMessageId_def
    getSuppression_def
  by (rule keeps_stored_query)+

lemma keeps_event_writes [keeps_intros]:
  "keeps (stored K es db_ok) (delete_event i)" "keeps (stored K es db_ok) (insertEvent input)"
  unfolding delete_event_def insertEvent_def by (intro keeps_intros; auto)+

lemma keeps_insertDeliveryEvent [keeps_intros]:
  "keeps (stored K es db_ok) (insertDeliveryEvent input)"
  unfolding insertDeliveryEvent_def deleteInvalidDeliveryEventsForPayloadR2Key_def
    event_dedupe_failed_def
  by (intro keeps_intros)

lemma keeps_updateSuppression [keeps_intros]:
  "keeps (stored K es db_ok) (updateExistingSuppression a r so t)"
  unfolding updateExistingSuppression_def
  by (intro keeps_intros keeps_stored_execute) (simp add: update_rows_def)

lemma keeps_addSuppression [keeps_intros]: "keeps (stored K es db_ok) (addSuppression a r so)"
  unfolding addSuppression_def Let_def
  by (intro keeps_intros keeps_stored_checked) (auto simp: insert_checked_def split: if_splits)

end
