(* ===== verification/Emissions.thy ===== *)
theory Emissions
  imports StoreInvariant "HOL-Library.Sublist"
begin

text \<open>
  Counting what leaves the Worker. \<open>emits k m P\<close>: in every world in which the store invariant is
  shared with the other Workers, \<open>m\<close> keeps it and adds to the outbox only at its end, and \<open>P\<close> holds
  of its outcome and of the things of kind \<open>k\<close> it has added, each given by what it concerns (for
  a verdict, the queue message). The rules follow the structure of the program; a part that is
  silent by the invariant rules adds nothing.
\<close>

named_theorems emits_intros "rules that count what a computation sends out"

primrec concerns :: "outgoing \<Rightarrow> string" where
  "concerns (ToOutboundQueue i) = i"
| "concerns (ToIngestQueue i) = i"
| "concerns (ToAgentQueue i) = i"
| "concerns (ToDeadLetter a b c) = b"
| "concerns (ProviderCall t c b) = []"
| "concerns (FacilitatorCall u i b) = i"
| "concerns (RoutingCall m p b) = p"
| "concerns (Acked i) = i"
| "concerns (Retried i) = i"
| "concerns (MailRejected r) = r"

definition emits :: "kind \<Rightarrow> 'a io \<Rightarrow> (js_error + 'a \<Rightarrow> string list \<Rightarrow> bool) \<Rightarrow> bool" where
  "emits k m P \<longleftrightarrow> (\<forall>w. shared db_ok w \<longrightarrow> shared db_ok (snd (m w))
     \<and> (\<exists>es. seen {k} (snd (m w)) = seen {k} w @ es \<and> P (fst (m w)) (map concerns es)))"

lemma shared_stored: "shared J w \<longleftrightarrow> stored K (seen K w) J w"
  by (auto simp: stored_def seen_def)

lemma emitsI:
  assumes "\<And>w. shared db_ok w \<Longrightarrow> shared db_ok (snd (m w))
     \<and> (\<exists>es. seen {k} (snd (m w)) = seen {k} w @ es \<and> P (fst (m w)) (map concerns es))"
  shows "emits k m P"
  using assms unfolding emits_def by blast

lemma emitsE:
  assumes "emits k m P" "shared db_ok w" "m w = (r, w')"
  obtains es where "shared db_ok w'" "seen {k} w' = seen {k} w @ es" "P r (map concerns es)"
  using assms unfolding emits_def by (metis fst_conv snd_conv)

lemma emits_run:
  "m w = (r, w') \<Longrightarrow> shared db_ok w' \<Longrightarrow> seen {k} w' = seen {k} w @ es \<Longrightarrow> P r (map concerns es) \<Longrightarrow>
     shared db_ok (snd (m w))
     \<and> (\<exists>es. seen {k} (snd (m w)) = seen {k} w @ es \<and> P (fst (m w)) (map concerns es))"
  by auto

lemma emits_weaken: "emits k m P \<Longrightarrow> (\<And>r n. P r n \<Longrightarrow> Q r n) \<Longrightarrow> emits k m Q"
  unfolding emits_def by blast

lemma emits_silent:
  assumes "\<And>es. keeps (stored {k} es db_ok) m"
  shows "emits k m (\<lambda>r n. n = [])"
proof (rule emitsI)
  fix w assume w: "shared db_ok w"
  have "stored {k} (seen {k} w) db_ok (snd (m w))"
    using assms w keepsD shared_stored by blast
  then show "shared db_ok (snd (m w))
      \<and> (\<exists>es. seen {k} (snd (m w)) = seen {k} w @ es \<and> map concerns es = [])"
    by (auto simp: stored_def seen_def)
qed

lemma emits_ret: "P (Inr x) [] \<Longrightarrow> emits k (ret x) P"
  by (rule emitsI) (simp add: ret_def)

lemma emits_throw: "P (Inl e) [] \<Longrightarrow> emits k (throw e) P"
  by (rule emitsI) (simp add: throw_def)

text \<open>Sequencing adds the counts; a thrown error ends the sequence.\<close>

lemma emits_await:
  assumes m: "emits k m P"
    and f: "\<And>x a. P (Inr x) a \<Longrightarrow> emits k (f x) (\<lambda>r n. Q r (a @ n))"
    and e: "\<And>e a. P (Inl e) a \<Longrightarrow> Q (Inl e) a"
  shows "emits k (await m f) Q"
proof (rule emitsI)
  fix w assume w: "shared db_ok w"
  obtain r w' where run: "m w = (r, w')" by force
  obtain es where w': "shared db_ok w'" and es: "seen {k} w' = seen {k} w @ es"
    and P: "P r (map concerns es)"
    by (rule emitsE [OF m w run])
  show "shared db_ok (snd (await m f w)) \<and> (\<exists>es. seen {k} (snd (await m f w)) = seen {k} w @ es
      \<and> Q (fst (await m f w)) (map concerns es))"
  proof (cases r)
    case (Inl x)
    with run P e w' es show ?thesis by (intro emits_run [where es = es]) (auto simp: await_run)
  next
    case (Inr x)
    with P have g: "emits k (f x) (\<lambda>r n. Q r (map concerns es @ n))" by (intro f) simp
    obtain r2 w2 where run2: "f x w' = (r2, w2)" by force
    obtain es2 where "shared db_ok w2" "seen {k} w2 = seen {k} w' @ es2"
      "Q r2 (map concerns es @ map concerns es2)"
      by (rule emitsE [OF g w' run2])
    with run run2 Inr es show ?thesis
      by (intro emits_run [where es = "es @ es2"]) (auto simp: await_run)
  qed
qed

lemma emits_try_catch:
  assumes m: "emits k m P"
    and h: "\<And>e a. P (Inl e) a \<Longrightarrow> emits k (h e) (\<lambda>r n. Q r (a @ n))"
    and x: "\<And>x a. P (Inr x) a \<Longrightarrow> Q (Inr x) a"
  shows "emits k (try_catch m h) Q"
proof (rule emitsI)
  fix w assume w: "shared db_ok w"
  obtain r w' where run: "m w = (r, w')" by force
  obtain es where w': "shared db_ok w'" and es: "seen {k} w' = seen {k} w @ es"
    and P: "P r (map concerns es)"
    by (rule emitsE [OF m w run])
  show "shared db_ok (snd (try_catch m h w)) \<and> (\<exists>es. seen {k} (snd (try_catch m h w)) = seen {k} w @ es
      \<and> Q (fst (try_catch m h w)) (map concerns es))"
  proof (cases r)
    case (Inr y)
    with run P x w' es show ?thesis by (intro emits_run [where es = es]) (auto simp: try_catch_run)
  next
    case (Inl e)
    with P have g: "emits k (h e) (\<lambda>r n. Q r (map concerns es @ n))" by (intro h) simp
    obtain r2 w2 where run2: "h e w' = (r2, w2)" by force
    obtain es2 where "shared db_ok w2" "seen {k} w2 = seen {k} w' @ es2"
      "Q r2 (map concerns es @ map concerns es2)"
      by (rule emitsE [OF g w' run2])
    with run run2 Inl es show ?thesis
      by (intro emits_run [where es = "es @ es2"]) (auto simp: try_catch_run)
  qed
qed

lemma emits_seq:
  "emits k m P \<Longrightarrow> (\<And>x a. P (Inr x) a \<Longrightarrow> emits k n (\<lambda>r b. Q r (a @ b))) \<Longrightarrow>
     (\<And>e a. P (Inl e) a \<Longrightarrow> Q (Inl e) a) \<Longrightarrow> emits k (seq m n) Q"
  unfolding seq_def by (rule emits_await)

section \<open>Exactly one on success\<close>

text \<open>\<open>once k i m\<close>: \<open>m\<close> sends exactly one thing of kind \<open>k\<close>, about \<open>i\<close>, when it returns, and none when it throws.\<close>

definition on_success :: "string \<Rightarrow> js_error + 'a \<Rightarrow> string list \<Rightarrow> bool" where
  "on_success i r n \<longleftrightarrow> n = (case r of Inl _ \<Rightarrow> [] | Inr _ \<Rightarrow> [i])"

abbreviation once :: "kind \<Rightarrow> string \<Rightarrow> 'a io \<Rightarrow> bool" where
  "once k i m \<equiv> emits k m (on_success i)"

lemma on_success_simps [simp]:
  "on_success i (Inl e) n \<longleftrightarrow> n = []" "on_success i (Inr x) n \<longleftrightarrow> n = [i]"
  by (simp_all add: on_success_def)

lemma once_throw [emits_intros]: "once k i (throw e)"
  by (rule emits_throw) simp

lemma once_after [emits_intros]:
  "(\<And>es. keeps (stored {k} es db_ok) m) \<Longrightarrow> (\<And>x. once k i (f x)) \<Longrightarrow> once k i (await m f)"
  by (rule emits_await [OF emits_silent]) simp_all

lemma once_seq_after [emits_intros]:
  "(\<And>es. keeps (stored {k} es db_ok) m) \<Longrightarrow> once k i n \<Longrightarrow> once k i (seq m n)"
  unfolding seq_def by (rule once_after)

lemma once_seq_ret [emits_intros]: "once k i m \<Longrightarrow> once k i (seq m (ret x))"
  by (rule emits_seq [where P = "on_success i"]) (auto intro: emits_ret)

lemma once_try [emits_intros]:
  "once k i m \<Longrightarrow> (\<And>e. once k i (h e)) \<Longrightarrow> once k i (try_catch m h)"
  by (rule emits_try_catch [where P = "on_success i"]) auto

lemma once_if [emits_intros]:
  "(c \<Longrightarrow> once k i m) \<Longrightarrow> (\<not> c \<Longrightarrow> once k i n) \<Longrightarrow> once k i (if c then m else n)"
  by simp

lemma once_let [emits_intros]: "(\<And>x. once k i (f x)) \<Longrightarrow> once k i (let x = e in f x)"
  by simp

lemma once_option [emits_intros]:
  "(x = None \<Longrightarrow> once k i m) \<Longrightarrow> (\<And>y. x = Some y \<Longrightarrow> once k i (f y))
     \<Longrightarrow> once k i (case x of None \<Rightarrow> m | Some y \<Rightarrow> f y)"
  by (simp split: option.split)

lemma once_note [emits_intros]: "once Verdict i (note_out (Acked i))"
  "once Verdict i (note_out (Retried i))"
  by (auto intro!: emitsI simp: note_out_def stored_def seen_def)

text \<open>
  An inner \<open>try\<close> whose handler ends the work: on success it is silent and its value goes on, on
  failure the handler has sent the one thing and nothing follows.
\<close>

lemma once_guarded:
  assumes m: "\<And>es. keeps (stored {k} es db_ok) m" and h: "\<And>e. once k i (h e)"
    and f: "\<And>x. once k i (f x)"
  shows "once k i (await (try_catch (await m (\<lambda>x. ret (Some x))) (\<lambda>e. seq (h e) (ret None)))
                   (\<lambda>r. case r of None \<Rightarrow> ret () | Some x \<Rightarrow> f x))"
proof (rule emits_await [where P = "\<lambda>r n. case r of Inr None \<Rightarrow> n = [i] | _ \<Rightarrow> n = []"])
  have "emits k (await m (\<lambda>x. ret (Some x)))
      (\<lambda>r n. n = [] \<and> r \<noteq> Inr None)"
    by (rule emits_await [OF emits_silent [OF m]]) (auto intro: emits_ret)
  then show "emits k (try_catch (await m (\<lambda>x. ret (Some x))) (\<lambda>e. seq (h e) (ret None)))
      (\<lambda>r n. case r of Inr None \<Rightarrow> n = [i] | _ \<Rightarrow> n = [])"
  proof (rule emits_try_catch)
    fix e a assume "a = ([]::string list) \<and> Inl e \<noteq> (Inr None :: js_error + 'a option)"
    then have a: "a = []" by simp
    show "emits k (seq (h e) (ret None)) (\<lambda>r n. case r of Inr None \<Rightarrow> a @ n = [i] | _ \<Rightarrow> a @ n = [])"
      by (rule emits_seq [OF h]) (auto simp: a intro: emits_ret)
  qed (auto split: option.splits)
next
  fix x a assume "case Inr x :: js_error + 'a option of Inr None \<Rightarrow> a = [i] | _ \<Rightarrow> a = []"
  then show "emits k (case x of None \<Rightarrow> ret () | Some x \<Rightarrow> f x) (\<lambda>r n. on_success i r (a @ n))"
    by (cases x) (auto intro: emits_ret f)
qed simp

lemma emits_silent_yields:
  "(\<And>es. keeps (stored {k} es db_ok) m) \<Longrightarrow> yields m Q \<Longrightarrow>
     emits k m (\<lambda>r n. n = [] \<and> (\<forall>x. r = Inr x \<longrightarrow> Q x))"
  using emits_silent [of k m] unfolding emits_def yields_def by (metis prod.collapse)

lemma once_guarded_bool:
  assumes m: "\<And>es. keeps (stored {k} es db_ok) m" and t: "yields m (\<lambda>b. b)"
    and h: "\<And>e. once k i (h e)" and f: "once k i f"
  shows "once k i (await (try_catch m (\<lambda>e. seq (h e) (ret False))) (\<lambda>r. if r then f else ret ()))"
proof (rule emits_await [where P = "\<lambda>r n. n = (if r = Inr False then [i] else [])"])
  from emits_silent_yields [OF m t]
  show "emits k (try_catch m (\<lambda>e. seq (h e) (ret False)))
      (\<lambda>r n. n = (if r = Inr False then [i] else []))"
  proof (rule emits_try_catch)
    fix e a assume "a = ([]::string list) \<and> (\<forall>x. Inl e = (Inr x :: js_error + bool) \<longrightarrow> x)"
    then have a: "a = []" by simp
    show "emits k (seq (h e) (ret False)) (\<lambda>r n. a @ n = (if r = Inr False then [i] else []))"
      by (rule emits_seq [OF h]) (auto simp: a intro: emits_ret)
  qed auto
next
  fix x a assume "a = (if Inr x = (Inr False :: js_error + bool) then [i] else [])"
  then show "emits k (if x then f else ret ()) (\<lambda>r n. on_success i r (a @ n))"
    by (cases x) (auto intro: emits_ret f)
qed simp

lemma each_for_each:
  "(\<And>x. once k (g x) (f x)) \<Longrightarrow> emits k (for_each xs f)
     (\<lambda>r n. case r of Inl _ \<Rightarrow> prefix n (map g xs) | Inr _ \<Rightarrow> n = map g xs)"
proof (induction xs)
  case Nil
  then show ?case by (auto intro: emits_ret)
next
  case (Cons x xs)
  have "emits k (seq (f x) (for_each xs f))
     (\<lambda>r n. case r of Inl _ \<Rightarrow> prefix n (map g (x # xs)) | Inr _ \<Rightarrow> n = map g (x # xs))"
    by (rule emits_seq [OF Cons.prems])
      (auto intro!: emits_weaken [OF Cons.IH [OF Cons.prems]] split: sum.splits)
  then show ?case by simp
qed

section \<open>At most one\<close>

definition at_most_one :: "js_error + 'a \<Rightarrow> string list \<Rightarrow> bool" where
  "at_most_one r n \<longleftrightarrow> length n \<le> 1"

abbreviation at_most_once :: "kind \<Rightarrow> 'a io \<Rightarrow> bool" where
  "at_most_once k m \<equiv> emits k m at_most_one"

lemma amo_silent: "(\<And>es. keeps (stored {k} es db_ok) m) \<Longrightarrow> at_most_once k m"
  by (rule emits_weaken [OF emits_silent]) (simp_all add: at_most_one_def)

text \<open>The one may come from the head or from the tail of a sequence, the other part is silent.\<close>

lemma amo_head:
  "at_most_once k m \<Longrightarrow> (\<And>x es. keeps (stored {k} es db_ok) (f x)) \<Longrightarrow> at_most_once k (await m f)"
  by (rule emits_await [where P = at_most_one])
     (auto simp: at_most_one_def intro: emits_weaken [OF emits_silent])

lemma amo_tail:
  "(\<And>es. keeps (stored {k} es db_ok) m) \<Longrightarrow> (\<And>x. at_most_once k (f x)) \<Longrightarrow> at_most_once k (await m f)"
  by (rule emits_await [OF emits_silent]) (auto simp: at_most_one_def [of "Inl _"])

lemma amo_guarded:
  assumes "at_most_once k m" "\<And>e es. keeps (stored {k} es db_ok) (h e)"
  shows "at_most_once k (try_catch m h)"
  using assms(1)
  by (rule emits_try_catch)
     (auto simp: at_most_one_def intro: emits_weaken [OF emits_silent [OF assms(2)]])

lemma amo_if:
  "(c \<Longrightarrow> at_most_once k m) \<Longrightarrow> (\<not> c \<Longrightarrow> at_most_once k n) \<Longrightarrow> at_most_once k (if c then m else n)"
  by simp

lemma amo_option:
  "(x = None \<Longrightarrow> at_most_once k m) \<Longrightarrow> (\<And>y. x = Some y \<Longrightarrow> at_most_once k (f y))
     \<Longrightarrow> at_most_once k (case x of None \<Rightarrow> m | Some y \<Rightarrow> f y)"
  by (simp split: option.split)

end
