(* ===== verification/OutboundQueue.thy ===== *)
theory OutboundQueue
  imports OutboundProvider MailJobs DeliveryEvents Emissions
begin

text \<open>
  \<open>src/handlers/queues.ts\<close>: the consumers of the three queues. The core is \<open>handleOutboundSend\<close>,
  which takes one outbound job from \<open>queued\<close> to \<open>sent\<close> or \<open>failed\<close>, survives redelivery of the
  queue message at any point, and decides what to do with a job that another consumer left in
  \<open>sending\<close>.

  The handler keeps five variables that its outer \<open>catch\<close> block reads: the job, the draft and the
  three recipient lists. \<open>handler_vars\<close> are their values at one point of the code; \<open>step vars m k\<close>
  runs the part \<open>m\<close> of the \<open>try\<close> block while they have these values and goes on with \<open>k\<close>.
\<close>

section \<open>Small parts\<close>

datatype delivery_outcome = OutcomeSent | OutcomeFailed

definition getTerminalDeliveryOutcome :: "delivery_event_row list \<Rightarrow> delivery_outcome option" where
  "getTerminalDeliveryOutcome events =
     (if \<exists>e \<in> set events. ev_event_type e = EvDelivery then Some OutcomeSent
      else if \<exists>e \<in> set events. ev_event_type e \<in> {EvBounce, EvComplaint, EvReject}
      then Some OutcomeFailed else None)"

primrec suppressed_of :: "string list \<Rightarrow> string list io" where
  "suppressed_of [] = ret []"
| "suppressed_of (r # rs) =
     await (getSuppression r) (\<lambda>s.
     await (suppressed_of rs) (\<lambda>rest.
     ret (if s \<noteq> None then r # rest else rest)))"

definition getSuppressedRecipients :: "string list \<Rightarrow> string list io" where
  "getSuppressedRecipients recipients = suppressed_of (js_unique (normalizeRecipientList recipients))"

definition payload_strings :: "json_object \<Rightarrow> string \<Rightarrow> string list" where
  "payload_strings payload field = (case js_prop payload field of
     Some (JArr vs) \<Rightarrow> json_strings vs | _ \<Rightarrow> [])"

section \<open>The outer catch block\<close>

record handler_vars =
  hv_job :: "outbound_job_row option"
  hv_draft :: "draft_row option"
  hv_to :: "string list"
  hv_cc :: "string list"
  hv_bcc :: "string list"

definition no_vars :: handler_vars where
  "no_vars = \<lparr>hv_job = None, hv_draft = None, hv_to = [], hv_cc = [], hv_bcc = []\<rparr>"

definition with_recipients :: "json_object \<Rightarrow> handler_vars \<Rightarrow> handler_vars" where
  "with_recipients payload vars = vars\<lparr>hv_to := payload_strings payload ''to'',
     hv_cc := payload_strings payload ''cc'', hv_bcc := payload_strings payload ''bcc''\<rparr>"

definition is_policy_error :: "js_error \<Rightarrow> bool" where
  "is_policy_error e \<longleftrightarrow> (case e of OutboundPolicyError m \<Rightarrow> True
     | DraftSendValidationError m st \<Rightarrow> True | _ \<Rightarrow> False)"

definition next_retry_count :: "handler_vars \<Rightarrow> int option" where
  "next_retry_count vars = map_option (\<lambda>j. oj_retry_count j + 1) (hv_job vars)"

definition exhausted :: "worker_env \<Rightarrow> handler_vars \<Rightarrow> js_error \<Rightarrow> bool" where
  "exhausted env vars e \<longleftrightarrow> is_policy_error e
     \<or> (case next_retry_count vars of None \<Rightarrow> False | Some n \<Rightarrow> n > getOutboundSendMaxRetries env)"

definition release_reservation :: "draft_row \<Rightarrow> handler_vars \<Rightarrow> unit io" where
  "release_reservation d vars =
     releaseOutboundUsageReservation (dr_tenant_id d) (dr_source_message_id d) (dr_created_via d)
       (hv_to vars) (hv_cc vars) (hv_bcc vars)"

text \<open>What an exhausted job leaves behind: a failed message, a failed draft, a freed credit.\<close>

definition give_up :: "handler_vars \<Rightarrow> unit io" where
  "give_up vars =
     seq (case hv_job vars of None \<Rightarrow> ret ()
          | Some j \<Rightarrow> catch_undefined (updateMessageStatus (oj_message_id j) MsgFailed))
     (seq (case hv_draft vars of None \<Rightarrow> ret ()
           | Some d \<Rightarrow> catch_undefined (markDraftStatus (dr_id d) DraftFailed))
     (case (hv_job vars, hv_draft vars) of
        (Some j, Some d) \<Rightarrow> catch_undefined (release_reservation d vars)
      | _ \<Rightarrow> ret ()))"

definition outbound_catch :: "worker_env \<Rightarrow> string \<Rightarrow> handler_vars \<Rightarrow> js_error \<Rightarrow> unit io" where
  "outbound_catch env jobId vars e =
     (let ex = exhausted env vars e in
      seq (catch_undefined (updateOutboundJobStatus jobId (if ex then JobFailed else JobRetry)
             (next_retry_count vars) None (Some (error_message e))))
      (seq (when_io ex (give_up vars))
      (seq (enqueueDeadLetter ''outbound-send'' jobId (error_message e))
      (note_out (if ex then Acked jobId else Retried jobId)))))"

definition step ::
  "worker_env \<Rightarrow> string \<Rightarrow> handler_vars \<Rightarrow> 'a io \<Rightarrow> ('a \<Rightarrow> unit io) \<Rightarrow> unit io" where
  "step env jobId vars m k =
     await (try_catch (await m (\<lambda>x. ret (Some x)))
              (\<lambda>e. seq (outbound_catch env jobId vars e) (ret None))) (\<lambda>r.
     case r of None \<Rightarrow> ret () | Some x \<Rightarrow> k x)"

text \<open>
  An inner \<open>try\<close> block of a recovery branch: its failure is dead-lettered under a label and the
  queue message is retried; when even the dead letter fails, the outer block takes over.
\<close>

definition recovering ::
  "worker_env \<Rightarrow> string \<Rightarrow> handler_vars \<Rightarrow> string \<Rightarrow> string \<Rightarrow> 'a io \<Rightarrow> ('a \<Rightarrow> unit io) \<Rightarrow> unit io"
  where
  "recovering env jobId vars refId label m k =
     await (try_catch (await m (\<lambda>x. ret (Some x))) (\<lambda>e.
              seq (step env jobId vars
                     (enqueueDeadLetter ''outbound-send'' refId (label @ '':'' @ error_message e))
                     (\<lambda>_. note_out (Retried jobId)))
                (ret None))) (\<lambda>r.
     case r of None \<Rightarrow> ret () | Some x \<Rightarrow> k x)"

section \<open>Settlement\<close>

definition settle_job ::
  "outbound_job_row \<Rightarrow> message_row \<Rightarrow> draft_row option \<Rightarrow> handler_vars \<Rightarrow> unit io" where
  "settle_job job message draft vars =
     settleOutboundUsageDebit (msg_tenant_id message) (oj_message_id job) (oj_id job)
       (map_option dr_id draft) (Option.bind draft dr_created_via)
       (Option.bind draft dr_source_message_id) (hv_to vars) (hv_cc vars) (hv_bcc vars)"

definition settle_and_ack ::
  "worker_env \<Rightarrow> string \<Rightarrow> handler_vars \<Rightarrow> outbound_job_row \<Rightarrow> message_row \<Rightarrow> draft_row option
     \<Rightarrow> unit io" where
  "settle_and_ack env jobId vars job message draft =
     step env jobId vars
       (try_catch (seq (settle_job job message draft vars) (note_out (Acked jobId))) (\<lambda>e.
          seq (enqueueDeadLetter ''outbound-billing'' (oj_id job) (error_message e))
            (note_out (Retried jobId))))
       (\<lambda>_. ret ())"

section \<open>A job that is not to be sent\<close>

text \<open>\<open>outboundJob.status === "sent"\<close>: only the bookkeeping is completed.\<close>

definition sent_branch ::
  "worker_env \<Rightarrow> string \<Rightarrow> handler_vars \<Rightarrow> outbound_job_row \<Rightarrow> message_row \<Rightarrow> draft_row option
     \<Rightarrow> unit io" where
  "sent_branch env jobId vars job message draft =
     recovering env jobId vars (oj_id job) ''sent_recovery_incomplete''
       (seq (when_io (msg_status message \<noteq> MsgReplied)
               (updateMessageStatus (oj_message_id job) MsgReplied))
          (case draft of None \<Rightarrow> ret ()
           | Some d \<Rightarrow> when_io (dr_status d \<noteq> DraftSent) (markDraftStatus (dr_id d) DraftSent)))
       (\<lambda>_. settle_and_ack env jobId vars job message draft)"

text \<open>A job in \<open>sending\<close> whose message shows that the provider has accepted the mail.\<close>

definition accepted :: "message_row \<Rightarrow> delivery_outcome option \<Rightarrow> bool" where
  "accepted message outcome \<longleftrightarrow> truthy (msg_provider_message_id message)
     \<or> msg_sent_at message \<noteq> None \<or> msg_status message = MsgReplied \<or> outcome = Some OutcomeSent"

definition accepted_branch ::
  "worker_env \<Rightarrow> string \<Rightarrow> handler_vars \<Rightarrow> outbound_job_row \<Rightarrow> message_row \<Rightarrow> draft_row option
     \<Rightarrow> unit io" where
  "accepted_branch env jobId vars job message draft =
     recovering env jobId vars (oj_id job) ''sending_recovery_sent_incomplete''
       (seq (updateMessageStatus (oj_message_id job) MsgReplied)
       (seq (case draft of None \<Rightarrow> ret () | Some d \<Rightarrow> markDraftStatus (dr_id d) DraftSent)
          (updateOutboundJobStatus (oj_id job) JobSent None None None)))
       (\<lambda>_. settle_and_ack env jobId vars job message draft)"

text \<open>
  A job in \<open>sending\<close> whose message or delivery events show a failure. The recipients are read only
  after the draft was marked, and only when there is a draft.
\<close>

definition failed_branch ::
  "worker_env \<Rightarrow> string \<Rightarrow> handler_vars \<Rightarrow> json_object \<Rightarrow> outbound_job_row \<Rightarrow> draft_row option
     \<Rightarrow> delivery_outcome option \<Rightarrow> unit io" where
  "failed_branch env jobId vars payload job draft outcome =
     (let label = ''sending_recovery_failed_incomplete'';
          vars' = (if draft = None then vars else with_recipients payload vars) in
      recovering env jobId vars (oj_id job) label
        (seq (updateMessageStatus (oj_message_id job) MsgFailed)
           (case draft of None \<Rightarrow> ret () | Some d \<Rightarrow> markDraftStatus (dr_id d) DraftFailed))
        (\<lambda>_. recovering env jobId vars' (oj_id job) label
          (seq (case draft of None \<Rightarrow> ret () | Some d \<Rightarrow> release_reservation d vars')
             (updateOutboundJobStatus (oj_id job) JobFailed None None
                (Some (if outcome = Some OutcomeFailed then ''provider_delivery_failed''
                       else ''send_failed''))))
          (\<lambda>_. note_out (Acked jobId))))"

text \<open>
  Any other job in \<open>sending\<close>: within the grace period another consumer may still be at it; after
  that nobody knows whether the mail went out, and it is given up for a human to look at.
\<close>

definition uncertain :: string where
  "uncertain = ''send_attempt_uncertain_manual_review_required''"

definition in_doubt_branch ::
  "worker_env \<Rightarrow> string \<Rightarrow> handler_vars \<Rightarrow> json_object \<Rightarrow> outbound_job_row \<Rightarrow> draft_row option
     \<Rightarrow> unit io" where
  "in_doubt_branch env jobId vars payload job draft =
     await nowIso (\<lambda>now.
     if now - oj_updated_at job < getOutboundSendInDoubtGraceMs env then note_out (Retried jobId)
     else
       let vars' = with_recipients payload vars in
       step env jobId vars'
         (seq (updateOutboundJobStatus (oj_id job) JobFailed None None (Some uncertain))
         (seq (catch_undefined (updateMessageStatus (oj_message_id job) MsgFailed))
         (seq (case draft of None \<Rightarrow> ret ()
               | Some d \<Rightarrow> seq (catch_undefined (markDraftStatus (dr_id d) DraftFailed))
                             (catch_undefined (release_reservation d vars')))
         (seq (enqueueDeadLetter ''outbound-send'' (oj_id job) uncertain)
            (note_out (Acked jobId))))))
         (\<lambda>_. ret ()))"

section \<open>Sending\<close>

definition draft_guard :: "draft_row \<Rightarrow> guard_input" where
  "draft_guard d = \<lparr>gi_tenant_id = dr_tenant_id d, gi_agent_id = dr_agent_id d,
     gi_mailbox_id = dr_mailbox_id d, gi_draft_r2_key = dr_draft_r2_key d,
     gi_thread_id = dr_thread_id d, gi_source_message_id = dr_source_message_id d\<rparr>"

definition suppressed_error :: "string list \<Rightarrow> js_error" where
  "suppressed_error rs = OutboundPolicyError (''Suppressed ''
     @ (if length rs = 1 then ''recipient is'' else ''recipients are'')
     @ '' blocked: '' @ js_join '', '' rs)"

text \<open>Everything that must hold right before the mail leaves; the result is the routing.\<close>

definition prepare_send :: "handler_vars \<Rightarrow> routed_recipients io" where
  "prepare_send vars =
     seq (case hv_draft vars of None \<Rightarrow> ret () | Some d \<Rightarrow> ensureDraftSendAllowed (draft_guard d))
     (await (routeOutboundRecipients (hv_to vars) (hv_cc vars) (hv_bcc vars)) (\<lambda>r.
      await (getSuppressedRecipients (toExternal r @ ccExternal r @ bccExternal r)) (\<lambda>suppressed.
      if suppressed \<noteq> [] then throw (suppressed_error suppressed)
      else case getOutboundRecipientRoutingValidationError
                  (externalRecipientCount r) (externalToRecipientCount r) of
        Some message \<Rightarrow> throw (OutboundPolicyError message)
      | None \<Rightarrow> ret r)))"

definition local_mail_of ::
  "json_object \<Rightarrow> handler_vars \<Rightarrow> outbound_job_row \<Rightarrow> local_mail" where
  "local_mail_of payload vars job =
     \<lparr>lm_outbound_job_id = oj_id job, lm_from = str_or '''' (js_prop payload ''from''),
      lm_to = hv_to vars, lm_cc = hv_cc vars,
      lm_subject = str_or '''' (js_prop payload ''subject''),
      lm_text = str_opt (js_prop payload ''text''), lm_html = str_opt (js_prop payload ''html''),
      lm_in_reply_to = str_opt (js_prop payload ''inReplyTo''),
      lm_references = payload_strings payload ''references'',
      lm_attachment_refs = payload_attachment_refs payload\<rparr>"

definition outbound_mail_of ::
  "json_object \<Rightarrow> mailbox_row \<Rightarrow> routed_recipients \<Rightarrow> outbound_mail" where
  "outbound_mail_of payload mailbox r =
     \<lparr>om_from = str_or '''' (js_prop payload ''from''),
      om_to = toExternal r, om_cc = ccExternal r, om_bcc = bccExternal r,
      om_subject = str_or '''' (js_prop payload ''subject''),
      om_text = str_opt (js_prop payload ''text''), om_html = str_opt (js_prop payload ''html''),
      om_in_reply_to = str_opt (js_prop payload ''inReplyTo''),
      om_references = payload_strings payload ''references'',
      om_attachment_refs = payload_attachment_refs payload,
      om_reply_to = [mb_address mailbox]\<rparr>"

text \<open>Internal recipients first, then one request to the provider for all external ones.\<close>

definition deliver ::
  "worker_env \<Rightarrow> json_object \<Rightarrow> handler_vars \<Rightarrow> outbound_job_row \<Rightarrow> mailbox_row
     \<Rightarrow> routed_recipients \<Rightarrow> string io" where
  "deliver env payload vars job mailbox r =
     (let internalRecipients = toInternal r @ ccInternal r @ bccInternal r;
          externalRecipients = toExternal r @ ccExternal r @ bccExternal r in
      seq (when_io (internalRecipients \<noteq> [])
             (seq (deliverLocallyToMailboxes env (local_mail_of payload vars job) internalRecipients)
                (ret ())))
        (if externalRecipients \<noteq> [] then sendOutboundDraft env (outbound_mail_of payload mailbox r)
         else ret (''internal-'' @ oj_id job)))"

text \<open>
  The mail is out: a failure to record it must not send it again, so the queue message is
  acknowledged and the dead letter carries the provider's message id.
\<close>

definition record_sent ::
  "worker_env \<Rightarrow> string \<Rightarrow> handler_vars \<Rightarrow> outbound_job_row \<Rightarrow> string \<Rightarrow> unit io \<Rightarrow> unit io" where
  "record_sent env jobId vars job providerMessageId k =
     await (try_catch
        (seq (updateOutboundJobStatus (oj_id job) JobSent None None None)
        (seq (markMessageSent (oj_message_id job) providerMessageId MsgReplied)
        (seq (case hv_draft vars of None \<Rightarrow> ret () | Some d \<Rightarrow> markDraftStatus (dr_id d) DraftSent)
           (ret True))))
        (\<lambda>e. seq (step env jobId vars
               (enqueueDeadLetter ''outbound-send'' (oj_id job)
                  (''provider_accepted_persistence_incomplete:'' @ providerMessageId @ '':''
                     @ error_message e))
               (\<lambda>_. note_out (Acked jobId)))
             (ret False))) (\<lambda>recorded.
     if recorded then k else ret ())"

definition settle_then_ack ::
  "worker_env \<Rightarrow> string \<Rightarrow> handler_vars \<Rightarrow> outbound_job_row \<Rightarrow> message_row \<Rightarrow> unit io" where
  "settle_then_ack env jobId vars job message =
     await (try_catch (seq (settle_job job message (hv_draft vars) vars) (ret True)) (\<lambda>e.
        seq (step env jobId vars
               (enqueueDeadLetter ''outbound-billing'' (oj_id job) (error_message e))
               (\<lambda>_. note_out (Retried jobId)))
          (ret False))) (\<lambda>settled.
     when_io settled (note_out (Acked jobId)))"

definition send_claimed ::
  "worker_env \<Rightarrow> string \<Rightarrow> handler_vars \<Rightarrow> json_object \<Rightarrow> outbound_job_row \<Rightarrow> message_row \<Rightarrow> unit io"
  where
  "send_claimed env jobId vars payload job message =
     step env jobId vars
       (await (getMailboxById (msg_mailbox_id message)) (\<lambda>m. requireRow m ''Mailbox not found''))
       (\<lambda>mailbox.
     let vars' = with_recipients payload vars in
     step env jobId vars' (prepare_send vars') (\<lambda>r.
     step env jobId vars' (deliver env payload vars' job mailbox r) (\<lambda>providerMessageId.
     record_sent env jobId vars' job providerMessageId
       (settle_then_ack env jobId vars' job message))))"

definition claim_and_send ::
  "worker_env \<Rightarrow> string \<Rightarrow> handler_vars \<Rightarrow> json_object \<Rightarrow> outbound_job_row \<Rightarrow> message_row \<Rightarrow> unit io"
  where
  "claim_and_send env jobId vars payload job message =
     step env jobId vars (claimOutboundJobForSend (oj_id job)) (\<lambda>claimed.
     if \<not> claimed then note_out (Acked jobId)
     else step env jobId vars (getOutboundJob (oj_id job)) (\<lambda>reloaded.
       case reloaded of
         None \<Rightarrow> step env jobId (vars\<lparr>hv_job := None\<rparr>)
                   (throw (PlainError ''Outbound job disappeared after claim'') :: unit io) (\<lambda>_. ret ())
       | Some job' \<Rightarrow> send_claimed env jobId (vars\<lparr>hv_job := Some job'\<rparr>) payload job' message))"

section \<open>One message of the queue\<close>

definition dispatch_job ::
  "worker_env \<Rightarrow> string \<Rightarrow> handler_vars \<Rightarrow> json_object \<Rightarrow> outbound_job_row \<Rightarrow> message_row
     \<Rightarrow> delivery_outcome option \<Rightarrow> unit io" where
  "dispatch_job env jobId vars payload job message outcome =
     (let draft = hv_draft vars; read = with_recipients payload vars in
      if oj_status job = JobSent then sent_branch env jobId read job message draft
      else if oj_status job = JobSending \<and> accepted message outcome
      then accepted_branch env jobId read job message draft
      else if oj_status job = JobSending \<and> (msg_status message = MsgFailed \<or> outcome = Some OutcomeFailed)
      then failed_branch env jobId vars payload job draft outcome
      else if oj_status job = JobSending then in_doubt_branch env jobId vars payload job draft
      else claim_and_send env jobId vars payload job message)"

definition load_job :: "string \<Rightarrow> outbound_job_row io" where
  "load_job jobId = await (getOutboundJob jobId) (\<lambda>j. requireRow j ''Outbound job not found'')"

definition load_payload :: "outbound_job_row \<Rightarrow> json_object io" where
  "load_payload job = await (r2_get (oj_draft_r2_key job)) (\<lambda>object.
     await (requireRow object ''Draft payload not found in R2'') r2_json)"

definition load_message :: "outbound_job_row \<Rightarrow> (message_row \<times> delivery_outcome option) io" where
  "load_message job =
     await (getMessage (oj_message_id job)) (\<lambda>m.
     await (requireRow m ''Outbound message not found'') (\<lambda>message.
     await (listDeliveryEventsByMessageId (msg_id message)) (\<lambda>events.
     ret (message, getTerminalDeliveryOutcome events))))"

definition handle_outbound_message :: "worker_env \<Rightarrow> string \<Rightarrow> unit io" where
  "handle_outbound_message env jobId =
     step env jobId no_vars (load_job jobId) (\<lambda>job.
     let vars1 = no_vars\<lparr>hv_job := Some job\<rparr> in
     step env jobId vars1
       (await (load_payload job) (\<lambda>payload.
        await (getDraftByR2KeyForOutboundLifecycle (oj_draft_r2_key job)) (\<lambda>draft.
        ret (payload, draft)))) (\<lambda>pd.
     let vars2 = vars1\<lparr>hv_draft := snd pd\<rparr> in
     step env jobId vars2 (load_message job) (\<lambda>mo.
     dispatch_job env jobId vars2 (fst pd) job (fst mo) (snd mo))))"

definition handleOutboundSend :: "worker_env \<Rightarrow> string list \<Rightarrow> unit io" where
  "handleOutboundSend env jobIds = for_each jobIds (handle_outbound_message env)"

section \<open>The other queues\<close>

definition handleEmailIngest :: "worker_env \<Rightarrow> ingest_job list \<Rightarrow> unit io" where
  "handleEmailIngest env jobs = for_each jobs (\<lambda>job.
     try_catch (seq (processEmailIngestJob env job) (note_out (Acked (ij_message_id job)))) (\<lambda>e.
       seq (enqueueDeadLetter ''email-ingest'' (ij_message_id job) (error_message e))
         (note_out (Retried (ij_message_id job)))))"

record agent_job =
  aj_task_id :: string
  aj_agent_id :: string
  aj_agent_version_id :: "string option"
  aj_deployment_id :: "string option"

definition review_reason :: "agent_job \<Rightarrow> message_row option \<Rightarrow> execution_target option \<Rightarrow> string" where
  "review_reason job sourceMessage target = (case (sourceMessage, target) of
     (None, _) \<Rightarrow> ''source_message_missing''
   | (Some m, None) \<Rightarrow> ''agent_assignment_unavailable''
   | (Some m, Some t) \<Rightarrow>
       if xt_agent_id t \<noteq> aj_agent_id job \<or> xt_agent_version_id t \<noteq> aj_agent_version_id job
          \<or> xt_deployment_id t \<noteq> aj_deployment_id job
       then ''stale_queue_assignment'' else ''agent_execution_not_implemented'')"

definition agent_review ::
  "agent_job \<Rightarrow> task_row \<Rightarrow> message_row option \<Rightarrow> execution_target option \<Rightarrow> review_input" where
  "agent_review job task sourceMessage target =
     \<lparr>rv_task_id = tsk_id task, rv_source_message_id = tsk_source_message_id task,
      rv_mailbox_id = tsk_mailbox_id task,
      rv_agent_id = first_some (map_option xt_agent_id target)
        (first_some (tsk_assigned_agent task) (Some (aj_agent_id job))),
      rv_agent_version_id = Option.bind target xt_agent_version_id,
      rv_deployment_id = Option.bind target xt_deployment_id,
      rv_queued_agent_id = Some (aj_agent_id job),
      rv_queued_agent_version_id = aj_agent_version_id job,
      rv_queued_deployment_id = aj_deployment_id job,
      rv_review_reason = review_reason job sourceMessage target,
      rv_source_message_status = (case sourceMessage of None \<Rightarrow> JNull
        | Some m \<Rightarrow> JStr (show_message_status (msg_status m)))\<rparr>"

definition execute_task :: "agent_job \<Rightarrow> task_row \<Rightarrow> unit io" where
  "execute_task job task =
     await (getMessage (tsk_source_message_id task)) (\<lambda>sourceMessage.
     await (resolveAgentExecutionTarget (tsk_mailbox_id task) (tsk_assigned_agent task)
              receive_capable_roles) (\<lambda>target.
     seq (case target of None \<Rightarrow> ret ()
          | Some t \<Rightarrow> when_io (xt_agent_id t \<noteq> [] \<and> Some (xt_agent_id t) \<noteq> tsk_assigned_agent task)
              (updateTaskAssignment (tsk_id task) (Some (xt_agent_id t))))
     (seq (recordTaskNeedsReview (agent_review job task sourceMessage target)) (ret ()))))"

definition handle_agent_message :: "agent_job \<Rightarrow> unit io" where
  "handle_agent_message job =
     try_catch
       (await (claimTaskForExecution (aj_task_id job)) (\<lambda>claimed.
        if \<not> claimed then note_out (Acked (aj_task_id job))
        else await (getTask (aj_task_id job)) (\<lambda>task. case task of
               None \<Rightarrow> note_out (Acked (aj_task_id job))
             | Some t \<Rightarrow> seq (execute_task job t) (note_out (Acked (aj_task_id job))))))
       (\<lambda>e. seq (catch_undefined (updateTaskStatus (aj_task_id job) TaskNeedsReview (Some None)))
             (seq (enqueueDeadLetter ''agent-execute'' (aj_task_id job) (error_message e))
             (note_out (Acked (aj_task_id job)))))"

definition handleAgentExecute :: "agent_job list \<Rightarrow> unit io" where
  "handleAgentExecute jobs = for_each jobs handle_agent_message"

section \<open>The dispatcher\<close>

definition normalizeQueueName :: "string \<Rightarrow> string" where
  "normalizeQueueName q =
     (if js_ends_with q ''email-ingest'' then ''email-ingest''
      else if js_ends_with q ''agent-execute'' then ''agent-execute''
      else if js_ends_with q ''outbound-send'' then ''outbound-send''
      else if js_ends_with q ''dead-letter'' then ''dead-letter'' else q)"

text \<open>
  A batch carries the bodies of its queue. The source casts the batch to the type that the name
  promises; a batch of another type would fail on its first missing field.
\<close>

datatype queue_batch =
    IngestBatch "ingest_job list"
  | AgentBatch "agent_job list"
  | OutboundBatch "string list"
  | OtherBatch "string list"

definition batch_size :: "queue_batch \<Rightarrow> nat" where
  "batch_size b = (case b of IngestBatch xs \<Rightarrow> length xs | AgentBatch xs \<Rightarrow> length xs
     | OutboundBatch xs \<Rightarrow> length xs | OtherBatch xs \<Rightarrow> length xs)"

definition unsupported_batch :: "string \<Rightarrow> nat \<Rightarrow> unit io" where
  "unsupported_batch queue n = for_each (replicate n ()) (\<lambda>_.
     seq (enqueueDeadLetter queue ''unknown'' ''unsupported_queue'') (note_out (Acked ''unknown'')))"

definition handleQueue :: "worker_env \<Rightarrow> string \<Rightarrow> queue_batch \<Rightarrow> unit io" where
  "handleQueue env queue batch =
     (let name = normalizeQueueName queue; wrong = throw (PlainError ''Cannot read properties'') in
      if name = ''email-ingest''
      then (case batch of IngestBatch jobs \<Rightarrow> handleEmailIngest env jobs | _ \<Rightarrow> wrong)
      else if name = ''agent-execute''
      then (case batch of AgentBatch jobs \<Rightarrow> handleAgentExecute jobs | _ \<Rightarrow> wrong)
      else if name = ''outbound-send''
      then (case batch of OutboundBatch ids \<Rightarrow> handleOutboundSend env ids | _ \<Rightarrow> wrong)
      else unsupported_batch queue (batch_size batch))"

section \<open>The store invariant\<close>

lemma keeps_suppressed [keeps_intros]: "keeps (stored K es J) (getSuppressedRecipients rs)"
proof -
  have "keeps (stored K es J) (suppressed_of xs)" for xs
    by (induction xs) (auto intro!: keeps_intros)
  then show ?thesis by (simp add: getSuppressedRecipients_def)
qed

lemma keeps_release_reservation [keeps_intros]:
  "keeps (stored K es db_ok) (release_reservation d vars)"
  unfolding release_reservation_def by (intro keeps_intros)

lemma keeps_give_up [keeps_intros]: "keeps (stored K es db_ok) (give_up vars)"
  unfolding give_up_def by (intro keeps_intros)

lemma keeps_settle_job [keeps_intros]: "keeps (stored K es db_ok) (settle_job j m d vars)"
  unfolding settle_job_def by (intro keeps_intros)

lemma keeps_prepare_send [keeps_intros]: "keeps (stored K es db_ok) (prepare_send vars)"
  unfolding prepare_send_def by (intro keeps_intros)

lemma keeps_loads [keeps_intros]:
  "keeps (stored K es J) (load_job i)" "keeps (stored K es J) (load_payload j)"
  "keeps (stored K es J) (load_message j)"
  unfolding load_job_def load_payload_def load_message_def by (intro keeps_intros)+

lemma keeps_execute_task [keeps_intros]: "keeps (stored K es db_ok) (execute_task job t)"
  unfolding execute_task_def by (intro keeps_intros)

lemma keeps_deliver [keeps_intros]:
  "Call \<notin> K \<Longrightarrow> keeps (stored K es db_ok) (deliver env p vars j mb r)"
  unfolding deliver_def by (intro keeps_intros | assumption)+

text \<open>The parts that end in a verdict keep the invariant when verdicts are not watched.\<close>

lemma keeps_outbound_catch [keeps_intros]:
  "Verdict \<notin> K \<Longrightarrow> keeps (stored K es db_ok) (outbound_catch env i vars e)"
  unfolding outbound_catch_def if_distrib [of note_out] by (intro keeps_intros | assumption)+

lemma keeps_step [keeps_intros]:
  "Verdict \<notin> K \<Longrightarrow> keeps (stored K es db_ok) m \<Longrightarrow> (\<And>x. keeps (stored K es db_ok) (k x)) \<Longrightarrow>
     keeps (stored K es db_ok) (step env i vars m k)"
  unfolding step_def by (intro keeps_intros | assumption)+

lemma keeps_recovering [keeps_intros]:
  "Verdict \<notin> K \<Longrightarrow> keeps (stored K es db_ok) m \<Longrightarrow> (\<And>x. keeps (stored K es db_ok) (k x)) \<Longrightarrow>
     keeps (stored K es db_ok) (recovering env i vars r l m k)"
  unfolding recovering_def by (intro keeps_intros | assumption)+

lemma keeps_settle_and_ack [keeps_intros]:
  "Verdict \<notin> K \<Longrightarrow> keeps (stored K es db_ok) (settle_and_ack env i vars j m d)"
  "Verdict \<notin> K \<Longrightarrow> keeps (stored K es db_ok) (settle_then_ack env i vars j m)"
  unfolding settle_and_ack_def settle_then_ack_def by (intro keeps_intros | assumption)+

lemma keeps_recovery_branches [keeps_intros]:
  "Verdict \<notin> K \<Longrightarrow> keeps (stored K es db_ok) (sent_branch env i vars j m d)"
  "Verdict \<notin> K \<Longrightarrow> keeps (stored K es db_ok) (accepted_branch env i vars j m d)"
  "Verdict \<notin> K \<Longrightarrow> keeps (stored K es db_ok) (failed_branch env i vars p j d out)"
  "Verdict \<notin> K \<Longrightarrow> keeps (stored K es db_ok) (in_doubt_branch env i vars p j d)"
  unfolding sent_branch_def accepted_branch_def failed_branch_def in_doubt_branch_def
  by (intro keeps_intros | assumption)+

lemma keeps_record_sent [keeps_intros]:
  "Verdict \<notin> K \<Longrightarrow> keeps (stored K es db_ok) k \<Longrightarrow>
     keeps (stored K es db_ok) (record_sent env i vars j pm k)"
  unfolding record_sent_def by (intro keeps_intros | assumption)+

lemma keeps_claim_and_send [keeps_intros]:
  "Verdict \<notin> K \<Longrightarrow> Call \<notin> K \<Longrightarrow> keeps (stored K es db_ok) (claim_and_send env i vars p j m)"
  unfolding claim_and_send_def send_claimed_def Let_def by (intro keeps_intros | assumption)+

lemma keeps_handle_outbound [keeps_intros]:
  "Verdict \<notin> K \<Longrightarrow> Call \<notin> K \<Longrightarrow> keeps (stored K es db_ok) (handle_outbound_message env i)"
  unfolding handle_outbound_message_def dispatch_job_def Let_def by (intro keeps_intros | assumption)+

lemma keeps_other_handlers [keeps_intros]:
  "Verdict \<notin> K \<Longrightarrow> keeps (stored K es db_ok) (handleEmailIngest env jobs)"
  "Verdict \<notin> K \<Longrightarrow> keeps (stored K es db_ok) (handle_agent_message job)"
  "Verdict \<notin> K \<Longrightarrow> keeps (stored K es db_ok) (unsupported_batch q n)"
  unfolding handleEmailIngest_def handle_agent_message_def unsupported_batch_def
  by (intro keeps_intros | assumption)+

section \<open>One verdict per queue message\<close>

lemma once_outbound_catch [emits_intros]: "once Verdict i (outbound_catch env i vars e)"
  unfolding outbound_catch_def Let_def if_distrib [of note_out]
  by (intro emits_intros keeps_intros)

lemma once_step [emits_intros]:
  "(\<And>es. keeps (stored {Verdict} es db_ok) m) \<Longrightarrow> (\<And>x. once Verdict i (k x)) \<Longrightarrow>
     once Verdict i (step env i vars m k)"
  unfolding step_def by (rule once_guarded) (auto intro: once_outbound_catch)

lemma once_step_try:
  "once Verdict i m \<Longrightarrow> once Verdict i (step env i vars m (\<lambda>_. ret ()))"
proof -
  assume m: "once Verdict i m"
  have eq: "step env i vars m (\<lambda>_. ret ()) = await (try_catch (await m (\<lambda>x. ret (Some x)))
          (\<lambda>e. seq (outbound_catch env i vars e) (ret None))) (\<lambda>r. ret ())"
    unfolding step_def by (rule arg_cong [where f = "await _"]) (auto split: option.split)
  show ?thesis unfolding eq
  proof (rule emits_await [where P = "on_success i"])
    show "once Verdict i (try_catch (await m (\<lambda>x. ret (Some x)))
          (\<lambda>e. seq (outbound_catch env i vars e) (ret None)))"
    proof (rule once_try)
      show "once Verdict i (await m (\<lambda>x. ret (Some x)))"
        by (rule emits_await [OF m]) (auto intro: emits_ret)
    qed (intro once_seq_ret once_outbound_catch)
  qed (auto intro: emits_ret)
qed

lemma once_recovering [emits_intros]:
  "(\<And>es. keeps (stored {Verdict} es db_ok) m) \<Longrightarrow> (\<And>x. once Verdict i (k x)) \<Longrightarrow>
     once Verdict i (recovering env i vars r l m k)"
  unfolding recovering_def by (rule once_guarded) (auto intro!: emits_intros keeps_intros)

lemma once_settle [emits_intros]:
  "once Verdict i (settle_and_ack env i vars j m d)"
  "once Verdict i (settle_then_ack env i vars j m)"
  unfolding settle_and_ack_def settle_then_ack_def when_io_def
  by (rule once_step_try, intro emits_intros keeps_intros)
     (rule once_guarded_bool; (intro emits_intros keeps_intros)?; simp add: seq_def yields_last yields_ret)

lemma once_branches [emits_intros]:
  "once Verdict i (sent_branch env i vars j m d)"
  "once Verdict i (accepted_branch env i vars j m d)"
  "once Verdict i (failed_branch env i vars p j d out)"
  "once Verdict i (in_doubt_branch env i vars p j d)"
  unfolding sent_branch_def accepted_branch_def failed_branch_def in_doubt_branch_def Let_def
  by (intro emits_intros keeps_intros once_step_try)+

lemma once_record_sent [emits_intros]:
  "once Verdict i k \<Longrightarrow> once Verdict i (record_sent env i vars j pm k)"
  unfolding record_sent_def
  by (rule once_guarded_bool; (intro emits_intros keeps_intros)?;
      simp add: seq_def yields_last yields_ret)

lemma once_claim_and_send [emits_intros]: "once Verdict i (claim_and_send env i vars p j m)"
  unfolding claim_and_send_def send_claimed_def Let_def
  by (intro emits_intros keeps_intros once_step_try) simp_all

lemma once_handle_outbound: "once Verdict i (handle_outbound_message env i)"
  unfolding handle_outbound_message_def dispatch_job_def Let_def
  by (intro emits_intros keeps_intros)

lemma once_agent_message: "once Verdict (aj_task_id job) (handle_agent_message job)"
  unfolding handle_agent_message_def by (intro emits_intros keeps_intros)

lemma each_ingest:
  "emits Verdict (handleEmailIngest env jobs) (\<lambda>r n. case r of
     Inl _ \<Rightarrow> prefix n (map ij_message_id jobs) | Inr _ \<Rightarrow> n = map ij_message_id jobs)"
  unfolding handleEmailIngest_def
  by (rule each_for_each) (intro emits_intros keeps_intros)

lemma each_unsupported:
  "emits Verdict (unsupported_batch q n) (\<lambda>r vs. case r of
     Inl _ \<Rightarrow> prefix vs (replicate n ''unknown'') | Inr _ \<Rightarrow> vs = replicate n ''unknown'')"
proof -
  have "once Verdict ''unknown''
      (seq (enqueueDeadLetter q ''unknown'' ''unsupported_queue'') (note_out (Acked ''unknown'')))"
    by (intro emits_intros keeps_intros)
  from each_for_each [where g = "\<lambda>_::unit. ''unknown''" and xs = "replicate n ()", OF this]
  show ?thesis
    unfolding unsupported_batch_def by (rule emits_weaken) (auto split: sum.splits)
qed

section \<open>At most one request to the provider per run\<close>

lemma calls_provider_request [emits_intros]: "at_most_once Call (provider_request t c b)"
  by (rule emitsI)
     (auto simp: provider_request_def at_most_one_def stored_def seen_def Let_def split: fault.splits sum.splits)

lemma calls_sendOutboundDraft [emits_intros]: "at_most_once Call (sendOutboundDraft env mail)"
proof -
  have "at_most_once Call (sendWithResend env mail)" "at_most_once Call (sendWithSes env mail)"
    unfolding sendWithResend_def sendWithSes_def
    by (intro amo_if amo_tail amo_head emits_intros keeps_intros amo_silent)+
  then show ?thesis
    unfolding sendOutboundDraft_def maybeSendMock_def
    by (intro amo_tail keeps_intros amo_option amo_if emits_ret) (simp_all add: at_most_one_def)
qed

lemma calls_deliver [emits_intros]: "at_most_once Call (deliver env p vars j mb r)"
  unfolding deliver_def Let_def seq_def [of "when_io _ _"]
  by (intro amo_tail keeps_intros amo_if amo_silent emits_intros)

lemma calls_step:
  "(\<And>es. keeps (stored {Call} es db_ok) m) \<Longrightarrow> (\<And>x. at_most_once Call (k x)) \<Longrightarrow>
     at_most_once Call (step env i vars m k)"
  unfolding step_def
  by (rule amo_tail) (intro keeps_intros | simp add: amo_silent keeps_ret split: option.split)+

lemma calls_step_head:
  "at_most_once Call m \<Longrightarrow> (\<And>x es. keeps (stored {Call} es db_ok) (k x)) \<Longrightarrow>
     at_most_once Call (step env i vars m k)"
  unfolding step_def
  by (intro amo_head amo_guarded keeps_intros) simp_all

lemma calls_claim_and_send: "at_most_once Call (claim_and_send env i vars p j m)"
proof -
  have sc: "at_most_once Call (send_claimed env i vs p j' m)" for vs j'
    unfolding send_claimed_def Let_def
    by (intro calls_step calls_step_head calls_deliver keeps_intros) simp_all
  show ?thesis
    unfolding claim_and_send_def
    by (intro calls_step amo_if amo_option keeps_intros)
      ((rule sc | (intro amo_silent keeps_intros; simp))+)
qed

lemma calls_handle_outbound: "at_most_once Call (handle_outbound_message env i)"
  unfolding handle_outbound_message_def dispatch_job_def Let_def
  by (intro calls_step calls_claim_and_send amo_if keeps_intros amo_silent) simp_all
section \<open>No request without a claim\<close>

lemma keeps_taken_delete_job:
  "keeps (stored K es (\<lambda>s. \<not> job_free i s)) (delete_job i')"
  unfolding delete_job_def
  by (rule keeps_stored_execute)
     (auto simp: job_free_def delete_rows_def set_tbl_delete job_visible_def message_id_visible_def
        message_visible_def mailbox_of_tenant_def)

lemma keeps_taken_claim:
  "keeps (stored K es (\<lambda>s. \<not> job_free i s)) (claimOutboundJobForSend i)"
  unfolding claimOutboundJobForSend_def
  by (intro keeps_intros keeps_taken_delete_job job_claim.keeps_claim_taken)

lemma taken_claim_fails:
  assumes "stored K es (\<lambda>s. \<not> job_free i s) w" "claimOutboundJobForSend i w = (Inr c, w')"
  shows "\<not> c"
proof -
  from assms(2) obtain n w1 where n: "execute (claim_job_stmt i (clock w (ticks w))) w = (Inr n, w1)"
    and r: "(if n = 0 then ret False else await (getOutboundJob i) (\<lambda>job.
          if job = None then seq (catch_undefined (delete_job i)) (ret False) else ret True)) w1
        = (Inr c, w')"
    unfolding claimOutboundJobForSend_def by (auto simp: nowIso_def elim!: await_InrE)
  have "n = 0" by (rule job_claim.claim_taken_misses [OF assms(1) _ n]) simp
  with r show ?thesis by (simp add: ret_def)
qed

definition nobody_frees :: "outgoing list \<Rightarrow> string \<Rightarrow> world \<Rightarrow> bool" where
  "nobody_frees es i w \<longleftrightarrow> stored {Call} es db_ok w \<and> shared (\<lambda>s. \<not> job_free i s) w"

lemma keeps_nobody_frees:
  "keeps (stored {Call} es db_ok) m \<Longrightarrow> keeps (shared (\<lambda>s. \<not> job_free i s)) m \<Longrightarrow>
     keeps (nobody_frees es i) m"
  by (simp add: keeps_def nobody_frees_def)

lemma leads_step:
  assumes "keeps (nobody_frees es i) m"
    and "\<And>w x w'. nobody_frees es i w \<Longrightarrow> m w = (Inr x, w') \<Longrightarrow> Q x"
    and "\<And>x. Q x \<Longrightarrow> leads (nobody_frees es i) (stored {Call} es db_ok) (k x)"
  shows "leads (nobody_frees es i) (stored {Call} es db_ok) (step env i' vars m k)"
  unfolding step_def
proof (rule leads_guarded [OF assms])
  show "keeps (stored {Call} es db_ok) (outbound_catch env i' vars e)" for e
    by (intro keeps_intros) simp
qed (simp_all add: nobody_frees_def)

lemmas leads_silent = leads_keeps [of "stored {Call} es db_ok" _ "nobody_frees es i" for es i,
    OF _ conjunct1 [OF nobody_frees_def [THEN iffD1]]]

lemma leads_claim_and_send:
  "leads (nobody_frees es i) (stored {Call} es db_ok) (claim_and_send env i vars p j m)"
  if "oj_id j = i"
  unfolding claim_and_send_def
proof (rule leads_step [where Q = "\<lambda>c. \<not> c"])
  show "keeps (nobody_frees es i) (claimOutboundJobForSend (oj_id j))"
    unfolding that by (intro keeps_nobody_frees keeps_intros keeps_taken_claim)
  show "\<not> c" if "nobody_frees es i w" "claimOutboundJobForSend (oj_id j) w = (Inr c, w')" for w c w'
    using that taken_claim_fails unfolding \<open>oj_id j = i\<close> nobody_frees_def by blast
qed (auto intro!: leads_silent keeps_intros)

lemma leads_dispatch:
  "oj_id j = i \<Longrightarrow>
     leads (nobody_frees es i) (stored {Call} es db_ok) (dispatch_job env i vars p j m out)"
  unfolding dispatch_job_def Let_def
  by (auto intro!: leads_claim_and_send leads_silent keeps_intros)

lemma loaded_job_id:
  "load_job i w = (Inr j, w') \<Longrightarrow> oj_id j = i"
  unfolding load_job_def getOutboundJob_def query_def call_store_def requireRow_def Let_def
  by (auto simp: await_def ret_def throw_def dest!: first_row_filter_Some
      split: fault.splits prod.splits sum.splits option.splits)

lemma no_call_unclaimed:
  "leads (nobody_frees es i) (stored {Call} es db_ok) (handle_outbound_message env i)"
  unfolding handle_outbound_message_def Let_def
proof (rule leads_step [where Q = "\<lambda>j. oj_id j = i"])
  show "keeps (nobody_frees es i) (load_job i)"
    by (intro keeps_nobody_frees keeps_intros)
next
  show "oj_id j = i" if "load_job i w = (Inr j, w')" for w j w'
    by (rule loaded_job_id [OF that])
qed (intro leads_step [where Q = "\<lambda>_. True"] leads_dispatch keeps_nobody_frees keeps_intros TrueI;
      assumption)+

section \<open>A failed delivery in an undisturbed world\<close>

lemma give_up_calm: "keeps (calm (\<lambda>s. outbound_jobs s = js) out) (give_up vars)"
  unfolding give_up_def updateMessageStatus_def markDraftStatus_def release_reservation_def
    releaseOutboundUsageReservation_def getOutboundCreditRequirement_def routeOutboundRecipients_def
    lookup_entry_def getMailboxByAddress_def releaseTenantReservedCredits_def move_credits_def getTenantBillingAccount_def
    requireStateUpdateApplied_def set_message_status_def Let_def
  by (intro keeps_intros keeps_calm_execute) (simp_all add: update_rows_def)

lemma give_up_returns: "fst (give_up vars w) = Inr ()"
  by (auto simp: give_up_def seq_app ret_run catch_undefined_returns
      split: option.split prod.split sum.split)
    (metis catch_undefined_returns fst_conv sum.distinct(1))+

lemma give_up_run:
  assumes "quiet w"
  shows "\<exists>w'. give_up vars w = (Inr (), w') \<and> quiet w' \<and> outbox w' = outbox w
    \<and> outbound_jobs (store_of w') = outbound_jobs (store_of w)"
proof -
  have "calm (\<lambda>s. outbound_jobs s = outbound_jobs (store_of w)) (\<lambda>o'. o' = outbox w) w"
    using assms by (simp add: calm_def)
  from keepsD [OF give_up_calm this, of vars] give_up_returns [of vars w] show ?thesis
    by (cases "give_up vars w") (auto simp: calm_def)
qed

lemma job_rows:
  assumes "db_ok s" "j \<in> set (outbound_jobs s)"
  shows "filter (\<lambda>x. oj_id x = oj_id j) (outbound_jobs s) = [j]"
  using assms unique_by_filter_key by (metis db_ok_def)

lemma update_job_run:
  assumes "quiet w" "j \<in> set (outbound_jobs (store_of w))" "job_visible (store_of w) j"
  shows "\<exists>now. updateOutboundJobStatus (oj_id j) st (Some n) None err w =
    (Inr (), with_store (tick w) (outbound_jobs_update (tbl_update
       (\<lambda>x. oj_id x = oj_id j \<and> job_visible (store_of w) x)
       (\<lambda>x. x\<lparr>oj_status := st, oj_retry_count := n, oj_next_retry_at := None,
              oj_last_error := err, oj_updated_at := now\<rparr>)) (store_of w)))"
proof -
  have "tbl_count (\<lambda>x. oj_id x = oj_id j \<and> job_visible (store_of w) x) (outbound_jobs (store_of w)) \<noteq> 0"
    using assms(2,3) by auto
  then show ?thesis
    using assms(1) by (simp add: updateOutboundJobStatus_def run_simps update_rows_def
        requireStateUpdateApplied_def del: tbl_count_0) blast
qed

text \<open>
  C21. A failed delivery is recorded and bounded. The outer catch block sends one dead letter and
  one verdict; it counts the attempt in the row of the job and keeps the error there, and leaves
  every other job alone. The job waits for a retry, with its queue message to be redelivered, only
  while the count stays within the limit and the error is not a refusal; otherwise it is failed and
  its message acknowledged. So no job is retried more often than the limit allows.
\<close>

theorem failed_delivery_is_recorded:
  assumes "quiet w" "db_ok (store_of w)" "j \<in> set (outbound_jobs (store_of w))"
    and "job_visible (store_of w) j" "hv_job vars = Some j"
    and ex: "ex \<longleftrightarrow> is_policy_error e \<or> oj_retry_count j + 1 > getOutboundSendMaxRetries env"
  shows "\<exists>j' w'. outbound_catch env (oj_id j) vars e w = (Inr (), w')
    \<and> outbox w' = outbox w @ [ToDeadLetter ''outbound-send'' (oj_id j) (error_message e),
        if ex then Acked (oj_id j) else Retried (oj_id j)]
    \<and> filter (\<lambda>x. oj_id x = oj_id j) (outbound_jobs (store_of w')) = [j']
    \<and> oj_status j' = (if ex then JobFailed else JobRetry)
    \<and> oj_retry_count j' = oj_retry_count j + 1
    \<and> oj_last_error j' = Some (error_message e)
    \<and> filter (\<lambda>x. oj_id x \<noteq> oj_id j) (outbound_jobs (store_of w'))
        = filter (\<lambda>x. oj_id x \<noteq> oj_id j) (outbound_jobs (store_of w))"
proof -
  let ?st = "if ex then JobFailed else JobRetry" and ?err = "Some (error_message e)"
  have ex': "exhausted env vars e = ex"
    using assms(5) by (simp add: exhausted_def next_retry_count_def ex)
  obtain now where upd: "updateOutboundJobStatus (oj_id j) ?st (Some (oj_retry_count j + 1)) None ?err w =
    (Inr (), with_store (tick w) (outbound_jobs_update (tbl_update
       (\<lambda>x. oj_id x = oj_id j \<and> job_visible (store_of w) x)
       (\<lambda>x. x\<lparr>oj_status := ?st, oj_retry_count := oj_retry_count j + 1, oj_next_retry_at := None,
              oj_last_error := ?err, oj_updated_at := now\<rparr>)) (store_of w)))"
    (is "_ = (_, with_store _ (outbound_jobs_update (tbl_update ?P ?f) _))")
    using update_job_run [OF assms(1,3,4)] by blast
  let ?w1 = "with_store (tick w) (outbound_jobs_update (tbl_update ?P ?f) (store_of w))"
  obtain w2 where give: "when_io ex (give_up vars) ?w1 = (Inr (), w2)" "quiet w2" "outbox w2 = outbox w"
    "outbound_jobs (store_of w2) = tbl_update ?P ?f (outbound_jobs (store_of w))"
    using give_up_run [of ?w1 vars] assms(1) by (cases ex) (auto simp: when_io_def ret_run)
  have "filter (\<lambda>x. oj_id x = oj_id j) (tbl_update ?P ?f (outbound_jobs (store_of w))) = [?f j]"
    using job_rows [OF assms(2,3)] assms(4) by (subst filter_tbl_update) auto
  moreover have "filter (\<lambda>x. oj_id x \<noteq> oj_id j) (tbl_update ?P ?f (outbound_jobs (store_of w)))
      = filter (\<lambda>x. oj_id x \<noteq> oj_id j) (outbound_jobs (store_of w))"
    by (simp add: filter_tbl_update) (auto simp: tbl_update_def intro!: map_idI)
  ultimately show ?thesis
    using upd give assms(5)
    by (intro exI [of _ "?f j"])
      (simp add: outbound_catch_def ex' next_retry_count_def Let_def seq_app catch_undefined_def
        try_catch_app ret_run enqueueDeadLetter_def quiet_send_out note_out_run)
qed

theorem failed_delivery_is_recorded_witness:
  "\<exists>w'. outbound_catch demo_env ''obj1'' (no_vars\<lparr>hv_job := Some (demo_job JobSending)\<rparr>)
      (PlainError ''timeout'') (quiet_world (demo_store DraftQueued JobSending 5 1)) = (Inr (), w')
    \<and> last (outbox w') = Retried ''obj1''"
proof -
  let ?s = "demo_store DraftQueued JobSending 5 1" and ?j = "demo_job JobSending"
  have "?j \<in> set (outbound_jobs ?s)" "job_visible ?s ?j" "oj_id ?j = ''obj1''"
    by (simp_all add: demo_defs visibility_defs)
  moreover have "\<not> (is_policy_error (PlainError ''timeout'')
      \<or> oj_retry_count ?j + 1 > getOutboundSendMaxRetries demo_env)"
    by code_simp
  ultimately show ?thesis
    using failed_delivery_is_recorded [of "quiet_world ?s" ?j "no_vars\<lparr>hv_job := Some ?j\<rparr>" False
        "PlainError ''timeout''" demo_env] by auto
qed

end
