(* ===== verification/Idempotency.thy ===== *)
theory Idempotency
  imports MailMessages
begin

text \<open>
  \<open>src/repositories/mail.ts\<close>, idempotency keys: a request reserves its key before it acts,
  completes it with its response, or releases it when it fails; the nightly pruning removes old
  keys. The primary key of the table decides between concurrent reservations.
\<close>

datatype reservation =
    Reserved
  | Completed idempotency_row
  | Pending idempotency_row
  | Conflict idempotency_row

definition key_row :: "string \<Rightarrow> string \<Rightarrow> string \<Rightarrow> idempotency_row \<Rightarrow> bool" where
  "key_row operation tenantId idempotencyKey r \<longleftrightarrow>
     idem_operation r = operation \<and> idem_tenant_id r = tenantId \<and> idem_key r = idempotencyKey"

definition getIdempotencyRecord :: "string \<Rightarrow> string \<Rightarrow> string \<Rightarrow> idempotency_row option io" where
  "getIdempotencyRecord operation tenantId idempotencyKey =
     query (\<lambda>s. first_row (filter (key_row operation tenantId idempotencyKey) (idempotency_keys s)))"

definition classify_key :: "string \<Rightarrow> idempotency_row \<Rightarrow> reservation" where
  "classify_key requestFingerprint existing =
     (if idem_fingerprint existing \<noteq> requestFingerprint then Conflict existing
      else if idem_status existing = IdemCompleted then Completed existing
      else Pending existing)"

definition pending_row ::
  "string \<Rightarrow> string \<Rightarrow> string \<Rightarrow> string \<Rightarrow> string option \<Rightarrow> timestamp \<Rightarrow> idempotency_row" where
  "pending_row operation tenantId idempotencyKey requestFingerprint resourceId timestamp =
     \<lparr>idem_operation = operation, idem_tenant_id = tenantId, idem_key = idempotencyKey,
      idem_fingerprint = requestFingerprint, idem_status = IdemPending,
      idem_resource_id = resourceId, idem_response = None,
      idem_created_at = timestamp, idem_updated_at = timestamp\<rparr>"

text \<open>\<open>INSERT OR IGNORE\<close> of the reservation.\<close>

definition reserve_key_stmt ::
  "string \<Rightarrow> string \<Rightarrow> string \<Rightarrow> string \<Rightarrow> string option \<Rightarrow> timestamp \<Rightarrow> store \<Rightarrow> nat \<times> store" where
  "reserve_key_stmt operation tenantId idempotencyKey requestFingerprint resourceId timestamp s =
     insert_unless idempotency_keys_update
       (\<exists>r \<in> set (idempotency_keys s). key_row operation tenantId idempotencyKey r)
       (pending_row operation tenantId idempotencyKey requestFingerprint resourceId timestamp) s"

definition reserveIdempotencyKey ::
  "string \<Rightarrow> string \<Rightarrow> string \<Rightarrow> string \<Rightarrow> string option \<Rightarrow> reservation io" where
  "reserveIdempotencyKey operation tenantId idempotencyKey requestFingerprint resourceId =
     await (getIdempotencyRecord operation tenantId idempotencyKey) (\<lambda>existing. case existing of
       Some r \<Rightarrow> ret (classify_key requestFingerprint r)
     | None \<Rightarrow>
         await nowIso (\<lambda>timestamp.
         await (execute (reserve_key_stmt operation tenantId idempotencyKey requestFingerprint
                  resourceId timestamp)) (\<lambda>changes.
         if changes > 0 then ret Reserved
         else await (getIdempotencyRecord operation tenantId idempotencyKey) (\<lambda>row.
              await (requireRow row ''Idempotency reservation lookup failed'') (\<lambda>current.
              ret (classify_key requestFingerprint current))))))"

definition not_pending :: "string \<Rightarrow> string \<Rightarrow> string \<Rightarrow> nat \<Rightarrow> unit io" where
  "not_pending operation tenantId idempotencyKey changes =
     (if changes = 0
      then throw (PlainError (''Idempotency key '' @ operation @ ''/'' @ tenantId @ ''/''
             @ idempotencyKey @ '' is no longer pending''))
      else ret ())"

definition completeIdempotencyKey ::
  "string \<Rightarrow> string \<Rightarrow> string \<Rightarrow> json \<Rightarrow> string option \<Rightarrow> unit io" where
  "completeIdempotencyKey operation tenantId idempotencyKey response resourceId =
     await nowIso (\<lambda>updatedAt.
     await (execute (\<lambda>s. update_rows idempotency_keys idempotency_keys_update
       (\<lambda>r. key_row operation tenantId idempotencyKey r \<and> idem_status r = IdemPending)
       (\<lambda>r. r\<lparr>idem_status := IdemCompleted, idem_response := Some response,
              idem_resource_id := (case resourceId of Some v \<Rightarrow> Some v | None \<Rightarrow> idem_resource_id r),
              idem_updated_at := updatedAt\<rparr>) s))
     (not_pending operation tenantId idempotencyKey))"

definition updateIdempotencyKeyResource ::
  "string \<Rightarrow> string \<Rightarrow> string \<Rightarrow> string \<Rightarrow> unit io" where
  "updateIdempotencyKeyResource operation tenantId idempotencyKey resourceId =
     await nowIso (\<lambda>updatedAt.
     await (execute (\<lambda>s. update_rows idempotency_keys idempotency_keys_update
       (\<lambda>r. key_row operation tenantId idempotencyKey r \<and> idem_status r = IdemPending)
       (\<lambda>r. r\<lparr>idem_resource_id := Some resourceId, idem_updated_at := updatedAt\<rparr>) s))
     (not_pending operation tenantId idempotencyKey))"

definition releaseIdempotencyKey :: "string \<Rightarrow> string \<Rightarrow> string \<Rightarrow> unit io" where
  "releaseIdempotencyKey operation tenantId idempotencyKey =
     seq (execute (\<lambda>s. delete_rows idempotency_keys idempotency_keys_update
            (\<lambda>r. key_row operation tenantId idempotencyKey r \<and> idem_status r = IdemPending) s))
     (ret ())"

definition pruneIdempotencyKeys :: "timestamp \<Rightarrow> timestamp \<Rightarrow> nat io" where
  "pruneIdempotencyKeys completedBefore pendingBefore =
     execute (\<lambda>s. delete_rows idempotency_keys idempotency_keys_update
       (\<lambda>r. (idem_status r = IdemCompleted \<and> idem_updated_at r < completedBefore)
          \<or> (idem_status r = IdemPending \<and> idem_updated_at r < pendingBefore)) s)"

definition listIdempotencyRecords ::
  "string option \<Rightarrow> idempotency_status option \<Rightarrow> int option \<Rightarrow> idempotency_row list io" where
  "listIdempotencyRecords operation status limit =
     query (\<lambda>s. take (normalizeListLimit limit) (order_desc idem_updated_at
       (filter (\<lambda>r. (truthy operation \<longrightarrow> operation = Some (idem_operation r))
                 \<and> (status = None \<or> status = Some (idem_status r))) (idempotency_keys s))))"

text \<open>A key without a row is free to be reserved.\<close>

definition key_free :: "string \<Rightarrow> string \<Rightarrow> string \<Rightarrow> store \<Rightarrow> bool" where
  "key_free operation tenantId idempotencyKey s \<longleftrightarrow>
     \<not> (\<exists>r \<in> set (idempotency_keys s). key_row operation tenantId idempotencyKey r)"

interpretation key_claim: guarded_claim "reserve_key_stmt op t k fp res" "key_free op t k"
proof
  fix now s
  show "fst (reserve_key_stmt op t k fp res now s) \<noteq> 0 \<longleftrightarrow> key_free op t k s"
    unfolding reserve_key_stmt_def key_free_def by (rule insert_hit)
  have "key_row op t k (pending_row op t k fp res now)"
    by (simp add: key_row_def pending_row_def)
  then show "\<not> key_free op t k (snd (reserve_key_stmt op t k fp res now s))"
    unfolding reserve_key_stmt_def key_free_def not_not by (rule idempotency_tbl.insert_found)
  show "fst (reserve_key_stmt op t k fp res now s) = 0 \<Longrightarrow>
      snd (reserve_key_stmt op t k fp res now s) = s"
    unfolding reserve_key_stmt_def by (rule insert_miss)
qed

section \<open>The store invariant\<close>

lemma keeps_idempotency_reads [keeps_intros]:
  "keeps (stored K es J) (getIdempotencyRecord op t k)"
  "keeps (stored K es J) (listIdempotencyRecords op' st l)"
  unfolding getIdempotencyRecord_def listIdempotencyRecords_def by (rule keeps_stored_query)+

lemma keeps_not_pending [keeps_intros]: "keeps I (not_pending op t k n)"
  unfolding not_pending_def by (intro keeps_intros)

lemma keeps_reserveIdempotency [keeps_intros]:
  "keeps (stored K es db_ok) (reserveIdempotencyKey op t k f r)"
  unfolding reserveIdempotencyKey_def reserve_key_stmt_def
  by (intro keeps_intros) (auto simp: key_row_def pending_row_def idem_pk_def)

lemma keeps_idempotency_writes [keeps_intros]:
  "keeps (stored K es db_ok) (completeIdempotencyKey op t k resp r)"
  "keeps (stored K es db_ok) (updateIdempotencyKeyResource op t k i)"
  "keeps (stored K es db_ok) (releaseIdempotencyKey op t k)"
  "keeps (stored K es db_ok) (pruneIdempotencyKeys c p)"
  unfolding completeIdempotencyKey_def updateIdempotencyKeyResource_def
    releaseIdempotencyKey_def pruneIdempotencyKeys_def
  by (intro keeps_intros; simp add: idem_pk_def)+

section \<open>What a key promises\<close>

text \<open>The abstract key: unused, held by a request that runs, or finished with its response.\<close>

datatype key_phase = Unused | Held string | Finished string "json option"

datatype key_answer = Granted | Busy | Replay "json option" | Mismatch

fun spec_reserve :: "string \<Rightarrow> key_phase \<Rightarrow> key_answer \<times> key_phase" where
  "spec_reserve fp Unused = (Granted, Held fp)"
| "spec_reserve fp (Held g) = (if g = fp then Busy else Mismatch, Held g)"
| "spec_reserve fp (Finished g v) = (if g = fp then Replay v else Mismatch, Finished g v)"

fun spec_complete :: "json \<Rightarrow> key_phase \<Rightarrow> bool \<times> key_phase" where
  "spec_complete v (Held g) = (True, Finished g (Some v))"
| "spec_complete v st = (False, st)"

fun spec_release :: "key_phase \<Rightarrow> key_phase" where
  "spec_release (Held g) = Unused"
| "spec_release st = st"

definition state_of_row :: "idempotency_row option \<Rightarrow> key_phase" where
  "state_of_row row = (case row of None \<Rightarrow> Unused | Some r \<Rightarrow>
     if idem_status r = IdemCompleted then Finished (idem_fingerprint r) (idem_response r)
     else Held (idem_fingerprint r))"

definition key_state :: "store \<Rightarrow> string \<Rightarrow> string \<Rightarrow> string \<Rightarrow> key_phase" where
  "key_state s operation tenantId idempotencyKey =
     state_of_row (first_row (filter (key_row operation tenantId idempotencyKey)
       (idempotency_keys s)))"

fun answer_of :: "reservation \<Rightarrow> key_answer" where
  "answer_of Reserved = Granted"
| "answer_of (Completed r) = Replay (idem_response r)"
| "answer_of (Pending r) = Busy"
| "answer_of (Conflict r) = Mismatch"

lemma key_rows:
  assumes "db_ok s"
  obtains "filter (key_row op t k) (idempotency_keys s) = []"
  | r where "filter (key_row op t k) (idempotency_keys s) = [r]" "key_row op t k r"
proof -
  have eq: "key_row op t k = (\<lambda>x. idem_pk x = (op, t, k))"
    by (auto simp: key_row_def idem_pk_def fun_eq_iff)
  have u: "unique_by idem_pk (idempotency_keys s)" using assms by (simp add: db_ok_def)
  consider "filter (key_row op t k) (idempotency_keys s) = []"
    | r where "r \<in> set (idempotency_keys s)" "key_row op t k r"
    by (auto simp: filter_empty_conv)
  then show ?thesis
  proof cases
    case 2
    with unique_by_filter_key [OF u] eq that(2) show ?thesis by (simp add: eq) metis
  qed (rule that(1))
qed

text \<open>A statement about one key leaves the rows of the others alone.\<close>

lemma other_key:
  "(op', t', k') \<noteq> (op, t, k) \<Longrightarrow> key_row op' t' k' r \<Longrightarrow> \<not> key_row op t k r"
  by (auto simp: key_row_def)

lemma other_key_update:
  assumes "(op', t', k') \<noteq> (op, t, k)" "\<And>r. P r \<Longrightarrow> key_row op t k r"
    "\<And>r. key_row op' t' k' (f r) = key_row op' t' k' r"
  shows "filter (key_row op' t' k') (tbl_update P f xs) = filter (key_row op' t' k') xs"
  using assms other_key [OF assms(1)] by (induction xs) (auto simp: tbl_update_def)

lemma other_key_delete:
  assumes "(op', t', k') \<noteq> (op, t, k)" "\<And>r. P r \<Longrightarrow> key_row op t k r"
  shows "filter (key_row op' t' k') (tbl_delete P xs) = filter (key_row op' t' k') xs"
  using assms other_key [OF assms(1)] unfolding tbl_delete_def filter_filter
  by (intro filter_cong) auto

lemma pending_key_row [simp]: "key_row op t k (pending_row op t k fp res now)"
  by (simp add: key_row_def pending_row_def)

lemma key_row_update [simp]:
  "key_row op t k (r\<lparr>idem_status := a, idem_response := b, idem_resource_id := c,
     idem_updated_at := d\<rparr>) = key_row op t k r"
  by (simp add: key_row_def)

lemma update_hit_zero:
  "fst (update_rows idempotency_keys idempotency_keys_update (\<lambda>r. Q r \<and> P r) f s) = 0
    \<longleftrightarrow> filter P (filter Q (idempotency_keys s)) = []"
  by (auto simp: update_rows_def filter_empty_conv)

lemma filter_delete_own:
  "filter Q (tbl_delete (\<lambda>r. Q r \<and> P r) xs) = filter (\<lambda>r. \<not> P r) (filter Q xs)"
  unfolding tbl_delete_def filter_filter by (rule filter_cong) auto

lemma not_pending_status: "idem_status r \<noteq> IdemPending \<longleftrightarrow> idem_status r = IdemCompleted"
  by (cases "idem_status r") simp_all

lemma reserve_key_run:
  assumes "quiet w" "db_ok (store_of w)"
  shows "\<exists>x w'. reserveIdempotencyKey op t k fp res w = (Inr x, w') \<and> quiet w'
    \<and> (answer_of x, key_state (store_of w') op t k) = spec_reserve fp (key_state (store_of w) op t k)"
  by (rule key_rows [OF assms(2), where op = op and t = t and k = k])
    (auto simp: reserveIdempotencyKey_def getIdempotencyRecord_def run_simps assms classify_key_def
      key_state_def state_of_row_def reserve_key_stmt_def insert_unless_def pending_row_def
      key_row_def filter_empty_conv split: if_splits)

lemma complete_key_run:
  assumes "quiet w" "db_ok (store_of w)"
  shows "\<exists>x w'. completeIdempotencyKey op t k v res w = (x, w') \<and> quiet w'
    \<and> (x = Inr (), key_state (store_of w') op t k) = spec_complete v (key_state (store_of w) op t k)"
  by (rule key_rows [OF assms(2), where op = op and t = t and k = k])
    (auto simp: completeIdempotencyKey_def not_pending_def run_simps assms key_state_def
      state_of_row_def idempotency_tbl.update_get update_hit_zero filter_tbl_update
      not_pending_status
      split: if_splits)

lemma release_key_run:
  assumes "quiet w" "db_ok (store_of w)"
  shows "\<exists>w'. releaseIdempotencyKey op t k w = (Inr (), w') \<and> quiet w'
    \<and> key_state (store_of w') op t k = spec_release (key_state (store_of w) op t k)"
  by (rule key_rows [OF assms(2), where op = op and t = t and k = k])
    (auto simp: releaseIdempotencyKey_def run_simps assms key_state_def filter_delete_own
      state_of_row_def idempotency_tbl.delete_get not_pending_status split: if_splits)

section \<open>Properties\<close>

text \<open>
  C24. An idempotency key is a lock with a memory. Reserving it grants an unused key to one request;
  a key that is held answers \<open>pending\<close>, a finished one replays the stored response, and a request
  with another fingerprint is a conflict, with the key unchanged. Only a held key can be completed,
  and it then keeps the response; releasing frees a held key and never forgets a finished one.
\<close>

theorem idempotency_key_refines_its_contract:
  assumes "quiet w" "db_ok (store_of w)"
  shows "(\<exists>x w'. reserveIdempotencyKey op t k fp res w = (Inr x, w')
      \<and> (answer_of x, key_state (store_of w') op t k)
          = spec_reserve fp (key_state (store_of w) op t k))
    \<and> (\<exists>x w'. completeIdempotencyKey op t k v res w = (x, w')
      \<and> (x = Inr (), key_state (store_of w') op t k)
          = spec_complete v (key_state (store_of w) op t k))
    \<and> (\<exists>w'. releaseIdempotencyKey op t k w = (Inr (), w')
      \<and> key_state (store_of w') op t k = spec_release (key_state (store_of w) op t k))"
  using reserve_key_run [OF assms] complete_key_run [OF assms] release_key_run [OF assms] by blast

theorem idempotency_key_refines_its_contract_witness:
  "\<exists>x w'. reserveIdempotencyKey ''send'' ''t1'' ''k1'' ''fp'' None
      (quiet_world (demo_store DraftQueued JobQueued 5 1)) = (Inr x, w')
    \<and> answer_of x = Granted \<and> key_state (store_of w') ''send'' ''t1'' ''k1'' = Held ''fp''"
proof -
  let ?w = "quiet_world (demo_store DraftQueued JobQueued 5 1)"
  have "key_state (store_of ?w) ''send'' ''t1'' ''k1'' = Unused"
    by (simp add: key_state_def state_of_row_def demo_defs)
  with idempotency_key_refines_its_contract [of ?w "''send''" "''t1''" "''k1''" "''fp''" None]
  show ?thesis by simp
qed

text \<open>
  Of several Workers that reserve the key of the same request, in whatever order their
  statements reach the database, at most one wins while nobody removes the key, and on an unused
  key the first one does.
\<close>

theorem one_request_reserves_a_key:
  assumes "never_frees (key_free op t k) es"
  shows "winners (reserve_key_stmt op t k fp res) es s \<le> 1
    \<and> (key_free op t k s \<longrightarrow> winners (reserve_key_stmt op t k fp res) (Claim now # es) s = 1)"
  using key_claim.at_most_one_winner [OF assms] key_claim.first_claim_wins [OF _ assms] by blast

theorem one_request_reserves_a_key_witness:
  "winners (reserve_key_stmt ''send'' ''t1'' ''k1'' ''fp'' None) [Claim 1, Claim 2]
     (demo_store DraftQueued JobQueued 5 1) = 1"
  using one_request_reserves_a_key [of "''send''" "''t1''" "''k1''" "[Claim 2]" "''fp''" None
      "demo_store DraftQueued JobQueued 5 1" 1]
  by (simp add: never_frees_def key_free_def demo_defs)

end
