(* ===== verification/ReceiptMetadata.thy ===== *)
theory ReceiptMetadata
  imports LedgerMetadata JsonText
begin

text \<open>
  \<open>src/lib/payments/receipt-metadata.ts\<close>: the typed view of a payment receipt, the requirement and
  the payload that a receipt hands to the facilitator, and the fingerprint of a payment proof. The
  quote and the facilitator's answers are passed on unread, so they are JSON here. \<open>crypto.subtle\<close>
  and the collation of \<open>localeCompare\<close> are the platform's: they are arguments.
\<close>

section \<open>The metadata\<close>

record payment_proof =
  pp_raw :: string
  pp_parsed :: "json_object option"

record stored_proof =
  st_raw :: "string option"
  st_parsed :: "json_object option"

text \<open>
  The two shapes of the metadata share every field but one: the credits requested by a top-up, the
  credits included in an upgrade (whose target tier is always \<open>paid_review\<close>).
\<close>

datatype receipt_kind = TopupReceipt int | UpgradeReceipt int

record receipt_metadata =
  rm_kind :: receipt_kind
  rm_tenant_did :: "string option"
  rm_quote :: json_object
  rm_payment_proof :: stored_proof
  rm_confirmation_mode :: "confirmation_mode option"
  rm_facilitator_verify :: "json option"
  rm_facilitator_settle :: "json option"
  rm_facilitator_status_code :: "int option"
  rm_credit_ledger_entry_id :: "string option"
  rm_send_policy_status :: "outbound_status option"

record typed_receipt =
  tr_row :: receipt_row
  tr_metadata :: receipt_metadata

primrec kind_type :: "receipt_kind \<Rightarrow> receipt_type" where
  "kind_type (TopupReceipt n) = RcptTopup"
| "kind_type (UpgradeReceipt n) = RcptUpgrade"

primrec show_outbound_status :: "outbound_status \<Rightarrow> string" where
  "show_outbound_status InternalOnly = ''internal_only''"
| "show_outbound_status ExternalReview = ''external_review''"
| "show_outbound_status ExternalEnabled = ''external_enabled''"
| "show_outbound_status OutboundSuspended = ''suspended''"

section \<open>The stored document\<close>

definition proof_json :: "stored_proof \<Rightarrow> json" where
  "proof_json p = JObj (defined_fields [(''raw'', map_option JStr (st_raw p)),
     (''parsed'', map_option JObj (st_parsed p))])"

definition kind_fields :: "receipt_metadata \<Rightarrow> (string \<times> json option) list" where
  "kind_fields m = (case rm_kind m of
     TopupReceipt n \<Rightarrow> [(''receiptType'', Some (JStr ''topup'')),
       (''tenantDid'', map_option JStr (rm_tenant_did m)), (''creditsRequested'', Some (JNum n))]
   | UpgradeReceipt n \<Rightarrow> [(''receiptType'', Some (JStr ''upgrade'')),
       (''tenantDid'', map_option JStr (rm_tenant_did m)),
       (''targetPricingTier'', Some (JStr ''paid_review'')), (''includedCredits'', Some (JNum n))])"

text \<open>The own properties of the metadata object; an optional one may be \<open>undefined\<close>.\<close>

definition receipt_metadata_fields :: "receipt_metadata \<Rightarrow> (string \<times> json option) list" where
  "receipt_metadata_fields m = kind_fields m @
     [(''quote'', Some (JObj (rm_quote m))),
      (''paymentProof'', Some (proof_json (rm_payment_proof m))),
      (''confirmationMode'', map_option (\<lambda>c. JStr (show_confirmation c)) (rm_confirmation_mode m)),
      (''facilitatorVerify'', rm_facilitator_verify m),
      (''facilitatorSettle'', rm_facilitator_settle m),
      (''facilitatorStatusCode'', map_option JNum (rm_facilitator_status_code m)),
      (''creditLedgerEntryId'', map_option JStr (rm_credit_ledger_entry_id m)),
      (''sendPolicyStatus'', map_option (\<lambda>x. JStr (show_outbound_status x)) (rm_send_policy_status m))]"

definition receipt_metadata_json :: "receipt_metadata \<Rightarrow> json" where
  "receipt_metadata_json m = JObj (defined_fields (receipt_metadata_fields m))"

section \<open>Parsing\<close>

text \<open>A string that is not blank, trimmed; an integer.\<close>

definition asString :: "json option \<Rightarrow> string option" where
  "asString v = (case v of Some (JStr s) \<Rightarrow> (if js_trim s = [] then None else Some (js_trim s)) | _ \<Rightarrow> None)"

definition asInteger :: "json option \<Rightarrow> int option" where
  "asInteger v = (case v of Some (JNum n) \<Rightarrow> Some n | _ \<Rightarrow> None)"

definition asOutboundStatus :: "json option \<Rightarrow> outbound_status option" where
  "asOutboundStatus v =
     (if v = Some (JStr ''internal_only'') then Some InternalOnly
      else if v = Some (JStr ''external_review'') then Some ExternalReview
      else if v = Some (JStr ''external_enabled'') then Some ExternalEnabled
      else if v = Some (JStr ''suspended'') then Some OutboundSuspended else None)"

text \<open>\<open>asConfirmationMode\<close> is \<^const>\<open>parse_confirmation\<close> of the ledger metadata.\<close>

definition parseStoredPaymentProof :: "json option \<Rightarrow> stored_proof option" where
  "parseStoredPaymentProof v = (case asRecord v of
     None \<Rightarrow> None
   | Some record \<Rightarrow>
       (let raw = asString (js_prop record ''raw''); parsed = asRecord (js_prop record ''parsed'')
        in if raw = None \<and> parsed = None then None else Some \<lparr>st_raw = raw, st_parsed = parsed\<rparr>))"

definition is_string :: "json option \<Rightarrow> bool" where
  "is_string v \<longleftrightarrow> (case v of Some (JStr s) \<Rightarrow> True | _ \<Rightarrow> False)"

definition is_number :: "json option \<Rightarrow> bool" where
  "is_number v \<longleftrightarrow> (case v of Some (JNum n) \<Rightarrow> True | _ \<Rightarrow> False)"

definition quote_requirements_ok :: "json_object \<Rightarrow> bool" where
  "quote_requirements_ok q \<longleftrightarrow>
     (asRecord (js_prop q ''paymentRequirements'') \<noteq> None \<and> asRecord (js_prop q ''paymentRequired'') \<noteq> None)
     \<or> asRecord (js_prop q ''paymentRequired'') \<noteq> None"

definition isTopupQuote :: "json option \<Rightarrow> bool" where
  "isTopupQuote v \<longleftrightarrow> (case asRecord v of None \<Rightarrow> False
     | Some q \<Rightarrow> is_string (js_prop q ''scheme'') \<and> is_string (js_prop q ''network'')
         \<and> is_string (js_prop q ''asset'') \<and> is_number (js_prop q ''credits'')
         \<and> is_string (js_prop q ''amountUsd'') \<and> is_string (js_prop q ''amountAtomic'')
         \<and> is_string (js_prop q ''description'')
         \<and> (is_string (js_prop q ''assetSymbol'') \<or> js_prop q ''assetSymbol'' = None)
         \<and> quote_requirements_ok q)"

definition isUpgradeQuote :: "json option \<Rightarrow> bool" where
  "isUpgradeQuote v \<longleftrightarrow> (case asRecord v of None \<Rightarrow> False
     | Some q \<Rightarrow> is_string (js_prop q ''scheme'') \<and> is_string (js_prop q ''network'')
         \<and> is_string (js_prop q ''asset'') \<and> js_prop q ''targetPricingTier'' = Some (JStr ''paid_review'')
         \<and> (is_number (js_prop q ''includedCredits'') \<or> js_prop q ''includedCredits'' = None)
         \<and> is_string (js_prop q ''amountUsd'') \<and> is_string (js_prop q ''amountAtomic'')
         \<and> is_string (js_prop q ''description'')
         \<and> (is_string (js_prop q ''assetSymbol'') \<or> js_prop q ''assetSymbol'' = None)
         \<and> quote_requirements_ok q)"

definition parseMetadataBase ::
  "json_object \<Rightarrow> receipt_kind \<Rightarrow> json_object \<Rightarrow> stored_proof \<Rightarrow> receipt_metadata" where
  "parseMetadataBase record kind q pay =
     \<lparr>rm_kind = kind, rm_tenant_did = asString (js_prop record ''tenantDid''), rm_quote = q,
      rm_payment_proof = pay,
      rm_confirmation_mode = parse_confirmation (js_prop record ''confirmationMode''),
      rm_facilitator_verify = js_prop record ''facilitatorVerify'',
      rm_facilitator_settle = js_prop record ''facilitatorSettle'',
      rm_facilitator_status_code = asInteger (js_prop record ''facilitatorStatusCode''),
      rm_credit_ledger_entry_id = asString (js_prop record ''creditLedgerEntryId''),
      rm_send_policy_status = asOutboundStatus (js_prop record ''sendPolicyStatus'')\<rparr>"

text \<open>\<open>a ?? b\<close> on values that may be \<open>undefined\<close>.\<close>

definition or_else :: "'a option \<Rightarrow> 'a option \<Rightarrow> 'a option" where
  "or_else a b = (case a of Some x \<Rightarrow> Some x | None \<Rightarrow> b)"

lemma or_else_simps [simp]:
  "or_else None b = b" "or_else (Some x) b = Some x" "or_else a None = a"
  by (simp_all add: or_else_def split: option.split)

definition included_credits :: "json_object \<Rightarrow> int" where
  "included_credits record =
     (case or_else (asInteger (js_prop record ''includedCredits''))
        (case asRecord (js_prop record ''quote'') of None \<Rightarrow> None
         | Some q \<Rightarrow> asInteger (js_prop q ''includedCredits'')) of Some n \<Rightarrow> n | None \<Rightarrow> 0)"

definition parsePaymentReceiptMetadata :: "receipt_type \<Rightarrow> json option \<Rightarrow> receipt_metadata option" where
  "parsePaymentReceiptMetadata receiptType value = (case asRecord value of
     None \<Rightarrow> None
   | Some record \<Rightarrow> (case parseStoredPaymentProof (js_prop record ''paymentProof'') of
       None \<Rightarrow> None
     | Some pay \<Rightarrow>
         if receiptType = RcptTopup
         then (case asInteger (js_prop record ''creditsRequested'') of
                 None \<Rightarrow> None
               | Some n \<Rightarrow>
                   if n = 0 \<or> \<not> isTopupQuote (js_prop record ''quote'') then None
                   else map_option (\<lambda>q. parseMetadataBase record (TopupReceipt n) q pay)
                          (asRecord (js_prop record ''quote'')))
         else if js_prop record ''targetPricingTier'' \<noteq> Some (JStr ''paid_review'')
                 \<or> \<not> isUpgradeQuote (js_prop record ''quote'') then None
         else map_option (\<lambda>q. parseMetadataBase record (UpgradeReceipt (included_credits record)) q pay)
                (asRecord (js_prop record ''quote''))))"

definition parseTypedPaymentReceipt :: "receipt_row \<Rightarrow> typed_receipt option" where
  "parseTypedPaymentReceipt receipt =
     (if pr_receipt_type receipt \<noteq> RcptTopup \<and> pr_receipt_type receipt \<noteq> RcptUpgrade then None
      else map_option (\<lambda>m. \<lparr>tr_row = receipt, tr_metadata = m\<rparr>)
             (parsePaymentReceiptMetadata (pr_receipt_type receipt) (pr_metadata receipt)))"

section \<open>Building\<close>

definition stored_of :: "payment_proof \<Rightarrow> stored_proof" where
  "stored_of p = \<lparr>st_raw = Some (pp_raw p), st_parsed = pp_parsed p\<rparr>"

definition new_metadata ::
  "receipt_kind \<Rightarrow> string option \<Rightarrow> json_object \<Rightarrow> payment_proof \<Rightarrow> receipt_metadata" where
  "new_metadata kind tenantDid q p =
     \<lparr>rm_kind = kind, rm_tenant_did = tenantDid, rm_quote = q, rm_payment_proof = stored_of p,
      rm_confirmation_mode = None, rm_facilitator_verify = None, rm_facilitator_settle = None,
      rm_facilitator_status_code = None, rm_credit_ledger_entry_id = None,
      rm_send_policy_status = None\<rparr>"

definition buildTopupReceiptMetadata ::
  "string option \<Rightarrow> int \<Rightarrow> json_object \<Rightarrow> payment_proof \<Rightarrow> receipt_metadata" where
  "buildTopupReceiptMetadata tenantDid creditsRequested q p =
     new_metadata (TopupReceipt creditsRequested) tenantDid q p"

definition buildUpgradeReceiptMetadata ::
  "string option \<Rightarrow> int \<Rightarrow> json_object \<Rightarrow> payment_proof \<Rightarrow> receipt_metadata" where
  "buildUpgradeReceiptMetadata tenantDid includedCredits q p =
     new_metadata (UpgradeReceipt includedCredits) tenantDid q p"

record confirmation =
  cf_mode :: confirmation_mode
  cf_status_code :: "int option"
  cf_verify :: "json option"
  cf_settle :: "json option"
  cf_ledger_entry_id :: "string option"
  cf_send_policy_status :: "outbound_status option"

definition withReceiptConfirmation :: "receipt_metadata \<Rightarrow> confirmation \<Rightarrow> receipt_metadata" where
  "withReceiptConfirmation m c =
     m\<lparr>rm_confirmation_mode := Some (cf_mode c),
       rm_facilitator_status_code := or_else (cf_status_code c) (rm_facilitator_status_code m),
       rm_facilitator_verify := or_else (cf_verify c) (rm_facilitator_verify m),
       rm_facilitator_settle := or_else (cf_settle c) (rm_facilitator_settle m),
       rm_credit_ledger_entry_id := or_else (cf_ledger_entry_id c) (rm_credit_ledger_entry_id m),
       rm_send_policy_status := or_else (cf_send_policy_status c) (rm_send_policy_status m)\<rparr>"

section \<open>What a receipt hands to the facilitator\<close>

definition getPaymentRequirementsFromRequired :: "json option \<Rightarrow> json option" where
  "getPaymentRequirementsFromRequired value = (case asRecord value of
     None \<Rightarrow> None
   | Some record \<Rightarrow> (case js_prop record ''accepts'' of
       Some (JArr (JObj accepted # rest)) \<Rightarrow>
         if is_string (js_prop accepted ''scheme'') \<and> is_string (js_prop accepted ''network'')
            \<and> is_string (js_prop accepted ''asset'') \<and> is_string (js_prop accepted ''amount'')
            \<and> is_string (js_prop accepted ''payTo'') \<and> is_number (js_prop accepted ''maxTimeoutSeconds'')
         then Some (JObj accepted) else None
     | _ \<Rightarrow> None))"

text \<open>\<open>??\<close> also passes over \<open>null\<close>.\<close>

definition not_null :: "json option \<Rightarrow> json option" where
  "not_null v = (if v = Some JNull then None else v)"

definition getReceiptPaymentRequirements :: "receipt_metadata \<Rightarrow> json option" where
  "getReceiptPaymentRequirements m =
     or_else (not_null (js_prop (rm_quote m) ''paymentRequirements''))
       (getPaymentRequirementsFromRequired (js_prop (rm_quote m) ''paymentRequired''))"

definition getReceiptPaymentPayload :: "receipt_metadata \<Rightarrow> json option" where
  "getReceiptPaymentPayload m = (case st_parsed (rm_payment_proof m) of
     Some parsed \<Rightarrow> Some (JObj parsed)
   | None \<Rightarrow> map_option JStr (st_raw (rm_payment_proof m)))"

section \<open>The fingerprint of a proof\<close>

function normalizeProofValue :: "(string \<Rightarrow> string) \<Rightarrow> json \<Rightarrow> json" where
  "normalizeProofValue collation (JArr js) = JArr (map (normalizeProofValue collation) js)"
| "normalizeProofValue collation (JObj kvs) =
     JObj (map (\<lambda>(k, v). (k, normalizeProofValue collation v)) (sort_key (\<lambda>(k, v). collation k) kvs))"
| "normalizeProofValue collation JNull = JNull"
| "normalizeProofValue collation (JBool b) = JBool b"
| "normalizeProofValue collation (JNum n) = JNum n"
| "normalizeProofValue collation (JStr s) = JStr s"
  by pat_completeness auto

lemma json_size_member: "(k, v) \<in> set kvs \<Longrightarrow> size v < size (JObj kvs)"
  by (induction kvs) auto

termination normalizeProofValue
  by (relation "measure (\<lambda>(c, j). size j)")
     (auto dest: json_size_member simp: less_Suc_eq_le size_list_estimation')

definition fingerprintPaymentProof ::
  "(string \<Rightarrow> string) \<Rightarrow> (string \<Rightarrow> nat list) \<Rightarrow> payment_proof \<Rightarrow> string" where
  "fingerprintPaymentProof collation sha256 p =
     toHex (sha256 (utf8 (case pp_parsed p of
       Some parsed \<Rightarrow> json_text (normalizeProofValue collation (JObj parsed))
     | None \<Rightarrow> pp_raw p)))"

section \<open>Writing and parsing\<close>

text \<open>
  The metadata that the runtime writes: strings are trimmed and not blank, the quote has the shape
  that its kind asks for, a top-up requests some credits.
\<close>

definition tidy :: "string option \<Rightarrow> bool" where
  "tidy x \<longleftrightarrow> (case x of None \<Rightarrow> True | Some s \<Rightarrow> s \<noteq> [] \<and> js_trim s = s)"

definition metadata_ok :: "receipt_metadata \<Rightarrow> bool" where
  "metadata_ok m \<longleftrightarrow> tidy (rm_tenant_did m) \<and> tidy (rm_credit_ledger_entry_id m)
     \<and> tidy (st_raw (rm_payment_proof m))
     \<and> (st_raw (rm_payment_proof m) \<noteq> None \<or> st_parsed (rm_payment_proof m) \<noteq> None)
     \<and> (case rm_kind m of
          TopupReceipt n \<Rightarrow> n \<noteq> 0 \<and> isTopupQuote (Some (JObj (rm_quote m)))
        | UpgradeReceipt n \<Rightarrow> isUpgradeQuote (Some (JObj (rm_quote m))))"

lemma asString_tidy: "tidy x \<Longrightarrow> asString (map_option JStr x) = x"
  by (cases x) (auto simp: asString_def tidy_def)

lemma asOutboundStatus_show [simp]: "asOutboundStatus (map_option (\<lambda>x. JStr (show_outbound_status x)) x) = x"
  by (cases x; cases "the x") (auto simp: asOutboundStatus_def)

lemma parse_confirmation_map [simp]: "parse_confirmation (map_option (\<lambda>c. JStr (show_confirmation c)) x) = x"
  by (cases x) (simp_all add: parse_confirmation_def [of None])

lemma asInteger_map [simp]: "asInteger (map_option JNum x) = x"
  by (cases x) (simp_all add: asInteger_def)

lemma asRecord_simps [simp]: "asRecord (Some (JObj o')) = Some o'" "asRecord (map_option JObj x) = x"
  by (cases x; simp add: asRecord_def)+

lemma parse_stored_proof:
  assumes "tidy (st_raw p)" "st_raw p \<noteq> None \<or> st_parsed p \<noteq> None"
  shows "parseStoredPaymentProof (Some (proof_json p)) = Some p"
proof -
  have "map_of (defined_fields [(''raw'', map_option JStr (st_raw p)),
      (''parsed'', map_option JObj (st_parsed p))]) k =
    (if k = ''raw'' then map_option JStr (st_raw p)
     else if k = ''parsed'' then map_option JObj (st_parsed p) else None)" for k
    by (subst map_of_defined_fields) auto
  with assms show ?thesis
    by (auto simp: parseStoredPaymentProof_def proof_json_def js_prop_def asString_tidy Let_def)
qed

lemma distinct_metadata_fields: "distinct (map fst (receipt_metadata_fields m))"
  by (simp add: receipt_metadata_fields_def kind_fields_def split: receipt_kind.split)

text \<open>A document that agrees with the fields of the metadata is parsed as the metadata.\<close>

lemma parse_fields:
  assumes ok: "metadata_ok m"
    and doc: "\<And>k v. map_of (receipt_metadata_fields m) k = Some v \<Longrightarrow> js_prop record k = v"
  shows "parsePaymentReceiptMetadata (kind_type (rm_kind m)) (Some (JObj record)) = Some m"
proof -
  note fields = doc [unfolded receipt_metadata_fields_def kind_fields_def]
  have "js_prop record ''quote'' = Some (JObj (rm_quote m))"
    "js_prop record ''paymentProof'' = Some (proof_json (rm_payment_proof m))"
    "js_prop record ''confirmationMode'' = map_option (\<lambda>c. JStr (show_confirmation c)) (rm_confirmation_mode m)"
    "js_prop record ''facilitatorVerify'' = rm_facilitator_verify m"
    "js_prop record ''facilitatorSettle'' = rm_facilitator_settle m"
    "js_prop record ''facilitatorStatusCode'' = map_option JNum (rm_facilitator_status_code m)"
    "js_prop record ''creditLedgerEntryId'' = map_option JStr (rm_credit_ledger_entry_id m)"
    "js_prop record ''sendPolicyStatus'' = map_option (\<lambda>x. JStr (show_outbound_status x)) (rm_send_policy_status m)"
    "js_prop record ''tenantDid'' = map_option JStr (rm_tenant_did m)"
    by (cases "rm_kind m"; simp add: fields)+
  note props = this
  have "parseStoredPaymentProof (js_prop record ''paymentProof'') = Some (rm_payment_proof m)"
    using ok parse_stored_proof [of "rm_payment_proof m"] by (simp add: props metadata_ok_def)
  moreover have "parseMetadataBase record (rm_kind m) (rm_quote m) (rm_payment_proof m) = m"
    using ok by (simp add: parseMetadataBase_def props asString_tidy metadata_ok_def)
  ultimately show ?thesis
    using ok fields [of "''creditsRequested''"] fields [of "''targetPricingTier''"]
      fields [of "''includedCredits''"]
    by (cases "rm_kind m")
       (auto simp: parsePaymentReceiptMetadata_def props metadata_ok_def asInteger_def included_credits_def)
qed

lemma parse_spread:
  assumes "metadata_ok m" "distinct (map fst old)"
  shows "parsePaymentReceiptMetadata (kind_type (rm_kind m))
    (Some (JObj (defined_fields (js_spread old (receipt_metadata_fields m))))) = Some m"
  by (rule parse_fields [OF assms(1)])
     (simp add: js_prop_def map_of_defined_fields distinct_js_spread distinct_metadata_fields
       map_of_js_spread assms(2))

lemma parse_written_receipt:
  assumes "metadata_ok m"
  shows "parsePaymentReceiptMetadata (kind_type (rm_kind m)) (Some (receipt_metadata_json m)) = Some m"
  unfolding receipt_metadata_json_def
  by (rule parse_fields [OF assms])
     (simp add: js_prop_def map_of_defined_fields distinct_metadata_fields)

section \<open>Documents that differ only in the order of their members\<close>

inductive same_document :: "json \<Rightarrow> json \<Rightarrow> bool" where
  same_null: "same_document JNull JNull"
| same_bool: "same_document (JBool b) (JBool b)"
| same_num: "same_document (JNum n) (JNum n)"
| same_str: "same_document (JStr s) (JStr s)"
| same_arr: "list_all2 same_document js js' \<Longrightarrow> same_document (JArr js) (JArr js')"
| same_obj: "map fst kvs = map fst us \<Longrightarrow> list_all2 same_document (map snd kvs) (map snd us) \<Longrightarrow>
     mset us = mset kvs' \<Longrightarrow> distinct (map fst kvs') \<Longrightarrow> same_document (JObj kvs) (JObj kvs')"

lemma list_all2_sort_key:
  assumes "list_all2 R xs ys" "\<And>x y. R x y \<Longrightarrow> f x = g y"
  shows "list_all2 R (sort_key f xs) (sort_key g ys)"
proof -
  have ins: "R x y \<Longrightarrow> list_all2 R us vs \<Longrightarrow> list_all2 R (insort_key f x us) (insort_key g y vs)"
    for x y us vs
  proof (induction us arbitrary: vs)
    case Nil
    then show ?case by simp
  next
    case (Cons u us)
    then obtain v vs' where vs: "vs = v # vs'" "R u v" "list_all2 R us vs'"
      by (auto simp: list_all2_Cons1)
    with Cons assms(2) [of x y] assms(2) [of u v] show ?case by auto
  qed
  from assms(1) show ?thesis
    by (induction rule: list_all2_induct) (auto intro: ins)
qed

lemma same_members_normalize:
  assumes "map fst kvs = map fst us"
    "list_all2 (\<lambda>x y. normalizeProofValue c x = normalizeProofValue c y) (map snd kvs) (map snd us)"
    "mset us = mset kvs'" "distinct (map fst kvs')" "inj c"
  shows "normalizeProofValue c (JObj kvs) = normalizeProofValue c (JObj kvs')"
proof -
  let ?key = "\<lambda>(k, v :: json). c k" and ?norm = "\<lambda>(k, v). (k, normalizeProofValue c v)"
  have "list_all2 (\<lambda>x y. ?norm x = ?norm y) kvs us"
    using assms(1,2) by (auto simp: list_all2_conv_all_nth list_eq_iff_nth_eq case_prod_beta)
  then have "list_all2 (\<lambda>x y. ?norm x = ?norm y) (sort_key ?key kvs) (sort_key ?key us)"
    by (rule list_all2_sort_key) (auto simp: case_prod_beta)
  then have "map ?norm (sort_key ?key kvs) = map ?norm (sort_key ?key us)"
    by (auto simp: list_all2_conv_all_nth list_eq_iff_nth_eq)
  moreover have "inj_on ?key (set us)"
  proof (rule inj_onI)
    fix x y assume "x \<in> set us" "y \<in> set us" "?key x = ?key y"
    moreover from this have "fst x = fst y"
      using assms(5) by (auto simp: case_prod_beta dest: injD)
    moreover have "set us = set kvs'" using assms(3) by (metis set_mset_mset)
    ultimately show "x = y"
      using assms(4) by (metis eq_key_imp_eq_value prod.collapse)
  qed
  then have "sort_key ?key us = sort_key ?key kvs'"
    using assms(3) by (intro sort_key_inj_key_eq) simp_all
  ultimately show ?thesis by (simp add: case_prod_beta)
qed

lemma same_document_normalize:
  "same_document a b \<Longrightarrow> inj c \<Longrightarrow> normalizeProofValue c a = normalizeProofValue c b"
proof (induction rule: same_document.induct)
  case (same_arr js js')
  then show ?case by (auto simp: list_all2_conv_all_nth list_eq_iff_nth_eq)
next
  case (same_obj kvs us kvs')
  show ?case
    by (rule same_members_normalize [where us = us])
       (use same_obj in \<open>auto simp: list_all2_conv_all_nth\<close>)
qed simp_all

section \<open>Properties\<close>

text \<open>
  C31. The metadata of a receipt survives its document: whatever document \<open>old\<close> the update of a
  receipt merges it into (none for a new receipt), the parser gives back exactly the metadata
  that was written, unknown members of the old document notwithstanding.
\<close>

theorem receipt_metadata_round_trip:
  assumes "metadata_ok m" "distinct (map fst old)"
    and "pr_receipt_type receipt = kind_type (rm_kind m)"
    and "pr_metadata receipt = Some (JObj (defined_fields (js_spread old (receipt_metadata_fields m))))"
  shows "parseTypedPaymentReceipt receipt = Some \<lparr>tr_row = receipt, tr_metadata = m\<rparr>"
  using parse_spread [OF assms(1,2)] assms(3,4)
  by (cases "rm_kind m") (simp_all add: parseTypedPaymentReceipt_def)



definition demo_quote :: json_object where
  "demo_quote = [(''scheme'', JStr ''exact''), (''network'', JStr ''eip155:84532''),
     (''asset'', JStr ''usdc''), (''credits'', JNum 5), (''amountUsd'', JStr ''0.05''),
     (''amountAtomic'', JStr ''50000''), (''description'', JStr ''Top up''),
     (''paymentRequirements'', JObj [(''scheme'', JStr ''exact'')]), (''paymentRequired'', JObj [])]"

definition demo_receipt_metadata :: receipt_metadata where
  "demo_receipt_metadata =
     buildTopupReceiptMetadata None 5 demo_quote \<lparr>pp_raw = ''proof'', pp_parsed = None\<rparr>"

definition demo_receipt :: "receipt_status \<Rightarrow> receipt_row" where
  "demo_receipt st = \<lparr>pr_id = ''prc1'', pr_tenant_id = ''t1'', pr_receipt_type = RcptTopup,
     pr_payment_scheme = ''exact'', pr_network = None, pr_asset = None, pr_amount_atomic = ''50000'',
     pr_amount_display = None, pr_payment_reference = None, pr_settlement_reference = None,
     pr_proof_fingerprint = Some ''f1'', pr_status = st,
     pr_metadata = Some (receipt_metadata_json demo_receipt_metadata), pr_created_at = 1,
     pr_updated_at = 1\<rparr>"

lemma demo_metadata_ok: "metadata_ok demo_receipt_metadata"
  by code_simp

theorem receipt_metadata_round_trip_witness:
  "parseTypedPaymentReceipt (demo_receipt RcptPending) =
     Some \<lparr>tr_row = demo_receipt RcptPending, tr_metadata = demo_receipt_metadata\<rparr>"
  by (rule receipt_metadata_round_trip [where old = "[]"])
     (use demo_metadata_ok in \<open>simp_all add: demo_receipt_def demo_receipt_metadata_def
       buildTopupReceiptMetadata_def new_metadata_def receipt_metadata_json_def js_spread_def\<close>)

end
