(* ===== verification/PaymentReceipts.thy ===== *)
theory PaymentReceipts
  imports Billing ReceiptMetadata
begin

text \<open>
  The payment receipts of \<open>src/repositories/billing.ts\<close>. A receipt is created once per payment proof:
  its fingerprint, its payment reference and its settlement reference are unique columns, and a
  violation is reported as a \<open>BillingUniquenessError\<close>. The typed operations refuse a receipt whose
  metadata does not parse, and take their own change back.
\<close>

section \<open>Reading\<close>

definition parseJsonObject :: "json option \<Rightarrow> json option" where
  "parseJsonObject v = map_option JObj (asRecord v)"

definition mapPaymentReceiptRow :: "receipt_row \<Rightarrow> receipt_row" where
  "mapPaymentReceiptRow row = row\<lparr>pr_metadata := parseJsonObject (pr_metadata row)\<rparr>"

definition listTenantPaymentReceipts :: "string \<Rightarrow> nat \<Rightarrow> receipt_row list io" where
  "listTenantPaymentReceipts tenantId limit =
     await (query (\<lambda>s. take limit (order_desc pr_created_at
              (filter (\<lambda>r. pr_tenant_id r = tenantId) (payment_receipts s)))))
       (\<lambda>rows. ret (map mapPaymentReceiptRow rows))"

definition listTypedTenantPaymentReceipts :: "string \<Rightarrow> nat \<Rightarrow> typed_receipt list io" where
  "listTypedTenantPaymentReceipts tenantId limit =
     await (listTenantPaymentReceipts tenantId limit)
       (\<lambda>receipts. ret (List.map_filter parseTypedPaymentReceipt receipts))"

definition getTenantPaymentReceiptById :: "string \<Rightarrow> string \<Rightarrow> receipt_row option io" where
  "getTenantPaymentReceiptById tenantId receiptId =
     await (query (\<lambda>s. first_row (filter (\<lambda>r. pr_tenant_id r = tenantId \<and> pr_id r = receiptId)
              (payment_receipts s))))
       (\<lambda>row. ret (map_option mapPaymentReceiptRow row))"

definition typed_receipt_or_null :: "receipt_row option \<Rightarrow> typed_receipt option" where
  "typed_receipt_or_null r = Option.bind r parseTypedPaymentReceipt"

definition getTypedTenantPaymentReceiptById :: "string \<Rightarrow> string \<Rightarrow> typed_receipt option io" where
  "getTypedTenantPaymentReceiptById tenantId receiptId =
     await (getTenantPaymentReceiptById tenantId receiptId) (\<lambda>r. ret (typed_receipt_or_null r))"

definition getTypedPaymentReceiptByProofFingerprint :: "string \<Rightarrow> typed_receipt option io" where
  "getTypedPaymentReceiptByProofFingerprint fingerprint =
     await (query (\<lambda>s. take 2 (order_desc pr_created_at
              (filter (\<lambda>r. pr_proof_fingerprint r = Some fingerprint) (payment_receipts s)))))
       (\<lambda>rows. if length rows > 1
          then throw (BillingUniquenessError (''Payment proof fingerprint '' @ fingerprint
                 @ '' matches multiple receipts; manual reconciliation is required''))
          else ret (typed_receipt_or_null (map_option mapPaymentReceiptRow (first_row rows))))"

section \<open>Creating\<close>

record receipt_input =
  ri_tenant_id :: string
  ri_receipt_type :: receipt_type
  ri_payment_scheme :: string
  ri_amount_atomic :: string
  ri_status :: receipt_status
  ri_network :: "string option"
  ri_asset :: "string option"
  ri_amount_display :: "string option"
  ri_payment_reference :: "string option"
  ri_settlement_reference :: "string option"
  ri_proof_fingerprint :: "string option"
  ri_metadata :: "json option"

definition receipt_of_input :: "string \<Rightarrow> timestamp \<Rightarrow> receipt_input \<Rightarrow> receipt_row" where
  "receipt_of_input i timestamp input =
     \<lparr>pr_id = i, pr_tenant_id = ri_tenant_id input, pr_receipt_type = ri_receipt_type input,
      pr_payment_scheme = ri_payment_scheme input, pr_network = ri_network input,
      pr_asset = ri_asset input, pr_amount_atomic = ri_amount_atomic input,
      pr_amount_display = ri_amount_display input, pr_payment_reference = ri_payment_reference input,
      pr_settlement_reference = ri_settlement_reference input,
      pr_proof_fingerprint = ri_proof_fingerprint input, pr_status = ri_status input,
      pr_metadata = ri_metadata input, pr_created_at = timestamp, pr_updated_at = timestamp\<rparr>"

definition already_associated :: "string \<Rightarrow> string \<Rightarrow> js_error" where
  "already_associated what v = BillingUniquenessError (what @ '' '' @ v
     @ '' is already associated with another receipt; manual reconciliation is required'')"

definition create_receipt_error :: "receipt_input \<Rightarrow> js_error \<Rightarrow> js_error" where
  "create_receipt_error input e =
     (if \<not> isUniqueConstraintError e then e
      else if truthy (ri_proof_fingerprint input)
      then already_associated ''Payment proof fingerprint'' (the (ri_proof_fingerprint input))
      else if truthy (ri_settlement_reference input)
      then already_associated ''Settlement reference'' (the (ri_settlement_reference input))
      else if truthy (ri_payment_reference input)
      then already_associated ''Payment reference'' (the (ri_payment_reference input))
      else e)"

definition createTenantPaymentReceipt :: "receipt_input \<Rightarrow> receipt_row io" where
  "createTenantPaymentReceipt input =
     await (createId ''prc'') (\<lambda>i.
     await nowIso (\<lambda>timestamp.
     let row = receipt_of_input i timestamp input in
     await (try_catch (execute_checked (\<lambda>s. insert_checked payment_receipts_update (receipt_clash s row) row s))
              (\<lambda>e. throw (create_receipt_error input e))) (\<lambda>_.
     await (query (\<lambda>s. first_row (filter (\<lambda>r. pr_id r = i) (payment_receipts s)))) (\<lambda>found.
     await (requireRow found ''Failed to load payment receipt'') (\<lambda>r. ret (mapPaymentReceiptRow r))))))"

definition delete_receipt :: "string \<Rightarrow> string \<Rightarrow> unit io" where
  "delete_receipt tenantId receiptId =
     catch_undefined (execute (\<lambda>s. delete_rows payment_receipts payment_receipts_update
       (\<lambda>r. pr_tenant_id r = tenantId \<and> pr_id r = receiptId) s))"

definition createTypedTenantPaymentReceipt :: "receipt_input \<Rightarrow> typed_receipt io" where
  "createTypedTenantPaymentReceipt input =
     await (createTenantPaymentReceipt input) (\<lambda>receipt.
     case parseTypedPaymentReceipt receipt of
       None \<Rightarrow> seq (delete_receipt (ri_tenant_id input) (pr_id receipt))
                 (throw (PlainError ''Failed to create typed payment receipt''))
     | Some typed \<Rightarrow>
         if pr_receipt_type (tr_row typed) \<noteq> ri_receipt_type input
         then seq (delete_receipt (ri_tenant_id input) (pr_id receipt))
                (throw (PlainError ''Failed to create typed payment receipt''))
         else ret typed)"

section \<open>Updating\<close>

text \<open>
  The metadata of an update is a typed metadata, given by its own properties; the columns that the
  update leaves out keep their value.
\<close>

record receipt_update =
  ru_tenant_id :: string
  ru_receipt_id :: string
  ru_status :: receipt_status
  ru_payment_reference :: "string option"
  ru_settlement_reference :: "string option"
  ru_metadata :: "receipt_metadata option"

definition merged_metadata :: "receipt_row \<Rightarrow> receipt_metadata option \<Rightarrow> json option" where
  "merged_metadata existing metadata = (case metadata of None \<Rightarrow> pr_metadata existing
     | Some m \<Rightarrow> Some (JObj (defined_fields (js_spread
         (case asRecord (pr_metadata existing) of Some obj \<Rightarrow> obj | None \<Rightarrow> [])
         (receipt_metadata_fields m)))))"

definition write_receipt ::
  "string \<Rightarrow> string \<Rightarrow> receipt_status \<Rightarrow> string option \<Rightarrow> string option \<Rightarrow> json option \<Rightarrow> timestamp
     \<Rightarrow> nat io" where
  "write_receipt tenantId receiptId status paymentRef settlementRef metadata updatedAt =
     (let P = (\<lambda>r. pr_tenant_id r = tenantId \<and> pr_id r = receiptId);
          f = (\<lambda>r. r\<lparr>pr_status := status, pr_payment_reference := paymentRef,
                pr_settlement_reference := settlementRef, pr_metadata := metadata,
                pr_updated_at := updatedAt\<rparr>)
      in execute_checked (\<lambda>s. update_checked payment_receipts payment_receipts_update
           (receipt_update_clash s P f) P f s))"

definition update_receipt_error :: "receipt_update \<Rightarrow> receipt_row \<Rightarrow> js_error \<Rightarrow> js_error" where
  "update_receipt_error input existing e =
     (if \<not> isUniqueConstraintError e then e
      else if ru_settlement_reference input \<noteq> None
              \<and> ru_settlement_reference input \<noteq> pr_settlement_reference existing
      then already_associated ''Settlement reference'' (the (ru_settlement_reference input))
      else if ru_payment_reference input \<noteq> None
              \<and> ru_payment_reference input \<noteq> pr_payment_reference existing
      then already_associated ''Payment reference'' (the (ru_payment_reference input))
      else e)"

definition updateTenantPaymentReceiptStatus :: "receipt_update \<Rightarrow> receipt_row io" where
  "updateTenantPaymentReceiptStatus input =
     await (getTenantPaymentReceiptById (ru_tenant_id input) (ru_receipt_id input)) (\<lambda>found.
     case found of
       None \<Rightarrow> throw (PlainError ''Payment receipt not found'')
     | Some existing \<Rightarrow>
         await nowIso (\<lambda>updatedAt.
         await (try_catch (write_receipt (ru_tenant_id input) (ru_receipt_id input) (ru_status input)
                    (or_else (ru_payment_reference input) (pr_payment_reference existing))
                    (or_else (ru_settlement_reference input) (pr_settlement_reference existing))
                    (merged_metadata existing (ru_metadata input)) updatedAt)
                  (\<lambda>e. throw (update_receipt_error input existing e))) (\<lambda>changes.
         if changes = 0
         then throw (PlainError (''Payment receipt '' @ ru_receipt_id input @ '' no longer exists''))
         else await (query (\<lambda>s. first_row (filter (\<lambda>r. pr_tenant_id r = ru_tenant_id input
                        \<and> pr_id r = ru_receipt_id input) (payment_receipts s)))) (\<lambda>row.
              await (requireRow row ''Failed to load payment receipt'')
                (\<lambda>r. ret (mapPaymentReceiptRow r))))))"

definition restoreTenantPaymentReceiptSnapshot :: "receipt_row \<Rightarrow> unit io" where
  "restoreTenantPaymentReceiptSnapshot receipt =
     await (write_receipt (pr_tenant_id receipt) (pr_id receipt) (pr_status receipt)
              (pr_payment_reference receipt) (pr_settlement_reference receipt) (pr_metadata receipt)
              (pr_updated_at receipt)) (\<lambda>changes.
     if changes = 0
     then throw (PlainError (''Payment receipt '' @ pr_id receipt @ '' no longer exists''))
     else ret ())"

definition updateTypedTenantPaymentReceiptStatus :: "receipt_update \<Rightarrow> typed_receipt io" where
  "updateTypedTenantPaymentReceiptStatus input =
     await (getTenantPaymentReceiptById (ru_tenant_id input) (ru_receipt_id input)) (\<lambda>found.
     case found of
       None \<Rightarrow> throw (PlainError ''Payment receipt not found'')
     | Some existing \<Rightarrow>
         await (updateTenantPaymentReceiptStatus input) (\<lambda>receipt.
         case parseTypedPaymentReceipt receipt of
           Some typed \<Rightarrow> ret typed
         | None \<Rightarrow> seq (catch_undefined (restoreTenantPaymentReceiptSnapshot existing))
                     (throw (PlainError ''Failed to update typed payment receipt''))))"

section \<open>The store invariant\<close>

lemma keeps_receipt_reads [keeps_intros]:
  "keeps (stored K es J) (listTenantPaymentReceipts t n)"
  "keeps (stored K es J) (getTenantPaymentReceiptById t i)"
  "keeps (stored K es J) (getTypedPaymentReceiptByProofFingerprint fp)"
  unfolding listTenantPaymentReceipts_def getTenantPaymentReceiptById_def
    getTypedPaymentReceiptByProofFingerprint_def
  by (intro keeps_intros)+

lemma keeps_typed_receipt_reads [keeps_intros]:
  "keeps (stored K es J) (listTypedTenantPaymentReceipts t n)"
  "keeps (stored K es J) (getTypedTenantPaymentReceiptById t i)"
  unfolding listTypedTenantPaymentReceipts_def getTypedTenantPaymentReceiptById_def
  by (intro keeps_intros)+

lemma keeps_createTenantPaymentReceipt [keeps_intros]:
  "keeps (stored K es db_ok) (createTenantPaymentReceipt input)"
  unfolding createTenantPaymentReceipt_def Let_def by (intro keeps_intros)

lemma keeps_delete_receipt [keeps_intros]: "keeps (stored K es db_ok) (delete_receipt t i)"
  unfolding delete_receipt_def by (intro keeps_intros)

lemma keeps_createTyped [keeps_intros]:
  "keeps (stored K es db_ok) (createTypedTenantPaymentReceipt input)"
  unfolding createTypedTenantPaymentReceipt_def by (intro keeps_intros)

lemma keeps_write_receipt [keeps_intros]:
  "keeps (stored K es db_ok) (write_receipt t i st p s md u)"
  unfolding write_receipt_def Let_def by (rule keeps_update_receipts [where i = i]) auto

lemma keeps_updateTenantPaymentReceiptStatus [keeps_intros]:
  "keeps (stored K es db_ok) (updateTenantPaymentReceiptStatus input)"
  unfolding updateTenantPaymentReceiptStatus_def by (intro keeps_intros)

lemma keeps_restore [keeps_intros]:
  "keeps (stored K es db_ok) (restoreTenantPaymentReceiptSnapshot receipt)"
  unfolding restoreTenantPaymentReceiptSnapshot_def by (intro keeps_intros)

lemma keeps_updateTyped [keeps_intros]:
  "keeps (stored K es db_ok) (updateTypedTenantPaymentReceiptStatus input)"
  unfolding updateTypedTenantPaymentReceiptStatus_def by (intro keeps_intros)

end
