(* ===== verification/X402.thy ===== *)
theory X402
  imports ReceiptMetadata Base64 JsNumber Scenario
begin

text \<open>
  \<open>src/lib/payments/x402.ts\<close>: the quotes for a top-up and an upgrade, the payment proof that a
  client sends in a header, and the checks that tie a proof to a quote. \<open>JSON.parse\<close> of the decoded
  proof is a parameter of the environment, as are the collation and the digest of the platform.
\<close>

section \<open>Settings\<close>

record payment_env =
  X402_DEFAULT_SCHEME :: "string option"
  X402_DEFAULT_NETWORK_ID :: "string option"
  X402_DEFAULT_ASSET :: "string option"
  X402_PAY_TO :: "string option"
  X402_PRICE_PER_CREDIT_USD :: "string option"
  X402_UPGRADE_PRICE_USD :: "string option"
  X402_UPGRADE_INCLUDED_CREDITS :: "string option"
  X402_FACILITATOR_URL :: "string option"
  X402_FACILITATOR_VERIFY_PATH :: "string option"
  X402_FACILITATOR_SETTLE_PATH :: "string option"
  X402_FACILITATOR_AUTH_TOKEN :: "string option"
  X402_FACILITATOR_MOCK_VERIFY_RESULT :: "string option"
  X402_FACILITATOR_MOCK_SETTLE_RESULT :: "string option"
  json_parse :: "string \<Rightarrow> json option"
  collation :: "string \<Rightarrow> string"
  sha256 :: "string \<Rightarrow> nat list"

text \<open>\<open>value?.trim() || fallback\<close>.\<close>

definition setting_or :: "string \<Rightarrow> string option \<Rightarrow> string" where
  "setting_or fallback v = (case v of None \<Rightarrow> fallback
     | Some s \<Rightarrow> if js_trim s = [] then fallback else js_trim s)"

definition setting_opt :: "string option \<Rightarrow> string option" where
  "setting_opt v = (case v of None \<Rightarrow> None
     | Some s \<Rightarrow> if js_trim s = [] then None else Some (js_trim s))"

definition parsePositiveNumber :: "string option \<Rightarrow> rat option" where
  "parsePositiveNumber value = (if \<not> truthy value then None
     else case js_parse_float (the value) of
       None \<Rightarrow> None | Some x \<Rightarrow> if x \<le> 0 then None else Some x)"

definition parsePositiveInteger :: "string option \<Rightarrow> int option" where
  "parsePositiveInteger value = (if \<not> truthy value then None
     else case js_parse_int (the value) of
       None \<Rightarrow> None | Some n \<Rightarrow> if n \<le> 0 then None else Some n)"

text \<open>The double \<open>0.01\<close>.\<close>

definition one_cent :: rat where
  "one_cent = 5764607523034235 / 576460752303423488"

record x402_defaults =
  xd_scheme :: string
  xd_network :: string
  xd_asset :: string
  xd_pay_to :: "string option"
  xd_price_per_credit_usd :: rat
  xd_upgrade_price_usd :: rat
  xd_upgrade_included_credits :: int

definition getX402Defaults :: "payment_env \<Rightarrow> x402_defaults" where
  "getX402Defaults env =
     \<lparr>xd_scheme = setting_or ''exact'' (X402_DEFAULT_SCHEME env),
      xd_network = setting_or ''eip155:84532'' (X402_DEFAULT_NETWORK_ID env),
      xd_asset = setting_or ''usdc'' (X402_DEFAULT_ASSET env),
      xd_pay_to = setting_opt (X402_PAY_TO env),
      xd_price_per_credit_usd = (case parsePositiveNumber (X402_PRICE_PER_CREDIT_USD env) of
        Some p \<Rightarrow> p | None \<Rightarrow> one_cent),
      xd_upgrade_price_usd = (case parsePositiveNumber (X402_UPGRADE_PRICE_USD env) of
        Some p \<Rightarrow> p | None \<Rightarrow> 10),
      xd_upgrade_included_credits = (case parsePositiveInteger (X402_UPGRADE_INCLUDED_CREDITS env) of
        Some n \<Rightarrow> n | None \<Rightarrow> 10000)\<rparr>"

section \<open>Quotes\<close>

text \<open>An amount is a double that is not negative; \<^const>\<open>None\<close> is \<open>Infinity\<close>.\<close>

definition formatUsd :: "rat option \<Rightarrow> string" where
  "formatUsd amount = (case amount of None \<Rightarrow> ''0.00''
     | Some x \<Rightarrow> if one_cent \<le> x then to_fixed 2 x
                else strip_trailing CHR ''.'' (strip_trailing CHR ''0'' (to_fixed 6 x)))"

definition usdToAtomicSixDecimals :: "rat option \<Rightarrow> string" where
  "usdToAtomicSixDecimals amount =
     (case Option.bind amount (\<lambda>x. to_double (x * 1000000)) of
        None \<Rightarrow> ''Infinity'' | Some x \<Rightarrow> show_int \<lfloor>x + 1 / 2\<rfloor>)"

definition resolveAssetIdentifier :: "string \<Rightarrow> string \<Rightarrow> string \<times> string \<times> json_object" where
  "resolveAssetIdentifier network asset =
     (let symbol = js_lower (js_trim asset)
      in if network = ''eip155:84532'' \<and> symbol = ''usdc''
         then (''0x036CbD53842c5426634e7929541eC2318f3dCF7e'', ''usdc'',
               [(''assetTransferMethod'', JStr ''eip3009''), (''name'', JStr ''USDC''),
                (''version'', JStr ''2'')])
         else (asset, symbol, []))"

definition resource_info :: "string \<Rightarrow> string \<Rightarrow> json_object" where
  "resource_info url description =
     [(''url'', JStr url), (''description'', JStr description), (''mimeType'', JStr ''application/json'')]"

definition buildPaymentRequirement ::
  "string \<Rightarrow> string \<Rightarrow> string \<Rightarrow> string \<Rightarrow> string option \<Rightarrow> string \<Rightarrow> string \<Rightarrow> string
     \<Rightarrow> json_object \<Rightarrow> js_error + json_object" where
  "buildPaymentRequirement scheme network asset amount payTo url description outputSchema extra =
     (case setting_opt payTo of
        None \<Rightarrow> Inl (PlainError ''X402 pay-to address is not configured'')
      | Some p \<Rightarrow> Inr [(''scheme'', JStr scheme), (''network'', JStr network), (''asset'', JStr asset),
          (''amount'', JStr amount), (''payTo'', JStr p), (''maxTimeoutSeconds'', JNum 300),
          (''extra'', JObj extra), (''maxAmountRequired'', JStr amount), (''resource'', JStr url),
          (''description'', JStr description), (''mimeType'', JStr ''application/json''),
          (''outputSchema'', JStr outputSchema)])"

definition buildPaymentRequiredResponse :: "json_object \<Rightarrow> json_object \<Rightarrow> json_object" where
  "buildPaymentRequiredResponse resource requirement =
     [(''x402Version'', JNum 2), (''resource'', JObj resource), (''accepts'', JArr [JObj requirement])]"

record x402_quote =
  xq_kind :: receipt_kind
  xq_scheme :: string
  xq_network :: string
  xq_asset :: string
  xq_asset_symbol :: string
  xq_amount_usd :: string
  xq_amount_atomic :: string
  xq_description :: string
  xq_requirements :: json_object
  xq_required :: json_object

definition quote_json :: "x402_quote \<Rightarrow> json_object" where
  "quote_json q = [(''scheme'', JStr (xq_scheme q)), (''network'', JStr (xq_network q)),
      (''asset'', JStr (xq_asset q)), (''assetSymbol'', JStr (xq_asset_symbol q))]
     @ (case xq_kind q of TopupReceipt n \<Rightarrow> [(''credits'', JNum n)]
        | UpgradeReceipt n \<Rightarrow> [(''targetPricingTier'', JStr ''paid_review''), (''includedCredits'', JNum n)])
     @ [(''amountUsd'', JStr (xq_amount_usd q)), (''amountAtomic'', JStr (xq_amount_atomic q)),
        (''description'', JStr (xq_description q)), (''paymentRequirements'', JObj (xq_requirements q)),
        (''paymentRequired'', JObj (xq_required q))]"

text \<open>The two builders differ in the description, the resource, the price and the extra members.\<close>

definition make_quote ::
  "x402_defaults \<Rightarrow> receipt_kind \<Rightarrow> rat option \<Rightarrow> string \<Rightarrow> string \<Rightarrow> string \<Rightarrow> json_object
     \<Rightarrow> js_error + x402_quote" where
  "make_quote defaults kind amount description url outputSchema extra =
     (let (asset, symbol, assetExtra) = resolveAssetIdentifier (xd_network defaults) (xd_asset defaults)
      in case buildPaymentRequirement (xd_scheme defaults) (xd_network defaults) asset
                (usdToAtomicSixDecimals amount) (xd_pay_to defaults) url description outputSchema
                (assetExtra @ extra) of
           Inl e \<Rightarrow> Inl e
         | Inr requirement \<Rightarrow> Inr \<lparr>xq_kind = kind, xq_scheme = xd_scheme defaults,
             xq_network = xd_network defaults, xq_asset = asset, xq_asset_symbol = symbol,
             xq_amount_usd = formatUsd amount, xq_amount_atomic = usdToAtomicSixDecimals amount,
             xq_description = description, xq_requirements = requirement,
             xq_required = buildPaymentRequiredResponse (resource_info url description) requirement\<rparr>)"

definition result_of :: "js_error + 'a \<Rightarrow> 'a io" where
  "result_of r = (case r of Inl e \<Rightarrow> throw e | Inr x \<Rightarrow> ret x)"

definition buildX402TopupQuote ::
  "payment_env \<Rightarrow> int \<Rightarrow> string \<Rightarrow> string option \<Rightarrow> string \<Rightarrow> x402_quote io" where
  "buildX402TopupQuote env credits tenantId tenantDid apiBaseUrl =
     await nowIso (\<lambda>quotedAt.
     let defaults = getX402Defaults env;
         description = ''Top up '' @ show_int credits @ '' Mailagents credits for tenant '' @ tenantId
     in result_of (make_quote defaults (TopupReceipt credits)
          (to_double (of_int credits * xd_price_per_credit_usd defaults)) description
          (apiBaseUrl @ ''/v1/billing/topup'')
          ''https://api.mailagents.net/schemas/billing/topup-result.json''
          (defined_fields [(''tenantId'', Some (JStr tenantId)), (''tenantDid'', map_option JStr tenantDid),
             (''credits'', Some (JNum credits)), (''quotedAt'', Some (JStr (iso_text quotedAt)))])))"

definition buildX402UpgradeQuote ::
  "payment_env \<Rightarrow> string \<Rightarrow> string option \<Rightarrow> string \<Rightarrow> x402_quote io" where
  "buildX402UpgradeQuote env tenantId tenantDid apiBaseUrl =
     await nowIso (\<lambda>quotedAt.
     let defaults = getX402Defaults env; n = xd_upgrade_included_credits defaults;
         description = ''Upgrade tenant '' @ tenantId @ '' to paid_review and grant '' @ show_int n
                       @ '' Mailagents credits''
     in result_of (make_quote defaults (UpgradeReceipt n) (Some (xd_upgrade_price_usd defaults))
          description (apiBaseUrl @ ''/v1/billing/upgrade-intent'')
          ''https://api.mailagents.net/schemas/billing/upgrade-result.json''
          (defined_fields [(''tenantId'', Some (JStr tenantId)), (''tenantDid'', map_option JStr tenantDid),
             (''targetPricingTier'', Some (JStr ''paid_review'')), (''includedCredits'', Some (JNum n)),
             (''quotedAt'', Some (JStr (iso_text quotedAt)))])))"

definition encodePaymentRequiredHeader :: "json_object \<Rightarrow> string" where
  "encodePaymentRequiredHeader payload = btoa (json_text (JObj payload))"

definition encodePaymentResponseHeader :: "json \<Rightarrow> string" where
  "encodePaymentResponseHeader payload = btoa (json_text payload)"

section \<open>The payment proof\<close>

definition parseX402PaymentProof :: "payment_env \<Rightarrow> string option \<Rightarrow> payment_proof option" where
  "parseX402PaymentProof env raw = (case raw of None \<Rightarrow> None
     | Some r \<Rightarrow> if js_trim r = [] then None
         else Some \<lparr>pp_raw = js_trim r,
                pp_parsed = asRecord (Option.bind (atob (js_trim r)) (json_parse env))\<rparr>)"

definition isX402PaymentPayload :: "json option \<Rightarrow> bool" where
  "isX402PaymentPayload v \<longleftrightarrow> (case asRecord v of None \<Rightarrow> False
     | Some record \<Rightarrow> js_prop record ''x402Version'' = Some (JNum 2)
         \<and> asRecord (js_prop record ''accepted'') \<noteq> None \<and> asRecord (js_prop record ''payload'') \<noteq> None)"

text \<open>A rejected proof; its \<open>error\<close> member is always \<open>Invalid x402 payment proof\<close>.\<close>

record proof_error =
  pe_code :: string
  pe_message :: string
  pe_suggested_action :: string
  pe_details :: "json option"

definition all_digits :: "string \<Rightarrow> bool" where
  "all_digits s \<longleftrightarrow> s \<noteq> [] \<and> list_all is_digit s"

definition asIntegerLikeString :: "json option \<Rightarrow> string option" where
  "asIntegerLikeString v = (case v of
     Some (JNum n) \<Rightarrow> if 0 \<le> n \<and> n \<le> 9007199254740991 then Some (show_int n) else None
   | Some (JStr s) \<Rightarrow> if all_digits (js_trim s) then Some (js_trim s) else None
   | _ \<Rightarrow> None)"

definition is_hex_char :: "char \<Rightarrow> bool" where
  "is_hex_char c \<longleftrightarrow> is_digit c \<or> (let n = (of_char c :: nat) in (65 \<le> n \<and> n \<le> 70) \<or> (97 \<le> n \<and> n \<le> 102))"

definition isHexBytes32 :: "string \<Rightarrow> bool" where
  "isHexBytes32 v \<longleftrightarrow> length v = 66 \<and> take 2 v = ''0x'' \<and> list_all is_hex_char (drop 2 v)"

definition json_sub :: "json_object \<Rightarrow> string \<Rightarrow> json_object option" where
  "json_sub obj k = asRecord (js_prop obj k)"

definition requirement_mismatches :: "json_object \<Rightarrow> json_object \<Rightarrow> string list" where
  "requirement_mismatches accepted requirement =
     filter (\<lambda>f. asString (js_prop accepted f) \<noteq> str_opt (js_prop requirement f))
       [''scheme'', ''network'', ''asset'', ''amount'', ''payTo'']"

text \<open>The fields of an EIP-3009 authorization that are missing.\<close>

definition missing_authorization_fields :: "json_object \<Rightarrow> string list" where
  "missing_authorization_fields a = map fst (filter (\<lambda>(f, v). \<not> truthy v)
     [(''from'', asString (js_prop a ''from'')), (''to'', asString (js_prop a ''to'')),
      (''value'', asIntegerLikeString (js_prop a ''value'')),
      (''validAfter'', asIntegerLikeString (js_prop a ''validAfter'')),
      (''validBefore'', asIntegerLikeString (js_prop a ''validBefore'')),
      (''nonce'', asString (js_prop a ''nonce''))])"

definition missing_authorization :: "json_object \<Rightarrow> proof_error" where
  "missing_authorization payload = \<lparr>pe_code = ''missing_x402_authorization'',
     pe_message = ''For exact/eip3009 proofs, payload.authorization is required. payload.message is not accepted as a substitute.'',
     pe_suggested_action = ''Place the signed transfer fields under payload.authorization with from, to, value, validAfter, validBefore, and nonce.'',
     pe_details = Some (JObj [(''expectedFields'', JArr (map (\<lambda>f. JStr (''payload.authorization.'' @ f))
         [''from'', ''to'', ''value'', ''validAfter'', ''validBefore'', ''nonce''])),
       (''detectedPayloadFields'', JArr (map JStr (sort (map fst payload))))])\<rparr>"

definition incomplete_authorization :: "string list \<Rightarrow> proof_error" where
  "incomplete_authorization missing = \<lparr>pe_code = ''incomplete_x402_authorization'',
     pe_message = ''payload.authorization is missing required EIP-3009 fields.'',
     pe_suggested_action = ''Include from, to, value, validAfter, validBefore, and nonce under payload.authorization.'',
     pe_details = Some (JObj [(''missingFields'', JArr (map JStr missing))])\<rparr>"

definition invalid_nonce :: "string \<Rightarrow> proof_error" where
  "invalid_nonce nonce = \<lparr>pe_code = ''invalid_x402_authorization_nonce'',
     pe_message = ''payload.authorization.nonce must be a 0x-prefixed 32-byte hex string for EIP-3009.'',
     pe_suggested_action = ''Generate a fresh bytes32 nonce, place it under payload.authorization.nonce, and retry the same billing route.'',
     pe_details = Some (JObj [(''receivedNonce'', JStr nonce)])\<rparr>"

definition validate_authorization :: "json_object \<Rightarrow> proof_error option" where
  "validate_authorization payload = (case json_sub payload ''authorization'' of
     None \<Rightarrow> Some (missing_authorization payload)
   | Some a \<Rightarrow>
       if missing_authorization_fields a \<noteq> []
       then Some (incomplete_authorization (missing_authorization_fields a))
       else let nonce = (case asString (js_prop a ''nonce'') of Some n \<Rightarrow> n | None \<Rightarrow> [])
            in if \<not> isHexBytes32 nonce then Some (invalid_nonce nonce) else None)"

definition validate_payload :: "json_object \<Rightarrow> json_object \<Rightarrow> proof_error option" where
  "validate_payload requirement parsed = (case json_sub parsed ''payload'' of
     None \<Rightarrow> Some \<lparr>pe_code = ''missing_x402_payload'',
       pe_message = ''payload is required in the x402 proof.'',
       pe_suggested_action = ''Send a proof with payload.signature and, for EIP-3009, payload.authorization.'',
       pe_details = None\<rparr>
   | Some payload \<Rightarrow>
       if asString (js_prop payload ''signature'') = None
       then Some \<lparr>pe_code = ''missing_x402_signature'',
              pe_message = ''payload.signature is required in the x402 proof.'',
              pe_suggested_action = ''Include the signed EIP-3009 signature in payload.signature.'',
              pe_details = None\<rparr>
       else if Option.bind (json_sub requirement ''extra'')
                 (\<lambda>extra. asString (js_prop extra ''assetTransferMethod'')) = Some ''eip3009''
       then validate_authorization payload
       else None)"

definition requirement_mismatch :: "string list \<Rightarrow> proof_error" where
  "requirement_mismatch names = \<lparr>pe_code = ''x402_requirement_mismatch'',
     pe_message = ''accepted must match the quote's payment requirement.'',
     pe_suggested_action = ''Reuse the exact quote.paymentRequired.accepts[0] object from the current quote.'',
     pe_details = Some (JObj [(''mismatchedFields'', JArr (map JStr names))])\<rparr>"

definition validate_accepted :: "json_object \<Rightarrow> json_object \<Rightarrow> proof_error option" where
  "validate_accepted requirement parsed = (case json_sub parsed ''accepted'' of
     None \<Rightarrow> Some \<lparr>pe_code = ''missing_x402_accepted_requirement'',
       pe_message = ''accepted is required in the x402 proof.'',
       pe_suggested_action = ''Copy quote.paymentRequired.accepts[0] into accepted before retrying.'',
       pe_details = None\<rparr>
   | Some accepted \<Rightarrow>
       if requirement_mismatches accepted requirement \<noteq> []
       then Some (requirement_mismatch (requirement_mismatches accepted requirement))
       else validate_payload requirement parsed)"

definition resource_url :: "json_object \<Rightarrow> string option" where
  "resource_url obj = Option.bind (json_sub obj ''resource'') (\<lambda>r. asString (js_prop r ''url''))"

text \<open>The URL of the quote's resource, as it is written in the quote.\<close>

definition required_url :: "json_object \<Rightarrow> string option" where
  "required_url required = Option.bind (json_sub required ''resource'') (\<lambda>r. str_opt (js_prop r ''url''))"

definition missing_resource :: "string option \<Rightarrow> proof_error" where
  "missing_resource url = \<lparr>pe_code = ''missing_x402_resource'',
     pe_message = ''resource.url is required in the x402 proof.'',
     pe_suggested_action = ''Copy quote.paymentRequired.resource into the proof before base64-encoding it and retry ''
       @ (case url of Some u \<Rightarrow> u | None \<Rightarrow> ''undefined'') @ ''.'',
     pe_details = Some (JObj (defined_fields [(''expectedResourceUrl'', map_option JStr url)]))\<rparr>"

definition resource_mismatch :: "string option \<Rightarrow> string option \<Rightarrow> proof_error" where
  "resource_mismatch expected received = \<lparr>pe_code = ''x402_resource_mismatch'',
     pe_message = ''resource.url must match the billing endpoint that produced the quote.'',
     pe_suggested_action = ''Use the exact quote.paymentRequired.resource.url from the current quote when building the proof.'',
     pe_details = Some (JObj (defined_fields [(''expectedResourceUrl'', map_option JStr expected),
       (''receivedResourceUrl'', map_option JStr received)]))\<rparr>"

definition validateX402PaymentProof ::
  "payment_proof \<Rightarrow> json_object \<Rightarrow> json_object \<Rightarrow> proof_error option" where
  "validateX402PaymentProof p requirement required = (case pp_parsed p of
     None \<Rightarrow> Some \<lparr>pe_code = ''invalid_x402_payment_proof_encoding'',
       pe_message = ''payment-signature must be a base64-encoded JSON x402 proof object.'',
       pe_suggested_action = ''Base64-encode the full x402 v2 JSON proof and retry the same billing route.'',
       pe_details = None\<rparr>
   | Some parsed \<Rightarrow>
       if js_prop parsed ''x402Version'' \<noteq> Some (JNum 2)
       then Some \<lparr>pe_code = ''invalid_x402_payment_proof_version'', pe_message = ''x402Version must be 2.'',
              pe_suggested_action = ''Send a full x402 v2 proof object with x402Version: 2.'',
              pe_details = Some (JObj [(''expectedVersion'', JNum 2), (''receivedVersion'',
                case js_prop parsed ''x402Version'' of Some v \<Rightarrow> v | None \<Rightarrow> JNull)])\<rparr>
       else if resource_url parsed = None then Some (missing_resource (required_url required))
       else if resource_url parsed \<noteq> required_url required
       then Some (resource_mismatch (required_url required) (resource_url parsed))
       else validate_accepted requirement parsed)"

section \<open>Properties\<close>

lemma make_quote_requirement:
  assumes "make_quote d kind amount description url schema extra = Inr q"
  shows "js_prop (xq_requirements q) ''amount'' = Some (JStr (xq_amount_atomic q))"
    "js_prop (xq_requirements q) ''scheme'' = Some (JStr (xq_scheme q))"
    "js_prop (xq_requirements q) ''network'' = Some (JStr (xq_network q))"
    "js_prop (xq_requirements q) ''asset'' = Some (JStr (xq_asset q))"
    "map_option JStr (setting_opt (xd_pay_to d)) = js_prop (xq_requirements q) ''payTo''"
    "required_url (xq_required q) = Some url" "xq_kind q = kind"
    "xq_amount_atomic q = usdToAtomicSixDecimals amount"
  using assms
  by (auto simp: make_quote_def buildPaymentRequirement_def js_prop_def required_url_def json_sub_def
      buildPaymentRequiredResponse_def resource_info_def str_opt_def
      split: prod.splits option.splits sum.splits)

lemma topup_quote_cases:
  assumes "buildX402TopupQuote env credits tenantId did base w = (Inr q, w')"
  obtains description extra where
    "make_quote (getX402Defaults env) (TopupReceipt credits)
       (to_double (of_int credits * xd_price_per_credit_usd (getX402Defaults env))) description
       (base @ ''/v1/billing/topup'')
       ''https://api.mailagents.net/schemas/billing/topup-result.json'' extra = Inr q"
  using assms by (auto simp: buildX402TopupQuote_def Let_def result_of_def run_simps split: sum.splits)

lemma setting_opt_idem [simp]: "setting_opt (setting_opt v) = setting_opt v"
  by (auto simp: setting_opt_def split: option.split)

lemma accepted_matches:
  assumes "validateX402PaymentProof p requirement required = None"
  obtains parsed accepted where "pp_parsed p = Some parsed"
    "resource_url parsed = required_url required" "json_sub parsed ''accepted'' = Some accepted"
    "\<forall>f \<in> {''scheme'', ''network'', ''asset'', ''amount'', ''payTo''}.
       asString (js_prop accepted f) = str_opt (js_prop requirement f)"
proof -
  from assms obtain parsed where p: "pp_parsed p = Some parsed"
    by (auto simp: validateX402PaymentProof_def split: option.splits)
  with assms have url: "resource_url parsed = required_url required"
    and "validate_accepted requirement parsed = None"
    by (auto simp: validateX402PaymentProof_def split: if_splits)
  then obtain accepted where "json_sub parsed ''accepted'' = Some accepted"
    "requirement_mismatches accepted requirement = []"
    by (auto simp: validate_accepted_def split: option.splits if_splits)
  with p url that show thesis
    by (auto simp: requirement_mismatches_def filter_empty_conv split: if_splits)
qed

text \<open>
  C33. An accepted payment proof pays the quote: a proof that the top-up endpoint accepts commits, in
  its \<open>accepted\<close> member, to exactly the amount that was computed for the requested credits, to the
  configured address, on the quoted network and asset, for this endpoint.
\<close>

theorem accepted_proof_pays_the_quote:
  assumes "buildX402TopupQuote env credits tenantId did base w = (Inr q, w')"
    and "validateX402PaymentProof p (xq_requirements q) (xq_required q) = None"
  shows "\<exists>parsed accepted. pp_parsed p = Some parsed
     \<and> json_sub parsed ''accepted'' = Some accepted
     \<and> resource_url parsed = Some (base @ ''/v1/billing/topup'')
     \<and> asString (js_prop accepted ''amount'') = Some (usdToAtomicSixDecimals
          (to_double (of_int credits * xd_price_per_credit_usd (getX402Defaults env))))
     \<and> asString (js_prop accepted ''payTo'') = setting_opt (X402_PAY_TO env)
     \<and> asString (js_prop accepted ''network'') = Some (xq_network q)
     \<and> asString (js_prop accepted ''asset'') = Some (xq_asset q)"
proof -
  obtain description extra where q: "make_quote (getX402Defaults env) (TopupReceipt credits)
       (to_double (of_int credits * xd_price_per_credit_usd (getX402Defaults env))) description
       (base @ ''/v1/billing/topup'')
       ''https://api.mailagents.net/schemas/billing/topup-result.json'' extra = Inr q"
    using topup_quote_cases [OF assms(1)] .
  note req = make_quote_requirement [OF q]
  have pay: "str_opt (js_prop (xq_requirements q) ''payTo'') = setting_opt (X402_PAY_TO env)"
    unfolding req(5) [symmetric] by (simp add: getX402Defaults_def)
  from accepted_matches [OF assms(2)] obtain parsed accepted where a: "pp_parsed p = Some parsed"
    "resource_url parsed = required_url (xq_required q)" "json_sub parsed ''accepted'' = Some accepted"
    "\<forall>f \<in> {''scheme'', ''network'', ''asset'', ''amount'', ''payTo''}.
       asString (js_prop accepted f) = str_opt (js_prop (xq_requirements q) f)" .
  then show ?thesis using req pay by (simp add: str_opt_def)
qed

text \<open>A concrete environment, and a proof for a quote of five credits at one dollar each.\<close>

definition demo_payment_env :: payment_env where
  "demo_payment_env = \<lparr>X402_DEFAULT_SCHEME = None, X402_DEFAULT_NETWORK_ID = Some ''net'',
     X402_DEFAULT_ASSET = None, X402_PAY_TO = Some ''0xabc'',
     X402_PRICE_PER_CREDIT_USD = Some ''1'', X402_UPGRADE_PRICE_USD = None,
     X402_UPGRADE_INCLUDED_CREDITS = None, X402_FACILITATOR_URL = Some ''https://pay.io'',
     X402_FACILITATOR_VERIFY_PATH = None, X402_FACILITATOR_SETTLE_PATH = None,
     X402_FACILITATOR_AUTH_TOKEN = None, X402_FACILITATOR_MOCK_VERIFY_RESULT = None,
     X402_FACILITATOR_MOCK_SETTLE_RESULT = None, json_parse = (\<lambda>s. None), collation = (\<lambda>k. k),
     sha256 = (\<lambda>s. [length s mod 256])\<rparr>"

definition demo_requirement :: json_object where
  "demo_requirement = [(''scheme'', JStr ''exact''), (''network'', JStr ''net''),
     (''asset'', JStr ''usdc''), (''amount'', JStr ''5000000''), (''payTo'', JStr ''0xabc''),
     (''maxTimeoutSeconds'', JNum 300),
     (''extra'', JObj [(''tenantId'', JStr ''t1''), (''credits'', JNum 5),
        (''quotedAt'', JStr ''2026-03-01T00:00:00.000Z'')]),
     (''maxAmountRequired'', JStr ''5000000''), (''resource'', JStr ''https://api.io/v1/billing/topup''),
     (''description'', JStr ''Top up 5 Mailagents credits for tenant t1''),
     (''mimeType'', JStr ''application/json''),
     (''outputSchema'', JStr ''https://api.mailagents.net/schemas/billing/topup-result.json'')]"

definition demo_x402_quote :: x402_quote where
  "demo_x402_quote = \<lparr>xq_kind = TopupReceipt 5, xq_scheme = ''exact'', xq_network = ''net'',
     xq_asset = ''usdc'', xq_asset_symbol = ''usdc'', xq_amount_usd = ''5.00'',
     xq_amount_atomic = ''5000000'', xq_description = ''Top up 5 Mailagents credits for tenant t1'',
     xq_requirements = demo_requirement,
     xq_required = buildPaymentRequiredResponse (resource_info ''https://api.io/v1/billing/topup''
       ''Top up 5 Mailagents credits for tenant t1'') demo_requirement\<rparr>"

definition demo_proof :: payment_proof where
  "demo_proof = \<lparr>pp_raw = ''e30='', pp_parsed = Some [(''x402Version'', JNum 2),
     (''resource'', JObj [(''url'', JStr ''https://api.io/v1/billing/topup'')]),
     (''accepted'', JObj demo_requirement), (''payload'', JObj [(''signature'', JStr ''0x1'')])]\<rparr>"

lemma demo_amounts:
  "to_double 5 = Some 5" "usdToAtomicSixDecimals (Some 5) = ''5000000''" "formatUsd (Some 5) = ''5.00''"
proof -
  have "to_double 5000000 = Some 5000000" "\<lfloor>(5000000 :: rat) + 1 / 2\<rfloor> = 5000000" by code_simp+
  moreover have "show_int 5000000 = ''5000000''" by (simp add: show_int_def nat_digits.simps, code_simp)
  ultimately show "usdToAtomicSixDecimals (Some 5) = ''5000000''"
    by (simp add: usdToAtomicSixDecimals_def)
qed code_simp+

lemma demo_defaults:
  "getX402Defaults demo_payment_env = \<lparr>xd_scheme = ''exact'', xd_network = ''net'', xd_asset = ''usdc'',
     xd_pay_to = Some ''0xabc'', xd_price_per_credit_usd = 1, xd_upgrade_price_usd = 10,
     xd_upgrade_included_credits = 10000\<rparr>"
  by code_simp

lemma demo_texts:
  "iso_text 1772323200000 = ''2026-03-01T00:00:00.000Z''" "show_int 5 = ''5''"
  "resolveAssetIdentifier ''net'' ''usdc'' = (''usdc'', ''usdc'', [])"
  "setting_opt (Some ''0xabc'') = Some ''0xabc''"
  by code_simp+

lemma demo_quote_built:
  "buildX402TopupQuote demo_payment_env 5 ''t1'' None ''https://api.io'' (quiet_world empty_store) =
     (Inr demo_x402_quote, quiet_world empty_store)"
  by (simp add: Let_def buildX402TopupQuote_def run_simps quiet_world_def result_of_def make_quote_def
      buildPaymentRequirement_def demo_amounts demo_defaults demo_texts demo_x402_quote_def
      demo_requirement_def defined_fields_def map_filter_simps)

lemma demo_proof_valid:
  "validateX402PaymentProof demo_proof (xq_requirements demo_x402_quote) (xq_required demo_x402_quote) = None"
  by code_simp

theorem accepted_proof_pays_the_quote_witness:
  "\<exists>parsed accepted. pp_parsed demo_proof = Some parsed \<and> json_sub parsed ''accepted'' = Some accepted
     \<and> asString (js_prop accepted ''payTo'') = Some ''0xabc''"
  using accepted_proof_pays_the_quote [OF demo_quote_built demo_proof_valid]
  by (auto simp: setting_opt_def demo_payment_env_def js_trim_def is_js_space_def)

end
