(* ===== verification/Facilitator.thy ===== *)
theory Facilitator
  imports X402
begin

text \<open>
  \<open>src/lib/payments/x402-facilitator.ts\<close>: the client of the payment facilitator. The facilitator's
  replies are arbitrary JSON (or text); the client reduces them to a verdict, and falls back on the
  HTTP status when the reply holds none. The answers are stored with the receipt and parsed again
  later, so they are written as JSON here; a member that is passed on unread is JSON.
\<close>

section \<open>Answers\<close>

record verify_response =
  vr_is_valid :: bool
  vr_scheme :: "json option"
  vr_network :: "json option"
  vr_asset :: "json option"
  vr_resource :: "json option"
  vr_error :: "string option"
  vr_payment_reference :: "string option"
  vr_raw :: "json_object option"

record settle_response =
  sr_settled :: bool
  sr_scheme :: "json option"
  sr_network :: "json option"
  sr_asset :: "json option"
  sr_amount :: "json option"
  sr_error :: "string option"
  sr_settlement_reference :: "string option"
  sr_transaction_hash :: "string option"
  sr_raw :: "json_object option"

definition verify_json :: "verify_response \<Rightarrow> json" where
  "verify_json r = JObj (defined_fields
     ([(''type'', Some (JStr ''verify'')), (''isValid'', Some (JBool (vr_is_valid r))),
       (''scheme'', vr_scheme r), (''network'', vr_network r)]
      @ (if vr_is_valid r then [(''asset'', vr_asset r), (''resource'', vr_resource r)]
         else [(''error'', map_option JStr (vr_error r))])
      @ [(''paymentReference'', map_option JStr (vr_payment_reference r)),
         (''raw'', map_option JObj (vr_raw r))]))"

definition settle_json :: "settle_response \<Rightarrow> json" where
  "settle_json r = JObj (defined_fields
     ([(''type'', Some (JStr ''settle'')), (''settled'', Some (JBool (sr_settled r))),
       (''scheme'', sr_scheme r), (''network'', sr_network r)]
      @ (if sr_settled r then [(''asset'', sr_asset r), (''amount'', sr_amount r)]
         else [(''error'', map_option JStr (sr_error r))])
      @ [(''settlementReference'', map_option JStr (sr_settlement_reference r))]
      @ (if sr_settled r then [(''transactionHash'', map_option JStr (sr_transaction_hash r))] else [])
      @ [(''raw'', map_option JObj (sr_raw r))]))"

text \<open>A result is the HTTP status and the answer; \<open>ok\<close> and the references are the answer's.\<close>

type_synonym verify_result = "int \<times> verify_response"
type_synonym settle_result = "int \<times> settle_response"

section \<open>Reading a reply\<close>

definition trimTrailingSlash :: "string \<Rightarrow> string" where
  "trimTrailingSlash v = (if js_ends_with v ''/'' then butlast v else v)"

definition isLocalMockUrl :: "string option \<Rightarrow> bool" where
  "isLocalMockUrl v \<longleftrightarrow> (case v of None \<Rightarrow> False | Some s \<Rightarrow> js_trim s = ''mock://local'')"

definition normalizePath :: "string option \<Rightarrow> string \<Rightarrow> string" where
  "normalizePath v fallback = (case setting_opt v of None \<Rightarrow> fallback
     | Some p \<Rightarrow> if js_starts_with p ''/'' then p else ''/'' @ p)"

primrec first_string :: "json_object \<Rightarrow> string list \<Rightarrow> string option" where
  "first_string data [] = None"
| "first_string data (k # ks) =
     (case asString (js_prop data k) of Some v \<Rightarrow> Some v | None \<Rightarrow> first_string data ks)"

definition extractReference :: "json_object option \<Rightarrow> string list \<Rightarrow> string option" where
  "extractReference data keys = (case data of None \<Rightarrow> None | Some d \<Rightarrow> first_string d keys)"

definition extractErrorMessage :: "json_object option \<Rightarrow> string option" where
  "extractErrorMessage data = extractReference data
     [''error'', ''message'', ''reason'', ''errorReason'', ''invalidMessage'', ''invalidReason'']"

definition parseFacilitatorResponse :: "http_body \<Rightarrow> json_object option" where
  "parseFacilitatorResponse body = (case body of
     EmptyBody \<Rightarrow> None | JsonBody j \<Rightarrow> asRecord (Some j)
   | TextBody raw \<Rightarrow> Some [(''raw'', JStr raw)])"

text \<open>Reading a property of a value that may be \<open>undefined\<close> or no object.\<close>

definition opt_prop :: "json_object option \<Rightarrow> string \<Rightarrow> json option" where
  "opt_prop data k = Option.bind data (\<lambda>d. js_prop d k)"

definition json_field :: "json \<Rightarrow> string \<Rightarrow> json option" where
  "json_field j k = opt_prop (asRecord (Some j)) k"

primrec first_bool :: "json_object option \<Rightarrow> string list \<Rightarrow> bool \<Rightarrow> bool" where
  "first_bool data [] d = d"
| "first_bool data (k # ks) d =
     (case opt_prop data k of Some (JBool b) \<Rightarrow> b | _ \<Rightarrow> first_bool data ks d)"

definition parseVerifyDecision :: "json_object option \<Rightarrow> int \<Rightarrow> bool" where
  "parseVerifyDecision data status =
     first_bool data [''isValid'', ''valid'', ''verified'', ''success''] (200 \<le> status \<and> status < 300)"

definition parseSettleDecision :: "json_object option \<Rightarrow> int \<Rightarrow> bool" where
  "parseSettleDecision data status =
     first_bool data [''settled'', ''success''] (200 \<le> status \<and> status < 300)"

text \<open>\<open>asString(data?.k) ?? requirements.k\<close>.\<close>

definition data_or_requirement :: "json_object option \<Rightarrow> json \<Rightarrow> string \<Rightarrow> json option" where
  "data_or_requirement data requirements k =
     or_else (map_option JStr (asString (opt_prop data k))) (json_field requirements k)"

definition normalizeVerificationResponse ::
  "json_object option \<Rightarrow> int \<Rightarrow> json \<Rightarrow> verify_result" where
  "normalizeVerificationResponse data status requirements =
     (let ref = extractReference data [''paymentReference'', ''paymentId'', ''reference''];
          valid = parseVerifyDecision data status;
          base = \<lparr>vr_is_valid = valid, vr_scheme = data_or_requirement data requirements ''scheme'',
            vr_network = data_or_requirement data requirements ''network'', vr_asset = None,
            vr_resource = None, vr_error = None, vr_payment_reference = ref, vr_raw = data\<rparr>
      in if \<not> valid
         then (status, base\<lparr>vr_error := Some (case extractErrorMessage data of Some e \<Rightarrow> e
                 | None \<Rightarrow> ''Facilitator verification failed with status '' @ show_int status)\<rparr>)
         else (status, base\<lparr>vr_asset := data_or_requirement data requirements ''asset'',
                 vr_resource := data_or_requirement data requirements ''resource''\<rparr>))"

definition normalizeSettlementResponse ::
  "json_object option \<Rightarrow> int \<Rightarrow> json \<Rightarrow> settle_result" where
  "normalizeSettlementResponse data status requirements =
     (let ref = extractReference data [''settlementReference'', ''transactionHash'', ''transaction'',
            ''txHash'', ''signature'', ''reference'', ''id''];
          settled = parseSettleDecision data status;
          base = \<lparr>sr_settled = settled, sr_scheme = data_or_requirement data requirements ''scheme'',
            sr_network = data_or_requirement data requirements ''network'', sr_asset = None,
            sr_amount = None, sr_error = None, sr_settlement_reference = ref,
            sr_transaction_hash = None, sr_raw = data\<rparr>
      in if \<not> settled
         then (status, base\<lparr>sr_error := Some (case extractErrorMessage data of Some e \<Rightarrow> e
                 | None \<Rightarrow> ''Facilitator settlement failed with status '' @ show_int status)\<rparr>)
         else (status, base\<lparr>sr_asset := data_or_requirement data requirements ''asset'',
                 sr_amount := data_or_requirement data requirements ''amount'',
                 sr_transaction_hash := extractReference data
                   [''transactionHash'', ''transaction'', ''txHash'', ''signature'']\<rparr>))"

section \<open>Stored answers\<close>

definition parseStoredX402VerificationResponse :: "json option \<Rightarrow> verify_response option" where
  "parseStoredX402VerificationResponse value = (case asRecord value of None \<Rightarrow> None
     | Some d \<Rightarrow> (case (js_prop d ''type'', js_prop d ''isValid'', js_prop d ''scheme'', js_prop d ''network'') of
         (Some (JStr t), Some (JBool valid), Some (JStr scheme), Some (JStr network)) \<Rightarrow>
           (let base = \<lparr>vr_is_valid = valid, vr_scheme = Some (JStr scheme),
                  vr_network = Some (JStr network), vr_asset = None, vr_resource = None,
                  vr_error = None, vr_payment_reference = asString (js_prop d ''paymentReference''),
                  vr_raw = asRecord (js_prop d ''raw'')\<rparr>
            in if t \<noteq> ''verify'' then None
               else if valid
               then Some (base\<lparr>vr_asset := map_option JStr (asString (js_prop d ''asset'')),
                      vr_resource := map_option JStr (asString (js_prop d ''resource''))\<rparr>)
               else if asString (js_prop d ''error'') = None then None
               else Some (base\<lparr>vr_error := asString (js_prop d ''error'')\<rparr>))
       | _ \<Rightarrow> None))"

definition parseStoredX402SettlementResponse :: "json option \<Rightarrow> settle_response option" where
  "parseStoredX402SettlementResponse value = (case asRecord value of None \<Rightarrow> None
     | Some d \<Rightarrow> (case (js_prop d ''type'', js_prop d ''settled'', js_prop d ''scheme'', js_prop d ''network'') of
         (Some (JStr t), Some (JBool settled), Some (JStr scheme), Some (JStr network)) \<Rightarrow>
           (let base = \<lparr>sr_settled = settled, sr_scheme = Some (JStr scheme),
                  sr_network = Some (JStr network), sr_asset = None, sr_amount = None,
                  sr_error = None,
                  sr_settlement_reference = asString (js_prop d ''settlementReference''),
                  sr_transaction_hash = None, sr_raw = asRecord (js_prop d ''raw'')\<rparr>
            in if t \<noteq> ''settle'' then None
               else if settled
               then Some (base\<lparr>sr_asset := map_option JStr (asString (js_prop d ''asset'')),
                      sr_amount := map_option JStr (asString (js_prop d ''amount'')),
                      sr_transaction_hash := asString (js_prop d ''transactionHash'')\<rparr>)
               else if asString (js_prop d ''error'') = None then None
               else Some (base\<lparr>sr_error := asString (js_prop d ''error'')\<rparr>))
       | _ \<Rightarrow> None))"

section \<open>The requests\<close>

record facilitator_config =
  fc_base_url :: string
  fc_verify_url :: string
  fc_settle_url :: string
  fc_auth_token :: "string option"

definition getX402FacilitatorConfig :: "payment_env \<Rightarrow> facilitator_config option" where
  "getX402FacilitatorConfig env = (case setting_opt (X402_FACILITATOR_URL env) of None \<Rightarrow> None
     | Some base \<Rightarrow> (let baseUrl = trimTrailingSlash base in
         Some \<lparr>fc_base_url = baseUrl,
           fc_verify_url = baseUrl @ normalizePath (X402_FACILITATOR_VERIFY_PATH env) ''/verify'',
           fc_settle_url = baseUrl @ normalizePath (X402_FACILITATOR_SETTLE_PATH env) ''/settle'',
           fc_auth_token = setting_opt (X402_FACILITATOR_AUTH_TOKEN env)\<rparr>))"

definition mockDecision :: "string option \<Rightarrow> string \<Rightarrow> bool" where
  "mockDecision v successKeyword \<longleftrightarrow> (case v of None \<Rightarrow> True
     | Some s \<Rightarrow> js_lower (js_trim s) = [] \<or> js_lower (js_trim s) = successKeyword)"

text \<open>A random UUID without its dashes.\<close>

definition mockReference :: "string \<Rightarrow> string io" where
  "mockReference prefix = await (createId prefix) (\<lambda>i. ret (filter (\<lambda>c. c \<noteq> CHR ''-'') i))"

definition mock_verify_refused :: string where
  "mock_verify_refused = ''Mock facilitator rejected the payment payload during verification''"

definition mock_settle_refused :: string where
  "mock_settle_refused = ''Mock facilitator rejected the payment during settlement''"

definition buildMockVerifyResult :: "payment_env \<Rightarrow> json \<Rightarrow> json \<Rightarrow> verify_result io" where
  "buildMockVerifyResult env payload requirements =
     (let f = json_field requirements;
          base = \<lparr>vr_is_valid = False, vr_scheme = f ''scheme'', vr_network = f ''network'',
            vr_asset = None, vr_resource = None, vr_error = None, vr_payment_reference = None,
            vr_raw = None\<rparr>
      in if \<not> mockDecision (X402_FACILITATOR_MOCK_VERIFY_RESULT env) ''valid''
         then ret (402, base\<lparr>vr_error := Some mock_verify_refused,
                vr_raw := Some (defined_fields [(''isValid'', Some (JBool False)),
                  (''error'', Some (JStr mock_verify_refused)), (''scheme'', f ''scheme''),
                  (''network'', f ''network'')])\<rparr>)
         else await (mockReference ''pay'') (\<lambda>ref.
              ret (200, base\<lparr>vr_is_valid := True, vr_asset := f ''asset'', vr_resource := f ''resource'',
                vr_payment_reference := Some ref,
                vr_raw := Some (defined_fields [(''isValid'', Some (JBool True)),
                  (''scheme'', f ''scheme''), (''network'', f ''network''), (''asset'', f ''asset''),
                  (''resource'', f ''resource''),
                  (''paymentPayload'', Some (case payload of JStr s \<Rightarrow> JStr s | _ \<Rightarrow> JStr ''object'')),
                  (''paymentReference'', Some (JStr ref))])\<rparr>)))"

definition buildMockSettleResult :: "payment_env \<Rightarrow> json \<Rightarrow> settle_result io" where
  "buildMockSettleResult env requirements =
     (let f = json_field requirements;
          base = \<lparr>sr_settled = False, sr_scheme = f ''scheme'', sr_network = f ''network'',
            sr_asset = None, sr_amount = None, sr_error = None, sr_settlement_reference = None,
            sr_transaction_hash = None, sr_raw = None\<rparr>
      in if \<not> mockDecision (X402_FACILITATOR_MOCK_SETTLE_RESULT env) ''success''
         then ret (402, base\<lparr>sr_error := Some mock_settle_refused,
                sr_raw := Some (defined_fields [(''settled'', Some (JBool False)),
                  (''error'', Some (JStr mock_settle_refused)), (''scheme'', f ''scheme''),
                  (''network'', f ''network'')])\<rparr>)
         else await (mockReference ''stl'') (\<lambda>ref.
              await (mockReference ''tx'') (\<lambda>hash.
              ret (200, base\<lparr>sr_settled := True, sr_asset := f ''asset'', sr_amount := f ''amount'',
                sr_settlement_reference := Some ref, sr_transaction_hash := Some hash,
                sr_raw := Some (defined_fields [(''settled'', Some (JBool True)),
                  (''scheme'', f ''scheme''), (''network'', f ''network''), (''asset'', f ''asset''),
                  (''amount'', f ''amount''), (''transactionHash'', Some (JStr hash)),
                  (''settlementReference'', Some (JStr ref))])\<rparr>))))"

text \<open>
  \<open>fetch\<close> is one call of the platform: it is answered by the facilitator, or fails before or after
  the request has arrived there.
\<close>

definition fetch_facilitator :: "string \<Rightarrow> string \<Rightarrow> json_object \<Rightarrow> http_reply io" where
  "fetch_facilitator url key body = (\<lambda>w.
     let n = ticks w; w' = w\<lparr>store_of := others w n (store_of w), ticks := Suc n\<rparr>;
         sent = w'\<lparr>outbox := outbox w @ [FacilitatorCall url key body]\<rparr>
     in case fault w n of
          Answered \<Rightarrow> (Inr (facilitator w n), sent)
        | Refused e \<Rightarrow> (Inl (PlainError e), w')
        | ReplyLost e \<Rightarrow> (Inl (PlainError e), sent))"

definition request_body :: "json \<Rightarrow> json \<Rightarrow> string \<Rightarrow> json_object" where
  "request_body payload requirements key =
     [(''x402Version'', JNum 2), (''paymentPayload'', payload), (''paymentRequirements'', requirements),
      (''idempotencyKey'', JStr key)]"

definition postToFacilitator ::
  "string \<Rightarrow> string \<Rightarrow> json_object \<Rightarrow> (int \<times> json_object option) io" where
  "postToFacilitator url key body =
     await (fetch_facilitator url key body) (\<lambda>reply.
     ret (reply_status reply, parseFacilitatorResponse (reply_body reply)))"

definition verifyX402Payment :: "payment_env \<Rightarrow> json \<Rightarrow> json \<Rightarrow> string \<Rightarrow> verify_result io" where
  "verifyX402Payment env payload requirements key =
     (if isLocalMockUrl (X402_FACILITATOR_URL env) then buildMockVerifyResult env payload requirements
      else case getX402FacilitatorConfig env of
        None \<Rightarrow> throw (PlainError ''X402 facilitator is not configured'')
      | Some config \<Rightarrow>
          await (postToFacilitator (fc_verify_url config) key (request_body payload requirements key))
            (\<lambda>(status, data). ret (normalizeVerificationResponse data status requirements)))"

definition settleX402Payment :: "payment_env \<Rightarrow> json \<Rightarrow> json \<Rightarrow> string \<Rightarrow> settle_result io" where
  "settleX402Payment env payload requirements key =
     (if isLocalMockUrl (X402_FACILITATOR_URL env) then buildMockSettleResult env requirements
      else case getX402FacilitatorConfig env of
        None \<Rightarrow> throw (PlainError ''X402 facilitator is not configured'')
      | Some config \<Rightarrow>
          await (postToFacilitator (fc_settle_url config) key (request_body payload requirements key))
            (\<lambda>(status, data). ret (normalizeSettlementResponse data status requirements)))"

section \<open>Invariants\<close>

lemma keeps_fetch [keeps_intros]:
  "Charge \<notin> K \<Longrightarrow> keeps (stored K es J) (fetch_facilitator url key body)"
  unfolding keeps_def stored_def seen_def fetch_facilitator_def Let_def by (auto split: fault.splits)

lemma keeps_mockReference [keeps_intros]: "keeps (stored K es J) (mockReference p)"
  unfolding mockReference_def by (intro keeps_intros)

lemma keeps_verifyX402 [keeps_intros]:
  "Charge \<notin> K \<Longrightarrow> keeps (stored K es J) (verifyX402Payment env payload requirements key)"
  unfolding verifyX402Payment_def buildMockVerifyResult_def postToFacilitator_def Let_def
  by (auto split: option.split prod.split intro!: keeps_intros)

lemma keeps_settleX402 [keeps_intros]:
  "Charge \<notin> K \<Longrightarrow> keeps (stored K es J) (settleX402Payment env payload requirements key)"
  unfolding settleX402Payment_def buildMockSettleResult_def postToFacilitator_def Let_def
  by (auto split: option.split prod.split intro!: keeps_intros)

end
