(* ===== verification/PaymentSettlement.thy ===== *)
theory PaymentSettlement
  imports PaymentReceipts Facilitator SendPolicy
begin

text \<open>
  The settlement of a payment receipt (\<open>src/routes/api.ts\<close>): the facilitator verifies the proof of a
  pending receipt and settles a verified one; a settled payment is booked once in the credit ledger
  and the receipt is closed. Every step can be interrupted and repeated: a retry finds the stored
  answers of the facilitator and the ledger entry of the receipt.
\<close>

section \<open>Replies\<close>

record settlement_summary =
  ss_receipt :: typed_receipt
  ss_ledger_entry :: "typed_ledger_entry option"
  ss_included_credits :: "int option"
  ss_account :: billing_account
  ss_send_policy :: "send_policy option"
  ss_message :: string

text \<open>
  The HTTP replies, with the values that they render: a plain error with its status, a refusal by
  the facilitator (402), a settlement (200), a receipt that is kept for later (202).
\<close>

datatype payment_reply =
    ErrorReply string nat
  | RefusalReply string json typed_receipt
  | SettledReply settlement_summary
  | AcceptedReply typed_receipt string
  | QuoteReply json_object string

record facilitator_outcome =
  fo_receipt :: typed_receipt
  fo_payment_reference :: "string option"
  fo_settlement_reference :: "string option"
  fo_verify :: "verify_response option"
  fo_settle :: "settle_response option"
  fo_failure :: "payment_reply option"

section \<open>The facilitator\<close>

definition facilitator_confirmation ::
  "verify_response option \<Rightarrow> settle_response option \<Rightarrow> int option \<Rightarrow> confirmation" where
  "facilitator_confirmation verify settle code =
     \<lparr>cf_mode = Facilitator, cf_status_code = code, cf_verify = map_option verify_json verify,
      cf_settle = map_option settle_json settle, cf_ledger_entry_id = None, cf_send_policy_status = None\<rparr>"

definition receipt_status_update ::
  "typed_receipt \<Rightarrow> receipt_status \<Rightarrow> string option \<Rightarrow> string option \<Rightarrow> receipt_metadata \<Rightarrow> receipt_update" where
  "receipt_status_update r status paymentRef settlementRef m =
     \<lparr>ru_tenant_id = pr_tenant_id (tr_row r), ru_receipt_id = pr_id (tr_row r), ru_status = status,
      ru_payment_reference = paymentRef, ru_settlement_reference = settlementRef,
      ru_metadata = Some m\<rparr>"

definition failed_outcome :: "typed_receipt \<Rightarrow> payment_reply \<Rightarrow> facilitator_outcome" where
  "failed_outcome r reply = \<lparr>fo_receipt = r, fo_payment_reference = None,
     fo_settlement_reference = None, fo_verify = None, fo_settle = None, fo_failure = Some reply\<rparr>"

text \<open>
  The second half of the confirmation: \<open>settleX402Payment\<close> for a receipt that has been verified, and
  the update of the receipt with the facilitator's answer, whatever it is.
\<close>

definition settle_working_receipt ::
  "payment_env \<Rightarrow> receipt_metadata \<Rightarrow> json \<Rightarrow> json \<Rightarrow> string option \<Rightarrow> typed_receipt
     \<Rightarrow> verify_response option \<Rightarrow> facilitator_outcome io" where
  "settle_working_receipt env parsedMetadata payload requirements requested working verify =
     await (settleX402Payment env payload requirements (pr_id (tr_row working))) (\<lambda>(status, settle).
     let settlementRef = or_else (sr_settlement_reference settle) requested;
         m = withReceiptConfirmation parsedMetadata
               (facilitator_confirmation verify (Some settle) (Some status))
     in await (updateTypedTenantPaymentReceiptStatus (receipt_status_update working RcptVerified
                 (pr_payment_reference (tr_row working)) settlementRef m)) (\<lambda>updated.
        if \<not> sr_settled settle
        then ret \<lparr>fo_receipt = updated, fo_payment_reference = pr_payment_reference (tr_row updated),
               fo_settlement_reference = settlementRef, fo_verify = verify, fo_settle = Some settle,
               fo_failure = Some (RefusalReply ''Payment settlement failed'' (settle_json settle) updated)\<rparr>
        else ret \<lparr>fo_receipt = updated, fo_payment_reference = pr_payment_reference (tr_row working),
               fo_settlement_reference = settlementRef, fo_verify = verify, fo_settle = Some settle,
               fo_failure = None\<rparr>))"

text \<open>The first half, for a pending receipt: verification; a refused proof fails the receipt.\<close>

definition verify_pending_receipt ::
  "payment_env \<Rightarrow> receipt_metadata \<Rightarrow> json \<Rightarrow> json \<Rightarrow> string option \<Rightarrow> typed_receipt
     \<Rightarrow> facilitator_outcome io" where
  "verify_pending_receipt env parsedMetadata payload requirements requested working =
     await (verifyX402Payment env payload requirements (pr_id (tr_row working))) (\<lambda>(status, verify).
     let m = withReceiptConfirmation parsedMetadata
               (facilitator_confirmation (Some verify) None (Some status))
     in if \<not> vr_is_valid verify
        then await (updateTypedTenantPaymentReceiptStatus (receipt_status_update working RcptFailed
                      (vr_payment_reference verify) None m)) (\<lambda>failed.
             ret \<lparr>fo_receipt = failed, fo_payment_reference = vr_payment_reference verify,
               fo_settlement_reference = None, fo_verify = Some verify, fo_settle = None,
               fo_failure = Some (RefusalReply ''Payment verification failed'' (verify_json verify) failed)\<rparr>)
        else await (updateTypedTenantPaymentReceiptStatus (receipt_status_update working RcptVerified
                      (vr_payment_reference verify) None m)) (\<lambda>verified.
             settle_working_receipt env parsedMetadata payload requirements requested verified
               (Some verify)))"

definition confirm_verified_receipt ::
  "payment_env \<Rightarrow> receipt_metadata \<Rightarrow> json \<Rightarrow> json \<Rightarrow> string option \<Rightarrow> typed_receipt
     \<Rightarrow> facilitator_outcome io" where
  "confirm_verified_receipt env parsedMetadata payload requirements requested working =
     (let verify = parseStoredX402VerificationResponse (rm_facilitator_verify parsedMetadata);
          stored_settle = parseStoredX402SettlementResponse (rm_facilitator_settle parsedMetadata)
      in case stored_settle of
           Some settle \<Rightarrow>
             if sr_settled settle
             then ret \<lparr>fo_receipt = working, fo_payment_reference = pr_payment_reference (tr_row working),
                    fo_settlement_reference = or_else (sr_settlement_reference settle)
                      (or_else (pr_settlement_reference (tr_row working)) requested),
                    fo_verify = verify, fo_settle = Some settle, fo_failure = None\<rparr>
             else settle_working_receipt env parsedMetadata payload requirements requested working verify
         | None \<Rightarrow>
             settle_working_receipt env parsedMetadata payload requirements requested working verify)"

definition confirmPaymentReceiptWithFacilitator ::
  "payment_env \<Rightarrow> typed_receipt \<Rightarrow> string option \<Rightarrow> facilitator_outcome io" where
  "confirmPaymentReceiptWithFacilitator env receipt requested =
     (let m = tr_metadata receipt; requirements = getReceiptPaymentRequirements m;
          payload = getReceiptPaymentPayload m
      in if \<not> json_truthy requirements \<or> \<not> json_truthy payload
         then ret (failed_outcome receipt
                (ErrorReply ''Payment receipt is missing x402 payment proof or requirements'' 409))
         else if pr_status (tr_row receipt) = RcptFailed
         then ret (failed_outcome receipt (ErrorReply ''Failed payment receipts cannot be settled'' 409))
         else if pr_status (tr_row receipt) = RcptPending
         then verify_pending_receipt env m (the payload) (the requirements) requested receipt
         else confirm_verified_receipt env m (the payload) (the requirements) requested receipt)"

section \<open>Booking the payment\<close>

text \<open>
  The outcome is absent for a manual confirmation. \<open>closing\<close> is the confirmation that is written
  with the final status.
\<close>

definition mode_of :: "facilitator_outcome option \<Rightarrow> confirmation_mode" where
  "mode_of outcome = (case outcome of None \<Rightarrow> ManualAdmin | Some fo \<Rightarrow> Facilitator)"

definition verify_of :: "facilitator_outcome option \<Rightarrow> json option" where
  "verify_of outcome = Option.bind outcome (\<lambda>fo. map_option verify_json (fo_verify fo))"

definition settle_of :: "facilitator_outcome option \<Rightarrow> json option" where
  "settle_of outcome = Option.bind outcome (\<lambda>fo. map_option settle_json (fo_settle fo))"

definition closing ::
  "facilitator_outcome option \<Rightarrow> string option \<Rightarrow> outbound_status option \<Rightarrow> confirmation" where
  "closing outcome ledgerEntryId sendPolicyStatus =
     \<lparr>cf_mode = mode_of outcome, cf_status_code = None, cf_verify = verify_of outcome,
      cf_settle = settle_of outcome, cf_ledger_entry_id = ledgerEntryId,
      cf_send_policy_status = sendPolicyStatus\<rparr>"

definition close_receipt ::
  "facilitator_outcome option \<Rightarrow> string option \<Rightarrow> typed_receipt \<Rightarrow> receipt_metadata \<Rightarrow> typed_receipt io" where
  "close_receipt outcome requested finalized m =
     updateTypedTenantPaymentReceiptStatus (receipt_status_update finalized RcptSettled
       (Option.bind outcome fo_payment_reference) requested m)"

definition route_error :: "string \<Rightarrow> js_error" where
  "route_error m = RouteRequestError m 409"

definition already_settled :: string where
  "already_settled = ''Payment receipt was already settled.''"

text \<open>\<open>{ ...parsedMetadata, includedCredits, quote: { ...parsedMetadata.quote, includedCredits } }\<close>.\<close>

definition normalized_upgrade :: "receipt_metadata \<Rightarrow> int \<Rightarrow> receipt_metadata" where
  "normalized_upgrade m n = m\<lparr>rm_kind := UpgradeReceipt n,
     rm_quote := defined_fields (js_spread (rm_quote m) [(''includedCredits'', Some (JNum n))])\<rparr>"

definition upgrade_message :: "int \<Rightarrow> string" where
  "upgrade_message n = ''Upgrade payment settled, external sending approved automatically, and ''
     @ show_int n @ '' credits granted.''"

text \<open>The tenant's account and send policy after an upgrade, and its default agent policies.\<close>

definition approve_upgrade :: "typed_receipt \<Rightarrow> (billing_account \<times> send_policy) io" where
  "approve_upgrade finalized =
     (let row = tr_row finalized; tenantId = pr_tenant_id row in
      await (ensureTenantBillingAccount tenantId) (\<lambda>existingAccount.
      await (updateTenantBillingAccountProfile tenantId
               (if ba_status existingAccount = BillTrial then Some BillActive else None)
               (Some TierPaidActive) (pr_network row) (pr_asset row)) (\<lambda>account.
      await (ensureTenantSendPolicy tenantId) (\<lambda>existingPolicy.
      await (upsertTenantSendPolicy tenantId TierPaidActive ExternalEnabled
               (spr_internal_domain_allowlist existingPolicy) True False) (\<lambda>sendPolicy.
      await (relaxTenantDefaultAgentRecipientPoliciesForExternalSend tenantId
               (spr_internal_domain_allowlist sendPolicy)) (\<lambda>_.
      ret (account, sendPolicy)))))))"

definition settle_upgrade ::
  "typed_receipt \<Rightarrow> facilitator_outcome option \<Rightarrow> string option \<Rightarrow> typed_ledger_entry option \<Rightarrow> int
     \<Rightarrow> settlement_summary io" where
  "settle_upgrade finalized outcome requested existing n =
     (let row = tr_row finalized; tenantId = pr_tenant_id row; m = tr_metadata finalized;
          nm = normalized_upgrade m n
      in if existing \<noteq> None \<and> \<not> isUpgradeCreditGrantLedgerEntry existing
         then throw (route_error ''Payment receipt is linked to a non-upgrade ledger entry; manual reconciliation is required'')
         else if pr_status row = RcptSettled \<and> existing \<noteq> None
         then await (reconcileTenantAvailableCredits tenantId) (\<lambda>account.
              await (ensureTenantSendPolicy tenantId) (\<lambda>sendPolicy.
              ret \<lparr>ss_receipt = finalized, ss_ledger_entry = existing, ss_included_credits = Some n,
                ss_account = account, ss_send_policy = Some sendPolicy, ss_message = already_settled\<rparr>))
         else await (case existing of Some e \<Rightarrow> ret e
                | None \<Rightarrow> appendUpgradeCreditGrantLedgerEntry tenantId n
                    (if outcome = None then ''manual_upgrade_credit_grant''
                     else ''facilitator_upgrade_credit_grant'') (Some (pr_id row))
                    (or_else requested (pr_settlement_reference row))
                    (buildUpgradeCreditGrantLedgerMetadata n (mode_of outcome) (verify_of outcome)
                       (settle_of outcome))) (\<lambda>entry.
              await (approve_upgrade finalized) (\<lambda>(account0, sendPolicy).
              await (reconcileTenantAvailableCredits tenantId) (\<lambda>account.
              await (if pr_status row \<noteq> RcptSettled
                        \<or> rm_credit_ledger_entry_id m \<noteq> Some (cl_id (te_row entry))
                        \<or> rm_send_policy_status m \<noteq> Some (spr_outbound_status sendPolicy)
                     then close_receipt outcome requested finalized
                            (withReceiptConfirmation nm (closing outcome (Some (cl_id (te_row entry)))
                               (Some (spr_outbound_status sendPolicy))))
                     else ret finalized) (\<lambda>settled.
              ret \<lparr>ss_receipt = settled, ss_ledger_entry = Some entry, ss_included_credits = Some n,
                ss_account = account, ss_send_policy = Some sendPolicy,
                ss_message = upgrade_message n\<rparr>)))))"

definition settle_booked_topup ::
  "typed_receipt \<Rightarrow> facilitator_outcome option \<Rightarrow> string option \<Rightarrow> typed_ledger_entry
     \<Rightarrow> settlement_summary io" where
  "settle_booked_topup finalized outcome requested entry =
     (if \<not> isTopupSettlementLedgerEntry (Some entry)
      then throw (route_error ''Payment receipt is linked to a non-topup ledger entry; manual reconciliation is required'')
      else await (reconcileTenantAvailableCredits (pr_tenant_id (tr_row finalized))) (\<lambda>account.
           await (if pr_status (tr_row finalized) = RcptSettled then ret finalized
                  else close_receipt outcome requested finalized
                         (withReceiptConfirmation (tr_metadata finalized)
                            (closing outcome (Some (cl_id (te_row entry))) None))) (\<lambda>settled.
           ret \<lparr>ss_receipt = settled, ss_ledger_entry = Some entry, ss_included_credits = None,
             ss_account = account, ss_send_policy = None, ss_message = already_settled\<rparr>)))"

definition settle_new_topup ::
  "typed_receipt \<Rightarrow> facilitator_outcome option \<Rightarrow> string option \<Rightarrow> settlement_summary io" where
  "settle_new_topup finalized outcome requested =
     (let row = tr_row finalized; m = tr_metadata finalized in
      case rm_kind m of
        UpgradeReceipt n \<Rightarrow> throw (route_error ''Payment receipt metadata is missing creditsRequested'')
      | TopupReceipt n \<Rightarrow>
          await (appendTopupSettlementLedgerEntry (pr_tenant_id row) n
                   (if outcome = None then ''manual_payment_confirmation''
                    else ''facilitator_payment_settlement'') (Some (pr_id row))
                   (or_else requested (pr_settlement_reference row))
                   (buildTopupSettlementLedgerMetadata n (mode_of outcome) (verify_of outcome)
                      (settle_of outcome))) (\<lambda>entry.
          await (reconcileTenantAvailableCredits (pr_tenant_id row)) (\<lambda>account.
          await (close_receipt outcome requested finalized (withReceiptConfirmation m
                   (closing outcome (Some (cl_id (te_row entry))) None))) (\<lambda>settled.
          ret \<lparr>ss_receipt = settled, ss_ledger_entry = Some entry, ss_included_credits = None,
            ss_account = account, ss_send_policy = None,
            ss_message = ''Payment receipt settled and credits applied.''\<rparr>))))"

definition finalizePaymentReceiptSettlement ::
  "typed_receipt \<Rightarrow> facilitator_outcome option \<Rightarrow> string option \<Rightarrow> settlement_summary io" where
  "finalizePaymentReceiptSettlement receipt outcome requested =
     (let finalized = (case outcome of Some fo \<Rightarrow> fo_receipt fo | None \<Rightarrow> receipt);
          row = tr_row finalized
      in await (getTypedCreditLedgerEntryByPaymentReceiptId (pr_tenant_id row) (pr_id row)) (\<lambda>existing.
         if pr_status row = RcptSettled \<and> existing = None
         then throw (route_error ''Payment receipt is already settled but local settlement records are incomplete; manual reconciliation is required'')
         else if pr_receipt_type row = RcptUpgrade
         then (case rm_kind (tr_metadata finalized) of
                 TopupReceipt n \<Rightarrow> throw (route_error ''Payment receipt metadata is missing targetPricingTier'')
               | UpgradeReceipt n \<Rightarrow>
                   if n \<le> 0
                   then throw (route_error ''Payment receipt metadata is missing includedCredits for upgrade settlement'')
                   else settle_upgrade finalized outcome requested existing n)
         else (case existing of
                 Some entry \<Rightarrow> settle_booked_topup finalized outcome requested entry
               | None \<Rightarrow> settle_new_topup finalized outcome requested)))"

section \<open>Driving a settlement\<close>

definition settled_reply :: "settlement_summary io \<Rightarrow> payment_reply io" where
  "settled_reply m = await m (\<lambda>s. ret (SettledReply s))"

definition attemptAutomaticPaymentSettlement :: "payment_env \<Rightarrow> typed_receipt \<Rightarrow> payment_reply io" where
  "attemptAutomaticPaymentSettlement env receipt =
     await (confirmPaymentReceiptWithFacilitator env receipt None) (\<lambda>outcome.
     case fo_failure outcome of
       Some reply \<Rightarrow> ret reply
     | None \<Rightarrow> settled_reply (finalizePaymentReceiptSettlement receipt (Some outcome) None))"

definition or_null_io :: "'a option io \<Rightarrow> 'a option io" where
  "or_null_io m = try_catch m (\<lambda>e. ret None)"

definition receipt_changed :: "typed_receipt option \<Rightarrow> typed_receipt \<Rightarrow> bool" where
  "receipt_changed refreshed receipt \<longleftrightarrow> (case refreshed of None \<Rightarrow> False
     | Some r \<Rightarrow> pr_updated_at (tr_row r) \<noteq> pr_updated_at (tr_row receipt)
         \<or> pr_status (tr_row r) \<noteq> pr_status (tr_row receipt)
         \<or> pr_payment_reference (tr_row r) \<noteq> pr_payment_reference (tr_row receipt)
         \<or> pr_settlement_reference (tr_row r) \<noteq> pr_settlement_reference (tr_row receipt))"

text \<open>An action that fails is run once more when the receipt or its ledger entry has moved on.\<close>

definition withRefreshedPaymentReceipt ::
  "typed_receipt \<Rightarrow> (typed_receipt \<Rightarrow> 'a io) \<Rightarrow> 'a io" where
  "withRefreshedPaymentReceipt receipt action =
     (let tenantId = pr_tenant_id (tr_row receipt); receiptId = pr_id (tr_row receipt) in
      await (or_null_io (getTypedCreditLedgerEntryByPaymentReceiptId tenantId receiptId)) (\<lambda>initial.
      try_catch (action receipt) (\<lambda>e.
      await (or_null_io (getTypedTenantPaymentReceiptById tenantId receiptId)) (\<lambda>refreshed.
      await (or_null_io (getTypedCreditLedgerEntryByPaymentReceiptId tenantId receiptId)) (\<lambda>entry.
      case refreshed of
        None \<Rightarrow> throw e
      | Some r \<Rightarrow>
          if \<not> receipt_changed refreshed receipt \<and> \<not> (initial = None \<and> entry \<noteq> None)
          then throw e else action r)))))"

section \<open>The store invariant\<close>

lemma keeps_receipt_kind [keeps_intros]:
  "(\<And>n. keeps I (f n)) \<Longrightarrow> (\<And>n. keeps I (g n)) \<Longrightarrow>
     keeps I (case k of TopupReceipt n \<Rightarrow> f n | UpgradeReceipt n \<Rightarrow> g n)"
  by (cases k) simp_all

lemma keeps_settle_working [keeps_intros]:
  "Charge \<notin> K \<Longrightarrow> keeps (stored K es db_ok) (settle_working_receipt env m pl rq rs w v)"
  unfolding settle_working_receipt_def Let_def case_prod_beta by (intro keeps_intros)

lemma keeps_verify_pending [keeps_intros]:
  "Charge \<notin> K \<Longrightarrow> keeps (stored K es db_ok) (verify_pending_receipt env m pl rq rs w)"
  unfolding verify_pending_receipt_def Let_def case_prod_beta by (intro keeps_intros)

lemma keeps_confirm_verified [keeps_intros]:
  "Charge \<notin> K \<Longrightarrow> keeps (stored K es db_ok) (confirm_verified_receipt env m pl rq rs w)"
  unfolding confirm_verified_receipt_def Let_def by (intro keeps_intros)

lemma keeps_confirm [keeps_intros]:
  "Charge \<notin> K \<Longrightarrow> keeps (stored K es db_ok) (confirmPaymentReceiptWithFacilitator env r rs)"
  unfolding confirmPaymentReceiptWithFacilitator_def Let_def by (intro keeps_intros)

lemma keeps_approve [keeps_intros]: "keeps (stored K es db_ok) (approve_upgrade r)"
  unfolding approve_upgrade_def Let_def by (intro keeps_intros)

lemma keeps_close [keeps_intros]: "keeps (stored K es db_ok) (close_receipt fo rs r m)"
  unfolding close_receipt_def by (intro keeps_intros)

lemma keeps_settle_upgrade [keeps_intros]: "keeps (stored K es db_ok) (settle_upgrade r fo rs e n)"
  unfolding settle_upgrade_def Let_def case_prod_beta by (intro keeps_intros)

lemma keeps_settle_topup [keeps_intros]:
  "keeps (stored K es db_ok) (settle_booked_topup r fo rs entry)"
  "keeps (stored K es db_ok) (settle_new_topup r fo rs)"
  unfolding settle_booked_topup_def settle_new_topup_def Let_def by (intro keeps_intros)+

lemma keeps_finalize [keeps_intros]:
  "keeps (stored K es db_ok) (finalizePaymentReceiptSettlement r fo rs)"
  unfolding finalizePaymentReceiptSettlement_def Let_def by (intro keeps_intros)

lemma keeps_attempt [keeps_intros]:
  "Charge \<notin> K \<Longrightarrow> keeps (stored K es db_ok) (attemptAutomaticPaymentSettlement env r)"
  unfolding attemptAutomaticPaymentSettlement_def settled_reply_def by (intro keeps_intros)

lemma keeps_or_null [keeps_intros]: "keeps I m \<Longrightarrow> keeps I (or_null_io m)"
  unfolding or_null_io_def by (intro keeps_intros)

lemma keeps_withRefreshed:
  "(\<And>r. keeps (stored K es db_ok) (action r)) \<Longrightarrow>
     keeps (stored K es db_ok) (withRefreshedPaymentReceipt receipt action)"
  unfolding withRefreshedPaymentReceipt_def Let_def by (intro keeps_intros)

end
