(* ===== verification/PaymentProperties.thy ===== *)
theory PaymentProperties
  imports PaymentSettlement
begin

text \<open>
  What makes the settlement of payments correct: a payment is credited at most once, nothing is
  credited that the facilitator has not settled, and a settled payment is credited in full.
\<close>

section \<open>A concrete payment\<close>

definition demo_typed_receipt :: typed_receipt where
  "demo_typed_receipt = \<lparr>tr_row = demo_receipt RcptVerified, tr_metadata = demo_receipt_metadata\<rparr>"

definition payment_store :: store where
  "payment_store = (demo_store DraftQueued JobQueued 5 1)\<lparr>payment_receipts := [demo_receipt RcptVerified]\<rparr>"

lemma payment_store_ok: "db_ok payment_store"
  by (simp add: db_ok_def payment_store_def demo_defs unique_by_def unique_opt_def)

section \<open>At most one credit per payment\<close>

definition receipt_rows :: "store \<Rightarrow> string \<Rightarrow> ledger_row list" where
  "receipt_rows s receiptId = filter (\<lambda>r. cl_payment_receipt_id r = Some receiptId) (credit_ledger s)"



section \<open>No credit without a payment\<close>

text \<open>What \<open>settleX402Payment\<close> makes of a reply of the facilitator.\<close>

definition reply_settles :: "http_reply \<Rightarrow> bool" where
  "reply_settles reply = parseSettleDecision (parseFacilitatorResponse (reply_body reply)) (reply_status reply)"

definition answered_by :: "(nat \<Rightarrow> http_reply) \<Rightarrow> world \<Rightarrow> bool" where
  "answered_by F w \<longleftrightarrow> facilitator w = F"

lemma keeps_both: "keeps I m \<Longrightarrow> keeps J m \<Longrightarrow> keeps (\<lambda>w. I w \<and> J w) m"
  by (simp add: keeps_def)

lemma keeps_answered_call: "keeps (answered_by F) (call_store stmt)"
  by (auto simp: keeps_def answered_by_def call_store_def Let_def split: fault.split)

lemma keeps_answered [keeps_intros]:
  "keeps (answered_by F) (query f)" "keeps (answered_by F) (execute g)"
  "keeps (answered_by F) (execute_checked h)" "keeps (answered_by F) (createId p)"
  unfolding query_def execute_def execute_checked_def
  by (simp_all add: keeps_answered_call) (simp add: keeps_def answered_by_def createId_def)

lemma keeps_answered_fetch [keeps_intros]: "keeps (answered_by F) (fetch_facilitator url key body)"
  by (auto simp: keeps_def answered_by_def fetch_facilitator_def Let_def split: fault.split)

lemma keeps_answered_update [keeps_intros]:
  "keeps (answered_by F) (updateTypedTenantPaymentReceiptStatus input)"
  unfolding updateTypedTenantPaymentReceiptStatus_def updateTenantPaymentReceiptStatus_def
    restoreTenantPaymentReceiptSnapshot_def getTenantPaymentReceiptById_def write_receipt_def Let_def
  by (intro keeps_intros)

lemma keeps_answered_verify [keeps_intros]:
  "keeps (answered_by F) (verifyX402Payment env payload requirements key)"
  unfolding verifyX402Payment_def buildMockVerifyResult_def postToFacilitator_def mockReference_def Let_def
    case_prod_beta
  by (intro keeps_intros)

lemma keeps_answered_settle [keeps_intros]:
  "keeps (answered_by F) (settleX402Payment env payload requirements key)"
  unfolding settleX402Payment_def buildMockSettleResult_def postToFacilitator_def mockReference_def Let_def
    case_prod_beta
  by (intro keeps_intros)

text \<open>The statements of the confirmation touch no table but the receipts.\<close>

definition receipts_only :: "(store \<Rightarrow> bool) \<Rightarrow> bool" where
  "receipts_only J \<longleftrightarrow> (\<forall>s f. J s \<longrightarrow> J (payment_receipts_update f s))"

lemma keeps_receipts_only_update:
  assumes "receipts_only J"
  shows "keeps (stored K es J) (updateTypedTenantPaymentReceiptStatus input)"
proof -
  have "keeps (stored K es J) (write_receipt t i st p s md u)" for t i st p s md u
    unfolding write_receipt_def Let_def
    by (rule keeps_stored_checked)
      (use assms in \<open>auto simp: receipts_only_def update_checked_def update_rows_def split: if_splits\<close>)
  then show ?thesis
    unfolding updateTypedTenantPaymentReceiptStatus_def updateTenantPaymentReceiptStatus_def
      restoreTenantPaymentReceiptSnapshot_def getTenantPaymentReceiptById_def
    by (intro keeps_intros)
qed

lemma keeps_receipts_only_confirm:
  assumes "receipts_only J" "Charge \<notin> K"
  shows "keeps (stored K es J) (confirmPaymentReceiptWithFacilitator env receipt requested)"
  unfolding confirmPaymentReceiptWithFacilitator_def verify_pending_receipt_def
    confirm_verified_receipt_def settle_working_receipt_def Let_def case_prod_beta
  by (intro keeps_intros keeps_receipts_only_update assms)

lemma keeps_answered_confirm:
  "keeps (answered_by F) (confirmPaymentReceiptWithFacilitator env receipt requested)"
  unfolding confirmPaymentReceiptWithFacilitator_def verify_pending_receipt_def
    confirm_verified_receipt_def settle_working_receipt_def Let_def case_prod_beta
  by (intro keeps_intros)

text \<open>The facilitator's refusals reach the outcome.\<close>

fun refusal_reply :: "payment_reply \<Rightarrow> bool" where
  "refusal_reply (ErrorReply m status) = True"
| "refusal_reply (RefusalReply m answer receipt) = True"
| "refusal_reply reply = False"

definition refuses :: "js_error + facilitator_outcome \<Rightarrow> world \<Rightarrow> bool" where
  "refuses r w \<longleftrightarrow> (case r of Inl e \<Rightarrow> True
     | Inr fo \<Rightarrow> (\<exists>reply. fo_failure fo = Some reply \<and> refusal_reply reply))"

lemma sr_settled_normalize [simp]:
  "sr_settled (snd (normalizeSettlementResponse data status requirements)) = parseSettleDecision data status"
  by (simp add: normalizeSettlementResponse_def Let_def)

lemma settle_refused:
  assumes "\<not> isLocalMockUrl (X402_FACILITATOR_URL env)" "\<forall>n. \<not> reply_settles (F n)"
  shows "ends (answered_by F) (settleX402Payment env payload requirements key)
    (\<lambda>r w. answered_by F w \<and> (case r of Inl e \<Rightarrow> True | Inr (st, settle) \<Rightarrow> \<not> sr_settled settle))"
  using assms sr_settled_normalize
  unfolding ends_def settleX402Payment_def postToFacilitator_def fetch_facilitator_def answered_by_def
    reply_settles_def await_def throw_def ret_def Let_def
  by (auto split: option.split fault.split simp: case_prod_beta)

lemma settle_working_refused:
  assumes "\<not> isLocalMockUrl (X402_FACILITATOR_URL env)" "\<forall>n. \<not> reply_settles (F n)"
  shows "ends (answered_by F) (settle_working_receipt env m payload requirements requested working verify) refuses"
  unfolding settle_working_receipt_def Let_def
proof (rule ends_await [OF settle_refused [OF assms]], goal_cases)
  case (1 x)
  then show ?case
    by (auto simp: ends_def refuses_def case_prod_beta run_simps split: sum.split prod.split)
next
  case (2 e w)
  then show ?case by (simp add: refuses_def)
qed

definition unsettled :: "typed_receipt \<Rightarrow> bool" where
  "unsettled receipt \<longleftrightarrow> (case parseStoredX402SettlementResponse (rm_facilitator_settle (tr_metadata receipt)) of
     Some settle \<Rightarrow> \<not> sr_settled settle | None \<Rightarrow> True)"

lemma ends_keeps_then:
  assumes "keeps I m" "\<And>x. ends I (f x) Q" "\<And>e w. Q (Inl e) w"
  shows "ends I (await m f) Q"
  by (rule ends_await [OF ends_keeps [OF assms(1), where Q = "\<lambda>_. I"]]) (use assms in auto)

lemma confirm_refused:
  assumes "\<not> isLocalMockUrl (X402_FACILITATOR_URL env)" "\<forall>n. \<not> reply_settles (F n)" "unsettled receipt"
  shows "ends (answered_by F) (confirmPaymentReceiptWithFacilitator env receipt requested) refuses"
proof -
  have e: "refuses (Inl e) w" for e w by (simp add: refuses_def)
  note settle = settle_working_refused [OF assms(1,2)]
  have verify: "ends (answered_by F) (verify_pending_receipt env m payload requirements requested working) refuses"
    for m payload requirements working
    unfolding verify_pending_receipt_def Let_def
    by (rule ends_keeps_then [OF keeps_answered_verify])
      (auto split: prod.split intro!: ends_keeps_then keeps_answered_update settle ends_ret
        simp: refuses_def)
  have verified: "ends (answered_by F) (confirm_verified_receipt env (tr_metadata receipt) payload requirements requested receipt) refuses"
    for payload requirements
    using assms(3) settle unfolding confirm_verified_receipt_def Let_def unsettled_def
    by (auto split: option.splits)
  show ?thesis
    unfolding confirmPaymentReceiptWithFacilitator_def Let_def
    by (auto intro!: ends_ret verify verified simp: refuses_def failed_outcome_def)
qed

text \<open>
  C11. Nothing is credited that has not been paid. While the facilitator settles nothing and the
  receipt carries no earlier settlement, an attempt to settle it leaves the ledger, the accounts,
  the send policies and the agents' policies to the other Workers: whatever these keep true of them
  is true afterwards, under every failure, and the reply is never that the receipt has been settled.
\<close>

theorem no_credit_without_payment:
  assumes "\<not> isLocalMockUrl (X402_FACILITATOR_URL env)" "\<forall>n. \<not> reply_settles (facilitator w n)"
    and "unsettled receipt"
    and "shared (\<lambda>s. P (credit_ledger s) (billing_accounts s) (send_policies s) (agent_policies s)) w"
    and "attemptAutomaticPaymentSettlement env receipt w = (r, w')"
  shows "P (credit_ledger (store_of w')) (billing_accounts (store_of w')) (send_policies (store_of w'))
      (agent_policies (store_of w'))
    \<and> (\<forall>summary. r \<noteq> Inr (SettledReply summary))"
proof -
  let ?J = "\<lambda>s. P (credit_ledger s) (billing_accounts s) (send_policies s) (agent_policies s)"
  let ?confirm = "confirmPaymentReceiptWithFacilitator env receipt None"
  obtain o1 w1 where run: "?confirm w = (o1, w1)" by force
  have "keeps (shared ?J) ?confirm"
    by (rule keeps_receipts_only_confirm) (simp_all add: receipts_only_def)
  from keepsD [OF this assms(4)] run have J: "?J (store_of w1)" by (simp add: stored_def)
  have "answered_by (facilitator w) w" by (simp add: answered_by_def)
  from endsD [OF confirm_refused [OF assms(1,2,3)] this run] have refused: "refuses o1 w1" .
  show ?thesis
  proof (cases o1)
    case (Inl e)
    with assms(5) run J show ?thesis by (auto simp: attemptAutomaticPaymentSettlement_def await_run)
  next
    case (Inr fo)
    with refused obtain reply where "fo_failure fo = Some reply" "refusal_reply reply"
      by (auto simp: refuses_def)
    with assms(5) run J Inr show ?thesis
      by (auto simp: attemptAutomaticPaymentSettlement_def await_run run_simps)
  qed
qed
theorem no_credit_without_payment_witness:
  "\<exists>r w'. attemptAutomaticPaymentSettlement demo_payment_env demo_typed_receipt
       ((quiet_world payment_store)\<lparr>facilitator := (\<lambda>n. \<lparr>reply_status = 402, reply_body = EmptyBody\<rparr>)\<rparr>) = (r, w')
     \<and> credit_ledger (store_of w') = []"
proof -
  let ?w = "(quiet_world payment_store)\<lparr>facilitator := (\<lambda>n. \<lparr>reply_status = 402, reply_body = EmptyBody\<rparr>)\<rparr>"
  obtain r w' where run: "attemptAutomaticPaymentSettlement demo_payment_env demo_typed_receipt ?w = (r, w')" by force
  have "\<not> isLocalMockUrl (X402_FACILITATOR_URL demo_payment_env)" by code_simp
  moreover have "\<forall>n. \<not> reply_settles (facilitator ?w n)"
    by (simp add: reply_settles_def parseFacilitatorResponse_def parseSettleDecision_def opt_prop_def)
  moreover have "unsettled demo_typed_receipt" by code_simp
  moreover have "shared (\<lambda>s. credit_ledger s = []) ?w"
    by (simp add: stored_def quiet_world_def payment_store_def demo_defs seen_def)
  ultimately show ?thesis
    using no_credit_without_payment [OF _ _ _ _ run, of "\<lambda>l a p q. l = []"] run by simp
qed

section \<open>A settled payment is credited\<close>

text \<open>A receipt as the runtime has stored it.\<close>

definition receipt_at :: "store \<Rightarrow> typed_receipt \<Rightarrow> bool" where
  "receipt_at s r \<longleftrightarrow> tr_row r \<in> set (payment_receipts s)
     \<and> parseTypedPaymentReceipt (tr_row r) = Some r \<and> metadata_ok (tr_metadata r)
     \<and> (\<exists>obj. pr_metadata (tr_row r) = Some (JObj obj) \<and> distinct (map fst obj))"

lemma mapPaymentReceiptRow_object:
  "pr_metadata row = Some (JObj obj) \<Longrightarrow> mapPaymentReceiptRow row = row"
  by (simp add: mapPaymentReceiptRow_def parseJsonObject_def asRecord_def)

lemma parsed_kind:
  "parseTypedPaymentReceipt row = Some r \<Longrightarrow> pr_receipt_type row = kind_type (rm_kind (tr_metadata r)) \<and> tr_row r = row"
  by (auto simp: parseTypedPaymentReceipt_def parsePaymentReceiptMetadata_def parseMetadataBase_def
      split: option.splits if_splits json.splits)

lemma receipt_rows_at:
  assumes "db_ok s" "receipt_at s r"
  shows "filter (\<lambda>x. pr_tenant_id x = pr_tenant_id (tr_row r) \<and> pr_id x = pr_id (tr_row r))
    (payment_receipts s) = [tr_row r]"
proof -
  have "filter (\<lambda>x. pr_id x = pr_id (tr_row r)) (payment_receipts s) = [tr_row r]"
    using assms by (intro unique_by_filter_key) (simp_all add: db_ok_def receipt_at_def)
  then have "filter (\<lambda>x. pr_tenant_id x = pr_tenant_id (tr_row r))
      (filter (\<lambda>x. pr_id x = pr_id (tr_row r)) (payment_receipts s)) = [tr_row r]" by simp
  then show ?thesis by (simp add: conj_commute)
qed

lemma defined_fields_Cons:
  "defined_fields [] = []"
  "defined_fields ((k, v) # fs) = (case v of None \<Rightarrow> defined_fields fs | Some x \<Rightarrow> (k, x) # defined_fields fs)"
  by (simp_all add: defined_fields_def List.map_filter_def split: option.split)

lemma defined_fields_member: "(k, v) \<in> set (defined_fields fs) \<Longrightarrow> (k, Some v) \<in> set fs"
  by (induction fs) (auto simp: defined_fields_Cons split: option.splits)

lemma distinct_defined_fields: "distinct (map fst fs) \<Longrightarrow> distinct (map fst (defined_fields fs))"
proof (induction fs)
  case (Cons f fs)
  then show ?case
    by (cases f) (force simp: defined_fields_Cons split: option.splits dest: defined_fields_member)
qed (simp add: defined_fields_Cons)

text \<open>An update that keeps the references of its receipt goes through.\<close>

lemma no_clash_same_refs:
  assumes "db_ok s" "\<And>r. r \<in> set (payment_receipts s) \<Longrightarrow> P r \<Longrightarrow> pr_payment_reference (f r) = pr_payment_reference r
      \<and> pr_settlement_reference (f r) = pr_settlement_reference r
      \<and> pr_proof_fingerprint (f r) = pr_proof_fingerprint r \<and> pr_id (f r) = pr_id r"
  shows "\<not> receipt_update_clash s P f"
proof -
  have u: "unique_opt pr_payment_reference (payment_receipts s)"
    "unique_opt pr_settlement_reference (payment_receipts s)"
    "unique_opt pr_proof_fingerprint (payment_receipts s)"
    using assms(1) by (simp_all add: db_ok_def)
  have same: "x = r" if "unique_opt k (payment_receipts s)" "x \<in> set (payment_receipts s)"
    "r \<in> set (payment_receipts s)" "k r \<noteq> None" "k x = k r" for k :: "receipt_row \<Rightarrow> string option" and x r
    using that by (auto simp: unique_opt_def unique_by_def distinct_map inj_on_def)
  show ?thesis
    using same [OF u(1)] same [OF u(2)] same [OF u(3)] assms(2)
    by (fastforce simp: receipt_update_clash_def same_receipt_key_def)
qed

definition keeps_references :: "receipt_update \<Rightarrow> receipt_row \<Rightarrow> bool" where
  "keeps_references u row \<longleftrightarrow> ru_tenant_id u = pr_tenant_id row \<and> ru_receipt_id u = pr_id row
     \<and> ru_payment_reference u \<in> {None, pr_payment_reference row}
     \<and> ru_settlement_reference u \<in> {None, pr_settlement_reference row}"

lemma update_typed_run:
  assumes "quiet w" "db_ok (store_of w)" "receipt_at (store_of w) r" "keeps_references u (tr_row r)"
    and m: "ru_metadata u = Some m" "metadata_ok m" "kind_type (rm_kind m) = pr_receipt_type (tr_row r)"
  shows "\<exists>r' w'. updateTypedTenantPaymentReceiptStatus u w = (Inr r', w') \<and> quiet w'
    \<and> db_ok (store_of w') \<and> receipt_at (store_of w') r' \<and> tr_metadata r' = m
    \<and> (\<exists>md now. tr_row r' = (tr_row r)\<lparr>pr_status := ru_status u, pr_metadata := md, pr_updated_at := now\<rparr>)
    \<and> (\<exists>f. store_of w' = payment_receipts_update f (store_of w))"
proof -
  let ?row = "tr_row r" and ?now = "clock w (Suc (Suc (ticks w)))"
  obtain obj where obj: "pr_metadata ?row = Some (JObj obj)" "distinct (map fst obj)"
    using assms(3) by (auto simp: receipt_at_def)
  define md where "md = Some (JObj (defined_fields (js_spread obj (receipt_metadata_fields m))))"
  let ?P = "\<lambda>x. pr_tenant_id x = pr_tenant_id ?row \<and> pr_id x = pr_id ?row"
  let ?f = "\<lambda>x. x\<lparr>pr_status := ru_status u, pr_payment_reference := pr_payment_reference ?row,
      pr_settlement_reference := pr_settlement_reference ?row, pr_metadata := md, pr_updated_at := ?now\<rparr>"
  let ?s = "payment_receipts_update (tbl_update ?P ?f) (store_of w)"
  have found: "filter ?P (payment_receipts (store_of w)) = [?row]"
    by (rule receipt_rows_at [OF assms(2,3)])
  have only: "x = ?row" if "x \<in> set (payment_receipts (store_of w))" "?P x" for x
  proof -
    have "x \<in> set (filter ?P (payment_receipts (store_of w)))" using that by simp
    then show ?thesis by (simp only: found) simp
  qed
  have refs: "or_else (ru_payment_reference u) (pr_payment_reference ?row) = pr_payment_reference ?row"
    "or_else (ru_settlement_reference u) (pr_settlement_reference ?row) = pr_settlement_reference ?row"
    and ids: "ru_tenant_id u = pr_tenant_id ?row" "ru_receipt_id u = pr_id ?row"
    using assms(4) by (auto simp: keeps_references_def or_else_def split: option.splits)
  have no: "\<not> receipt_update_clash (store_of w) ?P ?f"
    by (rule no_clash_same_refs [OF assms(2)]) (use only in auto)
  have ok: "db_ok ?s"
    using db_ok_update_receipts [OF assms(2) no, of "pr_id ?row"] by (simp add: update_rows_def)
  define nr where "nr = ?row\<lparr>pr_status := ru_status u, pr_metadata := md, pr_updated_at := ?now\<rparr>"
  have row': "filter ?P (payment_receipts ?s) = [nr]"
    using found by (simp add: nr_def filter_tbl_update tbl_update_def [of _ _ "[_]"])
  have "tbl_count ?P (payment_receipts (store_of w)) = 1" by (simp add: tbl_count_def found)
  then have wrote: "write_receipt (pr_tenant_id ?row) (pr_id ?row) (ru_status u) (pr_payment_reference ?row)
      (pr_settlement_reference ?row) md ?now (tick (tick w)) = (Inr 1, with_store (tick (tick (tick w))) ?s)"
    using no assms(1) unfolding write_receipt_def Let_def
    by (subst quiet_checked_Some [where n = 1 and s' = ?s]) (simp add: update_checked_def update_rows_def)+
  have look: "getTenantPaymentReceiptById (pr_tenant_id ?row) (pr_id ?row) v = (Inr (Some ?row), tick v)"
    if "quiet v" "store_of v = store_of w" for v
    using that found obj(1) by (simp add: getTenantPaymentReceiptById_def run_simps mapPaymentReceiptRow_object)
  have merged: "merged_metadata ?row (Some m) = md"
    by (simp add: merged_metadata_def obj(1) asRecord_def md_def)
  have map_row: "mapPaymentReceiptRow (nr) = nr"
    by (rule mapPaymentReceiptRow_object) (simp add: nr_def md_def)
  have upd: "updateTenantPaymentReceiptStatus u (tick w) = (Inr (nr), tick (with_store (tick (tick (tick w))) ?s))"
    using assms(1) row' map_row
    by (simp add: updateTenantPaymentReceiptStatus_def ids look merged m(1) refs wrote run_simps)
  have parsed: "parseTypedPaymentReceipt (nr) = Some \<lparr>tr_row = nr, tr_metadata = m\<rparr>"
    using parse_spread [OF m(2) obj(2)] m(3) by (cases "rm_kind m") (simp_all add: parseTypedPaymentReceipt_def nr_def md_def)
  have "updateTypedTenantPaymentReceiptStatus u w
      = (Inr \<lparr>tr_row = nr, tr_metadata = m\<rparr>, tick (with_store (tick (tick (tick w))) ?s))"
    using assms(1) by (simp add: updateTypedTenantPaymentReceiptStatus_def ids look upd parsed run_simps)
  moreover have "nr \<in> set (filter ?P (payment_receipts ?s))" unfolding row' by simp
  then have "receipt_at ?s \<lparr>tr_row = nr, tr_metadata = m\<rparr>"
    using parsed m(2) obj(2)
    by (auto simp: receipt_at_def nr_def md_def distinct_js_spread distinct_metadata_fields intro!: distinct_defined_fields)
  moreover note nr_def
  ultimately show ?thesis using ok assms(1) by (fastforce intro!: exI)
qed

lemma receipt_entry_run:
  assumes "quiet w"
  shows "receipt_rows (store_of w) i = [] \<Longrightarrow>
      getTypedCreditLedgerEntryByPaymentReceiptId t i w = (Inr None, tick w)"
    "receipt_rows (store_of w) i = [row] \<Longrightarrow> cl_tenant_id row = t \<Longrightarrow>
      getTypedCreditLedgerEntryByPaymentReceiptId t i w
        = (Inr (parseTypedCreditLedgerEntry (mapCreditLedgerRow row)), tick w)"
proof -
  have rows: "filter (\<lambda>r. cl_payment_receipt_id r = Some i \<and> cl_tenant_id r = t) (credit_ledger (store_of w))
      = filter (\<lambda>r. cl_tenant_id r = t) (receipt_rows (store_of w) i)"
    by (simp add: receipt_rows_def conj_commute)
  show "receipt_rows (store_of w) i = [] \<Longrightarrow>
      getTypedCreditLedgerEntryByPaymentReceiptId t i w = (Inr None, tick w)"
    using rows assms by (simp add: getTypedCreditLedgerEntryByPaymentReceiptId_def
        getCreditLedgerEntryByPaymentReceiptId_def unambiguous_row_def run_simps typed_or_null_def)
  show "getTypedCreditLedgerEntryByPaymentReceiptId t i w
        = (Inr (parseTypedCreditLedgerEntry (mapCreditLedgerRow row)), tick w)"
    if "receipt_rows (store_of w) i = [row]" "cl_tenant_id row = t"
    using rows assms that by (simp add: getTypedCreditLedgerEntryByPaymentReceiptId_def
        getCreditLedgerEntryByPaymentReceiptId_def unambiguous_row_def run_simps typed_or_null_def)
qed

text \<open>The entry that settles a top-up.\<close>

definition topup_entry :: "ledger_row \<Rightarrow> string \<Rightarrow> string \<Rightarrow> int \<Rightarrow> bool" where
  "topup_entry row tenantId receiptId n \<longleftrightarrow> cl_tenant_id row = tenantId
     \<and> cl_payment_receipt_id row = Some receiptId \<and> cl_credits_delta row = n
     \<and> cl_entry_type row = EtTopup
     \<and> (\<exists>m. parseTypedCreditLedgerEntry (mapCreditLedgerRow row)
              = Some \<lparr>te_row = row, te_metadata = TopupSettlement m\<rparr>)"

definition unused_reference :: "store \<Rightarrow> string option \<Rightarrow> bool" where
  "unused_reference s ref \<longleftrightarrow> ref = None \<or> (\<forall>r \<in> set (credit_ledger s). cl_reference_id r \<noteq> ref)"

definition fresh_entry_id :: "world \<Rightarrow> bool" where
  "fresh_entry_id w \<longleftrightarrow> (\<forall>r \<in> set (credit_ledger (store_of w)). \<forall>n. cl_id r \<noteq> ''led_'' @ uuid w n)"

lemma uuid_tick: "uuid (tick w) = uuid w"
  by (simp add: tick_def)

lemma append_topup_run:
  assumes "quiet w" "db_ok (store_of w)" "receipt_rows (store_of w) i = []" "i \<noteq> []"
    "unused_reference (store_of w) ref" "fresh_entry_id w"
  shows "\<exists>row w'. appendTopupSettlementLedgerEntry t n why (Some i) ref m w
      = (Inr \<lparr>te_row = row, te_metadata = TopupSettlement m\<rparr>, w') \<and> quiet w'
    \<and> store_of w' = credit_ledger_update (\<lambda>rows. rows @ [row]) (store_of w)
    \<and> db_ok (store_of w') \<and> topup_entry row t i n \<and> (\<exists>k. cl_id row = ''led_'' @ uuid w k)"
proof -
  define row where "row = \<lparr>cl_id = ''led_'' @ uuid w (ticks w), cl_tenant_id = t, cl_entry_type = EtTopup,
     cl_credits_delta = n, cl_reason = why, cl_payment_receipt_id = Some i, cl_reference_id = ref,
     cl_metadata = Some (JObj (ledger_metadata_json (TopupSettlement m))),
     cl_created_at = clock w (ticks (tick w))\<rparr>"
  let ?s = "credit_ledger_update (\<lambda>rows. rows @ [row]) (store_of w)"
  have no: "\<not> ledger_clash (store_of w) row"
    using assms(3,5,6) by (auto simp: ledger_clash_def receipt_rows_def filter_empty_conv
        unused_reference_def fresh_entry_id_def row_def)
  then have ins: "insert_ledger_row row (tick w) = (Inr 1, with_store (tick (tick w)) ?s)"
    using assms(1) by (simp add: insert_ledger_row_def run_simps insert_unless_def)
  have ok: "db_ok ?s"
    using assms(2) no by (auto simp: db_ok_def unique_by_append unique_opt_append ledger_clash_def)
  have "mapCreditLedgerRow row = row" by (simp add: mapCreditLedgerRow_def row_def asRecord_def)
  then have parsed: "parseTypedCreditLedgerEntry (mapCreditLedgerRow row)
      = Some \<lparr>te_row = row, te_metadata = TopupSettlement m\<rparr>"
    by (simp add: parse_written_entry metadata_well_typed_def row_def)
  have "receipt_rows (store_of (with_store (tick (tick w)) ?s)) i = [row]"
    using assms(3) by (simp add: receipt_rows_def row_def)
  from receipt_entry_run(2) [OF _ this, of t] assms(1) parsed
  have again: "getTypedCreditLedgerEntryByPaymentReceiptId t i (with_store (tick (tick w)) ?s)
      = (Inr (Some \<lparr>te_row = row, te_metadata = TopupSettlement m\<rparr>), tick (with_store (tick (tick w)) ?s))"
    by (simp add: row_def)
  have topup: "isTopupSettlementLedgerEntry (Some \<lparr>te_row = row, te_metadata = TopupSettlement m\<rparr>)"
    by (simp add: isTopupSettlementLedgerEntry_def row_def)
  have "appendTopupSettlementLedgerEntry t n why (Some i) ref m w
      = (Inr \<lparr>te_row = row, te_metadata = TopupSettlement m\<rparr>, tick (with_store (tick (tick w)) ?s))"
    using ins again topup assms(4) unfolding row_def
    by (simp add: appendTopupSettlementLedgerEntry_def run_simps read_back_entry_def truthy_def)
  then show ?thesis using ok assms(1) parsed
    by (intro exI [of _ row] exI) (auto simp: topup_entry_def row_def)
qed

lemma reconcile_keeps_receipts:
  assumes "quiet w"
  shows "payment_receipts (store_of (snd (reconcileTenantAvailableCredits t w))) = payment_receipts (store_of w)"
proof -
  let ?I = "calm (\<lambda>s. payment_receipts s = payment_receipts (store_of w)) (\<lambda>_. True)"
  have "keeps ?I (reconcileTenantAvailableCredits t)"
    unfolding reconcileTenantAvailableCredits_def ensureTenantBillingAccount_def getTenantBillingAccount_def
    by (intro keeps_intros keeps_calm_execute) (simp_all add: update_rows_def insert_unless_def)
  from keepsD [OF this, of w] assms show ?thesis by (simp add: calm_def)
qed

lemma metadata_ok_confirmed:
  assumes "metadata_ok m" "tidy (cf_ledger_entry_id c)"
  shows "metadata_ok (withReceiptConfirmation m c)" "rm_kind (withReceiptConfirmation m c) = rm_kind m"
  using assms by (auto simp: metadata_ok_def withReceiptConfirmation_def or_else_def tidy_def
      split: option.splits receipt_kind.splits)

text \<open>What a receipt needs for its settlement: the outcome is about it, and it is an open top-up.\<close>

definition open_topup :: "world \<Rightarrow> typed_receipt \<Rightarrow> facilitator_outcome \<Rightarrow> int \<Rightarrow> bool" where
  "open_topup w receipt outcome n \<longleftrightarrow> receipt_at (store_of w) receipt \<and> rm_kind (tr_metadata receipt) = TopupReceipt n
     \<and> pr_status (tr_row receipt) \<noteq> RcptSettled \<and> pr_id (tr_row receipt) \<noteq> []
     \<and> receipt_rows (store_of w) (pr_id (tr_row receipt)) = []
     \<and> unused_reference (store_of w) (pr_settlement_reference (tr_row receipt))
     \<and> fo_receipt outcome = receipt
     \<and> fo_payment_reference outcome \<in> {None, pr_payment_reference (tr_row receipt)}"

text \<open>The generated ids are tidy strings.\<close>

definition tidy_ids :: "world \<Rightarrow> bool" where
  "tidy_ids w \<longleftrightarrow> (\<forall>n. tidy (Some (''led_'' @ uuid w n)))"

lemma settle_topup_run:
  assumes "quiet w" "db_ok (store_of w)" "account_of (store_of w) t = Some a"
    and "open_topup w receipt outcome n" "pr_tenant_id (tr_row receipt) = t"
    and "fresh_entry_id w" "tidy_ids w"
  shows "\<exists>summary row b w'. finalizePaymentReceiptSettlement receipt (Some outcome) None w = (Inr summary, w')
    \<and> quiet w' \<and> db_ok (store_of w')
    \<and> credit_ledger (store_of w') = credit_ledger (store_of w) @ [row]
    \<and> topup_entry row t (pr_id (tr_row receipt)) n
    \<and> account_of (store_of w') t = Some b \<and> ba_reserved_credits b = ba_reserved_credits a
    \<and> ba_available_credits b + ba_reserved_credits b = ledger_total (store_of w) t + n
    \<and> receipt_at (store_of w') (ss_receipt summary)
    \<and> rm_kind (tr_metadata (ss_receipt summary)) = TopupReceipt n
    \<and> pr_status (tr_row (ss_receipt summary)) = RcptSettled
    \<and> pr_tenant_id (tr_row (ss_receipt summary)) = t
    \<and> pr_id (tr_row (ss_receipt summary)) = pr_id (tr_row receipt)"
proof -
  let ?row = "tr_row receipt" and ?m = "tr_metadata receipt"
  note o = assms(4) [unfolded open_topup_def]
  let ?lm = "buildTopupSettlementLedgerMetadata n (mode_of (Some outcome)) (verify_of (Some outcome)) (settle_of (Some outcome))"
  have w1: "quiet (tick w)" "db_ok (store_of (tick w))" using assms by simp_all
  have look: "getTypedCreditLedgerEntryByPaymentReceiptId t (pr_id ?row) w = (Inr None, tick w)"
    by (rule receipt_entry_run(1) [OF assms(1)]) (use o in simp)
  have "\<exists>row w2. appendTopupSettlementLedgerEntry t n ''facilitator_payment_settlement'' (Some (pr_id ?row))
        (pr_settlement_reference ?row) ?lm (tick w) = (Inr \<lparr>te_row = row, te_metadata = TopupSettlement ?lm\<rparr>, w2)
      \<and> quiet w2 \<and> store_of w2 = credit_ledger_update (\<lambda>rows. rows @ [row]) (store_of (tick w))
      \<and> db_ok (store_of w2) \<and> topup_entry row t (pr_id ?row) n \<and> (\<exists>k. cl_id row = ''led_'' @ uuid (tick w) k)"
    by (rule append_topup_run) (use o w1 assms(6) in \<open>auto simp: fresh_entry_id_def tick_def\<close>)
  then obtain row w2 where app: "appendTopupSettlementLedgerEntry t n ''facilitator_payment_settlement'' (Some (pr_id ?row))
        (pr_settlement_reference ?row) ?lm (tick w) = (Inr \<lparr>te_row = row, te_metadata = TopupSettlement ?lm\<rparr>, w2)"
    and w2: "quiet w2" "store_of w2 = credit_ledger_update (\<lambda>rows. rows @ [row]) (store_of w)"
      "db_ok (store_of w2)" "topup_entry row t (pr_id ?row) n"
      "\<exists>k. cl_id row = ''led_'' @ uuid w k" unfolding uuid_tick store_of_tick by blast
  have "account_of (store_of w2) t = Some a" using assms(3) w2(2) by (simp add: account_of_def)
  from reconcile_run [OF w2(1,3) this] obtain b w3 where rec: "reconcileTenantAvailableCredits t w2 = (Inr b, w3)"
    and w3: "quiet w3" "account_of (store_of w3) t = Some b" "credit_ledger (store_of w3) = credit_ledger (store_of w2)"
      "ba_available_credits b = ledger_total (store_of w2) t - ba_reserved_credits a"
      "ba_reserved_credits b = ba_reserved_credits a" by auto
  have "stored {} [] db_ok w3"
    by (rule keeps_result [OF keeps_reconcile quiet_stored rec]) (use w2 in auto)
  then have w3': "db_ok (store_of w3)" "payment_receipts (store_of w3) = payment_receipts (store_of w)"
    using w2 rec reconcile_keeps_receipts [OF w2(1), of t] by (simp_all add: stored_def)
  let ?c = "closing (Some outcome) (Some (cl_id row)) None"
  let ?u = "receipt_status_update receipt RcptSettled (fo_payment_reference outcome) None (withReceiptConfirmation ?m ?c)"
  have tidy: "tidy (cf_ledger_entry_id ?c)"
    using w2(5) assms(7) by (auto simp: closing_def tidy_ids_def)
  have status: "ru_status ?u = RcptSettled" by (simp add: receipt_status_update_def)
  have m_ok: "metadata_ok ?m" "parseTypedPaymentReceipt ?row = Some receipt" using o by (simp_all add: receipt_at_def)
  have "\<exists>r' w'. updateTypedTenantPaymentReceiptStatus ?u w3 = (Inr r', w') \<and> quiet w'
    \<and> db_ok (store_of w') \<and> receipt_at (store_of w') r' \<and> tr_metadata r' = withReceiptConfirmation ?m ?c
    \<and> (\<exists>md now. tr_row r' = ?row\<lparr>pr_status := ru_status ?u, pr_metadata := md, pr_updated_at := now\<rparr>)
    \<and> (\<exists>f. store_of w' = payment_receipts_update f (store_of w3))"
    by (rule update_typed_run)
      (use o w3 w3' m_ok metadata_ok_confirmed [OF m_ok(1) tidy] parsed_kind [OF m_ok(2)] in
        \<open>auto simp: receipt_status_update_def keeps_references_def receipt_at_def\<close>)
  then obtain r' w' md now f where upd: "updateTypedTenantPaymentReceiptStatus ?u w3 = (Inr r', w')"
    and w': "quiet w'" "db_ok (store_of w')" "receipt_at (store_of w') r'"
      "tr_metadata r' = withReceiptConfirmation ?m ?c"
      "tr_row r' = ?row\<lparr>pr_status := RcptSettled, pr_metadata := md, pr_updated_at := now\<rparr>"
      "store_of w' = payment_receipts_update f (store_of w3)"
    unfolding status by blast
  have topup: "pr_receipt_type ?row \<noteq> RcptUpgrade" using o parsed_kind [OF m_ok(2)] by simp
  have "finalizePaymentReceiptSettlement receipt (Some outcome) None w = (Inr \<lparr>ss_receipt = r',
      ss_ledger_entry = Some \<lparr>te_row = row, te_metadata = TopupSettlement ?lm\<rparr>, ss_included_credits = None,
      ss_account = b, ss_send_policy = None, ss_message = ''Payment receipt settled and credits applied.''\<rparr>, w')"
    using o look app rec upd topup assms(5)
    by (simp add: finalizePaymentReceiptSettlement_def settle_new_topup_def close_receipt_def run_simps or_else_def Let_def)
  moreover have "ledger_total (store_of w2) t = ledger_total (store_of w) t + n"
    using w2(2,4) by (simp add: ledger_total_def topup_entry_def)
  moreover have "account_of (store_of w') t = Some b" using w3(2) w'(6) by (simp add: account_of_def)
  moreover have "credit_ledger (store_of w') = credit_ledger (store_of w) @ [row]"
    using w3(3) w2(2) w'(6) by simp
  ultimately show ?thesis using w' w2(4) w3(4,5) o metadata_ok_confirmed(2) [OF m_ok(1) tidy] assms(5) by auto
qed

lemma settle_again_run:
  assumes "quiet w" "db_ok (store_of w)" "account_of (store_of w) (pr_tenant_id (tr_row r)) = Some a"
    and "receipt_rows (store_of w) (pr_id (tr_row r)) = [row]"
    and "topup_entry row (pr_tenant_id (tr_row r)) (pr_id (tr_row r)) n"
    and "pr_status (tr_row r) = RcptSettled" "pr_receipt_type (tr_row r) = RcptTopup"
    and "outcome = None \<or> (\<exists>fo. outcome = Some fo \<and> fo_receipt fo = r)"
  shows "\<exists>summary w'. finalizePaymentReceiptSettlement r outcome requested w = (Inr summary, w')
    \<and> ss_receipt summary = r \<and> ss_message summary = already_settled
    \<and> credit_ledger (store_of w') = credit_ledger (store_of w)
    \<and> payment_receipts (store_of w') = payment_receipts (store_of w)"
proof -
  obtain m where parsed: "parseTypedCreditLedgerEntry (mapCreditLedgerRow row)
      = Some \<lparr>te_row = row, te_metadata = TopupSettlement m\<rparr>" and row: "cl_tenant_id row = pr_tenant_id (tr_row r)"
      "cl_entry_type row = EtTopup"
    using assms(5) by (auto simp: topup_entry_def)
  have look: "getTypedCreditLedgerEntryByPaymentReceiptId (pr_tenant_id (tr_row r)) (pr_id (tr_row r)) w
      = (Inr (Some \<lparr>te_row = row, te_metadata = TopupSettlement m\<rparr>), tick w)"
    using receipt_entry_run(2) [OF assms(1,4) row(1)] parsed by simp
  have "quiet (tick w)" "db_ok (store_of (tick w))" "account_of (store_of (tick w)) (pr_tenant_id (tr_row r)) = Some a"
    using assms(1-3) by simp_all
  from reconcile_run [OF this] obtain b w'
    where rec: "reconcileTenantAvailableCredits (pr_tenant_id (tr_row r)) (tick w) = (Inr b, w')"
      and led: "credit_ledger (store_of w') = credit_ledger (store_of w)" by auto
  have "payment_receipts (store_of w') = payment_receipts (store_of w)"
    using reconcile_keeps_receipts [of "tick w" "pr_tenant_id (tr_row r)"] rec assms(1) by simp
  moreover have "isTopupSettlementLedgerEntry (Some \<lparr>te_row = row, te_metadata = TopupSettlement m\<rparr>)"
    by (simp add: isTopupSettlementLedgerEntry_def row)
  ultimately show ?thesis
    using assms(6,7,8) look rec led
    by (auto simp: finalizePaymentReceiptSettlement_def settle_booked_topup_def run_simps Let_def)
qed

text \<open>
  C12. A settled payment is credited in full, and once. Undisturbed, the settlement of an open top-up
  appends one ledger entry of the requested credits for the receipt, brings the tenant's credits
  (available and reserved) to the new sum of its ledger without touching the reserved ones, and
  closes the receipt; running it again, for whatever reason, changes neither the ledger nor the
  receipts and answers that the receipt was already settled.
\<close>

theorem settled_topup_is_credited:
  assumes "quiet w" "db_ok (store_of w)" "account_of (store_of w) (pr_tenant_id (tr_row receipt)) = Some a"
    and "open_topup w receipt outcome n" "fresh_entry_id w" "tidy_ids w"
  shows "\<exists>summary row b w'. finalizePaymentReceiptSettlement receipt (Some outcome) None w = (Inr summary, w')
    \<and> credit_ledger (store_of w') = credit_ledger (store_of w) @ [row]
    \<and> topup_entry row (pr_tenant_id (tr_row receipt)) (pr_id (tr_row receipt)) n
    \<and> account_of (store_of w') (pr_tenant_id (tr_row receipt)) = Some b
    \<and> ba_reserved_credits b = ba_reserved_credits a
    \<and> ba_available_credits b + ba_reserved_credits b
        = ledger_total (store_of w) (pr_tenant_id (tr_row receipt)) + n
    \<and> receipt_at (store_of w') (ss_receipt summary)
    \<and> pr_status (tr_row (ss_receipt summary)) = RcptSettled
    \<and> (\<exists>summary' w''. finalizePaymentReceiptSettlement (ss_receipt summary) None None w' = (Inr summary', w'')
         \<and> ss_message summary' = already_settled
         \<and> credit_ledger (store_of w'') = credit_ledger (store_of w')
         \<and> payment_receipts (store_of w'') = payment_receipts (store_of w'))"
proof -
  let ?t = "pr_tenant_id (tr_row receipt)" and ?i = "pr_id (tr_row receipt)"
  obtain summary row b w' where
    run: "finalizePaymentReceiptSettlement receipt (Some outcome) None w = (Inr summary, w')"
    and w': "quiet w'" "db_ok (store_of w')" "account_of (store_of w') ?t = Some b"
      "credit_ledger (store_of w') = credit_ledger (store_of w) @ [row]" "topup_entry row ?t ?i n"
      "ba_reserved_credits b = ba_reserved_credits a"
      "ba_available_credits b + ba_reserved_credits b = ledger_total (store_of w) ?t + n"
      "receipt_at (store_of w') (ss_receipt summary)"
      "rm_kind (tr_metadata (ss_receipt summary)) = TopupReceipt n"
      "pr_status (tr_row (ss_receipt summary)) = RcptSettled"
      "pr_tenant_id (tr_row (ss_receipt summary)) = ?t" "pr_id (tr_row (ss_receipt summary)) = ?i"
    using settle_topup_run [OF assms(1-4) refl assms(5,6)] by (elim exE conjE) (rule that)
  have "receipt_rows (store_of w') ?i = [row]"
    using w'(4,5) assms(4) by (simp add: receipt_rows_def open_topup_def topup_entry_def)
  moreover have "pr_receipt_type (tr_row (ss_receipt summary)) = RcptTopup"
    using w'(8,9) parsed_kind [of "tr_row (ss_receipt summary)" "ss_receipt summary"]
    by (simp add: receipt_at_def)
  ultimately have again: "\<exists>summary' w''. finalizePaymentReceiptSettlement (ss_receipt summary) None None w' = (Inr summary', w'')
    \<and> ss_receipt summary' = ss_receipt summary \<and> ss_message summary' = already_settled
    \<and> credit_ledger (store_of w'') = credit_ledger (store_of w')
    \<and> payment_receipts (store_of w'') = payment_receipts (store_of w')"
    using w' by (intro settle_again_run [where a = b and row = row and n = n]) simp_all
  show ?thesis
  proof (rule exI [of _ summary], rule exI [of _ row], rule exI [of _ b], rule exI [of _ w'], intro conjI)
    show "\<exists>summary' w''. finalizePaymentReceiptSettlement (ss_receipt summary) None None w' = (Inr summary', w'')
         \<and> ss_message summary' = already_settled
         \<and> credit_ledger (store_of w'') = credit_ledger (store_of w')
         \<and> payment_receipts (store_of w'') = payment_receipts (store_of w')"
      using again by blast
  qed (rule run w')+
qed

definition demo_outcome :: facilitator_outcome where
  "demo_outcome = \<lparr>fo_receipt = demo_typed_receipt, fo_payment_reference = None, fo_settlement_reference = None,
     fo_verify = None, fo_settle = None, fo_failure = None\<rparr>"

lemma demo_receipt_parsed: "parseTypedPaymentReceipt (demo_receipt RcptVerified) = Some demo_typed_receipt"
  using parse_written_receipt [OF demo_metadata_ok]
  by (simp add: demo_typed_receipt_def parseTypedPaymentReceipt_def demo_receipt_def demo_receipt_metadata_def
      buildTopupReceiptMetadata_def new_metadata_def)

lemma demo_receipt_open:
  "open_topup ((quiet_world payment_store)\<lparr>uuid := (\<lambda>n. ''u'')\<rparr>) demo_typed_receipt demo_outcome 5"
proof -
  have "receipt_at payment_store demo_typed_receipt"
    using demo_metadata_ok demo_receipt_parsed
    by (auto simp: receipt_at_def payment_store_def demo_typed_receipt_def demo_receipt_def receipt_metadata_json_def
        intro!: distinct_defined_fields distinct_metadata_fields)
  then show ?thesis
    by (simp add: open_topup_def demo_outcome_def quiet_world_def demo_typed_receipt_def demo_receipt_def
        demo_receipt_metadata_def buildTopupReceiptMetadata_def new_metadata_def receipt_rows_def
        unused_reference_def payment_store_def demo_store_def empty_store_def)
qed

theorem settled_topup_is_credited_witness:
  "\<exists>summary row w'. finalizePaymentReceiptSettlement demo_typed_receipt (Some demo_outcome) None
       ((quiet_world payment_store)\<lparr>uuid := (\<lambda>n. ''u'')\<rparr>) = (Inr summary, w')
     \<and> credit_ledger (store_of w') = [row] \<and> cl_credits_delta row = 5"
proof -
  let ?w = "(quiet_world payment_store)\<lparr>uuid := (\<lambda>n. ''u'')\<rparr>"
  have w: "quiet ?w" "db_ok (store_of ?w)" "fresh_entry_id ?w" "credit_ledger (store_of ?w) = []"
    "account_of (store_of ?w) (pr_tenant_id (tr_row demo_typed_receipt)) = Some (demo_account 5 1)"
    using payment_store_ok
    by (simp_all add: quiet_def quiet_world_def fresh_entry_id_def payment_store_def demo_store_def empty_store_def
        demo_typed_receipt_def demo_receipt_def account_of_def) (simp add: demo_account_def)
  have "js_trim ''led_u'' = ''led_u''" by code_simp
  then have "tidy_ids ?w" by (simp add: tidy_ids_def tidy_def)
  from settled_topup_is_credited [OF w(1,2,5) demo_receipt_open w(3) this] w(4) show ?thesis
    by (auto simp: topup_entry_def)
qed

section \<open>Stored answers\<close>

text \<open>
  The requirements that the runtime quotes have tidy strings as scheme and network, and as asset,
  amount and resource when they are there.
\<close>

definition tidy_value :: "json option \<Rightarrow> bool" where
  "tidy_value v \<longleftrightarrow> (\<exists>s. v = map_option JStr s \<and> tidy s)"

definition tidy_requirements :: "json \<Rightarrow> bool" where
  "tidy_requirements requirements \<longleftrightarrow> json_field requirements ''scheme'' \<noteq> None
     \<and> json_field requirements ''network'' \<noteq> None
     \<and> (\<forall>k \<in> {''scheme'', ''network'', ''asset'', ''amount'', ''resource''}. tidy_value (json_field requirements k))"

lemma tidy_value_JStr: "tidy_value (Some (JStr s)) = tidy (Some s)"
  by (simp add: tidy_value_def split_option_ex)

lemma tidy_asString: "tidy (asString v)"
  by (auto simp: tidy_def asString_def js_trim_idem split: option.split json.split)

lemma asString_tidy_value: "tidy_value v \<Longrightarrow> map_option JStr (asString v) = v"
  by (auto simp: tidy_value_def asString_tidy)

lemma tidy_data_or_requirement:
  "tidy_value (json_field requirements k) \<Longrightarrow> tidy_value (data_or_requirement data requirements k)"
  using tidy_asString [of "opt_prop data k"]
  by (cases "asString (opt_prop data k)") (auto simp: data_or_requirement_def tidy_value_def or_else_def
      intro: exI [of _ "Some _"])

lemma tidy_reference: "tidy (extractReference data keys)"
proof (cases data)
  case (Some d)
  have "tidy (first_string d keys)"
  proof (induction keys)
    case (Cons k keys)
    with tidy_asString [of "js_prop d k"] show ?case by (cases "asString (js_prop d k)") auto
  qed (simp add: tidy_def)
  with Some show ?thesis by (simp add: extractReference_def)
qed (simp add: extractReference_def tidy_def)

lemma trimmed_ends:
  assumes "s \<noteq> []" "\<not> is_js_space (hd s)" "\<not> is_js_space (last s)"
  shows "js_trim s = s"
proof -
  have "dropWhile is_js_space s = s" using assms(1,2) by (cases s) auto
  moreover have "dropWhile is_js_space (rev s) = rev s"
    using assms(1,3) by (cases s rule: rev_cases) auto
  ultimately show ?thesis by (simp add: js_trim_def)
qed

lemma last_show_int: "\<not> is_js_space (last (show_int n))" "show_int n \<noteq> []"
proof -
  have "\<not> is_js_space (char_of (48 + k))" if "k < 10" for k :: nat
    using that by (simp add: is_js_space_def of_char_of)
  moreover have "\<exists>k < 10. last (nat_digits m) = char_of (48 + k :: nat)" for m
    by (subst nat_digits.simps) (auto intro: exI [of _ m] exI [of _ "m mod 10"])
  ultimately have digit: "\<not> is_js_space (last (nat_digits m))" for m by metis
  have some: "nat_digits m \<noteq> []" for m by (subst nat_digits.simps) simp
  show "\<not> is_js_space (last (show_int n))" "show_int n \<noteq> []"
    using digit some by (simp_all add: show_int_def)
qed

lemma tidy_error:
  assumes "p \<noteq> []" "\<not> is_js_space (hd p)"
  shows "tidy (Some (case extractErrorMessage data of Some e \<Rightarrow> e | None \<Rightarrow> p @ show_int status))"
proof (cases "extractErrorMessage data")
  case None
  have "js_trim (p @ show_int status) = p @ show_int status"
    by (rule trimmed_ends) (use assms last_show_int in auto)
  with None assms show ?thesis by (simp add: tidy_def)
next
  case (Some e)
  with tidy_reference show ?thesis unfolding extractErrorMessage_def by (metis option.simps(5))
qed

text \<open>The answers that are written: what is absent for a decision is absent.\<close>

definition verify_ok :: "verify_response \<Rightarrow> bool" where
  "verify_ok v \<longleftrightarrow> vr_scheme v \<noteq> None \<and> vr_network v \<noteq> None \<and> tidy_value (vr_scheme v) \<and> tidy_value (vr_network v)
     \<and> tidy_value (vr_asset v) \<and> tidy_value (vr_resource v) \<and> tidy (vr_payment_reference v) \<and> tidy (vr_error v)
     \<and> (if vr_is_valid v then vr_error v = None
        else vr_asset v = None \<and> vr_resource v = None \<and> vr_error v \<noteq> None)"

definition settle_ok :: "settle_response \<Rightarrow> bool" where
  "settle_ok v \<longleftrightarrow> sr_scheme v \<noteq> None \<and> sr_network v \<noteq> None \<and> tidy_value (sr_scheme v) \<and> tidy_value (sr_network v)
     \<and> tidy_value (sr_asset v) \<and> tidy_value (sr_amount v) \<and> tidy (sr_settlement_reference v) \<and> tidy (sr_error v)
     \<and> tidy (sr_transaction_hash v)
     \<and> (if sr_settled v then sr_error v = None
        else sr_asset v = None \<and> sr_amount v = None \<and> sr_transaction_hash v = None \<and> sr_error v \<noteq> None)"

lemma parse_verify_json:
  assumes "verify_ok v"
  shows "parseStoredX402VerificationResponse (Some (verify_json v)) = Some v"
proof -
  obtain s n where "vr_scheme v = Some (JStr s)" "vr_network v = Some (JStr n)"
    using assms by (auto simp: verify_ok_def tidy_value_def)
  then show ?thesis
    using assms by (cases v) (auto simp: verify_ok_def parseStoredX402VerificationResponse_def verify_json_def
        js_prop_def map_of_defined_fields asString_tidy asString_tidy_value Let_def split: if_splits)
qed

lemma parse_settle_json:
  assumes "settle_ok v"
  shows "parseStoredX402SettlementResponse (Some (settle_json v)) = Some v"
proof -
  obtain s n where "sr_scheme v = Some (JStr s)" "sr_network v = Some (JStr n)"
    using assms by (auto simp: settle_ok_def tidy_value_def)
  then show ?thesis
    using assms by (cases v) (auto simp: settle_ok_def parseStoredX402SettlementResponse_def settle_json_def
        js_prop_def map_of_defined_fields asString_tidy asString_tidy_value Let_def split: if_splits)
qed

lemma data_or_requirement_some:
  "json_field requirements k \<noteq> None \<Longrightarrow> data_or_requirement data requirements k \<noteq> None"
  by (auto simp: data_or_requirement_def or_else_def split: option.split)

lemma normalized_ok:
  assumes "tidy_requirements requirements"
  shows "verify_ok (snd (normalizeVerificationResponse data status requirements))"
    "settle_ok (snd (normalizeSettlementResponse data status requirements))"
proof -
  have t: "tidy_value (data_or_requirement data requirements k)"
    if "k \<in> {''scheme'', ''network'', ''asset'', ''amount'', ''resource''}" for k
    using assms that tidy_data_or_requirement by (auto simp: tidy_requirements_def)
  have none: "tidy_value None" "tidy None" by (auto simp: tidy_value_def tidy_def)
  have some: "data_or_requirement data requirements ''scheme'' \<noteq> None" "data_or_requirement data requirements ''network'' \<noteq> None"
    using assms data_or_requirement_some by (auto simp: tidy_requirements_def)
  have F: "\<not> is_js_space CHR ''F''" by code_simp
  show "verify_ok (snd (normalizeVerificationResponse data status requirements))"
    using some by (simp add: verify_ok_def normalizeVerificationResponse_def Let_def t none tidy_reference tidy_error F)
  show "settle_ok (snd (normalizeSettlementResponse data status requirements))"
    using some by (simp add: settle_ok_def normalizeSettlementResponse_def Let_def t none tidy_reference tidy_error F)
qed

text \<open>
  A stored answer is read back as it was given. What the runtime makes of a reply of the
  facilitator, whatever the reply is, and stores with the receipt is parsed back as the same
  answer, so that a retry sees the decision, the references and the errors of the first run.
\<close>

theorem stored_answers_round_trip:
  assumes "tidy_requirements requirements"
  shows "parseStoredX402SettlementResponse (Some (settle_json (snd (normalizeSettlementResponse data status requirements))))
      = Some (snd (normalizeSettlementResponse data status requirements))
    \<and> parseStoredX402VerificationResponse (Some (verify_json (snd (normalizeVerificationResponse data status requirements))))
      = Some (snd (normalizeVerificationResponse data status requirements))"
  by (simp add: parse_settle_json parse_verify_json normalized_ok [OF assms])

theorem stored_answers_round_trip_witness:
  "parseStoredX402SettlementResponse (Some (settle_json (snd (normalizeSettlementResponse None 402 (JObj demo_requirement)))))
     = Some (snd (normalizeSettlementResponse None 402 (JObj demo_requirement)))"
proof -
  have "js_trim ''exact'' = ''exact''" "js_trim ''net'' = ''net''" "js_trim ''usdc'' = ''usdc''"
    "js_trim ''5000000'' = ''5000000''"
    "js_trim ''https://api.io/v1/billing/topup'' = ''https://api.io/v1/billing/topup''" by code_simp+
  then have "tidy_requirements (JObj demo_requirement)"
    by (simp add: tidy_requirements_def json_field_def opt_prop_def js_prop_def demo_requirement_def
        tidy_value_JStr tidy_def)
  from stored_answers_round_trip [OF this] show ?thesis by blast
qed

end
