(* ===== verification/HttpAuth.thy ===== *)
theory HttpAuth
  imports Base64 Effects
begin

text \<open>
  \<open>src/lib/auth.ts\<close>: access tokens, and the checks that a request makes on them. A token is the
  Base64 text of its claims and of their signature. The HMAC of the platform and \<open>JSON.parse\<close> are
  parameters. Only tokens that the runtime has signed itself pass the signature check, so a signed
  payload whose members do not have the types of \<open>AccessTokenClaims\<close> is outside the model.
\<close>

section \<open>Tokens\<close>

record claims =
  tk_sub :: string
  tk_tenant_id :: string
  tk_agent_id :: "string option"
  tk_scopes :: "string list"
  tk_mailbox_ids :: "string list option"
  tk_exp :: int

record auth_env =
  API_SIGNING_SECRET :: "string option"
  ADMIN_API_SECRET :: "string option"
  ADMIN_ROUTES_ENABLED :: "string option"
  ADMIN_ROUTES_ALLOW_PUBLIC_HOSTS :: "string option"
  DEBUG_ROUTES_ENABLED :: "string option"
  DEBUG_ROUTES_ALLOW_PUBLIC_HOSTS :: "string option"
  hmac_sha256 :: "string \<Rightarrow> string \<Rightarrow> string"
  parse_json :: "string \<Rightarrow> json option"

definition claims_json :: "claims \<Rightarrow> json" where
  "claims_json c = JObj (defined_fields [(''sub'', Some (JStr (tk_sub c))),
     (''tenantId'', Some (JStr (tk_tenant_id c))), (''agentId'', map_option JStr (tk_agent_id c)),
     (''scopes'', Some (JArr (map JStr (tk_scopes c)))),
     (''mailboxIds'', map_option (\<lambda>ids. JArr (map JStr ids)) (tk_mailbox_ids c)),
     (''exp'', Some (JNum (tk_exp c)))])"

definition claims_of_json :: "json \<Rightarrow> claims option" where
  "claims_of_json j = (case j of
     JObj m \<Rightarrow> (case (js_prop m ''tenantId'', js_prop m ''scopes'', js_prop m ''exp'') of
       (Some (JStr t), Some (JArr scopes), Some (JNum e)) \<Rightarrow>
         if t = [] then None
         else Some \<lparr>tk_sub = str_or '''' (js_prop m ''sub''), tk_tenant_id = t,
                tk_agent_id = str_opt (js_prop m ''agentId''), tk_scopes = json_strings scopes,
                tk_mailbox_ids = (case js_prop m ''mailboxIds'' of
                  Some (JArr ids) \<Rightarrow> Some (json_strings ids) | _ \<Rightarrow> None),
                tk_exp = e\<rparr>
     | _ \<Rightarrow> None)
   | _ \<Rightarrow> None)"

definition signPayload :: "auth_env \<Rightarrow> string \<Rightarrow> string \<Rightarrow> string" where
  "signPayload env secret payload = toBase64Url (hmac_sha256 env (utf8 secret) (utf8 payload))"

text \<open>\<open>atob\<close> throws on a text that is not Base64.\<close>

definition verifySignature :: "auth_env \<Rightarrow> string \<Rightarrow> string \<Rightarrow> string \<Rightarrow> js_error + bool" where
  "verifySignature env secret payload signature = (case fromBase64Url signature of
     None \<Rightarrow> Inl (PlainError ''InvalidCharacterError'')
   | Some sig \<Rightarrow> Inr (sig = hmac_sha256 env (utf8 secret) (utf8 payload)))"

definition mintAccessToken :: "auth_env \<Rightarrow> string \<Rightarrow> claims \<Rightarrow> string" where
  "mintAccessToken env secret c = (let payload = toBase64Url (utf8 (json_text (claims_json c)))
     in payload @ ''.'' @ signPayload env secret payload)"

definition decode_claims :: "auth_env \<Rightarrow> string \<Rightarrow> claims option" where
  "decode_claims env payload =
     Option.bind (fromBase64Url payload) (\<lambda>bytes. Option.bind (utf8_decode bytes)
       (\<lambda>text. Option.bind (parse_json env text) claims_of_json))"

definition verifyAccessToken :: "auth_env \<Rightarrow> string \<Rightarrow> timestamp \<Rightarrow> string \<Rightarrow> js_error + claims option" where
  "verifyAccessToken env secret now token = (case js_split CHR ''.'' token of
     payload # signature # rest \<Rightarrow>
       if payload = [] \<or> signature = [] then Inr None
       else (case verifySignature env secret payload signature of
         Inl e \<Rightarrow> Inl e
       | Inr valid \<Rightarrow>
           if \<not> valid then Inr None
           else (case decode_claims env payload of
             None \<Rightarrow> Inr None
           | Some c \<Rightarrow> if tk_exp c < now div 1000 then Inr None else Inr (Some c)))
   | _ \<Rightarrow> Inr None)"

section \<open>Requests\<close>

text \<open>A refusal: the HTTP status and the \<open>error\<close> member of the body.\<close>

datatype refusal = Refusal nat string

definition requireAuth ::
  "auth_env \<Rightarrow> timestamp \<Rightarrow> string option \<Rightarrow> string list \<Rightarrow> js_error + (refusal + claims)" where
  "requireAuth env now authorization requiredScopes =
     (if \<not> truthy (API_SIGNING_SECRET env)
      then Inr (Inl (Refusal 500 ''API_SIGNING_SECRET is not configured''))
      else case authorization of
        None \<Rightarrow> Inr (Inl (Refusal 401 ''Missing bearer token''))
      | Some a \<Rightarrow>
          if \<not> js_starts_with a ''Bearer '' then Inr (Inl (Refusal 401 ''Missing bearer token''))
          else (case verifyAccessToken env (the (API_SIGNING_SECRET env)) now (drop 7 a) of
            Inl e \<Rightarrow> Inl e
          | Inr None \<Rightarrow> Inr (Inl (Refusal 401 ''Invalid bearer token''))
          | Inr (Some c) \<Rightarrow>
              (let missing = filter (\<lambda>s. s \<notin> set (tk_scopes c)) requiredScopes in
               if missing \<noteq> [] then Inr (Inl (Refusal 403 (''Missing scopes: '' @ js_join '', '' missing)))
               else Inr (Inr c))))"

definition enforceTenantAccess :: "claims \<Rightarrow> string \<Rightarrow> refusal option" where
  "enforceTenantAccess c tenantId =
     (if tk_tenant_id c \<noteq> tenantId then Some (Refusal 403 ''Tenant access denied'') else None)"

definition enforceAgentAccess :: "claims \<Rightarrow> string \<Rightarrow> refusal option" where
  "enforceAgentAccess c agentId =
     (if \<not> truthy (tk_agent_id c) \<or> tk_agent_id c \<noteq> Some agentId
      then Some (Refusal 403 ''Agent access denied'') else None)"

definition enforceScopedAgentAccess :: "claims \<Rightarrow> string \<Rightarrow> refusal option" where
  "enforceScopedAgentAccess c agentId =
     (if \<not> truthy (tk_agent_id c) then None else enforceAgentAccess c agentId)"

definition mailbox_ids :: "claims \<Rightarrow> string list" where
  "mailbox_ids c = (case tk_mailbox_ids c of Some ids \<Rightarrow> ids | None \<Rightarrow> [])"

definition enforceMailboxAccess :: "claims \<Rightarrow> string \<Rightarrow> refusal option" where
  "enforceMailboxAccess c mailboxId =
     (if mailbox_ids c \<noteq> [] \<and> mailboxId \<notin> set (mailbox_ids c)
      then Some (Refusal 403 ''Mailbox access denied'') else None)"

definition requireAdminSecret :: "auth_env \<Rightarrow> string option \<Rightarrow> refusal option" where
  "requireAdminSecret env provided =
     (if \<not> truthy (ADMIN_API_SECRET env) then Some (Refusal 500 ''ADMIN_API_SECRET is not configured'')
      else if provided \<noteq> ADMIN_API_SECRET env then Some (Refusal 401 ''Invalid admin secret'')
      else None)"

definition parseEnabledFlag :: "string option \<Rightarrow> bool \<Rightarrow> bool" where
  "parseEnabledFlag v fallback = (case v of None \<Rightarrow> fallback
     | Some s \<Rightarrow> js_lower s \<in> {''1'', ''true'', ''yes'', ''on''})"

definition isProtectedPublicHostname :: "string \<Rightarrow> bool" where
  "isProtectedPublicHostname hostname \<longleftrightarrow> (let normalized = js_lower hostname in
     normalized = ''mailagents.net'' \<or> js_ends_with normalized ''.mailagents.net'')"

definition allowFlagOnRequest :: "string \<Rightarrow> string option \<Rightarrow> string option \<Rightarrow> bool" where
  "allowFlagOnRequest hostname enabledFlag publicHostOverrideFlag \<longleftrightarrow>
     parseEnabledFlag enabledFlag False
     \<and> (isProtectedPublicHostname hostname \<longrightarrow> parseEnabledFlag publicHostOverrideFlag False)"

definition areAdminRoutesEnabled :: "auth_env \<Rightarrow> string \<Rightarrow> bool" where
  "areAdminRoutesEnabled env hostname \<longleftrightarrow>
     allowFlagOnRequest hostname (ADMIN_ROUTES_ENABLED env) (ADMIN_ROUTES_ALLOW_PUBLIC_HOSTS env)"

definition areDebugRoutesEnabled :: "auth_env \<Rightarrow> string \<Rightarrow> bool" where
  "areDebugRoutesEnabled env hostname \<longleftrightarrow>
     allowFlagOnRequest hostname (DEBUG_ROUTES_ENABLED env) (DEBUG_ROUTES_ALLOW_PUBLIC_HOSTS env)"

definition requireAdminRoutesEnabled :: "auth_env \<Rightarrow> string \<Rightarrow> refusal option" where
  "requireAdminRoutesEnabled env hostname =
     (if \<not> areAdminRoutesEnabled env hostname then Some (Refusal 404 ''Admin routes are disabled'') else None)"

definition requireDebugRoutesEnabled :: "auth_env \<Rightarrow> string \<Rightarrow> refusal option" where
  "requireDebugRoutesEnabled env hostname =
     (if \<not> areDebugRoutesEnabled env hostname then Some (Refusal 404 ''Debug routes are disabled'') else None)"

section \<open>Facts\<close>

lemma claims_round_trip:
  "tk_tenant_id c \<noteq> [] \<Longrightarrow> claims_of_json (claims_json c) = Some c"
  by (simp add: claims_of_json_def claims_json_def js_prop_def map_of_defined_fields str_or_def str_opt_def
      split: option.split)

lemma split_dot:
  assumes "CHR ''.'' \<notin> set p" "CHR ''.'' \<notin> set s"
  shows "js_split CHR ''.'' (p @ ''.'' @ s) = [p, s]"
proof -
  have one: "js_split CHR ''.'' s = [s]" using assms(2) by (induction s) auto
  show ?thesis using assms(1) by (induction p) (auto simp: one)
qed

lemma toBase64Url_no_dot: "CHR ''.'' \<notin> set (toBase64Url s)"
proof
  assume "CHR ''.'' \<in> set (toBase64Url s)"
  then have "CHR ''.'' \<in> set (b64_body s)"
    by (auto simp: toBase64Url_body replace_char_def split: if_splits)
  then obtain n where "n < 64" "CHR ''.'' = sextet_char n" using b64_body_chars by blast
  then have "sextet_of CHR ''.'' = Some n" by simp
  then show False by (simp add: sextet_of_def)
qed

lemma all_some_Nil: "all_some [] = Some []"
  by (simp add: all_some_def)

lemma toBase64Url_nonempty: "s \<noteq> [] \<Longrightarrow> toBase64Url s \<noteq> []"
proof
  assume "s \<noteq> []" "toBase64Url s = []"
  moreover have "fromBase64Url [] = Some []"
    by (simp add: fromBase64Url_def replace_char_def atob_def strip_padding_def js_ends_with_def of_codes_def all_some_Nil)
  ultimately show False using base64url_inverse [of s] by simp
qed

text \<open>The payload of a token.\<close>

definition token_payload :: "claims \<Rightarrow> string" where
  "token_payload c = toBase64Url (utf8 (json_text (claims_json c)))"

lemma token_payload_nonempty: "token_payload c \<noteq> []"
proof -
  have "utf8 (json_text (claims_json c)) \<noteq> []" by (simp add: claims_json_def utf8_def utf8_char_def Let_def)
  then show ?thesis unfolding token_payload_def by (rule toBase64Url_nonempty)
qed

section \<open>Properties\<close>

lemma verify_signature_mint:
  "verifySignature env k p (signPayload env k' p) =
     Inr (hmac_sha256 env (utf8 k') (utf8 p) = hmac_sha256 env (utf8 k) (utf8 p))"
  by (simp add: verifySignature_def signPayload_def base64url_inverse)

lemma verify_minted:
  assumes "tk_tenant_id c \<noteq> []"
    and "parse_json env (json_text (claims_json c)) = Some (claims_json c)"
    and "hmac_sha256 env (utf8 secret) (utf8 (token_payload c)) \<noteq> []"
  shows "verifyAccessToken env secret' now (mintAccessToken env secret c) =
    Inr (if hmac_sha256 env (utf8 secret) (utf8 (token_payload c))
              = hmac_sha256 env (utf8 secret') (utf8 (token_payload c))
            \<and> now div 1000 \<le> tk_exp c then Some c else None)"
proof -
  let ?p = "token_payload c"
  have split: "js_split CHR ''.'' (mintAccessToken env secret c) = [?p, signPayload env secret ?p]"
    unfolding mintAccessToken_def Let_def token_payload_def signPayload_def
    by (rule split_dot [OF toBase64Url_no_dot toBase64Url_no_dot])
  have sig: "signPayload env secret ?p \<noteq> []"
    unfolding signPayload_def by (rule toBase64Url_nonempty [OF assms(3)])
  have "decode_claims env ?p = Some c"
    by (simp add: decode_claims_def token_payload_def base64url_inverse assms(1,2) claims_round_trip)
  then show ?thesis
    by (auto simp: verifyAccessToken_def split sig token_payload_nonempty verify_signature_mint)
qed

text \<open>
  C34. A minted token authorises a request exactly when it has not expired, the configured secret
  gives the signature it was minted with, and its scopes cover the required ones; the request then
  carries the claims the token was minted for. Otherwise it is refused with 401 or 403.
\<close>

theorem minted_token_verifies:
  assumes "tk_tenant_id c \<noteq> []" and "API_SIGNING_SECRET env = Some secret'" and "secret' \<noteq> []"
    and "parse_json env (json_text (claims_json c)) = Some (claims_json c)"
    and "hmac_sha256 env (utf8 secret) (utf8 (token_payload c)) \<noteq> []"
  shows "requireAuth env now (Some (''Bearer '' @ mintAccessToken env secret c)) scopes = Inr (
    if hmac_sha256 env (utf8 secret) (utf8 (token_payload c))
         \<noteq> hmac_sha256 env (utf8 secret') (utf8 (token_payload c)) \<or> tk_exp c < now div 1000
    then Inl (Refusal 401 ''Invalid bearer token'')
    else if set scopes \<subseteq> set (tk_scopes c) then Inr c
    else Inl (Refusal 403 (''Missing scopes: ''
           @ js_join '', '' (filter (\<lambda>s. s \<notin> set (tk_scopes c)) scopes))))"
  using assms(2,3)
  by (auto simp: requireAuth_def verify_minted [OF assms(1,4,5)] js_starts_with_def Let_def
      filter_empty_conv)

text \<open>
  C35. A request is authorised only by a bearer token whose second part is the signature of its first
  part under the configured secret, whose claims have not expired and cover every required scope.
\<close>

theorem authorised_requests_are_signed:
  assumes "requireAuth env now authorization scopes = Inr (Inr c)"
  shows "\<exists>secret payload signature rest.
    API_SIGNING_SECRET env = Some secret \<and> secret \<noteq> []
    \<and> (\<exists>token. authorization = Some (''Bearer '' @ token)
          \<and> js_split CHR ''.'' token = payload # signature # rest)
    \<and> fromBase64Url signature = Some (hmac_sha256 env (utf8 secret) (utf8 payload))
    \<and> decode_claims env payload = Some c \<and> now div 1000 \<le> tk_exp c \<and> set scopes \<subseteq> set (tk_scopes c)"
proof -
  obtain a where a: "authorization = Some a" "js_starts_with a ''Bearer ''"
    using assms by (auto simp: requireAuth_def split: if_splits option.splits)
  define token where "token = drop 7 a"
  have "take 7 a = ''Bearer ''" using a(2) by (simp add: js_starts_with_def eval_nat_numeral)
  then have "a = ''Bearer '' @ token" unfolding token_def by (metis append_take_drop_id)
  then show ?thesis using assms a
    by (auto simp: requireAuth_def verifyAccessToken_def verifySignature_def js_starts_with_def truthy_def
        Let_def filter_empty_conv split: if_splits option.splits list.splits sum.splits)
qed


text \<open>A concrete signer: the key in front of the message.\<close>

definition demo_claims :: claims where
  "demo_claims = \<lparr>tk_sub = ''ada'', tk_tenant_id = ''t1'', tk_agent_id = None,
     tk_scopes = [''mail:read''], tk_mailbox_ids = None, tk_exp = 100\<rparr>"

definition demo_auth_env :: auth_env where
  "demo_auth_env = \<lparr>API_SIGNING_SECRET = Some ''k'', ADMIN_API_SECRET = None, ADMIN_ROUTES_ENABLED = None,
     ADMIN_ROUTES_ALLOW_PUBLIC_HOSTS = None, DEBUG_ROUTES_ENABLED = None,
     DEBUG_ROUTES_ALLOW_PUBLIC_HOSTS = None, hmac_sha256 = (@),
     parse_json = (\<lambda>t. if t = json_text (claims_json demo_claims) then Some (claims_json demo_claims) else None)\<rparr>"

lemma demo_auth_env_simps:
  "API_SIGNING_SECRET demo_auth_env = Some ''k''" "hmac_sha256 demo_auth_env = (@)"
  "parse_json demo_auth_env (json_text (claims_json demo_claims)) = Some (claims_json demo_claims)"
  by (simp_all add: demo_auth_env_def)

lemma demo_claims_simps:
  "tk_tenant_id demo_claims = ''t1''" "tk_exp demo_claims = 100" "tk_scopes demo_claims = [''mail:read'']"
  by (simp_all add: demo_claims_def)

definition demo_bearer :: string where
  "demo_bearer = ''Bearer '' @ mintAccessToken demo_auth_env ''k'' demo_claims"

theorem minted_token_verifies_witness:
  "requireAuth demo_auth_env 5000 (Some demo_bearer) [''mail:read''] = Inr (Inr demo_claims)
   \<and> requireAuth demo_auth_env 101000 (Some demo_bearer) [] = Inr (Inl (Refusal 401 ''Invalid bearer token''))
   \<and> requireAuth demo_auth_env 5000 (Some demo_bearer) [''mail:send'']
       = Inr (Inl (Refusal 403 ''Missing scopes: mail:send''))"
  using minted_token_verifies [of demo_claims demo_auth_env "''k''" "''k''" 5000]
    minted_token_verifies [of demo_claims demo_auth_env "''k''" "''k''" 101000]
  by (simp add: demo_bearer_def demo_auth_env_simps demo_claims_simps utf8_def utf8_char_def Let_def)

lemma demo_request_authorised: "requireAuth demo_auth_env 5000 (Some demo_bearer) [''mail:read''] = Inr (Inr demo_claims)"
  using verify_minted [of demo_claims demo_auth_env "''k''" "''k''" 5000]
  by (simp add: requireAuth_def demo_bearer_def demo_auth_env_simps demo_claims_simps js_starts_with_def
      utf8_def utf8_char_def Let_def)

theorem authorised_requests_are_signed_witness:
  "\<exists>payload signature. fromBase64Url signature = Some (''k'' @ utf8 payload)
     \<and> decode_claims demo_auth_env payload = Some demo_claims"
  using authorised_requests_are_signed [OF demo_request_authorised]
  by (auto simp: demo_auth_env_simps utf8_def utf8_char_def Let_def)


end
