(* ===== verification/AgentAdmin.thy ===== *)
theory AgentAdmin
  imports AgentRegistry
begin

text \<open>
  \<open>src/repositories/agents.ts\<close>: the operations that write agents, their versions, and mailboxes.
  What an operation has put into R2 or inserted it takes back when a later step fails; a violated
  unique index is reported as a conflict.
\<close>

section \<open>Agents\<close>

record agent_input =
  ai_tenant_id :: string
  ai_slug :: "string option"
  ai_name :: string
  ai_description :: "string option"
  ai_mode :: string
  ai_config :: json_object

definition agent_row_of :: "string \<Rightarrow> string \<Rightarrow> timestamp \<Rightarrow> agent_input \<Rightarrow> agent_row" where
  "agent_row_of i configR2Key timestamp input =
     \<lparr>ag_id = i, ag_tenant_id = ai_tenant_id input, ag_slug = ai_slug input, ag_name = ai_name input,
      ag_description = ai_description input, ag_status = ''active'', ag_mode = ai_mode input,
      ag_config_r2_key = Some configR2Key, ag_default_version_id = None,
      ag_created_at = timestamp, ag_updated_at = timestamp\<rparr>"

text \<open>\<open>slug?.trim()\<close> is not empty.\<close>

definition trimmed_slug :: "string option \<Rightarrow> string option" where
  "trimmed_slug slug = (case slug of None \<Rightarrow> None
     | Some s \<Rightarrow> if js_trim s = [] then None else Some (js_trim s))"

definition slug_conflict :: "string option \<Rightarrow> string \<Rightarrow> js_error \<Rightarrow> js_error" where
  "slug_conflict slug tenantId e = (case trimmed_slug slug of
     Some s \<Rightarrow> if isUniqueConstraintError e
       then AgentRegistryConflictError (''Agent slug '' @ s @ '' is already in use for tenant '' @ tenantId)
       else e
   | None \<Rightarrow> e)"

definition discard_object :: "string \<Rightarrow> unit io" where
  "discard_object key = catch_undefined (r2_delete key)"

definition createAgent :: "agent_input \<Rightarrow> agent_row io" where
  "createAgent input =
     await (createId ''agt'') (\<lambda>i.
     await nowIso (\<lambda>timestamp.
     let configR2Key = ''agent-config/'' @ i @ ''.json'';
         row = agent_row_of i configR2Key timestamp input
     in await (r2_put configR2Key (R2Json (ai_config input))) (\<lambda>_.
        await (try_catch (execute_checked (\<lambda>s. insert_checked agents_update (agent_clash s row) row s))
                 (\<lambda>e. seq (discard_object configR2Key)
                    (throw (slug_conflict (ai_slug input) (ai_tenant_id input) e)))) (\<lambda>_.
        await (getAgent i) (\<lambda>created. case created of
          Some a \<Rightarrow> ret a
        | None \<Rightarrow> seq (discard_object configR2Key)
                    (throw (PlainError ''Failed to load created agent'')))))))"

record agent_patch =
  patch_slug :: "string option"
  patch_name :: "string option"
  patch_description :: "string option"
  patch_status :: "string option"
  patch_mode :: "string option"
  patch_config :: "json_object option"
  patch_default_version_id :: "string option"

definition next_default_version :: "agent_patch \<Rightarrow> agent_row \<Rightarrow> string option" where
  "next_default_version patch current = (case patch_default_version_id patch of
     Some v \<Rightarrow> if js_trim v = [] then None else Some (js_trim v)
   | None \<Rightarrow> ag_default_version_id current)"

definition check_default_version :: "string \<Rightarrow> string option \<Rightarrow> unit io" where
  "check_default_version agentId v = (if \<not> truthy v then ret ()
     else await (getAgentVersion agentId (the v)) (\<lambda>version.
       if version = None
       then throw (PlainError (''Agent version '' @ the v @ '' does not belong to agent '' @ agentId))
       else ret ()))"

definition patched_agent ::
  "agent_patch \<Rightarrow> agent_row \<Rightarrow> string option \<Rightarrow> string option \<Rightarrow> timestamp \<Rightarrow> agent_row \<Rightarrow> agent_row" where
  "patched_agent patch current configR2Key defaultVersionId updatedAt r =
     r\<lparr>ag_slug := (case patch_slug patch of Some s \<Rightarrow> Some s | None \<Rightarrow> ag_slug current),
       ag_name := opt_or (patch_name patch) (ag_name current),
       ag_description := (case patch_description patch of Some d \<Rightarrow> Some d | None \<Rightarrow> ag_description current),
       ag_status := opt_or (patch_status patch) (ag_status current),
       ag_mode := opt_or (patch_mode patch) (ag_mode current),
       ag_config_r2_key := configR2Key, ag_default_version_id := defaultVersionId,
       ag_updated_at := updatedAt\<rparr>"

definition write_agent :: "string \<Rightarrow> (agent_row \<Rightarrow> agent_row) \<Rightarrow> unit io" where
  "write_agent agentId f =
     (let P = (\<lambda>a. ag_id a = agentId) in
      await (execute_checked (\<lambda>s. update_checked agents agents_update
               (update_clash ag_id slug_key (agents s) P f) P f s)) (\<lambda>changes.
      if changes = 0 then throw (PlainError (''Agent '' @ agentId @ '' no longer exists'')) else ret ()))"

text \<open>The object of a new configuration, when there is one.\<close>

definition put_config :: "string \<Rightarrow> json_object option \<Rightarrow> string option io" where
  "put_config agentId config = (case config of
     None \<Rightarrow> ret None
   | Some c \<Rightarrow> await (createId ''cfg'') (\<lambda>i.
       let key = ''agent-config/'' @ agentId @ ''/'' @ i @ ''.json''
       in await (r2_put key (R2Json c)) (\<lambda>_. ret (Some key))))"

definition discard_if :: "string option \<Rightarrow> unit io" where
  "discard_if key = (case key of None \<Rightarrow> ret () | Some k \<Rightarrow> discard_object k)"

definition updateAgent :: "string \<Rightarrow> agent_patch \<Rightarrow> agent_row io" where
  "updateAgent agentId patch =
     await (getAgent agentId) (\<lambda>found.
     await (requireRow found ''Agent not found'') (\<lambda>current.
     let nextDefault = next_default_version patch current in
     await (check_default_version agentId nextDefault) (\<lambda>_.
     await nowIso (\<lambda>updatedAt.
     await (put_config agentId (patch_config patch)) (\<lambda>newKey.
     let configR2Key = (case newKey of Some k \<Rightarrow> Some k | None \<Rightarrow> ag_config_r2_key current) in
     await (try_catch (write_agent agentId (patched_agent patch current configR2Key nextDefault updatedAt))
              (\<lambda>e. seq (discard_if newKey)
                 (throw (slug_conflict (patch_slug patch) (ag_tenant_id current) e)))) (\<lambda>_.
     await (getAgent agentId) (\<lambda>updated. case updated of
       None \<Rightarrow> seq (discard_if newKey) (throw (PlainError ''Failed to load updated agent''))
     | Some a \<Rightarrow>
         seq (if newKey \<noteq> None \<and> truthy (ag_config_r2_key current) \<and> ag_config_r2_key current \<noteq> newKey
              then discard_if (ag_config_r2_key current) else ret ())
           (ret a))))))))"

section \<open>Versions\<close>

record version_input =
  vi_agent_id :: string
  vi_version :: string
  vi_model :: "string option"
  vi_config :: "json_object option"
  vi_manifest :: "json_object option"
  vi_status :: "string option"
  vi_capabilities :: "(string \<times> json_object option) list"
  vi_tools :: "(string \<times> bool option \<times> json_object option) list"

definition object_key :: "string \<Rightarrow> string \<Rightarrow> string \<Rightarrow> json_object option \<Rightarrow> string option" where
  "object_key folder agentId i doc =
     map_option (\<lambda>_. folder @ ''/'' @ agentId @ ''/'' @ i @ ''.json'') doc"

definition put_object :: "string option \<Rightarrow> json_object option \<Rightarrow> unit io" where
  "put_object key doc = (case (key, doc) of
     (Some k, Some d) \<Rightarrow> r2_put k (R2Json d) | _ \<Rightarrow> ret ())"

definition insert_version :: "version_input \<Rightarrow> string \<Rightarrow> timestamp \<Rightarrow> string option \<Rightarrow> string option \<Rightarrow> unit io" where
  "insert_version input i timestamp configR2Key manifestR2Key =
     (let row = \<lparr>av_id = i, av_agent_id = vi_agent_id input, av_version = vi_version input,
            av_model = vi_model input, av_config_r2_key = configR2Key,
            av_manifest_r2_key = manifestR2Key, av_status = opt_or (vi_status input) ''draft'',
            av_created_at = timestamp\<rparr>
      in await (execute_checked (\<lambda>s. insert_checked agent_versions_update (version_clash s row) row s))
           (\<lambda>_. ret ()))"

definition insert_capability :: "string \<Rightarrow> string \<times> json_object option \<Rightarrow> unit io" where
  "insert_capability versionId c =
     await (createId ''agc'') (\<lambda>i.
     let row = \<lparr>cap_id = i, cap_agent_version_id = versionId, cap_capability = fst c,
           cap_config = map_option JObj (snd c)\<rparr>
     in await (execute_checked (\<lambda>s. insert_checked agent_capabilities_update (capability_clash s row) row s))
          (\<lambda>_. ret ()))"

definition insert_tool :: "string \<Rightarrow> timestamp \<Rightarrow> string \<times> bool option \<times> json_object option \<Rightarrow> unit io" where
  "insert_tool versionId timestamp t =
     await (createId ''agtb'') (\<lambda>i.
     let row = \<lparr>tb_id = i, tb_agent_version_id = versionId, tb_tool_name = fst t,
           tb_enabled = (if opt_or (fst (snd t)) True then 1 else 0),
           tb_config = map_option JObj (snd (snd t)), tb_created_at = timestamp\<rparr>
     in await (execute_checked (\<lambda>s. insert_checked agent_tool_bindings_update (tool_clash s row) row s))
          (\<lambda>_. ret ()))"

text \<open>The undo of a version that could not be created: its rows in reverse order, then its objects.\<close>

definition remove_version :: "string \<Rightarrow> string option \<Rightarrow> string option \<Rightarrow> unit io" where
  "remove_version i configR2Key manifestR2Key =
     seq (catch_undefined (execute (\<lambda>s. delete_rows agent_tool_bindings agent_tool_bindings_update
            (\<lambda>t. tb_agent_version_id t = i) s)))
    (seq (catch_undefined (execute (\<lambda>s. delete_rows agent_capabilities agent_capabilities_update
            (\<lambda>c. cap_agent_version_id c = i) s)))
    (seq (catch_undefined (execute (\<lambda>s. delete_rows agent_versions agent_versions_update
            (\<lambda>v. av_id v = i) s)))
    (seq (discard_if configR2Key) (discard_if manifestR2Key))))"

definition version_conflict :: "version_input \<Rightarrow> js_error \<Rightarrow> js_error" where
  "version_conflict input e = (if isUniqueConstraintError e
     then AgentRegistryConflictError (''Agent version '' @ vi_version input
            @ '' conflicts with an existing version or tool binding for agent '' @ vi_agent_id input)
     else e)"

definition createAgentVersion :: "version_input \<Rightarrow> agent_version io" where
  "createAgentVersion input =
     await (createId ''agv'') (\<lambda>i.
     await nowIso (\<lambda>timestamp.
     let configR2Key = object_key ''agent-config'' (vi_agent_id input) i (vi_config input);
         manifestR2Key = object_key ''agent-manifest'' (vi_agent_id input) i (vi_manifest input)
     in await (put_object configR2Key (vi_config input)) (\<lambda>_.
        await (put_object manifestR2Key (vi_manifest input)) (\<lambda>_.
        await (try_catch
                 (seq (insert_version input i timestamp configR2Key manifestR2Key)
                 (seq (for_each (vi_capabilities input) (insert_capability i))
                      (for_each (vi_tools input) (insert_tool i timestamp))))
                 (\<lambda>e. seq (remove_version i configR2Key manifestR2Key)
                    (throw (version_conflict input e)))) (\<lambda>_.
        await (getAgentVersion (vi_agent_id input) i) (\<lambda>created. case created of
          Some v \<Rightarrow> ret v
        | None \<Rightarrow> seq (remove_version i configR2Key manifestR2Key)
                    (throw (PlainError ''Failed to load created agent version''))))))))"

section \<open>Mailboxes\<close>

definition listMailboxes :: "mailbox_row list io" where
  "listMailboxes = query (\<lambda>s. order_desc mb_created_at (mailboxes s))"

definition own_mailbox :: "string \<Rightarrow> string \<Rightarrow> mailbox_row \<Rightarrow> (mailbox_row \<times> bool) io" where
  "own_mailbox tenantId address m = (if mb_tenant_id m \<noteq> tenantId
     then throw (MailboxConflictError (''Mailbox '' @ address @ '' already belongs to a different tenant''))
     else ret (m, False))"

definition ensureMailboxWithStatus ::
  "string \<Rightarrow> string \<Rightarrow> string option \<Rightarrow> (mailbox_row \<times> bool) io" where
  "ensureMailboxWithStatus tenantId address status =
     (let normalizedAddress = js_lower (js_trim address) in
      await (getMailboxByAddress normalizedAddress) (\<lambda>existing. case existing of
        Some m \<Rightarrow> own_mailbox tenantId normalizedAddress m
      | None \<Rightarrow>
          await (createId ''mbx'') (\<lambda>i.
          await nowIso (\<lambda>createdAt.
          let row = \<lparr>mb_id = i, mb_tenant_id = tenantId, mb_address = normalizedAddress,
                mb_status = opt_or status ''active'', mb_created_at = createdAt\<rparr>
          in await (try_catch
                 (await (execute_checked (\<lambda>s. insert_checked mailboxes_update (mailbox_clash s row) row s))
                    (\<lambda>_. ret None))
                 (\<lambda>e. if \<not> isUniqueConstraintError e then throw e
                    else await (getMailboxByAddress normalizedAddress) (\<lambda>concurrent.
                      case concurrent of
                        Some m \<Rightarrow> await (own_mailbox tenantId normalizedAddress m) (\<lambda>r. ret (Some r))
                      | None \<Rightarrow> throw e))) (\<lambda>early. case early of
               Some r \<Rightarrow> ret r
             | None \<Rightarrow> await (getMailboxById i) (\<lambda>created.
                 await (requireRow created (''Failed to load mailbox '' @ i)) (\<lambda>m. ret (m, True))))))))"

definition ensureMailbox :: "string \<Rightarrow> string \<Rightarrow> string option \<Rightarrow> mailbox_row io" where
  "ensureMailbox tenantId address status =
     await (ensureMailboxWithStatus tenantId address status) (\<lambda>r. ret (fst r))"

text \<open>
  A mailbox is only deleted while no visible row refers to it: no binding, deployment, thread,
  message, draft or task whose own references hold.
\<close>

definition binding_refers :: "store \<Rightarrow> string \<Rightarrow> bool" where
  "binding_refers s mailboxId \<longleftrightarrow> (\<exists>b \<in> set (agent_mailboxes s). am_mailbox_id b = mailboxId
     \<and> mailbox_of_tenant s (am_mailbox_id b) (am_tenant_id b)
     \<and> agent_of_tenant s (am_agent_id b) (am_tenant_id b))"

definition version_of_agent :: "store \<Rightarrow> string \<Rightarrow> string \<Rightarrow> bool" where
  "version_of_agent s versionId agentId \<longleftrightarrow>
     (\<exists>v \<in> set (agent_versions s). av_id v = versionId \<and> av_agent_id v = agentId)"

definition deployment_refers :: "store \<Rightarrow> string \<Rightarrow> bool" where
  "deployment_refers s mailboxId \<longleftrightarrow> (\<exists>d \<in> set (agent_deployments s).
     dp_target_type d = ''mailbox'' \<and> dp_target_id d = mailboxId
     \<and> agent_of_tenant s (dp_agent_id d) (dp_tenant_id d)
     \<and> version_of_agent s (dp_agent_version_id d) (dp_agent_id d)
     \<and> mailbox_of_tenant s (dp_target_id d) (dp_tenant_id d))"

definition mailbox_referenced :: "store \<Rightarrow> string \<Rightarrow> bool" where
  "mailbox_referenced s mailboxId \<longleftrightarrow> binding_refers s mailboxId \<or> deployment_refers s mailboxId
     \<or> (\<exists>t \<in> set (threads s). th_mailbox_id t = mailboxId \<and> mailbox_of_tenant s (th_mailbox_id t) (th_tenant_id t))
     \<or> (\<exists>m \<in> set (messages s). msg_mailbox_id m = mailboxId \<and> mailbox_of_tenant s (msg_mailbox_id m) (msg_tenant_id m))
     \<or> (\<exists>d \<in> set (drafts s). dr_mailbox_id d = mailboxId \<and> agent_of_tenant s (dr_agent_id d) (dr_tenant_id d)
          \<and> mailbox_of_tenant s (dr_mailbox_id d) (dr_tenant_id d))
     \<or> (\<exists>t \<in> set (tasks s). tsk_mailbox_id t = mailboxId \<and> mailbox_of_tenant s (tsk_mailbox_id t) (tsk_tenant_id t)
          \<and> (\<exists>m \<in> set (messages s). msg_id m = tsk_source_message_id t \<and> msg_tenant_id m = tsk_tenant_id t
               \<and> msg_mailbox_id m = tsk_mailbox_id t)
          \<and> (case tsk_assigned_agent t of None \<Rightarrow> True | Some a \<Rightarrow> agent_of_tenant s a (tsk_tenant_id t)))"

definition deleteMailboxIfUnreferenced :: "string \<Rightarrow> bool io" where
  "deleteMailboxIfUnreferenced mailboxId =
     await (execute (\<lambda>s. delete_rows mailboxes mailboxes_update
              (\<lambda>m. mb_id m = mailboxId \<and> \<not> mailbox_referenced s mailboxId) s)) (\<lambda>changes.
     ret (changes > 0))"

definition updateMailboxStatus :: "string \<Rightarrow> string \<Rightarrow> mailbox_row io" where
  "updateMailboxStatus mailboxId status =
     await (execute (\<lambda>s. update_rows mailboxes mailboxes_update (\<lambda>m. mb_id m = mailboxId)
              (\<lambda>m. m\<lparr>mb_status := status\<rparr>) s)) (\<lambda>changes.
     if changes = 0 then throw (PlainError (''Mailbox '' @ mailboxId @ '' no longer exists''))
     else await (getMailboxById mailboxId) (\<lambda>row.
          requireRow row (''Failed to load mailbox '' @ mailboxId)))"

section \<open>The store invariant\<close>

lemma keeps_discard [keeps_intros]:
  "keeps (stored K es db_ok) (discard_object k)" "keeps (stored K es db_ok) (discard_if k')"
  unfolding discard_if_def discard_object_def by (intro keeps_intros)+

lemma keeps_createAgent [keeps_intros]: "keeps (stored K es db_ok) (createAgent input)"
  unfolding createAgent_def Let_def by (intro keeps_intros)

lemma keeps_updateAgent [keeps_intros]: "keeps (stored K es db_ok) (updateAgent g patch)"
  unfolding updateAgent_def check_default_version_def put_config_def write_agent_def Let_def
  by (intro keeps_intros) (auto simp: patched_agent_def)

lemma keeps_put_object [keeps_intros]: "keeps (stored K es db_ok) (put_object key doc)"
  unfolding put_object_def by (auto split: option.split intro!: keeps_intros)

lemma keeps_createAgentVersion [keeps_intros]: "keeps (stored K es db_ok) (createAgentVersion input)"
  unfolding createAgentVersion_def insert_version_def insert_capability_def insert_tool_def
    remove_version_def Let_def
  by (intro keeps_intros)

lemma keeps_ensureMailbox [keeps_intros]:
  "keeps (stored K es db_ok) (ensureMailboxWithStatus t a st)" "keeps (stored K es db_ok) (ensureMailbox t a st)"
  "keeps (stored K es J) listMailboxes"
  unfolding ensureMailbox_def ensureMailboxWithStatus_def own_mailbox_def listMailboxes_def Let_def
  by (intro keeps_intros)+

lemma keeps_mailbox_writes [keeps_intros]:
  "keeps (stored K es db_ok) (deleteMailboxIfUnreferenced i)"
  "keeps (stored K es db_ok) (updateMailboxStatus i st)"
  unfolding deleteMailboxIfUnreferenced_def updateMailboxStatus_def by (intro keeps_intros)+

end
