(* ===== verification/Deployments.thy ===== *)
theory Deployments
  imports AgentAdmin
begin

text \<open>
  \<open>src/repositories/agents.ts\<close>: which version of an agent serves a target. A unique index allows
  one active deployment per target; a rollout creates the new deployment paused, pauses the active
  one, activates the new one and marks the old one as rolled back. When a step fails the statuses
  that were seen before are written back. The end of the theory has the bindings of mailboxes.
\<close>

section \<open>Reading\<close>

text \<open>A deployment is shown only while its agent, version and mailbox exist under its tenant.\<close>

definition deployment_valid :: "store \<Rightarrow> agent_deployment_row \<Rightarrow> bool" where
  "deployment_valid s d \<longleftrightarrow> agent_of_tenant s (dp_agent_id d) (dp_tenant_id d)
     \<and> version_of_agent s (dp_agent_version_id d) (dp_agent_id d)
     \<and> (dp_target_type d \<noteq> ''mailbox'' \<or> mailbox_of_tenant s (dp_target_id d) (dp_tenant_id d))"

definition getAgentDeployment :: "string \<Rightarrow> string \<Rightarrow> agent_deployment_row option io" where
  "getAgentDeployment agentId deploymentId =
     query (\<lambda>s. first_row (filter (\<lambda>d. dp_id d = deploymentId \<and> dp_agent_id d = agentId
       \<and> deployment_valid s d) (agent_deployments s)))"

definition listAgentDeployments :: "string \<Rightarrow> agent_deployment_row list io" where
  "listAgentDeployments agentId =
     query (\<lambda>s. order_desc dp_created_at (filter (\<lambda>d. dp_agent_id d = agentId
       \<and> deployment_valid s d) (agent_deployments s)))"

text \<open>The agent, its version and the target that a deployment is asked for.\<close>

record deployment_input =
  dep_tenant_id :: string
  dep_agent_id :: string
  dep_agent_version_id :: string
  dep_target_type :: string
  dep_target_id :: string

definition active_for :: "store \<Rightarrow> string \<Rightarrow> string \<Rightarrow> string \<Rightarrow> agent_deployment_row \<Rightarrow> bool" where
  "active_for s tenantId targetType targetId d \<longleftrightarrow> dp_tenant_id d = tenantId
     \<and> dp_target_type d = targetType \<and> dp_target_id d = targetId \<and> dp_status d = ''active''
     \<and> deployment_valid s d"

definition listActiveDeploymentsForTarget ::
  "string \<Rightarrow> string \<Rightarrow> string \<Rightarrow> string option \<Rightarrow> agent_deployment_row list io" where
  "listActiveDeploymentsForTarget tenantId targetType targetId excludeDeploymentId =
     await (query (\<lambda>s. filter (active_for s tenantId targetType targetId) (agent_deployments s)))
       (\<lambda>rows. ret (filter (\<lambda>d. Some (dp_id d) \<noteq> excludeDeploymentId) rows))"

section \<open>Writing\<close>

definition delete_deployment :: "string \<Rightarrow> unit io" where
  "delete_deployment i = catch_undefined (execute (\<lambda>s.
     delete_rows agent_deployments agent_deployments_update (\<lambda>d. dp_id d = i) s))"

definition deleteInvalidActiveDeploymentsForTarget :: "string \<Rightarrow> string \<Rightarrow> nat io" where
  "deleteInvalidActiveDeploymentsForTarget targetType targetId =
     await (query (\<lambda>s. map dp_id (filter (\<lambda>d. dp_target_type d = targetType
              \<and> dp_target_id d = targetId \<and> dp_status d = ''active''
              \<and> \<not> deployment_valid s d) (agent_deployments s)))) (\<lambda>rows.
     seq (for_each rows delete_deployment) (ret (length rows)))"

text \<open>An \<open>UPDATE\<close> of the status, which the index on the active deployments may refuse.\<close>

definition update_status ::
  "string \<Rightarrow> (store \<Rightarrow> agent_deployment_row \<Rightarrow> bool) \<Rightarrow> string \<Rightarrow> timestamp \<Rightarrow> unit io" where
  "update_status i Q status updatedAt =
     (let P = (\<lambda>s d. dp_id d = i \<and> Q s d \<and> deployment_valid s d);
          f = (\<lambda>d. d\<lparr>dp_status := status, dp_updated_at := updatedAt\<rparr>)
      in await (execute_checked (\<lambda>s. update_checked agent_deployments agent_deployments_update
                  (update_clash dp_id active_target (agent_deployments s) (P s) f) (P s) f s))
           (\<lambda>changes. if changes = 0
              then throw (PlainError (''Agent deployment '' @ i @ '' no longer exists''))
              else ret ()))"

definition setDeploymentStatus :: "string \<Rightarrow> string \<Rightarrow> string \<Rightarrow> timestamp \<Rightarrow> unit io" where
  "setDeploymentStatus agentId deploymentId status updatedAt =
     update_status deploymentId (\<lambda>s d. dp_agent_id d = agentId) status updatedAt"

definition setDeploymentsStatus :: "string list \<Rightarrow> string \<Rightarrow> timestamp \<Rightarrow> unit io" where
  "setDeploymentsStatus deploymentIds status updatedAt =
     for_each deploymentIds (\<lambda>i. update_status i (\<lambda>s d. True) status updatedAt)"

text \<open>The id, the agent and the status of a deployment, to be written back.\<close>

type_synonym status_snapshot = "string \<times> string \<times> string"

definition snapshot_of :: "agent_deployment_row \<Rightarrow> status_snapshot" where
  "snapshot_of d = (dp_id d, dp_agent_id d, dp_status d)"

definition restoreDeploymentStatuses :: "status_snapshot list \<Rightarrow> timestamp \<Rightarrow> unit io" where
  "restoreDeploymentStatuses snapshots updatedAt =
     for_each snapshots (\<lambda>(i, agentId, status). setDeploymentStatus agentId i status updatedAt)"

definition active_conflict :: "string \<Rightarrow> string \<Rightarrow> js_error" where
  "active_conflict targetType targetId = DeploymentConflictError
     (''An active deployment already exists for '' @ targetType @ '' '' @ targetId)"

definition status_conflict :: "string \<Rightarrow> string \<Rightarrow> js_error \<Rightarrow> js_error" where
  "status_conflict targetType targetId e =
     (if isUniqueConstraintError e then active_conflict targetType targetId else e)"

definition insert_deployment ::
  "deployment_input \<Rightarrow> string \<Rightarrow> string \<Rightarrow> timestamp \<Rightarrow> unit io" where
  "insert_deployment input i status timestamp =
     (let row = \<lparr>dp_id = i, dp_tenant_id = dep_tenant_id input, dp_agent_id = dep_agent_id input,
            dp_agent_version_id = dep_agent_version_id input, dp_target_type = dep_target_type input,
            dp_target_id = dep_target_id input, dp_status = status, dp_created_at = timestamp,
            dp_updated_at = timestamp\<rparr>
      in await (execute_checked (\<lambda>s. insert_checked agent_deployments_update (deployment_clash s row) row s))
           (\<lambda>_. ret ()))"

text \<open>
  The index may be held by a deployment that is no longer shown: when no shown one is active, the
  others are deleted and the insertion is tried once more.
\<close>

definition insert_over_invalid :: "deployment_input \<Rightarrow> string \<Rightarrow> timestamp \<Rightarrow> unit io" where
  "insert_over_invalid input i timestamp =
     (let conflict = DeploymentConflictError (''A active deployment already exists for ''
            @ dep_target_type input @ '' '' @ dep_target_id input) in
      await (listActiveDeploymentsForTarget (dep_tenant_id input) (dep_target_type input)
               (dep_target_id input) None) (\<lambda>existing.
      if existing \<noteq> [] then throw conflict
      else await (deleteInvalidActiveDeploymentsForTarget (dep_target_type input) (dep_target_id input))
             (\<lambda>deleted. if deleted > 0 then insert_deployment input i ''active'' timestamp
                        else throw conflict)))"

definition finalize_error :: "string \<Rightarrow> string \<Rightarrow> js_error" where
  "finalize_error i why = PlainError (''Agent deployment '' @ i @ '' could not be finalized because '' @ why)"

definition createAgentDeployment :: "deployment_input \<Rightarrow> string option \<Rightarrow> agent_deployment_row io" where
  "createAgentDeployment input status0 =
     await (createId ''agd'') (\<lambda>i.
     await nowIso (\<lambda>timestamp.
     let status = opt_or status0 ''active'' in
     await (try_catch (insert_deployment input i status timestamp)
              (\<lambda>e. if \<not> isUniqueConstraintError e then throw e
                 else if status = ''active'' then insert_over_invalid input i timestamp
                 else throw e)) (\<lambda>_.
     await (getAgent (dep_agent_id input)) (\<lambda>agent.
     await (getAgentVersion (dep_agent_id input) (dep_agent_version_id input)) (\<lambda>version.
     await (if dep_target_type input = ''mailbox'' then getMailboxById (dep_target_id input) else ret None)
       (\<lambda>mailbox.
     if (case agent of None \<Rightarrow> True | Some a \<Rightarrow> ag_tenant_id a \<noteq> dep_tenant_id input) \<or> version = None
        \<or> (dep_target_type input = ''mailbox''
           \<and> (case mailbox of None \<Rightarrow> True | Some m \<Rightarrow> mb_tenant_id m \<noteq> dep_tenant_id input))
     then seq (delete_deployment i) (throw (finalize_error i
            ''the agent, version, or target no longer exists or no longer matches the tenant''))
     else await (getAgentDeployment (dep_agent_id input) i) (\<lambda>created. case created of
            Some d \<Rightarrow> ret d
          | None \<Rightarrow> seq (delete_deployment i) (throw (finalize_error i
              ''the stored deployment no longer passed read-back validation'')))))))))"

section \<open>Switching the active deployment\<close>

definition read_back_error :: "string \<Rightarrow> string \<Rightarrow> js_error" where
  "read_back_error i after = PlainError
     (''Agent deployment '' @ i @ '' no longer passed read-back validation after '' @ after)"

definition updateAgentDeploymentStatus ::
  "string \<Rightarrow> string \<Rightarrow> string \<Rightarrow> agent_deployment_row option io" where
  "updateAgentDeploymentStatus agentId deploymentId status =
     await nowIso (\<lambda>timestamp.
     await (getAgentDeployment agentId deploymentId) (\<lambda>found. case found of
       None \<Rightarrow> ret None
     | Some current \<Rightarrow>
         await (if status = ''active'' \<and> dp_status current \<noteq> ''active''
                then await (listActiveDeploymentsForTarget (dp_tenant_id current)
                       (dp_target_type current) (dp_target_id current) (Some (dp_id current)))
                  (\<lambda>previouslyActive.
                  let snapshots = map snapshot_of (current # previouslyActive) in
                  await (try_catch
                    (seq (setDeploymentStatus (dp_agent_id current) (dp_id current) ''paused'' timestamp)
                    (seq (setDeploymentsStatus (map dp_id previouslyActive) ''paused'' timestamp)
                         (setDeploymentStatus (dp_agent_id current) (dp_id current) ''active'' timestamp)))
                    (\<lambda>e. seq (catch_undefined (restoreDeploymentStatuses snapshots timestamp))
                       (throw (status_conflict (dp_target_type current) (dp_target_id current) e))))
                  (\<lambda>_. ret snapshots))
                else await (try_catch (setDeploymentStatus agentId deploymentId status timestamp)
                       (\<lambda>e. throw (status_conflict (dp_target_type current) (dp_target_id current) e)))
                  (\<lambda>_. ret [snapshot_of current])) (\<lambda>snapshots.
         await (getAgentDeployment agentId deploymentId) (\<lambda>updated. case updated of
           Some d \<Rightarrow> ret (Some d)
         | None \<Rightarrow> seq (catch_undefined (restoreDeploymentStatuses snapshots timestamp))
                     (throw (read_back_error deploymentId ''status update''))))))"

text \<open>The three steps that a rollout and a rollback share, and their undo.\<close>

definition switch_over ::
  "agent_deployment_row \<Rightarrow> string \<Rightarrow> string \<Rightarrow> agent_deployment_row list \<Rightarrow> status_snapshot list
     \<Rightarrow> timestamp \<Rightarrow> unit io" where
  "switch_over d targetType targetId previouslyActive snapshots timestamp =
     try_catch
       (seq (setDeploymentsStatus (map dp_id previouslyActive) ''paused'' timestamp)
       (seq (setDeploymentStatus (dp_agent_id d) (dp_id d) ''active'' timestamp)
            (setDeploymentsStatus (map dp_id previouslyActive) ''rolled_back'' timestamp)))
       (\<lambda>e. seq (catch_undefined (restoreDeploymentStatuses snapshots timestamp))
          (throw (status_conflict targetType targetId e)))"

definition rolloutAgentDeployment :: "deployment_input \<Rightarrow> agent_deployment_row io" where
  "rolloutAgentDeployment input =
     await nowIso (\<lambda>timestamp.
     await (listActiveDeploymentsForTarget (dep_tenant_id input) (dep_target_type input)
              (dep_target_id input) None) (\<lambda>previouslyActive.
     await (createAgentDeployment input (Some ''paused'')) (\<lambda>created.
     let snapshots = (dp_id created, dp_agent_id created, ''paused'') # map snapshot_of previouslyActive in
     await (switch_over created (dep_target_type input) (dep_target_id input)
              previouslyActive snapshots timestamp) (\<lambda>_.
     await (getAgentDeployment (dep_agent_id input) (dp_id created)) (\<lambda>rolledOut. case rolledOut of
       Some d \<Rightarrow> ret d
     | None \<Rightarrow> seq (catch_undefined (restoreDeploymentStatuses snapshots timestamp))
              (seq (delete_deployment (dp_id created))
                   (throw (read_back_error (dp_id created) ''rollout''))))))))"

definition rollbackAgentDeployment :: "string \<Rightarrow> string \<Rightarrow> agent_deployment_row option io" where
  "rollbackAgentDeployment agentId deploymentId =
     await (getAgentDeployment agentId deploymentId) (\<lambda>found. case found of
       None \<Rightarrow> ret None
     | Some deployment \<Rightarrow>
         await nowIso (\<lambda>timestamp.
         await (listActiveDeploymentsForTarget (dp_tenant_id deployment) (dp_target_type deployment)
                  (dp_target_id deployment) (Some (dp_id deployment))) (\<lambda>previouslyActive.
         let snapshots = map snapshot_of (deployment # previouslyActive) in
         await (switch_over deployment (dp_target_type deployment) (dp_target_id deployment)
                  previouslyActive snapshots timestamp) (\<lambda>_.
         await (getAgentDeployment agentId deploymentId) (\<lambda>rolledBack. case rolledBack of
           Some d \<Rightarrow> ret (Some d)
         | None \<Rightarrow> seq (catch_undefined (restoreDeploymentStatuses snapshots timestamp))
                     (throw (read_back_error deploymentId ''rollback'')))))))"

section \<open>Bindings of mailboxes\<close>

definition binding_valid :: "store \<Rightarrow> agent_mailbox_row \<Rightarrow> bool" where
  "binding_valid s b \<longleftrightarrow> mailbox_of_tenant s (am_mailbox_id b) (am_tenant_id b)
     \<and> agent_of_tenant s (am_agent_id b) (am_tenant_id b)"

definition getAgentMailboxBinding :: "string \<Rightarrow> string \<Rightarrow> agent_mailbox_row option io" where
  "getAgentMailboxBinding agentId mailboxId =
     query (\<lambda>s. first_row (filter (\<lambda>b. am_agent_id b = agentId \<and> am_mailbox_id b = mailboxId
       \<and> binding_valid s b) (agent_mailboxes s)))"

definition listAgentMailboxes :: "string \<Rightarrow> agent_mailbox_row list io" where
  "listAgentMailboxes agentId =
     query (\<lambda>s. order_desc am_created_at (filter (\<lambda>b. am_agent_id b = agentId \<and> binding_valid s b)
       (agent_mailboxes s)))"

definition delete_binding :: "string \<Rightarrow> unit io" where
  "delete_binding i = catch_undefined (execute (\<lambda>s.
     delete_rows agent_mailboxes agent_mailboxes_update (\<lambda>b. am_id b = i) s))"

definition deleteInvalidAgentMailboxBindings :: "string \<Rightarrow> string \<Rightarrow> nat io" where
  "deleteInvalidAgentMailboxBindings agentId mailboxId =
     await (query (\<lambda>s. map am_id (filter (\<lambda>b. am_agent_id b = agentId \<and> am_mailbox_id b = mailboxId
              \<and> \<not> binding_valid s b) (agent_mailboxes s)))) (\<lambda>rows.
     seq (for_each rows delete_binding) (ret (length rows)))"

primrec role_text :: "mailbox_role \<Rightarrow> string" where
  "role_text RolePrimary = ''primary''"
| "role_text RoleShared = ''shared''"
| "role_text RoleSendOnly = ''send_only''"
| "role_text RoleReceiveOnly = ''receive_only''"

definition insert_binding ::
  "string \<Rightarrow> string \<Rightarrow> string \<Rightarrow> mailbox_role \<Rightarrow> string \<Rightarrow> timestamp \<Rightarrow> unit io" where
  "insert_binding tenantId agentId mailboxId role i createdAt =
     (let row = \<lparr>am_id = i, am_tenant_id = tenantId, am_agent_id = agentId, am_mailbox_id = mailboxId,
            am_role = role, am_status = ''active'', am_created_at = createdAt\<rparr>
      in await (execute_checked (\<lambda>s. insert_checked agent_mailboxes_update (binding_clash s row) row s))
           (\<lambda>_. ret ()))"

definition bound_error :: "string \<Rightarrow> string \<Rightarrow> string \<Rightarrow> js_error" where
  "bound_error mailboxId agentId how = MailboxConflictError
     (''Mailbox '' @ mailboxId @ '' is already bound to agent '' @ agentId @ '' with '' @ how)"

definition binding_error :: "string \<Rightarrow> string \<Rightarrow> js_error" where
  "binding_error i why = PlainError
     (''Agent mailbox binding '' @ i @ '' could not be finalized because '' @ why)"

text \<open>The handler of the insertion: an equal active binding is the answer already.\<close>

definition rebind ::
  "string \<Rightarrow> string \<Rightarrow> mailbox_role \<Rightarrow> unit io \<Rightarrow> js_error \<Rightarrow> agent_mailbox_row option io" where
  "rebind agentId mailboxId role insertBinding e =
     await (getAgentMailboxBinding agentId mailboxId) (\<lambda>existing. case existing of
       Some b \<Rightarrow>
         if am_role b \<noteq> role then throw (bound_error mailboxId agentId (''role '' @ role_text (am_role b)))
         else if am_status b \<noteq> ''active'' then throw (bound_error mailboxId agentId (''status '' @ am_status b))
         else ret (Some b)
     | None \<Rightarrow>
         await (deleteInvalidAgentMailboxBindings agentId mailboxId) (\<lambda>deleted.
         if deleted > 0 then seq insertBinding (ret None) else throw e))"

definition bindMailbox :: "string \<Rightarrow> string \<Rightarrow> string \<Rightarrow> mailbox_role \<Rightarrow> agent_mailbox_row io" where
  "bindMailbox tenantId agentId mailboxId role =
     await (createId ''amb'') (\<lambda>i.
     await nowIso (\<lambda>createdAt.
     let insertBinding = insert_binding tenantId agentId mailboxId role i createdAt in
     await (try_catch (seq insertBinding (ret None))
              (\<lambda>e. if \<not> isUniqueConstraintError e then throw e
                 else rebind agentId mailboxId role insertBinding e)) (\<lambda>early. case early of
       Some b \<Rightarrow> ret b
     | None \<Rightarrow>
         await (getAgent agentId) (\<lambda>agent.
         await (getMailboxById mailboxId) (\<lambda>mailbox.
         if (case agent of None \<Rightarrow> True | Some a \<Rightarrow> ag_tenant_id a \<noteq> tenantId)
            \<or> (case mailbox of None \<Rightarrow> True | Some m \<Rightarrow> mb_tenant_id m \<noteq> tenantId)
         then seq (delete_binding i) (throw (binding_error i
                ''the agent or mailbox no longer exists or no longer matches the tenant''))
         else await (getAgentMailboxBinding agentId mailboxId) (\<lambda>created. case created of
                Some b \<Rightarrow> ret b
              | None \<Rightarrow> seq (delete_binding i) (throw (binding_error i
                  ''the stored binding no longer passed read-back validation''))))))))"

section \<open>The store invariant\<close>

lemma keeps_deployment_reads [keeps_intros]:
  "keeps (stored K es J) (getAgentDeployment g i)" "keeps (stored K es J) (listAgentDeployments g)"
  "keeps (stored K es J) (listActiveDeploymentsForTarget t tt ti x)"
  "keeps (stored K es J) (getAgentMailboxBinding g i)" "keeps (stored K es J) (listAgentMailboxes g)"
  unfolding getAgentDeployment_def listAgentDeployments_def listActiveDeploymentsForTarget_def
    getAgentMailboxBinding_def listAgentMailboxes_def
  by (intro keeps_intros)+

lemma keeps_delete_deployment [keeps_intros]:
  "keeps (stored K es db_ok) (delete_deployment i)"
  "keeps (stored K es db_ok) (deleteInvalidActiveDeploymentsForTarget tt ti)"
  "keeps (stored K es db_ok) (delete_binding i)"
  "keeps (stored K es db_ok) (deleteInvalidAgentMailboxBindings g i)"
  unfolding delete_deployment_def deleteInvalidActiveDeploymentsForTarget_def delete_binding_def
    deleteInvalidAgentMailboxBindings_def
  by (intro keeps_intros)+

lemma keeps_update_status [keeps_intros]: "keeps (stored K es db_ok) (update_status i Q st t)"
  unfolding update_status_def Let_def
  by (rule keeps_await, rule keeps_update_deployment) (auto intro: keeps_intros)

lemma keeps_set_status [keeps_intros]:
  "keeps (stored K es db_ok) (setDeploymentStatus g i st t)"
  "keeps (stored K es db_ok) (setDeploymentsStatus is st t)"
  "keeps (stored K es db_ok) (restoreDeploymentStatuses ss t)"
  unfolding setDeploymentStatus_def setDeploymentsStatus_def restoreDeploymentStatuses_def
  by (intro keeps_intros)+

lemma keeps_insert_deployment [keeps_intros]:
  "keeps (stored K es db_ok) (insert_deployment input i st t)"
  "keeps (stored K es db_ok) (insert_over_invalid input i t)"
  "keeps (stored K es db_ok) (insert_binding t' g m r i t)"
  unfolding insert_over_invalid_def insert_deployment_def insert_binding_def Let_def
  by (intro keeps_intros)+

lemma keeps_createAgentDeployment [keeps_intros]:
  "keeps (stored K es db_ok) (createAgentDeployment input st)"
  unfolding createAgentDeployment_def Let_def by (intro keeps_intros)

lemma keeps_switch_over [keeps_intros]: "keeps (stored K es db_ok) (switch_over d tt ti prev ss t)"
  unfolding switch_over_def by (intro keeps_intros)

lemma keeps_deployment_switches [keeps_intros]:
  "keeps (stored K es db_ok) (updateAgentDeploymentStatus g i st)"
  "keeps (stored K es db_ok) (rolloutAgentDeployment input)"
  "keeps (stored K es db_ok) (rollbackAgentDeployment g i)"
  unfolding updateAgentDeploymentStatus_def rolloutAgentDeployment_def rollbackAgentDeployment_def Let_def
  by (intro keeps_intros)+

lemma keeps_bindMailbox [keeps_intros]: "keeps (stored K es db_ok) (bindMailbox t g m r)"
  unfolding bindMailbox_def rebind_def Let_def by (intro keeps_intros)

end
