(* ===== verification/DeploymentProperties.thy ===== *)
theory DeploymentProperties
  imports Deployments
begin

text \<open>
  What a rollout does when nothing interferes: the deployment that it creates takes the target
  over, whatever was active there is rolled back, and nothing else of the store changes.
\<close>

section \<open>Runs of the status statements\<close>

lemma deployment_valid_ignores [simp]:
  "deployment_valid (agent_deployments_update f s) d = deployment_valid s d"
  "deployment_valid s (d\<lparr>dp_status := st, dp_updated_at := t\<rparr>) = deployment_valid s d"
  by (simp_all add: deployment_valid_def agent_of_tenant_def version_of_agent_def mailbox_of_tenant_def)

lemma uuid_unchanged [simp]: "uuid (tick w) = uuid w" "uuid (with_store w s) = uuid w"
  by (simp_all add: tick_def with_store_def)

lemma ticked_with_store [simp]: "ticked n (with_store w s) = with_store (ticked n w) s"
  by (induction n arbitrary: w) simp_all

lemma clock_ticked [simp]: "clock (ticked n w) = clock w"
  by (induction n arbitrary: w) simp_all

definition set_status :: "string \<Rightarrow> string \<Rightarrow> timestamp \<Rightarrow> store \<Rightarrow> store" where
  "set_status i st t s = s\<lparr>agent_deployments :=
     tbl_update (\<lambda>d. dp_id d = i) (\<lambda>d. d\<lparr>dp_status := st, dp_updated_at := t\<rparr>) (agent_deployments s)\<rparr>"

lemma deployments_fold: "agent_deployments_update g s = s\<lparr>agent_deployments := g (agent_deployments s)\<rparr>"
  by (cases s) simp

lemma update_status_run:
  assumes w: "quiet w" "unique_by dp_id (agent_deployments (store_of w))"
    and d: "d \<in> set (agent_deployments (store_of w))" "Q (store_of w) d" "deployment_valid (store_of w) d"
    and free: "st = ''active'' \<Longrightarrow> \<forall>x \<in> set (agent_deployments (store_of w)). dp_id x \<noteq> dp_id d
      \<longrightarrow> active_target x \<noteq> Some (dp_target_type d, dp_target_id d)"
  shows "update_status (dp_id d) Q st t w = (Inr (), with_store (tick w) (set_status (dp_id d) st t (store_of w)))"
proof -
  let ?s = "store_of w"
  let ?T = "agent_deployments ?s"
  let ?P = "\<lambda>x. dp_id x = dp_id d \<and> Q ?s x \<and> deployment_valid ?s x"
  let ?f = "\<lambda>x. x\<lparr>dp_status := st, dp_updated_at := t\<rparr>"
  have own: "x = d" if "x \<in> set ?T" "dp_id x = dp_id d" for x
    using that d(1) w(2) by (auto simp: unique_by_def distinct_map inj_on_def)
  have "?P x \<longleftrightarrow> dp_id x = dp_id d" if "x \<in> set ?T" for x
    using own [OF that] d by blast
  then have up: "tbl_update ?P ?f ?T = tbl_update (\<lambda>x. dp_id x = dp_id d) ?f ?T"
    by (simp add: tbl_update_def)
  have no: "\<not> update_clash dp_id active_target ?T ?P ?f"
  proof
    assume "update_clash dp_id active_target ?T ?P ?f"
    then obtain r x where r: "r \<in> set ?T" "dp_id r = dp_id d" "active_target (?f r) \<noteq> None"
      and x: "x \<in> set ?T" "dp_id x \<noteq> dp_id r" "active_target x = active_target (?f r)"
      by (auto simp: update_clash_def)
    have "r = d" by (rule own [OF r(1,2)])
    with r(3) x free show False by (auto simp: active_target_def split: if_splits)
  qed
  have "tbl_count ?P ?T \<noteq> 0" using d by (auto simp del: One_nat_def)
  with no up w(1) show ?thesis
    by (simp add: deployments_fold [of "tbl_update P f" for P f] update_status_def run_simps Let_def update_checked_def update_rows_def set_status_def
        quiet_checked_Some del: tbl_count_0)
qed

lemmas set_status_run = update_status_run [where Q = "\<lambda>s d. dp_agent_id d = g" for g, folded setDeploymentStatus_def]

text \<open>The table after a switch to the deployment \<open>i\<close> of a target.\<close>

definition switched ::
  "string \<Rightarrow> string \<times> string \<Rightarrow> timestamp \<Rightarrow> agent_deployment_row \<Rightarrow> agent_deployment_row" where
  "switched i target t x =
     (if dp_id x = i then x\<lparr>dp_status := ''active'', dp_updated_at := t\<rparr>
      else if active_target x = Some target then x\<lparr>dp_status := ''rolled_back'', dp_updated_at := t\<rparr>
      else x)"

lemma at_most_one:
  assumes "unique_opt k t"
  obtains "filter (\<lambda>x. k x = Some v \<and> Q x) t = []" | p where "filter (\<lambda>x. k x = Some v \<and> Q x) t = [p]"
  using unique_opt_filter [OF assms, of v Q] by (cases "filter (\<lambda>x. k x = Some v \<and> Q x) t") auto

lemma switch_over_run:
  assumes w: "quiet w" "db_ok (store_of w)"
    and d: "d \<in> set (agent_deployments (store_of w))" "deployment_valid (store_of w) d"
    and target: "target = (dp_target_type d, dp_target_id d)"
    and prev: "prev = filter (\<lambda>x. active_target x = Some target \<and> dp_id x \<noteq> dp_id d) (agent_deployments (store_of w))"
      "\<forall>x \<in> set prev. deployment_valid (store_of w) x"
  shows "\<exists>n. switch_over d tt ti prev ss t w = (Inr (), with_store (ticked n w)
    ((store_of w)\<lparr>agent_deployments := map (switched (dp_id d) target t) (agent_deployments (store_of w))\<rparr>))"
proof -
  let ?s = "store_of w"
  let ?T = "agent_deployments ?s"
  have u: "unique_by dp_id ?T" and a: "unique_opt active_target ?T" using w(2) by (simp_all add: db_ok_def)
  have uu: "unique_by dp_id (agent_deployments (set_status i st t s)) = unique_by dp_id (agent_deployments s)"
    for i st t s by (simp add: set_status_def unique_by_update)
  have valid: "deployment_valid (set_status i st t s) x = deployment_valid s x" for i st t s x
    by (simp add: set_status_def)
  from at_most_one [OF a, of target "\<lambda>x. dp_id x \<noteq> dp_id d"] show ?thesis
  proof cases
    case 1
    then have none: "prev = []" "\<forall>x \<in> set ?T. dp_id x \<noteq> dp_id d \<longrightarrow> active_target x \<noteq> Some target"
      using prev(1) by (auto simp: filter_empty_conv)
    have "set_status (dp_id d) ''active'' t ?s
        = ?s\<lparr>agent_deployments := map (switched (dp_id d) target t) ?T\<rparr>"
      using none(2) by (auto simp: set_status_def tbl_update_def switched_def)
    then show ?thesis
      using set_status_run [OF w(1) u d(1) refl d(2)] none target
      by (intro exI [of _ 1]) (simp add: switch_over_def setDeploymentsStatus_def run_simps)
  next
    case (2 p)
    then have "set (filter (\<lambda>x. active_target x = Some target \<and> dp_id x \<noteq> dp_id d) ?T) = {p}" by simp
    then have p: "p \<in> set ?T" "active_target p = Some target" "dp_id p \<noteq> dp_id d"
      and only: "\<And>x. x \<in> set ?T \<Longrightarrow> dp_id x \<noteq> dp_id d \<Longrightarrow> active_target x = Some target \<Longrightarrow> x = p"
      by auto
    have pp: "prev = [p]" "deployment_valid ?s p" using 2 prev by simp_all
    let ?s1 = "set_status (dp_id p) ''paused'' t ?s"
    let ?s2 = "set_status (dp_id d) ''active'' t ?s1"
    let ?s3 = "set_status (dp_id p) ''rolled_back'' t ?s2"
    let ?w1 = "with_store (tick w) ?s1" and ?w2 = "with_store (tick (tick w)) ?s2"
    have "update_status (dp_id p) (\<lambda>s d. True) ''paused'' t w = (Inr (), ?w1)"
      using update_status_run [OF w(1) u p(1) TrueI pp(2), of "''paused''"] by simp
    moreover have "setDeploymentStatus (dp_agent_id d) (dp_id d) ''active'' t ?w1 = (Inr (), ?w2)"
    proof -
      have "d \<in> set (agent_deployments ?s1)" using d(1) p(3) by (force simp: set_status_def set_tbl_update)
      moreover have "\<forall>x \<in> set (agent_deployments ?s1). dp_id x \<noteq> dp_id d \<longrightarrow> active_target x \<noteq> Some target"
        using only by (auto simp: set_status_def set_tbl_update active_target_def)
      ultimately show ?thesis
        using set_status_run [of ?w1 d "dp_agent_id d" "''active''" t] w(1) u d(2) target by (simp add: uu valid)
    qed
    moreover have "update_status (dp_id p) (\<lambda>s d. True) ''rolled_back'' t ?w2 = (Inr (), with_store (tick (tick (tick w))) ?s3)"
    proof -
      let ?p = "p\<lparr>dp_status := ''paused'', dp_updated_at := t\<rparr>"
      have "?p \<in> set (agent_deployments ?s2)" using p(1,3) by (force simp: set_status_def set_tbl_update)
      then show ?thesis
        using update_status_run [of ?w2 ?p "\<lambda>s d. True" "''rolled_back''" t] w(1) u pp(2) by (simp add: uu valid)
    qed
    moreover have "?s3 = ?s\<lparr>agent_deployments := map (switched (dp_id d) target t) ?T\<rparr>"
    proof -
      have "dp_id x = dp_id p \<longleftrightarrow> active_target x = Some target" if "x \<in> set ?T" "dp_id x \<noteq> dp_id d" for x
        using only [OF that] p(1,2) u that(1) by (auto simp: unique_by_def distinct_map inj_on_def)
      then show ?thesis
        using p(3) by (simp add: set_status_def tbl_update_def switched_def)
    qed
    ultimately show ?thesis
      by (intro exI [of _ "Suc (Suc (Suc 0))"])
         (simp only: switch_over_def setDeploymentsStatus_def pp(1) list.map for_each.simps seq_app
           try_catch_app ret_run prod.case sum.case ticked.simps)
  qed
qed

section \<open>A rollout\<close>

definition target_of :: "deployment_input \<Rightarrow> string \<times> string" where
  "target_of input = (dep_target_type input, dep_target_id input)"

definition deployment_of :: "deployment_input \<Rightarrow> string \<Rightarrow> string \<Rightarrow> timestamp \<Rightarrow> agent_deployment_row" where
  "deployment_of input i status t =
     \<lparr>dp_id = i, dp_tenant_id = dep_tenant_id input, dp_agent_id = dep_agent_id input,
      dp_agent_version_id = dep_agent_version_id input, dp_target_type = dep_target_type input,
      dp_target_id = dep_target_id input, dp_status = status, dp_created_at = t, dp_updated_at = t\<rparr>"

lemma deployment_of_simps [simp]:
  "dp_id (deployment_of input i st t) = i" "dp_agent_id (deployment_of input i st t) = dep_agent_id input"
  "dp_status (deployment_of input i st t) = st" "dp_tenant_id (deployment_of input i st t) = dep_tenant_id input"
  "dp_target_type (deployment_of input i st t) = dep_target_type input"
  "dp_target_id (deployment_of input i st t) = dep_target_id input"
  by (simp_all add: deployment_of_def)

text \<open>The agent, the version and the target of the input exist under its tenant.\<close>

definition input_valid :: "store \<Rightarrow> deployment_input \<Rightarrow> bool" where
  "input_valid s input \<longleftrightarrow> deployment_valid s (deployment_of input [] [] 0)"

lemma input_valid_row: "deployment_valid s (deployment_of input i st t) = input_valid s input"
  by (simp add: input_valid_def deployment_valid_def deployment_of_def)

lemma valid_new: "deployment_valid s ((deployment_of input i st t)\<lparr>dp_updated_at := t'\<rparr>) = input_valid s input"
  by (simp add: input_valid_def deployment_valid_def deployment_of_def)

lemma input_valid_ignores [simp]: "input_valid (agent_deployments_update f s) input = input_valid s input"
  by (simp add: input_valid_def)

lemma unique_row:
  assumes "unique_by k t" "x \<in> set t" "\<And>y. Q y \<Longrightarrow> k y = k x" "Q x"
  shows "first_row (filter Q t) = Some x"
proof -
  have "filter Q t = filter Q (filter (\<lambda>y. k y = k x) t)"
    unfolding filter_filter by (rule filter_cong) (use assms(3) in auto)
  with unique_by_filter_key [OF assms(1,2)] assms(4) show ?thesis by simp
qed

lemma get_new_run:
  assumes "\<forall>x \<in> set t. dp_id x \<noteq> dp_id r" "deployment_valid s r" "agent_deployments s = t @ [r]"
    "quiet w" "store_of w = s"
  shows "getAgentDeployment (dp_agent_id r) (dp_id r) w = (Inr (Some r), tick w)"
proof -
  have "filter (\<lambda>d. dp_id d = dp_id r \<and> dp_agent_id d = dp_agent_id r \<and> deployment_valid s d) t = []"
    using assms(1) by (auto simp: filter_empty_conv)
  with assms show ?thesis by (simp add: getAgentDeployment_def run_simps)
qed

lemma insert_deployment_run:
  assumes "quiet w" "\<not> deployment_clash (store_of w) (deployment_of input i st t)"
  shows "insert_deployment input i st t w = (Inr (), with_store (tick w) ((store_of w)
    \<lparr>agent_deployments := agent_deployments (store_of w) @ [deployment_of input i st t]\<rparr>))"
  using assms
  by (simp add: insert_deployment_def deployment_of_def [symmetric] Let_def run_simps quiet_checked_Some
      insert_checked_def deployments_fold [of "\<lambda>t. t @ [r]" for r])

lemma created_paused_run:
  assumes w: "quiet w" "db_ok (store_of w)" and v: "input_valid (store_of w) input"
    and i: "i = ''agd_'' @ uuid w (ticks w)" and fresh: "\<forall>x \<in> set (agent_deployments (store_of w)). dp_id x \<noteq> i"
  shows "\<exists>t n. createAgentDeployment input (Some ''paused'') w =
    (Inr (deployment_of input i ''paused'' t), with_store (ticked n w)
      ((store_of w)\<lparr>agent_deployments := agent_deployments (store_of w) @ [deployment_of input i ''paused'' t]\<rparr>))"
proof -
  let ?s = "store_of w"
  let ?t = "clock w (Suc (ticks w))"
  let ?r = "deployment_of input i ''paused'' ?t"
  let ?s' = "?s\<lparr>agent_deployments := agent_deployments ?s @ [?r]\<rparr>"
  have no: "\<not> deployment_clash ?s ?r" using fresh by (auto simp: deployment_clash_def active_target_def)
  obtain a where a: "a \<in> set (agents ?s)" "ag_id a = dep_agent_id input" "ag_tenant_id a = dep_tenant_id input"
    using v by (auto simp: input_valid_def deployment_valid_def deployment_of_def agent_of_tenant_def)
  have "first_row (filter (\<lambda>x. ag_id x = dep_agent_id input) (agents ?s)) = Some a"
    using a w(2) by (intro unique_row [where k = ag_id]) (auto simp: db_ok_def)
  moreover obtain x where x: "x \<in> set (agent_versions ?s)" "av_id x = dep_agent_version_id input"
      "av_agent_id x = dep_agent_id input"
    using v by (auto simp: input_valid_def deployment_valid_def deployment_of_def version_of_agent_def)
  moreover have "first_row (filter (\<lambda>y. av_id y = dep_agent_version_id input \<and> av_agent_id y = dep_agent_id input
      \<and> (\<exists>a \<in> set (agents ?s). ag_id a = av_agent_id y)) (agent_versions ?s)) = Some x"
    using a x w(2) by (intro unique_row [where k = av_id]) (auto simp: db_ok_def)
  moreover have "\<exists>m. first_row (filter (\<lambda>m. mb_id m = dep_target_id input) (mailboxes ?s)) = Some m
      \<and> mb_tenant_id m = dep_tenant_id input" if "dep_target_type input = ''mailbox''"
  proof -
    have "mailbox_of_tenant ?s (dep_target_id input) (dep_tenant_id input)"
      using v that by (simp add: input_valid_def deployment_valid_def)
    then obtain m where "m \<in> set (mailboxes ?s)" "mb_id m = dep_target_id input" "mb_tenant_id m = dep_tenant_id input"
      by (auto simp: mailbox_of_tenant_def)
    then show ?thesis
      using w(2) by (intro exI [of _ m] conjI unique_row [where k = mb_id]) (auto simp: db_ok_def)
  qed
  moreover have "getAgentDeployment (dep_agent_id input) i w' = (Inr (Some ?r), tick w')"
    if "quiet w'" "store_of w' = ?s'" for w'
    using get_new_run [of "agent_deployments ?s" ?r ?s' w'] that fresh v by (simp add: input_valid_row)
  moreover note a(3)
  ultimately show ?thesis
    using w(1) insert_deployment_run [of "tick w" input i "''paused''" ?t] no
    by (intro exI [of _ ?t] exI [of _ "Suc (Suc (Suc (Suc (Suc (Suc (if dep_target_type input = ''mailbox'' then Suc (Suc 0) else Suc 0))))))"])
       (cases "dep_target_type input = ''mailbox''";
        auto simp: createAgentDeployment_def getAgent_def getAgentVersion_def getMailboxById_def
          mapAgentVersion_def listVersionCapabilities_def listVersionTools_def agent_view_def opt_or_def
          run_simps i Let_def)
qed

text \<open>
  C28. A rollout in an undisturbed world: when the agent, the version and the target exist under the
  tenant, and whatever is active on the target is such a deployment too, the rollout returns the
  new deployment, active; the deployment that was active before is rolled back, every other
  deployment and the rest of the store are as they were.
\<close>

theorem rollout_takes_over:
  assumes w: "quiet w" "db_ok (store_of w)" and v: "input_valid (store_of w) input"
    and fresh: "\<forall>n. \<forall>x \<in> set (agent_deployments (store_of w)). dp_id x \<noteq> ''agd_'' @ uuid w n"
    and shown: "\<forall>x \<in> set (agent_deployments (store_of w)). active_target x = Some (target_of input)
      \<longrightarrow> dp_tenant_id x = dep_tenant_id input \<and> deployment_valid (store_of w) x"
  shows "\<exists>i t t' w'. rolloutAgentDeployment input w =
      (Inr ((deployment_of input i ''active'' t)\<lparr>dp_updated_at := t'\<rparr>), w')
    \<and> store_of w' = (store_of w)\<lparr>agent_deployments :=
        map (\<lambda>x. if active_target x = Some (target_of input)
                 then x\<lparr>dp_status := ''rolled_back'', dp_updated_at := t'\<rparr> else x) (agent_deployments (store_of w))
        @ [(deployment_of input i ''active'' t)\<lparr>dp_updated_at := t'\<rparr>]\<rparr>"
proof -
  let ?s = "store_of w"
  let ?T = "agent_deployments ?s"
  define i where "i = ''agd_'' @ uuid w (Suc (ticks w))"
  have new: "\<forall>x \<in> set ?T. dp_id x \<noteq> i" using fresh by (simp add: i_def)
  obtain t n where create: "createAgentDeployment input (Some ''paused'') (tick w) =
      (Inr (deployment_of input i ''paused'' t), with_store (ticked n (tick w))
        (?s\<lparr>agent_deployments := ?T @ [deployment_of input i ''paused'' t]\<rparr>))"
    using created_paused_run [of "tick w" input i] w v new by (auto simp: i_def)
  let ?d = "deployment_of input i ''paused'' t"
  let ?s1 = "?s\<lparr>agent_deployments := ?T @ [?d]\<rparr>"
  let ?w1 = "with_store (ticked n (tick w)) ?s1"
  let ?prev = "filter (active_for ?s (dep_tenant_id input) (dep_target_type input) (dep_target_id input)) ?T"
  let ?t' = "clock w (ticks w)"
  have "active_for ?s (dep_tenant_id input) (dep_target_type input) (dep_target_id input) x
      \<longleftrightarrow> active_target x = Some (target_of input) \<and> dp_id x \<noteq> i" if "x \<in> set ?T" for x
    using that shown new by (auto simp: active_for_def active_target_def target_of_def)
  then have prev: "?prev = filter (\<lambda>x. active_target x = Some (target_of input) \<and> dp_id x \<noteq> dp_id ?d) (agent_deployments ?s1)"
    by (auto intro: filter_cong)
  have ok: "db_ok ?s1" using w(2) new
    by (auto simp: db_ok_def unique_by_append unique_opt_append active_target_def)
  obtain m where switch: "switch_over ?d (dep_target_type input) (dep_target_id input) ?prev
      ((i, dep_agent_id input, ''paused'') # map snapshot_of ?prev) ?t' ?w1 =
      (Inr (), with_store (ticked m (ticked n (tick w))) (?s\<lparr>agent_deployments :=
        map (switched i (target_of input) ?t') (?T @ [?d])\<rparr>))"
    using switch_over_run [of ?w1 ?d "target_of input" ?prev "dep_target_type input" "dep_target_id input"
        "(i, dep_agent_id input, ''paused'') # map snapshot_of ?prev" ?t'] w(1) ok v prev shown
    by (auto simp: input_valid_row target_of_def active_for_def)
  let ?new = "(deployment_of input i ''active'' t)\<lparr>dp_updated_at := ?t'\<rparr>"
  let ?old = "\<lambda>x. if active_target x = Some (target_of input)
    then x\<lparr>dp_status := ''rolled_back'', dp_updated_at := ?t'\<rparr> else x"
  let ?s2 = "?s\<lparr>agent_deployments := map ?old ?T @ [?new]\<rparr>"
  have eq: "map (switched i (target_of input) ?t') (?T @ [?d]) = map ?old ?T @ [?new]"
    using new by (auto simp: switched_def deployment_of_def)
  have sw: "switch_over ?d (dep_target_type input) (dep_target_id input) ?prev
      ((i, dep_agent_id input, ''paused'') # map snapshot_of ?prev) ?t' ?w1 =
      (Inr (), with_store (ticked m (ticked n (tick w))) ?s2)"
    using switch unfolding eq .
  have "getAgentDeployment (dep_agent_id input) i w' = (Inr (Some ?new), tick w')"
    if "quiet w'" "store_of w' = ?s2" for w'
  proof -
    have "\<forall>x \<in> set (map ?old ?T). dp_id x \<noteq> dp_id ?new" using new by auto
    from get_new_run [OF this, of ?s2 w'] that v show ?thesis by (simp add: valid_new)
  qed
  then have "rolloutAgentDeployment input w = (Inr ?new, tick (with_store (ticked m (ticked n (tick w))) ?s2))"
    using w(1) create sw
    by (simp add: rolloutAgentDeployment_def listActiveDeploymentsForTarget_def
        run_simps Let_def filter_True)
  then show ?thesis by (intro exI conjI) auto
qed

definition served_store :: store where
  "served_store = (demo_store DraftQueued JobQueued 5 1)\<lparr>
     agent_versions := [\<lparr>av_id = ''agv1'', av_agent_id = ''agt1'', av_version = ''1'', av_model = None,
       av_config_r2_key = None, av_manifest_r2_key = None, av_status = ''published'', av_created_at = 1\<rparr>],
     agent_deployments := [\<lparr>dp_id = ''agd0'', dp_tenant_id = ''t1'', dp_agent_id = ''agt1'',
       dp_agent_version_id = ''agv1'', dp_target_type = ''mailbox'', dp_target_id = ''mbx1'',
       dp_status = ''active'', dp_created_at = 1, dp_updated_at = 1\<rparr>]\<rparr>"

definition served_input :: deployment_input where
  "served_input = \<lparr>dep_tenant_id = ''t1'', dep_agent_id = ''agt1'', dep_agent_version_id = ''agv1'',
     dep_target_type = ''mailbox'', dep_target_id = ''mbx1''\<rparr>"

lemma served_store_ok: "db_ok served_store"
  by (simp add: served_store_def db_ok_def demo_defs unique_by_def unique_opt_def)

lemma served_store_simps:
  "input_valid served_store served_input"
  "\<forall>x \<in> set (agent_deployments served_store). active_target x = Some (target_of served_input)
     \<longrightarrow> dp_tenant_id x = dep_tenant_id served_input \<and> deployment_valid served_store x"
  by (simp_all add: served_store_def served_input_def input_valid_def deployment_of_def deployment_valid_def
      version_of_agent_def agent_of_tenant_def mailbox_of_tenant_def demo_defs)

theorem rollout_takes_over_witness:
  "\<exists>r w'. rolloutAgentDeployment served_input (quiet_world served_store) = (Inr r, w')
     \<and> map dp_status (agent_deployments (store_of w')) = [''rolled_back'', ''active'']"
proof -
  have fresh: "\<forall>n. \<forall>x \<in> set (agent_deployments (store_of (quiet_world served_store))).
      dp_id x \<noteq> ''agd_'' @ uuid (quiet_world served_store) n"
    by (simp add: served_store_def)
  have "active_target (hd (agent_deployments served_store)) = Some (target_of served_input)"
    by (simp add: served_store_def served_input_def active_target_def target_of_def)
  then show ?thesis
    using rollout_takes_over [OF quiet_quiet_world _ _ fresh, of served_input] served_store_ok served_store_simps
    by (fastforce simp: served_store_def)
qed

end
