(* ===== verification/MimeProperties.thy ===== *)
theory MimeProperties
  imports WorkerEnv
begin

text \<open>
  What the mail builder writes the mail parser reads: a mail without attachments that
  \<open>buildRawMimeMessage\<close> has built is parsed back to its text, its HTML and the ids that thread it.
  The lemmas follow the layers of the format: lines, headers, Base64, parts.
\<close>

section \<open>Lines\<close>

abbreviation LF :: char where "LF \<equiv> CHR 0x0A"
abbreviation CR :: char where "CR \<equiv> CHR 0x0D"

definition flat :: "string \<Rightarrow> bool" where
  "flat l \<longleftrightarrow> LF \<notin> set l"

lemma flat_simps [simp]: "flat []" "flat (c # l) \<longleftrightarrow> c \<noteq> LF \<and> flat l" "flat (a @ b) \<longleftrightarrow> flat a \<and> flat b"
  by (auto simp: flat_def)

lemma line_end_crlf [simp]: "line_end (CR # LF # s) = Some s" "line_end (LF # s) = Some s"
  by simp_all

lemma line_end_None: "c \<noteq> LF \<Longrightarrow> s = [] \<or> hd s \<noteq> LF \<Longrightarrow> line_end (c # s) = None"
  by (cases s) auto

text \<open>Inside a line that is followed by CR LF there is no line end.\<close>

lemma line_end_inside: "flat (c # l) \<Longrightarrow> line_end (c # l @ CR # s) = None"
  by (rule line_end_None) (cases l; auto)+

lemma line_end_inside_last: "flat (c # l) \<Longrightarrow> line_end (c # l) = None"
  by (rule line_end_None) (cases l; auto)+

lemma join_Cons: "ls \<noteq> [] \<Longrightarrow> js_join crlf (l # ls) = l @ CR # LF # js_join crlf ls"
  by (cases ls) auto

lemma join_append: "xs \<noteq> [] \<Longrightarrow> ys \<noteq> [] \<Longrightarrow> js_join crlf (xs @ ys) = js_join crlf xs @ CR # LF # js_join crlf ys"
proof (induction xs)
  case (Cons x xs)
  then show ?case by (cases "xs = []") (simp_all add: join_Cons)
qed simp

lemma split_line: "flat l \<Longrightarrow> split_at line_end (l @ CR # LF # s) = l # split_at line_end s"
proof (induction l)
  case Nil
  then show ?case by (simp del: line_end.simps)
next
  case (Cons c l)
  then show ?case using line_end_inside [of c l "LF # s"] by (simp del: line_end.simps)
qed

lemma split_last_line: "flat l \<Longrightarrow> split_at line_end l = [l]"
proof (induction l)
  case (Cons c l)
  then show ?case using line_end_inside_last [of c l] by (simp del: line_end.simps)
qed simp

lemma split_lines: "ls \<noteq> [] \<Longrightarrow> \<forall>l \<in> set ls. flat l \<Longrightarrow> split_at line_end (js_join crlf ls) = ls"
proof (induction ls)
  case (Cons l ls)
  then show ?case by (cases "ls = []") (auto simp: join_Cons split_line split_last_line)
qed simp

text \<open>No line begins with a blank: nothing is unfolded.\<close>

definition unblank :: "string \<Rightarrow> bool" where
  "unblank l \<longleftrightarrow> l = [] \<or> (hd l \<noteq> CHR '' '' \<and> hd l \<noteq> CHR 0x09)"

lemma folding_None: "line_end s = None \<or> (\<exists>rest. line_end s = Some rest \<and> unblank rest) \<Longrightarrow> folding s = None"
  by (auto simp: folding_def unblank_def Let_def takeWhile_eq_Nil_iff split: option.splits)

lemma unfold_line:
  assumes "flat l" "unblank s"
  shows "replace_all folding (l @ CR # LF # s) = l @ CR # LF # replace_all folding s"
  using assms(1)
proof (induction l)
  case Nil
  have "folding (CR # LF # s) = None" "folding (LF # s) = None"
    using assms(2) by (auto intro!: folding_None simp del: line_end.simps)
  then show ?case by simp
next
  case (Cons c l)
  have "folding (c # l @ CR # LF # s) = None"
    using line_end_inside [OF Cons.prems] by (auto intro: folding_None simp del: line_end.simps)
  with Cons show ?case by simp
qed

lemma unfold_last_line: "flat l \<Longrightarrow> replace_all folding l = l"
proof (induction l)
  case (Cons c l)
  have "folding (c # l) = None"
    using line_end_inside_last [OF Cons.prems] by (auto intro: folding_None simp del: line_end.simps)
  with Cons show ?case by simp
qed simp

lemma unblank_join: "\<forall>l \<in> set ls. unblank l \<Longrightarrow> unblank (js_join crlf ls)"
proof (cases ls)
  case (Cons l ls')
  assume "\<forall>l \<in> set ls. unblank l"
  with Cons show ?thesis
    by (cases "ls' = []") (auto simp: join_Cons unblank_def hd_append)
qed (simp add: unblank_def)

lemma unfold_lines:
  "\<forall>l \<in> set ls. flat l \<and> unblank l \<Longrightarrow> replace_all folding (js_join crlf ls) = js_join crlf ls"
proof (induction ls)
  case (Cons l ls)
  then show ?case
    using unblank_join [of ls] by (cases "ls = []") (auto simp: join_Cons unfold_line unfold_last_line)
qed simp

section \<open>The blank line\<close>

definition unended :: "string \<Rightarrow> bool" where
  "unended l \<longleftrightarrow> l \<noteq> [] \<and> hd l \<noteq> CR \<and> hd l \<noteq> LF"

lemma unended_line_end: "unended s \<Longrightarrow> line_end s = None"
  by (cases s) (auto simp: unended_def)

lemma search_line:
  assumes "flat l" "line_end s = None"
  shows "search_index blank_line (l @ CR # LF # s) = map_option (\<lambda>k. length l + 2 + k) (search_index blank_line s)"
  using assms(1)
proof (induction l)
  case Nil
  have "\<not> blank_line (CR # LF # s)" "\<not> blank_line (LF # s)"
    using assms(2) by (simp_all add: blank_line_def del: line_end.simps)
  then show ?case by (cases "search_index blank_line s") (simp_all del: line_end.simps)
next
  case (Cons c l)
  have "\<not> blank_line (c # l @ CR # LF # s)"
    using line_end_inside [OF Cons.prems] by (simp add: blank_line_def del: line_end.simps)
  with Cons show ?case by (cases "search_index blank_line s") (simp_all del: line_end.simps)
qed

lemma search_end:
  assumes "flat l"
  shows "search_index blank_line (l @ CR # LF # CR # LF # s) = Some (length l)"
  using assms
proof (induction l)
  case Nil
  then show ?case by (simp add: blank_line_def)
next
  case (Cons c l)
  have "\<not> blank_line (c # l @ CR # LF # CR # LF # s)"
    using line_end_inside [OF Cons.prems] by (simp add: blank_line_def del: line_end.simps)
  with Cons show ?case by (simp del: line_end.simps)
qed

lemma search_header:
  assumes "hs \<noteq> []" "\<forall>l \<in> set hs. flat l \<and> unended l"
  shows "search_index blank_line (js_join crlf hs @ CR # LF # CR # LF # s) = Some (length (js_join crlf hs))"
  using assms
proof (induction hs)
  case (Cons l hs)
  show ?case
  proof (cases hs)
    case Nil
    with Cons.prems show ?thesis by (simp add: search_end)
  next
    case (Cons l' hs')
    have "unended (js_join crlf hs)" using Cons.prems(2) Cons
      by (cases "hs' = []") (auto simp: join_Cons unended_def)
    then have "line_end (js_join crlf hs @ CR # LF # CR # LF # s) = None"
      using unended_line_end [of "js_join crlf hs @ CR # LF # CR # LF # s"] by (auto simp: unended_def)
    with Cons.IH Cons.prems Cons show ?thesis
      by (simp add: join_Cons search_line del: line_end.simps)
  qed
qed simp

lemma no_bare_line_feeds:
  assumes "\<forall>l \<in> set ls. flat l"
  shows "search_index (\<lambda>s. js_starts_with s [LF, LF]) (js_join crlf ls) = None"
proof -
  have inside: "search_index (\<lambda>s. js_starts_with s [LF, LF]) (l @ s) = None
      \<longleftrightarrow> search_index (\<lambda>s. js_starts_with s [LF, LF]) s = None" if "flat l" for l s
    using that by (induction l) (auto simp: js_starts_with_def)
  have first: "js_join crlf ls = [] \<or> hd (js_join crlf ls) \<noteq> LF" if "\<forall>l \<in> set ls. flat l" for ls
  proof (cases ls)
    case (Cons l ls')
    with that show ?thesis by (cases l; cases "ls' = []") (auto simp: join_Cons)
  qed simp
  show ?thesis using assms
  proof (induction ls)
    case (Cons l ls)
    show ?case
    proof (cases "ls = []")
      case True
      with Cons inside [of l "[]"] show ?thesis by (simp add: js_starts_with_def)
    next
      case False
      have "\<not> js_starts_with (LF # js_join crlf ls) [LF, LF]"
        using first [of ls] Cons.prems by (cases "js_join crlf ls") (auto simp: js_starts_with_def)
      with Cons False inside [of l "CR # LF # js_join crlf ls"] show ?thesis
        by (simp add: join_Cons) (simp add: js_starts_with_def)
    qed
  qed (simp add: js_starts_with_def)
qed

text \<open>The layers together: header lines, the empty line, and the lines of the body.\<close>

lemma split_built:
  assumes hs: "hs \<noteq> []" "\<forall>l \<in> set hs. flat l \<and> unended l" and bs: "bs \<noteq> []" "\<forall>l \<in> set bs. flat l"
  shows "splitHeaderAndBody (js_join crlf (hs @ [] # bs)) = (parseHeadersBlock (js_join crlf hs), js_join crlf bs)"
proof -
  have raw: "js_join crlf (hs @ [] # bs) = js_join crlf hs @ CR # LF # CR # LF # js_join crlf bs"
    using hs(1) bs(1) by (simp add: join_append join_Cons)
  have "search_index (\<lambda>s. js_starts_with s [LF, LF]) (js_join crlf (hs @ [] # bs)) = None"
    by (rule no_bare_line_feeds) (use hs bs in auto)
  then show ?thesis
    unfolding splitHeaderAndBody_def using search_header [OF hs, of "js_join crlf bs"]
    by (simp add: raw numeral_eq_Suc)
qed

section \<open>Headers\<close>

definition lowered :: "string \<times> string \<Rightarrow> string \<times> string" where
  "lowered h = (js_lower (js_trim (fst h)), js_trim (snd h))"

lemma map_of_put_header:
  assumes "k \<noteq> ''__proto__''"
  shows "map_of (put_header key value hs) k = (if k = key then Some value else map_of hs k)"
proof -
  have replace: "map_of (map (\<lambda>(k, v). (k, if k = key then value else v)) hs) k
      = (if k = key \<and> key \<in> fst ` set hs then Some value else map_of hs k)"
  proof (cases "k = key")
    case True
    have "map_of (map (\<lambda>(k, v). (k, if k = key then value else v)) hs) key
        = (if key \<in> fst ` set hs then Some value else None)"
      by (induction hs) auto
    moreover have "key \<notin> fst ` set hs \<Longrightarrow> map_of hs key = None" by (simp add: map_of_eq_None_iff)
    ultimately show ?thesis using True by (cases "key \<in> fst ` set hs") simp_all
  next
    case False
    then show ?thesis by (induction hs) auto
  qed
  have append: "map_of (hs @ [(key, value)]) k = (if k = key then Some value else map_of hs k)"
    if "key \<notin> fst ` set hs"
  proof -
    from that have "map_of hs key = None" by (simp add: map_of_eq_None_iff)
    then show ?thesis by (cases "k = key") (simp_all add: map_add_def split: option.split)
  qed
  show ?thesis
  proof (cases "key = ''__proto__''")
    case True
    then have "k \<noteq> key" using assms by blast
    with True show ?thesis unfolding put_header_def by (simp only: simp_thms if_True if_False)
  next
    case False
    then have put: "put_header key value hs = (if key \<in> fst ` set hs
        then map (\<lambda>(k, v). (k, if k = key then value else v)) hs else hs @ [(key, value)])"
      unfolding put_header_def by (simp only: if_False)
    show ?thesis
    proof (cases "key \<in> fst ` set hs")
      case True
      with replace show ?thesis unfolding put by (simp only: if_True simp_thms)
    next
      case False
      from append [OF this] this show ?thesis unfolding put by (simp only: if_False)
    qed
  qed
qed

lemma colon_index:
  "CHR '':'' \<notin> set n \<Longrightarrow> search_index (\<lambda>s. js_starts_with s '':'') (n @ CHR '':'' # s) = Some (length n)"
  by (induction n) (auto simp: js_starts_with_def)

lemma js_trim_blank: "js_trim (CHR '' '' # s) = js_trim s"
  by (simp add: js_trim_def is_js_space_def)

lemma header_line_text:
  assumes "CHR '':'' \<notin> set (fst h)"
  shows "header_line hs (header_text h) = put_header (fst (lowered h)) (snd (lowered h)) hs"
  using colon_index [OF assms, of "CHR '' '' # snd h"]
  by (simp add: header_line_def header_text_def lowered_def js_trim_blank)

lemma parsed_headers:
  assumes "\<forall>h \<in> set kvs. CHR '':'' \<notin> set (fst h) \<and> flat (header_text h) \<and> unblank (header_text h)"
    and "kvs \<noteq> []" "k \<noteq> ''__proto__''"
  shows "map_of (parseHeadersBlock (js_join crlf (map header_text kvs))) k = map_of (rev (map lowered kvs)) k"
proof -
  have "map_of (foldl header_line hs (map header_text kvs)) k
      = (case map_of (rev (map lowered kvs)) k of Some v \<Rightarrow> Some v | None \<Rightarrow> map_of hs k)" for hs
    using assms(1)
  proof (induction kvs arbitrary: hs)
    case (Cons h kvs)
    then show ?case
      using assms(3) by (auto simp: header_line_text map_of_put_header map_add_def split: option.split prod.split)
  qed simp
  from this [of "[]"] assms(1,2) show ?thesis
    by (simp add: parseHeadersBlock_def unfold_lines split_lines split: option.split)
qed

section \<open>Base64\<close>

function chunks :: "string \<Rightarrow> string list" where
  "chunks s = (if s = [] then [] else take 76 s # chunks (drop 76 s))"
  by pat_completeness auto

termination
  by (relation "measure length") auto

declare chunks.simps [simp del]

lemma chunks_simps: "chunks [] = []" "s \<noteq> [] \<Longrightarrow> chunks s = take 76 s # chunks (drop 76 s)"
  by (simp_all add: chunks.simps [of s] chunks.simps [of "[]"])

lemma concat_chunks: "concat (chunks s) = s"
  by (induction s rule: chunks.induct) (subst chunks.simps, simp)

lemma chunks_subset: "l \<in> set (chunks s) \<Longrightarrow> set l \<subseteq> set s"
  using concat_chunks [of s] by (metis Union_upper UN_upper set_concat)

lemma chunks_not_Nil: "s \<noteq> [] \<Longrightarrow> chunks s \<noteq> []" "l \<in> set (chunks s) \<Longrightarrow> l \<noteq> []"
proof -
  show "s \<noteq> [] \<Longrightarrow> chunks s \<noteq> []" by (simp add: chunks_simps)
  show "l \<in> set (chunks s) \<Longrightarrow> l \<noteq> []"
  proof (induction s rule: chunks.induct)
    case (1 s)
    then show ?case by (cases "s = []") (auto simp: chunks_simps)
  qed
qed

lemma fold_chunks:
  assumes "\<forall>c \<in> set s. \<not> is_js_space c"
  shows "replace_all encoded_line s = concat (map (\<lambda>l. l @ crlf) (chunks s))"
  using assms
proof (induction s rule: chunks.induct)
  case (1 s)
  show ?case
  proof (cases s)
    case Nil
    then show ?thesis by (simp add: chunks_simps)
  next
    case (Cons c s')
    have "x \<noteq> LF \<and> x \<noteq> CR" if "x \<in> set s" for x
      using 1(2) that by (auto simp: is_js_space_def)
    then have tw: "takeWhile (\<lambda>c. c \<noteq> LF \<and> c \<noteq> CR) (take 76 s) = take 76 s"
      using in_set_takeD [of _ 76 s] by (simp add: takeWhile_eq_all_conv)
    have ne: "take 76 s \<noteq> []" using Cons by simp
    have rest: "drop (length (take 76 s)) s = drop 76 s" by (simp add: min_def)
    have "encoded_line s = Some (take 76 s @ crlf, drop 76 s)"
      unfolding encoded_line_def Let_def tw rest using ne by (simp only: if_False)
    with Cons have "replace_all encoded_line s = take 76 s @ crlf @ replace_all encoded_line (drop 76 s)"
      by (simp add: numeral_eq_Suc)
    with 1 Cons show ?thesis by (simp add: chunks_simps in_set_dropD)
  qed
qed

lemma join_concat: "ls \<noteq> [] \<Longrightarrow> concat (map (\<lambda>l. l @ crlf) ls) = js_join crlf ls @ crlf"
proof (induction ls)
  case (Cons l ls)
  then show ?case by (cases "ls = []") (auto simp: join_Cons)
qed simp

lemma foldBase64_chunks:
  assumes "\<forall>c \<in> set s. \<not> is_js_space c" "s \<noteq> []"
  shows "foldBase64 s = js_join crlf (chunks s)"
proof -
  have ne: "chunks s \<noteq> []" using assms(2) by (rule chunks_not_Nil)
  have ends: "ls \<noteq> [] \<Longrightarrow> \<forall>l \<in> set ls. l \<noteq> [] \<Longrightarrow> js_join crlf ls \<noteq> [] \<and> last (js_join crlf ls) = last (last ls)" for ls
    by (induction ls) (auto simp: join_Cons)
  have "last (js_join crlf (chunks s)) \<in> set s"
    using ends [OF ne] chunks_not_Nil(2) [of _ s] chunks_subset [of "last (chunks s)" s] ne
      last_in_set [OF ne] last_in_set [of "last (chunks s)"] by auto
  then have "\<not> is_js_space (last (js_join crlf (chunks s)))" and "js_join crlf (chunks s) \<noteq> []"
    using assms(1) ends [OF ne] chunks_not_Nil(2) [of _ s] by auto
  then have "dropWhile is_js_space (rev (js_join crlf (chunks s))) = rev (js_join crlf (chunks s))"
    by (metis dropWhile_eq_self_iff hd_rev)
  then show ?thesis
    by (simp add: foldBase64_def fold_chunks [OF assms(1)] join_concat [OF ne] is_js_space_def)
qed

lemma unfold_base64: "\<forall>c \<in> set s. \<not> is_js_space c \<Longrightarrow> filter (\<lambda>c. \<not> is_js_space c) (js_join crlf (chunks s)) = s"
proof -
  assume s: "\<forall>c \<in> set s. \<not> is_js_space c"
  have "filter (\<lambda>c. \<not> is_js_space c) (js_join crlf ls) = concat ls"
    if "\<forall>l \<in> set ls. \<forall>c \<in> set l. \<not> is_js_space c" for ls
    using that
  proof (induction ls)
    case (Cons l ls)
    then show ?case by (cases "ls = []") (auto simp: join_Cons filter_id_conv is_js_space_def)
  qed simp
  then show ?thesis using s chunks_subset [of _ s] concat_chunks [of s] by (metis subsetD)
qed

lemma btoa_plain: "c \<in> set (btoa s) \<Longrightarrow> \<not> is_js_space c \<and> c \<noteq> CHR ''-''"
proof -
  have no: "\<not> is_js_space (sextet_char n)" if "n < 64" for n
    using sextet_code [OF that] that unfolding is_js_space_def by (simp, arith)
  assume "c \<in> set (btoa s)"
  then consider n where "n < 64" "c = sextet_char n" | "c = CHR ''=''"
    using b64_body_chars [of c s] by (auto simp: btoa_def Let_def)
  then show ?thesis
    using no sextet_char_plain(3) by cases (auto simp: is_js_space_def)
qed

section \<open>The headers of a built mail\<close>

definition name_ok :: "string \<Rightarrow> bool" where
  "name_ok n \<longleftrightarrow> n \<noteq> [] \<and> hd n \<notin> {CR, LF, CHR '' '', CHR 0x09} \<and> CHR '':'' \<notin> set n \<and> flat n"

definition header_ok :: "string \<times> string \<Rightarrow> bool" where
  "header_ok h \<longleftrightarrow> name_ok (fst h) \<and> flat (snd h)"

lemma header_ok_line:
  "header_ok h \<Longrightarrow> flat (header_text h) \<and> unblank (header_text h) \<and> unended (header_text h)"
  by (auto simp: header_ok_def name_ok_def header_text_def unblank_def unended_def)

lemma flat_trim: "flat s \<Longrightarrow> flat (js_trim s)"
  unfolding flat_def js_trim_def by (auto dest!: set_dropWhileD)

lemma flat_normalized [simp]: "flat (normalizeHeaderValue v)"
proof -
  have "flat (replace_all line_break s)" for s
  proof (induction line_break s rule: replace_all.induct)
    case (2 c s)
    show ?case
    proof (cases "line_break (c # s)")
      case None
      then have "c \<noteq> LF" by (auto simp: line_break_def)
      with None 2(1) show ?thesis by simp
    next
      case (Some p)
      then obtain rest where p: "p = ('' '', rest)" by (auto simp: line_break_def)
      from 2(2) [OF Some [unfolded p] refl] show ?thesis
        unfolding replace_all.simps(2) Some p by simp
    qed
  qed simp
  then show ?thesis by (simp add: normalizeHeaderValue_def flat_trim)
qed

lemma flat_join: "flat sep \<Longrightarrow> \<forall>x \<in> set xs. flat x \<Longrightarrow> flat (js_join sep xs)"
  by (induction sep xs rule: js_join.induct) auto

lemma header_ok_pair: "header_ok (n, v) \<longleftrightarrow> name_ok n \<and> flat v"
  by (simp add: header_ok_def)

lemma optional_headers_ok:
  "name_ok n \<Longrightarrow> \<forall>h \<in> set (header_if n v). header_ok h"
  "name_ok n \<Longrightarrow> flat sep \<Longrightarrow> \<forall>h \<in> set (header_list n sep vs). header_ok h"
  by (simp_all add: header_if_def header_list_def header_ok_def flat_join)

lemma names_ok:
  "name_ok ''From''" "name_ok ''To''" "name_ok ''Subject''" "name_ok ''MIME-Version''" "name_ok ''Date''"
  "name_ok ''Message-ID''" "name_ok ''Cc''" "name_ok ''Bcc''" "name_ok ''Reply-To''" "name_ok ''In-Reply-To''"
  "name_ok ''References''" "name_ok ''Content-Type''" "name_ok ''Content-Transfer-Encoding''"
  by (simp_all add: name_ok_def)

lemma mime_headers_ok: "\<forall>h \<in> set (mime_headers input). header_ok h"
  unfolding mime_headers_def
  by (simp add: ball_Un names_ok header_ok_pair flat_join)
     (intro conjI optional_headers_ok; simp add: names_ok)

text \<open>The value that a lookup finds after the headers have been read in order.\<close>

definition found :: "string \<Rightarrow> (string \<times> string) list \<Rightarrow> string option" where
  "found k kvs = map_of (rev (map lowered kvs)) k"

lemma found_simps [simp]:
  "found k [] = None"
  "found k ((n, v) # t) = (case found k t of Some v' \<Rightarrow> Some v'
     | None \<Rightarrow> if k = js_lower (js_trim n) then Some (js_trim v) else None)"
  unfolding found_def by (simp_all add: lowered_def map_add_def split: option.split)

lemma found_append: "found k (a @ b) = (case found k b of Some v \<Rightarrow> Some v | None \<Rightarrow> found k a)"
  unfolding found_def by (simp add: map_add_def)

lemma normalized_trimmed [simp]: "js_trim (normalizeHeaderValue v) = normalizeHeaderValue v"
  by (simp add: normalizeHeaderValue_def)

lemma found_if [simp]:
  "found k (header_if n v) =
     (if k = js_lower (js_trim n) \<and> truthy v then Some (normalizeHeaderValue (the v)) else None)"
  by (simp add: header_if_def)

lemma found_list: "k \<noteq> js_lower (js_trim n) \<Longrightarrow> found k (header_list n sep vs) = None"
  by (simp add: header_list_def)

lemma lower_names:
  "js_lower (js_trim ''From'') = ''from''" "js_lower (js_trim ''To'') = ''to''"
  "js_lower (js_trim ''Subject'') = ''subject''" "js_lower (js_trim ''MIME-Version'') = ''mime-version''"
  "js_lower (js_trim ''Date'') = ''date''" "js_lower (js_trim ''Message-ID'') = ''message-id''"
  "js_lower (js_trim ''Cc'') = ''cc''" "js_lower (js_trim ''Bcc'') = ''bcc''"
  "js_lower (js_trim ''Reply-To'') = ''reply-to''" "js_lower (js_trim ''In-Reply-To'') = ''in-reply-to''"
  "js_lower (js_trim ''References'') = ''references''" "js_lower (js_trim ''Content-Type'') = ''content-type''"
  "js_lower (js_trim ''Content-Transfer-Encoding'') = ''content-transfer-encoding''"
  by code_simp+

lemma found_mime_headers:
  "found ''content-type'' (mime_headers input) = None"
  "found ''content-transfer-encoding'' (mime_headers input) = None"
  "found ''content-disposition'' (mime_headers input) = None"
  "found ''message-id'' (mime_headers input) =
     (if truthy (mime_message_id input) then Some (normalizeHeaderValue (the (mime_message_id input))) else None)"
  "found ''in-reply-to'' (mime_headers input) =
     (if truthy (mime_in_reply_to input) then Some (normalizeHeaderValue (the (mime_in_reply_to input))) else None)"
  unfolding mime_headers_def
  by (simp_all add: found_append found_list lower_names)

section \<open>A part\<close>

text \<open>A platform that decodes what it has encoded.\<close>

definition utf8_decoders :: "decoders \<Rightarrow> bool" where
  "utf8_decoders ds \<longleftrightarrow> (\<forall>s. decode_utf8 ds (utf8 s) = s) \<and> decoder_of ds ''utf-8'' = Some (decode_utf8 ds)"

definition text_type :: "string \<Rightarrow> string" where
  "text_type subtype = ''text/'' @ subtype @ ''; charset='' @ quoted ''UTF-8''"

lemma text_types:
  "js_starts_with (js_lower (text_type ''plain'')) ''multipart/'' = False"
  "js_starts_with (js_lower (text_type ''html'')) ''multipart/'' = False"
  "extractCharset (text_type ''plain'') = Some ''UTF-8''" "extractCharset (text_type ''html'') = Some ''UTF-8''"
  "extractFilename None (Some (text_type ''plain'')) = None"
  "extractFilename None (Some (text_type ''html'')) = None"
  "js_includes (js_lower (text_type ''plain'')) ''text/html'' = False"
  "js_includes (js_lower (text_type ''html'')) ''text/html'' = True"
  "normalizeCharsetLabel (Some ''UTF-8'') = Some ''utf-8''" "js_lower ''base64'' = ''base64''"
  "js_includes (js_lower []) ''attachment'' = False"
  by code_simp+

definition b64 :: "string \<Rightarrow> string" where
  "b64 t = btoa (utf8 t)"

definition set_content :: "string \<Rightarrow> string \<Rightarrow> mail_content \<Rightarrow> mail_content" where
  "set_content subtype t acc = (if subtype = ''html'' then acc\<lparr>mc_html := Some t\<rparr> else acc\<lparr>mc_text := Some t\<rparr>)"

lemma collect_text:
  assumes "utf8_decoders ds" "subtype \<in> {''plain'', ''html''}"
    and "map_of headers ''content-type'' = Some (text_type subtype)"
      "map_of headers ''content-transfer-encoding'' = Some ''base64''"
      "map_of headers ''content-disposition'' = None"
  shows "collectContent ds (Suc depth) headers (js_join crlf (chunks (b64 t))) acc = Some (Inr (set_content subtype t acc))"
proof -
  have "filter (\<lambda>c. \<not> is_js_space c) (js_join crlf (chunks (b64 t))) = b64 t"
    by (rule unfold_base64) (auto simp: b64_def dest: btoa_plain)
  then have "decodeBody (js_join crlf (chunks (b64 t))) (Some ''base64'') = Inr (utf8 t)"
    by (simp add: decodeBody_def text_types b64_def atob_btoa)
  moreover have "decodeText ds (utf8 t) (text_type subtype) = t"
    using assms(1,2) by (auto simp: decodeText_def text_types utf8_decoders_def)
  ultimately show ?thesis
    using assms(2-) by (auto simp: collect_leaf_def text_types Let_def set_content_def)
qed

lemma b64_not_Nil: "t \<noteq> [] \<Longrightarrow> b64 t \<noteq> []"
proof
  assume "t \<noteq> []" "b64 t = []"
  moreover have "atob [] = Some []" by code_simp
  ultimately have "utf8 t = []" using atob_btoa [of "utf8 t"] by (simp add: b64_def)
  with \<open>t \<noteq> []\<close> show False by (cases t) (auto simp: utf8_def utf8_char_def Let_def split: if_splits)
qed

definition part_headers :: "string \<Rightarrow> (string \<times> string) list" where
  "part_headers subtype =
     [(''Content-Type'', text_type subtype), (''Content-Transfer-Encoding'', ''base64'')]"

definition part_lines :: "string \<Rightarrow> string \<Rightarrow> string list" where
  "part_lines subtype t = map header_text (part_headers subtype) @ [] # chunks (b64 t)"

lemma chunks_b64: "t \<noteq> [] \<Longrightarrow> chunks (b64 t) \<noteq> []" "l \<in> set (chunks (b64 t)) \<Longrightarrow> flat l \<and> CHR ''-'' \<notin> set l"
proof -
  show "t \<noteq> [] \<Longrightarrow> chunks (b64 t) \<noteq> []" by (intro chunks_not_Nil(1) b64_not_Nil)
  assume "l \<in> set (chunks (b64 t))"
  then have "set l \<subseteq> set (btoa (utf8 t))" using chunks_subset by (simp add: b64_def)
  moreover have "is_js_space LF" by (simp add: is_js_space_def)
  ultimately show "flat l \<and> CHR ''-'' \<notin> set l" using btoa_plain unfolding flat_def by blast
qed

lemma join_flatten:
  "zs \<noteq> [] \<Longrightarrow> js_join crlf (ys @ js_join crlf zs # ws) = js_join crlf (ys @ zs @ ws)"
  by (cases "ys = []"; cases "ws = []") (simp_all add: join_append join_Cons)

lemma body_part_lines:
  assumes "t \<noteq> []"
  shows "js_join crlf (xs @ body_part subtype t @ ys) = js_join crlf (xs @ part_lines subtype t @ ys)"
proof -
  let ?h = "map header_text (part_headers subtype)"
  have "foldBase64 (b64 t) = js_join crlf (chunks (b64 t))"
    by (rule foldBase64_chunks) (auto simp: b64_def [symmetric] b64_not_Nil [OF assms] dest: btoa_plain [of _ "utf8 t", folded b64_def])
  then have eq: "xs @ body_part subtype t @ ys = (xs @ ?h @ [[]]) @ js_join crlf (chunks (b64 t)) # ys"
    by (simp add: body_part_def encoded_part_def part_headers_def text_type_def textToBase64_def toBase64_def b64_def)
  show ?thesis unfolding eq join_flatten [OF chunks_b64(1) [OF assms]] by (simp add: part_lines_def)
qed

lemma part_headers_ok: "subtype \<in> {''plain'', ''html''} \<Longrightarrow> \<forall>h \<in> set (part_headers subtype). header_ok h"
  by (auto simp: part_headers_def header_ok_pair names_ok text_type_def quoted_def)

lemma found_part_headers:
  "found ''content-type'' (part_headers subtype) = Some (js_trim (text_type subtype))"
  "found ''content-transfer-encoding'' (part_headers subtype) = Some ''base64''"
  "found ''content-disposition'' (part_headers subtype) = None"
  "found ''message-id'' (part_headers subtype) = None" "found ''in-reply-to'' (part_headers subtype) = None"
  by (simp_all add: part_headers_def lower_names) code_simp

lemma text_type_trim: "subtype \<in> {''plain'', ''html''} \<Longrightarrow> js_trim (text_type subtype) = text_type subtype"
proof -
  have "js_trim (text_type ''plain'') = text_type ''plain''" "js_trim (text_type ''html'') = text_type ''html''"
    by code_simp+
  then show "subtype \<in> {''plain'', ''html''} \<Longrightarrow> ?thesis" by auto
qed

text \<open>A list of headers, the headers of the part, and the part.\<close>

lemma parse_part:
  assumes "\<forall>h \<in> set kvs. header_ok h" "t \<noteq> []" "subtype \<in> {''plain'', ''html''}"
  shows "\<exists>hs. splitHeaderAndBody (js_join crlf (map header_text kvs @ part_lines subtype t))
      = (hs, js_join crlf (chunks (b64 t)))
    \<and> (\<forall>k. k \<noteq> ''__proto__'' \<longrightarrow> map_of hs k = found k (kvs @ part_headers subtype))"
proof -
  have ok: "header_ok h" if "h \<in> set (kvs @ part_headers subtype)" for h
    using that assms(1) part_headers_ok [OF assms(3)] by auto
  then have lines: "flat (header_text h) \<and> unblank (header_text h) \<and> unended (header_text h)"
    if "h \<in> set (kvs @ part_headers subtype)" for h
    using that header_ok_line by blast
  have ne: "kvs @ part_headers subtype \<noteq> []" by (simp add: part_headers_def)
  have "splitHeaderAndBody (js_join crlf (map header_text (kvs @ part_headers subtype) @ [] # chunks (b64 t)))
      = (parseHeadersBlock (js_join crlf (map header_text (kvs @ part_headers subtype))), js_join crlf (chunks (b64 t)))"
    by (rule split_built) (use ne lines chunks_b64 assms(2) in auto)
  moreover have "map_of (parseHeadersBlock (js_join crlf (map header_text (kvs @ part_headers subtype)))) k
      = found k (kvs @ part_headers subtype)" if "k \<noteq> ''__proto__''" for k
    unfolding found_def by (rule parsed_headers) (use ok lines ne that in \<open>auto simp: header_ok_def name_ok_def\<close>)
  ultimately show ?thesis by (simp add: part_lines_def)
qed

section \<open>Multiparts\<close>

fun plain :: "string \<Rightarrow> bool" where
  "plain [] \<longleftrightarrow> True"
| "plain (c # s) \<longleftrightarrow> (c \<noteq> CHR ''-'' \<or> (s \<noteq> [] \<and> hd s \<noteq> CHR ''-'')) \<and> plain s"

lemma plain_append: "plain a \<Longrightarrow> plain b \<Longrightarrow> plain (a @ b)"
  by (induction a) auto

lemma plain_no_hyphen: "CHR ''-'' \<notin> set s \<Longrightarrow> plain s"
  by (induction s) auto

lemma plain_join: "\<forall>l \<in> set ls. plain l \<Longrightarrow> plain (js_join crlf ls)"
proof (induction ls)
  case (Cons l ls)
  then show ?case by (cases "ls = []") (simp_all add: join_Cons plain_append)
qed simp

lemma delimited_start: "delimited d (d @ s) = Some s"
  by (simp add: delimited_def js_starts_with_def)

lemma split_delimiter: "d \<noteq> [] \<Longrightarrow> split_at (delimited d) (d @ s) = [] # split_at (delimited d) s"
  using delimited_start [of d s] by (cases d) simp_all

lemma split_plain:
  assumes "plain q" "d = ''--'' @ b"
  shows "split_at (delimited d) (q @ d @ s) = q # split_at (delimited d) s"
  using assms(1)
proof (induction q)
  case Nil
  then show ?case using split_delimiter [of d s] assms(2) by simp
next
  case (Cons c q)
  have "\<not> js_starts_with (c # q @ d @ s) d"
    using Cons.prems assms(2) by (cases q) (auto simp: js_starts_with_def)
  then have "delimited d (c # q @ d @ s) = None" by (simp add: delimited_def)
  with Cons show ?case by simp
qed

lemma multipart_text:
  assumes "d = ''--'' @ b" "b \<noteq> []" "\<forall>P \<in> set Ps. P \<noteq> [] \<and> plain (js_join crlf P)"
  shows "split_at (delimited d) (js_join crlf (concat (map (Cons d) Ps) @ [d @ ''--'']))
    = [] # map (\<lambda>P. crlf @ js_join crlf P @ crlf) Ps @ [''--'']"
  using assms(3)
proof (induction Ps)
  case Nil
  have "split_at (delimited d) ''--'' = [''--'']"
    using assms(1,2) by (cases b) (auto simp: delimited_def js_starts_with_def)
  then show ?case using split_delimiter [of d "''--''"] assms(1) by simp
next
  case (Cons P Ps)
  let ?rest = "concat (map (Cons d) Ps) @ [d @ ''--'']"
  have P: "P \<noteq> []" "plain (js_join crlf P)" using Cons.prems by auto
  obtain r where r: "js_join crlf ?rest = d @ r"
    by (cases Ps) (auto simp: join_Cons)
  have d: "d \<noteq> []" using assms(1) by simp
  have IH: "split_at (delimited d) r = map (\<lambda>P. crlf @ js_join crlf P @ crlf) Ps @ [''--'']"
    using Cons.IH Cons.prems split_delimiter [OF d, of r] by (simp add: r)
  have whole: "js_join crlf (concat (map (Cons d) (P # Ps)) @ [d @ ''--''])
      = d @ (crlf @ js_join crlf P @ crlf) @ d @ r"
    using P(1) r by (simp add: join_Cons join_append)
  have "plain (crlf @ js_join crlf P @ crlf)" using P(2) by (intro plain_append) simp_all
  from split_plain [OF this assms(1), of r] show ?case
    unfolding whole split_delimiter [OF d] by (simp add: IH)
qed

lemma parse_parts:
  assumes "b \<noteq> []" "\<forall>P \<in> set Ps. P \<noteq> [] \<and> plain (js_join crlf P) \<and> js_join crlf P \<noteq> [] \<and> hd (js_join crlf P) \<noteq> CHR ''-''"
  shows "parseMultipart (js_join crlf (concat (map (Cons (''--'' @ b)) Ps) @ [''--'' @ b @ ''--''])) b
    = map (\<lambda>P. splitHeaderAndBody (js_join crlf P)) Ps"
proof -
  have trailing: "drop_final_line_end (s @ crlf) = s" for s
    by (simp add: drop_final_line_end_def js_ends_with_def)
  have "drop_line_end (crlf @ s) = s" "drop_line_end ''--'' = ''--''" for s
    by (simp_all add: drop_line_end_def)
  moreover have "split_at (delimited (''--'' @ b)) (js_join crlf (concat (map (Cons (''--'' @ b)) Ps) @ [''--'' @ b @ ''--'']))
      = [] # map (\<lambda>P. crlf @ js_join crlf P @ crlf) Ps @ [''--'']"
    using multipart_text [OF refl assms(1), of Ps] assms(2) by simp
  moreover have "filter (\<lambda>part. part \<noteq> [] \<and> \<not> js_starts_with part ''--'') (map (\<lambda>P. js_join crlf P @ crlf) Ps @ [''--''])
      = map (\<lambda>P. js_join crlf P @ crlf) Ps"
    using assms(2) by (simp add: filter_id_conv js_starts_with_def) (force simp: neq_Nil_conv)
  ultimately show ?thesis by (simp add: parseMultipart_def comp_def trailing)
qed

section \<open>The round trip\<close>

text \<open>A random id consists of letters and digits.\<close>

definition plain_id :: "string \<Rightarrow> bool" where
  "plain_id i \<longleftrightarrow> (\<forall>c \<in> set i. is_word_char c)"

lemma word_char_plain:
  "is_word_char c \<Longrightarrow> c \<noteq> CHR 0x22 \<and> c \<noteq> CHR '';'' \<and> c \<noteq> LF \<and> \<not> is_js_space c"
  by (auto simp: is_word_char_def is_js_space_def Let_def)

definition alternative_type :: "string \<Rightarrow> string" where
  "alternative_type b = ''multipart/alternative; boundary='' @ quoted b"

lemma js_trim_id: "s \<noteq> [] \<Longrightarrow> \<not> is_js_space (hd s) \<Longrightarrow> \<not> is_js_space (last s) \<Longrightarrow> js_trim s = s"
  unfolding js_trim_def by (metis dropWhile_eq_self_iff hd_rev rev_rev_ident rev_is_Nil_conv)

lemma alternative_type_simps:
  "js_trim (alternative_type b) = alternative_type b"
  "js_starts_with (js_lower (alternative_type b)) ''multipart/''"
proof -
  show "js_trim (alternative_type b) = alternative_type b"
    by (rule js_trim_id) (simp_all add: alternative_type_def quoted_def is_js_space_def)
  show "js_starts_with (js_lower (alternative_type b)) ''multipart/''"
    by (simp add: alternative_type_def js_starts_with_def js_lower_def lower_char_def)
qed

lemma param_at_other: "key \<noteq> [] \<Longrightarrow> lower_char c \<noteq> hd key \<Longrightarrow> param_at key (c # s) = None"
  by (cases key) (auto simp: param_at_def js_lower_def)

lemma alternative_boundary:
  assumes "b \<noteq> []" "\<forall>c \<in> set b. c \<noteq> CHR 0x22 \<and> c \<noteq> CHR '';''"
  shows "extractBoundary (alternative_type b) = Some b"
proof -
  have "takeWhile (\<lambda>c. c \<noteq> CHR 0x22 \<and> c \<noteq> CHR '';'') (b @ [CHR 0x22]) = b"
    using assms(2) by (simp add: takeWhile_append)
  then have "param_at ''boundary'' (''boundary='' @ quoted b) = Some b"
    using assms(1) by (simp add: param_at_def js_lower_def lower_char_def quoted_def js_starts_with_def)
  then show ?thesis
    by (simp add: extractBoundary_def alternative_type_def param_at_other lower_char_def)
qed

definition contents :: "string \<Rightarrow> string option \<Rightarrow> (string \<times> string) list" where
  "contents subtype content = (if truthy content then [(subtype, the content)] else [])"

definition mail_contents :: "mime_input \<Rightarrow> (string \<times> string) list" where
  "mail_contents input = contents ''plain'' (mime_text input) @ contents ''html'' (mime_html input)"

lemma mail_contents_ok: "(subtype, t) \<in> set (mail_contents input) \<Longrightarrow> subtype \<in> {''plain'', ''html''} \<and> t \<noteq> []"
  by (auto simp: mail_contents_def contents_def truthy_def split: if_splits option.splits)

lemma alternative_lines:
  "js_join crlf (xs @ alternative_parts b input) = js_join crlf (xs
    @ concat (map (\<lambda>c. (''--'' @ b) # part_lines (fst c) (snd c)) (mail_contents input)) @ [''--'' @ b @ ''--''])"
proof -
  have part: "js_join crlf (ys @ optional_part b subtype c @ zs)
      = js_join crlf (ys @ concat (map (\<lambda>c. (''--'' @ b) # part_lines (fst c) (snd c)) (contents subtype c)) @ zs)"
    for ys zs subtype c
    using body_part_lines [of "the c" "ys @ [''--'' @ b]" subtype zs]
    by (auto simp: optional_part_def contents_def truthy_def split: option.split)
  show ?thesis
    using part [of xs "''plain''" "mime_text input"]
      part [of "xs @ concat (map (\<lambda>c. (''--'' @ b) # part_lines (fst c) (snd c)) (contents ''plain'' (mime_text input)))"
        "''html''" "mime_html input" "[''--'' @ b @ ''--'']"]
    by (simp add: alternative_parts_def mail_contents_def)
qed

lemma part_lines_plain:
  assumes "t \<noteq> []" "subtype \<in> {''plain'', ''html''}"
  shows "part_lines subtype t \<noteq> []" "plain (js_join crlf (part_lines subtype t))"
    "js_join crlf (part_lines subtype t) \<noteq> []" "hd (js_join crlf (part_lines subtype t)) \<noteq> CHR ''-''"
    "\<forall>l \<in> set (part_lines subtype t). flat l"
proof -
  show "part_lines subtype t \<noteq> []" by (simp add: part_lines_def part_headers_def)
  have "plain l" if "l \<in> set (part_lines subtype t)" for l
    using that assms(2) chunks_b64(2) [of l t]
    by (auto simp: part_lines_def part_headers_def header_text_def text_type_def quoted_def plain_no_hyphen)
  then show "plain (js_join crlf (part_lines subtype t))" by (simp add: plain_join)
  show "js_join crlf (part_lines subtype t) \<noteq> []" "hd (js_join crlf (part_lines subtype t)) \<noteq> CHR ''-''"
    using chunks_b64(1) [OF assms(1)] by (simp_all add: part_lines_def part_headers_def join_Cons header_text_def)
  show "\<forall>l \<in> set (part_lines subtype t). flat l"
    using chunks_b64(2) part_headers_ok [OF assms(2)] header_ok_line by (auto simp: part_lines_def)
qed

text \<open>What the parts of the mail leave in the content.\<close>

definition collected :: "(string \<times> string) list \<Rightarrow> mail_content \<Rightarrow> mail_content" where
  "collected cs acc = foldl (\<lambda>acc c. set_content (fst c) (snd c) acc) acc cs"

lemma collect_part_list:
  assumes "utf8_decoders ds" "\<forall>c \<in> set cs. fst c \<in> {''plain'', ''html''} \<and> snd c \<noteq> []"
  shows "collect_parts (collectContent ds (Suc depth))
      (map (\<lambda>c. splitHeaderAndBody (js_join crlf (part_lines (fst c) (snd c)))) cs) acc = Some (Inr (collected cs acc))"
  using assms(2)
proof (induction cs arbitrary: acc)
  case Nil
  then show ?case by (simp add: collected_def)
next
  case (Cons c cs)
  then have c: "fst c \<in> {''plain'', ''html''}" "snd c \<noteq> []" by auto
  obtain hs where hs: "splitHeaderAndBody (js_join crlf (part_lines (fst c) (snd c))) = (hs, js_join crlf (chunks (b64 (snd c))))"
      "\<forall>k. k \<noteq> ''__proto__'' \<longrightarrow> map_of hs k = found k (part_headers (fst c))"
    using parse_part [of "[]" "snd c" "fst c"] c by auto
  have "collectContent ds (Suc depth) hs (js_join crlf (chunks (b64 (snd c)))) acc
      = Some (Inr (set_content (fst c) (snd c) acc))"
    by (rule collect_text [OF assms(1) c(1)]) (use hs(2) text_type_trim [OF c(1)] in \<open>simp_all add: found_part_headers\<close>)
  with hs(1) Cons show ?case by (simp add: collected_def del: collectContent.simps)
qed

lemma built_content:
  assumes ds: "utf8_decoders ds" and none: "mime_attachments input = []" and i: "plain_id altId"
  shows "\<exists>hs body. splitHeaderAndBody (js_join crlf (mime_lines mixedId altId input)) = (hs, body)
    \<and> (\<forall>k. k \<in> {''message-id'', ''in-reply-to''} \<longrightarrow> map_of hs k = found k (mime_headers input))
    \<and> (\<forall>hs' depth acc. (\<forall>k. k \<notin> {''__proto__'', ''subject''} \<longrightarrow> map_of hs' k = map_of hs k)
        \<longrightarrow> collectContent ds (Suc (Suc depth)) hs' body acc = Some (Inr (collected (mail_contents input) acc)))"
proof -
  have single: ?thesis if c: "mail_contents input = [(subtype, t)]"
    and lines: "mime_lines mixedId altId input = map header_text (mime_headers input) @ body_part subtype t" for subtype t
  proof -
    have ok: "subtype \<in> {''plain'', ''html''}" "t \<noteq> []" using mail_contents_ok [of subtype t input] c by auto
    obtain hs where hs: "splitHeaderAndBody (js_join crlf (map header_text (mime_headers input) @ part_lines subtype t))
          = (hs, js_join crlf (chunks (b64 t)))"
        "\<forall>k. k \<noteq> ''__proto__'' \<longrightarrow> map_of hs k = found k (mime_headers input @ part_headers subtype)"
      using parse_part [OF mime_headers_ok ok(2,1)] by blast
    have "collectContent ds (Suc depth) hs' (js_join crlf (chunks (b64 t))) acc = Some (Inr (collected (mail_contents input) acc))"
      if "\<forall>k. k \<notin> {''__proto__'', ''subject''} \<longrightarrow> map_of hs' k = map_of hs k" for hs' depth acc
      using collect_text [OF ds ok(1), of hs' depth t acc] hs(2) that text_type_trim [OF ok(1)]
      by (simp add: c collected_def found_append found_part_headers found_mime_headers del: collectContent.simps)
    then show ?thesis
      using hs body_part_lines [OF ok(2), of "map header_text (mime_headers input)" subtype "[]"]
      by (intro exI [of _ hs] exI [of _ "js_join crlf (chunks (b64 t))"])
         (simp add: lines found_append found_part_headers del: collectContent.simps)
  qed
  let ?b = "randomBoundary ''alt'' altId"
  have b: "?b \<noteq> []" "\<forall>c \<in> set ?b. c \<noteq> CHR 0x22 \<and> c \<noteq> CHR '';''" "flat ?b"
    using i word_char_plain by (auto simp: randomBoundary_def plain_id_def flat_def)
  have alternative: ?thesis
    if lines: "mime_lines mixedId altId input = map header_text (mime_headers input)
        @ [multipart_header ''alternative'' ?b, []] @ alternative_parts ?b input"
  proof -
    let ?h = "mime_headers input @ [(''Content-Type'', alternative_type ?b)]"
    let ?P = "map (\<lambda>c. part_lines (fst c) (snd c)) (mail_contents input)"
    let ?body = "concat (map (Cons (''--'' @ ?b)) ?P) @ [''--'' @ ?b @ ''--'']"
    have P: "\<forall>P \<in> set ?P. P \<noteq> [] \<and> plain (js_join crlf P) \<and> js_join crlf P \<noteq> []
        \<and> hd (js_join crlf P) \<noteq> CHR ''-'' \<and> (\<forall>l \<in> set P. flat l)"
    proof
      fix P
      assume "P \<in> set ?P"
      then obtain subtype t where c: "(subtype, t) \<in> set (mail_contents input)" and P: "P = part_lines subtype t" by auto
      from mail_contents_ok [OF c] have c: "t \<noteq> []" "subtype \<in> {''plain'', ''html''}" by simp_all
      show "P \<noteq> [] \<and> plain (js_join crlf P) \<and> js_join crlf P \<noteq> []
        \<and> hd (js_join crlf P) \<noteq> CHR ''-'' \<and> (\<forall>l \<in> set P. flat l)"
        unfolding P using part_lines_plain [OF c] by (intro conjI)
    qed
    have ok: "\<forall>h \<in> set ?h. header_ok h"
      using mime_headers_ok [of input] b(3) by (auto simp: header_ok_pair names_ok alternative_type_def quoted_def)
    then have h: "flat (header_text h) \<and> unblank (header_text h) \<and> unended (header_text h)" if "h \<in> set ?h" for h
      using that header_ok_line by blast
    have "js_join crlf (mime_lines mixedId altId input) = js_join crlf (map header_text ?h @ [] # ?body)"
      unfolding lines using alternative_lines [of "map header_text ?h @ [[]]" ?b input]
      by (simp add: multipart_header_def alternative_type_def comp_def)
    moreover have "splitHeaderAndBody (js_join crlf (map header_text ?h @ [] # ?body))
        = (parseHeadersBlock (js_join crlf (map header_text ?h)), js_join crlf ?body)"
      by (rule split_built) (use h P b(3) in auto)
    moreover have "map_of (parseHeadersBlock (js_join crlf (map header_text ?h))) k = found k ?h" if "k \<noteq> ''__proto__''" for k
      unfolding found_def by (rule parsed_headers) (use ok h that in \<open>auto simp: header_ok_def name_ok_def\<close>)
    moreover have "collectContent ds (Suc (Suc depth)) hs' (js_join crlf ?body) acc = Some (Inr (collected (mail_contents input) acc))"
      if "map_of hs' ''content-type'' = Some (alternative_type ?b)" for hs' depth acc
    proof -
      have "parseMultipart (js_join crlf ?body) ?b = map (\<lambda>P. splitHeaderAndBody (js_join crlf P)) ?P"
        by (rule parse_parts [OF b(1)]) (use P in blast)
      moreover have "\<forall>c \<in> set (mail_contents input). fst c \<in> {''plain'', ''html''} \<and> snd c \<noteq> []"
        using mail_contents_ok by fastforce
      ultimately have "collect_parts (collectContent ds (Suc depth)) (parseMultipart (js_join crlf ?body) ?b) acc
          = Some (Inr (collected (mail_contents input) acc))"
        using collect_part_list [OF ds] by (simp add: comp_def del: collectContent.simps)
      with that show ?thesis
        unfolding collectContent.simps(2) [of ds "Suc depth"]
        by (simp add: alternative_type_simps alternative_boundary [OF b(1,2)] Let_def del: collectContent.simps)
    qed
    ultimately show ?thesis
      by (intro exI conjI) (auto simp: found_append lower_names alternative_type_simps simp del: collectContent.simps)
  qed
  consider "truthy (mime_html input)" "\<not> truthy (mime_text input)" | "truthy (mime_text input)" "\<not> truthy (mime_html input)"
    | "truthy (mime_text input) = truthy (mime_html input)" by blast
  then show ?thesis
  proof cases
    case 1
    show ?thesis
      by (rule single [of "''html''" "the (mime_html input)"])
         (simp_all add: 1 none mime_lines_def mail_contents_def contents_def)
  next
    case 2
    show ?thesis
      by (rule single [of "''plain''" "the (mime_text input)"])
         (simp_all add: 2 none mime_lines_def mail_contents_def contents_def)
  next
    case 3
    show ?thesis by (rule alternative) (auto simp: 3 none mime_lines_def Let_def)
  qed
qed

text \<open>
  C14. A mail without attachments that the runtime builds is parsed back by the runtime: on a
  platform that decodes its own UTF-8, the parser finds the text and the HTML that the mail was
  built from, no attachment, and the message id and the reply id in their normal form.
\<close>

theorem built_mail_is_parsed:
  assumes "utf8_decoders ds" "mime_attachments input = []" "plain_id altId"
  shows "\<exists>p. parseRawEmail ds fresh (decode_utf8 ds (buildRawMimeMessage mixedId altId input)) = Inr p
    \<and> pe_text p = (if truthy (mime_text input) then mime_text input else None)
    \<and> pe_html p = (if truthy (mime_html input) then mime_html input else None)
    \<and> pe_attachments p = []
    \<and> pe_message_id p = (if truthy (mime_message_id input)
         then Some (normalizeHeaderValue (the (mime_message_id input))) else None)
    \<and> pe_in_reply_to p = (if truthy (mime_in_reply_to input)
         then Some (normalizeHeaderValue (the (mime_in_reply_to input))) else None)"
proof -
  obtain hs body where hs: "splitHeaderAndBody (js_join crlf (mime_lines mixedId altId input)) = (hs, body)"
      "\<forall>k. k \<in> {''message-id'', ''in-reply-to''} \<longrightarrow> map_of hs k = found k (mime_headers input)"
    and content: "\<forall>hs' depth acc. (\<forall>k. k \<notin> {''__proto__'', ''subject''} \<longrightarrow> map_of hs' k = map_of hs k)
        \<longrightarrow> collectContent ds (Suc (Suc depth)) hs' body acc = Some (Inr (collected (mail_contents input) acc))"
    using built_content [OF assms, of mixedId] by (elim exE conjE) (rule that)
  have raw: "decode_utf8 ds (buildRawMimeMessage mixedId altId input) = js_join crlf (mime_lines mixedId altId input)"
    using assms(1) by (simp add: utf8_decoders_def buildRawMimeMessage_def)
  define hs' where "hs' = (if truthy (map_of hs ''subject'')
      then put_header ''subject'' (decodeHeaderEncodedWord ds (the (map_of hs ''subject''))) hs else hs)"
  have other: "\<forall>k. k \<notin> {''__proto__'', ''subject''} \<longrightarrow> map_of hs' k = map_of hs k"
    by (simp add: hs'_def map_of_put_header)
  have collect: "collectContent ds (stack_depth body) hs' body acc = Some (Inr (collected (mail_contents input) acc))" for acc
    using content [THEN spec, THEN spec, THEN spec, THEN mp, OF other, of "length body div 3" acc]
      collect_with_enough_depth [of body "length body div 3" "Suc (length body div 3)" ds hs' acc]
    by (simp add: stack_depth_def del: collectContent.simps)
  have empty: "collected (mail_contents input) \<lparr>mc_text = None, mc_html = None, mc_attachments = []\<rparr>
      = \<lparr>mc_text = (if truthy (mime_text input) then mime_text input else None),
         mc_html = (if truthy (mime_html input) then mime_html input else None), mc_attachments = []\<rparr>"
    by (auto simp: collected_def mail_contents_def contents_def set_content_def truthy_def split: option.split)
  have ids: "map_of hs' ''message-id'' = found ''message-id'' (mime_headers input)"
    "map_of hs' ''in-reply-to'' = found ''in-reply-to'' (mime_headers input)"
    using hs(2) other by simp_all
  show ?thesis
    unfolding raw parseRawEmail_def Let_def hs(1) fst_conv snd_conv hs'_def [symmetric] collect empty
    using ids by (simp add: found_mime_headers)
qed

lemma demo_decoders_ok: "utf8_decoders demo_decoders"
  by (simp add: utf8_decoders_def demo_decoders_def)

theorem built_mail_is_parsed_witness:
  "\<exists>p. parseRawEmail demo_decoders ''f'' (decode_utf8 demo_decoders (buildRawMimeMessage ''m1'' ''a1''
      \<lparr>mime_from = ''bot@mail.io'', mime_to = [''ann@ext.org''], mime_cc = [], mime_bcc = [], mime_reply_to = [],
       mime_subject = ''Hi'', mime_text = Some ''Hello'', mime_html = Some ''<p>Hello</p>'', mime_date = None,
       mime_message_id = Some ''<1@mail.io>'', mime_in_reply_to = None, mime_references = [],
       mime_attachments = []\<rparr>)) = Inr p \<and> pe_text p = Some ''Hello'' \<and> pe_html p = Some ''<p>Hello</p>''"
  using built_mail_is_parsed [OF demo_decoders_ok, of "\<lparr>mime_from = ''bot@mail.io'', mime_to = [''ann@ext.org''],
       mime_cc = [], mime_bcc = [], mime_reply_to = [],
       mime_subject = ''Hi'', mime_text = Some ''Hello'', mime_html = Some ''<p>Hello</p>'', mime_date = None,
       mime_message_id = Some ''<1@mail.io>'', mime_in_reply_to = None, mime_references = [],
       mime_attachments = []\<rparr>" "''a1''" "''f''" "''m1''"]
  by (auto simp: plain_id_def is_word_char_def)

end
