(* ===== verification/InboundMail.thy ===== *)
theory InboundMail
  imports OutboundProvider
begin

text \<open>
  \<open>src/handlers/email.ts\<close>: a mail arrives over SMTP. It is rejected, or its bytes are stored, a
  message is created for them (a copy of a known message is not), and the ingest of the message is
  queued. What fails half way is undone, or marked failed with a dead letter.
\<close>

section \<open>The handler\<close>

text \<open>\<open>headers.get("message-id")\<close> is \<^const>\<open>None\<close> for \<open>null\<close>; the stream \<open>raw\<close> is read in full.\<close>

record incoming_mail =
  fw_from :: string
  fw_to :: string
  fw_message_id :: "string option"
  fw_raw :: string

definition deleteR2Object :: "string \<Rightarrow> unit io" where
  "deleteR2Object r2Key = catch_undefined (r2_delete r2Key)"

definition failInboundMessage :: "string \<Rightarrow> string \<Rightarrow> js_error \<Rightarrow> unit io" where
  "failInboundMessage messageId source e =
     seq (catch_undefined (updateMessageStatus messageId MsgFailed))
         (catch_undefined (enqueueDeadLetter source messageId (error_message e)))"

text \<open>\<open>try { dispatch } catch { fail; throw }\<close>, for a new message and for a known one.\<close>

definition dispatch_or_fail :: "worker_env \<Rightarrow> string \<Rightarrow> ingest_job \<Rightarrow> unit io" where
  "dispatch_or_fail env source payload =
     try_catch (dispatchEmailIngestWithFallback env payload)
       (\<lambda>e. seq (failInboundMessage (ij_message_id payload) source e) (throw e))"

definition resumeExistingInboundMessage :: "worker_env \<Rightarrow> ingest_job \<Rightarrow> unit io" where
  "resumeExistingInboundMessage env payload = dispatch_or_fail env ''email-receive-resume'' payload"

text \<open>A known message whose ingest did not finish is taken up again.\<close>

definition unfinished :: "message_row \<Rightarrow> bool" where
  "unfinished m \<longleftrightarrow> (msg_status m = MsgReceived \<or> msg_status m = MsgFailed) \<and> truthy (msg_raw_r2_key m)"

definition resume_if_unfinished :: "worker_env \<Rightarrow> message_row \<Rightarrow> unit io" where
  "resume_if_unfinished env m =
     when_io (unfinished m) (resumeExistingInboundMessage env (ingest_of m (the (msg_raw_r2_key m))))"

text \<open>
  The bytes go first; a creation that fails takes them away again, and so does one that finds that
  another delivery of the same mail was faster.
\<close>

definition receive_mail :: "worker_env \<Rightarrow> incoming_mail \<Rightarrow> mailbox_row \<Rightarrow> string option \<Rightarrow> unit io" where
  "receive_mail env mail mailbox internetMessageId =
     await (createId ''msg'') (\<lambda>messageId.
     await nowIso (\<lambda>receivedAt.
     let rawR2Key = raw_key receivedAt messageId in
     seq (r2_put rawR2Key (R2Raw (fw_raw mail)))
     (await (try_catch (createInboundMessage
          \<lparr>in_id = messageId, in_tenant_id = mb_tenant_id mailbox, in_mailbox_id = mb_id mailbox,
           in_provider = ProvCloudflare, in_internet_message_id = internetMessageId,
           in_from_addr = fw_from mail, in_to_addr = js_lower (fw_to mail),
           in_status = MsgReceived, in_raw_r2_key = rawR2Key,
           in_received_at = receivedAt, in_created_at = receivedAt\<rparr>)
          (\<lambda>e. seq (deleteR2Object rawR2Key) (throw e))) (\<lambda>created.
      if created
      then dispatch_or_fail env ''email-receive''
             \<lparr>ij_message_id = messageId, ij_tenant_id = mb_tenant_id mailbox,
              ij_mailbox_id = mb_id mailbox, ij_raw_r2_key = rawR2Key\<rparr>
      else seq (deleteR2Object rawR2Key)
        (case internetMessageId of None \<Rightarrow> ret ()
         | Some i \<Rightarrow> await (getInboundMessageByInternetMessageId (mb_id mailbox) i) (\<lambda>existing.
             case existing of None \<Rightarrow> ret () | Some m \<Rightarrow> resume_if_unfinished env m))))))"

definition handleEmail :: "incoming_mail \<Rightarrow> worker_env \<Rightarrow> unit io" where
  "handleEmail mail env =
     await (getMailboxByAddress (js_lower (fw_to mail))) (\<lambda>found.
     case found of None \<Rightarrow> note_out (MailRejected ''Unknown mailbox'')
     | Some mailbox \<Rightarrow>
       if mb_status mailbox \<noteq> ''active'' then note_out (MailRejected ''Unknown mailbox'')
       else (case normalizeInternetMessageId (fw_message_id mail) of
          None \<Rightarrow> receive_mail env mail mailbox None
        | Some i \<Rightarrow>
            await (getInboundMessageByInternetMessageId (mb_id mailbox) i) (\<lambda>existing.
            case existing of Some m \<Rightarrow> resume_if_unfinished env m
            | None \<Rightarrow> receive_mail env mail mailbox (Some i))))"

section \<open>The store invariant\<close>

lemma keeps_handleEmail [keeps_intros]: "keeps (stored {} [] db_ok) (handleEmail mail env)"
  unfolding handleEmail_def receive_mail_def resume_if_unfinished_def resumeExistingInboundMessage_def
    dispatch_or_fail_def failInboundMessage_def deleteR2Object_def Let_def
  by (intro keeps_intros) simp_all

section \<open>An undisturbed arrival\<close>

definition receiving_mailbox :: "store \<Rightarrow> string \<Rightarrow> mailbox_row option" where
  "receiving_mailbox s address =
     first_row (filter (\<lambda>m. mb_address m = js_lower address \<and> mb_status m = ''active'') (mailboxes s))"

text \<open>The messages of the mailbox with the message id of the mail.\<close>

definition copies :: "store \<Rightarrow> mailbox_row \<Rightarrow> string option \<Rightarrow> message_row list" where
  "copies s mailbox internetMessageId = (case internetMessageId of None \<Rightarrow> []
     | Some i \<Rightarrow> filter (\<lambda>m. msg_mailbox_id m = mb_id mailbox \<and> msg_direction m = Inbound
         \<and> msg_internet_message_id m = Some i \<and> message_visible s m) (messages s))"

definition fresh_message_ids :: "world \<Rightarrow> bool" where
  "fresh_message_ids w \<longleftrightarrow> (\<forall>m \<in> set (messages (store_of w)). \<forall>n. msg_id m \<noteq> ''msg_'' @ uuid w n)"

text \<open>The store after a new message: its row, and its bytes under its key.\<close>

definition filed :: "incoming_mail \<Rightarrow> mailbox_row \<Rightarrow> message_row \<Rightarrow> store \<Rightarrow> store \<Rightarrow> bool" where
  "filed mail mailbox m s s' \<longleftrightarrow> (\<exists>key. msg_raw_r2_key m = Some key
     \<and> s' = s\<lparr>r2 := (r2 s)(key := Some (R2Raw (fw_raw mail))), messages := messages s @ [m]\<rparr>)
     \<and> msg_tenant_id m = mb_tenant_id mailbox \<and> msg_mailbox_id m = mb_id mailbox
     \<and> msg_direction m = Inbound \<and> msg_status m = MsgReceived \<and> msg_thread_id m = None
     \<and> msg_internet_message_id m = normalizeInternetMessageId (fw_message_id mail)
     \<and> msg_from_addr m = fw_from mail \<and> msg_to_addr m = js_lower (fw_to mail)"

lemma normalize_message_id_idem:
  "normalizeInternetMessageId x = Some i \<Longrightarrow> normalizeInternetMessageId (Some i) = Some i"
  by (auto simp: normalizeInternetMessageId_def Let_def js_trim_lower js_lower_idem js_trim_idem split: option.splits if_splits)

lemma receiving_mailbox_None:
  assumes "db_ok s" "receiving_mailbox s address = None" "m \<in> set (mailboxes s)" "mb_address m = js_lower address"
  shows "mb_status m \<noteq> ''active''"
  using assms by (auto simp: receiving_mailbox_def filter_empty_conv)

lemma receiving_mailbox_Some:
  assumes "db_ok s" "receiving_mailbox s address = Some m"
  shows "filter (\<lambda>x. mb_address x = js_lower address) (mailboxes s) = [m]"
    "m \<in> set (mailboxes s)" "mb_status m = ''active''"
proof -
  from assms(2) have m: "m \<in> set (mailboxes s)" "mb_address m = js_lower address" "mb_status m = ''active''"
    unfolding receiving_mailbox_def by (auto dest: first_row_filter_Some)
  then show "m \<in> set (mailboxes s)" "mb_status m = ''active''" by simp_all
  from assms(1) have "unique_by mb_address (mailboxes s)" by (simp add: db_ok_def)
  from unique_by_filter_key [OF this m(1)] m(2)
  show "filter (\<lambda>x. mb_address x = js_lower address) (mailboxes s) = [m]" by simp
qed

lemma known_message_run:
  assumes "quiet w" "normalizeInternetMessageId x = Some i" "length (copies (store_of w) mb (Some i)) \<le> 1"
  shows "getInboundMessageByInternetMessageId (mb_id mb) i w = (Inr (first_row (copies (store_of w) mb (Some i))), tick w)"
proof -
  have "copies (store_of w) mb (Some i) = [] \<or> (\<exists>m. copies (store_of w) mb (Some i) = [m])"
    using assms(3) by (cases "copies (store_of w) mb (Some i)" rule: list.exhaust) auto
  then show ?thesis using assms(1)
    by (auto simp: getInboundMessageByInternetMessageId_def normalize_message_id_idem [OF assms(2)] run_simps
        copies_def the_only_def order_asc_def)
qed

lemma resume_run:
  assumes "quiet w"
  shows "\<exists>w'. resume_if_unfinished env m w = (Inr (), w') \<and> store_of w' = store_of w
    \<and> outbox w' = outbox w @ (if unfinished m then [ToIngestQueue (msg_id m)] else [])"
  using assms by (simp add: resume_if_unfinished_def when_io_def resumeExistingInboundMessage_def dispatch_or_fail_def
      dispatchEmailIngestWithFallback_def ingest_of_def run_simps)

lemma receive_run:
  assumes "quiet w" "mailbox_of_tenant (store_of w) (mb_id mb) (mb_tenant_id mb)" "fresh_message_ids w"
    and "nid = normalizeInternetMessageId (fw_message_id mail)" "copies (store_of w) mb nid = []"
  shows "\<exists>m w'. receive_mail env mail mb nid w = (Inr (), w') \<and> filed mail mb m (store_of w) (store_of w')
    \<and> outbox w' = outbox w @ [ToIngestQueue (msg_id m)]"
proof -
  let ?i = "''msg_'' @ uuid w (ticks w)" and ?t = "clock w (Suc (ticks w))" and ?s = "store_of w"
  let ?key = "raw_key ?t ?i"
  define input where "input = \<lparr>in_id = ?i, in_tenant_id = mb_tenant_id mb, in_mailbox_id = mb_id mb,
     in_provider = ProvCloudflare, in_internet_message_id = nid, in_from_addr = fw_from mail,
     in_to_addr = js_lower (fw_to mail), in_status = MsgReceived, in_raw_r2_key = ?key,
     in_received_at = ?t, in_created_at = ?t\<rparr>"
  let ?row = "inbound_row input nid"
  let ?s' = "?s\<lparr>r2 := (r2 ?s)(?key := Some (R2Raw (fw_raw mail))), messages := messages ?s @ [?row]\<rparr>"
  have new: "\<forall>m \<in> set (messages ?s). msg_id m \<noteq> ?i" using assms(3) by (auto simp: fresh_message_ids_def)
  then have found: "filter (\<lambda>m. msg_id m = ?i \<and> P m) (messages ?s) = []" for P
    by (auto simp: filter_empty_conv)
  have id: "msg_id ?row = ?i" "message_visible ?s' ?row" "mailbox_of_tenant ?s' (in_mailbox_id input) (in_tenant_id input)"
    using assms(2) by (simp_all add: inbound_row_def input_def message_visible_def mailbox_of_tenant_def)
  have created: "\<exists>w'. createInboundMessage input w1 = (Inr True, w') \<and> store_of w' = ?s' \<and> outbox w' = outbox w \<and> quiet w'"
    if w1: "quiet w1" "store_of w1 = ?s\<lparr>r2 := (r2 ?s)(?key := Some (R2Raw (fw_raw mail)))\<rparr>" "outbox w1 = outbox w" for w1
  proof -
    have final: "\<exists>w'. finalizeCreatedInboundMessage input w2 = (Inr (), w') \<and> store_of w' = ?s' \<and> outbox w' = outbox w \<and> quiet w'"
      if "quiet w2" "store_of w2 = ?s'" "outbox w2 = outbox w" for w2
      using that id found [of "message_visible ?s'"]
      by (simp add: finalizeCreatedInboundMessage_def getMessage_def run_simps input_def)
    have none: "\<not> message_id_taken (store_of w1) (in_id input)"
      using new by (simp add: message_id_taken_def w1 input_def)
    have put: "messages_update (\<lambda>t. t @ [?row]) (store_of w1) = ?s'" unfolding w1 by (rule store.equality) simp_all
    obtain w2 where w2: "finalizeCreatedInboundMessage input (with_store (tick w1) ?s') = (Inr (), w2)"
        "store_of w2 = ?s'" "outbox w2 = outbox w" "quiet w2"
      using final [of "with_store (tick w1) ?s'"] w1 by auto
    show ?thesis
    proof (cases nid)
      case None
      then have "in_internet_message_id input = None" by (simp add: input_def)
      then show ?thesis
        using w1(1) none w2 put
        by (simp add: createInboundMessage_def normalizeInternetMessageId_def run_simps quiet_checked_Some insert_checked_def
            None)
    next
      case (Some n)
      from normalize_message_id_idem [OF assms(4) [symmetric, unfolded Some]]
      have n: "normalizeInternetMessageId (in_internet_message_id input) = Some n" by (simp add: input_def Some)
      have "\<not> inbound_duplicate (store_of w1) (in_tenant_id input) (in_mailbox_id input) n"
        using assms(5) by (auto simp: inbound_duplicate_def w1 copies_def Some input_def filter_empty_conv message_visible_def
            mailbox_of_tenant_def)
      then show ?thesis
        using w1(1) none w2 put
        by (simp add: createInboundMessage_def n insertInboundMessage_def insert_select_def run_simps quiet_checked_Some
            insert_checked_def Some)
    qed
  qed
  have "filed mail mb ?row ?s ?s'"
    unfolding filed_def by (intro conjI exI [of _ ?key]) (simp_all add: inbound_row_def input_def assms(4))
  moreover have "\<exists>w'. receive_mail env mail mb nid w = (Inr (), w') \<and> store_of w' = ?s' \<and> outbox w' = outbox w @ [ToIngestQueue ?i]"
  proof -
    let ?w1 = "with_store (tick (tick w)) (?s\<lparr>r2 := (r2 ?s)(?key := Some (R2Raw (fw_raw mail)))\<rparr>)"
    have put: "r2_put ?key (R2Raw (fw_raw mail)) (tick w) = (Inr (), ?w1)"
      using assms(1) by (simp add: r2_put_def quiet_call_store)
    obtain w' where w': "createInboundMessage input ?w1 = (Inr True, w')" "store_of w' = ?s'" "outbox w' = outbox w" "quiet w'"
      using created [of ?w1] assms(1) by auto
    then show ?thesis
      using put w'(1) [unfolded input_def] w'(2-4)
      by (simp add: receive_mail_def run_simps Let_def dispatch_or_fail_def dispatchEmailIngestWithFallback_def)
  qed
  ultimately show ?thesis using id(1) by metis
qed

text \<open>
  C16. An arriving mail is rejected exactly when its recipient has no active mailbox. Otherwise it is
  filed once: a mail whose message id the mailbox does not know becomes one new message, with its
  bytes, and its ingest is queued; one that the mailbox knows leaves the store as it is, and the
  ingest of the known message is queued again while it is unfinished.
\<close>

theorem incoming_mail_is_filed_once:
  assumes "quiet w" "db_ok (store_of w)" "fresh_message_ids w"
    and "\<And>mb. length (copies (store_of w) mb (normalizeInternetMessageId (fw_message_id mail))) \<le> 1"
  shows "\<exists>w'. handleEmail mail env w = (Inr (), w') \<and> (case receiving_mailbox (store_of w) (fw_to mail) of
      None \<Rightarrow> store_of w' = store_of w \<and> outbox w' = outbox w @ [MailRejected ''Unknown mailbox'']
    | Some mb \<Rightarrow> (case copies (store_of w) mb (normalizeInternetMessageId (fw_message_id mail)) of
        [] \<Rightarrow> \<exists>m. filed mail mb m (store_of w) (store_of w') \<and> outbox w' = outbox w @ [ToIngestQueue (msg_id m)]
      | m # _ \<Rightarrow> store_of w' = store_of w
          \<and> outbox w' = outbox w @ (if unfinished m then [ToIngestQueue (msg_id m)] else [])))"
proof (cases "receiving_mailbox (store_of w) (fw_to mail)")
  case None
  then show ?thesis
    using assms(1) receiving_mailbox_None [OF assms(2) None]
    by (auto simp: handleEmail_def getMailboxByAddress_def run_simps js_lower_idem split: option.split
        dest: first_row_filter_Some)
next
  case (Some mb)
  note mb = receiving_mailbox_Some [OF assms(2) Some]
  let ?nid = "normalizeInternetMessageId (fw_message_id mail)"
  have own: "mailbox_of_tenant (store_of w) (mb_id mb) (mb_tenant_id mb)"
    using mb(2) by (auto simp: mailbox_of_tenant_def)
  have fresh: "fresh_message_ids (ticked n w)" for n
    using assms(3) by (induction n arbitrary: w) (simp_all add: fresh_message_ids_def tick_def)
  have found: "getMailboxByAddress (js_lower (fw_to mail)) w = (Inr (Some mb), tick w)"
    using assms(1) mb(1) by (simp add: getMailboxByAddress_def run_simps js_lower_idem)
  show ?thesis
  proof (cases ?nid)
    case None
    with receive_run [of "tick w" mb ?nid mail env] found Some assms(1) own fresh [of 1] mb(3)
    show ?thesis by (auto simp: handleEmail_def run_simps copies_def)
  next
    case nid: (Some i)
    have known: "getInboundMessageByInternetMessageId (mb_id mb) i (tick w)
        = (Inr (first_row (copies (store_of w) mb (Some i))), tick (tick w))"
      using known_message_run [OF _ nid, of "tick w" mb] assms(1,4) by (simp add: nid)
    show ?thesis
    proof (cases "copies (store_of w) mb (Some i)")
      case Nil
      with receive_run [of "tick (tick w)" mb ?nid mail env] found known Some assms(1) own fresh [of 2] mb(3) nid
      show ?thesis by (auto simp: handleEmail_def run_simps numeral_2_eq_2)
    next
      case (Cons m ms)
      with resume_run [of "tick (tick w)" env m] found known Some assms(1) mb(3) nid
      show ?thesis by (auto simp: handleEmail_def run_simps)
    qed
  qed
qed

definition demo_mail :: incoming_mail where
  "demo_mail = \<lparr>fw_from = ''ann@ext.org'', fw_to = ''Bot@Mail.io'', fw_message_id = Some ''<1@ext.org>'', fw_raw = ''raw''\<rparr>"

theorem incoming_mail_is_filed_once_witness:
  "\<exists>m w'. handleEmail demo_mail demo_env (quiet_world (demo_store DraftApproved JobSent 5 1)) = (Inr (), w')
    \<and> filed demo_mail demo_mailbox m (demo_store DraftApproved JobSent 5 1) (store_of w')
    \<and> outbox w' = [ToIngestQueue (msg_id m)]"
proof -
  let ?s = "demo_store DraftApproved JobSent 5 1"
  have copies: "copies ?s mb i = []" for mb i by (simp add: copies_def demo_defs split: option.split)
  have "js_lower ''Bot@Mail.io'' = ''bot@mail.io''" by code_simp
  then have mailbox: "receiving_mailbox ?s (fw_to demo_mail) = Some demo_mailbox"
    by (simp add: receiving_mailbox_def demo_mail_def demo_defs)
  have fresh: "fresh_message_ids (quiet_world ?s)" by (simp add: fresh_message_ids_def quiet_world_def demo_defs)
  from incoming_mail_is_filed_once [of "quiet_world ?s" demo_mail demo_env] fresh
  show ?thesis by (auto simp: copies mailbox)
qed

end
