(* ===== verification/SendApi.thy ===== *)
theory SendApi
  imports EnqueueSend Idempotency MailTasks JsonText JsNumber
begin

text \<open>
  \<open>src/routes/api.ts\<close>, sending a mail over the API: the checks on the mailbox, the agent, the
  references and the attachments of a draft, its policy and its credits, and
  \<open>createAndSendDraft\<close>, which creates a draft and queues its send at most once per idempotency
  key. The explanatory members of an error body are not kept, only its status and its message.
\<close>

section \<open>Answers\<close>

definition buildInsufficientCreditsErrorBody :: "int option \<Rightarrow> int \<Rightarrow> string" where
  "buildInsufficientCreditsErrorBody availableCredits creditsRequired =
     ''Insufficient credits for external sending. Required: '' @ show_int creditsRequired
     @ '', available: '' @ show_int (case availableCredits of Some n \<Rightarrow> n | None \<Rightarrow> 0)"

definition createInsufficientCreditsRouteError :: "int option \<Rightarrow> int \<Rightarrow> js_error" where
  "createInsufficientCreditsRouteError availableCredits creditsRequired =
     RouteRequestError (buildInsufficientCreditsErrorBody availableCredits creditsRequired) 402"

text \<open>\<open>encodeURIComponent\<close> of a text with code units below 256.\<close>

definition upper_hex :: "nat \<Rightarrow> char" where
  "upper_hex n = char_of (if n < 10 then 48 + n else 55 + n)"

definition uri_char :: "char \<Rightarrow> string" where
  "uri_char c = (let n = (of_char c :: nat) in
     if is_digit c \<or> 65 \<le> n \<and> n \<le> 90 \<or> 97 \<le> n \<and> n \<le> 122 \<or> n \<in> {33, 39, 40, 41, 42, 45, 46, 95, 126}
     then [c]
     else concat (map (\<lambda>b. let k = (of_char b :: nat) in CHR ''%'' # [upper_hex (k div 16), upper_hex (k mod 16)])
            (utf8_char c)))"

definition encodeURIComponent :: "string \<Rightarrow> string" where
  "encodeURIComponent s = concat (map uri_char s)"

definition buildSendStatusCheck :: "string \<Rightarrow> string \<Rightarrow> json" where
  "buildSendStatusCheck outboundJobId draftId = JObj
     [(''outboundJobPath'', JStr (''/v1/outbound-jobs/'' @ encodeURIComponent outboundJobId)),
      (''draftPath'', JStr (''/v1/drafts/'' @ encodeURIComponent draftId))]"

definition queued_message :: string where
  "queued_message = ''Send queued for asynchronous delivery. Accepted means the runtime queued the send, not that the provider has delivered it yet. Poll statusCheck.outboundJobPath for the current pending, sent, or failed delivery state.''"

definition queued_members :: "string \<Rightarrow> string \<Rightarrow> json_object" where
  "queued_members outboundJobId draftId =
     [(''acceptedForDelivery'', JBool True), (''deliveryState'', JStr ''queued''),
      (''finalDeliveryState'', JStr ''pending''),
      (''statusCheck'', buildSendStatusCheck outboundJobId draftId), (''message'', JStr queued_message)]"

definition buildQueuedSendAcceptedResponse :: "string \<Rightarrow> string \<Rightarrow> json" where
  "buildQueuedSendAcceptedResponse draftId outboundJobId = JObj
     ([(''draftId'', JStr draftId), (''outboundJobId'', JStr outboundJobId), (''status'', JStr ''queued'')]
      @ queued_members outboundJobId draftId)"

definition draft_json :: "draft_row \<Rightarrow> json" where
  "draft_json d = JObj (defined_fields [(''id'', Some (JStr (dr_id d))),
     (''tenantId'', Some (JStr (dr_tenant_id d))), (''agentId'', Some (JStr (dr_agent_id d))),
     (''mailboxId'', Some (JStr (dr_mailbox_id d))), (''threadId'', map_option JStr (dr_thread_id d)),
     (''sourceMessageId'', map_option JStr (dr_source_message_id d)),
     (''createdVia'', map_option JStr (dr_created_via d)),
     (''status'', Some (JStr (show_draft_status (dr_status d)))),
     (''draftR2Key'', Some (JStr (dr_draft_r2_key d))),
     (''createdAt'', Some (JStr (iso_text (dr_created_at d)))),
     (''updatedAt'', Some (JStr (iso_text (dr_updated_at d))))])"

definition queued_draft :: "draft_row \<Rightarrow> string \<Rightarrow> json_object" where
  "queued_draft d outboundJobId =
     [(''draft'', draft_json d), (''outboundJobId'', JStr outboundJobId), (''status'', JStr ''queued'')]"

definition buildQueuedCreateAndSendAcceptedResponse :: "draft_row \<Rightarrow> string \<Rightarrow> json" where
  "buildQueuedCreateAndSendAcceptedResponse d outboundJobId =
     JObj (queued_draft d outboundJobId @ queued_members outboundJobId (dr_id d))"

text \<open>An error thrown after the draft exists carries a mark: the caller must not release its key.\<close>

definition markSideEffectCommitted :: "js_error \<Rightarrow> js_error" where
  "markSideEffectCommitted e = (case e of CommittedError e' \<Rightarrow> e | _ \<Rightarrow> CommittedError e)"

definition hasCommittedSideEffect :: "js_error \<Rightarrow> bool" where
  "hasCommittedSideEffect e \<longleftrightarrow> (case e of CommittedError e' \<Rightarrow> True | _ \<Rightarrow> False)"

definition bestEffortCompleteRecoveredIdempotency ::
  "string \<Rightarrow> string \<Rightarrow> string \<Rightarrow> json \<Rightarrow> string option \<Rightarrow> unit io" where
  "bestEffortCompleteRecoveredIdempotency operation tenantId idempotencyKey response resourceId =
     try_catch (completeIdempotencyKey operation tenantId idempotencyKey response resourceId) (\<lambda>_. ret ())"

section \<open>Validation\<close>

definition enqueueReplayTask :: "string \<Rightarrow> string \<Rightarrow> string \<Rightarrow> string \<Rightarrow> unit io" where
  "enqueueReplayTask tenantId mailboxId sourceMessageId agentId =
     await (createTask \<lparr>ti_tenant_id = tenantId, ti_mailbox_id = mailboxId,
              ti_source_message_id = sourceMessageId, ti_task_type = ''replay'', ti_priority = 50,
              ti_status = TaskQueued, ti_assigned_agent = Some agentId\<rparr>) (\<lambda>replayTask.
     try_catch (send_out (ToAgentQueue (tsk_id replayTask)))
       (\<lambda>e. seq (catch_undefined (deleteTask (tsk_id replayTask))) (throw e)))"

definition validateDraftReferences :: "string \<Rightarrow> string \<Rightarrow> string option \<Rightarrow> string option \<Rightarrow> unit io" where
  "validateDraftReferences tenantId mailboxId threadId sourceMessageId =
     seq (if \<not> truthy threadId then ret ()
          else await (getThread (the threadId)) (\<lambda>thread. case thread of
              None \<Rightarrow> throw (RouteRequestError ''Thread not found'' 404)
            | Some t \<Rightarrow>
                if th_tenant_id (tv_thread t) \<noteq> tenantId
                then throw (RouteRequestError ''Thread does not belong to tenant'' 409)
                else if th_mailbox_id (tv_thread t) \<noteq> mailboxId
                then throw (RouteRequestError ''Thread does not belong to mailbox'' 409)
                else ret ()))
         (if \<not> truthy sourceMessageId then ret ()
          else await (getMessage (the sourceMessageId)) (\<lambda>sourceMessage. case sourceMessage of
              None \<Rightarrow> throw (RouteRequestError ''Source message not found'' 404)
            | Some m \<Rightarrow>
                if msg_tenant_id m \<noteq> tenantId
                then throw (RouteRequestError ''Source message does not belong to tenant'' 409)
                else if msg_mailbox_id m \<noteq> mailboxId
                then throw (RouteRequestError ''Source message does not belong to mailbox'' 409)
                else if truthy threadId \<and> msg_thread_id m \<noteq> threadId
                then throw (RouteRequestError ''Source message does not belong to thread'' 409)
                else ret ()))"

definition validate_attachment :: "string \<Rightarrow> string \<Rightarrow> draft_attachment \<Rightarrow> unit io" where
  "validate_attachment tenantId mailboxId attachment =
     (let r2Key = js_trim (da_r2_key attachment) in
      if r2Key = [] then throw (RouteRequestError ''Attachment r2Key is required'' 400)
      else await (getAttachmentOwnerByR2Key r2Key) (\<lambda>owner. case owner of
          None \<Rightarrow> throw (RouteRequestError ''Attachment not found'' 404)
        | Some ow \<Rightarrow>
            if ao_tenant_id ow \<noteq> tenantId
            then throw (RouteRequestError ''Attachment does not belong to tenant'' 409)
            else if ao_mailbox_id ow \<noteq> mailboxId
            then throw (RouteRequestError ''Attachment does not belong to mailbox'' 409)
            else ret ()))"

definition validateDraftAttachments :: "string \<Rightarrow> string \<Rightarrow> draft_attachment list \<Rightarrow> unit io" where
  "validateDraftAttachments tenantId mailboxId atts =
     for_each atts (validate_attachment tenantId mailboxId)"

text \<open>The mailbox of a request, which must be the tenant's.\<close>

definition own_mailbox_or_throw :: "string \<Rightarrow> string \<Rightarrow> mailbox_row io" where
  "own_mailbox_or_throw tenantId mailboxId = await (getMailboxById mailboxId) (\<lambda>mailbox. case mailbox of
     None \<Rightarrow> throw (RouteRequestError ''Mailbox not found'' 404)
   | Some m \<Rightarrow>
       if mb_tenant_id m \<noteq> tenantId
       then throw (RouteRequestError ''Mailbox does not belong to tenant'' 409) else ret m)"

definition validateDraftFromAddress :: "string \<Rightarrow> string \<Rightarrow> string \<Rightarrow> unit io" where
  "validateDraftFromAddress tenantId mailboxId from' =
     await (own_mailbox_or_throw tenantId mailboxId) (\<lambda>mailbox.
     let expected = js_lower (js_trim (mb_address mailbox)); provided = js_lower (js_trim from') in
     if provided = [] \<or> provided \<noteq> expected
     then throw (RouteRequestError ''from must match the mailbox address'' 400) else ret ())"

definition readDraftObject :: "string \<Rightarrow> json_object io" where
  "readDraftObject draftR2Key = await (r2_get draftR2Key) (\<lambda>object. case object of
     None \<Rightarrow> throw (RouteRequestError ''Draft payload not found'' 404)
   | Some ob \<Rightarrow> r2_json ob)"

definition readStoredRecipients :: "string \<Rightarrow> draft_recipients io" where
  "readStoredRecipients draftR2Key =
     await (readDraftObject draftR2Key) (\<lambda>payload.
     lift_result (parse_recipients (RouteRequestError recipients_message 400) payload))"

definition validateStoredDraftFromAddress :: "draft_row \<Rightarrow> unit io" where
  "validateStoredDraftFromAddress d =
     await (readDraftObject (dr_draft_r2_key d)) (\<lambda>payload.
     validateDraftFromAddress (dr_tenant_id d) (dr_mailbox_id d) (str_or '''' (js_prop payload ''from'')))"

definition validateStoredDraftAttachments :: "draft_row \<Rightarrow> unit io" where
  "validateStoredDraftAttachments d =
     await (readDraftObject (dr_draft_r2_key d)) (\<lambda>payload.
     await (lift_result (parse_attachments
         (RouteRequestError ''Draft attachments must be an array when provided'' 400)
         (RouteRequestError ''Draft attachments must include filename, contentType, and r2Key'' 400) payload))
       (validateDraftAttachments (dr_tenant_id d) (dr_mailbox_id d)))"

definition require_credits :: "string \<Rightarrow> draft_recipients \<Rightarrow> string option \<Rightarrow> string option \<Rightarrow> unit io" where
  "require_credits tenantId r sourceMessageId createdVia =
     await (checkOutboundCreditRequirement tenantId (rcp_to r) (rcp_cc r) (rcp_bcc r) sourceMessageId createdVia)
       (\<lambda>check. if \<not> cc_sufficient check
                then throw (createInsufficientCreditsRouteError (cc_available check)
                       (cr_credits_required (cc_requirement check)))
                else ret ())"

definition require_policy :: "string \<Rightarrow> string \<Rightarrow> draft_recipients \<Rightarrow> unit io" where
  "require_policy tenantId agentId r =
     await (evaluateOutboundPolicy tenantId agentId (rcp_to r) (rcp_cc r) (rcp_bcc r) None) (\<lambda>decision.
     if \<not> pd_ok decision
     then throw (RouteRequestError (case pd_message decision of Some m \<Rightarrow> m
              | None \<Rightarrow> ''Outbound policy denied this send request'') (decision_status (pd_code decision)))
     else ret ())"

definition validateDraftOutboundCredits :: "draft_row \<Rightarrow> unit io" where
  "validateDraftOutboundCredits d =
     await (readStoredRecipients (dr_draft_r2_key d)) (\<lambda>recipients.
     require_credits (dr_tenant_id d) recipients (dr_source_message_id d) (dr_created_via d))"

definition validateDraftOutboundPolicy :: "draft_row \<Rightarrow> unit io" where
  "validateDraftOutboundPolicy d =
     await (readStoredRecipients (dr_draft_r2_key d)) (\<lambda>recipients.
     require_policy (dr_tenant_id d) (dr_agent_id d) recipients)"

definition validateActiveDraftMailbox :: "string \<Rightarrow> string \<Rightarrow> unit io" where
  "validateActiveDraftMailbox tenantId mailboxId =
     await (own_mailbox_or_throw tenantId mailboxId) (\<lambda>mailbox.
     if mb_status mailbox \<noteq> ''active'' then throw (RouteRequestError ''Mailbox is not active'' 409) else ret ())"

definition own_agent_or_throw :: "string \<Rightarrow> string \<Rightarrow> unit io" where
  "own_agent_or_throw tenantId agentId = await (getAgent agentId) (\<lambda>agent. case agent of
     None \<Rightarrow> throw (RouteRequestError ''Agent not found'' 404)
   | Some a \<Rightarrow>
       if ag_tenant_id a \<noteq> tenantId
       then throw (RouteRequestError ''Agent does not belong to tenant'' 409) else ret ())"

definition validateSendAgentBinding :: "string \<Rightarrow> string \<Rightarrow> string \<Rightarrow> unit io" where
  "validateSendAgentBinding tenantId agentId mailboxId =
     seq (own_agent_or_throw tenantId agentId)
     (await (hasActiveMailboxBinding agentId mailboxId send_capable_roles) (\<lambda>hasBinding.
      await (hasActiveMailboxBinding agentId mailboxId []) (\<lambda>hasAnyBinding.
      await (hasActiveMailboxDeployment agentId mailboxId) (\<lambda>hasDeployment.
      if \<not> hasBinding \<and> (\<not> hasDeployment \<or> hasAnyBinding)
      then throw (RouteRequestError ''Agent is not allowed to send for mailbox'' 403) else ret ()))))"

definition validateDraftAgentBinding :: "string \<Rightarrow> string \<Rightarrow> string \<Rightarrow> unit io" where
  "validateDraftAgentBinding tenantId agentId mailboxId =
     seq (own_agent_or_throw tenantId agentId)
     (await (own_mailbox_or_throw tenantId mailboxId) (\<lambda>_.
      await (hasActiveMailboxBinding agentId mailboxId []) (\<lambda>hasBinding.
      if hasBinding then ret ()
      else await (hasActiveMailboxDeployment agentId mailboxId) (\<lambda>hasDeployment.
           if \<not> hasDeployment then throw (RouteRequestError ''Agent is not active for mailbox'' 403)
           else ret ()))))"

section \<open>Replays\<close>

definition gone :: "string \<Rightarrow> js_error" where
  "gone what = RouteRequestError (''Stored idempotent '' @ what) 409"

text \<open>The draft of an interrupted request is sent after all.\<close>

definition resume_send :: "worker_env \<Rightarrow> draft_row \<Rightarrow> (draft_row \<times> outbound_job_row) io" where
  "resume_send env d =
     (if dr_status d \<noteq> DraftDraft \<and> dr_status d \<noteq> DraftApproved
      then throw (gone ''outbound job no longer exists'')
      else await (enqueueDraftSend env (dr_id d)) (\<lambda>resumed.
           await (getDraft (dr_id d)) (\<lambda>resumedDraft. case resumedDraft of
             None \<Rightarrow> throw (gone ''draft disappeared during replay recovery'')
           | Some d' \<Rightarrow> await (getOutboundJob resumed) (\<lambda>resumedJob. case resumedJob of
               None \<Rightarrow> throw (gone ''outbound job disappeared during replay recovery'')
             | Some j \<Rightarrow> ret (d', j)))))"

definition incomplete_result :: js_error where
  "incomplete_result = RouteRequestError ''Stored idempotent draft send result is incomplete'' 500"

definition restoreDraftSendReplay :: "worker_env \<Rightarrow> string option \<Rightarrow> (draft_row \<times> string) io" where
  "restoreDraftSendReplay env draftId =
     (if \<not> truthy draftId then throw incomplete_result
      else await (getDraft (the draftId)) (\<lambda>found. case found of
        None \<Rightarrow> throw (gone ''draft no longer exists'')
      | Some d \<Rightarrow>
          await (getOutboundJobByDraftR2Key (dr_draft_r2_key d)) (\<lambda>job.
          await (case job of Some j \<Rightarrow> ret (d, j) | None \<Rightarrow> resume_send env d) (\<lambda>(d', j).
          await (getMessage (oj_message_id j)) (\<lambda>message.
          if message = None then throw (gone ''outbound message no longer exists'')
          else ret (d', oj_id j))))))"

definition restoreEnqueuedDraftSend :: "string \<Rightarrow> string option \<Rightarrow> json io" where
  "restoreEnqueuedDraftSend draftId outboundJobId =
     (if \<not> truthy outboundJobId then throw incomplete_result
      else await (getDraft draftId) (\<lambda>found. case found of
        None \<Rightarrow> throw (gone ''draft no longer exists'')
      | Some d \<Rightarrow>
          await (getOutboundJob (the outboundJobId)) (\<lambda>job. case job of
            None \<Rightarrow> throw (gone ''outbound job no longer exists'')
          | Some j \<Rightarrow>
              await (getMessage (oj_message_id j)) (\<lambda>message.
              if message = None then throw (gone ''outbound message no longer exists'')
              else if oj_draft_r2_key j \<noteq> dr_draft_r2_key d
              then throw (gone ''outbound job does not belong to draft'')
              else ret (JObj [(''draftId'', JStr draftId), (''outboundJobId'', JStr (oj_id j)),
                     (''status'', JStr ''queued'')])))))"

section \<open>\<open>createAndSendDraft\<close>\<close>

record send_payload =
  sp_from :: string
  sp_to :: "string list"
  sp_cc :: "string list"
  sp_bcc :: "string list"
  sp_subject :: string
  sp_text :: string
  sp_html :: string
  sp_in_reply_to :: "string option"
  sp_references :: "string list"
  sp_attachments :: "draft_attachment list"

record send_request =
  sr_tenant_id :: string
  sr_agent_id :: string
  sr_mailbox_id :: string
  sr_thread_id :: "string option"
  sr_source_message_id :: "string option"
  sr_payload :: send_payload
  sr_created_via :: string
  sr_idempotency_key :: "string option"
  sr_request_fingerprint :: string

definition attachment_json :: "draft_attachment \<Rightarrow> json" where
  "attachment_json a = JObj [(''filename'', JStr (da_filename a)),
     (''contentType'', JStr (da_content_type a)), (''r2Key'', JStr (da_r2_key a))]"

definition payload_json :: "send_payload \<Rightarrow> json_object" where
  "payload_json p = defined_fields [(''from'', Some (JStr (sp_from p))),
     (''to'', Some (JArr (map JStr (sp_to p)))), (''cc'', Some (JArr (map JStr (sp_cc p)))),
     (''bcc'', Some (JArr (map JStr (sp_bcc p)))), (''subject'', Some (JStr (sp_subject p))),
     (''text'', Some (JStr (sp_text p))), (''html'', Some (JStr (sp_html p))),
     (''inReplyTo'', map_option JStr (sp_in_reply_to p)),
     (''references'', Some (JArr (map JStr (sp_references p)))),
     (''attachments'', Some (JArr (map attachment_json (sp_attachments p))))]"

definition payload_recipients :: "send_payload \<Rightarrow> draft_recipients" where
  "payload_recipients p = \<lparr>rcp_to = sp_to p, rcp_cc = sp_cc p, rcp_bcc = sp_bcc p\<rparr>"

definition validateCreateAndSendInput :: "send_request \<Rightarrow> unit io" where
  "validateCreateAndSendInput input =
     (let t = sr_tenant_id input; mb = sr_mailbox_id input; p = sr_payload input in
      if sp_text p = [] \<and> sp_html p = [] then throw (RouteRequestError ''text or html is required'' 400)
      else seq (validateDraftFromAddress t mb (sp_from p))
          (seq (validateActiveDraftMailbox t mb)
          (seq (validateSendAgentBinding t (sr_agent_id input) mb)
          (seq (validateDraftReferences t mb (sr_thread_id input) (sr_source_message_id input))
          (seq (validateDraftAttachments t mb (sp_attachments p))
          (seq (require_policy t (sr_agent_id input) (payload_recipients p))
               (require_credits t (payload_recipients p) (sr_source_message_id input)
                  (Some (sr_created_via input)))))))))"

definition create_draft_of :: "send_request \<Rightarrow> draft_row io" where
  "create_draft_of input = createDraft
     \<lparr>di_tenant_id = sr_tenant_id input, di_agent_id = sr_agent_id input,
      di_mailbox_id = sr_mailbox_id input, di_thread_id = sr_thread_id input,
      di_source_message_id = sr_source_message_id input,
      di_created_via = Some (sr_created_via input), di_payload = payload_json (sr_payload input)\<rparr>"

text \<open>What happens after \<open>sideEffectCommitted = true\<close>: its errors are marked.\<close>

definition committed :: "'a io \<Rightarrow> 'a io" where
  "committed m = try_catch m (\<lambda>e. throw (markSideEffectCommitted e))"

text \<open>A request without a key, and one that holds its key.\<close>

definition send_once :: "worker_env \<Rightarrow> send_request \<Rightarrow> json io" where
  "send_once env input =
     seq (validateCreateAndSendInput input)
     (await (create_draft_of input) (\<lambda>d.
      committed (await (enqueueDraftSend env (dr_id d)) (\<lambda>job.
        ret (buildQueuedCreateAndSendAcceptedResponse d job)))))"

definition send_under_key :: "worker_env \<Rightarrow> send_request \<Rightarrow> string \<Rightarrow> json io" where
  "send_under_key env input key =
     await (try_catch (seq (validateCreateAndSendInput input) (create_draft_of input))
              (\<lambda>e. seq (releaseIdempotencyKey ''draft_send'' (sr_tenant_id input) key) (throw e))) (\<lambda>d.
     committed
       (seq (updateIdempotencyKeyResource ''draft_send'' (sr_tenant_id input) key (dr_id d))
       (await (enqueueDraftSend env (dr_id d)) (\<lambda>job.
        let response = buildQueuedCreateAndSendAcceptedResponse d job in
        seq (completeIdempotencyKey ''draft_send'' (sr_tenant_id input) key response (Some (dr_id d)))
        (ret response)))))"

text \<open>A repeated request is validated again, and answered from what the first one left.\<close>

definition send_again :: "worker_env \<Rightarrow> send_request \<Rightarrow> string \<Rightarrow> idempotency_row \<Rightarrow> json io" where
  "send_again env input key r =
     seq (validateCreateAndSendInput input)
     (await (restoreDraftSendReplay env (idem_resource_id r)) (\<lambda>(d, job).
      let response = JObj (queued_draft d job) in
      seq (bestEffortCompleteRecoveredIdempotency ''draft_send'' (sr_tenant_id input) key response (Some (dr_id d)))
      (ret response)))"

text \<open>\<open>if (reservation.record.response)\<close>: a response that is falsy counts as none.\<close>

definition stored_response :: "idempotency_row \<Rightarrow> json option" where
  "stored_response r = (if json_truthy (idem_response r) then idem_response r else None)"

definition send_replay :: "worker_env \<Rightarrow> send_request \<Rightarrow> idempotency_row \<Rightarrow> json io" where
  "send_replay env input r =
     seq (validateCreateAndSendInput input)
     (if stored_response r \<noteq> None then ret (the (stored_response r))
      else await (restoreDraftSendReplay env (idem_resource_id r)) (\<lambda>(d, job).
          ret (JObj (queued_draft d job))))"

definition createAndSendDraft :: "worker_env \<Rightarrow> send_request \<Rightarrow> json io" where
  "createAndSendDraft env input = (case sr_idempotency_key input of
     None \<Rightarrow> send_once env input
   | Some given \<Rightarrow>
       let key = js_trim given in
       if key = [] then throw (RouteRequestError ''idempotencyKey must be a non-empty string'' 400)
       else await (reserveIdempotencyKey ''draft_send'' (sr_tenant_id input) key
                     (sr_request_fingerprint input) None) (\<lambda>reservation. case reservation of
         Conflict r \<Rightarrow> throw (RouteRequestError
           ''Idempotency key is already used for a different send request'' 409)
       | Pending r \<Rightarrow>
           if truthy (idem_resource_id r) then send_again env input key r
           else throw (RouteRequestError ''A send request with this idempotency key is already in progress'' 409)
       | Completed r \<Rightarrow> send_replay env input r
       | Reserved \<Rightarrow> send_under_key env input key))"

section \<open>The store invariant\<close>

lemma keeps_committed [keeps_intros]: "keeps I m \<Longrightarrow> keeps I (committed m)"
  unfolding committed_def by (intro keeps_intros)

lemma keeps_request_checks [keeps_intros]:
  "keeps (stored K es J) (own_mailbox_or_throw t mb)" "keeps (stored K es J) (own_agent_or_throw t a)"
  "keeps (stored K es J) (validateDraftReferences t mb th src)"
  "keeps (stored K es J) (validateDraftAttachments t mb atts)"
  "keeps (stored K es J) (readDraftObject k)" "keeps (stored K es J) (readStoredRecipients k)"
  unfolding own_mailbox_or_throw_def own_agent_or_throw_def validateDraftReferences_def
    validateDraftAttachments_def validate_attachment_def readDraftObject_def readStoredRecipients_def Let_def
  by (intro keeps_intros)+

lemma keeps_request_gates [keeps_intros]:
  "keeps (stored K es db_ok) (require_credits t r src via)" "keeps (stored K es db_ok) (require_policy t a r)"
  unfolding require_credits_def require_policy_def by (intro keeps_intros)+

lemma keeps_validateCreateAndSendInput [keeps_intros]:
  "keeps (stored K es db_ok) (validateCreateAndSendInput input)"
  unfolding validateCreateAndSendInput_def validateDraftFromAddress_def validateActiveDraftMailbox_def
    validateSendAgentBinding_def Let_def
  by (intro keeps_intros)

lemma keeps_send_restore [keeps_intros]:
  "keeps (stored K es db_ok) (restoreDraftSendReplay env i)" "keeps (stored K es db_ok) (restoreEnqueuedDraftSend d j)"
  unfolding restoreDraftSendReplay_def restoreEnqueuedDraftSend_def resume_send_def by (intro keeps_intros)+

lemma keeps_createAndSendDraft [keeps_intros]: "keeps (stored K es db_ok) (createAndSendDraft env input)"
  unfolding createAndSendDraft_def send_once_def send_under_key_def send_again_def send_replay_def
    create_draft_of_def bestEffortCompleteRecoveredIdempotency_def Let_def
  by (intro keeps_intros; (simp split: reservation.split)?; intro conjI allI impI keeps_intros)

end
