(* ===== verification/Provisioning.thy ===== *)
theory Provisioning
  imports HttpAuth AgentRegistry OutboundPolicy JsNumber
begin

text \<open>
  What the flows that hand out access share: \<open>src/lib/provisioning/default-access.ts\<close> (the token of a
  mailbox), \<open>src/lib/provisioning/welcome.ts\<close> (the mails that carry it) and
  \<open>src/lib/system-sends.ts\<close> (whether such a mail may leave).
\<close>

section \<open>The default token\<close>

text \<open>Settings are taken from \<open>Env\<close>: those of \<open>auth.ts\<close> and the lifetime of a token.\<close>

record access_env =
  access_auth :: auth_env
  SELF_SERVE_ACCESS_TOKEN_TTL_SECONDS :: "string option"

definition parsePositiveInteger :: "string option \<Rightarrow> int option" where
  "parsePositiveInteger v = (if \<not> truthy v then None
     else case js_parse_int (the v) of None \<Rightarrow> None | Some n \<Rightarrow> if n \<le> 0 then None else Some n)"

definition SELF_SERVE_DEFAULT_SCOPES :: "string list" where
  "SELF_SERVE_DEFAULT_SCOPES = [''task:read'', ''mail:read'', ''draft:create'', ''draft:read'', ''draft:send'']"

record issued_access =
  ia_token :: "string option"
  ia_expires_at :: "string option"
  ia_scopes :: "string list"

text \<open>\<open>new Date(ms).toISOString()\<close> throws outside the range of dates.\<close>

definition iso_or_throw :: "timestamp \<Rightarrow> string io" where
  "iso_or_throw ms = (if \<bar>ms\<bar> > 8640000000000000 then throw (PlainError ''Invalid time value'')
     else ret (iso_text ms))"

definition mint_for :: "auth_env \<Rightarrow> claims \<Rightarrow> int \<Rightarrow> issued_access io" where
  "mint_for env c ttlSeconds =
     await nowIso (\<lambda>now.
     let exp = now div 1000 + ttlSeconds in
     await (iso_or_throw (exp * 1000)) (\<lambda>expires.
     ret \<lparr>ia_token = Some (mintAccessToken env (the (API_SIGNING_SECRET env)) (c\<lparr>tk_exp := exp\<rparr>)),
          ia_expires_at = Some expires, ia_scopes = tk_scopes c\<rparr>))"

definition self_serve_claims :: "string \<Rightarrow> string \<Rightarrow> string \<Rightarrow> claims" where
  "self_serve_claims tenantId agentId mailboxId =
     \<lparr>tk_sub = ''self-serve:'' @ mailboxId, tk_tenant_id = tenantId, tk_agent_id = Some agentId,
      tk_scopes = SELF_SERVE_DEFAULT_SCOPES, tk_mailbox_ids = Some [mailboxId], tk_exp = 0\<rparr>"

definition not_for_token :: "string \<Rightarrow> js_error" where
  "not_for_token what = PlainError (what @ '' for self-serve access token'')"

definition issueSelfServeAccessToken :: "access_env \<Rightarrow> string \<Rightarrow> string \<Rightarrow> string \<Rightarrow> issued_access io" where
  "issueSelfServeAccessToken env tenantId agentId mailboxId =
     (if \<not> truthy (API_SIGNING_SECRET (access_auth env))
      then ret \<lparr>ia_token = None, ia_expires_at = None, ia_scopes = SELF_SERVE_DEFAULT_SCOPES\<rparr>
      else await (getAgent agentId) (\<lambda>agent. case agent of
        None \<Rightarrow> throw (not_for_token ''Agent not found'')
      | Some a \<Rightarrow>
        if ag_tenant_id a \<noteq> tenantId then throw (not_for_token ''Agent does not belong to tenant'')
        else await (getMailboxById mailboxId) (\<lambda>mailbox. case mailbox of
          None \<Rightarrow> throw (not_for_token ''Mailbox not found'')
        | Some m \<Rightarrow>
          if mb_tenant_id m \<noteq> tenantId then throw (not_for_token ''Mailbox does not belong to tenant'')
          else await (hasActiveMailboxBinding agentId mailboxId []) (\<lambda>hasBinding.
               await (if hasBinding then ret True else hasActiveMailboxDeployment agentId mailboxId) (\<lambda>live.
               if \<not> live then throw (not_for_token ''Agent is not active for mailbox'')
               else mint_for (access_auth env) (self_serve_claims tenantId agentId mailboxId)
                      (opt_or (parsePositiveInteger (SELF_SERVE_ACCESS_TOKEN_TTL_SECONDS env)) 2592000))))))"

section \<open>The mails that carry a token\<close>

record mail_text =
  wi_mailbox_address :: string
  wi_product_name :: string
  wi_agent_name :: string
  wi_token :: "string option"
  wi_expires_at :: "string option"
  wi_scopes :: "string list"

definition nl :: string where
  "nl = [CHR 0x0A]"

definition dq :: string where
  "dq = [CHR 0x22]"

definition escape_html_char :: "char \<Rightarrow> string" where
  "escape_html_char c = (if c = CHR ''&'' then ''&amp;'' else if c = CHR ''<'' then ''&lt;''
     else if c = CHR ''>'' then ''&gt;'' else if c = CHR 0x22 then ''&quot;''
     else if c = CHR 0x27 then ''&#39;'' else [c])"

definition escapeHtml :: "string \<Rightarrow> string" where
  "escapeHtml s = concat (map escape_html_char s)"

definition buildWelcomeText :: "mail_text \<Rightarrow> string" where
  "buildWelcomeText input = js_join nl (
     [''Your Mailagents mailbox is ready.'',
      '''',
      ''Product: '' @ wi_product_name input,
      ''Agent: '' @ wi_agent_name input,
      ''Mailbox: '' @ wi_mailbox_address input,
      '''',
      ''You can now use this mailbox for inbound email, transactional replies, and managed agent workflows.'',
      ''If you plan to send to external recipients, check credits and access policy first: GET /v1/billing/account and /limits.'',
      ''When a send is accepted, keep the returned outboundJobId and poll statusCheck.outboundJobPath to confirm pending, sent, or failed delivery state.'']
     @ (if truthy (wi_token input) then
      ['''',
      ''Default API access token'',
      ''Scopes: '' @ (js_join '', '' (wi_scopes input)),
      ''Expires at: '' @ (opt_or (wi_expires_at input) ''unknown''),
      '''',
      the (wi_token input),
      '''',
      ''Use this bearer token with the Mailagents API and MCP endpoints.'']
      else ['''',
      ''Default API access token could not be issued because API signing is not configured in this environment yet.''])
     @ [''Runtime metadata: https://api.mailagents.net/v2/meta/runtime'',
      ''Agent guide: https://github.com/haocn-ops/mailagents-email-runtime/blob/main/docs/llms-agent-guide.md''])"

definition buildTokenReissueText :: "mail_text \<Rightarrow> string" where
  "buildTokenReissueText input = js_join nl (
     [''Your Mailagents access token has been reissued.'',
      '''',
      ''Product: '' @ wi_product_name input,
      ''Agent: '' @ wi_agent_name input,
      ''Mailbox: '' @ wi_mailbox_address input,
      '''',
      ''If you are resuming outbound work, check current credits and access policy before treating arbitrary external delivery as ready: GET /v1/billing/account and /limits.'']
     @ (if truthy (wi_token input) then
      ['''',
      ''Refreshed API access token'',
      ''Scopes: '' @ (js_join '', '' (wi_scopes input)),
      ''Expires at: '' @ (opt_or (wi_expires_at input) ''unknown''),
      '''',
      the (wi_token input),
      '''',
      ''If you did not request this token, ignore this email and rotate credentials.'']
      else ['''',
      ''A new access token could not be issued because API signing is not configured in this environment yet.''])
     @ [''Runtime metadata: https://api.mailagents.net/v2/meta/runtime'',
      ''Agent guide: https://github.com/haocn-ops/mailagents-email-runtime/blob/main/docs/llms-agent-guide.md''])"

definition buildWelcomeHtml :: "mail_text \<Rightarrow> string" where
  "buildWelcomeHtml input = (let tokenSection =
      (if truthy (wi_token input)
       then ''<p><strong>Default API access token</strong><br />'' @ nl @ ''  <strong>Scopes:</strong> ''
       @ escapeHtml (js_join '', '' (wi_scopes input)) @ ''<br />'' @ nl
       @ ''  <strong>Expires at:</strong> '' @ escapeHtml (opt_or (wi_expires_at input) ''unknown'')
       @ ''</p>'' @ nl @ ''  <pre>'' @ escapeHtml (the (wi_token input)) @ ''</pre>'' @ nl
       @ ''  <p>Use this bearer token with the Mailagents API and MCP endpoints.</p>''
       else ''<p>Default API access token could not be issued because API signing is not configured in this environment yet.</p>'')
     in ''<p>Your Mailagents mailbox is ready.</p>'' @ nl @ ''  <p><strong>Product:</strong> ''
       @ escapeHtml (wi_product_name input) @ ''<br />'' @ nl @ ''  <strong>Agent:</strong> ''
       @ escapeHtml (wi_agent_name input) @ ''<br />'' @ nl @ ''  <strong>Mailbox:</strong> ''
       @ escapeHtml (wi_mailbox_address input) @ ''</p>'' @ nl
       @ ''  <p>You can now use this mailbox for inbound email, transactional replies, and managed agent workflows.</p>''
       @ nl @ ''  <p>If you plan to send to external recipients, check credits and access policy first with <code>GET /v1/billing/account</code> and <a href=''
       @ dq @ ''https://api.mailagents.net/limits'' @ dq @ ''>/limits</a>.</p>'' @ nl
       @ ''  <p>When a send is accepted, keep the returned <code>outboundJobId</code> and poll <code>statusCheck.outboundJobPath</code> to confirm whether delivery is still pending, sent, or failed.</p>''
       @ nl @ ''  '' @ tokenSection @ nl @ ''  <p><a href='' @ dq
       @ ''https://api.mailagents.net/v2/meta/runtime'' @ dq @ ''>Runtime metadata</a><br />'' @ nl
       @ ''  <a href='' @ dq
       @ ''https://github.com/haocn-ops/mailagents-email-runtime/blob/main/docs/llms-agent-guide.md''
       @ dq @ ''>AI agent guide</a></p>'')"

definition buildTokenReissueHtml :: "mail_text \<Rightarrow> string" where
  "buildTokenReissueHtml input = (let tokenSection =
      (if truthy (wi_token input)
       then ''<p><strong>Refreshed API access token</strong><br />'' @ nl
       @ ''  <strong>Scopes:</strong> '' @ escapeHtml (js_join '', '' (wi_scopes input)) @ ''<br />''
       @ nl @ ''  <strong>Expires at:</strong> '' @ escapeHtml (opt_or (wi_expires_at input) ''unknown'')
       @ ''</p>'' @ nl @ ''  <pre>'' @ escapeHtml (the (wi_token input)) @ ''</pre>'' @ nl
       @ ''  <p>If you did not request this token, ignore this email and rotate credentials.</p>''
       else ''<p>A new access token could not be issued because API signing is not configured in this environment yet.</p>'')
     in ''<p>Your Mailagents access token has been reissued.</p>'' @ nl
       @ ''  <p><strong>Product:</strong> '' @ escapeHtml (wi_product_name input) @ ''<br />'' @ nl
       @ ''  <strong>Agent:</strong> '' @ escapeHtml (wi_agent_name input) @ ''<br />'' @ nl
       @ ''  <strong>Mailbox:</strong> '' @ escapeHtml (wi_mailbox_address input) @ ''</p>'' @ nl
       @ ''  <p>If you are resuming outbound work, check current credits and access policy before treating arbitrary external delivery as ready with <code>GET /v1/billing/account</code> and <a href=''
       @ dq @ ''https://api.mailagents.net/limits'' @ dq @ ''>/limits</a>.</p>'' @ nl @ ''  ''
       @ tokenSection @ nl @ ''  <p><a href='' @ dq @ ''https://api.mailagents.net/v2/meta/runtime'' @ dq
       @ ''>Runtime metadata</a><br />'' @ nl @ ''  <a href='' @ dq
       @ ''https://github.com/haocn-ops/mailagents-email-runtime/blob/main/docs/llms-agent-guide.md''
       @ dq @ ''>AI agent guide</a></p>'')"

section \<open>System mails\<close>

definition ensureSystemSendAllowed ::
  "string \<Rightarrow> string \<Rightarrow> string list \<Rightarrow> string list \<Rightarrow> string list \<Rightarrow> string option \<Rightarrow> string option \<Rightarrow> unit io" where
  "ensureSystemSendAllowed tenantId agentId to cc bcc sourceMessageId createdVia =
     await (evaluateOutboundPolicy tenantId agentId to cc bcc None) (\<lambda>decision.
     if \<not> pd_ok decision
     then throw (OutboundSendValidationError (opt_or (pd_message decision) ''Outbound policy denied this send request'')
            (if pd_code decision = Some InvalidRecipientRouting then 400
             else if pd_code decision = Some DailyQuotaExceeded \<or> pd_code decision = Some HourlyQuotaExceeded then 429
             else 403))
     else await (checkOutboundCreditRequirement tenantId to cc bcc sourceMessageId createdVia) (\<lambda>creditCheck.
          if \<not> cc_sufficient creditCheck
          then throw (OutboundSendValidationError (''Insufficient credits for external sending. Required: ''
                 @ show_int (cr_credits_required (cc_requirement creditCheck)) @ '', available: ''
                 @ show_int (opt_or (cc_available creditCheck) 0)) 402)
          else ret ()))"

section \<open>The store invariant\<close>

lemma keeps_issueSelfServeAccessToken [keeps_intros]:
  "keeps (stored K es J) (issueSelfServeAccessToken env t a mb)"
  unfolding issueSelfServeAccessToken_def mint_for_def iso_or_throw_def Let_def by (intro keeps_intros)

lemma keeps_ensureSystemSendAllowed [keeps_intros]:
  "keeps (stored K es db_ok) (ensureSystemSendAllowed t a to cc bcc src via)"
  unfolding ensureSystemSendAllowed_def by (intro keeps_intros)

section \<open>Text in a page\<close>

text \<open>No text closes the element or the attribute it is put into.\<close>

lemma escaped_text_is_inert:
  "set (escapeHtml s) \<inter> {CHR ''<'', CHR ''>'', CHR 0x22, CHR 0x27} = {}"
  by (induction s) (auto simp: escapeHtml_def escape_html_char_def)

end
