(* ===== verification/EmailRouting.thy ===== *)
theory EmailRouting
  imports HttpAuth AgentAdmin
begin

text \<open>
  \<open>src/lib/cloudflare-email.ts\<close>, the rules by which Cloudflare routes mail to the Worker, and
  \<open>src/lib/contact-aliases.ts\<close>, which keeps the mailboxes and the rules of the contact addresses in
  order. A rule that Cloudflare returns outside its own schema is outside the model.
\<close>

section \<open>The Cloudflare API\<close>

record routing_env =
  CLOUDFLARE_API_TOKEN :: "string option"
  CLOUDFLARE_ZONE_ID :: "string option"
  CLOUDFLARE_EMAIL_DOMAIN :: "string option"
  CLOUDFLARE_EMAIL_WORKER :: "string option"
  CONTACT_ALIAS_ROUTING_BOOTSTRAP_ENABLED :: "string option"

record rule_matcher =
  rt_type :: string
  rt_field :: "string option"
  rt_value :: "string option"

record rule_action =
  ra_type :: string
  ra_value :: "string list option"

record routing_rule =
  rr_id :: string
  rr_matchers :: "rule_matcher list"
  rr_actions :: "rule_action list"

definition requireCloudflareEmailConfig :: "routing_env \<Rightarrow> refusal option" where
  "requireCloudflareEmailConfig env =
     (if \<not> truthy (CLOUDFLARE_API_TOKEN env) \<or> \<not> truthy (CLOUDFLARE_ZONE_ID env)
         \<or> \<not> truthy (CLOUDFLARE_EMAIL_DOMAIN env)
      then Some (Refusal 500 ''Cloudflare email routing admin is not configured'') else None)"

text \<open>One request: as with every call, it may be refused, or its reply may be lost.\<close>

definition fetch_cloudflare :: "string \<Rightarrow> string \<Rightarrow> json_object option \<Rightarrow> http_reply io" where
  "fetch_cloudflare method path body = (\<lambda>w.
     let n = ticks w; w' = w\<lparr>store_of := others w n (store_of w), ticks := Suc n\<rparr>;
         sent = w'\<lparr>outbox := outbox w @ [RoutingCall method path body]\<rparr>
     in case fault w n of
          Answered \<Rightarrow> (Inr (cloudflare w n), sent)
        | Refused e \<Rightarrow> (Inl (PlainError e), w')
        | ReplyLost e \<Rightarrow> (Inl (PlainError e), sent))"

definition cloudflare_message :: "json_object \<Rightarrow> string" where
  "cloudflare_message payload =
     (let m = (case js_prop payload ''errors'' of
            Some (JArr es) \<Rightarrow> js_join ''; '' (map (\<lambda>e. case e of JObj em \<Rightarrow> str_or '''' (js_prop em ''message'') | _ \<Rightarrow> '''') es)
          | _ \<Rightarrow> '''')
      in if m = [] then ''Cloudflare API request failed'' else m)"

definition callCloudflare :: "string \<Rightarrow> string \<Rightarrow> json_object option \<Rightarrow> json option io" where
  "callCloudflare method path body = await (fetch_cloudflare method path body) (\<lambda>response.
     case reply_body response of
       JsonBody (JObj payload) \<Rightarrow>
         if reply_status response < 200 \<or> 300 \<le> reply_status response \<or> \<not> json_truthy (js_prop payload ''success'')
         then throw (PlainError (cloudflare_message payload))
         else ret (js_prop payload ''result'')
     | JsonBody _ \<Rightarrow> throw (PlainError ''Cloudflare API request failed'')
     | _ \<Rightarrow> throw (PlainError ''Unexpected token in JSON''))"

definition rules_path :: "routing_env \<Rightarrow> string" where
  "rules_path env = ''/zones/'' @ opt_or (CLOUDFLARE_ZONE_ID env) ''undefined'' @ ''/email/routing/rules''"

definition matcher_of_json :: "json \<Rightarrow> rule_matcher option" where
  "matcher_of_json j = (case j of
     JObj m \<Rightarrow> Some \<lparr>rt_type = str_or '''' (js_prop m ''type''), rt_field = str_opt (js_prop m ''field''),
                    rt_value = str_opt (js_prop m ''value'')\<rparr>
   | _ \<Rightarrow> None)"

definition action_of_json :: "json \<Rightarrow> rule_action option" where
  "action_of_json j = (case j of
     JObj m \<Rightarrow> Some \<lparr>ra_type = str_or '''' (js_prop m ''type''),
                    ra_value = (case js_prop m ''value'' of Some (JArr vs) \<Rightarrow> Some (json_strings vs) | _ \<Rightarrow> None)\<rparr>
   | _ \<Rightarrow> None)"

definition rule_of_json :: "json \<Rightarrow> routing_rule option" where
  "rule_of_json j = (case j of
     JObj m \<Rightarrow> (case (js_prop m ''matchers'', js_prop m ''actions'') of
       (Some (JArr ms), Some (JArr as)) \<Rightarrow>
         if \<exists>x \<in> set ms. matcher_of_json x = None then None
         else if \<exists>x \<in> set as. action_of_json x = None then None
         else Some \<lparr>rr_id = str_or '''' (js_prop m ''id''), rr_matchers = map (the \<circ> matcher_of_json) ms,
                    rr_actions = map (the \<circ> action_of_json) as\<rparr>
     | _ \<Rightarrow> None)
   | _ \<Rightarrow> None)"

definition listEmailRoutingRules :: "routing_env \<Rightarrow> routing_rule list io" where
  "listEmailRoutingRules env = await (callCloudflare ''GET'' (rules_path env) None) (\<lambda>result. case result of
     Some (JArr rs) \<Rightarrow> if \<exists>r \<in> set rs. rule_of_json r = None then throw (PlainError ''rules is not iterable'')
                      else ret (map (the \<circ> rule_of_json) rs)
   | _ \<Rightarrow> throw (PlainError ''rules is not iterable''))"

definition rule_body :: "routing_env \<Rightarrow> string \<Rightarrow> string \<Rightarrow> string \<Rightarrow> string \<Rightarrow> json_object" where
  "rule_body env name type alias destination =
     [(''name'', JStr (alias @ name)), (''enabled'', JBool True), (''priority'', JNum 0),
      (''matchers'', JArr [JObj [(''type'', JStr ''literal''), (''field'', JStr ''to''),
         (''value'', JStr (alias @ ''@'' @ opt_or (CLOUDFLARE_EMAIL_DOMAIN env) ''undefined''))]]),
      (''actions'', JArr [JObj [(''type'', JStr type), (''value'', JArr [JStr destination])]])]"

text \<open>\<open>PUT\<close> of an existing rule, \<open>POST\<close> of a new one.\<close>

definition upsert_rule :: "routing_env \<Rightarrow> json_object \<Rightarrow> string option \<Rightarrow> unit io" where
  "upsert_rule env body existingRuleId =
     seq (if truthy existingRuleId
          then callCloudflare ''PUT'' (rules_path env @ ''/'' @ the existingRuleId) (Some body)
          else callCloudflare ''POST'' (rules_path env) (Some body))
         (ret ())"

definition upsertForwardingRule :: "routing_env \<Rightarrow> string \<Rightarrow> string \<Rightarrow> string option \<Rightarrow> unit io" where
  "upsertForwardingRule env alias destination existingRuleId =
     upsert_rule env (rule_body env '' forwarding'' ''forward'' alias destination) existingRuleId"

definition upsertWorkerRule :: "routing_env \<Rightarrow> string \<Rightarrow> string \<Rightarrow> string option \<Rightarrow> unit io" where
  "upsertWorkerRule env alias workerName existingRuleId =
     upsert_rule env (rule_body env '' inbox'' ''worker'' alias workerName) existingRuleId"

definition upsertCatchAllWorkerRule :: "routing_env \<Rightarrow> string \<Rightarrow> unit io" where
  "upsertCatchAllWorkerRule env workerName =
     seq (callCloudflare ''PUT'' (rules_path env @ ''/catch_all'') (Some
            [(''enabled'', JBool True), (''matchers'', JArr [JObj [(''type'', JStr ''all'')]]),
             (''actions'', JArr [JObj [(''type'', JStr ''worker''), (''value'', JArr [JStr workerName])]])]))
         (ret ())"

text \<open>\<open>rule.actions.find((action) => action.type === "worker")\<close>\<close>

definition worker_action :: "routing_rule \<Rightarrow> rule_action option" where
  "worker_action r = first_row (filter (\<lambda>a. ra_type a = ''worker'') (rr_actions r))"

definition runs_worker :: "routing_rule \<Rightarrow> string \<Rightarrow> bool" where
  "runs_worker r worker \<longleftrightarrow> (case Option.bind (worker_action r) ra_value of
     None \<Rightarrow> False | Some vs \<Rightarrow> worker \<in> set vs)"

definition isCatchAllWorkerRule :: "routing_rule \<Rightarrow> string option \<Rightarrow> bool" where
  "isCatchAllWorkerRule r workerName \<longleftrightarrow> (\<exists>m \<in> set (rr_matchers r). rt_type m = ''all'') \<and> worker_action r \<noteq> None
     \<and> (truthy workerName \<longrightarrow> runs_worker r (the workerName))"

definition deleteEmailRoutingRule :: "routing_env \<Rightarrow> string \<Rightarrow> unit io" where
  "deleteEmailRoutingRule env ruleId =
     seq (callCloudflare ''DELETE'' (rules_path env @ ''/'' @ ruleId) None) (ret ())"

section \<open>The contact addresses\<close>

definition CONTACT_ALIAS_LOCALPARTS :: "string list" where
  "CONTACT_ALIAS_LOCALPARTS = [''hello'', ''security'', ''privacy'', ''dmarc'']"

definition CONTACT_ALIAS_TENANT_ID :: string where
  "CONTACT_ALIAS_TENANT_ID = ''t_demo''"

definition PRESERVED_EXPLICIT_ALIAS_LOCALPARTS :: "string list" where
  "PRESERVED_EXPLICIT_ALIAS_LOCALPARTS = CONTACT_ALIAS_LOCALPARTS @ [''support'']"

definition shouldBootstrapContactAliasRouting :: "routing_env \<Rightarrow> bool" where
  "shouldBootstrapContactAliasRouting env = parseEnabledFlag (CONTACT_ALIAS_ROUTING_BOOTSTRAP_ENABLED env) False"

definition getContactAliasAddress :: "routing_env \<Rightarrow> string \<Rightarrow> string" where
  "getContactAliasAddress env alias = js_lower (alias @ ''@'' @ opt_or (CLOUDFLARE_EMAIL_DOMAIN env) ''undefined'')"

definition isManagedContactAliasAddress :: "routing_env \<Rightarrow> string \<Rightarrow> bool" where
  "isManagedContactAliasAddress env address \<longleftrightarrow> (let normalized = js_lower (js_trim address) in
     \<exists>alias \<in> set CONTACT_ALIAS_LOCALPARTS. normalized = getContactAliasAddress env alias)"

definition ensureManagedContactAliasMailbox :: "string \<Rightarrow> mailbox_row io" where
  "ensureManagedContactAliasMailbox address =
     try_catch
       (await (ensureMailboxWithStatus CONTACT_ALIAS_TENANT_ID address None) (\<lambda>(mailbox, created).
        if mb_status mailbox = ''active'' then ret mailbox
        else updateMailboxStatus (mb_id mailbox) ''active''))
       (\<lambda>e. case e of
          MailboxConflictError m \<Rightarrow> await (getMailboxByAddress address) (\<lambda>existing. case existing of
            None \<Rightarrow> throw e
          | Some m \<Rightarrow>
              if mb_tenant_id m \<noteq> CONTACT_ALIAS_TENANT_ID
              then throw (MailboxConflictError (''Managed contact alias '' @ address
                     @ '' is already owned by tenant '' @ mb_tenant_id m))
              else ret m)
        | _ \<Rightarrow> throw e)"

definition ensureManagedContactAliasMailboxes :: "routing_env \<Rightarrow> unit io" where
  "ensureManagedContactAliasMailboxes env =
     (if \<not> truthy (CLOUDFLARE_EMAIL_DOMAIN env) then ret ()
      else for_each CONTACT_ALIAS_LOCALPARTS (\<lambda>alias.
             seq (ensureManagedContactAliasMailbox (getContactAliasAddress env alias)) (ret ())))"

definition matches_address :: "routing_rule \<Rightarrow> string \<Rightarrow> bool" where
  "matches_address r address \<longleftrightarrow> (\<exists>m \<in> set (rr_matchers r).
     rt_type m = ''literal'' \<and> rt_field m = Some ''to'' \<and> rt_value m = Some address)"

definition isWorkerRuleForAlias :: "routing_env \<Rightarrow> string \<Rightarrow> routing_rule \<Rightarrow> bool" where
  "isWorkerRuleForAlias env alias r \<longleftrightarrow> matches_address r (getContactAliasAddress env alias)
     \<and> runs_worker r (opt_or (CLOUDFLARE_EMAIL_WORKER env) '''')"

definition routing_configured :: "routing_env \<Rightarrow> bool" where
  "routing_configured env \<longleftrightarrow> truthy (CLOUDFLARE_API_TOKEN env) \<and> truthy (CLOUDFLARE_ZONE_ID env)
     \<and> truthy (CLOUDFLARE_EMAIL_DOMAIN env) \<and> truthy (CLOUDFLARE_EMAIL_WORKER env)"

definition ensureManagedContactAliasRouting :: "routing_env \<Rightarrow> unit io" where
  "ensureManagedContactAliasRouting env =
     (if \<not> routing_configured env then ret ()
      else await (listEmailRoutingRules env) (\<lambda>rules.
           for_each CONTACT_ALIAS_LOCALPARTS (\<lambda>alias.
             let existing = first_row (filter (\<lambda>r. matches_address r (getContactAliasAddress env alias)) rules) in
             when_io (case existing of None \<Rightarrow> True | Some r \<Rightarrow> \<not> isWorkerRuleForAlias env alias r)
               (upsertWorkerRule env alias (the (CLOUDFLARE_EMAIL_WORKER env)) (map_option rr_id existing)))))"

text \<open>The address that a rule routes, in lower case.\<close>

definition routed_address :: "routing_rule \<Rightarrow> string option" where
  "routed_address r = map_option js_lower (Option.bind (first_row (filter (\<lambda>m. rt_type m = ''literal''
     \<and> rt_field m = Some ''to'' \<and> rt_value m \<noteq> None) (rr_matchers r))) rt_value)"

definition redundant_rule :: "routing_env \<Rightarrow> routing_rule \<Rightarrow> bool" where
  "redundant_rule env r \<longleftrightarrow>
     (let domain = js_lower (''@'' @ the (CLOUDFLARE_EMAIL_DOMAIN env)) in
      case routed_address r of
        None \<Rightarrow> False
      | Some address \<Rightarrow> address \<noteq> [] \<and> js_ends_with address domain
          \<and> runs_worker r (the (CLOUDFLARE_EMAIL_WORKER env))
          \<and> take (length address - length domain) address \<notin> set PRESERVED_EXPLICIT_ALIAS_LOCALPARTS)"

definition cleanupRedundantMailboxWorkerRules :: "routing_env \<Rightarrow> unit io" where
  "cleanupRedundantMailboxWorkerRules env =
     (if \<not> routing_configured env then ret ()
      else await (listEmailRoutingRules env) (\<lambda>rules.
           for_each rules (\<lambda>r. when_io (redundant_rule env r) (deleteEmailRoutingRule env (rr_id r)))))"

section \<open>The store invariant\<close>

lemma keeps_fetch_cloudflare [keeps_intros]: "keeps (stored K es J) (fetch_cloudflare m p b)"
  unfolding keeps_def stored_def seen_def fetch_cloudflare_def Let_def by (auto split: fault.splits)

lemma keeps_callCloudflare [keeps_intros]: "keeps (stored K es J) (callCloudflare m p b)"
  unfolding callCloudflare_def
  by (rule keeps_await [OF keeps_fetch_cloudflare]) (auto split: http_body.split json.split intro!: keeps_intros)

lemma keeps_listEmailRoutingRules [keeps_intros]: "keeps (stored K es J) (listEmailRoutingRules env)"
  unfolding listEmailRoutingRules_def
  by (rule keeps_await [OF keeps_callCloudflare]) (auto split: option.split json.split intro!: keeps_intros)

lemma keeps_rule_updates [keeps_intros]:
  "keeps (stored K es J) (upsert_rule env b i)" "keeps (stored K es J) (upsertCatchAllWorkerRule env n)"
  "keeps (stored K es J) (deleteEmailRoutingRule env ruleId)"
  unfolding upsert_rule_def upsertCatchAllWorkerRule_def deleteEmailRoutingRule_def by (intro keeps_intros)+

end
