(* ===== verification/TokenApi.thy ===== *)
theory TokenApi
  imports SendApi Provisioning EmailRouting EmailIngest
begin

text \<open>
  \<open>src/routes/api.ts\<close>, access: what the claims of a token allow on the current store, the rotation of
  a token, and the public reissue of a lost one, with its rate limits (\<open>token-reissue.ts\<close>). A route
  takes the parsed body of its request and answers with a status and a JSON document; the CORS
  headers are not kept.
\<close>

section \<open>Requests and answers\<close>

text \<open>\<open>String(v)\<close>\<close>

fun js_text :: "json \<Rightarrow> string" where
  "js_text JNull = ''null''"
| "js_text (JBool b) = (if b then ''true'' else ''false'')"
| "js_text (JNum n) = show_int n"
| "js_text (JStr s) = s"
| "js_text (JArr js) = js_join '','' (map (\<lambda>j. if j = JNull then [] else js_text j) js)"
| "js_text (JObj m) = ''[object Object]''"

record api_env =
  api_access :: access_env
  api_worker :: worker_env
  api_routing :: routing_env
  PUBLIC_TOKEN_REISSUE_MAILBOX_COOLDOWN_SECONDS :: "string option"
  PUBLIC_TOKEN_REISSUE_IP_WINDOW_SECONDS :: "string option"
  PUBLIC_TOKEN_REISSUE_IP_MAX_REQUESTS :: "string option"
  sha256 :: "string \<Rightarrow> string"

abbreviation api_auth :: "api_env \<Rightarrow> auth_env" where
  "api_auth env \<equiv> access_auth (api_access env)"

datatype reply = Reply nat json

definition error_reply :: "nat \<Rightarrow> string \<Rightarrow> reply" where
  "error_reply status message = Reply status (JObj [(''error'', JStr message)])"

definition badRequest :: "string \<Rightarrow> reply" where
  "badRequest message = error_reply 400 message"

primrec refused_with :: "refusal \<Rightarrow> reply" where
  "refused_with (Refusal status message) = error_reply status message"

definition readJson :: "http_body \<Rightarrow> json_object io" where
  "readJson body = (case body of
     JsonBody (JObj m) \<Rightarrow> ret m
   | JsonBody _ \<Rightarrow> throw (InvalidJsonBodyError ''JSON body must be an object'')
   | _ \<Rightarrow> throw (InvalidJsonBodyError ''Invalid JSON body''))"

definition readOptionalJson :: "http_body \<Rightarrow> json_object option io" where
  "readOptionalJson body = (if body = EmptyBody then ret None
     else await (readJson body) (\<lambda>m. ret (Some m)))"

text \<open>\<open>body.k?.trim()\<close>, which is a type error on what is not a string.\<close>

definition trimmed :: "json_object \<Rightarrow> string \<Rightarrow> string option io" where
  "trimmed m k = (case js_prop m k of
     None \<Rightarrow> ret None
   | Some JNull \<Rightarrow> ret None
   | Some (JStr s) \<Rightarrow> ret (Some (js_trim s))
   | Some _ \<Rightarrow> throw (PlainError ''trim is not a function''))"

section \<open>The rate limits of the reissue\<close>

definition getMailboxCooldownSeconds :: "api_env \<Rightarrow> int" where
  "getMailboxCooldownSeconds env =
     opt_or (parsePositiveInteger (PUBLIC_TOKEN_REISSUE_MAILBOX_COOLDOWN_SECONDS env)) 900"

definition getIpWindowSeconds :: "api_env \<Rightarrow> int" where
  "getIpWindowSeconds env = opt_or (parsePositiveInteger (PUBLIC_TOKEN_REISSUE_IP_WINDOW_SECONDS env)) 3600"

definition getIpMaxRequests :: "api_env \<Rightarrow> int" where
  "getIpMaxRequests env = opt_or (parsePositiveInteger (PUBLIC_TOKEN_REISSUE_IP_MAX_REQUESTS env)) 5"

definition hasRecentMailboxTokenReissue :: "string \<Rightarrow> timestamp \<Rightarrow> bool io" where
  "hasRecentMailboxTokenReissue mailboxAddress since =
     await (query (\<lambda>s. tbl_count (\<lambda>r. tr_mailbox_address r = js_lower mailboxAddress \<and> tr_requested_at r \<ge> since)
       (token_reissues s))) (\<lambda>n. ret (n > 0))"

definition countRecentIpTokenReissues :: "string \<Rightarrow> timestamp \<Rightarrow> nat io" where
  "countRecentIpTokenReissues requesterIpHash since =
     query (\<lambda>s. tbl_count (\<lambda>r. tr_requester_ip_hash r = Some requesterIpHash \<and> tr_requested_at r \<ge> since)
       (token_reissues s))"

definition logTokenReissueRequest :: "string \<Rightarrow> string option \<Rightarrow> unit io" where
  "logTokenReissueRequest mailboxAddress requesterIpHash =
     await nowIso (\<lambda>timestamp.
     await (createId ''trr'') (\<lambda>i.
     let row = \<lparr>tr_id = i, tr_mailbox_address = js_lower mailboxAddress,
                tr_requester_ip_hash = requesterIpHash, tr_requested_at = timestamp\<rparr> in
     seq (execute_checked (\<lambda>s. insert_checked token_reissues_update
            (\<exists>x \<in> set (token_reissues s). tr_id x = tr_id row) row s))
         (ret ())))"

text \<open>\<open>new Date(Date.now() - seconds * 1000).toISOString()\<close>\<close>

definition isoSecondsAgo :: "int \<Rightarrow> timestamp io" where
  "isoSecondsAgo seconds = await nowIso (\<lambda>now.
     let ms = now - seconds * 1000 in seq (iso_or_throw ms) (ret ms))"

definition hashRequesterIp :: "api_env \<Rightarrow> string option \<Rightarrow> string option" where
  "hashRequesterIp env ip = (case ip of None \<Rightarrow> None
     | Some a \<Rightarrow> if js_trim a = [] then None
                 else Some (concat (map (\<lambda>b. hex_byte (of_char b)) (sha256 env (utf8 (js_trim a))))))"

definition isMissingTableError :: "js_error \<Rightarrow> bool" where
  "isMissingTableError e \<longleftrightarrow> js_includes (js_lower (error_message e)) ''no such table''"

section \<open>Addresses\<close>

text \<open>\<open>/^[^\s@]+@[^\s@]+\.[^\s@]+$/\<close> and \<open>/^[a-z0-9][a-z0-9._+-]{2,31}$/\<close>\<close>

definition is_email :: "string \<Rightarrow> bool" where
  "is_email s \<longleftrightarrow> (case js_split CHR ''@'' s of
     [local, domain] \<Rightarrow> local \<noteq> [] \<and> domain \<noteq> [] \<and> CHR ''.'' \<in> set (butlast (tl domain))
   | _ \<Rightarrow> False) \<and> \<not> list_ex is_js_space s"

definition is_alias_char :: "char \<Rightarrow> bool" where
  "is_alias_char c \<longleftrightarrow> is_digit c \<or> (let n = (of_char c :: nat) in 97 \<le> n \<and> n \<le> 122)"

definition is_alias :: "string \<Rightarrow> bool" where
  "is_alias s \<longleftrightarrow> 3 \<le> length s \<and> length s \<le> 32 \<and> is_alias_char (hd s)
     \<and> list_all (\<lambda>c. is_alias_char c \<or> c \<in> set ''._+-'') s"

definition normalizeMailboxLookup :: "api_env \<Rightarrow> string option \<Rightarrow> string option \<Rightarrow> string + string option" where
  "normalizeMailboxLookup env mailboxAlias mailboxAddress =
     (if truthy mailboxAddress
      then (let address = js_lower (the mailboxAddress) in
            if is_email address then Inr (Some address)
            else Inl ''mailboxAddress must be a valid email address'')
      else if \<not> truthy mailboxAlias then Inr None
      else (let name = js_lower (the mailboxAlias) in
            if is_alias name then Inr (Some (name @ ''@'' @ opt_or (CLOUDFLARE_EMAIL_DOMAIN (api_routing env)) ''mailagents.net''))
            else Inl ''mailboxAlias must be 3-32 characters, start with a letter or digit, and use only lowercase letters, digits, ., _, +, or -''))"

section \<open>What the claims of a token allow\<close>

definition AGENT_REQUIRED_MAILBOX_SCOPES :: "string list" where
  "AGENT_REQUIRED_MAILBOX_SCOPES = [''task:read'', ''draft:create'', ''draft:read'', ''draft:send'', ''mail:replay'']"

definition active_for_mailbox :: "string \<Rightarrow> string \<Rightarrow> bool io" where
  "active_for_mailbox agentId mailboxId =
     await (hasActiveMailboxBinding agentId mailboxId []) (\<lambda>hasBinding.
     if hasBinding then ret True else hasActiveMailboxDeployment agentId mailboxId)"

definition check_scoped_mailbox :: "string \<Rightarrow> bool \<Rightarrow> string \<Rightarrow> unit io" where
  "check_scoped_mailbox agentId requiresSendCapability mailboxId =
     await (hasActiveMailboxBinding agentId mailboxId (if requiresSendCapability then send_capable_roles else []))
       (\<lambda>hasBinding.
     if hasBinding then ret ()
     else await (if requiresSendCapability then hasActiveMailboxBinding agentId mailboxId [] else ret False)
            (\<lambda>hasAnyBinding.
          await (hasActiveMailboxDeployment agentId mailboxId) (\<lambda>hasDeployment.
          if \<not> requiresSendCapability \<and> \<not> hasDeployment
          then throw (RouteRequestError ''agentId must be active for every mailboxId'' 409)
          else if requiresSendCapability \<and> (\<not> hasDeployment \<or> hasAnyBinding)
          then throw (RouteRequestError ''agentId must have send-capable access for every mailboxId'' 409)
          else ret ())))"

definition validateTokenAgentMailboxScopes :: "string option \<Rightarrow> string list \<Rightarrow> string list \<Rightarrow> unit io" where
  "validateTokenAgentMailboxScopes agentId mailboxIds scopes =
     (if mailboxIds = [] then ret ()
      else if (\<exists>scope \<in> set scopes. scope \<in> set AGENT_REQUIRED_MAILBOX_SCOPES) \<and> \<not> truthy agentId
      then throw (RouteRequestError
             ''agentId is required when mailboxIds are combined with task, draft, or replay scopes'' 409)
      else if \<not> truthy agentId then ret ()
      else for_each mailboxIds (check_scoped_mailbox (the agentId) (''draft:send'' \<in> set scopes)))"

primrec filter_io :: "('a \<Rightarrow> bool io) \<Rightarrow> 'a list \<Rightarrow> 'a list io" where
  "filter_io f [] = ret []"
| "filter_io f (x # xs) = await (f x) (\<lambda>keep. await (filter_io f xs) (\<lambda>ys. ret (if keep then x # ys else ys)))"

definition resolveActiveClaimMailboxIdsForAgent :: "claims \<Rightarrow> string \<Rightarrow> string list option io" where
  "resolveActiveClaimMailboxIdsForAgent c agentId =
     (if mailbox_ids c = [] then ret None
      else await (filter_io (active_for_mailbox agentId) (mailbox_ids c)) (\<lambda>ids. ret (Some ids)))"

definition canAgentSendForMailbox :: "string \<Rightarrow> string \<Rightarrow> bool io" where
  "canAgentSendForMailbox agentId mailboxId =
     await (hasActiveMailboxBinding agentId mailboxId send_capable_roles) (\<lambda>hasBinding.
     if hasBinding then ret True
     else await (hasActiveMailboxBinding agentId mailboxId []) (\<lambda>hasAnyBinding.
          if hasAnyBinding then ret False else hasActiveMailboxDeployment agentId mailboxId))"

text \<open>
  The mail that carries a reissued token to the operator is in the mailbox of the agent; a token of
  that mailbox does not see it.
\<close>

definition isMailboxScopedOperatorTokenDeliveryMessage :: "string \<Rightarrow> bool io" where
  "isMailboxScopedOperatorTokenDeliveryMessage messageId =
     await (getOutboundJobByMessageId messageId) (\<lambda>job. case job of
       None \<Rightarrow> ret False
     | Some j \<Rightarrow> await (getDraftByR2KeyForOutboundLifecycle (oj_draft_r2_key j)) (\<lambda>d.
         ret (case d of None \<Rightarrow> False
              | Some d \<Rightarrow> dr_created_via d = Some ''system:token_reissue_operator_email'')))"

definition enforceMailboxScopedMessageVisibility :: "claims \<Rightarrow> string \<Rightarrow> refusal option io" where
  "enforceMailboxScopedMessageVisibility c messageId =
     (if mailbox_ids c = [] then ret None
      else await (isMailboxScopedOperatorTokenDeliveryMessage messageId) (\<lambda>hidden.
           ret (if hidden then Some (Refusal 404 ''Message not found'') else None)))"

definition filterVisibleThreadForClaims :: "claims \<Rightarrow> thread_view \<Rightarrow> thread_view option io" where
  "filterVisibleThreadForClaims c thread =
     (if mailbox_ids c = [] then ret (Some thread)
      else await (filter_io (\<lambda>m. await (isMailboxScopedOperatorTokenDeliveryMessage (msg_id m))
                     (\<lambda>hidden. ret (\<not> hidden))) (tv_messages thread)) (\<lambda>visible.
           ret (if visible = [] then None else Some (thread\<lparr>tv_messages := visible\<rparr>))))"

definition thread_hidden :: "claims \<Rightarrow> string \<Rightarrow> bool io" where
  "thread_hidden c threadId =
     await (getThread threadId) (\<lambda>thread. case thread of
       None \<Rightarrow> ret False
     | Some t \<Rightarrow> await (filterVisibleThreadForClaims c t) (\<lambda>visible. ret (visible = None)))"

definition enforceMailboxScopedDraftReferenceVisibility ::
  "claims \<Rightarrow> string option \<Rightarrow> string option \<Rightarrow> refusal option io" where
  "enforceMailboxScopedDraftReferenceVisibility c threadId sourceMessageId =
     await (if truthy sourceMessageId then enforceMailboxScopedMessageVisibility c (the sourceMessageId)
            else ret None) (\<lambda>messageError.
     if messageError \<noteq> None then ret messageError
     else if \<not> truthy threadId then ret None
     else await (thread_hidden c (the threadId)) (\<lambda>hidden.
          ret (if hidden then Some (Refusal 404 ''Thread not found'') else None)))"

definition sanitizeDraftReferencesForClaims :: "claims \<Rightarrow> draft_row \<Rightarrow> draft_row io" where
  "sanitizeDraftReferencesForClaims c d =
     (if mailbox_ids c = [] then ret d
      else await (if truthy (dr_source_message_id d)
                  then enforceMailboxScopedMessageVisibility c (the (dr_source_message_id d)) else ret None)
             (\<lambda>messageError.
           await (if truthy (dr_thread_id d) then thread_hidden c (the (dr_thread_id d)) else ret False) (\<lambda>hidden.
           ret (d\<lparr>dr_source_message_id := if messageError \<noteq> None then None else dr_source_message_id d,
                  dr_thread_id := if hidden then None else dr_thread_id d\<rparr>))))"

text \<open>The agent and the mailbox that a token stands for.\<close>

definition requireSelfAgent :: "claims \<Rightarrow> refusal + string" where
  "requireSelfAgent c = (if \<not> truthy (tk_agent_id c)
     then Inl (Refusal 400 ''This token is not bound to a single agent'') else Inr (the (tk_agent_id c)))"

definition resolveSelfAgent :: "claims \<Rightarrow> (refusal + agent_row) io" where
  "resolveSelfAgent c = (case requireSelfAgent c of
     Inl r \<Rightarrow> ret (Inl r)
   | Inr agentId \<Rightarrow> await (getAgent agentId) (\<lambda>agent. ret (case agent of
       None \<Rightarrow> Inl (Refusal 404 ''Agent not found'')
     | Some a \<Rightarrow> if ag_tenant_id a \<noteq> tk_tenant_id c then Inl (Refusal 403 ''Tenant access denied'') else Inr a)))"

definition resolveSelfAgentForMailbox :: "claims \<Rightarrow> string \<Rightarrow> (refusal + agent_row) io" where
  "resolveSelfAgentForMailbox c mailboxId = await (resolveSelfAgent c) (\<lambda>agent. case agent of
     Inl r \<Rightarrow> ret (Inl r)
   | Inr a \<Rightarrow> await (active_for_mailbox (ag_id a) mailboxId) (\<lambda>live.
       ret (if \<not> live then Inl (Refusal 403 ''Agent is not active for mailbox'') else Inr a)))"

definition requireCurrentMailboxAccessForClaims :: "claims \<Rightarrow> string \<Rightarrow> refusal option io" where
  "requireCurrentMailboxAccessForClaims c mailboxId =
     (if \<not> truthy (tk_agent_id c) \<or> mailbox_ids c = [] then ret None
      else await (resolveSelfAgentForMailbox c mailboxId) (\<lambda>selfAgent.
           ret (case selfAgent of Inl r \<Rightarrow> Some r | Inr a \<Rightarrow> None)))"

definition resolveSelfMailbox :: "claims \<Rightarrow> (refusal + mailbox_row) io" where
  "resolveSelfMailbox c = (case mailbox_ids c of
     [mailboxId] \<Rightarrow>
       if mailboxId = [] then ret (Inl (Refusal 400 ''This token is not bound to a single mailbox''))
       else await (getMailboxById mailboxId) (\<lambda>mailbox. ret (case mailbox of
         None \<Rightarrow> Inl (Refusal 404 ''Mailbox not found'')
       | Some m \<Rightarrow> if mb_tenant_id m \<noteq> tk_tenant_id c then Inl (Refusal 403 ''Tenant access denied'') else Inr m))
   | _ \<Rightarrow> ret (Inl (Refusal 400 ''This token is not bound to a single mailbox'')))"

definition requireSelfServiceTenantAccess :: "claims \<Rightarrow> string \<Rightarrow> refusal option io" where
  "requireSelfServiceTenantAccess c tenantId = (case enforceTenantAccess c tenantId of
     Some r \<Rightarrow> ret (Some r)
   | None \<Rightarrow>
     if mailbox_ids c = []
     then ret (if truthy (tk_agent_id c) then Some (Refusal 403
            ''Only tenant-scoped or mailbox-scoped tokens can access self-service tenant resources'') else None)
     else if \<not> truthy (tk_agent_id c) \<or> length (mailbox_ids c) \<noteq> 1
     then ret (Some (Refusal 403
            ''Only tenant-scoped or single-mailbox self-serve tokens can access self-service tenant resources''))
     else if \<exists>scope \<in> set SELF_SERVE_DEFAULT_SCOPES. scope \<notin> set (tk_scopes c)
     then ret (Some (Refusal 403
            ''Mailbox-scoped self-serve access to tenant resources requires the default signup scopes''))
     else await (resolveSelfMailbox c) (\<lambda>mailbox. case mailbox of
            Inl r \<Rightarrow> ret (Some r)
          | Inr m \<Rightarrow> requireCurrentMailboxAccessForClaims c (mb_id m)))"

definition requireTenantScopedAccess :: "claims \<Rightarrow> refusal option" where
  "requireTenantScopedAccess c = (if truthy (tk_agent_id c) \<or> mailbox_ids c \<noteq> []
     then Some (Refusal 403 ''Only tenant-scoped tokens can access tenant-level resources'') else None)"

definition requireAgentControlPlaneAccess :: "claims \<Rightarrow> refusal option" where
  "requireAgentControlPlaneAccess c = (if mailbox_ids c \<noteq> []
     then Some (Refusal 403 ''Mailbox-scoped tokens cannot access agent control-plane resources'') else None)"

text \<open>The agent that a replayed message goes to.\<close>

definition agent_of_claims :: "claims \<Rightarrow> string \<Rightarrow> refusal option io" where
  "agent_of_claims c agentId = (case enforceScopedAgentAccess c agentId of
     Some r \<Rightarrow> ret (Some r)
   | None \<Rightarrow> await (getAgent agentId) (\<lambda>agent. ret (case agent of
       None \<Rightarrow> Some (Refusal 404 ''Agent not found'')
     | Some a \<Rightarrow> enforceTenantAccess c (ag_tenant_id a))))"

definition resolveReplayAgentTarget ::
  "claims \<Rightarrow> string \<Rightarrow> string option \<Rightarrow> (refusal + execution_target) io" where
  "resolveReplayAgentTarget c mailboxId requestedAgentId =
     (let agentId = map_option js_trim requestedAgentId in
      if truthy agentId
      then await (agent_of_claims c (the agentId)) (\<lambda>refused. case refused of
             Some r \<Rightarrow> ret (Inl r)
           | None \<Rightarrow> await (resolveAgentExecutionTarget mailboxId agentId receive_capable_roles) (\<lambda>target.
               ret (case target of
                 Some t \<Rightarrow> if xt_agent_id t = []
                   then Inl (Refusal 400 ''agentId must be active for the mailbox'') else Inr t
               | None \<Rightarrow> Inl (Refusal 400 ''agentId must be active for the mailbox''))))
      else await (resolveAgentExecutionTarget mailboxId None receive_capable_roles) (\<lambda>target.
           case (case target of Some t \<Rightarrow> if xt_agent_id t = [] then None else Some t | None \<Rightarrow> None) of
             None \<Rightarrow> ret (Inl (Refusal 400 ''agentId is required when the mailbox has no active agent deployment''))
           | Some t \<Rightarrow> await (agent_of_claims c (xt_agent_id t)) (\<lambda>refused.
               ret (case refused of Some r \<Rightarrow> Inl r | None \<Rightarrow> Inr t))))"

section \<open>Mails of the system\<close>

definition readAgentConfig :: "string \<Rightarrow> json_object option io" where
  "readAgentConfig configR2Key = await (r2_get configR2Key) (\<lambda>object. case object of
     None \<Rightarrow> ret None
   | Some ob \<Rightarrow> await (r2_json ob) (\<lambda>m. ret (Some m)))"

definition config_text :: "json_object option \<Rightarrow> string \<Rightarrow> string" where
  "config_text config k = (case config of None \<Rightarrow> '''' | Some m \<Rightarrow> js_trim (str_or '''' (js_prop m k)))"

definition product_name :: "json_object option \<Rightarrow> string" where
  "product_name config = (let n = config_text config ''productName'' in if n = [] then ''Mailagents'' else n)"

definition access_mail :: "string \<Rightarrow> string \<Rightarrow> string \<Rightarrow> issued_access \<Rightarrow> mail_text" where
  "access_mail address product agentName access =
     \<lparr>wi_mailbox_address = address, wi_product_name = product, wi_agent_name = agentName,
      wi_token = ia_token access, wi_expires_at = ia_expires_at access, wi_scopes = ia_scopes access\<rparr>"

definition system_draft ::
  "mailbox_row \<Rightarrow> string \<Rightarrow> string \<Rightarrow> string \<Rightarrow> string \<Rightarrow> string \<Rightarrow> string \<Rightarrow> draft_input" where
  "system_draft mailbox agentId createdVia to' subject body html =
     \<lparr>di_tenant_id = mb_tenant_id mailbox, di_agent_id = agentId, di_mailbox_id = mb_id mailbox,
      di_thread_id = None, di_source_message_id = None, di_created_via = Some createdVia,
      di_payload = [(''from'', JStr (mb_address mailbox)), (''to'', JArr [JStr to']),
        (''subject'', JStr subject), (''text'', JStr body), (''html'', JStr html), (''attachments'', JArr [])]\<rparr>"

text \<open>A draft that could not be queued is deleted again.\<close>

definition queue_or_discard :: "worker_env \<Rightarrow> draft_row \<Rightarrow> bool io" where
  "queue_or_discard env d = try_catch (seq (enqueueDraftSend env (dr_id d)) (ret True))
     (\<lambda>_. seq (catch_undefined (deleteDraftIfUnqueued (dr_id d))) (ret False))"

text \<open>The draft of the mail with a new token, or nothing when there is nobody to send it to.\<close>

definition reissue_draft :: "api_env \<Rightarrow> string \<Rightarrow> draft_row option io" where
  "reissue_draft env mailboxAddress =
     await (getMailboxByAddress mailboxAddress) (\<lambda>found. case found of
       None \<Rightarrow> ret None
     | Some mailbox \<Rightarrow>
       if mb_status mailbox \<noteq> ''active'' then ret None
       else await (resolveAgentExecutionTarget (mb_id mailbox) None send_capable_roles) (\<lambda>target. case target of
         None \<Rightarrow> ret None
       | Some t \<Rightarrow>
         if xt_agent_id t = [] then ret None
         else await (getAgent (xt_agent_id t)) (\<lambda>agent. case agent of
           None \<Rightarrow> ret None
         | Some a \<Rightarrow>
           if \<not> truthy (ag_config_r2_key a) then ret None
           else await (readAgentConfig (the (ag_config_r2_key a))) (\<lambda>config.
             let operatorEmail = js_lower (config_text config ''operatorEmail'') in
             if \<not> is_email operatorEmail then ret None
             else await (issueSelfServeAccessToken (api_access env) (mb_tenant_id mailbox) (xt_agent_id t) (mb_id mailbox))
                (\<lambda>access.
              seq (ensureSystemSendAllowed (mb_tenant_id mailbox) (xt_agent_id t) [operatorEmail] [] [] None
                     (Some ''system:token_reissue_operator_email''))
              (let m = access_mail (mb_address mailbox) (product_name config) (ag_name a) access in
               await (createDraft (system_draft mailbox (xt_agent_id t) ''system:token_reissue_operator_email''
                        operatorEmail (''Your refreshed Mailagents access token for '' @ mb_address mailbox)
                        (buildTokenReissueText m) (buildTokenReissueHtml m)))
                 (\<lambda>d. ret (Some d))))))))"

definition reissueMailboxAccessToken :: "api_env \<Rightarrow> string \<Rightarrow> bool io" where
  "reissueMailboxAccessToken env mailboxAddress =
     await (try_catch (reissue_draft env mailboxAddress) (\<lambda>_. ret None)) (\<lambda>created. case created of
       None \<Rightarrow> ret False
     | Some d \<Rightarrow> queue_or_discard (api_worker env) d)"

section \<open>Rotation\<close>

definition parseRotateTtlSeconds :: "api_env \<Rightarrow> int" where
  "parseRotateTtlSeconds env = (let v = SELF_SERVE_ACCESS_TOKEN_TTL_SECONDS (api_access env) in
     case (if truthy v then js_parse_int (the v) else None) of
       Some n \<Rightarrow> if n > 0 then n else 2592000
     | None \<Rightarrow> 2592000)"

definition check_bound_mailbox :: "claims \<Rightarrow> string \<Rightarrow> unit io" where
  "check_bound_mailbox c mailboxId = await (getMailboxById mailboxId) (\<lambda>mailbox. case mailbox of
     None \<Rightarrow> throw (RouteRequestError ''Bound mailbox not found'' 409)
   | Some m \<Rightarrow>
       if mb_tenant_id m \<noteq> tk_tenant_id c
       then throw (RouteRequestError ''Bound mailbox does not belong to tenant'' 409)
       else if mb_status m \<noteq> ''active'' then throw (RouteRequestError ''Bound mailbox is not active'' 409)
       else ret ())"

definition validateRotatedAccessClaims :: "claims \<Rightarrow> unit io" where
  "validateRotatedAccessClaims c =
     seq (if \<not> truthy (tk_agent_id c) then ret ()
          else await (getAgent (the (tk_agent_id c))) (\<lambda>agent. case agent of
              None \<Rightarrow> throw (RouteRequestError ''Bound agent not found'' 409)
            | Some a \<Rightarrow>
                if ag_tenant_id a \<noteq> tk_tenant_id c
                then throw (RouteRequestError ''Bound agent does not belong to tenant'' 409) else ret ()))
     (seq (for_each (mailbox_ids c) (check_bound_mailbox c))
          (validateTokenAgentMailboxScopes (tk_agent_id c) (mailbox_ids c) (tk_scopes c)))"

definition rotateAccessToken :: "api_env \<Rightarrow> claims \<Rightarrow> issued_access io" where
  "rotateAccessToken env c =
     (if \<not> truthy (API_SIGNING_SECRET (api_auth env))
      then ret \<lparr>ia_token = None, ia_expires_at = None, ia_scopes = tk_scopes c\<rparr>
      else seq (validateRotatedAccessClaims c) (mint_for (api_auth env) c (parseRotateTtlSeconds env)))"

definition resolveRotateMailboxId :: "claims \<Rightarrow> string option \<Rightarrow> string option" where
  "resolveRotateMailboxId c requested =
     (if truthy requested then requested
      else case mailbox_ids c of [m] \<Rightarrow> if m = [] then None else Some m | _ \<Rightarrow> None)"

text \<open>The agent that sends the mail: the one of the token, or the one that serves the mailbox.\<close>

definition delivering_agent :: "claims \<Rightarrow> string \<Rightarrow> string option io" where
  "delivering_agent c mailboxId =
     await (if truthy (tk_agent_id c) then canAgentSendForMailbox (the (tk_agent_id c)) mailboxId else ret False)
       (\<lambda>own.
     if own then ret (tk_agent_id c)
     else await (resolveAgentExecutionTarget mailboxId None send_capable_roles) (\<lambda>target.
          ret (case target of None \<Rightarrow> None | Some t \<Rightarrow> if xt_agent_id t = [] then None else Some (xt_agent_id t))))"

definition deliverRotatedTokenToSelfMailbox ::
  "api_env \<Rightarrow> claims \<Rightarrow> string \<Rightarrow> issued_access \<Rightarrow> bool io" where
  "deliverRotatedTokenToSelfMailbox env c mailboxId access =
     await (getMailboxById mailboxId) (\<lambda>found. case found of
       None \<Rightarrow> ret False
     | Some mailbox \<Rightarrow>
       if mb_status mailbox \<noteq> ''active'' then ret False
       else await (delivering_agent c mailboxId) (\<lambda>target. case target of
         None \<Rightarrow> ret False
       | Some agentId \<Rightarrow>
         await (getAgent agentId) (\<lambda>agent.
         await (case Option.bind agent ag_config_r2_key of None \<Rightarrow> ret None
                | Some k \<Rightarrow> if k = [] then ret None else readAgentConfig k) (\<lambda>config.
         let m = access_mail (mb_address mailbox) (product_name config)
                   (case agent of Some a \<Rightarrow> ag_name a | None \<Rightarrow> ''Mailagents Agent'') access in
         await (try_catch
             (seq (ensureSystemSendAllowed (mb_tenant_id mailbox) agentId [mb_address mailbox] [] [] None
                     (Some ''system:token_reissue_self_mailbox''))
             (await (createDraft (system_draft mailbox agentId ''system:token_reissue_self_mailbox''
                       (mb_address mailbox) (''Your rotated Mailagents access token for '' @ mb_address mailbox)
                       (buildTokenReissueText m) (buildTokenReissueHtml m)))
                (\<lambda>d. ret (Some d))))
             (\<lambda>_. ret None)) (\<lambda>created. case created of
           None \<Rightarrow> ret False
         | Some d \<Rightarrow> queue_or_discard (api_worker env) d)))))"

section \<open>The routes\<close>

definition reissue_accepted :: reply where
  "reissue_accepted = Reply 202 (JObj [(''accepted'', JBool True), (''message'',
     JStr ''If the mailbox exists, a refreshed access token will be emailed to the original operator inbox.'')])"

definition reissue_limited :: "api_env \<Rightarrow> string \<Rightarrow> string option \<Rightarrow> timestamp \<Rightarrow> timestamp \<Rightarrow> bool io" where
  "reissue_limited env mailboxAddress ipHash cooldownSince windowSince =
     try_catch
       (await (hasRecentMailboxTokenReissue mailboxAddress cooldownSince) (\<lambda>recent.
        if recent then ret True
        else case ipHash of None \<Rightarrow> ret False
             | Some h \<Rightarrow> await (countRecentIpTokenReissues h windowSince) (\<lambda>n.
                 ret (int n \<ge> getIpMaxRequests env))))
       (\<lambda>e. if isMissingTableError e then ret False else throw e)"

text \<open>\<open>POST /public/token/reissue\<close>\<close>

definition post_token_reissue :: "api_env \<Rightarrow> string option \<Rightarrow> http_body \<Rightarrow> reply io" where
  "post_token_reissue env ip requestBody =
     await (readJson requestBody) (\<lambda>body.
     await (trimmed body ''mailboxAddress'') (\<lambda>address.
     await (if truthy address then ret None else trimmed body ''mailboxAlias'') (\<lambda>name.
     case normalizeMailboxLookup env name address of
       Inl e \<Rightarrow> ret (badRequest e)
     | Inr None \<Rightarrow> ret (badRequest ''mailboxAlias or mailboxAddress is required'')
     | Inr (Some mailboxAddress) \<Rightarrow>
         let ipHash = hashRequesterIp env ip in
         await (isoSecondsAgo (getMailboxCooldownSeconds env)) (\<lambda>cooldownSince.
         await (isoSecondsAgo (getIpWindowSeconds env)) (\<lambda>windowSince.
         await (reissue_limited env mailboxAddress ipHash cooldownSince windowSince) (\<lambda>limited.
         if limited then ret reissue_accepted
         else seq (if \<not> truthy (API_SIGNING_SECRET (api_auth env)) then ret ()
                   else await (try_catch (reissueMailboxAccessToken env mailboxAddress) (\<lambda>_. ret False)) (\<lambda>queued.
                        when_io queued (catch_undefined (logTokenReissueRequest mailboxAddress ipHash))))
              (ret reissue_accepted)))))))"

text \<open>\<open>requireAuth\<close> on a request: a refusal is the answer.\<close>

definition with_auth :: "auth_env \<Rightarrow> string option \<Rightarrow> string list \<Rightarrow> (claims \<Rightarrow> reply io) \<Rightarrow> reply io" where
  "with_auth env authorization scopes handler =
     await nowIso (\<lambda>now. case requireAuth env now authorization scopes of
       Inl e \<Rightarrow> throw e
     | Inr (Inl r) \<Rightarrow> ret (refused_with r)
     | Inr (Inr c) \<Rightarrow> handler c)"

definition unless_refused :: "refusal option \<Rightarrow> reply io \<Rightarrow> reply io" where
  "unless_refused r k = (case r of Some r' \<Rightarrow> ret (refused_with r') | None \<Rightarrow> k)"

definition rotated_reply :: "string \<Rightarrow> issued_access \<Rightarrow> string \<Rightarrow> string option \<Rightarrow> reply" where
  "rotated_reply delivery access deliveryStatus deliveryMailboxId = Reply 201 (JObj (defined_fields
     [(''token'', if delivery = ''self_mailbox'' \<and> deliveryStatus = ''queued'' then None
                  else map_option JStr (ia_token access)),
      (''expiresAt'', map_option JStr (ia_expires_at access)),
      (''scopes'', Some (JArr (map JStr (ia_scopes access)))), (''delivery'', Some (JStr delivery)),
      (''deliveryStatus'', Some (JStr deliveryStatus)),
      (''deliveryMailboxId'', map_option JStr deliveryMailboxId),
      (''oldTokenRemainsValid'', Some (JBool True))]))"

definition rotate_and_deliver :: "api_env \<Rightarrow> claims \<Rightarrow> string \<Rightarrow> string option \<Rightarrow> reply io" where
  "rotate_and_deliver env c delivery targetMailboxId =
     await (rotateAccessToken env c) (\<lambda>rotated.
     if \<not> truthy (ia_token rotated) then ret (error_reply 500 ''Unable to issue rotated token'')
     else case targetMailboxId of
       None \<Rightarrow> ret (rotated_reply delivery rotated ''skipped'' None)
     | Some m \<Rightarrow> await (deliverRotatedTokenToSelfMailbox env c m rotated) (\<lambda>delivered.
         ret (rotated_reply delivery rotated (if delivered then ''queued'' else ''unavailable'') (Some m))))"

text \<open>\<open>POST /v1/auth/token/rotate\<close>\<close>

definition requested_delivery :: "json_object option \<Rightarrow> json" where
  "requested_delivery body = (case Option.bind body (\<lambda>m. js_prop m ''delivery'') of
     None \<Rightarrow> JStr ''inline'' | Some JNull \<Rightarrow> JStr ''inline'' | Some v \<Rightarrow> v)"

definition post_token_rotate :: "api_env \<Rightarrow> string option \<Rightarrow> http_body \<Rightarrow> reply io" where
  "post_token_rotate env authorization requestBody =
     with_auth (api_auth env) authorization [] (\<lambda>c.
     await (readOptionalJson requestBody) (\<lambda>body.
     let v = requested_delivery body in
     if v \<notin> set (map JStr [''inline'', ''self_mailbox'', ''both''])
     then ret (badRequest ''delivery must be one of: inline, self_mailbox, both'')
     else if v = JStr ''inline'' then rotate_and_deliver env c ''inline'' None
     else await (case body of None \<Rightarrow> ret None | Some m \<Rightarrow> trimmed m ''mailboxId'') (\<lambda>requested.
          if mailbox_ids c = [] then ret (badRequest ''self_mailbox delivery requires a mailbox-scoped token'')
          else case resolveRotateMailboxId c requested of
            None \<Rightarrow> ret (badRequest ''mailboxId is required for self_mailbox delivery when the token covers multiple or no mailboxes'')
          | Some target \<Rightarrow>
              unless_refused (enforceMailboxAccess c target)
                (await (requireCurrentMailboxAccessForClaims c target) (\<lambda>currentAccessError.
                 unless_refused currentAccessError (rotate_and_deliver env c (str_or '''' (Some v)) (Some target)))))))"

section \<open>The store invariant\<close>

lemma keeps_filter_io [keeps_intros]: "(\<And>x. keeps I (f x)) \<Longrightarrow> keeps I (filter_io f xs)"
  by (induction xs) (auto intro!: keeps_intros)

lemma keeps_token_reads [keeps_intros]:
  "keeps (stored K es J) (active_for_mailbox a mb)" "keeps (stored K es J) (canAgentSendForMailbox a mb)"
  "keeps (stored K es J) (validateTokenAgentMailboxScopes ag mbs scopes)"
  "keeps (stored K es J) (readAgentConfig k)" "keeps (stored K es J) (resolveSelfAgent c)"
  "keeps (stored K es J) (resolveSelfMailbox c)" "keeps (stored K es J) (check_bound_mailbox c mb)"
  "keeps (stored K es J) (hasRecentMailboxTokenReissue a since)"
  "keeps (stored K es J) (countRecentIpTokenReissues h since)"
  unfolding active_for_mailbox_def canAgentSendForMailbox_def validateTokenAgentMailboxScopes_def
    check_scoped_mailbox_def readAgentConfig_def resolveSelfAgent_def resolveSelfMailbox_def check_bound_mailbox_def
    hasRecentMailboxTokenReissue_def countRecentIpTokenReissues_def
  by (intro keeps_intros)+

lemma keeps_body_reads [keeps_intros]:
  "keeps (stored K es J) (trimmed body k)" "keeps (stored K es J) (readJson b)"
  unfolding trimmed_def readJson_def
  by (auto split: option.split json.split http_body.split intro!: keeps_intros)

lemma keeps_logTokenReissueRequest [keeps_intros]: "keeps (stored K es db_ok) (logTokenReissueRequest a h)"
  unfolding logTokenReissueRequest_def Let_def by (intro keeps_intros)

lemma keeps_queue_or_discard [keeps_intros]: "keeps (stored K es db_ok) (queue_or_discard env d)"
  unfolding queue_or_discard_def by (intro keeps_intros)

lemma keeps_reissueMailboxAccessToken [keeps_intros]:
  "keeps (stored K es db_ok) (reissueMailboxAccessToken env a)"
  unfolding reissueMailboxAccessToken_def reissue_draft_def Let_def by (intro keeps_intros)

lemma keeps_rotation [keeps_intros]:
  "keeps (stored K es J) (rotateAccessToken env c)"
  "keeps (stored K es db_ok) (deliverRotatedTokenToSelfMailbox env c mb access)"
  unfolding rotateAccessToken_def validateRotatedAccessClaims_def mint_for_def iso_or_throw_def
    deliverRotatedTokenToSelfMailbox_def delivering_agent_def Let_def
  by (intro keeps_intros)+

lemma keeps_post_token_reissue [keeps_intros]: "keeps (stored K es db_ok) (post_token_reissue env ip b)"
  unfolding post_token_reissue_def reissue_limited_def isoSecondsAgo_def iso_or_throw_def Let_def
  by (intro keeps_intros)

section \<open>The reissue\<close>

lemma returns_queue_or_discard [returns_intros]: "returns (queue_or_discard env d)"
  unfolding queue_or_discard_def by (intro returns_intros)

lemma returns_reissue [returns_intros]: "returns (reissueMailboxAccessToken env a)"
  unfolding reissueMailboxAccessToken_def by (intro returns_intros) (auto split: option.split intro: returns_intros)

text \<open>An undisturbed run of the rate limits answers, and any answer is the same.\<close>

lemma reissue_limited_returns: "quiet w \<Longrightarrow> \<exists>b w'. reissue_limited env a h t1 t2 w = (Inr b, w')"
  by (simp add: reissue_limited_def hasRecentMailboxTokenReissue_def countRecentIpTokenReissues_def run_simps
      split: option.split) auto

definition reissue_tail :: "api_env \<Rightarrow> string \<Rightarrow> string option \<Rightarrow> bool \<Rightarrow> reply io" where
  "reissue_tail env a h limited = (if limited then ret reissue_accepted
     else seq (if \<not> truthy (API_SIGNING_SECRET (api_auth env)) then ret ()
               else await (try_catch (reissueMailboxAccessToken env a) (\<lambda>_. ret False)) (\<lambda>queued.
                    when_io queued (catch_undefined (logTokenReissueRequest a h))))
          (ret reissue_accepted))"

lemma reissue_tail_answer: "fst (reissue_tail env a h limited w) = Inr reissue_accepted"
proof -
  have "returns (if \<not> truthy (API_SIGNING_SECRET (api_auth env)) then ret ()
      else await (try_catch (reissueMailboxAccessToken env a) (\<lambda>_. ret False)) (\<lambda>queued.
           when_io queued (catch_undefined (logTokenReissueRequest a h))))"
    by (auto intro!: returns_intros)
  then show ?thesis
    unfolding reissue_tail_def returns_def by (auto simp: seq_app ret_run split: sum.split prod.split)
       (metis fst_conv sum.distinct(1))
qed

definition reissue_core :: "api_env \<Rightarrow> string option \<Rightarrow> string \<Rightarrow> reply io" where
  "reissue_core env h a =
     await (isoSecondsAgo (getMailboxCooldownSeconds env)) (\<lambda>cooldownSince.
     await (isoSecondsAgo (getIpWindowSeconds env)) (\<lambda>windowSince.
     await (reissue_limited env a h cooldownSince windowSince) (reissue_tail env a h)))"

lemma seconds_ago_run:
  "isoSecondsAgo n w = (if \<bar>clock w (ticks w) - n * 1000\<bar> > 8640000000000000
     then Inl (PlainError ''Invalid time value'') else Inr (clock w (ticks w) - n * 1000), w)"
  by (simp add: isoSecondsAgo_def iso_or_throw_def run_simps)

lemma reissue_core_answer:
  "fst (reissue_core env h a w) = Inr r \<Longrightarrow> r = reissue_accepted"
  by (auto simp: reissue_core_def await_app seconds_ago_run reissue_tail_answer split: if_splits prod.splits sum.splits)

lemma reissue_core_quiet:
  "quiet w \<Longrightarrow> fst (reissue_core env h a w) =
     (if \<bar>clock w (ticks w) - getMailboxCooldownSeconds env * 1000\<bar> > 8640000000000000
         \<or> \<bar>clock w (ticks w) - getIpWindowSeconds env * 1000\<bar> > 8640000000000000
      then Inl (PlainError ''Invalid time value'') else Inr reissue_accepted)"
  using reissue_limited_returns [of w env a h "clock w (ticks w) - getMailboxCooldownSeconds env * 1000"
      "clock w (ticks w) - getIpWindowSeconds env * 1000"]
  by (auto simp: reissue_core_def await_app seconds_ago_run reissue_tail_answer)

lemma post_token_reissue_core:
  "post_token_reissue env ip b = await (readJson b) (\<lambda>body.
     await (trimmed body ''mailboxAddress'') (\<lambda>address.
     await (if truthy address then ret None else trimmed body ''mailboxAlias'') (\<lambda>name.
     case normalizeMailboxLookup env name address of
       Inl e \<Rightarrow> ret (badRequest e)
     | Inr None \<Rightarrow> ret (badRequest ''mailboxAlias or mailboxAddress is required'')
     | Inr (Some a) \<Rightarrow> reissue_core env (hashRequesterIp env ip) a)))"
  unfolding post_token_reissue_def reissue_core_def reissue_tail_def Let_def by (rule refl)

text \<open>Reading the request neither needs the world nor changes it.\<close>

lemma body_reads_run: "\<exists>x. \<forall>w. readJson b w = (x, w)" "\<exists>x. \<forall>w. trimmed m k w = (x, w)"
  unfolding readJson_def trimmed_def
  by (auto simp: run_simps split: http_body.split json.split option.split)

lemma reissue_reads:
  "\<exists>x. \<forall>env ip w. post_token_reissue env ip b w = (case x of
      Inl e \<Rightarrow> (Inl e, w)
    | Inr (name, address) \<Rightarrow> (case normalizeMailboxLookup env name address of
        Inl e \<Rightarrow> (Inr (badRequest e), w)
      | Inr None \<Rightarrow> (Inr (badRequest ''mailboxAlias or mailboxAddress is required''), w)
      | Inr (Some a) \<Rightarrow> reissue_core env (hashRequesterIp env ip) a w))"
proof -
  obtain j where j: "\<And>w. readJson b w = (j, w)" using body_reads_run(1) by blast
  obtain f where f: "\<And>m k w. trimmed m k w = (f m k, w)" using body_reads_run(2) by metis
  let ?x = "case j of Inl e \<Rightarrow> Inl e | Inr m \<Rightarrow> (case f m ''mailboxAddress'' of Inl e \<Rightarrow> Inl e
    | Inr address \<Rightarrow> if truthy address then Inr (None, address)
        else case f m ''mailboxAlias'' of Inl e \<Rightarrow> Inl e | Inr name \<Rightarrow> Inr (name, address))"
  show ?thesis
    by (rule exI [of _ ?x]) (auto simp: post_token_reissue_core await_app j f run_simps split: sum.split option.split)
qed

text \<open>
  C19. The public reissue of a token does not tell which mailboxes exist. Whatever the store holds and
  whatever calls fail, two requests with the same body that are answered get the same answer; and
  when no call fails and the clock is the same, they end alike, with an answer or with the same
  error.
\<close>

theorem reissue_reveals_nothing:
  assumes "fst (post_token_reissue env ip b w) = Inr r \<and> fst (post_token_reissue env ip' b w') = Inr r'
    \<or> quiet w \<and> quiet w' \<and> clock w (ticks w) = clock w' (ticks w')"
  shows "fst (post_token_reissue env ip b w) = fst (post_token_reissue env ip' b w')"
proof -
  obtain x where x: "\<And>env ip w. post_token_reissue env ip b w = (case x of
      Inl e \<Rightarrow> (Inl e, w)
    | Inr (name, address) \<Rightarrow> (case normalizeMailboxLookup env name address of
        Inl e \<Rightarrow> (Inr (badRequest e), w)
      | Inr None \<Rightarrow> (Inr (badRequest ''mailboxAlias or mailboxAddress is required''), w)
      | Inr (Some a) \<Rightarrow> reissue_core env (hashRequesterIp env ip) a w))"
    using reissue_reads [of b] by blast
  show ?thesis using assms unfolding x
    by (auto simp: reissue_core_quiet split: sum.splits option.splits prod.splits) (metis reissue_core_answer)
qed

definition demo_api_env :: api_env where
  "demo_api_env = \<lparr>api_access = \<lparr>access_auth = demo_auth_env, SELF_SERVE_ACCESS_TOKEN_TTL_SECONDS = None\<rparr>,
     api_worker = demo_env, api_routing = \<lparr>CLOUDFLARE_API_TOKEN = None, CLOUDFLARE_ZONE_ID = None,
       CLOUDFLARE_EMAIL_DOMAIN = Some ''mail.io'', CLOUDFLARE_EMAIL_WORKER = None,
       CONTACT_ALIAS_ROUTING_BOOTSTRAP_ENABLED = None\<rparr>,
     PUBLIC_TOKEN_REISSUE_MAILBOX_COOLDOWN_SECONDS = None, PUBLIC_TOKEN_REISSUE_IP_WINDOW_SECONDS = None,
     PUBLIC_TOKEN_REISSUE_IP_MAX_REQUESTS = None, sha256 = (\<lambda>s. s)\<rparr>"

theorem reissue_reveals_nothing_witness:
  "fst (post_token_reissue demo_api_env None (JsonBody (JObj [(''mailboxAddress'', JStr ''bot@mail.io'')]))
     (quiet_world (demo_store DraftApproved JobSent 5 1)))
   = fst (post_token_reissue demo_api_env None (JsonBody (JObj [(''mailboxAddress'', JStr ''bot@mail.io'')]))
     (quiet_world empty_store))"
  by (rule reissue_reveals_nothing) (simp add: quiet_world_def quiet_def)

section \<open>Rotation\<close>

definition bound_mailbox_live :: "claims \<Rightarrow> store \<Rightarrow> string \<Rightarrow> bool" where
  "bound_mailbox_live c s i \<longleftrightarrow>
     (\<exists>m \<in> set (mailboxes s). mb_id m = i \<and> mb_tenant_id m = tk_tenant_id c \<and> mb_status m = ''active'')"

lemma check_bound_run:
  "quiet w \<Longrightarrow> check_bound_mailbox c i w = (Inr (), w') \<Longrightarrow> w' = tick w \<and> bound_mailbox_live c (store_of w) i"
  by (auto simp: check_bound_mailbox_def getMailboxById_def run_simps bound_mailbox_live_def
      split: option.splits if_splits dest!: first_row_filter_Some)

lemma bound_mailboxes_run:
  "quiet w \<Longrightarrow> for_each ids (check_bound_mailbox c) w = (Inr (), w') \<Longrightarrow>
     quiet w' \<and> store_of w' = store_of w \<and> clock w' = clock w \<and> (\<forall>i \<in> set ids. bound_mailbox_live c (store_of w) i)"
proof (induction ids arbitrary: w)
  case Nil
  then show ?case by (simp add: run_simps)
next
  case (Cons i ids)
  from Cons.prems obtain w1 where w1: "check_bound_mailbox c i w = (Inr (), w1)"
      "for_each ids (check_bound_mailbox c) w1 = (Inr (), w')"
    by (auto simp: seq_app split: prod.splits sum.splits)
  from check_bound_run [OF Cons.prems(1) w1(1)] Cons.IH [OF _ w1(2)] Cons.prems(1) show ?case by auto
qed

lemma scoped_mailboxes_run:
  assumes "quiet w" "validateTokenAgentMailboxScopes ag ids scopes w = (Inr (), w')"
  shows "quiet w' \<and> store_of w' = store_of w \<and> clock w' = clock w"
proof -
  have "quiet w \<Longrightarrow> for_each ids (check_scoped_mailbox a snd) w = (Inr (), w') \<Longrightarrow>
      quiet w' \<and> store_of w' = store_of w \<and> clock w' = clock w" for a snd w
  proof (induction ids arbitrary: w)
    case (Cons i ids)
    from Cons.prems obtain w1 where "check_scoped_mailbox a snd i w = (Inr (), w1)"
        "for_each ids (check_scoped_mailbox a snd) w1 = (Inr (), w')"
      by (auto simp: seq_app split: prod.splits sum.splits)
    moreover from this(1) Cons.prems(1) have "quiet w1 \<and> store_of w1 = store_of w \<and> clock w1 = clock w"
      by (auto simp: check_scoped_mailbox_def hasActiveMailboxBinding_def hasActiveMailboxDeployment_def run_simps
          split: if_splits)
    ultimately show ?case using Cons.IH [of w1] by auto
  qed (simp add: run_simps)
  with assms show ?thesis
    by (auto simp: validateTokenAgentMailboxScopes_def run_simps split: if_splits)
qed

lemma rotated_claims_run:
  assumes "quiet w" "validateRotatedAccessClaims c w = (Inr (), w')"
  shows "quiet w' \<and> store_of w' = store_of w \<and> clock w' = clock w
    \<and> (\<forall>i \<in> set (mailbox_ids c). bound_mailbox_live c (store_of w) i)"
proof -
  obtain w1 w2 where w1: "w1 = w \<or> w1 = tick w"
    and w2: "for_each (mailbox_ids c) (check_bound_mailbox c) w1 = (Inr (), w2)"
      "validateTokenAgentMailboxScopes (tk_agent_id c) (mailbox_ids c) (tk_scopes c) w2 = (Inr (), w')"
    using assms unfolding validateRotatedAccessClaims_def seq_app getAgent_def
    by (auto simp: await_app quiet_query ret_run throw_run
        split: if_splits prod.splits sum.splits option.splits)
  from w1 assms(1) have q: "quiet w1" "store_of w1 = store_of w" "clock w1 = clock w" by auto
  from bound_mailboxes_run [OF q(1) w2(1)] scoped_mailboxes_run [OF _ w2(2)] q show ?thesis by simp
qed


definition demo_old :: claims where
  "demo_old = \<lparr>tk_sub = ''ada'', tk_tenant_id = ''t1'', tk_agent_id = Some ''agt1'',
     tk_scopes = [''mail:read''], tk_mailbox_ids = Some [''mbx1''], tk_exp = 100\<rparr>"

definition demo_new :: claims where
  "demo_new = demo_old\<lparr>tk_exp := 1774915200\<rparr>"

definition demo_signer :: auth_env where
  "demo_signer = demo_auth_env\<lparr>hmac_sha256 := (\<lambda>k m. k @ ''.'' @ m),
     parse_json := (\<lambda>t. if t = json_text (claims_json demo_new) then Some (claims_json demo_new) else None)\<rparr>"

definition demo_signing_env :: api_env where
  "demo_signing_env = demo_api_env\<lparr>api_access := \<lparr>access_auth = demo_signer, SELF_SERVE_ACCESS_TOKEN_TTL_SECONDS = None\<rparr>\<rparr>"

lemma demo_signing:
  "API_SIGNING_SECRET (api_auth demo_signing_env) = Some ''k''"
  "hmac_sha256 (api_auth demo_signing_env) k m = k @ ''.'' @ m"
  "parse_json (api_auth demo_signing_env) (json_text (claims_json demo_new)) = Some (claims_json demo_new)"
  "parseRotateTtlSeconds demo_signing_env = 2592000"
  "demo_old\<lparr>tk_exp := 1774915200\<rparr> = demo_new" "tk_tenant_id demo_new = ''t1''"
  by (simp_all add: demo_signing_env_def demo_signer_def demo_auth_env_def parseRotateTtlSeconds_def demo_new_def demo_old_def)

lemma demo_rotation:
  "\<exists>w'. rotateAccessToken demo_signing_env demo_old (quiet_world (demo_store DraftApproved JobSent 5 1))
     = (Inr \<lparr>ia_token = Some (mintAccessToken (api_auth demo_signing_env) ''k'' demo_new),
             ia_expires_at = Some (iso_text 1774915200000), ia_scopes = [''mail:read'']\<rparr>, w')"
proof -
  let ?w = "quiet_world (demo_store DraftApproved JobSent 5 1)"
  have "\<exists>w'. validateRotatedAccessClaims demo_old ?w = (Inr (), w') \<and> clock w' = clock ?w"
    by (simp add: validateRotatedAccessClaims_def demo_old_def mailbox_ids_def check_bound_mailbox_def getAgent_def
        getMailboxById_def run_simps validateTokenAgentMailboxScopes_def AGENT_REQUIRED_MAILBOX_SCOPES_def
        check_scoped_mailbox_def hasActiveMailboxBinding_def agent_view_def binding_active_def demo_defs comp_def
        visibility_defs)
  then obtain w' where w': "validateRotatedAccessClaims demo_old ?w = (Inr (), w')" "clock w' = clock ?w" by blast
  then show ?thesis
    by (simp add: rotateAccessToken_def demo_signing seq_app mint_for_def iso_or_throw_def run_simps quiet_world_def
        Let_def del: One_nat_def) (simp add: demo_old_def)
qed


end
