(* ===== verification/DidBindings.thy ===== *)
theory DidBindings
  imports TokenApi
begin

text \<open>
  \<open>src/repositories/did-bindings.ts\<close>, \<open>src/lib/did-web.ts\<close> and the routes of \<open>src/routes/api.ts\<close> on
  the DID of a tenant: the platform verifies only the DIDs that it hosts itself, and publishes only
  verified ones. \<open>new URL\<close> of the base address is given by its origin and its host. A member of a
  request that is no text is taken as an error where a text column is written.
\<close>

section \<open>The repository\<close>

definition parseServiceJson :: "json option \<Rightarrow> json_object list" where
  "parseServiceJson v = (case v of
     Some (JArr items) \<Rightarrow> List.map_filter (\<lambda>i. case i of JObj m \<Rightarrow> Some m | _ \<Rightarrow> None) items
   | _ \<Rightarrow> [])"

record did_binding =
  db_row :: did_binding_row
  db_service :: "json_object list"

definition mapDidBindingRow :: "did_binding_row \<Rightarrow> did_binding" where
  "mapDidBindingRow r = \<lparr>db_row = r, db_service = parseServiceJson (did_service r)\<rparr>"

definition binding_row :: "store \<Rightarrow> string \<Rightarrow> did_binding_row option" where
  "binding_row s tenantId = first_row (filter (\<lambda>r. did_tenant_id r = tenantId) (did_bindings s))"

definition getTenantDidBinding :: "string \<Rightarrow> did_binding option io" where
  "getTenantDidBinding tenantId = query (\<lambda>s. map_option mapDidBindingRow (binding_row s tenantId))"

record did_input =
  dn_tenant_id :: string
  dn_did :: string
  dn_method :: string
  dn_status :: string
  dn_document_url :: "string option"
  dn_verification_method_id :: "string option"
  dn_service :: json
  dn_verified_at :: "timestamp option"

text \<open>\<open>input.service?.length ? JSON.stringify(input.service) : null\<close>\<close>

definition stored_service :: "json \<Rightarrow> json option" where
  "stored_service v = (case v of
     JArr items \<Rightarrow> if items = [] then None else Some v
   | JStr s \<Rightarrow> if s = [] then None else Some v
   | JObj m \<Rightarrow> if json_truthy (js_prop m ''length'') then Some v else None
   | _ \<Rightarrow> None)"

definition row_of_did :: "did_input \<Rightarrow> timestamp \<Rightarrow> timestamp \<Rightarrow> did_binding_row" where
  "row_of_did input createdAt timestamp =
     \<lparr>did_tenant_id = dn_tenant_id input, did_did = dn_did input, did_method = dn_method input,
      did_document_url = dn_document_url input, did_status = dn_status input,
      did_verification_method_id = dn_verification_method_id input,
      did_service = stored_service (dn_service input), did_verified_at = dn_verified_at input,
      did_created_at = createdAt, did_updated_at = timestamp\<rparr>"

definition upsertTenantDidBinding :: "did_input \<Rightarrow> did_binding io" where
  "upsertTenantDidBinding input =
     await (getTenantDidBinding (dn_tenant_id input)) (\<lambda>existing.
     await nowIso (\<lambda>timestamp.
     let createdAt = (case existing of Some b \<Rightarrow> did_created_at (db_row b) | None \<Rightarrow> timestamp) in
     seq (try_catch (execute_checked (upsert_did (row_of_did input createdAt timestamp)))
            (\<lambda>e. throw (if isUniqueConstraintError e
               then DidBindingConflictError (''DID '' @ dn_did input
                      @ '' is already bound to another tenant; manual reconciliation is required'')
               else e)))
     (await (query (\<lambda>s. binding_row s (dn_tenant_id input))) (\<lambda>row.
      await (requireRow row ''Failed to load DID binding'') (\<lambda>r. ret (mapDidBindingRow r))))))"

section \<open>Hosted documents\<close>

record base_url =
  bu_origin :: string
  bu_host :: string

definition trimTrailingSlash :: "string \<Rightarrow> string" where
  "trimTrailingSlash v = (if js_ends_with v ''/'' then butlast v else v)"

definition formatDidWebHost :: "string \<Rightarrow> string" where
  "formatDidWebHost host = encodeURIComponent host"

text \<open>The DID and the address of its document.\<close>

definition buildHostedDidWeb :: "base_url \<Rightarrow> string \<Rightarrow> string \<times> string" where
  "buildHostedDidWeb base tenantId =
     (''did:web:'' @ formatDidWebHost (bu_host base) @ '':did:tenants:'' @ tenantId,
      trimTrailingSlash (bu_origin base) @ ''/did/tenants/'' @ tenantId @ ''/did.json'')"

definition hosted_service :: "base_url \<Rightarrow> string \<Rightarrow> string \<Rightarrow> string \<Rightarrow> string \<Rightarrow> string \<Rightarrow> json" where
  "hosted_service base did tenantId fragment type path = JObj
     [(''id'', JStr (did @ fragment)), (''type'', JStr type),
      (''serviceEndpoint'', JStr (bu_origin base @ path)), (''tenantId'', JStr tenantId)]"

definition defaultHostedDidServices :: "base_url \<Rightarrow> string \<Rightarrow> string \<Rightarrow> json list" where
  "defaultHostedDidServices base did tenantId =
     [hosted_service base did tenantId ''#api'' ''MailagentsApiService'' ''/v1'',
      hosted_service base did tenantId ''#mcp'' ''MailagentsMcpService'' ''/mcp'',
      hosted_service base did tenantId ''#payment'' ''MailagentsPaymentService'' ''/v1/billing/topup'']"

definition buildDidWebDocument :: "base_url \<Rightarrow> did_binding \<Rightarrow> json" where
  "buildDidWebDocument base b =
     (let r = db_row b;
          service = (if db_service b \<noteq> [] then map JObj (db_service b)
                     else defaultHostedDidServices base (did_did r) (did_tenant_id r))
      in JObj ([(''@context'', JArr [JStr ''https://www.w3.org/ns/did/v1'']), (''id'', JStr (did_did r)),
                (''service'', JArr service)]
         @ (if truthy (did_verification_method_id r)
            then [(''assertionMethod'', JArr [JStr (the (did_verification_method_id r))])] else [])))"

definition isPublishedHostedDidBinding :: "base_url \<Rightarrow> did_binding \<Rightarrow> bool" where
  "isPublishedHostedDidBinding base b \<longleftrightarrow>
     (let r = db_row b; hosted = buildHostedDidWeb base (did_tenant_id r) in
      did_method r = ''did:web'' \<and> did_status r = ''verified''
      \<and> did_did r = fst hosted \<and> did_document_url r = Some (snd hosted))"

section \<open>The routes\<close>

definition binding_json :: "did_binding \<Rightarrow> json" where
  "binding_json b = (let r = db_row b in JObj (defined_fields
     [(''tenantId'', Some (JStr (did_tenant_id r))), (''did'', Some (JStr (did_did r))),
      (''method'', Some (JStr (did_method r))), (''documentUrl'', map_option JStr (did_document_url r)),
      (''status'', Some (JStr (did_status r))),
      (''verificationMethodId'', map_option JStr (did_verification_method_id r)),
      (''service'', Some (JArr (map JObj (db_service b)))),
      (''verifiedAt'', map_option (JStr \<circ> iso_text) (did_verified_at r)),
      (''createdAt'', Some (JStr (iso_text (did_created_at r)))),
      (''updatedAt'', Some (JStr (iso_text (did_updated_at r))))]))"

definition with_tenant :: "api_env \<Rightarrow> string option \<Rightarrow> string \<Rightarrow> reply io \<Rightarrow> reply io" where
  "with_tenant env authorization tenantId handler =
     with_auth (api_auth env) authorization [] (\<lambda>c.
     await (requireSelfServiceTenantAccess c tenantId) (\<lambda>accessError. unless_refused accessError handler))"

text \<open>\<open>GET /v1/tenants/:tenantId/did\<close>\<close>

definition get_tenant_did :: "api_env \<Rightarrow> string option \<Rightarrow> string \<Rightarrow> reply io" where
  "get_tenant_did env authorization tenantId = with_tenant env authorization tenantId
     (await (getTenantDidBinding tenantId) (\<lambda>b. ret (case b of
        None \<Rightarrow> error_reply 404 ''DID binding not found'' | Some b \<Rightarrow> Reply 200 (binding_json b))))"

text \<open>\<open>POST /v1/tenants/:tenantId/did/hosted\<close>\<close>

definition post_hosted_did :: "api_env \<Rightarrow> base_url \<Rightarrow> string option \<Rightarrow> string \<Rightarrow> reply io" where
  "post_hosted_did env base authorization tenantId = with_tenant env authorization tenantId
     (await nowIso (\<lambda>verifiedAt.
      let hosted = buildHostedDidWeb base tenantId in
      await (upsertTenantDidBinding \<lparr>dn_tenant_id = tenantId, dn_did = fst hosted, dn_method = ''did:web'',
          dn_status = ''verified'', dn_document_url = Some (snd hosted), dn_verification_method_id = None,
          dn_service = JArr (defaultHostedDidServices base (fst hosted) tenantId),
          dn_verified_at = Some verifiedAt\<rparr>) (\<lambda>b. ret (Reply 200 (binding_json b)))))"

definition bound_text :: "json option \<Rightarrow> string io" where
  "bound_text v = (case v of Some (JStr s) \<Rightarrow> ret s | _ \<Rightarrow> throw (PlainError ''D1_TYPE_ERROR''))"

text \<open>\<open>PUT /v1/tenants/:tenantId/did\<close>\<close>

definition put_tenant_did :: "api_env \<Rightarrow> string option \<Rightarrow> string \<Rightarrow> http_body \<Rightarrow> reply io" where
  "put_tenant_did env authorization tenantId requestBody = with_tenant env authorization tenantId
     (await (readJson requestBody) (\<lambda>body.
      if \<not> json_truthy (js_prop body ''did'') \<or> \<not> json_truthy (js_prop body ''method'')
         \<or> \<not> json_truthy (js_prop body ''status'')
      then ret (badRequest ''did, method, and status are required'')
      else if js_prop body ''status'' = Some (JStr ''verified'')
      then ret (error_reply 403 ''Tenants cannot self-mark DID bindings as verified'')
      else if json_truthy (js_prop body ''verificationMethodId'') \<or> json_truthy (js_prop body ''verifiedAt'')
      then ret (error_reply 403 ''verificationMethodId and verifiedAt are managed by the platform'')
      else await (bound_text (js_prop body ''did'')) (\<lambda>did.
           await (bound_text (js_prop body ''method'')) (\<lambda>method.
           await (bound_text (js_prop body ''status'')) (\<lambda>status.
           await (case js_prop body ''documentUrl'' of None \<Rightarrow> ret None | Some JNull \<Rightarrow> ret None
                  | v \<Rightarrow> await (bound_text v) (\<lambda>u. ret (Some u))) (\<lambda>documentUrl.
           await (upsertTenantDidBinding \<lparr>dn_tenant_id = tenantId, dn_did = did, dn_method = method,
               dn_status = status, dn_document_url = documentUrl, dn_verification_method_id = None,
               dn_service = (case js_prop body ''service'' of None \<Rightarrow> JArr [] | Some JNull \<Rightarrow> JArr []
                             | Some v \<Rightarrow> v),
               dn_verified_at = None\<rparr>) (\<lambda>b. ret (Reply 200 (binding_json b)))))))))"

text \<open>\<open>GET /did/tenants/:tenantId/did.json\<close>\<close>

definition get_did_document :: "base_url \<Rightarrow> string \<Rightarrow> reply io" where
  "get_did_document base tenantId = await (getTenantDidBinding tenantId) (\<lambda>b. ret (case b of
     None \<Rightarrow> error_reply 404 ''DID document not found''
   | Some b \<Rightarrow> if \<not> isPublishedHostedDidBinding base b then error_reply 404 ''DID document not found''
               else Reply 200 (buildDidWebDocument base b)))"

section \<open>Only the platform verifies\<close>

definition hosted_row :: "base_url \<Rightarrow> did_binding_row \<Rightarrow> bool" where
  "hosted_row base r \<longleftrightarrow> (let hosted = buildHostedDidWeb base (did_tenant_id r) in
     did_method r = ''did:web'' \<and> did_did r = fst hosted \<and> did_document_url r = Some (snd hosted))"

definition verified_hosted :: "base_url \<Rightarrow> store \<Rightarrow> bool" where
  "verified_hosted base s \<longleftrightarrow> db_ok s
     \<and> (\<forall>r \<in> set (did_bindings s). did_status r = ''verified'' \<longrightarrow> hosted_row base r)"

lemma db_ok_upsert_did:
  assumes "db_ok s" "upsert_did row s = Some (n, s')"
  shows "db_ok s'"
proof -
  have "stored {} [] db_ok (snd (execute_checked (upsert_did row) (quiet_world s)))"
    by (rule keepsD [OF keeps_upsert_did]) (simp add: assms(1))
  then show ?thesis by (simp add: quiet_checked_Some [OF quiet_quiet_world] assms(2) stored_def)
qed

lemma keeps_upsert_hosted:
  assumes "did_status row = ''verified'' \<Longrightarrow> hosted_row base row"
  shows "keeps (stored K es (verified_hosted base)) (execute_checked (upsert_did row))"
proof (rule keeps_stored_checked)
  fix s n s'
  assume s: "verified_hosted base s" and up: "upsert_did row s = Some (n, s')"
  have "hosted_row base (row\<lparr>did_created_at := c\<rparr>) = hosted_row base row" for c by (simp add: hosted_row_def)
  then have "\<forall>r \<in> set (did_bindings s'). did_status r = ''verified'' \<longrightarrow> hosted_row base r"
    using s up assms by (auto simp: verified_hosted_def upsert_did_def update_rows_def insert_unless_def
        set_tbl_update split: if_splits)
  then show "verified_hosted base s'" using db_ok_upsert_did [OF _ up] s by (simp add: verified_hosted_def)
qed

lemma keeps_upsertTenantDidBinding:
  assumes "dn_status input = ''verified'' \<Longrightarrow>
     dn_method input = ''did:web'' \<and> dn_did input = fst (buildHostedDidWeb base (dn_tenant_id input))
     \<and> dn_document_url input = Some (snd (buildHostedDidWeb base (dn_tenant_id input)))"
  shows "keeps (stored K es (verified_hosted base)) (upsertTenantDidBinding input)"
  unfolding upsertTenantDidBinding_def getTenantDidBinding_def Let_def
  by (intro keeps_intros keeps_upsert_hosted) (use assms in \<open>simp add: hosted_row_def row_of_did_def\<close>)

lemma keeps_with_tenant:
  "keeps (stored K es J) handler \<Longrightarrow> keeps (stored K es J) (with_tenant env authorization tenantId handler)"
  unfolding with_tenant_def with_auth_def unless_refused_def requireSelfServiceTenantAccess_def
    requireCurrentMailboxAccessForClaims_def resolveSelfAgentForMailbox_def
  by (intro keeps_intros)

lemma keeps_bound_text [keeps_intros]: "keeps (stored K es J) (bound_text v)"
  unfolding bound_text_def by (auto split: option.split json.split intro!: keeps_intros)

lemma yields_status: "yields (bound_text v) (\<lambda>t. v = Some (JStr t))"
  by (auto simp: yields_def bound_text_def ret_def throw_def split: option.splits json.splits)


definition demo_base :: base_url where
  "demo_base = \<lparr>bu_origin = ''https://api.mailagents.net'', bu_host = ''api.mailagents.net''\<rparr>"


end
