(* ===== verification/Maintenance.thy ===== *)
theory Maintenance
  imports Idempotency JsNumber
begin

text \<open>
  \<open>src/handlers/scheduled.ts\<close>: old idempotency keys are deleted, those of completed requests after a
  week and those of pending ones after an hour, unless the settings say otherwise.
\<close>

section \<open>\<open>Number\<close>\<close>

text \<open>
  \<open>Number(text)\<close>: a decimal number in white space, or digits of another base after \<open>0x\<close>, \<open>0o\<close> or
  \<open>0b\<close>; the empty text is 0. \<^const>\<open>None\<close> stands for the results that the caller rejects as well,
  \<open>NaN\<close>, \<open>Infinity\<close> and the negative numbers.
\<close>

definition hex_digit_value :: "char \<Rightarrow> nat option" where
  "hex_digit_value c = (let n = (of_char c :: nat) in
     if 48 \<le> n \<and> n \<le> 57 then Some (n - 48) else if 97 \<le> n \<and> n \<le> 102 then Some (n - 87)
     else if 65 \<le> n \<and> n \<le> 70 then Some (n - 55) else None)"

definition based_number :: "nat \<Rightarrow> string \<Rightarrow> rat option" where
  "based_number base ds =
     (if ds = [] \<or> (\<exists>c \<in> set ds. case hex_digit_value c of None \<Rightarrow> True | Some d \<Rightarrow> d \<ge> base) then None
      else to_double (of_nat (foldl (\<lambda>acc c. acc * base + the (hex_digit_value c)) 0 ds)))"

definition is_exponent :: "string \<Rightarrow> bool" where
  "is_exponent s \<longleftrightarrow> s = [] \<or> (starts_with_one_of s ''eE''
     \<and> (let r = tl s; ds = (if starts_with_one_of r ''+-'' then tl r else r) in ds \<noteq> [] \<and> list_all is_digit ds))"

definition is_decimal :: "string \<Rightarrow> bool" where
  "is_decimal s \<longleftrightarrow>
     (let u = (if starts_with_one_of s ''+'' then tl s else s);
          ip = takeWhile is_digit u; r = dropWhile is_digit u;
          dot = starts_with_one_of r ''.'';
          fp = (if dot then takeWhile is_digit (tl r) else []);
          r' = (if dot then dropWhile is_digit (tl r) else r)
      in (ip \<noteq> [] \<or> fp \<noteq> []) \<and> is_exponent r')"

definition js_number :: "string \<Rightarrow> rat option" where
  "js_number raw = (let s = js_trim raw; two = js_lower (take 2 s) in
     if s = [] then Some 0
     else if two = ''0x'' then based_number 16 (drop 2 s)
     else if two = ''0o'' then based_number 8 (drop 2 s)
     else if two = ''0b'' then based_number 2 (drop 2 s)
     else if is_decimal s then js_parse_float s else None)"

section \<open>The handler\<close>

record retention_env =
  IDEMPOTENCY_COMPLETED_RETENTION_HOURS :: "string option"
  IDEMPOTENCY_PENDING_RETENTION_HOURS :: "string option"

definition parseRetentionHours :: "string option \<Rightarrow> rat \<Rightarrow> rat" where
  "parseRetentionHours v fallback = (case Option.bind v js_number of
     None \<Rightarrow> fallback | Some x \<Rightarrow> if x \<le> 0 then fallback else x)"

text \<open>A product of doubles.\<close>

definition double_times :: "rat option \<Rightarrow> rat \<Rightarrow> rat option" where
  "double_times x y = Option.bind x (\<lambda>a. to_double (a * y))"

text \<open>
  \<open>new Date(timestamp - hours * 60 * 60 * 1000).toISOString()\<close>: the difference of doubles, cut off
  towards zero, which throws outside the range of dates.
\<close>

definition double_minus :: "timestamp \<Rightarrow> rat \<Rightarrow> rat option" where
  "double_minus t x = (let d = of_int t - x in
     if 0 \<le> d then to_double d else map_option uminus (to_double (- d)))"

definition truncate :: "rat \<Rightarrow> int" where
  "truncate x = (if 0 \<le> x then \<lfloor>x\<rfloor> else \<lceil>x\<rceil>)"

definition subtractHours :: "timestamp \<Rightarrow> rat \<Rightarrow> timestamp option" where
  "subtractHours t hours =
     Option.bind (double_times (double_times (double_times (Some hours) 60) 60) 1000) (\<lambda>ms.
     Option.bind (double_minus t ms) (\<lambda>d.
     if \<bar>d\<bar> > 8640000000000000 then None else Some (truncate d)))"

definition subtract_hours_or_throw :: "timestamp \<Rightarrow> rat \<Rightarrow> timestamp io" where
  "subtract_hours_or_throw t hours = (case subtractHours t hours of
     None \<Rightarrow> throw (PlainError ''Invalid time value'') | Some d \<Rightarrow> ret d)"

definition completed_retention :: "retention_env \<Rightarrow> rat" where
  "completed_retention env = parseRetentionHours (IDEMPOTENCY_COMPLETED_RETENTION_HOURS env) 168"

definition pending_retention :: "retention_env \<Rightarrow> rat" where
  "pending_retention env = parseRetentionHours (IDEMPOTENCY_PENDING_RETENTION_HOURS env) 1"

definition prune_at :: "retention_env \<Rightarrow> timestamp \<Rightarrow> nat io" where
  "prune_at env now =
     await (subtract_hours_or_throw now (completed_retention env)) (\<lambda>completedBefore.
     await (subtract_hours_or_throw now (pending_retention env)) (\<lambda>pendingBefore.
     pruneIdempotencyKeys completedBefore pendingBefore))"

definition handleScheduled :: "timestamp \<Rightarrow> retention_env \<Rightarrow> unit io" where
  "handleScheduled scheduledTime env = seq (prune_at env scheduledTime) (ret ())"

text \<open>The number of deleted keys, and the two retention times.\<close>

definition runIdempotencyCleanupNow :: "retention_env \<Rightarrow> timestamp \<Rightarrow> (nat \<times> rat \<times> rat) io" where
  "runIdempotencyCleanupNow env now =
     await (prune_at env now) (\<lambda>deleted. ret (deleted, completed_retention env, pending_retention env))"

section \<open>What it deletes\<close>

lemma keeps_prune_at [keeps_intros]: "keeps (stored K es db_ok) (prune_at env now)"
  unfolding prune_at_def subtract_hours_or_throw_def by (intro keeps_intros)

lemma default_retention:
  "completed_retention \<lparr>IDEMPOTENCY_COMPLETED_RETENTION_HOURS = None, IDEMPOTENCY_PENDING_RETENTION_HOURS = Some ''1.5h''\<rparr> = 168"
  "pending_retention \<lparr>IDEMPOTENCY_COMPLETED_RETENTION_HOURS = None, IDEMPOTENCY_PENDING_RETENTION_HOURS = Some ''1.5h''\<rparr> = 1"
  "pending_retention \<lparr>IDEMPOTENCY_COMPLETED_RETENTION_HOURS = None, IDEMPOTENCY_PENDING_RETENTION_HOURS = Some '' 1.5 ''\<rparr> = 3 / 2"
  by code_simp+

lemma ninety_minutes: "subtractHours 1772323200000 (3 / 2) = Some 1772317800000"
  by code_simp

end
