(* ===== verification/Signup.thy ===== *)
theory Signup
  imports TokenApi Deployments SendPolicy
begin

text \<open>
  \<open>src/lib/provisioning/signup.ts\<close> and \<open>POST /public/signup\<close>: a new tenant with its mailbox, agent,
  version, deployment and policies, and the mail that carries its token. Whatever fails on the way is
  answered by removing every row and object of the tenant again.
\<close>

section \<open>The form\<close>

record signup_values =
  su_alias :: string
  su_agent_name :: string
  su_operator_email :: string
  su_product_name :: string
  su_use_case :: string

text \<open>\<open>String(body.k ?? "").trim()\<close>\<close>

definition form_text :: "json_object \<Rightarrow> string \<Rightarrow> string" where
  "form_text body k = (case js_prop body k of
     None \<Rightarrow> [] | Some JNull \<Rightarrow> [] | Some v \<Rightarrow> js_trim (js_text v))"

definition form_values :: "json_object \<Rightarrow> signup_values" where
  "form_values body =
     \<lparr>su_alias = js_lower (form_text body ''mailboxAlias''), su_agent_name = form_text body ''agentName'',
      su_operator_email = js_lower (form_text body ''operatorEmail''),
      su_product_name = form_text body ''productName'', su_use_case = form_text body ''useCase''\<rparr>"

definition form_error :: "signup_values \<Rightarrow> string option" where
  "form_error v =
     (if su_alias v = [] \<or> su_agent_name v = [] \<or> su_operator_email v = [] \<or> su_product_name v = []
         \<or> su_use_case v = []
      then Some ''Mailbox alias, agent name, operator email, product name, and use case are all required.''
      else if \<not> is_alias (su_alias v)
      then Some ''Mailbox alias must be 3-32 characters and use lowercase letters, numbers, dot, dash, underscore, or plus.''
      else if \<not> is_email (su_operator_email v) then Some ''Operator email must be a valid email address.''
      else None)"

definition parseSelfServeSignup :: "http_body \<Rightarrow> (string option \<times> signup_values) io" where
  "parseSelfServeSignup requestBody = await (readJson requestBody) (\<lambda>body.
     ret (form_error (form_values body), form_values body))"

section \<open>Settings\<close>

record signup_env =
  su_api :: api_env
  SELF_SERVE_REQUIRE_CONFIGURED_ROUTING :: "string option"
  SELF_SERVE_PUBLIC_SIGNUP_INLINE_TOKEN_ENABLED :: "string option"
  SELF_SERVE_PUBLIC_SIGNUP_ROUTING_AUTOCONFIG_ENABLED :: "string option"

abbreviation su_routing :: "signup_env \<Rightarrow> routing_env" where
  "su_routing env \<equiv> api_routing (su_api env)"

definition explicit_setting :: "string option \<Rightarrow> string option" where
  "explicit_setting v = (case map_option (js_lower \<circ> js_trim) v of None \<Rightarrow> None
     | Some t \<Rightarrow> if t = [] then None else Some t)"

definition switched_on :: "string \<Rightarrow> bool" where
  "switched_on t \<longleftrightarrow> t \<in> set [''1'', ''true'', ''yes'', ''on'']"

definition shouldRequireConfiguredSignupRouting :: "signup_env \<Rightarrow> bool" where
  "shouldRequireConfiguredSignupRouting env =
     (case explicit_setting (SELF_SERVE_REQUIRE_CONFIGURED_ROUTING env) of
        Some t \<Rightarrow> switched_on t
      | None \<Rightarrow> (let domain = js_lower (js_trim (opt_or (CLOUDFLARE_EMAIL_DOMAIN (su_routing env)) [])) in
          domain \<noteq> [] \<and> \<not> js_ends_with domain ''.test'' \<and> \<not> js_ends_with domain ''.example''
          \<and> \<not> js_ends_with domain ''.example.com''))"

definition shouldIssueInlineSignupToken :: "signup_env \<Rightarrow> bool" where
  "shouldIssueInlineSignupToken env =
     (case explicit_setting (SELF_SERVE_PUBLIC_SIGNUP_INLINE_TOKEN_ENABLED env) of
        Some t \<Rightarrow> t \<notin> set [''0'', ''false'', ''no'', ''off''] | None \<Rightarrow> True)"

definition shouldAutoconfigureSignupRouting :: "signup_env \<Rightarrow> bool" where
  "shouldAutoconfigureSignupRouting env =
     (case explicit_setting (SELF_SERVE_PUBLIC_SIGNUP_ROUTING_AUTOCONFIG_ENABLED env) of
        Some t \<Rightarrow> switched_on t | None \<Rightarrow> False)"

section \<open>Inbound routing\<close>

datatype routing_status = RoutingConfigured | RoutingSkipped | RoutingFailed

text \<open>The status, and why routing was skipped or has failed.\<close>

definition configure_catch_all :: "signup_env \<Rightarrow> (routing_status \<times> string option) io" where
  "configure_catch_all env =
     (let worker = CLOUDFLARE_EMAIL_WORKER (su_routing env) in
      await (listEmailRoutingRules (su_routing env)) (\<lambda>rules.
      if list_ex (\<lambda>r. isCatchAllWorkerRule r worker) rules then ret (RoutingConfigured, None)
      else if \<not> shouldAutoconfigureSignupRouting env
      then ret (RoutingSkipped, Some ''Self-serve signup routing autoconfiguration is disabled for public requests in this environment.'')
      else seq (upsertCatchAllWorkerRule (su_routing env) (the worker)) (ret (RoutingConfigured, None))))"

definition ensureSignupRouting :: "signup_env \<Rightarrow> (routing_status \<times> string option) io" where
  "ensureSignupRouting env =
     (if \<not> truthy (CLOUDFLARE_ZONE_ID (su_routing env)) \<or> \<not> truthy (CLOUDFLARE_EMAIL_WORKER (su_routing env))
      then ret (RoutingSkipped, Some ''Cloudflare Email Routing automation is not configured in this environment.'')
      else if \<not> truthy (CLOUDFLARE_API_TOKEN (su_routing env))
      then ret (RoutingSkipped, Some (if shouldAutoconfigureSignupRouting env
             then ''Cloudflare Email Routing automation is not configured in this environment.''
             else ''Cloudflare Email Routing verification is not configured in this environment.''))
      else try_catch (configure_catch_all env) (\<lambda>e. ret (RoutingFailed, Some (error_message e))))"

section \<open>Cleaning up\<close>

text \<open>The objects that the rows of a tenant refer to.\<close>

definition task_of_tenant :: "store \<Rightarrow> string \<Rightarrow> string \<Rightarrow> bool" where
  "task_of_tenant s tenantId i \<longleftrightarrow> (\<exists>t \<in> set (tasks s). tsk_id t = i \<and> tsk_tenant_id t = tenantId)"

definition message_of_tenant :: "store \<Rightarrow> string \<Rightarrow> string \<Rightarrow> bool" where
  "message_of_tenant s tenantId i \<longleftrightarrow> (\<exists>m \<in> set (messages s). msg_id m = i \<and> msg_tenant_id m = tenantId)"

definition version_of_tenant :: "store \<Rightarrow> string \<Rightarrow> string \<Rightarrow> bool" where
  "version_of_tenant s tenantId i \<longleftrightarrow>
     (\<exists>v \<in> set (agent_versions s). av_id v = i \<and> agent_of_tenant s (av_agent_id v) tenantId)"

definition blob_keys :: "string \<Rightarrow> string option list io" where
  "blob_keys t =
     await (query (\<lambda>s. map tsk_result_r2_key (filter (\<lambda>r. tsk_tenant_id r = t) (tasks s)))) (\<lambda>traces.
     await (query (\<lambda>s. map ar_trace_r2_key (filter (\<lambda>r. task_of_tenant s t (ar_task_id r)) (agent_runs s)))) (\<lambda>runs.
     await (query (\<lambda>s. let own = filter (\<lambda>m. msg_tenant_id m = t) (messages s)
              in map msg_raw_r2_key own @ map msg_normalized_r2_key own)) (\<lambda>mails.
     await (query (\<lambda>s. map (Some \<circ> dr_draft_r2_key) (filter (\<lambda>d. dr_tenant_id d = t) (drafts s)))) (\<lambda>payloads.
     await (query (\<lambda>s. map (Some \<circ> att_r2_key) (filter (\<lambda>a. message_of_tenant s t (att_message_id a)) (attachments s)))) (\<lambda>files.
     await (query (\<lambda>s. map (Some \<circ> ev_payload_r2_key) (filter (\<lambda>e. case ev_message_id e of None \<Rightarrow> False
              | Some i \<Rightarrow> message_of_tenant s t i) (delivery_events s)))) (\<lambda>events.
     ret (traces @ runs @ mails @ payloads @ files @ events)))))))"

definition config_keys :: "agent_row list \<Rightarrow> agent_version list list \<Rightarrow> string option list" where
  "config_keys as versionRecords = map ag_config_r2_key as
     @ concat (map (\<lambda>v. [av_config_r2_key (ver_row v), av_manifest_r2_key (ver_row v)]) (concat versionRecords))"

text \<open>The statements, in their order.\<close>

definition cleanup_statements :: "string \<Rightarrow> (store \<Rightarrow> nat \<times> store) list" where
  "cleanup_statements t =
    [\<lambda>s. delete_rows agent_tool_bindings agent_tool_bindings_update
        (\<lambda>r. version_of_tenant s t (tb_agent_version_id r)) s,
     \<lambda>s. delete_rows agent_capabilities agent_capabilities_update
        (\<lambda>r. version_of_tenant s t (cap_agent_version_id r)) s,
     delete_rows agent_deployments agent_deployments_update (\<lambda>r. dp_tenant_id r = t),
     delete_rows agent_mailboxes agent_mailboxes_update (\<lambda>r. am_tenant_id r = t),
     \<lambda>s. delete_rows agent_policies agent_policies_update (\<lambda>r. agent_of_tenant s (apr_agent_id r) t) s,
     \<lambda>s. delete_rows agent_versions agent_versions_update (\<lambda>r. agent_of_tenant s (av_agent_id r) t) s,
     delete_rows send_policies send_policies_update (\<lambda>r. sp_tenant_id r = t),
     \<lambda>s. delete_rows agent_runs agent_runs_update (\<lambda>r. task_of_tenant s t (ar_task_id r)) s,
     delete_rows tasks tasks_update (\<lambda>r. tsk_tenant_id r = t),
     \<lambda>s. delete_rows delivery_events delivery_events_update
        (\<lambda>r. case ev_message_id r of None \<Rightarrow> False | Some i \<Rightarrow> message_of_tenant s t i) s,
     \<lambda>s. delete_rows attachments attachments_update (\<lambda>r. message_of_tenant s t (att_message_id r)) s,
     \<lambda>s. delete_rows outbound_jobs outbound_jobs_update (\<lambda>r. message_of_tenant s t (oj_message_id r)) s,
     delete_rows drafts drafts_update (\<lambda>r. dr_tenant_id r = t),
     delete_rows messages messages_update (\<lambda>r. msg_tenant_id r = t),
     delete_rows threads threads_update (\<lambda>r. th_tenant_id r = t),
     delete_rows credit_ledger credit_ledger_update (\<lambda>r. cl_tenant_id r = t),
     delete_rows payment_receipts payment_receipts_update (\<lambda>r. pr_tenant_id r = t),
     delete_rows billing_accounts billing_accounts_update (\<lambda>r. ba_tenant_id r = t),
     delete_rows did_bindings did_bindings_update (\<lambda>r. did_tenant_id r = t),
     delete_rows agents agents_update (\<lambda>r. ag_tenant_id r = t),
     delete_rows mailboxes mailboxes_update (\<lambda>r. mb_tenant_id r = t)]"

definition cleanup_rows :: "string \<Rightarrow> unit io" where
  "cleanup_rows t = for_each (cleanup_statements t) (\<lambda>stmt. seq (execute stmt) (ret ()))"

definition cleanupPartialSelfServeSignup :: "string \<Rightarrow> unit io" where
  "cleanupPartialSelfServeSignup tenantId =
     await (listAgents (Some tenantId)) (\<lambda>as.
     await (map_io (\<lambda>a. listAgentVersions (ag_id a)) as) (\<lambda>versionRecords.
     await (blob_keys tenantId) (\<lambda>blobs.
     seq (for_each (js_unique (map the (filter truthy (config_keys as versionRecords @ blobs)))) discard_object)
         (cleanup_rows tenantId))))"

section \<open>Signing up\<close>

datatype welcome_status = WelcomeQueued | WelcomeFailed

record signup_result =
  sg_tenant_id :: string
  sg_product_name :: string
  sg_operator_email :: string
  sg_mailbox_address :: string
  sg_mailbox_id :: string
  sg_agent_id :: string
  sg_agent_version_id :: string
  sg_deployment_id :: string
  sg_access_token :: "string option"
  sg_access_token_expires_at :: "string option"
  sg_access_token_scopes :: "string list"
  sg_outbound_job_id :: "string option"
  sg_routing_status :: routing_status
  sg_routing_error :: "string option"
  sg_welcome_status :: welcome_status
  sg_welcome_error :: "string option"

definition RESERVED_SELF_SERVE_ALIASES :: "string list" where
  "RESERVED_SELF_SERVE_ALIASES = [''admin'', ''api''] @ CONTACT_ALIAS_LOCALPARTS @ [''support'', ''www'']"

definition alias_unavailable :: js_error where
  "alias_unavailable =
     SignupError ''The requested mailbox alias is unavailable. Please choose a different alias.'' 409"

definition provisioning_conflict :: js_error where
  "provisioning_conflict = SignupError ''Self-serve signup could not be completed because mailbox provisioning state already exists. Please choose a different alias and try again.'' 409"

definition initial_access_unavailable :: js_error where
  "initial_access_unavailable = SignupError ''Self-serve signup could not deliver an initial access token in this environment. Use an operator email on the hosted mailbox domain or enable legacy inline signup token return before retrying.'' 503"

definition normalizeAlias :: "string \<Rightarrow> string" where
  "normalizeAlias name = js_lower (js_trim name)"

definition buildAgentDescription :: "signup_values \<Rightarrow> string" where
  "buildAgentDescription v = su_product_name v @ '': '' @ su_use_case v"

definition signup_domain :: "signup_env \<Rightarrow> string" where
  "signup_domain env = opt_or (CLOUDFLARE_EMAIL_DOMAIN (su_routing env)) ''mailagents.net''"

definition signup_address :: "signup_env \<Rightarrow> signup_values \<Rightarrow> string" where
  "signup_address env v = normalizeAlias (su_alias v) @ ''@'' @ signup_domain env"

definition profile_fields :: "signup_values \<Rightarrow> json_object" where
  "profile_fields v = [(''productName'', JStr (su_product_name v)),
     (''operatorEmail'', JStr (su_operator_email v)), (''useCase'', JStr (su_use_case v))]"

definition self_serve_agent :: "signup_values \<Rightarrow> string \<Rightarrow> string \<Rightarrow> agent_input" where
  "self_serve_agent v tenantId address =
     \<lparr>ai_tenant_id = tenantId, ai_slug = Some (normalizeAlias (su_alias v) @ ''-primary''),
      ai_name = su_agent_name v, ai_description = Some (buildAgentDescription v), ai_mode = ''assistant'',
      ai_config = profile_fields v @ [(''mailboxAddress'', JStr address)]\<rparr>"

definition self_serve_version :: "signup_values \<Rightarrow> string \<Rightarrow> string \<Rightarrow> version_input" where
  "self_serve_version v agentId address =
     \<lparr>vi_agent_id = agentId, vi_version = ''self-serve-v1'', vi_model = Some ''gpt-5'',
      vi_config = Some [(''mode'', JStr ''assistant''), (''onboarding'', JStr ''self_serve''),
        (''mailboxAddress'', JStr address)],
      vi_manifest = Some (profile_fields v), vi_status = Some ''published'',
      vi_capabilities = [(''read_inbound_email'', None), (''reply_email'', None), (''transactional_send'', None)],
      vi_tools = [(''reply_email'', Some True, None), (''mark_task_done'', Some True, None)]\<rparr>"

definition default_version :: "string \<Rightarrow> agent_patch" where
  "default_version versionId = \<lparr>patch_slug = None, patch_name = None, patch_description = None,
     patch_status = None, patch_mode = None, patch_config = None, patch_default_version_id = Some versionId\<rparr>"

definition ensure_signup_mailbox :: "string \<Rightarrow> string \<Rightarrow> mailbox_row io" where
  "ensure_signup_mailbox tenantId address =
     try_catch (ensureMailbox tenantId address (Some ''active''))
       (\<lambda>e. case e of MailboxConflictError m \<Rightarrow> throw alias_unavailable | _ \<Rightarrow> throw e)"

text \<open>The mailbox, the agent, its version and its deployment, and the policies.\<close>

definition provision_tenant ::
  "signup_env \<Rightarrow> signup_values \<Rightarrow> string \<Rightarrow> (mailbox_row \<times> agent_row \<times> string \<times> string) io" where
  "provision_tenant env v tenantId =
     (let address = signup_address env v in
      await (ensure_signup_mailbox tenantId address) (\<lambda>mailbox.
      await (createAgent (self_serve_agent v tenantId address)) (\<lambda>agent.
      seq (bindMailbox tenantId (ag_id agent) (mb_id mailbox) RolePrimary)
     (await (createAgentVersion (self_serve_version v (ag_id agent) address)) (\<lambda>version.
      seq (updateAgent (ag_id agent) (default_version (av_id (ver_row version))))
     (await (createAgentDeployment \<lparr>dep_tenant_id = tenantId, dep_agent_id = ag_id agent,
               dep_agent_version_id = av_id (ver_row version), dep_target_type = ''mailbox'',
               dep_target_id = mb_id mailbox\<rparr> (Some ''active'')) (\<lambda>deployment.
      seq (upsertAgentPolicy (buildDefaultSelfServeAgentPolicy (ag_id agent) [signup_domain env]))
     (seq (upsertTenantSendPolicy tenantId TierFree InternalOnly [signup_domain env] False True)
          (ret (mailbox, agent, av_id (ver_row version), dp_id deployment))))))))))"

text \<open>The mail with the token: the id of its job, or why it could not be queued.\<close>

definition welcome_draft ::
  "signup_values \<Rightarrow> string \<Rightarrow> string \<Rightarrow> mailbox_row \<Rightarrow> agent_row \<Rightarrow> issued_access \<Rightarrow> draft_row io" where
  "welcome_draft v tenantId address mailbox agent access =
     (let m = access_mail address (su_product_name v) (su_agent_name v) access in
      seq (ensureSystemSendAllowed tenantId (ag_id agent) [su_operator_email v] [] [] None
             (Some ''system:signup_welcome''))
          (createDraft \<lparr>di_tenant_id = tenantId, di_agent_id = ag_id agent, di_mailbox_id = mb_id mailbox,
             di_thread_id = None, di_source_message_id = None, di_created_via = Some ''system:signup_welcome'',
             di_payload = [(''from'', JStr address), (''to'', JArr [JStr (su_operator_email v)]),
               (''subject'', JStr (''Your Mailagents mailbox '' @ address @ '' is ready'')),
               (''text'', JStr (buildWelcomeText m)), (''html'', JStr (buildWelcomeHtml m)),
               (''attachments'', JArr [])]\<rparr>))"

definition send_welcome ::
  "signup_env \<Rightarrow> signup_values \<Rightarrow> string \<Rightarrow> mailbox_row \<Rightarrow> agent_row \<Rightarrow> issued_access \<Rightarrow> (string + string) io" where
  "send_welcome env v tenantId mailbox agent access =
     await (try_catch (await (welcome_draft v tenantId (signup_address env v) mailbox agent access)
                         (\<lambda>d. ret (Inr d)))
              (\<lambda>e. ret (Inl (error_message e)))) (\<lambda>created. case created of
       Inl why \<Rightarrow> ret (Inl why)
     | Inr d \<Rightarrow> try_catch (await (enqueueDraftSend (api_worker (su_api env)) (dr_id d)) (\<lambda>job. ret (Inr job)))
         (\<lambda>e. seq (catch_undefined (deleteDraftIfUnqueued (dr_id d))) (ret (Inl (error_message e)))))"

definition signup_reply_of ::
  "signup_env \<Rightarrow> signup_values \<Rightarrow> string \<Rightarrow> routing_status \<times> string option
     \<Rightarrow> mailbox_row \<times> agent_row \<times> string \<times> string \<Rightarrow> issued_access \<Rightarrow> string + string \<Rightarrow> signup_result" where
  "signup_reply_of env v tenantId routing parts access welcome =
     (case parts of (mailbox, agent, versionId, deploymentId) \<Rightarrow>
      let inline_token = shouldIssueInlineSignupToken env in
      \<lparr>sg_tenant_id = tenantId, sg_product_name = su_product_name v, sg_operator_email = su_operator_email v,
       sg_mailbox_address = signup_address env v, sg_mailbox_id = mb_id mailbox, sg_agent_id = ag_id agent,
       sg_agent_version_id = versionId, sg_deployment_id = deploymentId,
       sg_access_token = (if inline_token then ia_token access else None),
       sg_access_token_expires_at = (if inline_token then ia_expires_at access else None),
       sg_access_token_scopes = ia_scopes access,
       sg_outbound_job_id = (case welcome of Inl why \<Rightarrow> None | Inr job \<Rightarrow> Some job),
       sg_routing_status = fst routing, sg_routing_error = snd routing,
       sg_welcome_status = (case welcome of Inl why \<Rightarrow> WelcomeFailed | Inr job \<Rightarrow> WelcomeQueued),
       sg_welcome_error = (case welcome of Inl why \<Rightarrow> Some why | Inr job \<Rightarrow> None)\<rparr>)"

definition sign_up ::
  "signup_env \<Rightarrow> signup_values \<Rightarrow> string \<Rightarrow> routing_status \<times> string option \<Rightarrow> signup_result io" where
  "sign_up env v tenantId routing =
     await (provision_tenant env v tenantId) (\<lambda>parts. case parts of (mailbox, agent, versionId, deploymentId) \<Rightarrow>
     await (issueSelfServeAccessToken (api_access (su_api env)) tenantId (ag_id agent) (mb_id mailbox)) (\<lambda>access.
     await (send_welcome env v tenantId mailbox agent access) (\<lambda>welcome.
     if \<not> shouldIssueInlineSignupToken env \<and> isl welcome then throw initial_access_unavailable
     else ret (signup_reply_of env v tenantId routing parts access welcome))))"

definition signup_failure :: "js_error \<Rightarrow> js_error" where
  "signup_failure e = (case e of AgentRegistryConflictError m \<Rightarrow> provisioning_conflict
     | DeploymentConflictError m \<Rightarrow> provisioning_conflict
     | MailboxConflictError m \<Rightarrow> provisioning_conflict | _ \<Rightarrow> e)"

definition routing_refusal :: "signup_env \<Rightarrow> routing_status \<times> string option \<Rightarrow> js_error option" where
  "routing_refusal env routing =
     (if \<not> shouldRequireConfiguredSignupRouting env then None
      else case fst routing of
        RoutingFailed \<Rightarrow> Some (SignupError (opt_or (snd routing) ''Self-serve signup is temporarily unavailable because inbound routing could not be configured.'') 503)
      | RoutingSkipped \<Rightarrow> Some (SignupError (opt_or (snd routing) ''Self-serve signup is unavailable until inbound routing automation is configured for this environment.'') 503)
      | RoutingConfigured \<Rightarrow> None)"

text \<open>\<open>try { ... } catch\<close> around everything that writes.\<close>

definition sign_up_or_undo ::
  "signup_env \<Rightarrow> signup_values \<Rightarrow> string \<Rightarrow> routing_status \<times> string option \<Rightarrow> signup_result io" where
  "sign_up_or_undo env v tenantId routing =
     try_catch (sign_up env v tenantId routing)
       (\<lambda>e. seq (catch_undefined (cleanupPartialSelfServeSignup tenantId)) (throw (signup_failure e)))"

definition performSelfServeSignup :: "signup_env \<Rightarrow> signup_values \<Rightarrow> signup_result io" where
  "performSelfServeSignup env v =
     (if normalizeAlias (su_alias v) \<in> set RESERVED_SELF_SERVE_ALIASES then throw alias_unavailable
      else await (getMailboxByAddress (signup_address env v)) (\<lambda>existing.
           if existing \<noteq> None then throw alias_unavailable
           else await (ensureSignupRouting env) (\<lambda>routing. case routing_refusal env routing of
                Some e \<Rightarrow> throw e
              | None \<Rightarrow> await (createId ''tnt'') (\<lambda>tenantId. sign_up_or_undo env v tenantId routing))))"

section \<open>The route\<close>

definition values_json :: "signup_values \<Rightarrow> json" where
  "values_json v = JObj [(''mailboxAlias'', JStr (su_alias v)), (''agentName'', JStr (su_agent_name v)),
     (''operatorEmail'', JStr (su_operator_email v)), (''productName'', JStr (su_product_name v)),
     (''useCase'', JStr (su_use_case v))]"

primrec show_routing_status :: "routing_status \<Rightarrow> string" where
  "show_routing_status RoutingConfigured = ''configured''"
| "show_routing_status RoutingSkipped = ''skipped''"
| "show_routing_status RoutingFailed = ''failed''"

definition result_json :: "signup_result \<Rightarrow> json" where
  "result_json r = JObj (defined_fields
     [(''tenantId'', Some (JStr (sg_tenant_id r))), (''productName'', Some (JStr (sg_product_name r))),
      (''operatorEmail'', Some (JStr (sg_operator_email r))),
      (''mailboxAddress'', Some (JStr (sg_mailbox_address r))), (''mailboxId'', Some (JStr (sg_mailbox_id r))),
      (''agentId'', Some (JStr (sg_agent_id r))), (''agentVersionId'', Some (JStr (sg_agent_version_id r))),
      (''deploymentId'', Some (JStr (sg_deployment_id r))), (''accessToken'', map_option JStr (sg_access_token r)),
      (''accessTokenExpiresAt'', map_option JStr (sg_access_token_expires_at r)),
      (''accessTokenScopes'', Some (JArr (map JStr (sg_access_token_scopes r)))),
      (''outboundJobId'', map_option JStr (sg_outbound_job_id r)),
      (''routingStatus'', Some (JStr (show_routing_status (sg_routing_status r)))),
      (''routingError'', map_option JStr (sg_routing_error r)),
      (''welcomeStatus'', Some (JStr (if sg_welcome_status r = WelcomeQueued then ''queued'' else ''failed''))),
      (''welcomeError'', map_option JStr (sg_welcome_error r))])"

definition signup_refused :: "nat \<Rightarrow> string \<Rightarrow> json \<Rightarrow> reply" where
  "signup_refused status message vs = Reply status (JObj [(''error'', JStr message), (''values'', vs)])"

text \<open>\<open>POST /public/signup\<close>\<close>

definition signup_status :: "js_error \<Rightarrow> nat" where
  "signup_status e = (case e of SignupError m status \<Rightarrow> status | _ \<Rightarrow> 502)"

definition parsed_signup :: "http_body \<Rightarrow> (reply + string option \<times> signup_values) io" where
  "parsed_signup requestBody = try_catch (await (parseSelfServeSignup requestBody) (\<lambda>p. ret (Inr p)))
     (\<lambda>e. case e of InvalidJsonBodyError m \<Rightarrow> ret (Inl (signup_refused 400 m (JObj []))) | _ \<Rightarrow> throw e)"

definition post_signup :: "signup_env \<Rightarrow> string option \<Rightarrow> http_body \<Rightarrow> reply io" where
  "post_signup env contentType requestBody =
     (if \<not> js_includes (opt_or contentType '''') ''application/json''
      then ret (error_reply 415 ''content-type must be application/json'')
      else await (parsed_signup requestBody) (\<lambda>parsed. case parsed of
        Inl r \<Rightarrow> ret r
      | Inr (Some why, v) \<Rightarrow> ret (signup_refused 400 why (values_json v))
      | Inr (None, v) \<Rightarrow>
          try_catch (await (performSelfServeSignup env v) (\<lambda>r. ret (Reply 201 (result_json r))))
            (\<lambda>e. ret (signup_refused (signup_status e) (error_message e) (values_json v)))))"

section \<open>The token of a new tenant\<close>

text \<open>Where tokens are not shown in the reply, a sign-up succeeds only when the mail with the token is queued.\<close>

lemma hidden_token_is_mailed:
  "yields (sign_up env v t routing) (\<lambda>r. shouldIssueInlineSignupToken env
     \<or> (sg_access_token r = None \<and> sg_welcome_status r = WelcomeQueued \<and> sg_outbound_job_id r \<noteq> None))"
  unfolding sign_up_def
  by (intro yields_last, simp split: prod.split, intro allI impI yields_last)
     (auto simp: signup_reply_of_def yields_def ret_def throw_def split: sum.split)

section \<open>Worlds that have settled\<close>

text \<open>From now on every call is answered and no other Worker writes.\<close>

definition settled :: "world \<Rightarrow> bool" where
  "settled w \<longleftrightarrow> (\<forall>n \<ge> ticks w. fault w n = Answered \<and> (\<forall>s. others w n s = s))"

lemma settled_tick [simp]:
  "settled w \<Longrightarrow> settled (tick w)" "settled (with_store w s) = settled w"
  by (auto simp: settled_def tick_def with_store_def)

lemma settled_call_store:
  "settled w \<Longrightarrow> call_store stmt w = (fst (stmt (store_of w)), with_store (tick w) (snd (stmt (store_of w))))"
  by (simp add: settled_def call_store_def with_store_def tick_def Let_def)

text \<open>\<open>tidies m\<close>: in a settled world \<open>m\<close> answers, and all it does to the store is to delete objects.\<close>

definition fewer_objects :: "store \<Rightarrow> store \<Rightarrow> bool" where
  "fewer_objects s s' \<longleftrightarrow> s' = s\<lparr>r2 := r2 s'\<rparr> \<and> (\<forall>k. r2 s' k = r2 s k \<or> r2 s' k = None)"

definition tidies :: "'a io \<Rightarrow> bool" where
  "tidies m \<longleftrightarrow> (\<forall>w. settled w \<longrightarrow> (\<exists>x w'. m w = (Inr x, w') \<and> settled w' \<and> fewer_objects (store_of w) (store_of w')))"

lemma fewer_objects_refl: "fewer_objects s s"
  by (simp add: fewer_objects_def)

lemma fewer_objects_trans:
  assumes "fewer_objects s s1" "fewer_objects s1 s2"
  shows "fewer_objects s s2"
proof -
  have "s2 = s1\<lparr>r2 := r2 s2\<rparr>" using assms(2) by (simp add: fewer_objects_def)
  also have "\<dots> = s\<lparr>r2 := r2 s2\<rparr>" using assms(1) unfolding fewer_objects_def by (metis store.update_convs(25) store.surjective)
  finally show ?thesis using assms unfolding fewer_objects_def by metis
qed

lemma tidies_ret [intro!]: "tidies (ret x)"
  by (auto simp: tidies_def ret_run fewer_objects_refl)

lemma tidies_query [intro!]: "tidies (query f)"
  by (auto simp: tidies_def query_def settled_call_store fewer_objects_refl)

lemma tidies_discard [intro!]: "tidies (discard_object key)"
  by (auto simp: tidies_def discard_object_def catch_undefined_def r2_delete_def try_catch_app seq_app ret_run
      settled_call_store fewer_objects_def)

lemma tidies_await [intro]:
  assumes "tidies m" "\<And>x. tidies (f x)"
  shows "tidies (await m f)"
  unfolding tidies_def
proof (intro allI impI)
  fix w assume "settled w"
  then obtain x w1 where m: "m w = (Inr x, w1)" "settled w1" "fewer_objects (store_of w) (store_of w1)"
    using assms(1) unfolding tidies_def by blast
  moreover obtain y w2 where "f x w1 = (Inr y, w2)" "settled w2" "fewer_objects (store_of w1) (store_of w2)"
    using assms(2) m(2) unfolding tidies_def by blast
  ultimately show "\<exists>y w'. await m f w = (Inr y, w') \<and> settled w' \<and> fewer_objects (store_of w) (store_of w')"
    by (auto simp: await_run intro: fewer_objects_trans)
qed

lemma tidies_map_io [intro]: "(\<And>x. tidies (f x)) \<Longrightarrow> tidies (map_io f xs)"
  by (induction xs) auto

lemma tidies_for_each [intro]: "(\<And>x. tidies (f x)) \<Longrightarrow> tidies (for_each xs f)"
  by (induction xs) (auto simp: seq_def)

section \<open>A failed sign-up leaves nothing\<close>

text \<open>The store without the tenant: every table loses its rows, and those that hang from them, at once.\<close>

definition without_tenant :: "string \<Rightarrow> store \<Rightarrow> store" where
  "without_tenant t s = s\<lparr>
     agent_tool_bindings := filter (\<lambda>r. \<not> version_of_tenant s t (tb_agent_version_id r)) (agent_tool_bindings s),
     agent_capabilities := filter (\<lambda>r. \<not> version_of_tenant s t (cap_agent_version_id r)) (agent_capabilities s),
     agent_deployments := filter (\<lambda>r. dp_tenant_id r \<noteq> t) (agent_deployments s),
     agent_mailboxes := filter (\<lambda>r. am_tenant_id r \<noteq> t) (agent_mailboxes s),
     agent_policies := filter (\<lambda>r. \<not> agent_of_tenant s (apr_agent_id r) t) (agent_policies s),
     agent_versions := filter (\<lambda>r. \<not> agent_of_tenant s (av_agent_id r) t) (agent_versions s),
     send_policies := filter (\<lambda>r. sp_tenant_id r \<noteq> t) (send_policies s),
     agent_runs := filter (\<lambda>r. \<not> task_of_tenant s t (ar_task_id r)) (agent_runs s),
     tasks := filter (\<lambda>r. tsk_tenant_id r \<noteq> t) (tasks s),
     delivery_events := filter (\<lambda>r. \<forall>i. ev_message_id r = Some i \<longrightarrow> \<not> message_of_tenant s t i) (delivery_events s),
     attachments := filter (\<lambda>r. \<not> message_of_tenant s t (att_message_id r)) (attachments s),
     outbound_jobs := filter (\<lambda>r. \<not> message_of_tenant s t (oj_message_id r)) (outbound_jobs s),
     drafts := filter (\<lambda>r. dr_tenant_id r \<noteq> t) (drafts s),
     messages := filter (\<lambda>r. msg_tenant_id r \<noteq> t) (messages s),
     threads := filter (\<lambda>r. th_tenant_id r \<noteq> t) (threads s),
     credit_ledger := filter (\<lambda>r. cl_tenant_id r \<noteq> t) (credit_ledger s),
     payment_receipts := filter (\<lambda>r. pr_tenant_id r \<noteq> t) (payment_receipts s),
     billing_accounts := filter (\<lambda>r. ba_tenant_id r \<noteq> t) (billing_accounts s),
     did_bindings := filter (\<lambda>r. did_tenant_id r \<noteq> t) (did_bindings s),
     agents := filter (\<lambda>r. ag_tenant_id r \<noteq> t) (agents s),
     mailboxes := filter (\<lambda>r. mb_tenant_id r \<noteq> t) (mailboxes s)\<rparr>"

lemmas ownership_defs = version_of_tenant_def agent_of_tenant_def task_of_tenant_def message_of_tenant_def

lemma run_statements:
  "settled w \<Longrightarrow> \<exists>w'. for_each stmts (\<lambda>stmt. seq (execute stmt) (ret ())) w = (Inr (), w')
     \<and> store_of w' = fold (\<lambda>stmt s. snd (stmt s)) stmts (store_of w)"
proof (induction stmts arbitrary: w)
  case Nil
  then show ?case by (simp add: ret_run)
next
  case (Cons stmt stmts)
  then have "settled (with_store (tick w) (snd (stmt (store_of w))))" by simp
  from Cons.IH [OF this] Cons.prems show ?case
    by (simp add: seq_app ret_run execute_def settled_call_store)
qed

lemma no_event_option:
  "(\<not> (case x of None \<Rightarrow> False | Some i \<Rightarrow> P i)) = (\<forall>i. x = Some i \<longrightarrow> \<not> P i)"
  by (cases x) auto

text \<open>The order of the statements does not matter to the result: what a row hangs from is deleted after it.\<close>

lemma cleanup_statements_remove:
  "fold (\<lambda>stmt s. snd (stmt s)) (cleanup_statements t) s = without_tenant t s"
  unfolding cleanup_statements_def without_tenant_def
  by (simp add: delete_rows_def tbl_delete_def ownership_defs no_event_option)

lemma tidies_reads: "tidies (listAgentVersions g)" "tidies (listAgents u)" "tidies (blob_keys t)"
  unfolding listAgentVersions_def mapAgentVersion_def listVersionCapabilities_def listVersionTools_def
    listAgents_def blob_keys_def
  by (intro tidies_await tidies_map_io tidies_query tidies_ret)+

lemma run_cleanup:
  assumes "settled w"
  shows "\<exists>w' s. cleanupPartialSelfServeSignup t w = (Inr (), w') \<and> fewer_objects (store_of w) s
    \<and> store_of w' = without_tenant t s"
proof -
  have "cleanupPartialSelfServeSignup t = await (await (listAgents (Some t)) (\<lambda>as.
     await (map_io (\<lambda>a. listAgentVersions (ag_id a)) as) (\<lambda>versionRecords.
     await (blob_keys t) (\<lambda>blobs.
     for_each (js_unique (map the (filter truthy (config_keys as versionRecords @ blobs)))) discard_object))))
       (\<lambda>_. cleanup_rows t)" (is "_ = await ?reads _")
    by (simp add: cleanupPartialSelfServeSignup_def await_assoc seq_def)
  moreover have "tidies ?reads"
    by (intro tidies_await tidies_map_io tidies_for_each tidies_reads tidies_discard)
  then obtain x w1 where "?reads w = (Inr x, w1)" "settled w1" "fewer_objects (store_of w) (store_of w1)"
    using assms unfolding tidies_def by blast
  ultimately show ?thesis
    using run_statements [of w1 "cleanup_statements t"]
    by (auto simp: await_run cleanup_rows_def cleanup_statements_remove)
qed

definition tenant_free :: "string \<Rightarrow> store \<Rightarrow> bool" where
  "tenant_free t s \<longleftrightarrow> t \<notin> mb_tenant_id ` set (mailboxes s) \<union> ag_tenant_id ` set (agents s)
     \<union> am_tenant_id ` set (agent_mailboxes s) \<union> dp_tenant_id ` set (agent_deployments s)
     \<union> sp_tenant_id ` set (send_policies s) \<union> tsk_tenant_id ` set (tasks s) \<union> dr_tenant_id ` set (drafts s)
     \<union> msg_tenant_id ` set (messages s) \<union> th_tenant_id ` set (threads s) \<union> cl_tenant_id ` set (credit_ledger s)
     \<union> pr_tenant_id ` set (payment_receipts s) \<union> ba_tenant_id ` set (billing_accounts s)
     \<union> did_tenant_id ` set (did_bindings s)"

lemma without_tenant_free: "tenant_free t (without_tenant t s)"
  by (auto simp: tenant_free_def without_tenant_def)

text \<open>
  C15. A sign-up that fails leaves nothing of its tenant. Whatever has failed and whatever the other
  Workers have done until then: if the calls are answered from there on and nobody else writes, the
  caller is given the error, and the store is the one at the failure less exactly the rows of the
  tenant and what hangs from them (no object but deleted ones changes).
\<close>

theorem failed_signup_is_undone:
  assumes "sign_up env v t routing w = (Inl e, w1)" "settled w1"
  shows "\<exists>w' s. sign_up_or_undo env v t routing w = (Inl (signup_failure e), w')
    \<and> fewer_objects (store_of w1) s \<and> store_of w' = without_tenant t s \<and> tenant_free t (store_of w')"
  using run_cleanup [OF assms(2), of t] assms(1)
  by (auto simp: sign_up_or_undo_def try_catch_app seq_app ret_run throw_run catch_undefined_def without_tenant_free)

definition demo_signup_env :: signup_env where
  "demo_signup_env = \<lparr>su_api = demo_signing_env, SELF_SERVE_REQUIRE_CONFIGURED_ROUTING = None,
     SELF_SERVE_PUBLIC_SIGNUP_INLINE_TOKEN_ENABLED = None,
     SELF_SERVE_PUBLIC_SIGNUP_ROUTING_AUTOCONFIG_ENABLED = None\<rparr>"

definition demo_values :: signup_values where
  "demo_values = \<lparr>su_alias = ''ann'', su_agent_name = ''Ann'', su_operator_email = ''ann@ext.org'',
     su_product_name = ''Shop'', su_use_case = ''Orders''\<rparr>"

theorem failed_signup_is_undone_witness:
  "\<exists>w'. sign_up_or_undo demo_signup_env demo_values ''t1'' (RoutingConfigured, None)
       (failing_at 0 (quiet_world (demo_store DraftSent JobSent 5 0))) = (Inl (PlainError ''timeout''), w')
     \<and> tenant_free ''t1'' (store_of w')"
proof -
  let ?w = "failing_at 0 (quiet_world (demo_store DraftSent JobSent 5 0))"
  have "sign_up demo_signup_env demo_values ''t1'' (RoutingConfigured, None) ?w = (Inl (PlainError ''timeout''), tick ?w)"
    by (simp add: sign_up_def provision_tenant_def ensure_signup_mailbox_def ensureMailbox_def
        ensureMailboxWithStatus_def getMailboxByAddress_def query_def call_store_def await_def try_catch_def
        throw_def failing_at_def quiet_world_def tick_def Let_def)
  moreover have "settled (tick ?w)"
    by (simp add: settled_def tick_def failing_at_def quiet_world_def)
  ultimately show ?thesis
    using failed_signup_is_undone by (fastforce simp: signup_failure_def)
qed

end
