(* ===== verification/SesWebhook.thy ===== *)
theory SesWebhook
  imports TokenApi OutboundBilling DeliveryEvents
begin

text \<open>
  \<open>src/lib/ses-events.ts\<close> and \<open>POST /v1/webhooks/ses\<close> of \<open>src/routes/api.ts\<close>: the provider reports
  what became of a mail. The report is stored once, the message, its job and its draft take the
  state it tells, the credits of the mail are settled or given back, and the addresses of a bounce or
  a complaint are suppressed.
\<close>

section \<open>Reports\<close>

record ses_event =
  se_provider_message_id :: "string option"
  se_type :: delivery_event_type
  se_tags :: "(string \<times> string) list"
  se_recipients :: "string list"
  se_reason :: "string option"

text \<open>The members of a value: one that is no object has none.\<close>

definition members :: "json option \<Rightarrow> json_object" where
  "members v = (case v of Some (JObj m) \<Rightarrow> m | _ \<Rightarrow> [])"

definition defined_member :: "json_object \<Rightarrow> string \<Rightarrow> json option" where
  "defined_member m k = (case js_prop m k of Some JNull \<Rightarrow> None | v \<Rightarrow> v)"

definition recipient_of :: "json \<Rightarrow> string" where
  "recipient_of v = (case v of
     JStr s \<Rightarrow> js_lower (js_trim s)
   | JObj m \<Rightarrow> js_lower (js_trim (str_or '''' (js_prop m ''emailAddress'')))
   | _ \<Rightarrow> '''')"

definition normalizeRecipients :: "json option \<Rightarrow> string list" where
  "normalizeRecipients values = (case values of
     Some (JArr vs) \<Rightarrow> js_unique (filter (\<lambda>r. r \<noteq> []) (map recipient_of vs)) | _ \<Rightarrow> [])"

definition tag_text :: "json \<Rightarrow> string option" where
  "tag_text v = (case v of JArr (JStr s # _) \<Rightarrow> Some s | JStr s \<Rightarrow> Some s | _ \<Rightarrow> None)"

definition toTagMap :: "json option \<Rightarrow> (string \<times> string) list" where
  "toTagMap tags = List.map_filter (\<lambda>(k, v). map_option (Pair k) (tag_text v)) (members tags)"

definition normalizeSesEvent :: "json_object \<Rightarrow> ses_event" where
  "normalizeSesEvent payload =
     (let detail = members (case defined_member payload ''detail'' of None \<Rightarrow> Some (JObj payload) | d \<Rightarrow> d);
          eventType = js_lower (case defined_member detail ''eventType'' of Some v \<Rightarrow> js_text v
            | None \<Rightarrow> (case defined_member detail ''event-type'' of Some v \<Rightarrow> js_text v | None \<Rightarrow> ''unknown''));
          mail = members (js_prop detail ''mail'');
          event = (\<lambda>type recipients reason. \<lparr>se_provider_message_id = str_opt (js_prop mail ''messageId''),
            se_type = type, se_tags = toTagMap (js_prop mail ''tags''),
            se_recipients = recipients, se_reason = reason\<rparr>)
      in if eventType = ''delivery''
         then event EvDelivery (normalizeRecipients (js_prop (members (js_prop detail ''delivery'')) ''recipients'')) None
         else if eventType = ''bounce''
         then (let bounce = members (js_prop detail ''bounce'') in
               event EvBounce (normalizeRecipients (js_prop bounce ''bouncedRecipients''))
                 (str_opt (js_prop bounce ''bounceType'')))
         else if eventType = ''complaint''
         then (let complaint = members (js_prop detail ''complaint'') in
               event EvComplaint (normalizeRecipients (js_prop complaint ''complainedRecipients''))
                 (str_opt (js_prop complaint ''complaintFeedbackType'')))
         else event (if eventType = ''reject'' then EvReject else EvUnknown) [] None)"

primrec show_event_type :: "delivery_event_type \<Rightarrow> string" where
  "show_event_type EvDelivery = ''delivery''"
| "show_event_type EvBounce = ''bounce''"
| "show_event_type EvComplaint = ''complaint''"
| "show_event_type EvReject = ''reject''"
| "show_event_type EvUnknown = ''unknown''"

section \<open>The route\<close>

record webhook_env =
  WEBHOOK_SHARED_SECRET :: "string option"
  webhook_sha256 :: "string \<Rightarrow> string"

definition sha256Hex :: "webhook_env \<Rightarrow> string \<Rightarrow> string" where
  "sha256Hex env s = concat (map (\<lambda>b. hex_byte (of_char b)) (webhook_sha256 env (utf8 s)))"

definition buildSesPayloadR2Key :: "webhook_env \<Rightarrow> json \<Rightarrow> string" where
  "buildSesPayloadR2Key env body = ''events/ses/'' @ sha256Hex env (json_text body) @ ''.json''"

text \<open>The message of a report: by the id of the provider, or by its tag; tags must not contradict it.\<close>

definition tag_mismatch :: "ses_event \<Rightarrow> message_row option \<Rightarrow> message_row option \<Rightarrow> string option" where
  "tag_mismatch e providerMessage taggedMessage =
     (let taggedMessageId = map_of (se_tags e) ''message_id''; taggedTenantId = map_of (se_tags e) ''tenant_id'';
          message = (if providerMessage \<noteq> None then providerMessage else taggedMessage)
      in if providerMessage \<noteq> None \<and> truthy taggedMessageId \<and> map_option msg_id providerMessage \<noteq> taggedMessageId
         then Some ''Webhook message tag mismatch''
         else if message \<noteq> None \<and> truthy taggedTenantId \<and> map_option msg_tenant_id message \<noteq> taggedTenantId
         then Some ''Webhook tenant tag mismatch''
         else if taggedMessage \<noteq> None \<and> truthy (se_provider_message_id e)
           \<and> truthy (Option.bind taggedMessage msg_provider_message_id)
           \<and> Option.bind taggedMessage msg_provider_message_id \<noteq> se_provider_message_id e
         then Some ''Webhook provider message mismatch'' else None)"

definition find_message :: "ses_event \<Rightarrow> (string + message_row option) io" where
  "find_message e =
     await (if truthy (se_provider_message_id e)
            then getMessageByProviderMessageId (the (se_provider_message_id e)) else ret None) (\<lambda>providerMessage.
     let taggedMessageId = map_of (se_tags e) ''message_id'' in
     await (if providerMessage = None \<and> truthy taggedMessageId then getMessage (the taggedMessageId) else ret None)
       (\<lambda>taggedMessage.
     ret (case tag_mismatch e providerMessage taggedMessage of
       Some why \<Rightarrow> Inl why
     | None \<Rightarrow> Inr (if providerMessage \<noteq> None then providerMessage else taggedMessage))))"

text \<open>The stored report is taken away again when it cannot be recorded.\<close>

definition record_report :: "webhook_env \<Rightarrow> json_object \<Rightarrow> ses_event \<Rightarrow> message_row option \<Rightarrow> unit io" where
  "record_report env body e message =
     (let payloadR2Key = buildSesPayloadR2Key env (JObj body) in
      seq (r2_put payloadR2Key (R2Json body))
          (try_catch (seq (insertDeliveryEvent \<lparr>ei_message_id = map_option msg_id message,
                        ei_provider_message_id = se_provider_message_id e, ei_event_type = se_type e,
                        ei_payload_r2_key = payloadR2Key\<rparr>) (ret ()))
             (\<lambda>er. seq (catch_undefined (r2_delete payloadR2Key)) (throw er))))"

definition backfill_if_missing :: "ses_event \<Rightarrow> message_row option \<Rightarrow> unit io" where
  "backfill_if_missing e message = (case message of None \<Rightarrow> ret ()
     | Some m \<Rightarrow> when_io (truthy (se_provider_message_id e)
           \<and> (\<not> truthy (msg_provider_message_id m) \<or> msg_sent_at m = None))
         (backfillMessageProviderAcceptance (msg_id m) (the (se_provider_message_id e))))"

text \<open>The credits of the mail: settled when it was delivered, given back when it was not.\<close>

definition settle_or_release :: "outbound_job_row \<Rightarrow> draft_row \<Rightarrow> bool \<Rightarrow> unit io" where
  "settle_or_release job d treatAsDelivered =
     await (readStoredRecipients (oj_draft_r2_key job)) (\<lambda>r.
     if treatAsDelivered
     then settleOutboundUsageDebit (dr_tenant_id d) (oj_message_id job) (oj_id job) (Some (dr_id d))
            (dr_created_via d) (dr_source_message_id d) (rcp_to r) (rcp_cc r) (rcp_bcc r)
     else when_io (oj_status job \<noteq> JobFailed)
            (releaseOutboundUsageReservation (dr_tenant_id d) (dr_source_message_id d) (dr_created_via d)
               (rcp_to r) (rcp_cc r) (rcp_bcc r)))"

definition note_outcome ::
  "ses_event \<Rightarrow> message_row \<Rightarrow> outbound_job_row \<Rightarrow> draft_row option \<Rightarrow> bool \<Rightarrow> unit io" where
  "note_outcome e m job d treatAsDelivered =
     seq (case d of None \<Rightarrow> ret () | Some d \<Rightarrow> settle_or_release job d treatAsDelivered)
    (seq (updateMessageStatus (msg_id m) (if treatAsDelivered then MsgReplied else MsgFailed))
    (seq (if treatAsDelivered then updateOutboundJobStatus (oj_id job) JobSent None None None
          else updateOutboundJobStatus (oj_id job) JobFailed None None
                 (Some (opt_or (se_reason e) (show_event_type (se_type e)))))
         (case d of None \<Rightarrow> ret ()
          | Some d \<Rightarrow> markDraftStatus (dr_id d) (if treatAsDelivered then DraftSent else DraftFailed))))"

definition has_delivery :: "delivery_event_row list \<Rightarrow> bool" where
  "has_delivery events \<longleftrightarrow> list_ex (\<lambda>x. ev_event_type x = EvDelivery) events"

definition conclude_job :: "ses_event \<Rightarrow> message_row \<Rightarrow> outbound_job_row \<Rightarrow> unit io" where
  "conclude_job e m job =
     await (getDraftByR2KeyForOutboundLifecycle (oj_draft_r2_key job)) (\<lambda>d.
     await (listDeliveryEventsByMessageId (msg_id m)) (\<lambda>events.
     note_outcome e m job d (se_type e = EvDelivery \<or> has_delivery events)))"

definition conclude :: "ses_event \<Rightarrow> message_row option \<Rightarrow> unit io" where
  "conclude e message =
     (if se_type e = EvUnknown then ret ()
      else case message of
        Some m \<Rightarrow> await (getOutboundJobByMessageId (msg_id m)) (\<lambda>job.
          case job of None \<Rightarrow> ret () | Some j \<Rightarrow> conclude_job e m j)
      | None \<Rightarrow> when_io (truthy (se_provider_message_id e))
          (updateMessageStatusByProviderMessageId (the (se_provider_message_id e))
             (if se_type e = EvDelivery then MsgReplied else MsgFailed)))"

definition suppress_recipients :: "ses_event \<Rightarrow> unit io" where
  "suppress_recipients e = when_io (se_type e = EvBounce \<or> se_type e = EvComplaint)
     (for_each (se_recipients e) (\<lambda>recipient.
        addSuppression recipient (opt_or (se_reason e) (show_event_type (se_type e))) ''ses''))"

definition report_accepted :: "ses_event \<Rightarrow> reply" where
  "report_accepted e = Reply 202 (JObj (defined_fields [(''provider'', Some (JStr ''ses'')),
     (''received'', Some (JBool True)), (''eventType'', Some (JStr (show_event_type (se_type e)))),
     (''providerMessageId'', map_option JStr (se_provider_message_id e))]))"

text \<open>\<open>POST /v1/webhooks/ses\<close>\<close>

definition post_ses_webhook :: "webhook_env \<Rightarrow> string option \<Rightarrow> http_body \<Rightarrow> reply io" where
  "post_ses_webhook env provided requestBody =
     (if \<not> truthy (WEBHOOK_SHARED_SECRET env)
      then ret (error_reply 500 ''WEBHOOK_SHARED_SECRET is not configured'')
      else if provided \<noteq> WEBHOOK_SHARED_SECRET env then ret (error_reply 401 ''Unauthorized webhook'')
      else await (readJson requestBody) (\<lambda>body.
           let e = normalizeSesEvent body in
           await (find_message e) (\<lambda>found. case found of
             Inl why \<Rightarrow> ret (error_reply 409 why)
           | Inr message \<Rightarrow>
               seq (record_report env body e message)
              (seq (backfill_if_missing e message)
              (seq (conclude e message)
              (seq (suppress_recipients e) (ret (report_accepted e))))))))"

section \<open>The store invariant\<close>

lemma keeps_find_message [keeps_intros]: "keeps (stored K es J) (find_message e)"
  unfolding find_message_def Let_def by (intro keeps_intros)

lemma keeps_conclude [keeps_intros]: "keeps (stored K es db_ok) (conclude e m)"
  unfolding conclude_def conclude_job_def note_outcome_def settle_or_release_def Let_def by (intro keeps_intros)

lemma keeps_suppress_recipients [keeps_intros]: "keeps (stored K es db_ok) (suppress_recipients e)"
  unfolding suppress_recipients_def by (intro keeps_intros)

lemma keeps_post_ses_webhook [keeps_intros]: "keeps (stored K es db_ok) (post_ses_webhook env p b)"
  unfolding post_ses_webhook_def record_report_def backfill_if_missing_def Let_def
  by (intro keeps_intros)

section \<open>A delivery is final\<close>

text \<open>
  The delivery event \<open>v\<close> of the message \<open>m\<close> is recorded, and the job \<open>i\<close> is a job of that message
  and not failed.
\<close>

definition delivered_job :: "string \<Rightarrow> string \<Rightarrow> string \<Rightarrow> store \<Rightarrow> bool" where
  "delivered_job v m i s \<longleftrightarrow> message_id_visible s m
     \<and> (\<exists>e \<in> set (delivery_events s). ev_id e = v)
     \<and> (\<forall>e \<in> set (delivery_events s). ev_id e = v \<longrightarrow> ev_message_id e = Some m \<and> ev_event_type e = EvDelivery)
     \<and> (\<forall>j \<in> set (outbound_jobs s). oj_id j = i \<longrightarrow> oj_message_id j = m \<and> oj_status j \<noteq> JobFailed)"

text \<open>Tables that it does not name may change.\<close>

lemma delivered_job_frame [simp]:
  "delivered_job v m i (billing_accounts_update f s) = delivered_job v m i s"
  "delivered_job v m i (credit_ledger_update g s) = delivered_job v m i s"
  "delivered_job v m i (drafts_update h s) = delivered_job v m i s"
  "delivered_job v m i (r2_update k s) = delivered_job v m i s"
  "delivered_job v m i (suppressions_update l s) = delivered_job v m i s"
  by (simp_all add: delivered_job_def visibility_defs)

lemmas statement_defs = update_rows_def insert_unless_def insert_checked_def delete_rows_def

lemma delivered_other_tables [keeps_intros]:
  "keeps (stored K es (delivered_job v m i)) (settleOutboundUsageDebit t mid j d via src to cc bcc)"
  "keeps (stored K es (delivered_job v m i)) (markDraftStatus did st)"
  "keeps (stored K es (delivered_job v m i)) (addSuppression a why by_whom)"
  "keeps (stored K es (delivered_job v m i)) (r2_put key obj)"
  "keeps (stored K es (delivered_job v m i)) (r2_delete key)"
  unfolding settleOutboundUsageDebit_def appendOutboundUsageLedgerEntry_def insert_ledger_row_def
    remove_own_row_def captureTenantReservedCredits_def move_credits_def
    reconcileTenantAvailableCredits_def ensureTenantBillingAccount_def markDraftStatus_def
    addSuppression_def updateExistingSuppression_def r2_put_def r2_delete_def
  by (intro keeps_intros keeps_stored_execute keeps_stored_checked keeps_stored_call;
      auto simp: statement_defs split: if_splits)+

text \<open>Messages keep their place, and the job of another message is another job.\<close>

lemma bex_tbl_update:
  assumes "\<And>x. Q (f x) = Q x"
  shows "(\<exists>x \<in> set (tbl_update P f t). Q x) \<longleftrightarrow> (\<exists>x \<in> set t. Q x)"
  using assms by (induction t) (simp_all add: tbl_update_def)

lemma delivered_job_messages [simp]:
  assumes "\<And>x. msg_id (f x) = msg_id x" "\<And>x. msg_mailbox_id (f x) = msg_mailbox_id x"
    "\<And>x. msg_tenant_id (f x) = msg_tenant_id x"
  shows "delivered_job v m i (messages_update (tbl_update P f) s) = delivered_job v m i s"
proof -
  have "message_id_visible (messages_update (tbl_update P f) s) m = message_id_visible s m"
    by (simp add: visibility_defs bex_tbl_update assms)
  then show ?thesis by (simp add: delivered_job_def)
qed

lemma delivered_message_updates [keeps_intros]:
  "keeps (stored K es (delivered_job v m i)) (updateMessageStatus mid st)"
  "keeps (stored K es (delivered_job v m i)) (updateMessageStatusByProviderMessageId p st)"
  "keeps (stored K es (delivered_job v m i)) (backfillMessageProviderAcceptance mid p)"
  unfolding updateMessageStatus_def updateMessageStatusByProviderMessageId_def set_message_status_def
    backfillMessageProviderAcceptance_def
  by (intro keeps_intros keeps_stored_execute; simp add: update_rows_def)+

lemma delivered_job_jobs:
  assumes "delivered_job v m i s" "\<And>x. oj_id (f x) = oj_id x" "\<And>x. oj_message_id (f x) = oj_message_id x"
    and "\<And>x. P x \<Longrightarrow> oj_id x = i \<Longrightarrow> oj_status (f x) \<noteq> JobFailed"
  shows "delivered_job v m i (outbound_jobs_update (tbl_update P f) s)"
  using assms by (auto simp: delivered_job_def visibility_defs tbl_update_def)

lemma delivered_job_update [keeps_intros]:
  "j \<noteq> i \<or> st \<noteq> JobFailed \<Longrightarrow>
     keeps (stored K es (delivered_job v m i)) (updateOutboundJobStatus j st n t e)"
  unfolding updateOutboundJobStatus_def
  by (intro keeps_intros keeps_stored_execute) (auto simp: update_rows_def intro!: delivered_job_jobs)

lemma delivered_event_writes [keeps_intros]:
  "keeps (stored K es (delivered_job v m i)) (insertEvent input)"
  "e \<noteq> v \<Longrightarrow> keeps (stored K es (delivered_job v m i)) (delete_event e)"
  unfolding insertEvent_def delete_event_def
  by (intro keeps_intros keeps_stored_checked keeps_stored_execute;
      auto simp: insert_select_def statement_defs delivered_job_def visibility_defs tbl_delete_def
        split: if_splits)+

lemma query_known:
  assumes "stored K es J w" "query f w = (Inr x, w')"
  obtains s where "J s" "x = f s"
  using assms by (auto simp: query_def call_store_def Let_def stored_def split: fault.splits)

lemma keeps_for_each_in: "(\<And>x. x \<in> set xs \<Longrightarrow> keeps I (f x)) \<Longrightarrow> keeps I (for_each xs f)"
  by (induction xs) (simp_all add: keeps_ret keeps_seq)

lemma delivered_insert [keeps_intros]:
  "keeps (stored K es (delivered_job v m i)) (insertDeliveryEvent input)"
proof -
  have "keeps (stored K es (delivered_job v m i)) (deleteInvalidDeliveryEventsForPayloadR2Key k)" for k
    unfolding deleteInvalidDeliveryEventsForPayloadR2Key_def
  proof (rule keeps_await_known [where Q = "\<lambda>ids. v \<notin> set ids"])
    fix w w' ids
    assume "stored K es (delivered_job v m i) w"
      "query (\<lambda>s. map ev_id (filter (\<lambda>e. ev_payload_r2_key e = k \<and> ev_message_id e \<noteq> None
         \<and> \<not> event_visible s e) (delivery_events s))) w = (Inr ids, w')"
    then show "v \<notin> set ids"
      by (rule query_known) (auto simp: delivered_job_def event_visible_def)
  qed (auto intro!: keeps_intros keeps_for_each_in)
  then show ?thesis
    unfolding insertDeliveryEvent_def event_dedupe_failed_def by (intro keeps_intros)
qed

lemma delivered_events_known:
  assumes "stored K es (delivered_job v m i) w" "listDeliveryEventsByMessageId m w = (Inr evs, w')"
  shows "has_delivery evs"
  using assms(2) unfolding listDeliveryEventsByMessageId_def
  by (rule query_known [OF assms(1)]) (fastforce simp: has_delivery_def delivered_job_def list_ex_iff)

lemma delivered_job_known:
  assumes w: "stored K es (delivered_job v m i) w"
    and run: "getOutboundJobByMessageId mid w = (Inr (Some j), w')" and j: "oj_id j = i"
  shows "mid = m"
proof -
  from run obtain rows w1 where q: "listVisibleOutboundJobsByMessageId mid 2 w = (Inr rows, w1)"
      and rows: "the_only rows = Some j"
    unfolding getOutboundJobByMessageId_def by (auto elim!: await_InrE simp: ret_def)
  from q show ?thesis
    unfolding listVisibleOutboundJobsByMessageId_def
  proof (rule query_known [OF w])
    fix s assume "delivered_job v m i s" "rows = take 2 (order_desc oj_created_at
        (filter (\<lambda>j. oj_message_id j = mid \<and> job_visible s j) (outbound_jobs s)))"
    moreover have "j \<in> set rows" using rows by (cases rows) (auto simp: the_only_def split: if_splits)
    ultimately have "delivered_job v m i s" "j \<in> set (outbound_jobs s)" "oj_message_id j = mid"
      using in_set_takeD by fastforce+
    with j show ?thesis by (auto simp: delivered_job_def)
  qed
qed

lemma delivered_note_outcome:
  assumes "\<not> delivered \<Longrightarrow> oj_id j \<noteq> i"
  shows "keeps (stored K es (delivered_job v m i)) (note_outcome e mm j d delivered)"
  using assms
  unfolding note_outcome_def settle_or_release_def releaseOutboundUsageReservation_def
    releaseTenantReservedCredits_def move_credits_def
  by (intro keeps_intros keeps_stored_execute; simp add: update_rows_def)

lemma delivered_conclude_job:
  assumes "oj_id j = i \<Longrightarrow> msg_id mm = m"
  shows "keeps (stored K es (delivered_job v m i)) (conclude_job e mm j)"
  unfolding conclude_job_def
proof (rule keeps_await)
  show "keeps (stored K es (delivered_job v m i)) (getDraftByR2KeyForOutboundLifecycle (oj_draft_r2_key j))"
    by (intro keeps_intros)
next
  fix d
  show "keeps (stored K es (delivered_job v m i)) (await (listDeliveryEventsByMessageId (msg_id mm))
      (\<lambda>events. note_outcome e mm j d (se_type e = EvDelivery \<or> has_delivery events)))"
  proof (rule keeps_await_known [where Q = "\<lambda>events. msg_id mm = m \<longrightarrow> has_delivery events"])
    show "msg_id mm = m \<longrightarrow> has_delivery events"
      if "stored K es (delivered_job v m i) w"
        "listDeliveryEventsByMessageId (msg_id mm) w = (Inr events, w')" for w w' events
      using that delivered_events_known by blast
    show "keeps (stored K es (delivered_job v m i))
        (note_outcome e mm j d (se_type e = EvDelivery \<or> has_delivery events))"
      if "msg_id mm = m \<longrightarrow> has_delivery events" for events
      using that assms by (intro delivered_note_outcome) blast
  qed (intro keeps_intros)
qed

lemma delivered_conclude [keeps_intros]:
  "keeps (stored K es (delivered_job v m i)) (conclude e message)"
proof -
  have "keeps (stored K es (delivered_job v m i)) (await (getOutboundJobByMessageId (msg_id mm)) (\<lambda>job.
      case job of None \<Rightarrow> ret () | Some j \<Rightarrow> conclude_job e mm j))" for mm
  proof (rule keeps_await_known [where Q = "\<lambda>job. \<forall>j. job = Some j \<longrightarrow> oj_id j = i \<longrightarrow> msg_id mm = m"])
    show "keeps (stored K es (delivered_job v m i)) (getOutboundJobByMessageId (msg_id mm))"
      by (intro keeps_intros)
    show "\<forall>j. job = Some j \<longrightarrow> oj_id j = i \<longrightarrow> msg_id mm = m"
      if "stored K es (delivered_job v m i) w" "getOutboundJobByMessageId (msg_id mm) w = (Inr job, w')"
      for w w' job
      using that delivered_job_known by blast
    show "keeps (stored K es (delivered_job v m i))
        (case job of None \<Rightarrow> ret () | Some j \<Rightarrow> conclude_job e mm j)"
      if "\<forall>j. job = Some j \<longrightarrow> oj_id j = i \<longrightarrow> msg_id mm = m" for job
      using that by (intro keeps_intros delivered_conclude_job) auto
  qed
  then show ?thesis
    unfolding conclude_def by (intro keeps_if keeps_option keeps_ret keeps_when keeps_intros(1)) (auto intro: keeps_intros)
qed

text \<open>
  C8. A delivery is final: while a delivery event of a message is recorded, no further report of the
  provider marks the job of the message as failed, whatever the report says, whatever fails on the
  way and whatever other Workers do that leave the job and the event alone.
\<close>

theorem delivery_is_final:
  assumes "shared (delivered_job v m i) w"
    and "j \<in> set (outbound_jobs (store_of (snd (post_ses_webhook env provided requestBody w))))"
    and "oj_id j = i"
  shows "oj_status j \<noteq> JobFailed"
proof -
  have "keeps (shared (delivered_job v m i)) (post_ses_webhook env provided requestBody)"
    unfolding post_ses_webhook_def record_report_def backfill_if_missing_def suppress_recipients_def
      Let_def
    by (intro keeps_intros)
  from keepsD [OF this assms(1)] assms(2,3) show ?thesis by (auto simp: stored_def delivered_job_def)
qed

text \<open>A mail that has gone out, and a second mail of the same tenant that holds a reserved credit.\<close>

definition bounce_report :: json_object where
  "bounce_report = [(''eventType'', JStr ''Bounce''),
     (''mail'', JObj [(''tags'', JObj [(''message_id'', JArr [JStr ''msg1''])])]),
     (''bounce'', JObj [(''bounceType'', JStr ''Permanent''),
        (''bouncedRecipients'', JArr [JObj [(''emailAddress'', JStr ''Ann@ext.org'')]])])]"

definition demo_webhook_env :: webhook_env where
  "demo_webhook_env = \<lparr>WEBHOOK_SHARED_SECRET = Some ''s'', webhook_sha256 = (\<lambda>s. take 2 s)\<rparr>"

definition demo_delivered :: delivery_event_row where
  "demo_delivered = \<lparr>ev_id = ''evt1'', ev_message_id = Some ''msg1'', ev_provider = ''ses'',
     ev_provider_message_id = None, ev_event_type = EvDelivery, ev_payload_r2_key = ''events/1'',
     ev_created_at = 1\<rparr>"

definition delivered_world :: world where
  "delivered_world = quiet_world
     ((demo_store DraftSent JobSent 5 1)\<lparr>delivery_events := [demo_delivered]\<rparr>)"

theorem delivery_is_final_witness:
  "filter (\<lambda>j. oj_id j = ''obj1'' \<and> oj_status j = JobFailed) (outbound_jobs (store_of (snd
     (post_ses_webhook demo_webhook_env (Some ''s'') (JsonBody (JObj bounce_report)) delivered_world)))) = []"
proof -
  have "shared (delivered_job ''evt1'' ''msg1'' ''obj1'') delivered_world"
    by (simp add: delivered_world_def delivered_job_def visibility_defs demo_defs demo_delivered_def)
  from delivery_is_final [OF this] show ?thesis unfolding filter_empty_conv by blast
qed

definition bounce_event :: ses_event where
  "bounce_event = \<lparr>se_provider_message_id = None, se_type = EvBounce,
     se_tags = [(''message_id'', ''msg1'')], se_recipients = [''ann@ext.org''],
     se_reason = Some ''Permanent''\<rparr>"

lemma bounce_report_is_read: "normalizeSesEvent bounce_report = bounce_event"
  by code_simp

text \<open>
  The bounce of a mail that is sent, and hence settled, gives back a credit that is reserved for
  another mail.
\<close>

lemma late_bounce_frees_a_reservation:
  "let s = store_of (snd (conclude bounce_event (Some demo_message)
         (quiet_world (demo_store DraftSent JobSent 5 1)))) in
   map oj_status (outbound_jobs s) = [JobFailed]
   \<and> map (\<lambda>a. (ba_available_credits a, ba_reserved_credits a)) (billing_accounts s) = [(6, 0)]"
  by code_simp

end
