(* ===== verification/SendRoutes.thy ===== *)
theory SendRoutes
  imports TokenApi
begin

text \<open>
  \<open>src/routes/api.ts\<close>: the routes that send a stored draft, reply to a message, and replay a message.
  With an idempotency key, a repeated request is answered from what the first one left; a request
  that fails before it has queued anything frees its key. Of a body, a member of another type than the
  declared one is read as absent.
\<close>

section \<open>Keys\<close>

text \<open>\<open>body?.idempotencyKey?.trim()\<close>; a key that is given must not be blank.\<close>

definition blank_key :: reply where
  "blank_key = badRequest ''idempotencyKey must be a non-empty string''"

definition requested_key :: "json_object \<Rightarrow> (reply + string option) io" where
  "requested_key body = await (trimmed body ''idempotencyKey'') (\<lambda>key.
     ret (if js_prop body ''idempotencyKey'' \<noteq> None \<and> \<not> truthy key then Inl blank_key
          else Inr (if truthy key then key else None)))"

definition conflict_reply :: "string \<Rightarrow> reply" where
  "conflict_reply message = error_reply 409 message"

section \<open>\<open>POST /v1/drafts/:draftId/send\<close>\<close>

definition validateReplayableDraftSend :: "claims \<Rightarrow> draft_row \<Rightarrow> unit io" where
  "validateReplayableDraftSend c d =
     (let t = dr_tenant_id d; mb = dr_mailbox_id d in
      seq (validateDraftReferences t mb (dr_thread_id d) (dr_source_message_id d))
     (seq (validateStoredDraftFromAddress d)
     (seq (validateStoredDraftAttachments d)
     (await (enforceMailboxScopedDraftReferenceVisibility c (dr_thread_id d) (dr_source_message_id d)) (\<lambda>hidden.
      seq (if hidden \<noteq> None
           then throw (RouteRequestError ''Draft references are not visible for this token'' 404) else ret ())
     (seq (validateActiveDraftMailbox t mb)
     (seq (validateSendAgentBinding t (dr_agent_id d) mb)
     (seq (validateDraftOutboundPolicy d)
          (validateDraftOutboundCredits d)))))))))"

text \<open>\<open>{ draftId, outboundJobId, status: "queued" }\<close>, and the answer that spreads it.\<close>

definition send_result :: "string \<Rightarrow> string \<Rightarrow> json_object" where
  "send_result draftId outboundJobId =
     [(''draftId'', JStr draftId), (''outboundJobId'', JStr outboundJobId), (''status'', JStr ''queued'')]"

definition json_object_of :: "json \<Rightarrow> json_object" where
  "json_object_of v = (case v of JObj m \<Rightarrow> m | _ \<Rightarrow> [])"

definition accepted_send :: "json \<Rightarrow> reply" where
  "accepted_send v =
     (let m = json_object_of v in Reply 202 (JObj (defined_fields (js_spread m (map (\<lambda>(k, v). (k, Some v))
        (queued_members (str_or ''undefined'' (js_prop m ''outboundJobId'')) (str_or ''undefined'' (js_prop m ''draftId''))))))))"

definition not_sendable :: "draft_row \<Rightarrow> reply" where
  "not_sendable d = conflict_reply (''Draft status '' @ show_draft_status (dr_status d) @ '' cannot be sent again'')"

definition sendable :: "draft_row \<Rightarrow> bool" where
  "sendable d \<longleftrightarrow> dr_status d = DraftDraft \<or> dr_status d = DraftApproved"

definition send_draft_once :: "worker_env \<Rightarrow> draft_row \<Rightarrow> string \<Rightarrow> reply io" where
  "send_draft_once env d draftId =
     (if \<not> sendable d then ret (not_sendable d)
      else let t = dr_tenant_id d; mb = dr_mailbox_id d in
           seq (validateDraftReferences t mb (dr_thread_id d) (dr_source_message_id d))
          (seq (validateActiveDraftMailbox t mb)
          (seq (validateStoredDraftFromAddress d)
          (seq (validateStoredDraftAttachments d)
          (seq (validateSendAgentBinding t (dr_agent_id d) mb)
          (seq (validateDraftOutboundPolicy d)
          (seq (validateDraftOutboundCredits d)
          (await (enqueueDraftSend env draftId) (\<lambda>job.
           ret (accepted_send (JObj (send_result draftId job))))))))))))"

text \<open>A request that holds its key, and the answers to its repetition.\<close>

definition send_draft_reserved :: "worker_env \<Rightarrow> claims \<Rightarrow> draft_row \<Rightarrow> string \<Rightarrow> string \<Rightarrow> reply io" where
  "send_draft_reserved env c d draftId key =
     (let t = dr_tenant_id d; free = releaseIdempotencyKey ''draft_send'' t key in
      if \<not> sendable d then seq free (ret (not_sendable d))
      else await (try_catch (seq (validateReplayableDraftSend c d) (enqueueDraftSend env draftId))
                    (\<lambda>e. seq free (throw e))) (\<lambda>job.
           let response = JObj (send_result draftId job) in
           committed
             (seq (updateIdempotencyKeyResource ''draft_send'' t key job)
             (seq (completeIdempotencyKey ''draft_send'' t key response (Some job))
                  (ret (accepted_send response))))))"

definition send_draft_again :: "claims \<Rightarrow> draft_row \<Rightarrow> string \<Rightarrow> string \<Rightarrow> idempotency_row \<Rightarrow> reply io" where
  "send_draft_again c d draftId key r =
     (if \<not> truthy (idem_resource_id r)
      then ret (conflict_reply ''A draft send request with this idempotency key is already in progress'')
      else seq (validateReplayableDraftSend c d)
          (await (restoreEnqueuedDraftSend draftId (idem_resource_id r)) (\<lambda>response.
           seq (bestEffortCompleteRecoveredIdempotency ''draft_send'' (dr_tenant_id d) key response
                  (str_opt (js_prop (json_object_of response) ''outboundJobId'')))
               (ret (accepted_send response)))))"

text \<open>\<open>reservation.record.response ?? await restoreEnqueuedDraftSend(...)\<close>\<close>

definition response_or :: "idempotency_row \<Rightarrow> json io \<Rightarrow> json io" where
  "response_or r otherwise = (case idem_response r of
     None \<Rightarrow> otherwise | Some JNull \<Rightarrow> otherwise | Some v \<Rightarrow> ret v)"

definition send_draft_replay :: "claims \<Rightarrow> draft_row \<Rightarrow> string \<Rightarrow> idempotency_row \<Rightarrow> reply io" where
  "send_draft_replay c d draftId r =
     seq (validateReplayableDraftSend c d)
     (await (response_or r (restoreEnqueuedDraftSend draftId (idem_resource_id r))) (\<lambda>response.
      ret (accepted_send response)))"

definition send_draft_with_key :: "worker_env \<Rightarrow> claims \<Rightarrow> draft_row \<Rightarrow> string \<Rightarrow> string \<Rightarrow> reply io" where
  "send_draft_with_key env c d draftId key =
     await (reserveIdempotencyKey ''draft_send'' (dr_tenant_id d) key
              (json_text (JObj [(''draftId'', JStr draftId)])) None) (\<lambda>reservation. case reservation of
       Conflict r \<Rightarrow> ret (conflict_reply ''Idempotency key is already used for a different draft send request'')
     | Pending r \<Rightarrow> send_draft_again c d draftId key r
     | Completed r \<Rightarrow> send_draft_replay c d draftId r
     | Reserved \<Rightarrow> send_draft_reserved env c d draftId key)"

definition post_draft_send :: "api_env \<Rightarrow> string option \<Rightarrow> string \<Rightarrow> http_body \<Rightarrow> reply io" where
  "post_draft_send env authorization draftId requestBody =
     with_auth (api_auth env) authorization [''draft:send''] (\<lambda>c.
     await (getDraft draftId) (\<lambda>found. case found of
       None \<Rightarrow> ret (error_reply 404 ''Draft not found'')
     | Some d \<Rightarrow>
         unless_refused (enforceTenantAccess c (dr_tenant_id d))
        (unless_refused (enforceScopedAgentAccess c (dr_agent_id d))
        (unless_refused (enforceMailboxAccess c (dr_mailbox_id d))
        (seq (validateDraftAgentBinding (dr_tenant_id d) (dr_agent_id d) (dr_mailbox_id d))
        (await (readOptionalJson requestBody) (\<lambda>body.
         await (requested_key (opt_or body [])) (\<lambda>key. case key of
           Inl r \<Rightarrow> ret r
         | Inr None \<Rightarrow> send_draft_once (api_worker env) d draftId
         | Inr (Some k) \<Rightarrow> send_draft_with_key (api_worker env) c d draftId k))))))))"

section \<open>\<open>POST /v1/messages/:messageId/reply\<close>\<close>

definition reply_references :: "thread_view option \<Rightarrow> message_row \<Rightarrow> string list" where
  "reply_references thread m =
     (let known = js_unique (map the (filter truthy (map msg_internet_message_id
            (case thread of None \<Rightarrow> [] | Some t \<Rightarrow> tv_messages t))))
      in if truthy (msg_internet_message_id m) \<and> the (msg_internet_message_id m) \<notin> set known
         then known @ [the (msg_internet_message_id m)] else known)"

definition reply_subject :: "message_row \<Rightarrow> string" where
  "reply_subject m =
     (let subject = opt_or (msg_subject m) [];
          replied = (if subject \<noteq> [] \<and> js_starts_with (js_lower subject) ''re:'' then subject
                     else js_trim (''Re: '' @ subject))
      in if replied = [] then ''Re:'' else replied)"

text \<open>\<open>body.text ?? ""\<close> of a member that is a text where it is given.\<close>

definition given_text :: "json_object \<Rightarrow> string \<Rightarrow> string" where
  "given_text body k = str_or '''' (js_prop body k)"

definition reply_request ::
  "message_row \<Rightarrow> string \<Rightarrow> string \<Rightarrow> string list \<Rightarrow> string option \<Rightarrow> json_object \<Rightarrow> send_request" where
  "reply_request m agentId replyFrom references key body =
     \<lparr>sr_tenant_id = msg_tenant_id m, sr_agent_id = agentId, sr_mailbox_id = msg_mailbox_id m,
      sr_thread_id = msg_thread_id m, sr_source_message_id = Some (msg_id m),
      sr_payload = \<lparr>sp_from = replyFrom, sp_to = [msg_from_addr m], sp_cc = [], sp_bcc = [],
        sp_subject = reply_subject m, sp_text = given_text body ''text'', sp_html = given_text body ''html'',
        sp_in_reply_to = msg_internet_message_id m, sp_references = references, sp_attachments = []\<rparr>,
      sr_created_via = ''api:v1/messages/:messageId/reply'', sr_idempotency_key = key,
      sr_request_fingerprint = json_text (JObj [(''route'', JStr ''v1/messages/:messageId/reply''),
        (''messageId'', JStr (msg_id m)), (''text'', JStr (given_text body ''text'')),
        (''html'', JStr (given_text body ''html''))])\<rparr>"

definition reply_to_message :: "api_env \<Rightarrow> claims \<Rightarrow> message_row \<Rightarrow> string \<Rightarrow> json_object \<Rightarrow> reply io" where
  "reply_to_message env c m agentId body =
     await (if truthy (msg_thread_id m) then getThread (the (msg_thread_id m)) else ret None) (\<lambda>rawThread.
     await (case rawThread of None \<Rightarrow> ret None | Some t \<Rightarrow> filterVisibleThreadForClaims c t) (\<lambda>thread.
     await (getMailboxById (msg_mailbox_id m)) (\<lambda>replyMailbox. case replyMailbox of
       None \<Rightarrow> ret (error_reply 404 ''Mailbox not found'')
     | Some mb \<Rightarrow>
         await (trimmed body ''idempotencyKey'') (\<lambda>key.
         await (createAndSendDraft (api_worker env)
                  (reply_request m agentId (mb_address mb) (reply_references thread m) key body)) (\<lambda>result.
         ret (Reply 202 (JObj (defined_fields (js_spread (json_object_of result)
           [(''sourceMessageId'', Some (JStr (msg_id m))),
            (''threadId'', map_option JStr (msg_thread_id m))])))))))))"

definition post_message_reply :: "api_env \<Rightarrow> string option \<Rightarrow> string \<Rightarrow> http_body \<Rightarrow> reply io" where
  "post_message_reply env authorization messageId requestBody =
     with_auth (api_auth env) authorization [''mail:read'', ''draft:create'', ''draft:send''] (\<lambda>c.
     await (getMessage messageId) (\<lambda>found. case found of
       None \<Rightarrow> ret (error_reply 404 ''Message not found'')
     | Some m \<Rightarrow>
         if msg_direction m \<noteq> Inbound then ret (badRequest ''Only inbound messages can be replied to'')
         else unless_refused (enforceTenantAccess c (msg_tenant_id m))
             (unless_refused (enforceMailboxAccess c (msg_mailbox_id m))
             (await (enforceMailboxScopedMessageVisibility c (msg_id m)) (\<lambda>hidden.
              unless_refused hidden
             (await (resolveSelfAgentForMailbox c (msg_mailbox_id m)) (\<lambda>selfAgent. case selfAgent of
                Inl r \<Rightarrow> ret (refused_with r)
              | Inr a \<Rightarrow>
                  await (readJson requestBody) (\<lambda>body.
                  if \<not> json_truthy (js_prop body ''text'') \<and> \<not> json_truthy (js_prop body ''html'')
                  then ret (badRequest ''text or html is required'')
                  else reply_to_message env c m (ag_id a) body))))))))"

section \<open>\<open>POST /v1/messages/:messageId/replay\<close>\<close>

text \<open>What is replayed: the ingest of the stored bytes, or the run of an agent.\<close>

datatype replay_plan = Renormalize string | RerunAgent execution_target

definition resolveReplayExecution ::
  "claims \<Rightarrow> message_row \<Rightarrow> json_object \<Rightarrow> (reply + replay_plan) io" where
  "resolveReplayExecution c m body =
     (if js_prop body ''mode'' = Some (JStr ''normalize'')
      then (if \<not> truthy (msg_raw_r2_key m)
            then ret (Inl (badRequest ''normalize replay requires the message to have raw email content''))
            else await (r2_get (the (msg_raw_r2_key m))) (\<lambda>object.
                 ret (if object = None then Inl (error_reply 404 ''Raw email content not found'')
                      else Inr (Renormalize (the (msg_raw_r2_key m))))))
      else await (trimmed body ''agentId'') (\<lambda>agentId.
           await (resolveReplayAgentTarget c (msg_mailbox_id m) agentId) (\<lambda>target.
           ret (case target of Inl r \<Rightarrow> Inl (refused_with r) | Inr t \<Rightarrow> Inr (RerunAgent t)))))"

definition queue_replay :: "message_row \<Rightarrow> replay_plan \<Rightarrow> unit io" where
  "queue_replay m plan = (case plan of
     Renormalize rawR2Key \<Rightarrow> send_out (ToIngestQueue (msg_id m))
   | RerunAgent t \<Rightarrow> enqueueReplayTask (msg_tenant_id m) (msg_mailbox_id m) (msg_id m) (xt_agent_id t))"

definition replay_response :: "message_row \<Rightarrow> json_object \<Rightarrow> json" where
  "replay_response m body = JObj [(''messageId'', JStr (msg_id m)),
     (''mode'', opt_or (js_prop body ''mode'') JNull), (''status'', JStr ''accepted'')]"

definition replay_once :: "claims \<Rightarrow> message_row \<Rightarrow> json_object \<Rightarrow> reply io" where
  "replay_once c m body = await (resolveReplayExecution c m body) (\<lambda>execution. case execution of
     Inl r \<Rightarrow> ret r
   | Inr plan \<Rightarrow> seq (queue_replay m plan) (ret (Reply 202 (replay_response m body))))"

definition replay_reserved :: "claims \<Rightarrow> message_row \<Rightarrow> json_object \<Rightarrow> string \<Rightarrow> reply io" where
  "replay_reserved c m body key =
     (let t = msg_tenant_id m; free = releaseIdempotencyKey ''message_replay'' t key;
          response = replay_response m body in
      await (try_catch
               (await (resolveReplayExecution c m body) (\<lambda>execution. case execution of
                  Inl r \<Rightarrow> seq free (ret (Some r))
                | Inr plan \<Rightarrow> seq (queue_replay m plan) (ret None)))
               (\<lambda>e. seq free (throw e))) (\<lambda>refused. case refused of
        Some r \<Rightarrow> ret r
      | None \<Rightarrow> committed
          (seq (updateIdempotencyKeyResource ''message_replay'' t key (msg_id m))
          (seq (completeIdempotencyKey ''message_replay'' t key response (Some (msg_id m)))
               (ret (Reply 202 response))))))"

definition replay_again :: "claims \<Rightarrow> message_row \<Rightarrow> json_object \<Rightarrow> string \<Rightarrow> idempotency_row \<Rightarrow> reply io" where
  "replay_again c m body key r =
     (if \<not> truthy (idem_resource_id r)
      then ret (conflict_reply ''A replay request with this idempotency key is already in progress'')
      else await (resolveReplayExecution c m body) (\<lambda>execution. case execution of
        Inl r \<Rightarrow> ret r
      | Inr plan \<Rightarrow>
          seq (bestEffortCompleteRecoveredIdempotency ''message_replay'' (msg_tenant_id m) key
                 (replay_response m body) (Some (msg_id m)))
              (ret (Reply 202 (replay_response m body)))))"

definition replay_known :: "claims \<Rightarrow> message_row \<Rightarrow> json_object \<Rightarrow> idempotency_row \<Rightarrow> reply io" where
  "replay_known c m body r = await (resolveReplayExecution c m body) (\<lambda>execution. case execution of
     Inl r' \<Rightarrow> ret r'
   | Inr plan \<Rightarrow> await (response_or r (ret (replay_response m body))) (\<lambda>v. ret (Reply 202 v)))"

definition replay_fingerprint :: "message_row \<Rightarrow> json_object \<Rightarrow> string" where
  "replay_fingerprint m body = json_text (JObj [(''messageId'', JStr (msg_id m)),
     (''mode'', opt_or (js_prop body ''mode'') JNull), (''agentId'', opt_or (js_prop body ''agentId'') JNull)])"

definition replay_message :: "claims \<Rightarrow> message_row \<Rightarrow> json_object \<Rightarrow> reply io" where
  "replay_message c m body = await (requested_key body) (\<lambda>key. case key of
     Inl r \<Rightarrow> ret r
   | Inr None \<Rightarrow> replay_once c m body
   | Inr (Some k) \<Rightarrow>
       await (reserveIdempotencyKey ''message_replay'' (msg_tenant_id m) k (replay_fingerprint m body) None)
         (\<lambda>reservation. case reservation of
           Conflict r \<Rightarrow> ret (conflict_reply ''Idempotency key is already used for a different replay request'')
         | Pending r \<Rightarrow> replay_again c m body k r
         | Completed r \<Rightarrow> replay_known c m body r
         | Reserved \<Rightarrow> replay_reserved c m body k))"

definition post_message_replay :: "api_env \<Rightarrow> string option \<Rightarrow> string \<Rightarrow> http_body \<Rightarrow> reply io" where
  "post_message_replay env authorization messageId requestBody =
     with_auth (api_auth env) authorization [''mail:replay''] (\<lambda>c.
     await (readJson requestBody) (\<lambda>body.
     if \<not> json_truthy (js_prop body ''mode'') then ret (badRequest ''mode is required'')
     else if js_prop body ''mode'' \<noteq> Some (JStr ''normalize'') \<and> js_prop body ''mode'' \<noteq> Some (JStr ''rerun_agent'')
     then ret (badRequest ''mode must be normalize or rerun_agent'')
     else await (getMessage messageId) (\<lambda>found. case found of
       None \<Rightarrow> ret (error_reply 404 ''Message not found'')
     | Some m \<Rightarrow>
         unless_refused (enforceTenantAccess c (msg_tenant_id m))
        (unless_refused (enforceMailboxAccess c (msg_mailbox_id m))
        (await (requireCurrentMailboxAccessForClaims c (msg_mailbox_id m)) (\<lambda>accessError.
         unless_refused accessError
        (await (enforceMailboxScopedMessageVisibility c (msg_id m)) (\<lambda>hidden.
         unless_refused hidden (replay_message c m body)))))))))"

section \<open>The store invariant\<close>

lemma keeps_requested_key [keeps_intros]: "keeps (stored K es J) (requested_key body)"
  unfolding requested_key_def by (intro keeps_intros)

lemma keeps_unless_refused [keeps_intros]: "keeps I k \<Longrightarrow> keeps I (unless_refused r k)"
  unfolding unless_refused_def by (intro keeps_intros)

lemma keeps_with_auth [keeps_intros]: "(\<And>c. keeps I (h c)) \<Longrightarrow> keeps I (with_auth env a scopes h)"
  unfolding with_auth_def by (intro keeps_intros)

lemma keeps_readOptionalJson [keeps_intros]: "keeps (stored K es J) (readOptionalJson b)"
  unfolding readOptionalJson_def by (intro keeps_intros)

lemma keeps_stored_draft_checks [keeps_intros]:
  "keeps (stored K es db_ok) (validateDraftAgentBinding t a mb)"
  "keeps (stored K es db_ok) (validateActiveDraftMailbox t mb)"
  "keeps (stored K es db_ok) (validateStoredDraftFromAddress d)"
  "keeps (stored K es db_ok) (validateStoredDraftAttachments d)"
  "keeps (stored K es db_ok) (validateSendAgentBinding t a mb)"
  "keeps (stored K es db_ok) (validateDraftOutboundPolicy d)"
  "keeps (stored K es db_ok) (validateDraftOutboundCredits d)"
  unfolding validateDraftAgentBinding_def validateActiveDraftMailbox_def validateStoredDraftFromAddress_def
    validateDraftFromAddress_def validateStoredDraftAttachments_def validateSendAgentBinding_def validateDraftOutboundPolicy_def
    validateDraftOutboundCredits_def Let_def
  by (intro keeps_intros)+

lemma keeps_reservation [keeps_intros]:
  "(\<And>r. keeps I (f r)) \<Longrightarrow> (\<And>r. keeps I (g r)) \<Longrightarrow> (\<And>r. keeps I (h r)) \<Longrightarrow> keeps I m \<Longrightarrow>
     keeps I (case x of Reserved \<Rightarrow> m | Pending r \<Rightarrow> f r | Completed r \<Rightarrow> g r | Conflict r \<Rightarrow> h r)"
  by (cases x) simp_all

lemma keeps_visibility_checks [keeps_intros]:
  "keeps (stored K es J) (enforceMailboxScopedMessageVisibility c i)"
  "keeps (stored K es J) (enforceMailboxScopedDraftReferenceVisibility c th src)"
  "keeps (stored K es J) (filterVisibleThreadForClaims c t)"
  "keeps (stored K es J) (sanitizeDraftReferencesForClaims c d)"
  "keeps (stored K es J) (resolveSelfAgentForMailbox c mb)"
  "keeps (stored K es J) (requireCurrentMailboxAccessForClaims c mb)"
  unfolding enforceMailboxScopedMessageVisibility_def enforceMailboxScopedDraftReferenceVisibility_def
    thread_hidden_def filterVisibleThreadForClaims_def isMailboxScopedOperatorTokenDeliveryMessage_def
    sanitizeDraftReferencesForClaims_def resolveSelfAgentForMailbox_def requireCurrentMailboxAccessForClaims_def
  by (intro keeps_intros)+

lemma keeps_post_draft_send [keeps_intros]: "keeps (stored K es db_ok) (post_draft_send env a i b)"
  unfolding post_draft_send_def send_draft_with_key_def send_draft_once_def send_draft_again_def
    send_draft_replay_def send_draft_reserved_def validateReplayableDraftSend_def response_or_def
    bestEffortCompleteRecoveredIdempotency_def Let_def
  by (intro keeps_intros; (simp split: json.split)?; intro conjI allI impI keeps_intros)

lemma keeps_post_message_reply [keeps_intros]: "keeps (stored K es db_ok) (post_message_reply env a i b)"
  unfolding post_message_reply_def reply_to_message_def by (intro keeps_intros)

lemma keeps_post_message_replay [keeps_intros]: "keeps (stored K es db_ok) (post_message_replay env a i b)"
  unfolding post_message_replay_def replay_message_def replay_once_def replay_reserved_def replay_again_def
    replay_known_def queue_replay_def enqueueReplayTask_def resolveReplayExecution_def
    resolveReplayAgentTarget_def agent_of_claims_def bestEffortCompleteRecoveredIdempotency_def response_or_def
    Let_def
  by (intro keeps_intros; (simp split: json.split replay_plan.split)?; intro conjI allI impI keeps_intros)

end
