(* ===== verification/MailRoutes.thy ===== *)
theory MailRoutes
  imports SendRoutes DeliveryEvents
begin

text \<open>
  \<open>src/routes/api.ts\<close>: the routes that read and write mail for the bearer of a token, i.e. messages
  with their content, threads, drafts, tasks, outbound jobs, and the mailbox of a token itself;
  and \<open>getMessageContent\<close> of \<open>src/repositories/mail.ts\<close>. A route answers with a refusal or with the
  records that its JSON body is made of. Of a body, a member of another type than the declared one
  is read as absent.
\<close>

section \<open>Answers\<close>

type_synonym 'a answer = "(reply + 'a) io"

definition answer :: "'a \<Rightarrow> 'a answer" where
  "answer x = ret (Inr x)"

definition refuse :: "reply \<Rightarrow> 'a answer" where
  "refuse r = ret (Inl r)"

definition admit :: "refusal option \<Rightarrow> 'a answer \<Rightarrow> 'a answer" where
  "admit r k = (case r of Some r' \<Rightarrow> refuse (refused_with r') | None \<Rightarrow> k)"

definition admit_io :: "refusal option io \<Rightarrow> 'a answer \<Rightarrow> 'a answer" where
  "admit_io check k = await check (\<lambda>r. admit r k)"

definition present :: "'r option \<Rightarrow> string \<Rightarrow> ('r \<Rightarrow> 'a answer) \<Rightarrow> 'a answer" where
  "present row message k = (case row of None \<Rightarrow> refuse (error_reply 404 message) | Some r \<Rightarrow> k r)"

definition resolved :: "(refusal + 'r) io \<Rightarrow> ('r \<Rightarrow> 'a answer) \<Rightarrow> 'a answer" where
  "resolved m k = await m (\<lambda>x. case x of Inl r \<Rightarrow> refuse (refused_with r) | Inr y \<Rightarrow> k y)"

definition authorised ::
  "auth_env \<Rightarrow> string option \<Rightarrow> string list \<Rightarrow> (claims \<Rightarrow> 'a answer) \<Rightarrow> 'a answer" where
  "authorised env authorization scopes handler =
     await nowIso (\<lambda>now. case requireAuth env now authorization scopes of
       Inl e \<Rightarrow> throw e
     | Inr (Inl r) \<Rightarrow> refuse (refused_with r)
     | Inr (Inr c) \<Rightarrow> handler c)"

section \<open>The content of a message\<close>

text \<open>What R2 reports of a stored object beside its bytes is a parameter.\<close>

record object_meta =
  object_size :: "r2_object \<Rightarrow> int"
  object_content_type :: "r2_object \<Rightarrow> string option"

record attachment_view =
  view_id :: string
  view_filename :: "string option"
  view_content_type :: "string option"
  view_size_bytes :: int
  view_download_url :: string

record message_content =
  mc_text :: "string option"
  mc_html :: "string option"
  mc_attachments :: "attachment_view list"

definition stored_attachment :: "attachment_row \<Rightarrow> attachment_view" where
  "stored_attachment a = \<lparr>view_id = att_id a, view_filename = att_filename a,
     view_content_type = att_content_type a, view_size_bytes = att_size_bytes a,
     view_download_url = att_r2_key a\<rparr>"

definition stored_object :: "string \<Rightarrow> json_object option io" where
  "stored_object key = await (r2_get key) (\<lambda>object. case object of
     None \<Rightarrow> ret None | Some ob \<Rightarrow> await (r2_json ob) (\<lambda>m. ret (Some m)))"

text \<open>The references of a stored draft; an array is an object without the members that are read.\<close>

definition attachment_refs :: "json_object \<Rightarrow> json_object list" where
  "attachment_refs payload = (case js_prop payload ''attachments'' of
     Some (JArr items) \<Rightarrow> List.map_filter (\<lambda>j. case j of JObj m \<Rightarrow> Some m | JArr js \<Rightarrow> Some [] | _ \<Rightarrow> None) items
   | _ \<Rightarrow> [])"

definition draft_attachment_view :: "object_meta \<Rightarrow> nat \<Rightarrow> json_object \<Rightarrow> attachment_view option io" where
  "draft_attachment_view meta index ref =
     (let r2Key = str_or '''' (js_prop ref ''r2Key'') in
      if r2Key = [] then ret None
      else await (r2_get r2Key) (\<lambda>object.
        ret (Some \<lparr>view_id = ''draft_attachment_'' @ show_int (int index + 1),
          view_filename = Some (str_or (last (js_split CHR ''/'' r2Key)) (js_prop ref ''filename'')),
          view_content_type = (case str_opt (js_prop ref ''contentType'') of
             Some v \<Rightarrow> Some v | None \<Rightarrow> Option.bind object (object_content_type meta)),
          view_size_bytes = (case object of None \<Rightarrow> 0 | Some ob \<Rightarrow> object_size meta ob),
          view_download_url = r2Key\<rparr>)))"

definition draft_attachment_views :: "object_meta \<Rightarrow> json_object \<Rightarrow> attachment_view list io" where
  "draft_attachment_views meta payload =
     await (map_io (\<lambda>(i, ref). draft_attachment_view meta i ref)
              (enumerate 0 (attachment_refs payload))) (\<lambda>views.
     ret (List.map_filter id views))"

definition with_draft_content :: "object_meta \<Rightarrow> string \<Rightarrow> message_content \<Rightarrow> message_content io" where
  "with_draft_content meta messageId content =
     await (getOutboundJobByMessageId messageId) (\<lambda>job. case job of
       None \<Rightarrow> ret content
     | Some j \<Rightarrow> await (stored_object (oj_draft_r2_key j)) (\<lambda>draft. case draft of
         None \<Rightarrow> ret content
       | Some payload \<Rightarrow>
           await (if mc_attachments content \<noteq> [] then ret (mc_attachments content)
                  else draft_attachment_views meta payload) (\<lambda>views.
           ret \<lparr>mc_text = (case mc_text content of Some t \<Rightarrow> Some t
                            | None \<Rightarrow> str_opt (js_prop payload ''text'')),
                mc_html = (case mc_html content of Some h \<Rightarrow> Some h
                            | None \<Rightarrow> str_opt (js_prop payload ''html'')),
                mc_attachments = views\<rparr>)))"

definition getMessageContent :: "object_meta \<Rightarrow> string \<Rightarrow> message_content io" where
  "getMessageContent meta messageId =
     await (getMessage messageId) (\<lambda>found.
     await (requireRow found ''Message not found'') (\<lambda>m.
     await (if truthy (msg_normalized_r2_key m) then stored_object (the (msg_normalized_r2_key m))
            else ret None) (\<lambda>stored.
     await (query (\<lambda>s. order_asc att_created_at
              (filter (\<lambda>a. att_message_id a = messageId) (attachments s)))) (\<lambda>rows.
     let normalized = (case stored of None \<Rightarrow> [] | Some n \<Rightarrow> n);
         content = \<lparr>mc_text = str_opt (js_prop normalized ''text''),
           mc_html = str_opt (js_prop normalized ''html''),
           mc_attachments = map stored_attachment rows\<rparr>
     in if msg_direction m = Outbound
          \<and> (\<not> truthy (mc_text content) \<and> \<not> truthy (mc_html content) \<or> mc_attachments content = [])
        then with_draft_content meta messageId content else ret content))))"

section \<open>Messages and threads\<close>

definition visible_mail :: "claims \<Rightarrow> message_row \<Rightarrow> 'a answer \<Rightarrow> 'a answer" where
  "visible_mail c m k =
     admit (enforceTenantAccess c (msg_tenant_id m))
    (admit (enforceMailboxAccess c (msg_mailbox_id m))
    (admit_io (requireCurrentMailboxAccessForClaims c (msg_mailbox_id m))
    (admit_io (enforceMailboxScopedMessageVisibility c (msg_id m)) k)))"

text \<open>\<open>GET /v1/messages/:messageId\<close> and \<open>GET /v1/messages/:messageId/content\<close>\<close>

definition get_message :: "auth_env \<Rightarrow> string option \<Rightarrow> string \<Rightarrow> message_row answer" where
  "get_message env authorization messageId =
     authorised env authorization [''mail:read''] (\<lambda>c.
     await (getMessage messageId) (\<lambda>found. present found ''Message not found'' (\<lambda>m.
     visible_mail c m (answer m))))"

definition get_message_content ::
  "auth_env \<Rightarrow> object_meta \<Rightarrow> string option \<Rightarrow> string \<Rightarrow> message_content answer" where
  "get_message_content env meta authorization messageId =
     authorised env authorization [''mail:read''] (\<lambda>c.
     await (getMessage messageId) (\<lambda>found. present found ''Message not found'' (\<lambda>m.
     visible_mail c m (await (getMessageContent meta messageId) answer))))"

text \<open>\<open>GET /v1/threads/:threadId\<close>\<close>

definition get_thread :: "auth_env \<Rightarrow> string option \<Rightarrow> string \<Rightarrow> thread_view answer" where
  "get_thread env authorization threadId =
     authorised env authorization [''mail:read''] (\<lambda>c.
     await (getThread threadId) (\<lambda>found. present found ''Thread not found'' (\<lambda>t.
     admit (enforceTenantAccess c (th_tenant_id (tv_thread t)))
    (admit (enforceMailboxAccess c (th_mailbox_id (tv_thread t)))
    (admit_io (requireCurrentMailboxAccessForClaims c (th_mailbox_id (tv_thread t)))
    (await (filterVisibleThreadForClaims c t) (\<lambda>visible.
     present visible ''Thread not found'' answer)))))))"

section \<open>The mailbox of a token\<close>

text \<open>A query parameter that names a status: absent or empty, or one of the texts, or none of them.\<close>

datatype 'a wanted = AnyValue | Only 'a | NoValue

definition filter_of :: "('a \<Rightarrow> string) \<Rightarrow> 'a list \<Rightarrow> string option \<Rightarrow> 'a wanted" where
  "filter_of show vs param = (if \<not> truthy param then AnyValue
     else case find (\<lambda>v. show v = the param) vs of Some v \<Rightarrow> Only v | None \<Rightarrow> NoValue)"

primrec show_task_status :: "task_status \<Rightarrow> string" where
  "show_task_status TaskQueued = ''queued''"
| "show_task_status TaskRunning = ''running''"
| "show_task_status TaskDone = ''done''"
| "show_task_status TaskNeedsReview = ''needs_review''"
| "show_task_status TaskFailed = ''failed''"

primrec show_direction :: "direction \<Rightarrow> string" where
  "show_direction Inbound = ''inbound''"
| "show_direction Outbound = ''outbound''"

definition task_filter :: "string option \<Rightarrow> task_status wanted" where
  "task_filter = filter_of show_task_status [TaskQueued, TaskRunning, TaskDone, TaskNeedsReview, TaskFailed]"

definition filtered_tasks :: "string \<Rightarrow> task_status wanted \<Rightarrow> string list \<Rightarrow> task_row list io" where
  "filtered_tasks agentId status mailboxIds = (case status of
     AnyValue \<Rightarrow> listTasks agentId None mailboxIds
   | Only st \<Rightarrow> listTasks agentId (Some st) mailboxIds
   | NoValue \<Rightarrow> query (\<lambda>s. []))"

definition parseListLimit :: "string option \<Rightarrow> int \<Rightarrow> int \<Rightarrow> int" where
  "parseListLimit raw fallback upper =
     (if \<not> truthy raw then fallback
      else case js_parse_int (the raw) of None \<Rightarrow> fallback
           | Some n \<Rightarrow> if n \<le> 0 then fallback else min n upper)"

text \<open>\<open>GET /v1/mailboxes/self\<close>: the mailbox, and the agent of the token when it has one.\<close>

definition get_self_mailbox :: "auth_env \<Rightarrow> string option \<Rightarrow> (mailbox_row \<times> string option) answer" where
  "get_self_mailbox env authorization =
     authorised env authorization [''mail:read''] (\<lambda>c.
     resolved (resolveSelfMailbox c) (\<lambda>mb.
     if \<not> truthy (tk_agent_id c) then answer (mb, None)
     else resolved (resolveSelfAgentForMailbox c (mb_id mb)) (\<lambda>a. answer (mb, Some (ag_id a)))))"

text \<open>\<open>GET /v1/mailboxes/self/tasks\<close>\<close>

definition get_self_tasks :: "auth_env \<Rightarrow> string option \<Rightarrow> string option \<Rightarrow> task_row list answer" where
  "get_self_tasks env authorization status =
     authorised env authorization [''task:read''] (\<lambda>c.
     resolved (resolveSelfMailbox c) (\<lambda>mb.
     resolved (resolveSelfAgentForMailbox c (mb_id mb)) (\<lambda>a.
     await (filtered_tasks (ag_id a) (task_filter status) [mb_id mb]) answer)))"

text \<open>\<open>GET /v1/mailboxes/self/messages\<close>\<close>

record message_query =
  mq_limit :: "string option"
  mq_search :: "string option"
  mq_direction :: "string option"
  mq_status :: "string option"

definition queried_messages :: "string \<Rightarrow> message_query \<Rightarrow> message_row list io" where
  "queried_messages mailboxId q =
     (let list = listMessages (Some mailboxId) (Some (parseListLimit (mq_limit q) 50 200))
                   (map_option js_trim (mq_search q));
          dir = filter_of show_direction [Inbound, Outbound] (map_option js_trim (mq_direction q));
          status = filter_of show_message_status
            [MsgReceived, MsgNormalized, MsgTasked, MsgReplied, MsgIgnored, MsgFailed]
            (map_option js_trim (mq_status q))
      in if dir = NoValue \<or> status = NoValue then query (\<lambda>s. [])
         else list (case dir of Only d \<Rightarrow> Some d | _ \<Rightarrow> None) (case status of Only st \<Rightarrow> Some st | _ \<Rightarrow> None))"

definition get_self_messages :: "auth_env \<Rightarrow> string option \<Rightarrow> message_query \<Rightarrow> message_row list answer" where
  "get_self_messages env authorization q =
     authorised env authorization [''mail:read''] (\<lambda>c.
     resolved (resolveSelfMailbox c) (\<lambda>mb.
     admit_io (requireCurrentMailboxAccessForClaims c (mb_id mb))
    (await (queried_messages (mb_id mb) q) (\<lambda>items.
     await (filter_io (\<lambda>m. if mailbox_ids c = [] then ret True
              else await (isMailboxScopedOperatorTokenDeliveryMessage (msg_id m)) (\<lambda>hidden. ret (\<not> hidden)))
              items) answer))))"

definition own_mail :: "claims \<Rightarrow> mailbox_row \<Rightarrow> message_row \<Rightarrow> 'a answer \<Rightarrow> 'a answer" where
  "own_mail c mb m k =
     (if msg_mailbox_id m \<noteq> mb_id mb \<or> msg_tenant_id m \<noteq> mb_tenant_id mb
      then refuse (error_reply 403 ''Mailbox access denied'')
      else admit_io (enforceMailboxScopedMessageVisibility c (msg_id m)) k)"

text \<open>\<open>GET /v1/mailboxes/self/messages/:messageId\<close> and its \<open>/content\<close>\<close>

definition get_self_message :: "auth_env \<Rightarrow> string option \<Rightarrow> string \<Rightarrow> message_row answer" where
  "get_self_message env authorization messageId =
     authorised env authorization [''mail:read''] (\<lambda>c.
     resolved (resolveSelfMailbox c) (\<lambda>mb.
     admit_io (requireCurrentMailboxAccessForClaims c (mb_id mb))
    (await (getMessage messageId) (\<lambda>found. present found ''Message not found'' (\<lambda>m.
     own_mail c mb m (answer m))))))"

definition get_self_message_content ::
  "auth_env \<Rightarrow> object_meta \<Rightarrow> string option \<Rightarrow> string \<Rightarrow> message_content answer" where
  "get_self_message_content env meta authorization messageId =
     authorised env authorization [''mail:read''] (\<lambda>c.
     resolved (resolveSelfMailbox c) (\<lambda>mb.
     admit_io (requireCurrentMailboxAccessForClaims c (mb_id mb))
    (await (getMessage messageId) (\<lambda>found. present found ''Message not found'' (\<lambda>m.
     own_mail c mb m (await (getMessageContent meta messageId) answer))))))"

text \<open>\<open>GET /v1/agents/:agentId/tasks\<close>\<close>

definition get_agent_tasks :: "auth_env \<Rightarrow> string option \<Rightarrow> string \<Rightarrow> string option \<Rightarrow> task_row list answer" where
  "get_agent_tasks env authorization agentId status =
     authorised env authorization [''task:read''] (\<lambda>c.
     await (getAgent agentId) (\<lambda>found. present found ''Agent not found'' (\<lambda>a.
     admit (enforceTenantAccess c (ag_tenant_id a))
    (admit (enforceScopedAgentAccess c agentId)
    (await (resolveActiveClaimMailboxIdsForAgent c agentId) (\<lambda>authorizedMailboxIds.
     if mailbox_ids c \<noteq> [] \<and> (authorizedMailboxIds = None \<or> authorizedMailboxIds = Some [])
     then refuse (error_reply 403 ''Agent is not active for any mailbox in this token'')
     else await (filtered_tasks agentId (task_filter status) (opt_or authorizedMailboxIds (mailbox_ids c)))
            answer))))))"

section \<open>Drafts\<close>

text \<open>The mail that a body describes; a list keeps its strings.\<close>

definition strings_of :: "json option \<Rightarrow> string list" where
  "strings_of v = (case v of Some (JArr js) \<Rightarrow> json_strings js | _ \<Rightarrow> [])"

definition draft_attachment_of :: "json \<Rightarrow> draft_attachment" where
  "draft_attachment_of j = (let m = json_object_of j in
     \<lparr>da_filename = str_or '''' (js_prop m ''filename''), da_content_type = str_or '''' (js_prop m ''contentType''),
      da_r2_key = str_or '''' (js_prop m ''r2Key'')\<rparr>)"

definition attachments_of :: "json option \<Rightarrow> draft_attachment list" where
  "attachments_of v = (case v of Some (JArr js) \<Rightarrow> map draft_attachment_of js | _ \<Rightarrow> [])"

definition payload_of :: "string \<Rightarrow> json_object \<Rightarrow> send_payload" where
  "payload_of sender body =
     \<lparr>sp_from = sender, sp_to = strings_of (js_prop body ''to''), sp_cc = strings_of (js_prop body ''cc''),
      sp_bcc = strings_of (js_prop body ''bcc''), sp_subject = given_text body ''subject'',
      sp_text = given_text body ''text'', sp_html = given_text body ''html'',
      sp_in_reply_to = str_opt (js_prop body ''inReplyTo''),
      sp_references = strings_of (js_prop body ''references''),
      sp_attachments = attachments_of (js_prop body ''attachments'')\<rparr>"

text \<open>The checks that the routes of one draft share.\<close>

definition own_draft :: "claims \<Rightarrow> draft_row \<Rightarrow> 'a answer \<Rightarrow> 'a answer" where
  "own_draft c d k =
     admit (enforceTenantAccess c (dr_tenant_id d))
    (admit (enforceScopedAgentAccess c (dr_agent_id d))
    (admit (enforceMailboxAccess c (dr_mailbox_id d))
    (seq (validateDraftAgentBinding (dr_tenant_id d) (dr_agent_id d) (dr_mailbox_id d)) k)))"

text \<open>\<open>GET /v1/drafts/:draftId\<close>\<close>

definition get_draft :: "auth_env \<Rightarrow> string option \<Rightarrow> string \<Rightarrow> draft_row answer" where
  "get_draft env authorization draftId =
     authorised env authorization [''draft:read''] (\<lambda>c.
     await (getDraft draftId) (\<lambda>found. present found ''Draft not found'' (\<lambda>d.
     own_draft c d (await (sanitizeDraftReferencesForClaims c d) answer))))"

text \<open>\<open>DELETE /v1/drafts/:draftId\<close>: the id of the cancelled draft.\<close>

definition delete_own_draft :: "auth_env \<Rightarrow> string option \<Rightarrow> string \<Rightarrow> string answer" where
  "delete_own_draft env authorization draftId =
     authorised env authorization [''draft:create''] (\<lambda>c.
     await (getDraft draftId) (\<lambda>found. present found ''Draft not found'' (\<lambda>d.
     own_draft c d
       (if dr_status d = DraftQueued \<or> dr_status d = DraftSent
        then refuse (conflict_reply (''Draft status '' @ show_draft_status (dr_status d) @ '' cannot be cancelled''))
        else seq (when_io (dr_status d \<noteq> DraftCancelled) (markDraftStatus (dr_id d) DraftCancelled))
                 (answer (dr_id d))))))"

text \<open>\<open>POST /v1/agents/:agentId/drafts\<close>\<close>

definition create_requested_draft ::
  "claims \<Rightarrow> string \<Rightarrow> string \<Rightarrow> string \<Rightarrow> send_payload \<Rightarrow> json_object \<Rightarrow> draft_row answer" where
  "create_requested_draft c tenantId agentId mailboxId p body =
     (let threadId = str_opt (js_prop body ''threadId'');
          sourceMessageId = str_opt (js_prop body ''sourceMessageId'')
      in seq (validateDraftAgentBinding tenantId agentId mailboxId)
        (seq (validateDraftReferences tenantId mailboxId threadId sourceMessageId)
        (admit_io (enforceMailboxScopedDraftReferenceVisibility c threadId sourceMessageId)
        (seq (validateDraftAttachments tenantId mailboxId (sp_attachments p))
        (await (createDraft \<lparr>di_tenant_id = tenantId, di_agent_id = agentId, di_mailbox_id = mailboxId,
            di_thread_id = threadId, di_source_message_id = sourceMessageId,
            di_created_via = Some ''api:v1/agents/:agentId/drafts'', di_payload = payload_json p\<rparr>) answer)))))"

definition post_agent_draft :: "auth_env \<Rightarrow> string option \<Rightarrow> string \<Rightarrow> http_body \<Rightarrow> draft_row answer" where
  "post_agent_draft env authorization agentId requestBody =
     authorised env authorization [''draft:create''] (\<lambda>c.
     admit (enforceScopedAgentAccess c agentId)
    (await (readJson requestBody) (\<lambda>body.
     let tenantId = given_text body ''tenantId''; mailboxId = given_text body ''mailboxId'';
         p = payload_of (given_text body ''from'') body
     in if tenantId = [] \<or> mailboxId = [] \<or> sp_from p = [] \<or> sp_to p = [] \<or> sp_subject p = []
        then refuse (badRequest ''tenantId, mailboxId, from, to, and subject are required'')
        else admit (enforceTenantAccess c tenantId)
            (admit (enforceMailboxAccess c mailboxId)
            (await (getAgent agentId) (\<lambda>foundAgent. present foundAgent ''Agent not found'' (\<lambda>a.
             if ag_tenant_id a \<noteq> tenantId then refuse (conflict_reply ''Agent does not belong to tenant'')
             else await (getMailboxById mailboxId) (\<lambda>foundMailbox. present foundMailbox ''Mailbox not found'' (\<lambda>mb.
               if mb_tenant_id mb \<noteq> tenantId then refuse (conflict_reply ''Mailbox does not belong to tenant'')
               else if js_lower (js_trim (sp_from p)) \<noteq> js_lower (js_trim (mb_address mb))
               then refuse (badRequest ''from must match the mailbox address'')
               else create_requested_draft c tenantId agentId mailboxId p body)))))))))"

section \<open>Sending from the own mailbox\<close>

text \<open>\<open>POST /v1/mailboxes/self/send\<close> and \<open>POST /v1/messages/send\<close> differ in the name of the route.\<close>

definition nullable :: "string option \<Rightarrow> json" where
  "nullable v = (case v of None \<Rightarrow> JNull | Some s \<Rightarrow> JStr s)"

definition send_fingerprint :: "string \<Rightarrow> string \<Rightarrow> send_payload \<Rightarrow> string" where
  "send_fingerprint route mailboxId p = json_text (JObj
     [(''route'', JStr route), (''mailboxId'', JStr mailboxId), (''to'', JArr (map JStr (sp_to p))),
      (''cc'', JArr (map JStr (sp_cc p))), (''bcc'', JArr (map JStr (sp_bcc p))),
      (''subject'', JStr (sp_subject p)), (''text'', JStr (sp_text p)), (''html'', JStr (sp_html p)),
      (''inReplyTo'', nullable (sp_in_reply_to p)), (''references'', JArr (map JStr (sp_references p))),
      (''attachments'', JArr (map attachment_json (sp_attachments p)))])"

definition post_self_send :: "string \<Rightarrow> api_env \<Rightarrow> string option \<Rightarrow> http_body \<Rightarrow> json answer" where
  "post_self_send route env authorization requestBody =
     authorised (api_auth env) authorization [''draft:create'', ''draft:send''] (\<lambda>c.
     resolved (resolveSelfMailbox c) (\<lambda>mb.
     resolved (resolveSelfAgentForMailbox c (mb_id mb)) (\<lambda>a.
     await (readJson requestBody) (\<lambda>body.
     let p = payload_of (mb_address mb) body in
     if sp_to p = [] \<or> sp_subject p = [] then refuse (badRequest ''to and subject are required'')
     else await (trimmed body ''idempotencyKey'') (\<lambda>key.
          await (createAndSendDraft (api_worker env)
            \<lparr>sr_tenant_id = mb_tenant_id mb, sr_agent_id = ag_id a, sr_mailbox_id = mb_id mb,
             sr_thread_id = None, sr_source_message_id = None, sr_payload = p,
             sr_created_via = ''api:'' @ route, sr_idempotency_key = key,
             sr_request_fingerprint = send_fingerprint route (mb_id mb) p\<rparr>) answer)))))"

definition post_mailbox_self_send :: "api_env \<Rightarrow> string option \<Rightarrow> http_body \<Rightarrow> json answer" where
  "post_mailbox_self_send = post_self_send ''v1/mailboxes/self/send''"

definition post_message_send :: "api_env \<Rightarrow> string option \<Rightarrow> http_body \<Rightarrow> json answer" where
  "post_message_send = post_self_send ''v1/messages/send''"

section \<open>Outbound jobs\<close>

text \<open>\<open>GET /v1/outbound-jobs/:outboundJobId\<close>\<close>

record job_view =
  jv_job :: outbound_job_row
  jv_final_delivery_state :: string
  jv_message :: message_row
  jv_draft :: "draft_row option"
  jv_delivery_events :: "delivery_event_row list"

definition final_delivery_state :: "outbound_job_status \<Rightarrow> string" where
  "final_delivery_state st = (if st = JobSent then ''sent'' else if st = JobFailed then ''failed'' else ''pending'')"

definition get_outbound_job :: "auth_env \<Rightarrow> string option \<Rightarrow> string \<Rightarrow> job_view answer" where
  "get_outbound_job env authorization outboundJobId =
     authorised env authorization [''draft:read''] (\<lambda>c.
     await (getOutboundJob outboundJobId) (\<lambda>foundJob. present foundJob ''Outbound job not found'' (\<lambda>j.
     await (getMessage (oj_message_id j)) (\<lambda>found. present found ''Outbound job message not found'' (\<lambda>m.
     admit (enforceTenantAccess c (msg_tenant_id m))
    (admit (enforceMailboxAccess c (msg_mailbox_id m))
    (admit_io (requireCurrentMailboxAccessForClaims c (msg_mailbox_id m))
    (await (getDraftByR2KeyForOutboundLifecycle (oj_draft_r2_key j)) (\<lambda>draft.
     await (case draft of None \<Rightarrow> ret None
            | Some d \<Rightarrow> await (sanitizeDraftReferencesForClaims c d) (\<lambda>d'. ret (Some d'))) (\<lambda>sanitizedDraft.
     await (listDeliveryEventsByMessageId (msg_id m)) (\<lambda>events.
     answer \<lparr>jv_job = j, jv_final_delivery_state = final_delivery_state (oj_status j), jv_message = m,
       jv_draft = sanitizedDraft, jv_delivery_events = events\<rparr>)))))))))))"

section \<open>What an answer shows\<close>

text \<open>\<open>answers m Q\<close>: whatever the world, the records that \<open>m\<close> answers with have \<open>Q\<close>.\<close>

definition answers :: "'a answer \<Rightarrow> ('a \<Rightarrow> bool) \<Rightarrow> bool" where
  "answers m Q \<longleftrightarrow> (\<forall>w x w'. m w = (Inr (Inr x), w') \<longrightarrow> Q x)"

named_theorems answers_intros

lemma answers_answer [answers_intros]: "Q x \<Longrightarrow> answers (answer x) Q"
  by (simp add: answers_def answer_def ret_def)

lemma answers_refuse [answers_intros]: "answers (refuse r) Q"
  by (simp add: answers_def refuse_def ret_def)

lemma answers_await_yields: "yields m P \<Longrightarrow> (\<And>x. P x \<Longrightarrow> answers (f x) Q) \<Longrightarrow> answers (await m f) Q"
  unfolding answers_def yields_def by (blast elim: await_InrE)

lemma answers_await [answers_intros]: "(\<And>x. answers (f x) Q) \<Longrightarrow> answers (await m f) Q"
  by (rule answers_await_yields [OF yields_any])

lemma answers_seq [answers_intros]: "answers k Q \<Longrightarrow> answers (seq m k) Q"
  unfolding seq_def by (rule answers_await)

lemma answers_if [answers_intros]:
  "(b \<Longrightarrow> answers m Q) \<Longrightarrow> (\<not> b \<Longrightarrow> answers k Q) \<Longrightarrow> answers (if b then m else k) Q"
  by simp

lemma answers_admit [answers_intros]: "(r = None \<Longrightarrow> answers k Q) \<Longrightarrow> answers (admit r k) Q"
  unfolding admit_def by (auto split: option.split intro: answers_intros)

lemma answers_admit_io [answers_intros]: "answers k Q \<Longrightarrow> answers (admit_io check k) Q"
  unfolding admit_io_def by (intro answers_intros)

lemma answers_present [answers_intros]:
  "(\<And>r. row = Some r \<Longrightarrow> answers (k r) Q) \<Longrightarrow> answers (present row message k) Q"
  unfolding present_def by (auto split: option.split intro: answers_intros)

lemma answers_resolved:
  "yields m (\<lambda>x. \<forall>y. x = Inr y \<longrightarrow> P y) \<Longrightarrow> (\<And>y. P y \<Longrightarrow> answers (k y) Q) \<Longrightarrow> answers (resolved m k) Q"
  unfolding resolved_def
  by (erule answers_await_yields) (auto split: sum.split intro: answers_intros)

text \<open>\<open>serves\<close>: whoever gets records was authorised, and the records have \<open>Q\<close> for the claims of the token.\<close>

definition serves ::
  "auth_env \<Rightarrow> string option \<Rightarrow> string list \<Rightarrow> 'a answer \<Rightarrow> (claims \<Rightarrow> 'a \<Rightarrow> bool) \<Rightarrow> bool" where
  "serves env authorization scopes route Q \<longleftrightarrow> (\<forall>w x w'. route w = (Inr (Inr x), w') \<longrightarrow>
     (\<exists>c. requireAuth env (clock w (ticks w)) authorization scopes = Inr (Inr c) \<and> Q c x))"

lemma serves_authorised:
  assumes "\<And>c. answers (handler c) (Q c)"
  shows "serves env authorization scopes (authorised env authorization scopes handler) Q"
  unfolding serves_def
proof (intro allI impI)
  fix w x w'
  assume run: "authorised env authorization scopes handler w = (Inr (Inr x), w')"
  then obtain c where "requireAuth env (clock w (ticks w)) authorization scopes = Inr (Inr c)"
      "handler c w = (Inr (Inr x), w')"
    by (auto simp: authorised_def await_def nowIso_def refuse_def throw_def ret_def split: sum.splits)
  then show "\<exists>c. requireAuth env (clock w (ticks w)) authorization scopes = Inr (Inr c) \<and> Q c x"
    using assms [of c] unfolding answers_def by blast
qed

text \<open>What the claims of a token grant: its tenant, and its mailboxes when it is scoped to mailboxes.\<close>

definition in_scope :: "claims \<Rightarrow> string \<Rightarrow> bool" where
  "in_scope c mailboxId \<longleftrightarrow> (mailbox_ids c \<noteq> [] \<longrightarrow> mailboxId \<in> set (mailbox_ids c))"

definition mail_granted :: "claims \<Rightarrow> string \<Rightarrow> string \<Rightarrow> bool" where
  "mail_granted c tenantId mailboxId \<longleftrightarrow> tenantId = tk_tenant_id c \<and> in_scope c mailboxId"

lemma grants_access:
  "enforceTenantAccess c t = None \<Longrightarrow> enforceMailboxAccess c mb = None \<Longrightarrow> mail_granted c t mb"
  by (auto simp: mail_granted_def in_scope_def enforceTenantAccess_def enforceMailboxAccess_def split: if_splits)

lemma yields_query: "(\<And>s. Q (f s)) \<Longrightarrow> yields (query f) Q"
  by (auto simp: yields_def query_def call_store_def Let_def split: fault.splits)

lemma yields_getMailboxById: "yields (getMailboxById i) (\<lambda>x. \<forall>m. x = Some m \<longrightarrow> mb_id m = i)"
  unfolding getMailboxById_def
  by (rule yields_query) (auto dest: first_row_filter_Some)

lemma self_mailbox_granted:
  "yields (resolveSelfMailbox c) (\<lambda>x. \<forall>mb. x = Inr mb \<longrightarrow> mail_granted c (mb_tenant_id mb) (mb_id mb))"
  unfolding resolveSelfMailbox_def
  by (auto intro!: yields_ret yields_await [OF yields_getMailboxById]
      simp: mail_granted_def in_scope_def split: list.split option.splits if_splits)

lemma yields_rows: "(\<And>s x. x \<in> set (f s) \<Longrightarrow> P x) \<Longrightarrow> yields (query f) (\<lambda>xs. \<forall>x \<in> set xs. P x)"
  by (rule yields_query) blast

lemma getThread_messages:
  "yields (getThread i) (\<lambda>x. \<forall>t. x = Some t \<longrightarrow> (\<forall>m \<in> set (tv_messages t).
     msg_tenant_id m = th_tenant_id (tv_thread t) \<and> msg_mailbox_id m = th_mailbox_id (tv_thread t)))"
proof -
  have rows: "yields (query (\<lambda>s. order_asc msg_created_at (filter (\<lambda>m. msg_thread_id m = Some i
      \<and> msg_mailbox_id m = th_mailbox_id t \<and> msg_tenant_id m = th_tenant_id t \<and> message_visible s m)
      (messages s)))) (\<lambda>ms. \<forall>m \<in> set ms. msg_tenant_id m = th_tenant_id t \<and> msg_mailbox_id m = th_mailbox_id t)" for t
    by (rule yields_rows) (auto simp: order_asc_def)
  show ?thesis
    unfolding getThread_def
    by (auto intro!: yields_last yields_ret yields_await [OF rows] split: option.split)
qed

lemma filter_io_subset: "yields (filter_io f xs) (\<lambda>ys. set ys \<subseteq> set xs)"
proof (induction xs)
  case (Cons x xs)
  then show ?case by (auto intro!: yields_last yields_ret yields_await [OF Cons] split: if_splits)
qed (simp add: yields_ret)

lemma filtered_thread:
  "yields (filterVisibleThreadForClaims c t) (\<lambda>x. \<forall>v. x = Some v \<longrightarrow>
     tv_thread v = tv_thread t \<and> set (tv_messages v) \<subseteq> set (tv_messages t))"
  unfolding filterVisibleThreadForClaims_def
  by (auto intro!: yields_ret yields_await [OF filter_io_subset] split: if_splits) blast

lemma sanitized_draft:
  "yields (sanitizeDraftReferencesForClaims c d) (\<lambda>d'. dr_tenant_id d' = dr_tenant_id d
     \<and> dr_mailbox_id d' = dr_mailbox_id d \<and> dr_agent_id d' = dr_agent_id d)"
  unfolding sanitizeDraftReferencesForClaims_def by (auto intro!: yields_ret yields_last)

lemma listed_tasks:
  "yields (filtered_tasks agentId st mbs)
     (\<lambda>ts. \<forall>t \<in> set ts. tsk_assigned_agent t = Some agentId \<and> (mbs \<noteq> [] \<longrightarrow> tsk_mailbox_id t \<in> set mbs))"
proof -
  have "yields (listTasks agentId st' mbs)
     (\<lambda>ts. \<forall>t \<in> set ts. tsk_assigned_agent t = Some agentId \<and> (mbs \<noteq> [] \<longrightarrow> tsk_mailbox_id t \<in> set mbs))" for st'
    unfolding listTasks_def
    by (rule yields_await [OF yields_rows [where P = "\<lambda>t. tsk_assigned_agent t = Some agentId"]])
       (auto intro: yields_ret)
  then show ?thesis
    unfolding filtered_tasks_def by (cases st) (auto intro!: yields_rows)
qed

lemma claimed_mailboxes:
  "yields (resolveActiveClaimMailboxIdsForAgent c a) (\<lambda>x. case x of
     None \<Rightarrow> mailbox_ids c = [] | Some ids \<Rightarrow> mailbox_ids c \<noteq> [] \<and> set ids \<subseteq> set (mailbox_ids c))"
  unfolding resolveActiveClaimMailboxIdsForAgent_def
  by (auto intro!: yields_ret yields_await [OF filter_io_subset])

lemma serves_message: "serves env authorization [''mail:read''] (get_message env authorization i)
  (\<lambda>c m. mail_granted c (msg_tenant_id m) (msg_mailbox_id m))"
  unfolding get_message_def visible_mail_def
  by (intro serves_authorised answers_intros) (rule grants_access)

lemma serves_self_message: "serves env authorization [''mail:read''] (get_self_message env authorization i)
  (\<lambda>c m. mail_granted c (msg_tenant_id m) (msg_mailbox_id m))"
  unfolding get_self_message_def own_mail_def
  by (intro serves_authorised answers_resolved [OF self_mailbox_granted] answers_intros) simp

lemma serves_thread: "serves env authorization [''mail:read''] (get_thread env authorization i)
  (\<lambda>c t. \<forall>m \<in> set (tv_messages t). mail_granted c (msg_tenant_id m) (msg_mailbox_id m))"
  unfolding get_thread_def
proof (intro serves_authorised answers_await_yields [OF getThread_messages] answers_admit answers_admit_io
    answers_present answers_await_yields [OF filtered_thread] answers_answer ballI)
  fix c found t shown v m
  assume found: "\<forall>t. found = Some t \<longrightarrow> (\<forall>m \<in> set (tv_messages t).
      msg_tenant_id m = th_tenant_id (tv_thread t) \<and> msg_mailbox_id m = th_mailbox_id (tv_thread t))" "found = Some t"
    and access: "enforceTenantAccess c (th_tenant_id (tv_thread t)) = None"
      "enforceMailboxAccess c (th_mailbox_id (tv_thread t)) = None"
    and shown: "\<forall>v. shown = Some v \<longrightarrow> tv_thread v = tv_thread t \<and> set (tv_messages v) \<subseteq> set (tv_messages t)"
      "shown = Some v" "m \<in> set (tv_messages v)"
  from shown have "m \<in> set (tv_messages t)" by blast
  with found have "msg_tenant_id m = th_tenant_id (tv_thread t)" "msg_mailbox_id m = th_mailbox_id (tv_thread t)"
    by auto
  then show "mail_granted c (msg_tenant_id m) (msg_mailbox_id m)" using grants_access [OF access] by simp
qed

lemma serves_draft: "serves env authorization [''draft:read''] (get_draft env authorization i)
  (\<lambda>c d. mail_granted c (dr_tenant_id d) (dr_mailbox_id d)
     \<and> (truthy (tk_agent_id c) \<longrightarrow> tk_agent_id c = Some (dr_agent_id d)))"
  unfolding get_draft_def own_draft_def
  by (intro serves_authorised answers_await answers_present answers_admit answers_seq
      answers_await_yields [OF sanitized_draft] answers_answer)
     (auto dest: grants_access simp: enforceScopedAgentAccess_def enforceAgentAccess_def split: if_splits)

lemma serves_job: "serves env authorization [''draft:read''] (get_outbound_job env authorization i)
  (\<lambda>c v. mail_granted c (msg_tenant_id (jv_message v)) (msg_mailbox_id (jv_message v)))"
  unfolding get_outbound_job_def
  by (intro serves_authorised answers_intros) (simp add: grants_access)

lemma serves_tasks: "serves env authorization [''task:read''] (get_agent_tasks env authorization a st)
  (\<lambda>c ts. \<forall>t \<in> set ts. tsk_assigned_agent t = Some a \<and> in_scope c (tsk_mailbox_id t))"
  unfolding get_agent_tasks_def
  by (intro serves_authorised answers_await answers_present answers_admit answers_if answers_refuse
      answers_await_yields [OF claimed_mailboxes] answers_await_yields [OF listed_tasks] answers_answer)
     (auto simp: in_scope_def opt_or_def split: option.splits)


definition reading_world :: world where
  "reading_world = (quiet_world (demo_store DraftSent JobSent 5 1))\<lparr>clock := (\<lambda>n. 5000)\<rparr>"

lemma message_is_read:
  "\<exists>w'. get_message demo_auth_env (Some demo_bearer) ''msg1'' reading_world = (Inr (Inr demo_message), w')"
proof -
  have quiet: "quiet reading_world" and clock: "clock reading_world n = 5000" for n
    by (simp_all add: reading_world_def quiet_def quiet_world_def)
  have found: "getMessage ''msg1'' reading_world = (Inr (Some demo_message), tick reading_world)"
    unfolding getMessage_def using quiet
    by (simp add: run_simps) (simp add: reading_world_def visibility_defs demo_defs)
  show ?thesis
    by (simp add: get_message_def authorised_def run_simps await_app clock demo_request_authorised found
        present_def visible_mail_def admit_def admit_io_def answer_def enforceTenantAccess_def
        enforceMailboxAccess_def requireCurrentMailboxAccessForClaims_def
        enforceMailboxScopedMessageVisibility_def mailbox_ids_def)
       (simp add: demo_claims_def demo_message_def)
qed


section \<open>The store invariant\<close>

lemma keeps_answers [keeps_intros]:
  "keeps I (answer x)" "keeps I (refuse r)" "keeps I k \<Longrightarrow> keeps I (admit r' k)"
  "keeps I check \<Longrightarrow> keeps I k \<Longrightarrow> keeps I (admit_io check k)"
  "(\<And>y. keeps I (f y)) \<Longrightarrow> keeps I (present row message f)"
  "keeps I m \<Longrightarrow> (\<And>y. keeps I (f y)) \<Longrightarrow> keeps I (resolved m f)"
  "(\<And>c. keeps I (g c)) \<Longrightarrow> keeps I (authorised env authorization scopes g)"
  unfolding answer_def refuse_def admit_def admit_io_def present_def resolved_def authorised_def
  by (intro keeps_intros | assumption)+

lemma keeps_delete_own_draft [keeps_intros]: "keeps (stored K es db_ok) (delete_own_draft env a i)"
  unfolding delete_own_draft_def own_draft_def by (intro keeps_intros)

lemma keeps_post_agent_draft [keeps_intros]: "keeps (stored K es db_ok) (post_agent_draft env a i b)"
  unfolding post_agent_draft_def create_requested_draft_def Let_def by (intro keeps_intros)

lemma keeps_post_self_send [keeps_intros]: "keeps (stored K es db_ok) (post_self_send route env a b)"
  unfolding post_self_send_def Let_def by (intro keeps_intros)

end
