(* ===== verification/AgentRoutes.thy ===== *)
theory AgentRoutes
  imports MailRoutes Deployments
begin

text \<open>
  \<open>src/routes/api.ts\<close>, the control plane of agents: the agents of a tenant, their versions,
  deployments, mailboxes and policies. Every route first checks the token, then that the agent is of
  its tenant, and only then reads the body. The body of a request is taken as what \<open>readJson\<close>
  returns at the type that the route declares, or as the error that it throws.
\<close>

section \<open>The checks\<close>

type_synonym 'b typed_body = "js_error + 'b"

definition control_plane ::
  "auth_env \<Rightarrow> string option \<Rightarrow> string \<Rightarrow> (claims \<Rightarrow> 'a answer) \<Rightarrow> 'a answer" where
  "control_plane env authorization scope handler =
     authorised env authorization [scope] (\<lambda>c. admit (requireAgentControlPlaneAccess c) (handler c))"

definition own_agent :: "claims \<Rightarrow> string \<Rightarrow> (agent_row \<Rightarrow> 'a answer) \<Rightarrow> 'a answer" where
  "own_agent c agentId handler =
     await (getAgent agentId) (\<lambda>found. present found ''Agent not found'' (\<lambda>a.
     admit (enforceTenantAccess c (ag_tenant_id a)) (admit (enforceScopedAgentAccess c agentId) (handler a))))"

definition for_agent ::
  "auth_env \<Rightarrow> string option \<Rightarrow> string \<Rightarrow> string \<Rightarrow> (claims \<Rightarrow> agent_row \<Rightarrow> 'a answer) \<Rightarrow> 'a answer" where
  "for_agent env authorization scope agentId handler =
     control_plane env authorization scope (\<lambda>c. own_agent c agentId (handler c))"

text \<open>\<open>catch (error) { if (error instanceof DeploymentConflictError) ... }\<close>, and the same for mailboxes.\<close>

definition or_conflict :: "'a answer \<Rightarrow> 'a answer" where
  "or_conflict m = try_catch m (\<lambda>e. case e of
     DeploymentConflictError why \<Rightarrow> refuse (conflict_reply why) | _ \<Rightarrow> throw e)"

definition or_mailbox_conflict :: "'a answer \<Rightarrow> 'a answer" where
  "or_mailbox_conflict m = try_catch m (\<lambda>e. case e of
     MailboxConflictError why \<Rightarrow> refuse (conflict_reply why) | _ \<Rightarrow> throw e)"

section \<open>Agents\<close>

record agent_body =
  ab_tenant_id :: "string option"
  ab_slug :: "string option"
  ab_name :: "string option"
  ab_description :: "string option"
  ab_mode :: "string option"
  ab_config :: "json_object option"

text \<open>\<open>POST /v1/agents\<close>\<close>

definition post_agent :: "auth_env \<Rightarrow> string option \<Rightarrow> agent_body typed_body \<Rightarrow> agent_row answer" where
  "post_agent env authorization requestBody =
     control_plane env authorization ''agent:create'' (\<lambda>c.
     await (lift_result requestBody) (\<lambda>body.
     if \<not> truthy (ab_tenant_id body) \<or> \<not> truthy (ab_name body) \<or> \<not> truthy (ab_mode body)
     then refuse (badRequest ''tenantId, name, and mode are required'')
     else admit (enforceTenantAccess c (the (ab_tenant_id body)))
            (await (createAgent \<lparr>ai_tenant_id = the (ab_tenant_id body), ai_slug = ab_slug body,
                ai_name = the (ab_name body), ai_description = ab_description body,
                ai_mode = the (ab_mode body), ai_config = opt_or (ab_config body) []\<rparr>) answer)))"

text \<open>\<open>GET /v1/agents\<close>\<close>

definition get_agents :: "auth_env \<Rightarrow> string option \<Rightarrow> string option \<Rightarrow> agent_row list answer" where
  "get_agents env authorization requestedTenantId =
     authorised env authorization [''agent:read''] (\<lambda>c.
     admit (if truthy requestedTenantId then enforceTenantAccess c (the requestedTenantId) else None)
       (if mailbox_ids c \<noteq> [] then refuse (error_reply 403 ''Mailbox-scoped tokens cannot list tenant agents'')
        else if truthy (tk_agent_id c)
        then await (getAgent (the (tk_agent_id c))) (\<lambda>agent. answer (case agent of
               Some a \<Rightarrow> if ag_tenant_id a = tk_tenant_id c then [a] else [] | None \<Rightarrow> []))
        else await (listAgents (Some (opt_or requestedTenantId (tk_tenant_id c)))) answer))"

text \<open>\<open>GET /v1/agents/:agentId\<close> and \<open>PATCH /v1/agents/:agentId\<close>\<close>

definition get_agent_route :: "auth_env \<Rightarrow> string option \<Rightarrow> string \<Rightarrow> agent_row answer" where
  "get_agent_route env authorization agentId = for_agent env authorization ''agent:read'' agentId (\<lambda>c. answer)"

definition patch_agent :: "auth_env \<Rightarrow> string option \<Rightarrow> string \<Rightarrow> agent_patch typed_body \<Rightarrow> agent_row answer" where
  "patch_agent env authorization agentId requestBody =
     for_agent env authorization ''agent:update'' agentId (\<lambda>c existing.
     await (lift_result requestBody) (\<lambda>body.
     await (if truthy (patch_default_version_id body)
            then await (getAgentVersion agentId (the (patch_default_version_id body))) (\<lambda>v. ret (v = None))
            else ret False) (\<lambda>foreign.
     if foreign then refuse (conflict_reply ''defaultVersionId must belong to agent'')
     else await (updateAgent agentId body) answer)))"

section \<open>Versions\<close>

record version_body =
  vb_version :: "string option"
  vb_model :: "string option"
  vb_config :: "json_object option"
  vb_manifest :: "json_object option"
  vb_status :: "string option"
  vb_capabilities :: "(string option \<times> json_object option) list"
  vb_tools :: "(string option \<times> bool option \<times> json_object option) list"

definition named_items :: "(string option \<times> 'x) list \<Rightarrow> (string \<times> 'x) list" where
  "named_items items = map (\<lambda>(k, x). (the k, x)) (filter (\<lambda>(k, x). truthy k) items)"

text \<open>\<open>POST /v1/agents/:agentId/versions\<close>\<close>

definition post_agent_version ::
  "auth_env \<Rightarrow> string option \<Rightarrow> string \<Rightarrow> version_body typed_body \<Rightarrow> agent_version answer" where
  "post_agent_version env authorization agentId requestBody =
     for_agent env authorization ''agent:update'' agentId (\<lambda>c a.
     await (lift_result requestBody) (\<lambda>body.
     if \<not> truthy (vb_version body) then refuse (badRequest ''version is required'')
     else await (createAgentVersion \<lparr>vi_agent_id = agentId, vi_version = the (vb_version body),
            vi_model = vb_model body, vi_config = vb_config body, vi_manifest = vb_manifest body,
            vi_status = vb_status body, vi_capabilities = named_items (vb_capabilities body),
            vi_tools = named_items (vb_tools body)\<rparr>) answer))"

text \<open>\<open>GET /v1/agents/:agentId/versions\<close> and \<open>GET /v1/agents/:agentId/versions/:versionId\<close>\<close>

definition get_agent_versions :: "auth_env \<Rightarrow> string option \<Rightarrow> string \<Rightarrow> agent_version list answer" where
  "get_agent_versions env authorization agentId =
     for_agent env authorization ''agent:read'' agentId (\<lambda>c a. await (listAgentVersions agentId) answer)"

definition get_agent_version :: "auth_env \<Rightarrow> string option \<Rightarrow> string \<Rightarrow> string \<Rightarrow> agent_version answer" where
  "get_agent_version env authorization agentId versionId =
     for_agent env authorization ''agent:read'' agentId (\<lambda>c a.
     await (getAgentVersion agentId versionId) (\<lambda>v. present v ''Agent version not found'' answer))"

section \<open>Deployments\<close>

record deployment_body =
  db_tenant_id :: "string option"
  db_agent_version_id :: "string option"
  db_target_type :: "string option"
  db_target_id :: "string option"
  db_status :: "string option"

text \<open>The checks of a creation and of a rollout, which lead to the input of both.\<close>

definition checked_deployment ::
  "claims \<Rightarrow> string \<Rightarrow> deployment_body \<Rightarrow> (deployment_input \<Rightarrow> 'a answer) \<Rightarrow> 'a answer" where
  "checked_deployment c agentId body handler =
     (if \<not> truthy (db_tenant_id body) \<or> \<not> truthy (db_agent_version_id body)
         \<or> \<not> truthy (db_target_type body) \<or> \<not> truthy (db_target_id body)
      then refuse (badRequest ''tenantId, agentVersionId, targetType, and targetId are required'')
      else let tenantId = the (db_tenant_id body); targetId = the (db_target_id body);
               version = await (getAgentVersion agentId (the (db_agent_version_id body))) (\<lambda>v.
                 present v ''Agent version not found'' (\<lambda>_. handler
                   \<lparr>dep_tenant_id = tenantId, dep_agent_id = agentId,
                    dep_agent_version_id = the (db_agent_version_id body),
                    dep_target_type = the (db_target_type body), dep_target_id = targetId\<rparr>))
           in admit (enforceTenantAccess c tenantId)
                (if db_target_type body \<noteq> Some ''mailbox'' then version
                 else admit (enforceMailboxAccess c targetId)
                        (await (getMailboxById targetId) (\<lambda>found. present found ''Mailbox not found'' (\<lambda>mb.
                         if mb_tenant_id mb \<noteq> tenantId
                         then refuse (conflict_reply ''Mailbox does not belong to tenant'') else version)))))"

text \<open>\<open>POST /v1/agents/:agentId/deployments\<close> and \<open>POST .../deployments/rollout\<close>\<close>

definition post_deployment ::
  "auth_env \<Rightarrow> string option \<Rightarrow> string \<Rightarrow> deployment_body typed_body \<Rightarrow> agent_deployment_row answer" where
  "post_deployment env authorization agentId requestBody =
     for_agent env authorization ''agent:update'' agentId (\<lambda>c a.
     await (lift_result requestBody) (\<lambda>body.
     checked_deployment c agentId body (\<lambda>input.
     or_conflict (await (createAgentDeployment input (db_status body)) answer))))"

definition post_rollout ::
  "auth_env \<Rightarrow> string option \<Rightarrow> string \<Rightarrow> deployment_body typed_body \<Rightarrow> agent_deployment_row answer" where
  "post_rollout env authorization agentId requestBody =
     for_agent env authorization ''agent:update'' agentId (\<lambda>c a.
     await (lift_result requestBody) (\<lambda>body.
     checked_deployment c agentId body (\<lambda>input.
     or_conflict (await (rolloutAgentDeployment input) answer))))"

text \<open>\<open>GET /v1/agents/:agentId/deployments\<close>\<close>

definition get_deployments :: "auth_env \<Rightarrow> string option \<Rightarrow> string \<Rightarrow> agent_deployment_row list answer" where
  "get_deployments env authorization agentId =
     for_agent env authorization ''agent:read'' agentId (\<lambda>c a.
     await (listAgentDeployments agentId) (\<lambda>items. answer (if mailbox_ids c = [] then items
       else filter (\<lambda>d. dp_target_type d = ''mailbox'' \<and> dp_target_id d \<in> set (mailbox_ids c)) items)))"

definition for_deployment ::
  "auth_env \<Rightarrow> string option \<Rightarrow> string \<Rightarrow> string \<Rightarrow> 'a answer \<Rightarrow> 'a answer" where
  "for_deployment env authorization agentId deploymentId k =
     for_agent env authorization ''agent:update'' agentId (\<lambda>c a.
     await (getAgentDeployment agentId deploymentId) (\<lambda>found.
     present found ''Agent deployment not found'' (\<lambda>d.
     admit (if dp_target_type d = ''mailbox'' then enforceMailboxAccess c (dp_target_id d) else None) k)))"

text \<open>\<open>PATCH /v1/agents/:agentId/deployments/:deploymentId\<close> and \<open>POST .../rollback\<close>\<close>

definition patch_deployment ::
  "auth_env \<Rightarrow> string option \<Rightarrow> string \<Rightarrow> string \<Rightarrow> string option typed_body \<Rightarrow> agent_deployment_row answer" where
  "patch_deployment env authorization agentId deploymentId requestBody =
     for_deployment env authorization agentId deploymentId
       (await (lift_result requestBody) (\<lambda>status.
        if \<not> truthy status then refuse (badRequest ''status is required'')
        else or_conflict (await (updateAgentDeploymentStatus agentId deploymentId (the status))
               (\<lambda>updated. present updated ''Agent deployment not found'' answer))))"

definition post_rollback :: "auth_env \<Rightarrow> string option \<Rightarrow> string \<Rightarrow> string \<Rightarrow> agent_deployment_row answer" where
  "post_rollback env authorization agentId deploymentId =
     for_deployment env authorization agentId deploymentId
       (or_conflict (await (rollbackAgentDeployment agentId deploymentId)
          (\<lambda>rolledBack. present rolledBack ''Agent deployment not found'' answer)))"

section \<open>Mailboxes and policies\<close>

record binding_body =
  bb_tenant_id :: "string option"
  bb_mailbox_id :: "string option"
  bb_role :: "mailbox_role option"

text \<open>\<open>POST /v1/agents/:agentId/mailboxes\<close>: here the body comes before the agent.\<close>

definition post_agent_mailbox ::
  "auth_env \<Rightarrow> string option \<Rightarrow> string \<Rightarrow> binding_body typed_body \<Rightarrow> agent_mailbox_row answer" where
  "post_agent_mailbox env authorization agentId requestBody =
     control_plane env authorization ''agent:bind'' (\<lambda>c.
     await (lift_result requestBody) (\<lambda>body.
     if \<not> truthy (bb_tenant_id body) \<or> \<not> truthy (bb_mailbox_id body) \<or> bb_role body = None
     then refuse (badRequest ''tenantId, mailboxId, and role are required'')
     else let tenantId = the (bb_tenant_id body); mailboxId = the (bb_mailbox_id body) in
       admit (enforceTenantAccess c tenantId)
      (admit (enforceScopedAgentAccess c agentId)
      (admit (enforceMailboxAccess c mailboxId)
      (await (getAgent agentId) (\<lambda>foundAgent. present foundAgent ''Agent not found'' (\<lambda>a.
       if ag_tenant_id a \<noteq> tenantId then refuse (conflict_reply ''Agent does not belong to tenant'')
       else await (getMailboxById mailboxId) (\<lambda>foundMailbox. present foundMailbox ''Mailbox not found'' (\<lambda>mb.
         if mb_tenant_id mb \<noteq> tenantId then refuse (conflict_reply ''Mailbox does not belong to tenant'')
         else or_mailbox_conflict (await (bindMailbox tenantId agentId mailboxId (the (bb_role body))) answer))))))))))"

text \<open>\<open>GET /v1/agents/:agentId/mailboxes\<close>\<close>

definition get_agent_mailboxes :: "auth_env \<Rightarrow> string option \<Rightarrow> string \<Rightarrow> agent_mailbox_row list answer" where
  "get_agent_mailboxes env authorization agentId =
     for_agent env authorization ''agent:read'' agentId (\<lambda>c a.
     await (listAgentMailboxes agentId) (\<lambda>items. answer (if mailbox_ids c = [] then items
       else filter (\<lambda>b. am_mailbox_id b \<in> set (mailbox_ids c)) items)))"

record policy_body =
  pb_auto_reply_enabled :: "bool option"
  pb_human_review_required :: "bool option"
  pb_confidence_threshold :: "rat option"
  pb_max_auto_replies_per_thread :: "int option"
  pb_allowed_recipient_domains :: "string list option"
  pb_blocked_sender_domains :: "string list option"
  pb_allowed_tools :: "string list option"

text \<open>\<open>PUT /v1/agents/:agentId/policy\<close>; the repository stamps the time of the update.\<close>

definition put_agent_policy ::
  "auth_env \<Rightarrow> string option \<Rightarrow> string \<Rightarrow> policy_body typed_body \<Rightarrow> agent_policy answer" where
  "put_agent_policy env authorization agentId requestBody =
     for_agent env authorization ''agent:update'' agentId (\<lambda>c a.
     await (lift_result requestBody) (\<lambda>body.
     if pb_auto_reply_enabled body = None \<or> pb_human_review_required body = None
        \<or> pb_confidence_threshold body = None \<or> pb_max_auto_replies_per_thread body = None
     then refuse (badRequest ''policy fields are required'')
     else await (upsertAgentPolicy \<lparr>ap_agent_id = agentId,
            ap_auto_reply_enabled = the (pb_auto_reply_enabled body),
            ap_human_review_required = the (pb_human_review_required body),
            ap_confidence_threshold = the (pb_confidence_threshold body),
            ap_max_auto_replies_per_thread = the (pb_max_auto_replies_per_thread body),
            ap_allowed_recipient_domains = opt_or (pb_allowed_recipient_domains body) [],
            ap_blocked_sender_domains = opt_or (pb_blocked_sender_domains body) [],
            ap_allowed_tools = opt_or (pb_allowed_tools body) [], ap_updated_at = 0\<rparr>) answer))"

section \<open>The store invariant\<close>

lemma keeps_control_plane [keeps_intros]:
  "(\<And>c. keeps I (h c)) \<Longrightarrow> keeps I (control_plane env a scope h)"
  "(\<And>c x. keeps (stored K es J) (g c x)) \<Longrightarrow> keeps (stored K es J) (for_agent env a scope i g)"
  "keeps (stored K es J) k \<Longrightarrow> keeps (stored K es J) (for_deployment env a i d k)"
  unfolding control_plane_def for_agent_def own_agent_def for_deployment_def
  by (intro keeps_intros | assumption)+

lemma keeps_or_conflict [keeps_intros]:
  "keeps I m \<Longrightarrow> keeps I (or_conflict m)" "keeps I m \<Longrightarrow> keeps I (or_mailbox_conflict m)"
  unfolding or_conflict_def or_mailbox_conflict_def
  by (auto intro!: keeps_intros split: js_error.split)

lemma keeps_checked_deployment [keeps_intros]:
  "(\<And>x. keeps (stored K es J) (h x)) \<Longrightarrow> keeps (stored K es J) (checked_deployment c i b h)"
  unfolding checked_deployment_def Let_def by (intro keeps_intros)

lemma keeps_agent_routes [keeps_intros]:
  "keeps (stored K es db_ok) (post_agent env a agent_body)"
  "keeps (stored K es db_ok) (patch_agent env a i patch)"
  "keeps (stored K es db_ok) (post_agent_version env a i version_body)"
  "keeps (stored K es db_ok) (post_deployment env a i deployment_body)"
  "keeps (stored K es db_ok) (post_rollout env a i deployment_body)"
  "keeps (stored K es db_ok) (patch_deployment env a i d status)"
  "keeps (stored K es db_ok) (post_rollback env a i d)"
  "keeps (stored K es db_ok) (post_agent_mailbox env a i binding_body)"
  "keeps (stored K es db_ok) (put_agent_policy env a i policy_body)"
  unfolding post_agent_def patch_agent_def post_agent_version_def post_deployment_def post_rollout_def
    patch_deployment_def post_rollback_def post_agent_mailbox_def put_agent_policy_def Let_def
  by (intro keeps_intros)+

section \<open>Agents of other tenants\<close>

definition foreign_agent :: "string \<Rightarrow> string \<Rightarrow> store \<Rightarrow> bool" where
  "foreign_agent tenantId agentId s \<longleftrightarrow> (\<forall>a \<in> set (agents s). ag_id a = agentId \<longrightarrow> ag_tenant_id a \<noteq> tenantId)"

lemma own_agent_foreign:
  "keeps (stored K es (\<lambda>s. foreign_agent (tk_tenant_id c) i s \<and> J s)) (own_agent c i h)"
  unfolding own_agent_def
proof (rule keeps_await_known [where Q = "\<lambda>found. \<forall>a. found = Some a \<longrightarrow> ag_tenant_id a \<noteq> tk_tenant_id c"])
  show "\<forall>a. found = Some a \<longrightarrow> ag_tenant_id a \<noteq> tk_tenant_id c"
    if "stored K es (\<lambda>s. foreign_agent (tk_tenant_id c) i s \<and> J s) w" "getAgent i w = (Inr found, w')"
    for w w' found
    using that unfolding getAgent_def query_def call_store_def stored_def foreign_agent_def agent_view_def
    by (auto simp: Let_def dest!: first_row_filter_Some split: fault.splits)
  show "keeps (stored K es (\<lambda>s. foreign_agent (tk_tenant_id c) i s \<and> J s))
      (present found message (\<lambda>a. admit (enforceTenantAccess c (ag_tenant_id a)) (k a)))"
    if "\<forall>a. found = Some a \<longrightarrow> ag_tenant_id a \<noteq> tk_tenant_id c" for found message k
    using that by (auto simp: present_def admit_def enforceTenantAccess_def intro!: keeps_intros split: option.split)
qed (intro keeps_intros)

lemma for_agent_foreign:
  assumes "shared (\<lambda>s. foreign_agent t i s \<and> J s) w"
    and "\<And>c. requireAuth env (clock w (ticks w)) authorization [scope] = Inr (Inr c) \<Longrightarrow> tk_tenant_id c = t"
  shows "J (store_of (snd (for_agent env authorization scope i h w)))"
proof -
  have "shared (\<lambda>s. foreign_agent t i s \<and> J s) (snd (own_agent c i h' w))" if "tk_tenant_id c = t" for c h'
    using keepsD [OF own_agent_foreign assms(1) [folded that]] that by simp
  then have "shared (\<lambda>s. foreign_agent t i s \<and> J s) (snd (for_agent env authorization scope i h w))"
    using assms unfolding for_agent_def control_plane_def authorised_def
    by (auto simp: await_app nowIso_def throw_def refuse_def ret_def admit_def split: sum.split option.split)
  then show ?thesis by (simp add: stored_def)
qed


definition other_claims :: claims where
  "other_claims = demo_claims\<lparr>tk_tenant_id := ''t2'', tk_scopes := [''agent:update'']\<rparr>"

definition other_env :: auth_env where
  "other_env = demo_auth_env\<lparr>parse_json :=
     (\<lambda>t. if t = json_text (claims_json other_claims) then Some (claims_json other_claims) else None)\<rparr>"

definition other_bearer :: string where
  "other_bearer = ''Bearer '' @ mintAccessToken other_env ''k'' other_claims"

lemma other_request_authorised:
  "requireAuth other_env 5000 (Some other_bearer) [''agent:update''] = Inr (Inr other_claims)"
proof -
  have env: "API_SIGNING_SECRET other_env = Some ''k''" "hmac_sha256 other_env = (@)"
      "parse_json other_env (json_text (claims_json other_claims)) = Some (claims_json other_claims)"
    by (simp_all add: other_env_def demo_auth_env_def)
  have claims: "tk_tenant_id other_claims = ''t2''" "tk_exp other_claims = 100" "tk_scopes other_claims = [''agent:update'']"
    by (simp_all add: other_claims_def demo_claims_def)
  show ?thesis
    using verify_minted [of other_claims other_env "''k''" "''k''" 5000]
    by (simp add: requireAuth_def other_bearer_def env claims js_starts_with_def utf8_def utf8_char_def Let_def)
qed


end
