(* ===== verification/PaymentRoutes.thy ===== *)
theory PaymentRoutes
  imports MailRoutes PaymentSettlement DidBindings
begin

text \<open>
  \<open>src/routes/api.ts\<close>: the routes that sell credits. Without a payment proof a request is answered with
  a quote; a proof that fits the quote becomes a receipt, once, and is settled at once when a
  facilitator is configured; \<open>POST /v1/billing/payment/confirm\<close> retries the settlement of a receipt.
  A body is taken as what \<open>readJson\<close> returns at the declared type, or as the error that it throws.
\<close>

section \<open>Replies\<close>

definition x402PaymentRequiredResponse :: "string \<Rightarrow> string option \<Rightarrow> x402_quote \<Rightarrow> payment_reply" where
  "x402PaymentRequiredResponse tenantId tenantDid quote = QuoteReply
     (defined_fields [(''error'', Some (JStr ''Payment required'')), (''protocol'', Some (JStr ''x402'')),
        (''tenantId'', Some (JStr tenantId)), (''tenantDid'', map_option JStr tenantDid),
        (''quote'', Some (JObj (quote_json quote)))])
     (encodePaymentRequiredHeader (xq_required quote))"

definition invalidX402PaymentProofResponse :: "proof_error \<Rightarrow> reply" where
  "invalidX402PaymentProofResponse e = Reply 400 (JObj (defined_fields
     [(''error'', Some (JStr ''Invalid x402 payment proof'')), (''code'', Some (JStr (pe_code e))),
      (''protocol'', Some (JStr ''x402'')), (''message'', Some (JStr (pe_message e))),
      (''suggestedAction'', Some (JStr (pe_suggested_action e))), (''details'', pe_details e)]))"

definition x402UnavailableResponse :: reply where
  "x402UnavailableResponse = Reply 503 (JObj
     [(''error'', JStr ''x402 billing is not configured for this environment''), (''protocol'', JStr ''x402'')])"

definition paymentReceiptReplayResponse :: "typed_receipt \<Rightarrow> payment_reply" where
  "paymentReceiptReplayResponse r =
     AcceptedReply r ''Payment proof already captured. Reusing the existing receipt.''"

definition receipt_sources :: json where
  "receipt_sources = JArr (map JStr
     [''POST /v1/billing/topup'', ''POST /v1/billing/upgrade-intent'', ''GET /v1/billing/receipts''])"

definition buildMissingReceiptIdResponse :: reply where
  "buildMissingReceiptIdResponse = Reply 400 (JObj
     [(''error'', JStr ''receiptId is required''), (''code'', JStr ''missing_receipt_id''),
      (''message'', JStr ''Pass the receipt id returned as receipt.id or receiptId from POST /v1/billing/topup or POST /v1/billing/upgrade-intent. You can also look it up with GET /v1/billing/receipts.''),
      (''suggestedAction'', JStr ''Read the prior billing response, copy receipt.id, and retry POST /v1/billing/payment/confirm with {\"receiptId\":\"...\"}.''),
      (''receiptSources'', receipt_sources)])"

definition buildReceiptNotFoundResponse :: reply where
  "buildReceiptNotFoundResponse = Reply 404 (JObj
     [(''error'', JStr ''Payment receipt not found''), (''code'', JStr ''receipt_not_found''),
      (''message'', JStr ''POST /v1/billing/payment/confirm only accepts a Mailagents receipt id such as prc_... from POST /v1/billing/topup, POST /v1/billing/upgrade-intent, or GET /v1/billing/receipts.''),
      (''suggestedAction'', JStr ''Read the earlier billing response or call GET /v1/billing/receipts, then retry with the runtime receipt.id. Do not pass a blockchain transaction hash, chain receipt hash, or facilitator reference as receiptId.''),
      (''receiptSources'', receipt_sources)])"

section \<open>A proof becomes a receipt\<close>

definition parseTopupCredits :: "json option \<Rightarrow> int option" where
  "parseTopupCredits v = (case v of
     Some (JNum n) \<Rightarrow> if n < 1 \<or> n > 100000 then None else Some n | _ \<Rightarrow> None)"

definition findPaymentReceiptReplay :: "string \<Rightarrow> string \<Rightarrow> (reply + typed_receipt option) io" where
  "findPaymentReceiptReplay tenantId fingerprint =
     await (getTypedPaymentReceiptByProofFingerprint fingerprint) (\<lambda>existing. ret (case existing of
       None \<Rightarrow> Inr None
     | Some r \<Rightarrow> if pr_tenant_id (tr_row r) \<noteq> tenantId
         then Inl (badRequest ''payment proof has already been submitted'') else Inr (Some r)))"

definition settle_now :: "payment_env \<Rightarrow> typed_receipt \<Rightarrow> payment_reply answer" where
  "settle_now env r = await (withRefreshedPaymentReceipt r (attemptAutomaticPaymentSettlement env)) answer"

definition replay_receipt :: "payment_env \<Rightarrow> typed_receipt \<Rightarrow> payment_reply answer" where
  "replay_receipt env r =
     (if getX402FacilitatorConfig env \<noteq> None
         \<and> (pr_status (tr_row r) = RcptPending \<or> pr_status (tr_row r) = RcptVerified)
      then settle_now env r else answer (paymentReceiptReplayResponse r))"

text \<open>A receipt that exists answers; otherwise \<open>k\<close> goes on.\<close>

definition replayed :: "payment_env \<Rightarrow> string \<Rightarrow> string \<Rightarrow> payment_reply answer \<Rightarrow> payment_reply answer" where
  "replayed env tenantId fingerprint k =
     await (findPaymentReceiptReplay tenantId fingerprint) (\<lambda>existing. case existing of
       Inl r \<Rightarrow> refuse r | Inr (Some r) \<Rightarrow> replay_receipt env r | Inr None \<Rightarrow> k)"

text \<open>The new receipt, or none when its creation lost against the same proof and answered for it.\<close>

definition capture_proof ::
  "payment_env \<Rightarrow> string \<Rightarrow> string \<Rightarrow> receipt_input \<Rightarrow> string \<Rightarrow> payment_reply answer" where
  "capture_proof env tenantId fingerprint input message =
     await (try_catch (await (createTypedTenantPaymentReceipt input) (\<lambda>r. ret (Inr r)))
              (\<lambda>e. await (replayed env tenantId fingerprint (throw e)) (\<lambda>given. ret (Inl given)))) (\<lambda>created.
     case created of
       Inl given \<Rightarrow> ret given
     | Inr r \<Rightarrow> if getX402FacilitatorConfig env \<noteq> None then settle_now env r
                else answer (AcceptedReply r message))"

record payment_body =
  py_payment_scheme :: "string option"
  py_network :: "string option"
  py_asset :: "string option"

definition proof_receipt ::
  "string \<Rightarrow> string \<Rightarrow> payment_body \<Rightarrow> x402_quote \<Rightarrow> receipt_metadata \<Rightarrow> receipt_input" where
  "proof_receipt tenantId fingerprint body quote m =
     \<lparr>ri_tenant_id = tenantId, ri_receipt_type = kind_type (rm_kind m),
      ri_payment_scheme = setting_or (xq_scheme quote) (py_payment_scheme body),
      ri_amount_atomic = xq_amount_atomic quote, ri_status = RcptPending,
      ri_network = Some (setting_or (xq_network quote) (py_network body)),
      ri_asset = Some (setting_or (xq_asset quote) (py_asset body)),
      ri_amount_display = Some (xq_amount_usd quote), ri_payment_reference = None,
      ri_settlement_reference = None, ri_proof_fingerprint = Some fingerprint,
      ri_metadata = Some (receipt_metadata_json m)\<rparr>"

text \<open>What both routes do once they have a quote.\<close>

definition pay_quote ::
  "payment_env \<Rightarrow> string \<Rightarrow> string option \<Rightarrow> payment_body \<Rightarrow> string option \<Rightarrow> x402_quote
     \<Rightarrow> (payment_proof \<Rightarrow> receipt_metadata) \<Rightarrow> string \<Rightarrow> payment_reply answer" where
  "pay_quote env tenantId tenantDid body signature quote metadata message =
     (case parseX402PaymentProof env signature of
        None \<Rightarrow> answer (x402PaymentRequiredResponse tenantId tenantDid quote)
      | Some p \<Rightarrow> (case validateX402PaymentProof p (xq_requirements quote) (xq_required quote) of
          Some e \<Rightarrow> refuse (invalidX402PaymentProofResponse e)
        | None \<Rightarrow> let fingerprint = fingerprintPaymentProof (collation env) (payment_env.sha256 env) p in
            replayed env tenantId fingerprint
              (capture_proof env tenantId fingerprint
                 (proof_receipt tenantId fingerprint body quote (metadata p)) message)))"

section \<open>The routes\<close>

definition billing_access :: "auth_env \<Rightarrow> string option \<Rightarrow> (claims \<Rightarrow> 'a answer) \<Rightarrow> 'a answer" where
  "billing_access env authorization handler = authorised env authorization [] (\<lambda>c.
     admit_io (requireSelfServiceTenantAccess c (tk_tenant_id c)) (handler c))"

definition priced :: "payment_env \<Rightarrow> string \<Rightarrow> (string option \<Rightarrow> 'a answer) \<Rightarrow> 'a answer" where
  "priced env tenantId k =
     (if \<not> truthy (xd_pay_to (getX402Defaults env)) then refuse x402UnavailableResponse
      else seq (ensureTenantBillingAccount tenantId)
          (await (getTenantDidBinding tenantId) (\<lambda>binding. k (map_option (\<lambda>b. did_did (db_row b)) binding))))"

text \<open>\<open>POST /v1/billing/topup\<close>\<close>

definition post_topup ::
  "auth_env \<Rightarrow> payment_env \<Rightarrow> string \<Rightarrow> string option \<Rightarrow> string option
     \<Rightarrow> js_error + (json option \<times> payment_body) \<Rightarrow> payment_reply answer" where
  "post_topup authEnv env apiBaseUrl authorization signature requestBody =
     billing_access authEnv authorization (\<lambda>c.
     await (lift_result requestBody) (\<lambda>(requested, body).
     case parseTopupCredits requested of
       None \<Rightarrow> refuse (badRequest ''credits must be an integer between 1 and 100000'')
     | Some credits \<Rightarrow> priced env (tk_tenant_id c) (\<lambda>did.
         await (buildX402TopupQuote env credits (tk_tenant_id c) did apiBaseUrl) (\<lambda>quote.
         pay_quote env (tk_tenant_id c) did body signature quote
           (buildTopupReceiptMetadata did credits (quote_json quote))
           ''Payment proof captured. Verification and credit settlement are not enabled yet on this endpoint.''))))"

text \<open>\<open>POST /v1/billing/upgrade-intent\<close>\<close>

definition included_of :: "x402_quote \<Rightarrow> int" where
  "included_of quote = (case xq_kind quote of UpgradeReceipt n \<Rightarrow> n | TopupReceipt n \<Rightarrow> 0)"

definition post_upgrade_intent ::
  "auth_env \<Rightarrow> payment_env \<Rightarrow> string \<Rightarrow> string option \<Rightarrow> string option
     \<Rightarrow> js_error + (string option \<times> payment_body) \<Rightarrow> payment_reply answer" where
  "post_upgrade_intent authEnv env apiBaseUrl authorization signature requestBody =
     billing_access authEnv authorization (\<lambda>c.
     await (lift_result requestBody) (\<lambda>(targetPricingTier, body).
     if opt_or targetPricingTier ''paid_review'' \<noteq> ''paid_review''
     then refuse (badRequest ''targetPricingTier must currently be paid_review'')
     else priced env (tk_tenant_id c) (\<lambda>did.
       await (buildX402UpgradeQuote env (tk_tenant_id c) did apiBaseUrl) (\<lambda>quote.
       pay_quote env (tk_tenant_id c) did body signature quote
         (buildUpgradeReceiptMetadata did (included_of quote) (quote_json quote))
         ''Upgrade payment proof captured. Verification and plan upgrade are not yet automatic on this endpoint.''))))"

text \<open>\<open>POST /v1/billing/payment/confirm\<close>\<close>

record confirm_body =
  cb_receipt_id :: "string option"
  cb_settlement_reference :: "string option"
  cb_mark_failed :: "bool option"

definition retry_settlement :: "payment_env \<Rightarrow> typed_receipt \<Rightarrow> payment_reply io" where
  "retry_settlement env current =
     (if pr_status (tr_row current) = RcptSettled
      then settled_reply (finalizePaymentReceiptSettlement current None None)
      else attemptAutomaticPaymentSettlement env current)"

definition manual_confirmation :: reply where
  "manual_confirmation = Reply 410 (JObj
     [(''error'', JStr ''manual payment confirmation is no longer supported; submit a facilitator-compatible payment proof and use this endpoint only to retry facilitator settlement by receiptId''),
      (''protocol'', JStr ''x402'')])"

definition post_payment_confirm ::
  "auth_env \<Rightarrow> payment_env \<Rightarrow> string option \<Rightarrow> js_error + confirm_body \<Rightarrow> payment_reply answer" where
  "post_payment_confirm authEnv env authorization requestBody =
     billing_access authEnv authorization (\<lambda>c.
     await (lift_result requestBody) (\<lambda>body.
     if \<not> truthy (cb_receipt_id body) then refuse buildMissingReceiptIdResponse
     else if getX402FacilitatorConfig env = None then refuse x402UnavailableResponse
     else if cb_mark_failed body = Some True \<or> cb_settlement_reference body \<noteq> None
     then refuse manual_confirmation
     else await (getTypedTenantPaymentReceiptById (tk_tenant_id c) (the (cb_receipt_id body))) (\<lambda>found.
          case found of
            None \<Rightarrow> refuse buildReceiptNotFoundResponse
          | Some r \<Rightarrow> if pr_status (tr_row r) = RcptFailed
              then refuse (conflict_reply ''Failed payment receipts cannot be confirmed'')
              else await (withRefreshedPaymentReceipt r (retry_settlement env)) answer)))"

section \<open>The store invariant\<close>

lemma keeps_settle_now [keeps_intros]:
  "Charge \<notin> K \<Longrightarrow> keeps (stored K es db_ok) (settle_now env r)"
  unfolding settle_now_def by (intro keeps_intros keeps_withRefreshed)

lemma keeps_replay_receipt [keeps_intros]:
  "Charge \<notin> K \<Longrightarrow> keeps (stored K es db_ok) (replay_receipt env r)"
  unfolding replay_receipt_def by (intro keeps_intros)

lemma keeps_replayed [keeps_intros]:
  "Charge \<notin> K \<Longrightarrow> keeps (stored K es db_ok) k \<Longrightarrow> keeps (stored K es db_ok) (replayed env t f k)"
  unfolding replayed_def findPaymentReceiptReplay_def by (intro keeps_intros)

lemma keeps_pay_quote [keeps_intros]:
  "Charge \<notin> K \<Longrightarrow> keeps (stored K es db_ok) (pay_quote env t did b sig q m msg)"
  unfolding pay_quote_def capture_proof_def Let_def by (intro keeps_intros)

lemma keeps_billing_access [keeps_intros]:
  "(\<And>c. keeps (stored K es J) (h c)) \<Longrightarrow> keeps (stored K es J) (billing_access env a h)"
  unfolding billing_access_def requireSelfServiceTenantAccess_def by (intro keeps_intros)

lemma keeps_payment_routes [keeps_intros]:
  assumes "Charge \<notin> K"
  shows "keeps (stored K es db_ok) (post_topup authEnv env url a sig topup_body)"
    "keeps (stored K es db_ok) (post_upgrade_intent authEnv env url a sig upgrade_body)"
    "keeps (stored K es db_ok) (post_payment_confirm authEnv env a confirm_body)"
  unfolding post_topup_def post_upgrade_intent_def post_payment_confirm_def priced_def
    getTenantDidBinding_def buildX402TopupQuote_def buildX402UpgradeQuote_def result_of_def retry_settlement_def
    settled_reply_def Let_def
  by (intro keeps_intros keeps_withRefreshed assms)+

end
