(* ===== verification/TenantRoutes.thy ===== *)
theory TenantRoutes
  imports MailRoutes PaymentReceipts SendPolicy
begin

text \<open>
  \<open>src/routes/api.ts\<close>: the account and the send policy of a tenant, the tokens that an administrator
  issues, and the debug routes. A body is taken as what \<open>readJson\<close> returns at the declared type, or
  as the error that it throws.
\<close>

section \<open>Administrators\<close>

text \<open>The two gates of an administrative request: its host, and its secret.\<close>

definition admin_only :: "auth_env \<Rightarrow> string \<Rightarrow> string option \<Rightarrow> 'a answer \<Rightarrow> 'a answer" where
  "admin_only env hostname secret k =
     admit (requireAdminRoutesEnabled env hostname) (admit (requireAdminSecret env secret) k)"

definition debug_only :: "auth_env \<Rightarrow> string \<Rightarrow> string option \<Rightarrow> 'a answer \<Rightarrow> 'a answer" where
  "debug_only env hostname secret k =
     admit (requireDebugRoutesEnabled env hostname) (admit (requireAdminSecret env secret) k)"

section \<open>The account\<close>

definition self_service :: "auth_env \<Rightarrow> string option \<Rightarrow> (claims \<Rightarrow> string) \<Rightarrow> (string \<Rightarrow> 'a answer) \<Rightarrow> 'a answer" where
  "self_service env authorization tenantOf handler = authorised env authorization [] (\<lambda>c.
     admit_io (requireSelfServiceTenantAccess c (tenantOf c)) (handler (tenantOf c)))"

record account_view =
  acc_account :: billing_account
  acc_total_credits :: int
  acc_spendable_credits :: int
  acc_pending_reserved_credits :: int

definition buildBillingAccountResponse :: "billing_account \<Rightarrow> account_view" where
  "buildBillingAccountResponse a = \<lparr>acc_account = a,
     acc_total_credits = ba_available_credits a + ba_reserved_credits a,
     acc_spendable_credits = ba_available_credits a, acc_pending_reserved_credits = ba_reserved_credits a\<rparr>"

text \<open>\<open>GET /v1/billing/account\<close>, \<open>/ledger\<close> and \<open>/receipts\<close>\<close>

definition get_billing_account :: "auth_env \<Rightarrow> string option \<Rightarrow> account_view answer" where
  "get_billing_account env authorization = self_service env authorization tk_tenant_id (\<lambda>t.
     await (ensureTenantBillingAccount t) (\<lambda>a. answer (buildBillingAccountResponse a)))"

definition get_billing_ledger :: "auth_env \<Rightarrow> string option \<Rightarrow> string option \<Rightarrow> typed_ledger_entry list answer" where
  "get_billing_ledger env authorization limit = self_service env authorization tk_tenant_id (\<lambda>t.
     await (listTypedTenantCreditLedger t (nat (parseListLimit limit 50 200))) answer)"

definition get_billing_receipts :: "auth_env \<Rightarrow> string option \<Rightarrow> string option \<Rightarrow> typed_receipt list answer" where
  "get_billing_receipts env authorization limit = self_service env authorization tk_tenant_id (\<lambda>t.
     await (listTypedTenantPaymentReceipts t (nat (parseListLimit limit 50 200))) answer)"

section \<open>The send policy\<close>

text \<open>\<open>GET /v1/tenants/:tenantId/send-policy\<close>\<close>

definition get_send_policy :: "auth_env \<Rightarrow> string option \<Rightarrow> string \<Rightarrow> send_policy answer" where
  "get_send_policy env authorization tenantId =
     self_service env authorization (\<lambda>c. tenantId) (\<lambda>t. await (ensureTenantSendPolicy t) answer)"

record send_policy_body =
  spb_pricing_tier :: "pricing_tier option"
  spb_outbound_status :: "outbound_status option"
  spb_internal_domain_allowlist :: "string list option"
  spb_external_send_enabled :: "bool option"
  spb_review_required :: "bool option"

text \<open>\<open>PUT /v1/tenants/:tenantId/send-policy\<close>: the default agent policies follow.\<close>

definition follow_policy :: "string \<Rightarrow> send_policy \<Rightarrow> send_policy \<Rightarrow> unit io" where
  "follow_policy tenantId previous p =
     seq (when_io (spr_internal_domain_allowlist previous \<noteq> spr_internal_domain_allowlist p)
            (seq (syncTenantDefaultAgentRecipientPoliciesForInternalDomainChange tenantId
                    (spr_internal_domain_allowlist previous) (spr_internal_domain_allowlist p)) (ret ())))
         (when_io (spr_outbound_status p = ExternalEnabled \<and> spr_external_send_enabled p)
            (seq (relaxTenantDefaultAgentRecipientPoliciesForExternalSend tenantId
                    (spr_internal_domain_allowlist p)) (ret ())))"

definition put_send_policy ::
  "auth_env \<Rightarrow> string \<Rightarrow> string option \<Rightarrow> string \<Rightarrow> js_error + send_policy_body \<Rightarrow> send_policy answer" where
  "put_send_policy env hostname secret tenantId requestBody =
     admin_only env hostname secret
       (await (ensureTenantSendPolicy tenantId) (\<lambda>previous.
        await (lift_result requestBody) (\<lambda>body.
        if spb_pricing_tier body = None \<or> spb_outbound_status body = None
           \<or> spb_external_send_enabled body = None \<or> spb_review_required body = None
        then refuse (badRequest ''pricingTier, outboundStatus, externalSendEnabled, and reviewRequired are required'')
        else await (upsertTenantSendPolicy tenantId (the (spb_pricing_tier body)) (the (spb_outbound_status body))
                 (opt_or (spb_internal_domain_allowlist body) [''mailagents.net''])
                 (the (spb_external_send_enabled body)) (the (spb_review_required body))) (\<lambda>p.
             seq (follow_policy tenantId previous p) (answer p)))))"

text \<open>\<open>POST /v1/tenants/:tenantId/send-policy/review-decision\<close>\<close>

definition decide ::
  "string \<Rightarrow> send_policy \<Rightarrow> pricing_tier \<Rightarrow> outbound_status \<Rightarrow> bool \<Rightarrow> bool \<Rightarrow> billing_status option
     \<Rightarrow> pricing_tier option \<Rightarrow> (send_policy \<times> billing_account) io" where
  "decide tenantId p tier status external review billStatus billTier =
     await (upsertTenantSendPolicy tenantId tier status (spr_internal_domain_allowlist p) external review)
       (\<lambda>updatedSendPolicy.
     await (updateTenantBillingAccountProfile tenantId billStatus billTier None None) (\<lambda>updatedBillingAccount.
     ret (updatedSendPolicy, updatedBillingAccount)))"

definition post_review_decision ::
  "auth_env \<Rightarrow> string \<Rightarrow> string option \<Rightarrow> string \<Rightarrow> js_error + string option
     \<Rightarrow> (send_policy \<times> billing_account) answer" where
  "post_review_decision env hostname secret tenantId requestBody =
     admin_only env hostname secret
       (await (lift_result requestBody) (\<lambda>decision.
        if \<not> truthy decision then refuse (badRequest ''decision is required'')
        else await (ensureTenantSendPolicy tenantId) (\<lambda>p.
             await (ensureTenantBillingAccount tenantId) (\<lambda>account.
             if decision = Some ''approve_external''
             then await (decide tenantId p TierPaidActive ExternalEnabled True False
                     (if ba_status account = BillTrial then Some BillActive else None) (Some TierPaidActive))
                    (\<lambda>(updated, billing).
                  seq (relaxTenantDefaultAgentRecipientPoliciesForExternalSend tenantId
                         (spr_internal_domain_allowlist updated))
                      (answer (updated, billing)))
             else if decision = Some ''reset_review''
             then await (decide tenantId p TierPaidReview ExternalReview False True
                     (if ba_status account = BillSuspended then Some BillActive else None) (Some TierPaidReview)) answer
             else if decision = Some ''suspend_outbound''
             then await (decide tenantId p (spr_pricing_tier p) OutboundSuspended False True (Some BillSuspended) None)
                    answer
             else refuse (badRequest ''Unsupported decision'')))))"

section \<open>Tokens by an administrator\<close>

record token_body =
  tb_sub :: "string option"
  tb_token_tenant_id :: "string option"
  tb_agent_id :: "string option"
  tb_scopes :: "string list"
  tb_mailbox_ids :: "string list option"
  tb_expires_in_seconds :: "int option"

primrec foreign_mailbox :: "string \<Rightarrow> string list \<Rightarrow> reply option io" where
  "foreign_mailbox tenantId [] = ret None"
| "foreign_mailbox tenantId (i # ids) = await (getMailboxById i) (\<lambda>mailbox. case mailbox of
     None \<Rightarrow> ret (Some (error_reply 404 (''Mailbox not found: '' @ i)))
   | Some m \<Rightarrow> if mb_tenant_id m \<noteq> tenantId then ret (Some (badRequest ''mailboxIds must belong to tenantId''))
       else foreign_mailbox tenantId ids)"

definition foreign_token_agent :: "string \<Rightarrow> string option \<Rightarrow> reply option io" where
  "foreign_token_agent tenantId agentId =
     (if \<not> truthy agentId then ret None
      else await (getAgent (the agentId)) (\<lambda>agent. ret (case agent of
        None \<Rightarrow> Some (error_reply 404 ''Agent not found'')
      | Some a \<Rightarrow> if ag_tenant_id a \<noteq> tenantId then Some (badRequest ''agentId must belong to tenantId'') else None)))"

definition issued_token :: "auth_env \<Rightarrow> string \<Rightarrow> token_body \<Rightarrow> (string \<times> string) answer" where
  "issued_token env secret body =
     await nowIso (\<lambda>now.
     let exp = now div 1000 + opt_or (tb_expires_in_seconds body) 3600;
         token = mintAccessToken env secret
           \<lparr>tk_sub = the (tb_sub body), tk_tenant_id = the (tb_token_tenant_id body),
            tk_agent_id = tb_agent_id body, tk_scopes = tb_scopes body,
            tk_mailbox_ids = tb_mailbox_ids body, tk_exp = exp\<rparr>
     in await (iso_or_throw (exp * 1000)) (\<lambda>expiresAt. answer (token, expiresAt)))"

definition or_route_error :: "unit io \<Rightarrow> 'a answer \<Rightarrow> 'a answer" where
  "or_route_error check k =
     await (try_catch (seq check (ret None)) (\<lambda>e. case e of
       RouteRequestError message status \<Rightarrow> ret (Some (error_reply status message)) | _ \<Rightarrow> throw e))
       (\<lambda>r. case r of Some r' \<Rightarrow> refuse r' | None \<Rightarrow> k)"

text \<open>\<open>POST /v1/auth/tokens\<close>: the token and when it expires.\<close>

definition post_tokens ::
  "auth_env \<Rightarrow> string \<Rightarrow> string option \<Rightarrow> js_error + token_body \<Rightarrow> (string \<times> string) answer" where
  "post_tokens env hostname secret requestBody =
     admin_only env hostname secret
       (if \<not> truthy (API_SIGNING_SECRET env)
        then refuse (error_reply 500 ''API_SIGNING_SECRET is not configured'')
        else await (lift_result requestBody) (\<lambda>body.
          if \<not> truthy (tb_sub body) \<or> \<not> truthy (tb_token_tenant_id body) \<or> tb_scopes body = []
          then refuse (badRequest ''sub, tenantId, and scopes are required'')
          else let t = the (tb_token_tenant_id body); mailboxIds = opt_or (tb_mailbox_ids body) [] in
            await (foreign_token_agent t (tb_agent_id body)) (\<lambda>badAgent. case badAgent of
              Some r \<Rightarrow> refuse r
            | None \<Rightarrow> await (foreign_mailbox t mailboxIds) (\<lambda>badMailbox. case badMailbox of
                Some r \<Rightarrow> refuse r
              | None \<Rightarrow> or_route_error
                  (validateTokenAgentMailboxScopes (tb_agent_id body) mailboxIds (tb_scopes body))
                  (issued_token env (the (API_SIGNING_SECRET env)) body)))))"

section \<open>Debugging\<close>

text \<open>\<open>GET /v1/debug/...\<close>: the raw records.\<close>

definition debug_agent :: "auth_env \<Rightarrow> string \<Rightarrow> string option \<Rightarrow> string \<Rightarrow> agent_row answer" where
  "debug_agent env hostname secret i = debug_only env hostname secret
     (await (getAgent i) (\<lambda>found. present found ''Agent not found'' answer))"

definition debug_mailbox :: "auth_env \<Rightarrow> string \<Rightarrow> string option \<Rightarrow> string \<Rightarrow> mailbox_row answer" where
  "debug_mailbox env hostname secret i = debug_only env hostname secret
     (await (getMailboxById i) (\<lambda>found. present found ''Mailbox not found'' answer))"

definition debug_message ::
  "auth_env \<Rightarrow> string \<Rightarrow> string option \<Rightarrow> string \<Rightarrow> (message_row \<times> delivery_event_row list) answer" where
  "debug_message env hostname secret i = debug_only env hostname secret
     (await (getMessage i) (\<lambda>found. present found ''Message not found'' (\<lambda>m.
      await (listDeliveryEventsByMessageId i) (\<lambda>events. answer (m, events)))))"

definition debug_draft ::
  "auth_env \<Rightarrow> string \<Rightarrow> string option \<Rightarrow> string \<Rightarrow> (draft_row \<times> json_object option) answer" where
  "debug_draft env hostname secret i = debug_only env hostname secret
     (await (getDraft i) (\<lambda>found. present found ''Draft not found'' (\<lambda>d.
      await (stored_object (dr_draft_r2_key d)) (\<lambda>payload. answer (d, payload)))))"

definition debug_outbound_job :: "auth_env \<Rightarrow> string \<Rightarrow> string option \<Rightarrow> string \<Rightarrow> outbound_job_row answer" where
  "debug_outbound_job env hostname secret i = debug_only env hostname secret
     (await (getOutboundJob i) (\<lambda>found. present found ''Outbound job not found'' answer))"

definition debug_suppression :: "auth_env \<Rightarrow> string \<Rightarrow> string option \<Rightarrow> string \<Rightarrow> suppression_row answer" where
  "debug_suppression env hostname secret email = debug_only env hostname secret
     (await (getSuppression email) (\<lambda>found. present found ''Suppression not found'' answer))"

text \<open>\<open>POST /v1/debug/suppressions\<close>: the address, the reason and the source that were recorded.\<close>

definition trimmed_or :: "string \<Rightarrow> string option \<Rightarrow> string" where
  "trimmed_or fallback v = (case v of None \<Rightarrow> fallback
     | Some s \<Rightarrow> if js_trim s = [] then fallback else js_trim s)"

definition post_debug_suppression ::
  "auth_env \<Rightarrow> string \<Rightarrow> string option \<Rightarrow> js_error + (string option \<times> string option \<times> string option)
     \<Rightarrow> (string \<times> string \<times> string) answer" where
  "post_debug_suppression env hostname secret requestBody = debug_only env hostname secret
     (await (lift_result requestBody) (\<lambda>(email, reason, source).
      if trimmed_or [] email = [] then refuse (badRequest ''email is required'')
      else let address = js_lower (trimmed_or [] email); why = trimmed_or ''debug_suppression'' reason;
               by_whom = trimmed_or ''debug'' source
           in seq (addSuppression address why by_whom) (answer (address, why, by_whom))))"

section \<open>The store invariant\<close>

lemma keeps_admin_only [keeps_intros]:
  "keeps I k \<Longrightarrow> keeps I (admin_only env h secret k)" "keeps I k \<Longrightarrow> keeps I (debug_only env h secret k)"
  unfolding admin_only_def debug_only_def by (intro keeps_intros | assumption)+

lemma keeps_self_service [keeps_intros]:
  "(\<And>t. keeps (stored K es J) (g t)) \<Longrightarrow> keeps (stored K es J) (self_service env a tenantOf g)"
  unfolding self_service_def requireSelfServiceTenantAccess_def by (intro keeps_intros)

lemma keeps_tenant_routes [keeps_intros]:
  "keeps (stored K es db_ok) (get_billing_account env a)"
  "keeps (stored K es db_ok) (get_send_policy env a t)"
  "keeps (stored K es db_ok) (put_send_policy env h secret t policy)"
  "keeps (stored K es db_ok) (post_review_decision env h secret t decision)"
  "keeps (stored K es db_ok) (post_debug_suppression env h secret suppression)"
  unfolding get_billing_account_def get_send_policy_def put_send_policy_def follow_policy_def
    post_review_decision_def decide_def post_debug_suppression_def lift_result_def Let_def
  by (intro keeps_intros)+

end
