(* ===== verification/Dispatch.thy ===== *)
theory Dispatch
  imports TokenApi
begin

text \<open>
  How a request reaches its route: \<open>src/lib/router.ts\<close>, \<open>src/lib/http.ts\<close>, \<open>handleApiRequest\<close> with the
  CORS headers of \<open>src/routes/api.ts\<close>, \<open>src/lib/transport-security.ts\<close>, and \<open>fetch\<close> of
  \<open>src/index.ts\<close>. The handlers of the routes are parameters here; their models are in the theories of
  the routes. An error of a route keeps its message and its status, so the other members of the
  answer for missing credits are not shown.
\<close>

section \<open>Requests and responses\<close>

type_synonym headers = "(string \<times> string) list"

datatype content = NoContent | JsonContent json | TextContent string

record response =
  rs_status :: nat
  rs_headers :: headers
  rs_content :: content

text \<open>\<open>headers.set\<close>, on names in lower case, and the loop that sets all headers of another response.\<close>

definition set_header :: "string \<Rightarrow> string \<Rightarrow> headers \<Rightarrow> headers" where
  "set_header k v hs = filter (\<lambda>h. fst h \<noteq> k) hs @ [(k, v)]"

definition set_headers :: "headers \<Rightarrow> headers \<Rightarrow> headers" where
  "set_headers given hs = fold (\<lambda>(k, v). set_header k v) given hs"

definition json_response :: "json \<Rightarrow> nat \<Rightarrow> headers \<Rightarrow> response" where
  "json_response v status hs = \<lparr>rs_status = status,
     rs_headers = set_header ''content-type'' ''application/json; charset=utf-8'' hs, rs_content = JsonContent v\<rparr>"

primrec reply_response :: "reply \<Rightarrow> response" where
  "reply_response (Reply status v) = json_response v status []"

definition notFound :: response where
  "notFound = reply_response (error_reply 404 ''Not found'')"

definition methodNotAllowed :: "string list \<Rightarrow> response" where
  "methodNotAllowed allowed = json_response
     (JObj [(''error'', JStr (''method not allowed; use '' @ js_join '', '' allowed))]) 405
     [(''allow'', js_join '', '' allowed)]"

text \<open>The parts of a URL that are read; the port is empty when it is the default of the protocol.\<close>

record url =
  url_protocol :: string
  url_hostname :: string
  url_port :: string
  url_pathname :: string
  url_tail :: string

definition url_text :: "url \<Rightarrow> string" where
  "url_text u = url_protocol u @ ''//'' @ url_hostname u
     @ (if url_port u = [] then [] else CHR '':'' # url_port u) @ url_pathname u @ url_tail u"

record request =
  rq_method :: string
  rq_url :: url
  rq_headers :: headers
  rq_body :: http_body

definition upper_char :: "char \<Rightarrow> char" where
  "upper_char c = (if CHR ''a'' \<le> c \<and> c \<le> CHR ''z'' then char_of (of_char c - 32 :: nat) else c)"

text \<open>The method of a request is ASCII.\<close>

definition method_of :: "request \<Rightarrow> string" where
  "method_of rq = map upper_char (rq_method rq)"

section \<open>The router\<close>

text \<open>
  A \<open>URLPattern\<close> as the routes use it: segments between slashes, a segment \<open>:name\<close> stands for one
  segment that is not empty.
\<close>

definition is_param :: "string \<Rightarrow> bool" where
  "is_param p \<longleftrightarrow> p \<noteq> [] \<and> hd p = CHR '':''"

fun match_segments :: "string list \<Rightarrow> string list \<Rightarrow> (string \<times> string) list option" where
  "match_segments [] [] = Some []"
| "match_segments (p # ps) (x # xs) =
     (if is_param p
      then if x = [] then None else map_option (Cons (tl p, x)) (match_segments ps xs)
      else if p = x then match_segments ps xs else None)"
| "match_segments _ _ = None"

definition match_path :: "string \<Rightarrow> string \<Rightarrow> (string \<times> string) list option" where
  "match_path pattern pathname = match_segments (js_split CHR ''/'' pattern) (js_split CHR ''/'' pathname)"

type_synonym handler = "request \<Rightarrow> (string \<times> string) list \<Rightarrow> response io"

record route =
  rt_method :: string
  rt_pattern :: string
  rt_handler :: handler

definition route_on :: "string \<Rightarrow> string \<Rightarrow> handler \<Rightarrow> route list \<Rightarrow> route list" where
  "route_on method pathname h routes =
     routes @ [\<lparr>rt_method = map upper_char method, rt_pattern = pathname, rt_handler = h\<rparr>]"

primrec handle :: "route list \<Rightarrow> request \<Rightarrow> response option io" where
  "handle [] rq = ret None"
| "handle (r # rs) rq =
     (if rt_method r \<noteq> method_of rq then handle rs rq
      else case match_path (rt_pattern r) (url_pathname (rq_url rq)) of
        None \<Rightarrow> handle rs rq
      | Some params \<Rightarrow> await (rt_handler r rq params) (\<lambda>response. ret (Some response)))"

definition allowedMethodsForPath :: "route list \<Rightarrow> string \<Rightarrow> string list" where
  "allowedMethodsForPath routes pathname =
     filter (\<lambda>m. list_ex (\<lambda>r. rt_method r = m \<and> match_path (rt_pattern r) pathname \<noteq> None) routes)
       [''GET'', ''HEAD'', ''POST'', ''PUT'', ''PATCH'', ''DELETE'', ''OPTIONS'']"

section \<open>Other origins\<close>

definition isPublicSelfServeRequest :: "request \<Rightarrow> bool" where
  "isPublicSelfServeRequest rq \<longleftrightarrow>
     url_pathname (rq_url rq) = ''/public/signup'' \<or> url_pathname (rq_url rq) = ''/public/token/reissue''"

definition isAuthenticatedApiCorsRequest :: "request \<Rightarrow> bool" where
  "isAuthenticatedApiCorsRequest rq \<longleftrightarrow> (let pathname = url_pathname (rq_url rq) in
     \<not> js_starts_with pathname ''/v1/webhooks/''
     \<and> (js_starts_with pathname ''/v1/'' \<or> js_starts_with pathname ''/v2/''))"

definition publicSelfServeCorsHeaders :: headers where
  "publicSelfServeCorsHeaders = [(''access-control-allow-origin'', ''*''),
     (''access-control-allow-methods'', ''POST, OPTIONS''), (''access-control-allow-headers'', ''content-type''),
     (''access-control-max-age'', ''86400'')]"

definition withPublicSelfServeCors :: "response \<Rightarrow> response" where
  "withPublicSelfServeCors r = r\<lparr>rs_headers := set_headers (rs_headers r) publicSelfServeCorsHeaders\<rparr>"

definition publicSelfServePreflight :: response where
  "publicSelfServePreflight =
     \<lparr>rs_status = 204, rs_headers = publicSelfServeCorsHeaders, rs_content = NoContent\<rparr>"

definition authenticatedApiAllowHeadersForPath :: "string \<Rightarrow> string" where
  "authenticatedApiAllowHeadersForPath pathname =
     (if js_starts_with pathname ''/v2/meta/'' then ''content-type''
      else ''authorization, content-type, x-admin-secret'')"

definition authenticatedApiAllowMethodsForRequest :: "route list \<Rightarrow> request \<Rightarrow> string list" where
  "authenticatedApiAllowMethodsForRequest routes rq =
     (let allowed = filter (\<lambda>m. m \<noteq> ''OPTIONS'') (allowedMethodsForPath routes (url_pathname (rq_url rq)))
      in if allowed = [] then [] else allowed @ [''OPTIONS''])"

definition authenticatedApiCorsHeaders :: "route list \<Rightarrow> request \<Rightarrow> headers option" where
  "authenticatedApiCorsHeaders routes rq =
     (let allowed = authenticatedApiAllowMethodsForRequest routes rq in
      if allowed = [] then None
      else Some [(''access-control-allow-origin'', ''*''),
        (''access-control-allow-methods'', js_join '', '' allowed),
        (''access-control-allow-headers'', authenticatedApiAllowHeadersForPath (url_pathname (rq_url rq))),
        (''access-control-max-age'', ''86400'')])"

definition withAuthenticatedApiCors :: "route list \<Rightarrow> request \<Rightarrow> response \<Rightarrow> response" where
  "withAuthenticatedApiCors routes rq r =
     r\<lparr>rs_headers := set_headers (rs_headers r) (opt_or (authenticatedApiCorsHeaders routes rq) [])\<rparr>"

definition authenticatedApiPreflight :: "route list \<Rightarrow> request \<Rightarrow> response option" where
  "authenticatedApiPreflight routes rq = map_option
     (\<lambda>hs. \<lparr>rs_status = 204, rs_headers = hs, rs_content = NoContent\<rparr>) (authenticatedApiCorsHeaders routes rq)"

section \<open>\<open>handleApiRequest\<close>\<close>

definition preflight :: "route list \<Rightarrow> request \<Rightarrow> response option" where
  "preflight routes rq =
     (if method_of rq \<noteq> ''OPTIONS'' then None
      else if isPublicSelfServeRequest rq then Some publicSelfServePreflight
      else if isAuthenticatedApiCorsRequest rq
      then Some (opt_or (authenticatedApiPreflight routes rq) (withAuthenticatedApiCors routes rq notFound))
      else None)"

definition with_api_cors :: "route list \<Rightarrow> request \<Rightarrow> response \<Rightarrow> response" where
  "with_api_cors routes rq r =
     (if isPublicSelfServeRequest rq then withPublicSelfServeCors r
      else if isAuthenticatedApiCorsRequest rq then withAuthenticatedApiCors routes rq r else r)"

text \<open>The answer of an error; an error after a side effect has one in any case.\<close>

fun reply_of_error :: "js_error \<Rightarrow> reply option" where
  "reply_of_error (InvalidJsonBodyError m) = Some (badRequest m)"
| "reply_of_error (RouteRequestError m status) = Some (error_reply status m)"
| "reply_of_error (BillingUniquenessError m) = Some (error_reply 409 m)"
| "reply_of_error (AgentRegistryConflictError m) = Some (error_reply 409 m)"
| "reply_of_error (DidBindingConflictError m) = Some (error_reply 409 m)"
| "reply_of_error (CommittedError e) = Some (opt_or (reply_of_error e) (error_reply 409
     ''Request may have partially succeeded after creating server-side state. Retry only with the same idempotency key or inspect draft/outbound state before retrying.''))"
| "reply_of_error _ = None"

definition handleApiRequest :: "route list \<Rightarrow> request \<Rightarrow> response option io" where
  "handleApiRequest routes rq = (case preflight routes rq of
     Some r \<Rightarrow> ret (Some r)
   | None \<Rightarrow> try_catch
       (await (handle routes rq) (\<lambda>response. ret (case response of
          None \<Rightarrow> if isAuthenticatedApiCorsRequest rq
            then Some (withAuthenticatedApiCors routes rq notFound) else None
        | Some r \<Rightarrow> Some (with_api_cors routes rq r))))
       (\<lambda>e. case reply_of_error e of
          Some r \<Rightarrow> ret (Some (with_api_cors routes rq (reply_response r))) | None \<Rightarrow> throw e))"

section \<open>Transport security\<close>

text \<open>\<open>/^127(?:\.\d{1,3}){3}$/\<close>\<close>

definition is_loopback :: "string \<Rightarrow> bool" where
  "is_loopback hostname \<longleftrightarrow> (case js_split CHR ''.'' hostname of
     a # rest \<Rightarrow> a = ''127'' \<and> length rest = 3
       \<and> list_all (\<lambda>part. 1 \<le> length part \<and> length part \<le> 3 \<and> list_all is_digit part) rest
   | [] \<Rightarrow> False)"

definition isLocalHostname :: "string \<Rightarrow> bool" where
  "isLocalHostname hostname \<longleftrightarrow> hostname = ''localhost'' \<or> hostname = ''0.0.0.0'' \<or> hostname = ''::1''
     \<or> js_ends_with hostname ''.localhost'' \<or> is_loopback hostname"

definition isHtmlResponse :: "response \<Rightarrow> bool" where
  "isHtmlResponse r \<longleftrightarrow> js_includes (js_lower (opt_or (map_of (rs_headers r) ''content-type'') '''')) ''text/html''"

definition quoted :: "string \<Rightarrow> string" where
  "quoted s = CHR 0x27 # s @ [CHR 0x27]"

definition buildContentSecurityPolicy :: string where
  "buildContentSecurityPolicy = (let self = quoted ''self''; none = quoted ''none''; inline = quoted ''unsafe-inline'' in
     js_join ''; ''
       [''default-src '' @ self, ''base-uri '' @ self, ''frame-ancestors '' @ none, ''object-src '' @ none,
        ''form-action '' @ self, ''script-src '' @ self @ '' '' @ inline, ''style-src '' @ self @ '' '' @ inline,
        ''img-src '' @ self @ '' data: https:'', ''font-src '' @ self @ '' data:'', ''connect-src '' @ self @ '' https:''])"

definition base_security_headers :: headers where
  "base_security_headers = [(''referrer-policy'', ''strict-origin-when-cross-origin''),
     (''x-content-type-options'', ''nosniff''), (''x-frame-options'', ''DENY''),
     (''permissions-policy'', ''camera=(), geolocation=(), microphone=()'')]"

definition redirectToHttps :: "request \<Rightarrow> response option" where
  "redirectToHttps rq = (let u = rq_url rq in
     if url_protocol u \<noteq> ''http:'' \<or> isLocalHostname (url_hostname u) then None
     else Some \<lparr>rs_status = 308,
       rs_headers = set_headers base_security_headers [(''location'', url_text
         (u\<lparr>url_protocol := ''https:'', url_port := (if url_port u = ''443'' then [] else url_port u)\<rparr>))],
       rs_content = NoContent\<rparr>)"

definition withSecurityHeaders :: "response \<Rightarrow> request \<Rightarrow> response" where
  "withSecurityHeaders r rq = r\<lparr>rs_headers := set_headers
     (base_security_headers
      @ (if isHtmlResponse r then [(''content-security-policy'', buildContentSecurityPolicy)] else [])
      @ (if url_protocol (rq_url rq) = ''https:''
         then [(''strict-transport-security'', ''max-age=31536000; includeSubDomains'')] else []))
     (rs_headers r)\<rparr>"

section \<open>\<open>fetch\<close>\<close>

text \<open>
  The servers of the Model Context Protocol and the site come first and are parameters. The
  maintenance of contact addresses that a request starts beside it is \<open>scheduleContactAliasMaintenance\<close>.
\<close>

type_synonym server = "request \<Rightarrow> response option io"

primrec first_answer :: "server list \<Rightarrow> request \<Rightarrow> response option io" where
  "first_answer [] rq = ret None"
| "first_answer (s # ss) rq = await (s rq) (\<lambda>response. case response of
     None \<Rightarrow> first_answer ss rq | Some r \<Rightarrow> ret (Some r))"

definition fetch_request :: "server \<Rightarrow> server \<Rightarrow> server \<Rightarrow> route list \<Rightarrow> request \<Rightarrow> response io" where
  "fetch_request handleAdminMcpRequest handleMcpRequest handleSiteRequest routes rq =
     (case redirectToHttps rq of
        Some r \<Rightarrow> ret r
      | None \<Rightarrow> await (first_answer
            [handleAdminMcpRequest, handleMcpRequest, handleSiteRequest, handleApiRequest routes] rq)
          (\<lambda>response. ret (withSecurityHeaders (opt_or response notFound) rq)))"

section \<open>The routes of the API\<close>

text \<open>Every \<open>router.on\<close> of \<open>src/routes/api.ts\<close>, in its order.\<close>

definition api_routes :: "(string \<times> string) list" where
  "api_routes =
   [(''GET'', ''/public/signup''), (''HEAD'', ''/public/signup''), (''OPTIONS'', ''/public/signup''),
    (''POST'', ''/public/signup''), (''OPTIONS'', ''/public/token/reissue''),
    (''GET'', ''/public/token/reissue''), (''HEAD'', ''/public/token/reissue''),
    (''POST'', ''/public/token/reissue''), (''POST'', ''/v1/auth/token/rotate''),
    (''GET'', ''/v1/billing/account''), (''GET'', ''/v1/billing/ledger''),
    (''GET'', ''/v1/billing/receipts''), (''POST'', ''/v1/billing/topup''),
    (''POST'', ''/v1/billing/upgrade-intent''), (''GET'', ''/v1/tenants/:tenantId/send-policy''),
    (''PUT'', ''/v1/tenants/:tenantId/send-policy''),
    (''POST'', ''/v1/tenants/:tenantId/send-policy/review-decision''),
    (''POST'', ''/v1/billing/payment/confirm''), (''GET'', ''/v1/tenants/:tenantId/did''),
    (''POST'', ''/v1/tenants/:tenantId/did/hosted''), (''PUT'', ''/v1/tenants/:tenantId/did''),
    (''GET'', ''/did/tenants/:tenantId/did.json''), (''GET'', ''/v2/meta/runtime''),
    (''HEAD'', ''/v2/meta/runtime''), (''GET'', ''/v2/meta/compatibility''),
    (''HEAD'', ''/v2/meta/compatibility''), (''GET'', ''/v2/meta/compatibility/schema''),
    (''HEAD'', ''/v2/meta/compatibility/schema''), (''GET'', ''/v1/mailboxes/self''),
    (''GET'', ''/v1/mailboxes/self/tasks''), (''GET'', ''/v1/mailboxes/self/messages''),
    (''GET'', ''/v1/mailboxes/self/messages/:messageId''),
    (''GET'', ''/v1/mailboxes/self/messages/:messageId/content''),
    (''POST'', ''/v1/mailboxes/self/send''), (''POST'', ''/v1/messages/send''),
    (''GET'', ''/v1/debug/agents/:agentId''), (''GET'', ''/v1/debug/mailboxes/:mailboxId''),
    (''GET'', ''/v1/debug/messages/:messageId''), (''GET'', ''/v1/debug/drafts/:draftId''),
    (''GET'', ''/v1/debug/outbound-jobs/:outboundJobId''),
    (''GET'', ''/v1/debug/suppressions/:email''), (''POST'', ''/v1/debug/suppressions''),
    (''POST'', ''/v1/auth/tokens''), (''POST'', ''/v1/agents''), (''GET'', ''/v1/agents''),
    (''GET'', ''/v1/agents/:agentId''), (''PATCH'', ''/v1/agents/:agentId''),
    (''POST'', ''/v1/agents/:agentId/versions''), (''GET'', ''/v1/agents/:agentId/versions''),
    (''GET'', ''/v1/agents/:agentId/versions/:versionId''),
    (''POST'', ''/v1/agents/:agentId/deployments''), (''GET'', ''/v1/agents/:agentId/deployments''),
    (''PATCH'', ''/v1/agents/:agentId/deployments/:deploymentId''),
    (''POST'', ''/v1/agents/:agentId/deployments/rollout''),
    (''POST'', ''/v1/agents/:agentId/deployments/:deploymentId/rollback''),
    (''POST'', ''/v1/agents/:agentId/mailboxes''), (''GET'', ''/v1/agents/:agentId/mailboxes''),
    (''PUT'', ''/v1/agents/:agentId/policy''), (''GET'', ''/v1/agents/:agentId/tasks''),
    (''GET'', ''/v1/messages/:messageId''), (''GET'', ''/v1/messages/:messageId/content''),
    (''POST'', ''/v1/messages/:messageId/reply''), (''POST'', ''/v1/messages/:messageId/replay''),
    (''GET'', ''/v1/threads/:threadId''), (''POST'', ''/v1/agents/:agentId/drafts''),
    (''GET'', ''/v1/drafts/:draftId''), (''DELETE'', ''/v1/drafts/:draftId''),
    (''POST'', ''/v1/drafts/:draftId/send''), (''GET'', ''/v1/outbound-jobs/:outboundJobId''),
    (''POST'', ''/v1/webhooks/ses'')]"

definition api_router :: "(string \<Rightarrow> string \<Rightarrow> handler) \<Rightarrow> route list" where
  "api_router h = fold (\<lambda>(m, p). route_on m p (h m p)) api_routes []"

section \<open>One route per request\<close>

text \<open>Two patterns overlap when no segment tells them apart.\<close>

fun overlap :: "string list \<Rightarrow> string list \<Rightarrow> bool" where
  "overlap [] [] \<longleftrightarrow> True"
| "overlap (p # ps) (q # qs) \<longleftrightarrow> (if is_param p \<or> is_param q \<or> p = q then overlap ps qs else False)"
| "overlap _ _ \<longleftrightarrow> False"

lemma matched_overlap:
  "match_segments ps xs \<noteq> None \<Longrightarrow> match_segments qs xs \<noteq> None \<Longrightarrow> overlap ps qs"
proof (induction ps xs arbitrary: qs rule: match_segments.induct)
  case 1
  then show ?case by (cases qs) simp_all
next
  case (2 p ps x xs)
  from 2(4) obtain q qs' where qs: "qs = q # qs'" by (cases qs) simp_all
  with 2 show ?case by (auto split: if_splits)
qed simp_all

definition route_segments :: "(string \<times> string) list \<Rightarrow> (string \<times> string list) list" where
  "route_segments = map (\<lambda>(m, p). (m, js_split CHR ''/'' p))"

definition apart :: "string \<times> string list \<Rightarrow> string \<times> string list \<Rightarrow> bool" where
  "apart r q \<longleftrightarrow> (if fst r = fst q then \<not> overlap (snd r) (snd q) else True)"

lemma api_routes_apart: "sorted_wrt apart (route_segments api_routes)"
  by code_simp

lemma api_methods_upper: "list_all (\<lambda>(m, p). map upper_char m = m \<and> m \<noteq> []) api_routes"
  by code_simp

definition route_of :: "(string \<Rightarrow> string \<Rightarrow> handler) \<Rightarrow> string \<times> string \<Rightarrow> route" where
  "route_of h mp = \<lparr>rt_method = fst mp, rt_pattern = snd mp, rt_handler = h (fst mp) (snd mp)\<rparr>"

lemma api_router_map: "api_router h = map (route_of h) api_routes"
proof -
  have "fold (\<lambda>(m, p). route_on m p (h m p)) rts routes = routes @ map (route_of h) rts"
    if "list_all (\<lambda>(m, p). map upper_char m = m \<and> m \<noteq> []) rts" for rts routes
    using that by (induction rts arbitrary: routes) (auto simp: route_on_def route_of_def)
  from this [OF api_methods_upper, of "[]"] show ?thesis by (simp add: api_router_def)
qed

lemma handle_route:
  assumes "sorted_wrt apart (route_segments rts)" "(m, p) \<in> set rts" "method_of rq = m"
    and "match_path p (url_pathname (rq_url rq)) = Some params"
  shows "handle (map (route_of h) rts) rq = await (h m p rq params) (\<lambda>response. ret (Some response))"
  using assms(1,2)
proof (induction rts)
  case (Cons r rts)
  show ?case
  proof (cases "r = (m, p)")
    case True
    with assms(3,4) show ?thesis by (simp add: route_of_def)
  next
    case False
    with Cons.prems have later: "(m, p) \<in> set rts" "sorted_wrt apart (route_segments rts)"
      and apart: "apart (fst r, js_split CHR ''/'' (snd r)) (m, js_split CHR ''/'' p)"
      by (auto simp: route_segments_def split_beta)
    have "fst r \<noteq> m \<or> match_path (snd r) (url_pathname (rq_url rq)) = None"
      using apart matched_overlap [of _ "js_split CHR ''/'' (url_pathname (rq_url rq))" "js_split CHR ''/'' p"] assms(4)
      by (fastforce simp: apart_def match_path_def split: if_splits)
    with Cons.IH [OF later(2,1)] assms(3) show ?thesis by (auto simp: route_of_def)
  qed
qed simp

text \<open>What a request that has a route is answered, when the handler of the route ends like \<open>outcome\<close>.\<close>

definition routed_answer :: "route list \<Rightarrow> request \<Rightarrow> (js_error + response) \<times> world \<Rightarrow> (js_error + response option) \<times> world" where
  "routed_answer routes rq outcome = (case outcome of
     (Inr r, w) \<Rightarrow> (Inr (Some (with_api_cors routes rq r)), w)
   | (Inl e, w) \<Rightarrow> ((case reply_of_error e of
       Some r \<Rightarrow> Inr (Some (with_api_cors routes rq (reply_response r))) | None \<Rightarrow> Inl e), w))"

section \<open>Properties\<close>

text \<open>
  C36. Every request of the API reaches the one route that fits it. When a request has the method and
  the path of a route, that route alone runs, whatever its place in the table: its response is sent
  with the CORS headers of its path, an error that the API knows is answered, and any other error
  escapes. A preflight request is answered without running anything.
\<close>

theorem requests_reach_their_route:
  assumes "(m, p) \<in> set api_routes" "method_of rq = m"
    and "match_path p (url_pathname (rq_url rq)) = Some params"
  shows "handleApiRequest (api_router h) rq w =
    (case preflight (api_router h) rq of
       Some r \<Rightarrow> (Inr (Some r), w)
     | None \<Rightarrow> routed_answer (api_router h) rq (h m p rq params w))"
proof -
  have "handle (api_router h) rq = await (h m p rq params) (\<lambda>response. ret (Some response))"
    unfolding api_router_map by (rule handle_route [OF api_routes_apart assms])
  then show ?thesis
    by (simp add: handleApiRequest_def routed_answer_def try_catch_def await_def ret_def throw_def
        split: option.split sum.split prod.split)
qed

definition demo_send_request :: request where
  "demo_send_request = \<lparr>rq_method = ''post'',
     rq_url = \<lparr>url_protocol = ''https:'', url_hostname = ''api.mailagents.net'', url_port = [],
       url_pathname = ''/v1/drafts/drf1/send'', url_tail = []\<rparr>, rq_headers = [], rq_body = EmptyBody\<rparr>"

definition idle_world :: world where
  "idle_world = quiet_world (demo_store DraftSent JobSent 5 1)"

text \<open>The refusal of a draft that can no longer be sent is not among the errors that the API knows.\<close>

theorem requests_reach_their_route_witness:
  "handleApiRequest (api_router (\<lambda>m p rq params. throw (DraftSendValidationError (m @ snd (hd params)) 409)))
     demo_send_request idle_world = (Inl (DraftSendValidationError ''POSTdrf1'' 409), idle_world)"
proof -
  have route: "(''POST'', ''/v1/drafts/:draftId/send'') \<in> set api_routes" by (simp add: api_routes_def)
  have verb: "method_of demo_send_request = ''POST''" by code_simp
  have path: "match_path ''/v1/drafts/:draftId/send'' (url_pathname (rq_url demo_send_request)) = Some [(''draftId'', ''drf1'')]"
    by code_simp
  show ?thesis
    by (subst requests_reach_their_route [OF route verb path])
       (simp add: preflight_def verb routed_answer_def throw_def)
qed

lemma map_of_set_header: "map_of (set_header k v hs) k' = (if k = k' then Some v else map_of hs k')"
  unfolding set_header_def by (induction hs) auto

lemma map_of_set_headers:
  "map_of (set_headers given hs) k = (case map_of (rev given) k of Some v \<Rightarrow> Some v | None \<Rightarrow> map_of hs k)"
  by (induction given arbitrary: hs)
     (auto simp: set_headers_def map_of_set_header map_add_def split: option.split)


text \<open>The same request without encryption: it is redirected.\<close>

definition demo_plain_request :: request where
  "demo_plain_request = demo_send_request\<lparr>rq_url := (rq_url demo_send_request)\<lparr>url_protocol := ''http:''\<rparr>\<rparr>"

definition ret_none :: server where
  "ret_none rq = ret None"


section \<open>Contact addresses\<close>

text \<open>
  The maintenance of the contact addresses, once per isolate: what has succeeded is not repeated,
  what has failed is tried again with the next request. \<open>once\<close> awaits the promise of a job that may
  have been started; a failure is logged.
\<close>

record isolate =
  mailboxes_bootstrapped :: bool
  routing_bootstrapped :: bool
  redundant_rules_cleaned :: bool

definition once :: "bool \<Rightarrow> unit io \<Rightarrow> bool io" where
  "once finished job = (if finished then ret True else try_catch (seq job (ret True)) (\<lambda>e. ret False))"

definition scheduleContactAliasMaintenance :: "routing_env \<Rightarrow> isolate \<Rightarrow> isolate io" where
  "scheduleContactAliasMaintenance env st =
     (if \<not> shouldBootstrapContactAliasRouting env then ret st
      else await (once (mailboxes_bootstrapped st) (ensureManagedContactAliasMailboxes env)) (\<lambda>mailboxes.
           if \<not> mailboxes then ret (st\<lparr>mailboxes_bootstrapped := False\<rparr>)
           else await (once (routing_bootstrapped st) (ensureManagedContactAliasRouting env)) (\<lambda>routing.
                await (once (redundant_rules_cleaned st) (cleanupRedundantMailboxWorkerRules env)) (\<lambda>rules.
                ret \<lparr>mailboxes_bootstrapped = True, routing_bootstrapped = routing, redundant_rules_cleaned = rules\<rparr>))))"

lemma once_returns: "\<exists>b w'. once finished job w = (Inr b, w') \<and> (finished \<longrightarrow> b \<and> w' = w)"
  by (auto simp: once_def ret_def try_catch_def split: sum.split prod.split)

text \<open>The maintenance never fails, and once it has succeeded it asks for nothing any more.\<close>

lemma maintenance_returns: "\<exists>st' w'. scheduleContactAliasMaintenance env st w = (Inr st', w')"
proof -
  have returns: "\<exists>x w'. await (once f job) k w = (Inr x, w')" if "\<And>b w. \<exists>x w'. k b w = (Inr x, w')" for f job k w
    using once_returns [of f job w] that by (auto simp: await_def)
  show ?thesis unfolding scheduleContactAliasMaintenance_def
    by (auto simp: ret_def intro!: returns)
qed

lemma maintenance_runs_once:
  "scheduleContactAliasMaintenance env \<lparr>mailboxes_bootstrapped = True, routing_bootstrapped = True,
       redundant_rules_cleaned = True\<rparr> w
     = (Inr \<lparr>mailboxes_bootstrapped = True, routing_bootstrapped = True, redundant_rules_cleaned = True\<rparr>, w)"
  by (simp add: scheduleContactAliasMaintenance_def once_def await_def ret_def)

end
