(* ===== verification/Spec2Isabelle.thy ===== *)
theory Spec2Isabelle
  imports SendCredits OutboundQueue Idempotency PaymentProperties HttpAuth DeploymentProperties MimeProperties
    InboundMail TokenApi DidBindings Maintenance Signup SesWebhook AgentRoutes PaymentRoutes TenantRoutes
    Dispatch
begin

text \<open>
  A model of the mail pipeline of the mailagents email runtime (a Cloudflare Worker in TypeScript
  under \<open>src/\<close>), and what makes it correct.

  \<^bold>\<open>The program.\<close> A tenant has mailboxes and agents. A request creates a draft; sending it
  (\<open>enqueueDraftSend\<close>) turns the draft into an outbound message and a job on a queue, with its
  credits reserved. The queue consumer (\<open>handleQueue\<close>) claims the job, checks again that the draft
  may be sent, delivers to internal mailboxes through the store and to external recipients through
  the provider, records the outcome, and settles or frees the reserved credits. Inbound mail comes
  through a second queue, is parsed, filed in a thread, and becomes a task of an agent; a third
  queue wakes the agent. All state is in a database (D1) and an object store (R2) that many Workers
  share; queue messages are delivered at least once.

  \<^bold>\<open>The theories.\<close>
  \<^item> \<open>JsPrelude\<close>: strings, numbers and JSON as the code uses them. \<open>Database\<close>: the tables
    (\<open>migrations/\<close>, the row interfaces of \<open>src/repositories/\<close>), the statements over one table
    and the visibility guards of almost every query. \<open>Effects\<close>: asynchronous code as computations
    over a world, with the rules for invariants. \<open>StoreInvariant\<close>: \<open>db_ok\<close>, the keys and indexes
    of the tables and that reserved credits are never negative. \<open>Claims\<close>: the contract of a
    guarded claim. \<open>Emissions\<close>: counting what leaves the Worker. \<open>Scenario\<close>: a concrete
    deployment for the witnesses.
  \<^item> \<open>src/repositories/mail.ts\<close>: \<open>MailMessages\<close>, \<open>MailThreads\<close>, \<open>MailTasks\<close>, \<open>MailDrafts\<close>,
    \<open>MailJobs\<close>, \<open>DeliveryEvents\<close>, \<open>Idempotency\<close>, and \<open>EnqueueSend\<close> for \<open>enqueueDraftSend\<close>, with
    its effect on the credits in \<open>SendCredits\<close>.
  \<^item> \<open>src/repositories/agents.ts\<close>: \<open>AgentRegistry\<close> and \<open>ExecutionTarget\<close>.
    \<open>src/repositories/tenant-policies.ts\<close> with \<open>src/lib/self-serve-agent-policy.ts\<close>: \<open>SendPolicy\<close>.
    \<open>src/repositories/billing.ts\<close>: \<open>Billing\<close>, with \<open>LedgerMetadata\<close> for
    \<open>src/lib/payments/ledger-metadata.ts\<close>, and \<open>PaymentReceipts\<close>, with \<open>ReceiptMetadata\<close> for
    \<open>src/lib/payments/receipt-metadata.ts\<close>.
  \<^item> \<open>src/repositories/agents.ts\<close> beyond the mail pipeline: \<open>AgentAdmin\<close> (agents, versions,
    mailboxes, bindings) and \<open>Deployments\<close>; \<open>DeploymentProperties\<close> holds what a rollout does.
  \<^item> \<open>src/lib/\<close>: \<open>Routing\<close> (\<open>local-recipient-routing.ts\<close>), \<open>OutboundPolicy\<close>
    (\<open>outbound-policy.ts\<close>, \<open>outbound-credits.ts\<close>), \<open>OutboundBilling\<close> (\<open>outbound-billing.ts\<close>),
    \<open>DraftGuards\<close> (\<open>draft-send-guards.ts\<close>), \<open>OutboundProvider\<close> (\<open>outbound-provider.ts\<close>,
    \<open>internal-delivery.ts\<close>), \<open>EmailIngest\<close> (\<open>email-ingest.ts\<close>), \<open>WorkerEnv\<close> (the environment).
  \<^item> The mail format: \<open>EmailParser\<close> (the subject rules of \<open>email-parser.ts\<close>), \<open>MimeText\<close> (its
    regular expressions and decoders, one definition per expression), \<open>MimeParser\<close> (its recursion
    over parts, up to \<open>parseRawEmail\<close>), \<open>MimeBuilder\<close> (\<open>mime.ts\<close>) and \<open>MimeProperties\<close> (a mail
    that is built is parsed back).
  \<^item> Payments: \<open>X402\<close> (\<open>payments/x402.ts\<close>: settings, quotes, proofs), \<open>Facilitator\<close>
    (\<open>payments/x402-facilitator.ts\<close>), \<open>PaymentSettlement\<close> (the functions of \<open>routes/api.ts\<close> that
    verify and settle a receipt) and \<open>PaymentProperties\<close>. They rest on \<open>JsonText\<close>
    (\<open>JSON.stringify\<close>, UTF-8), \<open>Base64\<close> (\<open>btoa\<close>, \<open>atob\<close>) and \<open>JsNumber\<close> (numbers as text,
    rounding to doubles, dates).
  \<^item> \<open>src/lib/auth.ts\<close>: \<open>HttpAuth\<close>.
  \<^item> \<open>src/handlers/\<close>: \<open>OutboundQueue\<close> (\<open>queues.ts\<close>), \<open>InboundMail\<close> (\<open>email.ts\<close>), \<open>Maintenance\<close>
    (\<open>scheduled.ts\<close>).
  \<^item> Access and tenants: \<open>Provisioning\<close> (\<open>provisioning/default-access.ts\<close>, \<open>provisioning/welcome.ts\<close>,
    \<open>system-sends.ts\<close>), \<open>Signup\<close> (\<open>provisioning/signup.ts\<close>), \<open>EmailRouting\<close>
    (\<open>cloudflare-email.ts\<close>, \<open>contact-aliases.ts\<close>), \<open>DidBindings\<close> (\<open>did-bindings.ts\<close>, \<open>did-web.ts\<close>).
  \<^item> \<open>src/routes/api.ts\<close>: \<open>SendApi\<close> (\<open>createAndSendDraft\<close> and its checks), \<open>TokenApi\<close> (what a token
    allows, rotation, public reissue), \<open>SendRoutes\<close> (sending a draft, replying, replaying),
    \<open>MailRoutes\<close> (reading mail, drafts, tasks and jobs, the own mailbox, and \<open>getMessageContent\<close>),
    \<open>AgentRoutes\<close> (the control plane of agents), \<open>PaymentRoutes\<close> (top-up, upgrade, confirmation),
    \<open>TenantRoutes\<close> (account, send policy, tokens by an administrator, debugging), \<open>SesWebhook\<close>
    (\<open>ses-events.ts\<close> and the reports of the provider), and the routes of sign-up and DIDs in their
    theories. A route takes the parsed body of its request and answers with a status and a
    document, or with the records that its document is made of. \<open>Dispatch\<close> says how a request
    reaches its route (\<open>router.ts\<close>, \<open>handleApiRequest\<close>, \<open>transport-security.ts\<close>, \<open>index.ts\<close>).

  \<^bold>\<open>How the model reads.\<close> An \<open>async\<close> function \<open>f\<close> of the code is the definition \<open>f\<close> of the model, a
  computation that throws (\<open>Inl\<close>) or returns (\<open>Inr\<close>); \<open>await\<close>, \<open>try_catch\<close> and \<open>catch_undefined\<close>
  are the code's. Every call of a binding is one tick of the world, at which the other Workers may
  have changed the store, and at which the call may be refused or its reply lost. A theorem over
  all worlds thus holds for every interleaving and every pattern of failures; a theorem over a
  \<open>quiet\<close> world says what happens when nothing goes wrong. The loops of the code run over lists, so
  the definitions are total.

  \<^bold>\<open>What the lemmas show.\<close> The rules \<open>keeps_\<close> show of every operation that it keeps \<open>db_ok\<close>, from
  the single statement to the whole queue handler. The locale \<open>table\<close> is the contract of a table
  and \<open>keyed_table\<close> that of a table with a primary key; both are interpreted on the tables of the
  store. The locale \<open>guarded_claim\<close> is interpreted on the claims of jobs, drafts, tasks and
  idempotency keys. The rules \<open>emits_\<close> count verdicts on queue messages and requests to the
  provider. The quiet runs give the functional behaviour of the credit moves and of the settlement.

  \<open>OutboundQueue\<close>, \<open>SendCredits\<close> and \<open>PaymentProperties\<close> bound what a job or a receipt can charge
  or credit under every interleaving. The codec theories end in round trips.

  \<^bold>\<open>Fuel.\<close> One definition recurses on a depth: \<open>collectContent\<close>, over nested parts. The depth
  \<open>stack_depth\<close>, a third of the body, is shown to be enough for every body, since each nested part
  is shorter by its delimiter.

  \<^bold>\<open>Not modelled.\<close> The rendering of pages (\<open>src/routes/site.ts\<close>), the routes whose answer is
  a constant, the rendering of records as JSON documents where a route answers with records, the MCP
  server (\<open>src/routes/mcp.ts\<close>, \<open>src/lib/mcp-transport.ts\<close>), the request signing of the providers,
  the content type and size that R2 keeps next to an object (parameters where a route shows them),
  and tags of provider requests. \<open>JSON.parse\<close>, the HMAC and digests, and \<open>TextDecoder\<close> for other
  character sets than UTF-8 are parameters. The clock is read at a tick, so it stands still between
  two calls, as it does in a Worker. \<open>Promise.all\<close> over independent reads is sequential.
\<close>

section \<open>The whole pipeline\<close>





text \<open>
  Sending a draft keeps the store consistent as well, whether it succeeds, is refused, or fails
  half way and has to be undone by statements that may fail in turn.
\<close>

theorem enqueue_keeps_the_store:
  assumes "shared db_ok w"
  shows "db_ok (store_of (snd (enqueueDraftSend env draftId w)))"
  using keepsD [OF keeps_enqueueDraftSend assms] by (simp add: stored_def)

theorem enqueue_keeps_the_store_witness:
  "db_ok (store_of (snd (enqueueDraftSend demo_env ''drf1''
     (failing_at 9 (quiet_world (demo_store DraftApproved JobSent 5 1))))))"
  by (rule enqueue_keeps_the_store) simp

text \<open>
  C2. Every message of an outbound batch gets exactly one verdict, in the order of the batch: when
  the handler returns, it has acknowledged or retried each job once. When it dies on the way (the
  dead letter of a failed job cannot be queued), the verdicts given so far are those of a prefix of
  the batch, and the platform redelivers the rest.
\<close>

theorem one_verdict_per_message:
  assumes "shared db_ok w" "handleOutboundSend env jobIds w = (r, w')"
  shows "\<exists>vs. seen {Verdict} w' = seen {Verdict} w @ vs \<and> prefix (map concerns vs) jobIds
    \<and> (r = Inr () \<longrightarrow> map concerns vs = jobIds)"
proof -
  let ?P = "\<lambda>r n. case r of Inl _ \<Rightarrow> prefix n jobIds | Inr _ \<Rightarrow> n = jobIds"
  have e: "emits Verdict (handleOutboundSend env jobIds) ?P"
    using each_for_each [where xs = jobIds and g = "\<lambda>i. i", OF once_handle_outbound]
    unfolding handleOutboundSend_def by (simp only: list.map_ident)
  obtain vs where "seen {Verdict} w' = seen {Verdict} w @ vs" "?P r (map concerns vs)"
    by (rule emitsE [of Verdict _ ?P, OF e assms])
  then show ?thesis by (cases r) auto
qed

theorem one_verdict_per_message_witness:
  "\<exists>r w' vs. handleOutboundSend demo_env [''obj1'', ''obj2'']
       (quiet_world (demo_store DraftQueued JobQueued 5 1)) = (r, w')
     \<and> seen {Verdict} w' = vs \<and> prefix (map concerns vs) [''obj1'', ''obj2'']"
proof -
  let ?w = "quiet_world (demo_store DraftQueued JobQueued 5 1)"
  obtain r w' where run: "handleOutboundSend demo_env [''obj1'', ''obj2''] ?w = (r, w')" by force
  from one_verdict_per_message [OF _ run] run show ?thesis by auto
qed

text \<open>
  The agent consumer answers every wake-up exactly once as well, and always by acknowledging
  it: a task is never executed again because of a redelivery, a failed one is put up for review.
\<close>

theorem agent_messages_are_acknowledged:
  assumes "shared db_ok w" "handleAgentExecute jobs w = (r, w')"
  shows "\<exists>vs. seen {Verdict} w' = seen {Verdict} w @ vs
    \<and> prefix (map concerns vs) (map aj_task_id jobs)
    \<and> (r = Inr () \<longrightarrow> map concerns vs = map aj_task_id jobs)"
proof -
  let ?P = "\<lambda>r n. case r of
      Inl _ \<Rightarrow> prefix n (map aj_task_id jobs) | Inr _ \<Rightarrow> n = map aj_task_id jobs"
  have e: "emits Verdict (handleAgentExecute jobs) ?P"
    unfolding handleAgentExecute_def by (rule each_for_each) (rule once_agent_message)
  obtain vs where "seen {Verdict} w' = seen {Verdict} w @ vs" "?P r (map concerns vs)"
    by (rule emitsE [of Verdict _ ?P, OF e assms])
  then show ?thesis by (cases r) auto
qed

theorem agent_messages_are_acknowledged_witness:
  "\<exists>r w' vs. handleAgentExecute
       [\<lparr>aj_task_id = ''tsk1'', aj_agent_id = ''agt1'', aj_agent_version_id = None,
          aj_deployment_id = None\<rparr>]
       (quiet_world (demo_store DraftQueued JobQueued 5 1)) = (r, w')
     \<and> seen {Verdict} w' = vs \<and> prefix (map concerns vs) [''tsk1'']"
proof -
  let ?w = "quiet_world (demo_store DraftQueued JobQueued 5 1)"
  let ?jobs = "[\<lparr>aj_task_id = ''tsk1'', aj_agent_id = ''agt1'', aj_agent_version_id = None,
          aj_deployment_id = None\<rparr>]"
  obtain r w' where run: "handleAgentExecute ?jobs ?w = (r, w')" by force
  from agent_messages_are_acknowledged [OF _ run] run show ?thesis by auto
qed

text \<open>
  C22. One run of the outbound consumer sends at most one request to the mail provider, however many
  recipients the mail has and whatever fails before or after it.
\<close>

theorem at_most_one_request_per_run:
  assumes "shared db_ok w"
  shows "\<exists>es. seen {Call} (snd (handle_outbound_message env jobId w)) = seen {Call} w @ es
    \<and> length es \<le> 1"
proof -
  obtain r w' where run: "handle_outbound_message env jobId w = (r, w')" by force
  from emitsE [OF calls_handle_outbound assms run] run show ?thesis
    by (auto simp: at_most_one_def)
qed

theorem at_most_one_request_per_run_witness:
  "length (seen {Call} (snd (handle_outbound_message demo_env ''obj1''
     (quiet_world (demo_store DraftQueued JobQueued 5 1))))) \<le> 1"
  using at_most_one_request_per_run [of "quiet_world (demo_store DraftQueued JobQueued 5 1)"]
  by fastforce

text \<open>
  C4. No request without a claim: while a job is not queued and does not wait for a retry (it is
  being sent, sent, or failed), and no other Worker makes it so, a delivery of its queue message
  never reaches the provider. A redelivered message of a mail that has gone out does not send it
  again.
\<close>

theorem no_request_without_claim:
  assumes "shared db_ok w" "shared (\<lambda>s. \<not> job_free jobId s) w"
  shows "seen {Call} (snd (handle_outbound_message env jobId w)) = seen {Call} w"
proof -
  have "nobody_frees (seen {Call} w) jobId w"
    using assms by (simp add: nobody_frees_def stored_def)
  with no_call_unclaimed show ?thesis by (fastforce simp: leads_def stored_def)
qed

lemma demo_job_taken:
  "js \<in> {JobSending, JobSent, JobFailed} \<Longrightarrow> \<not> job_free ''obj1'' (demo_store ds js x y)"
  by (auto simp: job_free_def demo_store_def demo_job_def)

theorem no_request_without_claim_witness:
  "seen {Call} (snd (handle_outbound_message demo_env ''obj1''
     (failing_at 4 (quiet_world (demo_store DraftQueued JobSending 5 1))))) = []"
  using no_request_without_claim
    [of "failing_at 4 (quiet_world (demo_store DraftQueued JobSending 5 1))" "''obj1''" demo_env]
  by (simp add: demo_job_taken)




end
